(* ===== verification/Prelude.thy ===== *)
theory Prelude
  imports Main
begin

text \<open>
  Shared vocabulary of the development.

  \<^item> \<open>act\<close>: an asynchronous service method as an explicit state-and-exception function.  A method
    takes the state and returns its result (\<open>Inl\<close> an exception, \<open>Inr\<close> the value) together with
    the state it leaves behind; the state is kept when the method throws, because the services run
    their database statements one by one and not inside a transaction.
  \<^item> \<open>relates R m\<close>: every run of \<open>m\<close> relates its start to its end state by \<open>R\<close>.  The locale
    \<open>guarantee\<close> derives the composition rules once for any reflexive and transitive \<open>R\<close>; it is
    interpreted for invariants (\<open>preserves\<close>) and for frame conditions (\<open>keeps\<close>).
  \<^item> list lemmas on the first match, on updates by key, on maxima and on pages.
\<close>

named_theorems act_simps \<open>evaluation of the combinators at a state\<close>
named_theorems act_intros \<open>composition rules for the guarantees of a method\<close>

section \<open>Methods with state and exceptions\<close>

type_synonym ('s, 'e, 'a) act = "'s \<Rightarrow> ('e + 'a) \<times> 's"

definition ret :: "'a \<Rightarrow> ('s, 'e, 'a) act" where
  "ret x = (\<lambda>s. (Inr x, s))"

definition throw :: "'e \<Rightarrow> ('s, 'e, 'a) act" where
  "throw e = (\<lambda>s. (Inl e, s))"

definition bindE :: "('s, 'e, 'a) act \<Rightarrow> ('a \<Rightarrow> ('s, 'e, 'b) act) \<Rightarrow> ('s, 'e, 'b) act" where
  "bindE m f = (\<lambda>s. case m s of (r, s') \<Rightarrow> (case r of Inl e \<Rightarrow> (Inl e, s') | Inr x \<Rightarrow> f x s'))"

definition seqE :: "('s, 'e, 'a) act \<Rightarrow> ('s, 'e, 'b) act \<Rightarrow> ('s, 'e, 'b) act" where
  "seqE m n = bindE m (\<lambda>_. n)"

text \<open>\<open>if (b) throw e;\<close> as a statement.\<close>

definition throwIf :: "bool \<Rightarrow> 'e \<Rightarrow> ('s, 'e, unit) act" where
  "throwIf b e = (if b then throw e else ret ())"

text \<open>The value behind a nullable lookup, or the exception thrown for a missing one.\<close>

definition orThrow :: "'a option \<Rightarrow> 'e \<Rightarrow> ('s, 'e, 'a) act" where
  "orThrow x e = (case x of None \<Rightarrow> throw e | Some v \<Rightarrow> ret v)"

definition fromSum :: "'e + 'a \<Rightarrow> ('s, 'e, 'a) act" where
  "fromSum r = (\<lambda>s. (r, s))"

definition getsE :: "('s \<Rightarrow> 'a) \<Rightarrow> ('s, 'e, 'a) act" where
  "getsE f = (\<lambda>s. (Inr (f s), s))"

definition modifyE :: "('s \<Rightarrow> 's) \<Rightarrow> ('s, 'e, unit) act" where
  "modifyE f = (\<lambda>s. (Inr (), f s))"

definition whenE :: "bool \<Rightarrow> ('s, 'e, unit) act \<Rightarrow> ('s, 'e, unit) act" where
  "whenE b m = (if b then m else ret ())"

text \<open>\<open>try { m } catch (e) { h e }\<close>: the effects of \<open>m\<close> up to the exception stay.\<close>

definition catchE :: "('s, 'e, 'a) act \<Rightarrow> ('e \<Rightarrow> ('s, 'e, 'a) act) \<Rightarrow> ('s, 'e, 'a) act" where
  "catchE m h = (\<lambda>s. case m s of (r, s') \<Rightarrow> (case r of Inl e \<Rightarrow> h e s' | Inr x \<Rightarrow> (Inr x, s')))"

text \<open>\<open>for (const x of xs) await f(x);\<close>\<close>

fun forE :: "'a list \<Rightarrow> ('a \<Rightarrow> ('s, 'e, unit) act) \<Rightarrow> ('s, 'e, unit) act" where
  "forE [] f = ret ()"
| "forE (x # xs) f = seqE (f x) (forE xs f)"

text \<open>Sums of results, for pure code that may throw.\<close>

fun bindS :: "'e + 'a \<Rightarrow> ('a \<Rightarrow> 'e + 'b) \<Rightarrow> 'e + 'b" where
  "bindS (Inl e) f = Inl e"
| "bindS (Inr x) f = f x"

text \<open>\<open>Promise.all([m, n])\<close>: both run to their end, the first exception wins.\<close>

definition bothE :: "('s, 'e, 'a) act \<Rightarrow> ('s, 'e, 'b) act \<Rightarrow> ('s, 'e, 'a \<times> 'b) act" where
  "bothE m n = (\<lambda>s. case m s of (r1, s1) \<Rightarrow> (case n s1 of (r2, s2) \<Rightarrow>
     (bindS r1 (\<lambda>a. bindS r2 (\<lambda>b. Inr (a, b))), s2)))"

fun mapE :: "('a \<Rightarrow> ('s, 'e, 'b) act) \<Rightarrow> 'a list \<Rightarrow> ('s, 'e, 'b list) act" where
  "mapE f [] = ret []"
| "mapE f (x # xs) = bindE (f x) (\<lambda>y. bindE (mapE f xs) (\<lambda>ys. ret (y # ys)))"

fun mapS :: "('a \<Rightarrow> 'e + 'b) \<Rightarrow> 'a list \<Rightarrow> 'e + 'b list" where
  "mapS f [] = Inr []"
| "mapS f (x # xs) = bindS (f x) (\<lambda>y. bindS (mapS f xs) (\<lambda>ys. Inr (y # ys)))"

definition throwIfS :: "bool \<Rightarrow> 'e \<Rightarrow> 'e + unit" where
  "throwIfS b e = (if b then Inl e else Inr ())"

lemma ret_apply [simp, act_simps]: "ret x s = (Inr x, s)"
  by (simp add: ret_def)

lemma throw_apply [simp, act_simps]: "throw e s = (Inl e, s)"
  by (simp add: throw_def)

lemma fromSum_apply [simp, act_simps]: "fromSum r s = (r, s)"
  by (simp add: fromSum_def)

lemma getsE_apply [simp, act_simps]: "getsE f s = (Inr (f s), s)"
  by (simp add: getsE_def)

lemma modifyE_apply [simp, act_simps]: "modifyE f s = (Inr (), f s)"
  by (simp add: modifyE_def)

lemma throwIf_apply [act_simps]: "throwIf b e s = (if b then Inl e else Inr (), s)"
  by (simp add: throwIf_def)

lemma orThrow_apply [act_simps]:
  "orThrow x e s = (case x of None \<Rightarrow> Inl e | Some v \<Rightarrow> Inr v, s)"
  by (simp add: orThrow_def split: option.splits)

lemma whenE_apply [act_simps]: "whenE b m s = (if b then m s else (Inr (), s))"
  by (simp add: whenE_def)

lemma bindE_apply [act_simps]:
  "bindE m f s = (case m s of (r, s') \<Rightarrow> (case r of Inl e \<Rightarrow> (Inl e, s') | Inr x \<Rightarrow> f x s'))"
  by (simp add: bindE_def)

lemma seqE_apply [act_simps]:
  "seqE m n s = (case m s of (r, s') \<Rightarrow> (case r of Inl e \<Rightarrow> (Inl e, s') | Inr _ \<Rightarrow> n s'))"
  by (simp add: seqE_def bindE_def)

lemma catchE_apply [act_simps]:
  "catchE m h s = (case m s of (r, s') \<Rightarrow> (case r of Inl e \<Rightarrow> h e s' | Inr x \<Rightarrow> (Inr x, s')))"
  by (simp add: catchE_def)

lemma bothE_apply [act_simps]:
  "bothE m n s = (case m s of (r1, s1) \<Rightarrow> (case n s1 of (r2, s2) \<Rightarrow>
     (bindS r1 (\<lambda>a. bindS r2 (\<lambda>b. Inr (a, b))), s2)))"
  by (simp add: bothE_def)

lemma bindE_Inr: "m s = (Inr x, s') \<Longrightarrow> bindE m f s = f x s'"
  by (simp add: bindE_def)

lemma seqE_Inr: "m s = (Inr x, s') \<Longrightarrow> seqE m n s = n s'"
  by (simp add: seqE_def bindE_def)

lemma bindE_Inl: "m s = (Inl e, s') \<Longrightarrow> bindE m f s = (Inl e, s')"
  by (simp add: bindE_def)

lemma bindE_InrD:
  "bindE m f s = (Inr y, t) \<Longrightarrow> \<exists>x s'. m s = (Inr x, s') \<and> f x s' = (Inr y, t)"
  by (auto simp: bindE_def split: prod.splits sum.splits)

lemma seqE_InrD:
  "seqE m n s = (Inr y, t) \<Longrightarrow> \<exists>x s'. m s = (Inr x, s') \<and> n s' = (Inr y, t)"
  unfolding seqE_def by (drule bindE_InrD)

lemma bindE_InlD:
  "bindE m f s = (Inl e, t) \<Longrightarrow>
   m s = (Inl e, t) \<or> (\<exists>x s'. m s = (Inr x, s') \<and> f x s' = (Inl e, t))"
  by (auto simp: bindE_def split: prod.splits sum.splits)

lemma seqE_InlD:
  "seqE m n s = (Inl e, t) \<Longrightarrow>
   m s = (Inl e, t) \<or> (\<exists>x s'. m s = (Inr x, s') \<and> n s' = (Inl e, t))"
  unfolding seqE_def by (drule bindE_InlD)

lemma bindS_Inr_iff: "bindS r f = Inr y \<longleftrightarrow> (\<exists>x. r = Inr x \<and> f x = Inr y)"
  by (cases r) auto

lemma bothE_InrD:
  "bothE m n s = (Inr (a, b), t) \<Longrightarrow> \<exists>s'. m s = (Inr a, s') \<and> n s' = (Inr b, t)"
  by (auto simp: bothE_def bindS_Inr_iff split: prod.splits)

lemma throwIf_InrD: "throwIf b e s = (Inr u, t) \<Longrightarrow> \<not> b \<and> t = s"
  by (auto simp: throwIf_def split: if_splits)

lemma orThrow_InrD: "orThrow x e s = (Inr v, t) \<Longrightarrow> x = Some v \<and> t = s"
  by (auto simp: orThrow_def split: option.splits)

lemma fromSum_InrD: "fromSum r s = (Inr v, t) \<Longrightarrow> r = Inr v \<and> t = s"
  by simp

text \<open>Taking a successful run apart.\<close>

lemmas run_InrD = bindE_InrD seqE_InrD throwIf_InrD orThrow_InrD fromSum_InrD

lemma bindS_Inl_iff: "bindS r f = Inl e \<longleftrightarrow> r = Inl e \<or> (\<exists>x. r = Inr x \<and> f x = Inl e)"
  by (cases r) auto

lemma mapS_Inr_length: "mapS f xs = Inr ys \<Longrightarrow> length ys = length xs"
  by (induction xs arbitrary: ys) (auto simp: bindS_Inr_iff)

lemma mapS_Inr_nth: "mapS f xs = Inr ys \<Longrightarrow> i < length xs \<Longrightarrow> f (xs ! i) = Inr (ys ! i)"
  by (induction xs arbitrary: ys i) (auto simp: bindS_Inr_iff nth_Cons split: nat.splits)

lemma mapS_all_Inr: "(\<And>x. x \<in> set xs \<Longrightarrow> f x = Inr (g x)) \<Longrightarrow> mapS f xs = Inr (map g xs)"
  by (induction xs) auto

lemma mapS_map: "mapS f (map g xs) = mapS (\<lambda>x. f (g x)) xs"
  by (induction xs) simp_all

lemma mapS_Inl_ex: "x \<in> set xs \<Longrightarrow> f x = Inl e \<Longrightarrow> \<exists>e'. mapS f xs = Inl e'"
proof (induction xs)
  case Nil
  then show ?case by simp
next
  case (Cons a xs)
  show ?case
  proof (cases "f a")
    case (Inl b)
    then show ?thesis by simp
  next
    case (Inr b)
    with Cons.prems have "x \<in> set xs" by auto
    with Cons Inr show ?thesis by auto
  qed
qed

section \<open>Running a method at a state\<close>

fun ranOk :: "('e + 'a) \<times> 's \<Rightarrow> bool" where
  "ranOk (Inr v, s) = True"
| "ranOk (Inl e, s) = False"

lemma ranOk_D: "ranOk p \<Longrightarrow> \<exists>v s. p = (Inr v, s)"
  by (cases p rule: ranOk.cases) auto

lemma not_ranOk_D: "\<not> ranOk p \<Longrightarrow> \<exists>e s. p = (Inl e, s)"
  by (cases p rule: ranOk.cases) auto

section \<open>Guarantees\<close>

definition relates :: "('s \<Rightarrow> 's \<Rightarrow> bool) \<Rightarrow> ('s, 'e, 'a) act \<Rightarrow> bool" where
  "relates R m \<longleftrightarrow> (\<forall>s. R s (snd (m s)))"

definition preserves :: "('s \<Rightarrow> bool) \<Rightarrow> ('s, 'e, 'a) act \<Rightarrow> bool" where
  "preserves I m \<longleftrightarrow> relates (\<lambda>s t. I s \<longrightarrow> I t) m"

definition keeps :: "('s \<Rightarrow> 'f) \<Rightarrow> ('s, 'e, 'a) act \<Rightarrow> bool" where
  "keeps p m \<longleftrightarrow> relates (\<lambda>s t. p t = p s) m"

lemma relatesI: "(\<And>s. R s (snd (m s))) \<Longrightarrow> relates R m"
  by (simp add: relates_def)

lemma relatesD: "relates R m \<Longrightarrow> m s = (r, t) \<Longrightarrow> R s t"
  by (metis relates_def snd_conv)

lemma relates_mono: "relates R m \<Longrightarrow> (\<And>s t. R s t \<Longrightarrow> Q s t) \<Longrightarrow> relates Q m"
  by (simp add: relates_def)

locale guarantee =
  fixes R :: "'s \<Rightarrow> 's \<Rightarrow> bool"
  assumes R_refl: "R s s"
    and R_trans: "R s t \<Longrightarrow> R t u \<Longrightarrow> R s u"
begin

lemma ret: "relates R (ret x)"
  by (simp add: relates_def R_refl)

lemma throw: "relates R (throw e)"
  by (simp add: relates_def R_refl)

lemma throwIf: "relates R (throwIf b e)"
  by (simp add: relates_def R_refl throwIf_apply)

lemma orThrow: "relates R (orThrow x e)"
  by (simp add: relates_def R_refl orThrow_apply)

lemma fromSum: "relates R (fromSum r)"
  by (simp add: relates_def R_refl)

lemma getsE: "relates R (getsE f)"
  by (simp add: relates_def R_refl)

lemma bindE_dep:
  assumes "relates R m"
    and "\<And>s x s'. m s = (Inr x, s') \<Longrightarrow> R s s' \<Longrightarrow> R s' (snd (f x s'))"
  shows "relates R (bindE m f)"
proof (rule relatesI)
  fix s
  obtain r s' where m: "m s = (r, s')" by (cases "m s")
  with assms(1) have R1: "R s s'" by (rule relatesD)
  show "R s (snd (bindE m f s))"
  proof (cases r)
    case (Inl e)
    with m R1 show ?thesis by (simp add: bindE_apply)
  next
    case (Inr x)
    with m assms(2)[of s x s'] R1 have "R s' (snd (f x s'))" by simp
    with m R1 Inr show ?thesis by (auto simp: bindE_apply intro: R_trans)
  qed
qed

lemma bindE: "relates R m \<Longrightarrow> (\<And>x. relates R (f x)) \<Longrightarrow> relates R (bindE m f)"
  by (rule bindE_dep) (auto simp: relates_def)

lemma seqE: "relates R m \<Longrightarrow> relates R n \<Longrightarrow> relates R (seqE m n)"
  by (simp add: seqE_def bindE)

lemma whenE: "(b \<Longrightarrow> relates R m) \<Longrightarrow> relates R (whenE b m)"
  by (simp add: whenE_def ret)

lemma catchE:
  assumes "relates R m" and "\<And>e. relates R (h e)"
  shows "relates R (catchE m h)"
proof (rule relatesI)
  fix s
  obtain r s' where m: "m s = (r, s')" by (cases "m s")
  with assms(1) have R1: "R s s'" by (rule relatesD)
  with m assms(2) show "R s (snd (catchE m h s))"
    by (cases r) (auto simp: catchE_apply relates_def intro: R_trans)
qed

lemma forE: "(\<And>x. x \<in> set xs \<Longrightarrow> relates R (f x)) \<Longrightarrow> relates R (forE xs f)"
  by (induction xs) (auto intro: ret seqE)

lemma mapE: "(\<And>x. x \<in> set xs \<Longrightarrow> relates R (f x)) \<Longrightarrow> relates R (mapE f xs)"
  by (induction xs) (auto intro!: ret bindE)

lemma bothE: "relates R m \<Longrightarrow> relates R n \<Longrightarrow> relates R (bothE m n)"
  by (auto simp: relates_def bothE_apply split: prod.split intro: R_trans) (metis R_trans snd_conv)

lemma modifyE: "(\<And>s. R s (f s)) \<Longrightarrow> relates R (modifyE f)"
  by (simp add: relates_def)

lemma option_case:
  "(x = None \<Longrightarrow> relates R m) \<Longrightarrow> (\<And>v. x = Some v \<Longrightarrow> relates R (f v)) \<Longrightarrow>
   relates R (case x of None \<Rightarrow> m | Some v \<Rightarrow> f v)"
  by (cases x) auto

lemmas rules = ret throw throwIf orThrow fromSum getsE bindE seqE whenE catchE forE mapE bothE

end

text \<open>Invariants and frame conditions are guarantees, so both inherit the rules.\<close>

interpretation inv_rel: guarantee "\<lambda>s t. I s \<longrightarrow> I t" for I :: "'s \<Rightarrow> bool"
  by (rule guarantee.intro) auto

interpretation frame_rel: guarantee "\<lambda>s t. p t = p s" for p :: "'s \<Rightarrow> 'f"
  by (rule guarantee.intro) simp_all

lemmas preserves_rules [act_intros] = inv_rel.rules [folded preserves_def]

lemmas keeps_rules [act_intros] = frame_rel.rules [folded keeps_def]

lemma preserves_runI:
  assumes "\<And>s v t. m s = (Inr v, t) \<Longrightarrow> I s \<Longrightarrow> I t" and "\<And>s e t. m s = (Inl e, t) \<Longrightarrow> I s \<Longrightarrow> I t"
  shows "preserves I m"
  unfolding preserves_def
proof (rule relatesI, rule impI)
  fix s assume I: "I s"
  obtain r t where m: "m s = (r, t)" by fastforce
  with I assms show "I (snd (m s))" by (cases r) auto
qed

lemma preserves_modifyE: "(\<And>s. I s \<Longrightarrow> I (f s)) \<Longrightarrow> preserves I (modifyE f)"
  by (simp add: preserves_def relates_def)

lemma keeps_modifyE [act_intros]: "(\<And>s. p (f s) = p s) \<Longrightarrow> keeps p (modifyE f)"
  by (simp add: keeps_def relates_def)

lemma preservesD: "preserves I m \<Longrightarrow> I s \<Longrightarrow> m s = (r, t) \<Longrightarrow> I t"
  unfolding preserves_def by (drule relatesD) auto

lemma keepsD: "keeps p m \<Longrightarrow> m s = (r, t) \<Longrightarrow> p t = p s"
  unfolding keeps_def by (drule relatesD)

lemma keeps_snd: "keeps p m \<Longrightarrow> p (snd (m s)) = p s"
  by (simp add: keeps_def relates_def)

section \<open>Lists\<close>

text \<open>\<open>Array.prototype.find\<close>, and the update of the rows that satisfy a condition.\<close>

definition updWhere :: "('a \<Rightarrow> bool) \<Rightarrow> ('a \<Rightarrow> 'a) \<Rightarrow> 'a list \<Rightarrow> 'a list" where
  "updWhere P f xs = map (\<lambda>x. if P x then f x else x) xs"

lemma length_updWhere [simp]: "length (updWhere P f xs) = length xs"
  by (simp add: updWhere_def)

lemma updWhere_Nil [simp]: "updWhere P f [] = []"
  by (simp add: updWhere_def)

lemma updWhere_Cons [simp]:
  "updWhere P f (x # xs) = (if P x then f x else x) # updWhere P f xs"
  by (simp add: updWhere_def)

lemma updWhere_append [simp]: "updWhere P f (xs @ ys) = updWhere P f xs @ updWhere P f ys"
  by (simp add: updWhere_def)

lemma set_updWhere: "x \<in> set (updWhere P f xs) \<longleftrightarrow> (\<exists>y \<in> set xs. x = (if P y then f y else y))"
  by (auto simp: updWhere_def)

lemma map_updWhere_same: "(\<And>x. P x \<Longrightarrow> k (f x) = k x) \<Longrightarrow> map k (updWhere P f xs) = map k xs"
  by (simp add: updWhere_def)

lemma updWhere_id: "(\<And>x. x \<in> set xs \<Longrightarrow> \<not> P x) \<Longrightarrow> updWhere P f xs = xs"
  by (induction xs) auto

lemma filter_updWhere_same:
  "(\<And>x. P x \<Longrightarrow> Q (f x) = Q x) \<Longrightarrow> length (filter Q (updWhere P f xs)) = length (filter Q xs)"
  by (induction xs) auto

lemma find_SomeD: "List.find P xs = Some x \<Longrightarrow> x \<in> set xs \<and> P x"
  by (induction xs) (auto split: if_splits)

lemma find_NoneD: "List.find P xs = None \<Longrightarrow> x \<in> set xs \<Longrightarrow> \<not> P x"
  by (metis find_None_iff)

lemma find_None_all: "List.find P xs = None \<Longrightarrow> \<forall>x \<in> set xs. \<not> P x"
  by (simp add: find_None_iff)

lemma find_append:
  "List.find P (xs @ ys) = (case List.find P xs of None \<Rightarrow> List.find P ys | Some x \<Rightarrow> Some x)"
  by (induction xs) auto

lemma find_unique:
  "distinct (map k xs) \<Longrightarrow> x \<in> set xs \<Longrightarrow> List.find (\<lambda>y. k y = k x) xs = Some x"
  by (induction xs) (auto simp: rev_image_eqI)

lemma find_updWhere_same:
  "(\<And>x. P x \<Longrightarrow> k (f x) = k x) \<Longrightarrow>
   List.find (\<lambda>y. k y = c) (updWhere P f xs) =
     map_option (\<lambda>x. if P x then f x else x) (List.find (\<lambda>y. k y = c) xs)"
  by (induction xs) auto

lemma distinct_map_unique:
  "distinct (map k xs) \<Longrightarrow> x \<in> set xs \<Longrightarrow> y \<in> set xs \<Longrightarrow> k x = k y \<Longrightarrow> x = y"
  by (auto simp: distinct_map inj_on_def)

subsection \<open>Fresh numbers: one more than the largest\<close>

definition maxOr0 :: "int list \<Rightarrow> int" where
  "maxOr0 xs = fold max xs 0"

lemma fold_max_ge: "a \<le> fold max xs (a :: int)"
proof (induction xs arbitrary: a)
  case Nil
  then show ?case by simp
next
  case (Cons y ys)
  have "max y a \<le> fold max ys (max y a)" by (rule Cons)
  then show ?case by simp
qed

lemma fold_max_upper: "x \<in> set xs \<Longrightarrow> x \<le> fold max xs (a :: int)"
proof (induction xs arbitrary: a)
  case Nil
  then show ?case by simp
next
  case (Cons y ys)
  show ?case
  proof (cases "x = y")
    case True
    then show ?thesis using fold_max_ge [of "max y a" ys] by simp
  next
    case False
    with Cons show ?thesis by simp
  qed
qed

lemma maxOr0_upper: "x \<in> set xs \<Longrightarrow> x \<le> maxOr0 xs"
  by (simp add: maxOr0_def fold_max_upper)

lemma maxOr0_nonneg: "0 \<le> maxOr0 xs"
  by (simp add: maxOr0_def fold_max_ge)

lemma maxOr0_fresh: "maxOr0 xs + 1 \<notin> set xs"
  using maxOr0_upper by fastforce

lemma fold_max_in: "fold max xs (a :: int) \<in> insert a (set xs)"
proof (induction xs arbitrary: a)
  case Nil
  then show ?case by simp
next
  case (Cons y ys)
  have "fold max ys (max y a) \<in> insert (max y a) (set ys)" by (rule Cons.IH)
  moreover have "max y a = y \<or> max y a = a" by (auto simp: max_def)
  ultimately show ?case by auto
qed

subsection \<open>Pages\<close>

text \<open>\<open>skip\<close> and \<open>take\<close> of a query, and \<open>Math.ceil(total / limit)\<close>.\<close>

definition pageOf :: "int \<Rightarrow> int \<Rightarrow> 'a list \<Rightarrow> 'a list" where
  "pageOf page limit xs = take (nat limit) (drop (nat ((page - 1) * limit)) xs)"

definition ceilDiv :: "int \<Rightarrow> int \<Rightarrow> int" where
  "ceilDiv n limit = (n + limit - 1) div limit"

lemma ceilDiv_bounds:
  assumes "0 < limit"
  shows "n \<le> ceilDiv n limit * limit" and "(ceilDiv n limit - 1) * limit < n"
proof -
  let ?q = "ceilDiv n limit"
  have e: "n + limit - 1 = ?q * limit + (n + limit - 1) mod limit"
    by (simp add: ceilDiv_def)
  have m: "0 \<le> (n + limit - 1) mod limit" "(n + limit - 1) mod limit < limit"
    using assms by simp_all
  from e m show "n \<le> ?q * limit" by linarith
  from e m show "(?q - 1) * limit < n" by (simp add: left_diff_distrib)
qed

lemma length_pageOf_le: "0 \<le> limit \<Longrightarrow> int (length (pageOf page limit xs)) \<le> limit"
  by (simp add: pageOf_def)

lemma take_add_page: "take (a + b) xs = take a xs @ take b (drop a xs)"
  by (rule take_add)

text \<open>The first \<open>n\<close> pages together are the first \<open>n * limit\<close> rows, each exactly once.\<close>

lemma concat_pages:
  assumes "0 < limit"
  shows "concat (map (\<lambda>p. pageOf (int p) limit xs) [1..<Suc n]) = take (n * nat limit) xs"
proof (induction n)
  case 0
  then show ?case by simp
next
  case (Suc n)
  have "nat ((int (Suc n) - 1) * limit) = n * nat limit"
    using assms by (simp add: nat_mult_distrib)
  then have "pageOf (int (Suc n)) limit xs = take (nat limit) (drop (n * nat limit) xs)"
    by (simp add: pageOf_def)
  moreover have "take (Suc n * nat limit) xs
      = take (n * nat limit) xs @ take (nat limit) (drop (n * nat limit) xs)"
    by (metis add.commute mult_Suc take_add)
  ultimately show ?case using Suc by (simp del: mult_Suc)
qed

lemma concat_all_pages:
  assumes "0 < limit"
  shows "concat (map (\<lambda>p. pageOf (int p) limit xs)
           [1..<Suc (nat (ceilDiv (int (length xs)) limit))]) = xs"
proof -
  let ?q = "ceilDiv (int (length xs)) limit"
  have "0 \<le> ?q" using assms by (simp add: ceilDiv_def pos_imp_zdiv_nonneg_iff)
  moreover have "int (length xs) \<le> ?q * limit" by (rule ceilDiv_bounds(1) [OF assms])
  ultimately have "int (length xs) \<le> int (nat ?q * nat limit)" using assms by simp
  then have "length xs \<le> nat ?q * nat limit" by linarith
  then show ?thesis using concat_pages [OF assms, of xs "nat ?q"] by simp
qed

end
