(* ===== verification/JsNumber.thy ===== *)
theory JsNumber
  imports Complex_Main Prelude
begin

text \<open>
  JavaScript numbers.  A number is an IEEE double: a finite value is an exact rational here, and
  every arithmetic result is rounded to the nearest double, ties to even (\<open>fl\<close>), with overflow to
  the infinities and with \<open>NaN\<close>.  The two zeros are one value: no code of the repository tells them
  apart.  The main facts say when rounding does nothing: on integers below \<open>2 ^ 53\<close>.
\<close>

datatype jsnum = Fin rat | PInf | NInf | NaN

section \<open>Rounding to a double\<close>

definition pow2 :: "int \<Rightarrow> rat" where
  "pow2 k = (if 0 \<le> k then 2 ^ nat k else 1 / 2 ^ nat (- k))"

text \<open>The number of binary digits.\<close>

function bitLen :: "int \<Rightarrow> int" where
  "bitLen n = (if n \<le> 0 then 0 else 1 + bitLen (n div 2))"
  by pat_completeness auto

termination
  by (relation "measure nat") auto

declare bitLen.simps [simp del]

text \<open>The exponent of a positive rational: \<open>pow2 (ilog2 x) \<le> x < pow2 (ilog2 x + 1)\<close>.\<close>

definition ilog2 :: "rat \<Rightarrow> int" where
  "ilog2 x = (case quotient_of x of (p, q) \<Rightarrow>
     (let k = bitLen p - bitLen q in if pow2 k \<le> x then k else k - 1))"

definition roundEven :: "rat \<Rightarrow> int" where
  "roundEven x = (let f = \<lfloor>x\<rfloor>; d = x - of_int f in
     if d < 1 / 2 then f else if 1 / 2 < d then f + 1 else if even f then f else f + 1)"

definition ulpExp :: "rat \<Rightarrow> int" where
  "ulpExp x = max (- 1074) (ilog2 \<bar>x\<bar> - 52)"

definition fl :: "rat \<Rightarrow> jsnum" where
  "fl x = (if x = 0 then Fin 0 else
     (let e = ulpExp x; m = roundEven (\<bar>x\<bar> / pow2 e) in
      if 971 < e \<or> (e = 971 \<and> m = 2 ^ 53) then (if x < 0 then NInf else PInf)
      else Fin (if x < 0 then - (of_int m * pow2 e) else of_int m * pow2 e)))"

lemma pow2_pos: "0 < pow2 k"
  by (simp add: pow2_def)

lemma roundEven_of_int [simp]: "roundEven (of_int n) = n"
  by (simp add: roundEven_def)

lemma bitLen_le_if_less: "n < 2 ^ k \<Longrightarrow> bitLen n \<le> int k"
proof (induction k arbitrary: n)
  case 0
  then show ?case by (simp add: bitLen.simps)
next
  case (Suc k)
  then have "bitLen (n div 2) \<le> int k" by (intro Suc.IH) auto
  then show ?case by (subst bitLen.simps) auto
qed

lemma bitLen_1 [simp]: "bitLen 1 = 1"
  by (simp add: bitLen.simps)

lemma ilog2_of_int_le:
  assumes "0 < n" and "n < 2 ^ k" and "0 < k"
  shows "ilog2 (of_int n) \<le> int k - 1"
proof -
  have "bitLen n \<le> int k" by (rule bitLen_le_if_less [OF assms(2)])
  then show ?thesis by (simp add: ilog2_def Let_def quotient_of_int)
qed

lemma int_div_pow2_nonpos:
  assumes "e \<le> 0"
  shows "of_int n / pow2 e = of_int (n * 2 ^ nat (- e))"
  using assms by (auto simp: pow2_def)

text \<open>Rounding is the identity on the integers below \<open>2 ^ 53\<close>.\<close>

theorem fl_of_int:
  assumes "\<bar>n\<bar> < 2 ^ 53"
  shows "fl (of_int n) = Fin (of_int n)"
proof (cases "n = 0")
  case True
  then show ?thesis by (simp add: fl_def)
next
  case False
  let ?m = "\<bar>n\<bar>"
  let ?e = "ulpExp (of_int n)"
  have pos: "0 < ?m" using False by simp
  have "ilog2 (of_int ?m) \<le> int 53 - 1"
    by (rule ilog2_of_int_le [OF pos assms]) simp
  then have e: "?e \<le> 0" by (simp add: ulpExp_def)
  have "\<bar>of_int n :: rat\<bar> / pow2 ?e = of_int (?m * 2 ^ nat (- ?e))"
    using int_div_pow2_nonpos [OF e, of ?m] by simp
  then have "roundEven (\<bar>of_int n\<bar> / pow2 ?e) = ?m * 2 ^ nat (- ?e)"
    by (simp only: roundEven_of_int)
  moreover have "of_int (?m * 2 ^ nat (- ?e)) * pow2 ?e = (of_int ?m :: rat)"
    using e by (auto simp: pow2_def)
  ultimately have v: "of_int (roundEven (\<bar>of_int n\<bar> / pow2 ?e)) * pow2 ?e = (of_int ?m :: rat)"
    by simp
  with False v have "fl (of_int n) = Fin (if n < 0 then - of_int ?m else of_int ?m)"
    using e unfolding fl_def Let_def by (simp only: v) simp
  then show ?thesis by simp
qed

section \<open>Arithmetic\<close>

fun num_neg :: "jsnum \<Rightarrow> jsnum" where
  "num_neg (Fin a) = Fin (- a)"
| "num_neg PInf = NInf"
| "num_neg NInf = PInf"
| "num_neg NaN = NaN"

fun num_add :: "jsnum \<Rightarrow> jsnum \<Rightarrow> jsnum" where
  "num_add (Fin a) (Fin b) = fl (a + b)"
| "num_add NaN y = NaN"
| "num_add x NaN = NaN"
| "num_add PInf NInf = NaN"
| "num_add NInf PInf = NaN"
| "num_add PInf y = PInf"
| "num_add NInf y = NInf"
| "num_add x y = y"

definition num_sub :: "jsnum \<Rightarrow> jsnum \<Rightarrow> jsnum" where
  "num_sub x y = num_add x (num_neg y)"

definition infOfSign :: "bool \<Rightarrow> jsnum" where
  "infOfSign pos = (if pos then PInf else NInf)"

fun num_mul :: "jsnum \<Rightarrow> jsnum \<Rightarrow> jsnum" where
  "num_mul (Fin a) (Fin b) = fl (a * b)"
| "num_mul NaN y = NaN"
| "num_mul x NaN = NaN"
| "num_mul (Fin a) y = (if a = 0 then NaN else infOfSign ((0 < a) = (y = PInf)))"
| "num_mul x (Fin b) = (if b = 0 then NaN else infOfSign ((0 < b) = (x = PInf)))"
| "num_mul x y = infOfSign (x = y)"

fun num_div :: "jsnum \<Rightarrow> jsnum \<Rightarrow> jsnum" where
  "num_div (Fin a) (Fin b) =
     (if b = 0 then (if a = 0 then NaN else infOfSign (0 < a)) else fl (a / b))"
| "num_div NaN y = NaN"
| "num_div x NaN = NaN"
| "num_div (Fin a) y = Fin 0"
| "num_div x (Fin b) = infOfSign ((0 \<le> b) = (x = PInf))"
| "num_div x y = NaN"

fun num_lt :: "jsnum \<Rightarrow> jsnum \<Rightarrow> bool" where
  "num_lt (Fin a) (Fin b) = (a < b)"
| "num_lt NaN y = False"
| "num_lt x NaN = False"
| "num_lt (Fin a) y = (y = PInf)"
| "num_lt x (Fin b) = (x = NInf)"
| "num_lt x y = (x = NInf \<and> y = PInf)"

text \<open>\<open><=\<close> is false as soon as one side is \<open>NaN\<close>, and so are \<open>===\<close> and \<open>>=\<close>.\<close>

fun num_eq :: "jsnum \<Rightarrow> jsnum \<Rightarrow> bool" where
  "num_eq NaN y = False"
| "num_eq x NaN = False"
| "num_eq x y = (x = y)"

definition num_le :: "jsnum \<Rightarrow> jsnum \<Rightarrow> bool" where
  "num_le x y \<longleftrightarrow> num_lt x y \<or> num_eq x y"

fun isFinite :: "jsnum \<Rightarrow> bool" where
  "isFinite (Fin a) = True"
| "isFinite x = False"

fun isInteger :: "jsnum \<Rightarrow> bool" where
  "isInteger (Fin a) = (of_int \<lfloor>a\<rfloor> = a)"
| "isInteger x = False"

text \<open>Truthiness of a number: neither zero nor \<open>NaN\<close>.\<close>

fun num_truthy :: "jsnum \<Rightarrow> bool" where
  "num_truthy (Fin a) = (a \<noteq> 0)"
| "num_truthy NaN = False"
| "num_truthy x = True"

fun num_floor :: "jsnum \<Rightarrow> jsnum" where
  "num_floor (Fin a) = Fin (of_int \<lfloor>a\<rfloor>)"
| "num_floor x = x"

definition num_of_int :: "int \<Rightarrow> jsnum" where
  "num_of_int n = fl (of_int n)"

lemma num_le_simps [simp]:
  "num_le (Fin a) (Fin b) = (a \<le> b)"
  "num_le NaN y = False"
  "num_le x NaN = False"
  "num_le PInf (Fin b) = False"
  "num_le NInf (Fin b) = True"
  "num_le (Fin a) PInf = True"
  "num_le (Fin a) NInf = False"
  by (auto simp: num_le_def) (cases x; simp)+

lemma num_lt_NaN [simp]: "num_lt x NaN = False"
  by (cases x) simp_all

lemma num_lt_infs [simp]:
  "num_lt PInf (Fin b) = False" "num_lt NInf (Fin b) = True"
  "num_lt (Fin a) PInf = True" "num_lt (Fin a) NInf = False"
  by simp_all

lemma num_lt_irrefl [simp]: "\<not> num_lt x x"
  by (cases x) simp_all

lemma num_lt_trans: "num_lt x y \<Longrightarrow> num_lt y z \<Longrightarrow> num_lt x z"
  by (cases x; cases y; cases z) auto

section \<open>Safe integers\<close>

text \<open>
  An integer of absolute value below \<open>2 ^ 53\<close> is a \<open>safe\<close> amount: sums and differences of safe
  amounts that are safe again are computed without rounding.
\<close>

definition safeInt :: "int \<Rightarrow> bool" where
  "safeInt n \<longleftrightarrow> \<bar>n\<bar> < 2 ^ 53"

definition ofInt :: "int \<Rightarrow> jsnum" where
  "ofInt n = Fin (of_int n)"

lemma ofInt_inject [simp]: "ofInt m = ofInt n \<longleftrightarrow> m = n"
  by (simp add: ofInt_def)

lemma num_of_int_safe: "safeInt n \<Longrightarrow> num_of_int n = ofInt n"
  by (simp add: num_of_int_def ofInt_def safeInt_def fl_of_int)

lemma num_lt_ofInt [simp]: "num_lt (ofInt m) (ofInt n) \<longleftrightarrow> m < n"
  by (simp add: ofInt_def)

lemma num_le_ofInt [simp]: "num_le (ofInt m) (ofInt n) \<longleftrightarrow> m \<le> n"
  by (simp add: ofInt_def)

lemma num_eq_ofInt [simp]: "num_eq (ofInt m) (ofInt n) \<longleftrightarrow> m = n"
  by (simp add: ofInt_def)

lemma num_truthy_ofInt [simp]: "num_truthy (ofInt m) \<longleftrightarrow> m \<noteq> 0"
  by (simp add: ofInt_def)

lemma isInteger_ofInt [simp]: "isInteger (ofInt m)"
  by (simp add: ofInt_def)

lemma isFinite_ofInt [simp]: "isFinite (ofInt m)"
  by (simp add: ofInt_def)

lemma num_neg_ofInt [simp]: "num_neg (ofInt m) = ofInt (- m)"
  by (simp add: ofInt_def)

lemma num_add_ofInt: "safeInt (m + n) \<Longrightarrow> num_add (ofInt m) (ofInt n) = ofInt (m + n)"
  unfolding ofInt_def safeInt_def num_add.simps of_int_add [symmetric] by (rule fl_of_int)

lemma num_sub_ofInt: "safeInt (m - n) \<Longrightarrow> num_sub (ofInt m) (ofInt n) = ofInt (m - n)"
  by (simp add: num_sub_def num_add_ofInt)

lemma num_mul_ofInt: "safeInt (m * n) \<Longrightarrow> num_mul (ofInt m) (ofInt n) = ofInt (m * n)"
  unfolding ofInt_def safeInt_def num_mul.simps of_int_mult [symmetric] by (rule fl_of_int)

lemma safeInt_between: "safeInt a \<Longrightarrow> safeInt b \<Longrightarrow> a \<le> x \<Longrightarrow> x \<le> b \<Longrightarrow> safeInt x"
  by (auto simp: safeInt_def)

lemma safeInt_0 [simp]: "safeInt 0"
  by (simp add: safeInt_def)

text \<open>A running sum \<open>xs.reduce((s, x) => s + x, 0)\<close> of safe amounts is exact.\<close>

definition num_sum :: "jsnum list \<Rightarrow> jsnum" where
  "num_sum xs = foldl num_add (ofInt 0) xs"

lemma foldl_num_add_ofInt:
  assumes "0 \<le> a" and "\<forall>x \<in> set xs. 0 \<le> x" and "safeInt (a + sum_list xs)"
  shows "foldl num_add (ofInt a) (map ofInt xs) = ofInt (a + sum_list xs)"
  using assms
proof (induction xs arbitrary: a)
  case Nil
  then show ?case by simp
next
  case (Cons x xs)
  have nn: "0 \<le> sum_list xs" using Cons.prems(2) by (intro sum_list_nonneg) auto
  have "safeInt (a + x)"
    using Cons.prems nn by (intro safeInt_between [OF safeInt_0 Cons.prems(3)]) auto
  moreover have "foldl num_add (ofInt (a + x)) (map ofInt xs) = ofInt (a + x + sum_list xs)"
    using Cons.prems by (intro Cons.IH) (auto simp: add.assoc)
  ultimately show ?case by (simp add: num_add_ofInt add.assoc)
qed

end
