(* ===== verification/JsText.thy ===== *)
theory JsText
  imports JsNumber "HOL-Library.Char_ord" "HOL-Library.List_Lexorder" "HOL-Library.Word"
    "HOL-Library.Multiset"
begin

text \<open>
  JavaScript strings, their conversions to and from numbers, dates and the value type \<open>unknown\<close>.

  A string is the list of its code units in UTF-8; case mapping is the ASCII one.  Strings are
  compared lexicographically.  A date is its time value in milliseconds; \<open>None\<close> stands for an
  invalid date.
\<close>

section \<open>Characters and lists of them\<close>

definition isDigit :: "char \<Rightarrow> bool" where
  "isDigit c \<longleftrightarrow> CHR ''0'' \<le> c \<and> c \<le> CHR ''9''"

definition isLowerC :: "char \<Rightarrow> bool" where
  "isLowerC c \<longleftrightarrow> CHR ''a'' \<le> c \<and> c \<le> CHR ''z''"

definition isUpperC :: "char \<Rightarrow> bool" where
  "isUpperC c \<longleftrightarrow> CHR ''A'' \<le> c \<and> c \<le> CHR ''Z''"

definition isAlnum :: "char \<Rightarrow> bool" where
  "isAlnum c \<longleftrightarrow> isDigit c \<or> isLowerC c \<or> isUpperC c"

definition isSpaceC :: "char \<Rightarrow> bool" where
  "isSpaceC c \<longleftrightarrow> c = CHR '' '' \<or> (CHR 0x09 \<le> c \<and> c \<le> CHR 0x0D)"

definition upperC :: "char \<Rightarrow> char" where
  "upperC c = (if isLowerC c then char_of (of_char c - 32 :: nat) else c)"

definition toUpper :: "string \<Rightarrow> string" where
  "toUpper s = map upperC s"

definition trimLeft :: "string \<Rightarrow> string" where
  "trimLeft s = dropWhile isSpaceC s"

definition trim :: "string \<Rightarrow> string" where
  "trim s = rev (dropWhile isSpaceC (rev (trimLeft s)))"

text \<open>\<open>s.split(c)\<close> for a one-character separator: never the empty list.\<close>

fun splitOn :: "char \<Rightarrow> string \<Rightarrow> string list" where
  "splitOn c [] = [[]]"
| "splitOn c (x # xs) = (case splitOn c xs of
     [] \<Rightarrow> [[x]]
   | p # ps \<Rightarrow> (if x = c then [] # p # ps else (x # p) # ps))"

fun joinWith :: "string \<Rightarrow> string list \<Rightarrow> string" where
  "joinWith sep [] = []"
| "joinWith sep [x] = x"
| "joinWith sep (x # xs) = x @ sep @ joinWith sep xs"

fun isPrefixStr :: "string \<Rightarrow> string \<Rightarrow> bool" where
  "isPrefixStr [] s = True"
| "isPrefixStr (p # ps) [] = False"
| "isPrefixStr (p # ps) (c # cs) = (p = c \<and> isPrefixStr ps cs)"

fun includesStr :: "string \<Rightarrow> string \<Rightarrow> bool" where
  "includesStr p [] = (p = [])"
| "includesStr p (c # cs) = (isPrefixStr p (c # cs) \<or> includesStr p cs)"

lemma splitOn_ne [simp]: "splitOn c s \<noteq> []"
  by (induction s) (auto split: list.splits)

lemma joinWith_Cons: "xs \<noteq> [] \<Longrightarrow> joinWith sep (x # xs) = x @ sep @ joinWith sep xs"
  by (cases xs) auto

lemma joinWith_splitOn: "joinWith [c] (splitOn c s) = s"
proof (induction s)
  case Nil
  then show ?case by simp
next
  case (Cons x s)
  obtain p ps where ps: "splitOn c s = p # ps" by (metis splitOn_ne neq_Nil_conv)
  with Cons have "joinWith [c] (p # ps) = s" by simp
  moreover from this have "joinWith [c] ((x # p) # ps) = x # s" by (cases ps) auto
  ultimately show ?case using ps by simp
qed

lemma upperC_idem [simp]: "upperC (upperC c) = upperC c"
proof (cases "isLowerC c")
  case False
  then show ?thesis by (simp add: upperC_def)
next
  case True
  then have n: "97 \<le> (of_char c :: nat)" "(of_char c :: nat) \<le> 122"
    by (auto simp: isLowerC_def less_eq_char_def)
  then have "(of_char (char_of (of_char c - 32 :: nat)) :: nat) = of_char c - 32"
    by simp
  with n have "\<not> isLowerC (char_of (of_char c - 32 :: nat))"
    by (simp add: isLowerC_def less_eq_char_def)
  with True show ?thesis by (simp add: upperC_def)
qed

lemma toUpper_idem [simp]: "toUpper (toUpper s) = toUpper s"
  by (simp add: toUpper_def)

section \<open>Numbers as text\<close>

function natDigits :: "int \<Rightarrow> nat list" where
  "natDigits n = (if n < 10 then [nat n] else natDigits (n div 10) @ [nat (n mod 10)])"
  by pat_completeness auto

termination
  by (relation "measure nat") auto

declare natDigits.simps [simp del]

definition digitChar :: "nat \<Rightarrow> char" where
  "digitChar d = char_of (48 + d)"

definition digitVal :: "char \<Rightarrow> nat" where
  "digitVal c = of_char c - 48"

definition showPos :: "int \<Rightarrow> string" where
  "showPos n = map digitChar (natDigits n)"

definition showNat :: "nat \<Rightarrow> string" where
  "showNat n = showPos (int n)"

definition showInt :: "int \<Rightarrow> string" where
  "showInt n = (if n < 0 then CHR ''-'' # showPos (- n) else showPos n)"

definition digitsVal :: "string \<Rightarrow> int" where
  "digitsVal ds = foldl (\<lambda>a c. 10 * a + int (digitVal c)) 0 ds"

lemma natDigits_small: "0 \<le> n \<Longrightarrow> d \<in> set (natDigits n) \<Longrightarrow> d < 10"
proof (induction n rule: natDigits.induct)
  case (1 n)
  then show ?case by (subst (asm) natDigits.simps) (auto split: if_splits)
qed

lemma natDigits_ne [simp]: "natDigits n \<noteq> []"
  by (subst natDigits.simps) simp

lemma digitVal_digitChar: "d < 10 \<Longrightarrow> digitVal (digitChar d) = d"
  by (simp add: digitVal_def digitChar_def)

lemma isDigit_digitChar: "d < 10 \<Longrightarrow> isDigit (digitChar d)"
  by (simp add: isDigit_def digitChar_def less_eq_char_def)

lemma digitsVal_append: "digitsVal (xs @ [c]) = 10 * digitsVal xs + int (digitVal c)"
  by (simp add: digitsVal_def)

lemma digitsVal_showPos: "0 \<le> n \<Longrightarrow> digitsVal (showPos n) = n"
proof (induction n rule: natDigits.induct)
  case (1 n)
  show ?case
  proof (cases "n < 10")
    case True
    then have "showPos n = [digitChar (nat n)]" by (simp add: showPos_def natDigits.simps)
    with True 1 show ?thesis by (simp add: digitsVal_def digitVal_digitChar)
  next
    case False
    then have "showPos n = showPos (n div 10) @ [digitChar (nat (n mod 10))]"
      by (simp add: showPos_def natDigits.simps [of n])
    then show ?thesis using 1 False by (simp add: digitsVal_append digitVal_digitChar)
  qed
qed

lemma showPos_digits: "0 \<le> n \<Longrightarrow> c \<in> set (showPos n) \<Longrightarrow> isDigit c"
  by (auto simp: showPos_def isDigit_digitChar natDigits_small)

lemma showPos_ne [simp]: "showPos n \<noteq> []"
  by (simp add: showPos_def)

subsection \<open>\<open>Number::toString\<close>\<close>

definition pow10 :: "int \<Rightarrow> rat" where
  "pow10 k = (if 0 \<le> k then 10 ^ nat k else 1 / 10 ^ nat (- k))"

text \<open>The \<open>n\<close> with \<open>10 ^ (n - 1) \<le> r < 10 ^ n\<close>.\<close>

definition decExp :: "rat \<Rightarrow> int" where
  "decExp r = (case quotient_of r of (p, q) \<Rightarrow>
     (let n = int (length (natDigits p)) - int (length (natDigits q)) in
      if r < pow10 n then n else n + 1))"

text \<open>The shortest decimal significand, of at least \<open>k\<close> digits, that reads back as \<open>r\<close>.\<close>

fun shortest :: "nat \<Rightarrow> nat \<Rightarrow> rat \<Rightarrow> int \<times> nat" where
  "shortest 0 k r = (roundEven (r * pow10 (int k - decExp r)), k)"
| "shortest (Suc fuel) k r =
     (let s = roundEven (r * pow10 (int k - decExp r)) in
      if fl (of_int s * pow10 (decExp r - int k)) = Fin r then (s, k)
      else shortest fuel (Suc k) r)"

definition showPosRat :: "rat \<Rightarrow> string" where
  "showPosRat r = (case shortest 16 1 r of (s0, k) \<Rightarrow>
     (let carry = (s0 = 10 ^ k); s = (if carry then s0 div 10 else s0);
          n = (if carry then decExp r + 1 else decExp r); ds = showInt s; zeros = (\<lambda>m. replicate (nat m) (CHR ''0'')) in
      if int k \<le> n \<and> n \<le> 21 then ds @ zeros (n - int k)
      else if 0 < n \<and> n \<le> 21 then take (nat n) ds @ ''.'' @ drop (nat n) ds
      else if - 6 < n \<and> n \<le> 0 then ''0.'' @ zeros (- n) @ ds
      else (let e = n - 1; es = (if 0 \<le> e then ''e+'' else ''e-'') @ showPos \<bar>e\<bar> in
        (if k = 1 then ds @ es else take 1 ds @ ''.'' @ drop 1 ds @ es))))"

fun num_to_string :: "jsnum \<Rightarrow> string" where
  "num_to_string NaN = ''NaN''"
| "num_to_string PInf = ''Infinity''"
| "num_to_string NInf = ''-Infinity''"
| "num_to_string (Fin r) =
     (if r = 0 then ''0''
      else if of_int \<lfloor>r\<rfloor> = r \<and> \<bar>r\<bar> < 10 ^ 15 then showInt \<lfloor>r\<rfloor>
      else if r < 0 then CHR ''-'' # showPosRat (- r) else showPosRat r)"

subsection \<open>\<open>parseInt\<close>, \<open>parseFloat\<close> and \<open>Number\<close>\<close>

definition takeSign :: "string \<Rightarrow> bool \<times> string" where
  "takeSign s = (case s of
     c # r \<Rightarrow> (if c = CHR ''-'' then (True, r) else if c = CHR ''+'' then (False, r) else (False, s))
   | [] \<Rightarrow> (False, []))"

definition parseInt10 :: "string \<Rightarrow> jsnum" where
  "parseInt10 s = (case takeSign (trimLeft s) of (neg, r) \<Rightarrow>
     (let ds = takeWhile isDigit r in
      if ds = [] then NaN
      else num_of_int (if neg then - digitsVal ds else digitsVal ds)))"

definition scanDecimal :: "string \<Rightarrow> (rat \<times> string) option" where
  "scanDecimal s =
     (let i = takeWhile isDigit s; r = dropWhile isDigit s;
          dotted = (case r of c # _ \<Rightarrow> c = CHR ''.'' | [] \<Rightarrow> False);
          f = (if dotted then takeWhile isDigit (tl r) else []);
          r2 = (if dotted then dropWhile isDigit (tl r) else r);
          m = of_int (digitsVal (i @ f)) / 10 ^ length f in
      if i = [] \<and> f = [] then None
      else (case r2 of
        [] \<Rightarrow> Some (m, r2)
      | c # r3 \<Rightarrow>
          (if c = CHR ''e'' \<or> c = CHR ''E'' then
             (case takeSign r3 of (neg, r4) \<Rightarrow>
               (let ed = takeWhile isDigit r4; k = digitsVal ed in
                if ed = [] then Some (m, r2)
                else Some (m * pow10 (if neg then - k else k), dropWhile isDigit r4)))
           else Some (m, r2))))"

definition parseFloatJs :: "string \<Rightarrow> jsnum" where
  "parseFloatJs s = (case takeSign (trimLeft s) of (neg, r) \<Rightarrow>
     (if isPrefixStr ''Infinity'' r then (if neg then NInf else PInf)
      else (case scanDecimal r of
        None \<Rightarrow> NaN
      | Some (v, _) \<Rightarrow> fl (if neg then - v else v))))"

definition hexVal :: "char \<Rightarrow> nat option" where
  "hexVal c = (if isDigit c then Some (digitVal c)
     else if CHR ''a'' \<le> c \<and> c \<le> CHR ''f'' then Some (of_char c - 87)
     else if CHR ''A'' \<le> c \<and> c \<le> CHR ''F'' then Some (of_char c - 55) else None)"

fun radixVal :: "int \<Rightarrow> int \<Rightarrow> string \<Rightarrow> int option" where
  "radixVal b a [] = Some a"
| "radixVal b a (c # cs) = (case hexVal c of
     None \<Rightarrow> None
   | Some d \<Rightarrow> (if int d < b then radixVal b (b * a + int d) cs else None))"

definition radixNumber :: "int \<Rightarrow> string \<Rightarrow> jsnum" where
  "radixNumber b ds = (if ds = [] then NaN else
     (case radixVal b 0 ds of None \<Rightarrow> NaN | Some v \<Rightarrow> num_of_int v))"

definition stringToNumber :: "string \<Rightarrow> jsnum" where
  "stringToNumber s = (let t = trim s in
     if t = [] then Fin 0
     else if isPrefixStr ''0x'' t \<or> isPrefixStr ''0X'' t then radixNumber 16 (drop 2 t)
     else if isPrefixStr ''0o'' t \<or> isPrefixStr ''0O'' t then radixNumber 8 (drop 2 t)
     else if isPrefixStr ''0b'' t \<or> isPrefixStr ''0B'' t then radixNumber 2 (drop 2 t)
     else (case takeSign t of (neg, r) \<Rightarrow>
       (if r = ''Infinity'' then (if neg then NInf else PInf)
        else (case scanDecimal r of
          Some (v, []) \<Rightarrow> fl (if neg then - v else v)
        | _ \<Rightarrow> NaN))))"

section \<open>Dates\<close>

definition civilYMD :: "int \<Rightarrow> int \<times> int \<times> int" where
  "civilYMD d =
     (let z = d + 719468; era = z div 146097; doe = z mod 146097;
          yoe = (doe - doe div 1460 + doe div 36524 - doe div 146096) div 365;
          doy = doe - (365 * yoe + yoe div 4 - yoe div 100);
          mp = (5 * doy + 2) div 153;
          m = (if mp < 10 then mp + 3 else mp - 9) in
      (yoe + era * 400 + (if m \<le> 2 then 1 else 0), m, doy - (153 * mp + 2) div 5 + 1))"

definition msPerDay :: int where
  "msPerDay = 86400000"

definition utcYear :: "int \<Rightarrow> int" where
  "utcYear t = fst (civilYMD (t div msPerDay))"

definition padLeft :: "nat \<Rightarrow> string \<Rightarrow> string" where
  "padLeft n s = replicate (n - length s) (CHR ''0'') @ s"

definition isoYear :: "int \<Rightarrow> string" where
  "isoYear y = (if 0 \<le> y \<and> y \<le> 9999 then padLeft 4 (showInt y)
     else (if y < 0 then ''-'' else ''+'') @ padLeft 6 (showPos \<bar>y\<bar>))"

text \<open>\<open>toISOString().split('T')[0]\<close> and the whole \<open>toISOString()\<close>.\<close>

definition isoDate :: "int \<Rightarrow> string" where
  "isoDate t = (case civilYMD (t div msPerDay) of (y, m, d) \<Rightarrow>
     isoYear y @ ''-'' @ padLeft 2 (showInt m) @ ''-'' @ padLeft 2 (showInt d))"

definition isoString :: "int \<Rightarrow> string" where
  "isoString t = (let ms = t mod msPerDay in
     isoDate t @ ''T'' @ padLeft 2 (showInt (ms div 3600000)) @ '':''
       @ padLeft 2 (showInt (ms div 60000 mod 60)) @ '':''
       @ padLeft 2 (showInt (ms div 1000 mod 60)) @ ''.''
       @ padLeft 3 (showInt (ms mod 1000)) @ ''Z'')"

section \<open>Dynamically typed values\<close>

datatype jsval =
    JUndef | JNull | JBool bool | JNum jsnum | JBig int | JStr string
  | JBuf "8 word list" | JArr "jsval list" | JObj "(string \<times> jsval) list"

definition nullish :: "jsval \<Rightarrow> bool" where
  "nullish v \<longleftrightarrow> v = JUndef \<or> v = JNull"

text \<open>\<open>a ?? b\<close>\<close>

definition coalesce :: "jsval \<Rightarrow> jsval \<Rightarrow> jsval" where
  "coalesce a b = (if nullish a then b else a)"

fun truthy :: "jsval \<Rightarrow> bool" where
  "truthy JUndef = False"
| "truthy JNull = False"
| "truthy (JBool b) = b"
| "truthy (JNum x) = num_truthy x"
| "truthy (JBig n) = (n \<noteq> 0)"
| "truthy (JStr s) = (s \<noteq> [])"
| "truthy _ = True"

text \<open>Property access on a value that is neither null nor undefined.\<close>

fun getProp :: "jsval \<Rightarrow> string \<Rightarrow> jsval" where
  "getProp (JObj kvs) k = (case map_of kvs k of None \<Rightarrow> JUndef | Some v \<Rightarrow> v)"
| "getProp v k = JUndef"

definition bufText :: "8 word list \<Rightarrow> string" where
  "bufText bs = map (\<lambda>b. char_of (unat b)) bs"

text \<open>\<open>String(v)\<close>; inside an array null and undefined print as nothing.\<close>

primrec elemText :: "jsval \<Rightarrow> string" where
  "elemText JUndef = []"
| "elemText JNull = []"
| "elemText (JBool b) = (if b then ''true'' else ''false'')"
| "elemText (JNum x) = num_to_string x"
| "elemText (JBig n) = showInt n"
| "elemText (JStr s) = s"
| "elemText (JBuf bs) = bufText bs"
| "elemText (JArr vs) = joinWith '','' (map elemText vs)"
| "elemText (JObj kvs) = ''[object Object]''"

definition jsString :: "jsval \<Rightarrow> string" where
  "jsString v = (if v = JUndef then ''undefined'' else if v = JNull then ''null'' else elemText v)"

text \<open>\<open>Number(v)\<close>\<close>

fun jsNumber :: "jsval \<Rightarrow> jsnum" where
  "jsNumber JUndef = NaN"
| "jsNumber JNull = Fin 0"
| "jsNumber (JBool b) = Fin (if b then 1 else 0)"
| "jsNumber (JNum x) = x"
| "jsNumber (JBig n) = num_of_int n"
| "jsNumber v = stringToNumber (elemText v)"

subsection \<open>\<open>JSON.stringify\<close>\<close>

definition hexDigit :: "nat \<Rightarrow> char" where
  "hexDigit n = (if n < 10 then char_of (48 + n) else char_of (87 + n))"

definition escapeJsonChar :: "char \<Rightarrow> string" where
  "escapeJsonChar c =
     (if c = CHR 0x22 then [CHR 0x5C, CHR 0x22]
      else if c = CHR 0x5C then [CHR 0x5C, CHR 0x5C]
      else if c = CHR 0x08 then [CHR 0x5C, CHR ''b'']
      else if c = CHR 0x0C then [CHR 0x5C, CHR ''f'']
      else if c = CHR 0x0A then [CHR 0x5C, CHR ''n'']
      else if c = CHR 0x0D then [CHR 0x5C, CHR ''r'']
      else if c = CHR 0x09 then [CHR 0x5C, CHR ''t'']
      else if of_char c < (32 :: nat) then
        [CHR 0x5C, CHR ''u'', CHR ''0'', CHR ''0'', hexDigit (of_char c div 16),
         hexDigit (of_char c mod 16)]
      else [c])"

definition quoteJson :: "string \<Rightarrow> string" where
  "quoteJson s = [CHR 0x22] @ concat (map escapeJsonChar s) @ [CHR 0x22]"

text \<open>\<open>None\<close> for undefined, which an object drops and an array prints as null.\<close>

primrec jsonText :: "jsval \<Rightarrow> string option" where
  "jsonText JUndef = None"
| "jsonText JNull = Some ''null''"
| "jsonText (JBool b) = Some (if b then ''true'' else ''false'')"
| "jsonText (JNum x) = Some (if isFinite x then num_to_string x else ''null'')"
| "jsonText (JBig n) = None"
| "jsonText (JStr s) = Some (quoteJson s)"
| "jsonText (JBuf bs) = Some (''{'' @ quoteJson ''type'' @ '':'' @ quoteJson ''Buffer'' @ '',''
     @ quoteJson ''data'' @ '':['' @ joinWith '','' (map (\<lambda>b. showNat (unat b)) bs) @ '']}'')"
| "jsonText (JArr vs) = Some (''['' @ joinWith '','' (map (\<lambda>r. case r of None \<Rightarrow> ''null'' | Some t \<Rightarrow> t)
     (map jsonText vs)) @ '']'')"
| "jsonText (JObj kvs) = Some (''{'' @ joinWith '','' (List.map_filter
     (\<lambda>(k, r). map_option (\<lambda>t. quoteJson k @ '':'' @ t) r) (map (map_prod id jsonText) kvs)) @ ''}'')"

text \<open>\<open>JSON.stringify\<close> throws on a BigInt.\<close>

primrec hasBig :: "jsval \<Rightarrow> bool" where
  "hasBig JUndef = False"
| "hasBig JNull = False"
| "hasBig (JBool b) = False"
| "hasBig (JNum x) = False"
| "hasBig (JBig n) = True"
| "hasBig (JStr s) = False"
| "hasBig (JBuf bs) = False"
| "hasBig (JArr vs) = (True \<in> set (map hasBig vs))"
| "hasBig (JObj kvs) = (True \<in> set (map snd (map (map_prod id hasBig) kvs)))"

definition jsonOf :: "jsval \<Rightarrow> string" where
  "jsonOf v = (case jsonText v of None \<Rightarrow> [] | Some t \<Rightarrow> t)"

section \<open>\<open>Array.prototype.sort\<close> with a comparator\<close>

text \<open>
  A stable sort: an element moves before another only when the comparator says that the other is
  greater.
\<close>

fun insertBy :: "('a \<Rightarrow> 'a \<Rightarrow> bool) \<Rightarrow> 'a \<Rightarrow> 'a list \<Rightarrow> 'a list" where
  "insertBy gt x [] = [x]"
| "insertBy gt x (y # ys) = (if gt x y then y # insertBy gt x ys else x # y # ys)"

definition sortBy :: "('a \<Rightarrow> 'a \<Rightarrow> bool) \<Rightarrow> 'a list \<Rightarrow> 'a list" where
  "sortBy gt xs = foldr (insertBy gt) xs []"

lemma mset_insertBy: "mset (insertBy gt x xs) = add_mset x (mset xs)"
  by (induction xs) auto

lemma mset_sortBy [simp]: "mset (sortBy gt xs) = mset xs"
proof -
  have "mset (foldr (insertBy gt) xs []) = mset xs"
    by (induction xs) (simp_all add: mset_insertBy)
  then show ?thesis by (simp add: sortBy_def)
qed

lemma set_sortBy [simp]: "set (sortBy gt xs) = set xs"
  by (metis mset_sortBy set_mset_mset)

lemma length_sortBy [simp]: "length (sortBy gt xs) = length xs"
  by (metis mset_sortBy size_mset)

lemma sorted_insertBy:
  assumes total: "\<And>x y. gt x y \<Longrightarrow> \<not> gt y x"
    and trans: "\<And>x y z. \<not> gt x y \<Longrightarrow> \<not> gt y z \<Longrightarrow> \<not> gt x z"
    and "sorted_wrt (\<lambda>x y. \<not> gt x y) xs"
  shows "sorted_wrt (\<lambda>x y. \<not> gt x y) (insertBy gt x xs)"
  using assms(3)
proof (induction xs)
  case Nil
  then show ?case by simp
next
  case (Cons y ys)
  have s: "set (insertBy gt x ys) = insert x (set ys)"
    by (metis mset_insertBy set_mset_add_mset_insert set_mset_mset)
  show ?case
  proof (cases "gt x y")
    case True
    with Cons s total show ?thesis by auto
  next
    case False
    with Cons.prems trans show ?thesis by auto
  qed
qed

lemma sorted_sortBy:
  assumes "\<And>x y. gt x y \<Longrightarrow> \<not> gt y x"
    and "\<And>x y z. \<not> gt x y \<Longrightarrow> \<not> gt y z \<Longrightarrow> \<not> gt x z"
  shows "sorted_wrt (\<lambda>x y. \<not> gt x y) (sortBy gt xs)"
proof -
  have "sorted_wrt (\<lambda>x y. \<not> gt x y) (foldr (insertBy gt) xs [])"
    by (induction xs) (simp_all add: sorted_insertBy [of gt, OF assms])
  then show ?thesis by (simp add: sortBy_def)
qed

section \<open>Splitting and reading back\<close>

lemma splitOn_none: "c \<notin> set s \<Longrightarrow> splitOn c s = [s]"
  by (induction s) auto

lemma splitOn_append: "c \<notin> set s \<Longrightarrow> splitOn c (s @ c # t) = s # splitOn c t"
  by (induction s) (auto split: list.split)

lemma splitOn_joinWith:
  "xs \<noteq> [] \<Longrightarrow> list_all (\<lambda>x. c \<notin> set x) xs \<Longrightarrow> splitOn c (joinWith [c] xs) = xs"
proof (induction xs rule: induct_list012)
  case (2 x)
  then show ?case by (simp add: splitOn_none)
next
  case (3 x y zs)
  then show ?case by (simp add: splitOn_append)
qed simp

lemma trim_id:
  assumes "s \<noteq> []" and "\<not> isSpaceC (hd s)" and "\<not> isSpaceC (last s)"
  shows "trim s = s"
proof -
  have "trimLeft s = s" using assms(1,2) by (cases s) (simp_all add: trimLeft_def)
  moreover have "dropWhile isSpaceC (rev s) = rev s"
    using assms(1,3) by (cases s rule: rev_cases) simp_all
  ultimately show ?thesis by (simp add: trim_def)
qed

lemma digit_no_space: "isDigit c \<Longrightarrow> \<not> isSpaceC c"
  by (auto simp: isDigit_def isSpaceC_def less_eq_char_def)

lemma no_digits [simp]:
  "\<not> isDigit CHR ''x''" "\<not> isDigit CHR ''X''" "\<not> isDigit CHR ''o''" "\<not> isDigit CHR ''O''"
  "\<not> isDigit CHR ''b''" "\<not> isDigit CHR ''B''" "\<not> isDigit CHR ''I''" "\<not> isDigit CHR ''-''"
  "\<not> isDigit CHR ''+''" "\<not> isDigit CHR '',''" "\<not> isDigit CHR '':''"
  by (simp_all add: isDigit_def less_eq_char_def)

lemma digits_no_prefix:
  "list_all isDigit s \<Longrightarrow> \<not> isDigit x \<Longrightarrow> \<not> isPrefixStr [c, x] s"
  by (induction s rule: induct_list012) auto

lemma showPos_without: "0 \<le> n \<Longrightarrow> \<not> isDigit c \<Longrightarrow> c \<notin> set (showPos n)"
  using showPos_digits by blast

lemma stringToNumber_digits:
  assumes "s \<noteq> []" and "list_all isDigit s"
  shows "stringToNumber s = num_of_int (digitsVal s)"
proof -
  have hl: "isDigit (hd s)" "isDigit (last s)"
    using assms by (simp_all add: list_all_iff)
  have "trim s = s" by (rule trim_id [OF assms(1)]) (simp_all add: hl digit_no_space)
  moreover have "takeSign s = (False, s)"
    using assms hl(1) by (cases s) (auto simp: takeSign_def)
  moreover have "s \<noteq> ''Infinity''" using hl(1) by auto
  moreover have tw: "takeWhile isDigit s = s" and dw: "dropWhile isDigit s = []"
    using assms(2) by (auto simp: list_all_iff)
  have "scanDecimal s = Some (of_int (digitsVal s), [])"
    using assms(1) by (simp add: scanDecimal_def Let_def tw dw)
  ultimately show ?thesis
    using assms(1) by (simp add: stringToNumber_def num_of_int_def Let_def digits_no_prefix [OF assms(2)])
qed

lemma stringToNumber_showPos: "0 \<le> n \<Longrightarrow> safeInt n \<Longrightarrow> stringToNumber (showPos n) = ofInt n"
  by (simp add: stringToNumber_digits list_all_iff showPos_digits digitsVal_showPos num_of_int_safe)

end
