(* ===== verification/Environment.thy ===== *)
theory Environment
  imports JsText
begin

text \<open>
  What the services take from outside the repository, as one record of parameters: the
  configuration, the clock, the Stellar SDK and its RPC server, node's \<open>crypto\<close> and the HTTP
  client.  No definition is made up for any of it.  The exceptions that the services raise and let
  through, and what the global exception filter answers for each, are here too.
\<close>

section \<open>Exceptions\<close>

datatype api_error =
    NotFound string | BadRequest string | Forbidden string | Unauthorized string
  | BadGateway string | TooManyRequests string
  | JsError string          \<comment> \<open>a plain \<open>Error\<close>, of the code, of the runtime or of a package\<close>
  | SorobanError string     \<comment> \<open>the class of \<open>soroban-client.ts\<close>\<close>
  | PrismaError string      \<comment> \<open>the error code of a failed database statement\<close>

section \<open>Contract values and calls\<close>

text \<open>The variants of \<open>xdr.ScVal\<close> that the encoders of \<open>scval.ts\<close> build.\<close>

datatype scval =
    ScAddress string | ScString string | ScU32 int | ScU64 int | ScI128 int | ScBool bool
  | ScBytes "8 word list" | ScVec "scval list" | ScVoid

record contract_call =
  cc_contract :: string
  cc_method :: string
  cc_args :: "scval list"
  cc_source :: string
  cc_fee :: string
  cc_network :: string

record send_response =
  sr_status :: string
  sr_hash :: string
  sr_errorResult :: "string option"

record tx_response =
  tx_status :: string
  tx_resultXdr :: "string option"
  tx_returnValue :: "scval option"

datatype sim_response = SimError string | SimNoResult | SimResult "scval option"

section \<open>The environment of a request\<close>

text \<open>
  Functions that may throw return \<open>Inl\<close> of the message.  \<open>rpcTx h n\<close> is the answer to the \<open>n\<close>-th
  poll of transaction \<open>h\<close>, \<open>rpcDelay h n\<close> the milliseconds that the calls before it took besides the
  sleeps between them; \<open>httpPost url body sig n\<close> is the answer to the \<open>n\<close>-th attempt to deliver a
  body and \<open>httpMs url body n\<close> how long it took.  \<open>cuid n\<close> is the
  \<open>n\<close>-th row id that the database client generates.  \<open>dateParse\<close> is \<open>new Date(s).getTime()\<close>, with
  \<open>None\<close> for an invalid date, and \<open>dbFloat\<close> says whether the database client stores a number in a
  floating-point column.
\<close>

record env =
  conf :: "string \<Rightarrow> string option"
  clock :: int
  cuid :: "nat \<Rightarrow> string"
  dateParse :: "string \<Rightarrow> int option"
  randomHex :: "nat \<Rightarrow> string"
  hmacSha256 :: "string \<Rightarrow> string \<Rightarrow> string"
  sha256 :: "string \<Rightarrow> string"
  httpPost :: "string \<Rightarrow> string \<Rightarrow> string \<Rightarrow> nat \<Rightarrow> string + int"
  httpMs :: "string \<Rightarrow> string \<Rightarrow> nat \<Rightarrow> int"
  isValidPub :: "string \<Rightarrow> bool"
  u64Of :: "int \<Rightarrow> string + int"
  i128Of :: "jsnum \<Rightarrow> string + int"
  toNative :: "scval \<Rightarrow> jsval"
  keyFromSecret :: "string \<Rightarrow> string + string"
  mkContract :: "string \<Rightarrow> string + unit"
  rpcAccount :: "string \<Rightarrow> string + unit"
  rpcSend :: "contract_call \<Rightarrow> string + send_response"
  rpcTx :: "string \<Rightarrow> nat \<Rightarrow> string + tx_response"
  rpcDelay :: "string \<Rightarrow> nat \<Rightarrow> nat"
  rpcSimulate :: "contract_call \<Rightarrow> string + sim_response"
  rpcLatest :: "string + (int \<times> string)"
  dbFloat :: "jsnum \<Rightarrow> string + unit"

definition fromSdk :: "string + 'a \<Rightarrow> api_error + 'a" where
  "fromSdk r = (case r of Inl m \<Rightarrow> Inl (JsError m) | Inr x \<Rightarrow> Inr x)"

lemma fromSdk_simps [simp]: "fromSdk (Inl m) = Inl (JsError m)" "fromSdk (Inr x) = Inr x"
  by (simp_all add: fromSdk_def)

text \<open>\<open>config.get(key) ?? d\<close>, and a setting that must be present and non-empty.\<close>

definition confOr :: "env \<Rightarrow> string \<Rightarrow> string \<Rightarrow> string" where
  "confOr E k d = (case conf E k of None \<Rightarrow> d | Some v \<Rightarrow> v)"

definition confSet :: "env \<Rightarrow> string \<Rightarrow> string option" where
  "confSet E k = (case conf E k of None \<Rightarrow> None | Some v \<Rightarrow> (if v = [] then None else Some v))"

section \<open>The global exception filter\<close>

text \<open>
  \<open>HttpException\<close>s keep their status and message; everything else is answered as an internal
  error that does not leak the message.
\<close>

fun httpStatus :: "api_error \<Rightarrow> int" where
  "httpStatus (NotFound m) = 404"
| "httpStatus (BadRequest m) = 400"
| "httpStatus (Forbidden m) = 403"
| "httpStatus (Unauthorized m) = 401"
| "httpStatus (BadGateway m) = 502"
| "httpStatus (TooManyRequests m) = 429"
| "httpStatus _ = 500"

fun httpException :: "api_error \<Rightarrow> bool" where
  "httpException (JsError m) = False"
| "httpException (SorobanError m) = False"
| "httpException (PrismaError m) = False"
| "httpException _ = True"

text \<open>\<open>getResponse()\<close>: a string for an exception built with \<open>new HttpException(text, status)\<close>, an
  object with the message for the derived classes.\<close>

fun httpResponse :: "api_error \<Rightarrow> jsval" where
  "httpResponse (TooManyRequests m) = JStr m"
| "httpResponse (NotFound m) = JObj [(''message'', JStr m), (''error'', JStr ''Not Found''),
     (''statusCode'', JNum (Fin 404))]"
| "httpResponse (BadRequest m) = JObj [(''message'', JStr m), (''error'', JStr ''Bad Request''),
     (''statusCode'', JNum (Fin 400))]"
| "httpResponse (Forbidden m) = JObj [(''message'', JStr m), (''error'', JStr ''Forbidden''),
     (''statusCode'', JNum (Fin 403))]"
| "httpResponse (Unauthorized m) = JObj [(''message'', JStr m), (''error'', JStr ''Unauthorized''),
     (''statusCode'', JNum (Fin 401))]"
| "httpResponse (BadGateway m) = JObj [(''message'', JStr m), (''error'', JStr ''Bad Gateway''),
     (''statusCode'', JNum (Fin 502))]"
| "httpResponse e = JUndef"

record filter_body =
  fb_statusCode :: int
  fb_message :: jsval
  fb_code :: jsval
  fb_timestamp :: string

definition filterCatch :: "env \<Rightarrow> api_error \<Rightarrow> filter_body" where
  "filterCatch E e =
     (let internal = JStr ''Internal server error'';
          status = (if httpException e then httpStatus e else 500);
          res = httpResponse e in
      if \<not> httpException e then
        \<lparr>fb_statusCode = 500, fb_message = internal, fb_code = JStr ''INTERNAL_ERROR'',
         fb_timestamp = isoString (clock E)\<rparr>
      else (case res of
        JStr m \<Rightarrow> \<lparr>fb_statusCode = status, fb_message = JStr m, fb_code = JStr ''INTERNAL_ERROR'',
          fb_timestamp = isoString (clock E)\<rparr>
      | _ \<Rightarrow> \<lparr>fb_statusCode = status, fb_message = coalesce (getProp res ''message'') internal,
          fb_code = coalesce (getProp res ''code'') (JStr (''HTTP_'' @ showInt status)),
          fb_timestamp = isoString (clock E)\<rparr>))"

text \<open>A service exception reaches the client with its own status and text, a foreign one as 500.\<close>

lemma filterCatch_foreign:
  "\<not> httpException e \<Longrightarrow>
   fb_statusCode (filterCatch E e) = 500 \<and> fb_message (filterCatch E e) = JStr ''Internal server error''"
  by (simp add: filterCatch_def)

lemma filterCatch_status:
  "fb_statusCode (filterCatch E e) = httpStatus e"
  by (cases e) (simp_all add: filterCatch_def Let_def)

end
