(* ===== verification/Schema.thy ===== *)
theory Schema
  imports Environment
begin

text \<open>
  \<open>api/prisma/schema.prisma\<close>, the tables that the API and the indexer share, and the statements of
  the database client on them.  A table is the list of its rows in insertion order; a query without
  an \<open>orderBy\<close> reads them in that order.  \<open>create\<close> rejects a duplicate of a unique column (\<open>P2002\<close>)
  and a dangling reference (\<open>P2003\<close>), \<open>update\<close> and \<open>delete\<close> a missing row (\<open>P2025\<close>).  The locale
  \<open>table\<close> states what a statement may rely on of one table's accessors and derives, once for all
  tables, what a statement does to the keys, the number and the properties of its rows.  Columns
  that no modelled operation reads (most \<open>updatedAt\<close>) are left out.
\<close>

section \<open>Enumerations and rows\<close>

datatype credit_status = CPending | CActive | CRetired | CRejected | CBridged
datatype offer_status = OActive | OFilled | OCancelled | OExpired
datatype verifier_status = VPending | VActive | VSlashed | VUnregistered
datatype bridge_status = Inbound | Outbound

record user =
  u_id :: string
  u_stellarPub :: string
  u_createdAt :: int

record credit =
  cr_id :: string
  cr_creditId :: int
  cr_projectId :: string
  cr_methodology :: string
  cr_vintageStart :: int
  cr_vintageEnd :: int
  cr_tonnes :: jsnum
  cr_geography :: string
  cr_serialPrefix :: string
  cr_sdgFlags :: int
  cr_permanenceRating :: int
  cr_bufferContributionPct :: int
  cr_additionalityType :: int
  cr_ipfsHash :: string
  cr_status :: credit_status
  cr_tokenId :: "string option"
  cr_createdAt :: int
  cr_updatedAt :: int
  cr_issuerId :: string
  cr_ownerId :: string

record approval =
  ap_id :: string
  ap_creditId :: string
  ap_verifierId :: string
  ap_approved :: bool
  ap_comments :: "string option"
  ap_createdAt :: int

record verifier =
  ve_id :: string
  ve_userId :: string
  ve_status :: verifier_status
  ve_stake :: jsnum
  ve_reputation :: int
  ve_heartbeatAt :: "int option"
  ve_createdAt :: int

record offer =
  of_id :: string
  of_offerId :: int
  of_creditId :: string
  of_sellerId :: string
  of_pricePerTonne :: jsnum
  of_amount :: jsnum
  of_amountFilled :: jsnum
  of_currency :: string
  of_status :: offer_status
  of_expiresAt :: "int option"
  of_createdAt :: int

record trade =
  tr_id :: string
  tr_offerId :: string
  tr_buyerId :: string
  tr_amount :: jsnum
  tr_totalPrice :: jsnum
  tr_createdAt :: int
  tr_creditId :: string

record retirement =
  rt_id :: string
  rt_creditId :: string
  rt_retiredById :: string
  rt_beneficiary :: string
  rt_reason :: string
  rt_accountingPeriod :: string
  rt_tonnesRetired :: jsnum
  rt_txHash :: string
  rt_ledgerSequence :: int
  rt_timestamp :: int
  rt_certificateHash :: "string option"

record certificate =
  ce_id :: string
  ce_userId :: string
  ce_creditId :: string
  ce_txHash :: "string option"
  ce_metadata :: jsval
  ce_pdfUrl :: "string option"
  ce_certificateHash :: "string option"
  ce_createdAt :: int

record webhook =
  wh_id :: string
  wh_userId :: string
  wh_url :: string
  wh_secret :: string
  wh_events :: "string list"
  wh_active :: bool
  wh_createdAt :: int
  wh_updatedAt :: int

record delivery =
  de_id :: string
  de_webhookId :: string
  de_eventType :: string
  de_payload :: jsval
  de_success :: bool
  de_attempts :: nat
  de_statusCode :: "int option"
  de_durationMs :: int
  de_error :: "string option"
  de_createdAt :: int

record challenge =
  ch_id :: string
  ch_wallet :: string
  ch_transaction :: string
  ch_expiresAt :: int
  ch_usedAt :: "int option"
  ch_createdAt :: int

record bridge_record =
  br_id :: string
  br_creditId :: int
  br_sourceRegistry :: string
  br_sourceSerial :: string
  br_merkleRoot :: string
  br_status :: bridge_status
  br_bridgerId :: string
  br_txHash :: string
  br_timestamp :: int

section \<open>The state of the system\<close>

text \<open>
  The twelve tables; \<open>idseq\<close> counts the row ids generated so far; \<open>sent\<close> records the contract calls
  submitted to the network and \<open>emitted\<close> the events handed to the emitter, newest last.
\<close>

record world =
  users :: "user list"
  credits :: "credit list"
  approvals :: "approval list"
  verifiers :: "verifier list"
  offers :: "offer list"
  trades :: "trade list"
  retirements :: "retirement list"
  certificates :: "certificate list"
  webhooks :: "webhook list"
  deliveries :: "delivery list"
  challenges :: "challenge list"
  bridgeRecords :: "bridge_record list"
  idseq :: nat
  sent :: "contract_call list"
  emitted :: "(string \<times> jsval) list"

type_synonym 'a op = "(world, api_error, 'a) act"

definition emptyWorld :: world where
  "emptyWorld = \<lparr>users = [], credits = [], approvals = [], verifiers = [], offers = [],
     trades = [], retirements = [], certificates = [], webhooks = [], deliveries = [],
     challenges = [], bridgeRecords = [], idseq = 0, sent = [], emitted = []\<rparr>"

section \<open>Statements\<close>

definition freshId :: "env \<Rightarrow> string op" where
  "freshId E = (\<lambda>w. (Inr (cuid E (idseq w)), w\<lparr>idseq := idseq w + 1\<rparr>))"

text \<open>\<open>check\<close> gives the error code of a row that the database rejects.\<close>

definition dbInsert ::
  "(('r list \<Rightarrow> 'r list) \<Rightarrow> world \<Rightarrow> world) \<Rightarrow> (world \<Rightarrow> 'r \<Rightarrow> string option) \<Rightarrow> 'r \<Rightarrow> 'r op" where
  "dbInsert upd chk row = (\<lambda>w. case chk w row of
     Some c \<Rightarrow> (Inl (PrismaError c), w)
   | None \<Rightarrow> (Inr row, upd (\<lambda>rs. rs @ [row]) w))"

definition dbUpdate ::
  "(world \<Rightarrow> 'r list) \<Rightarrow> (('r list \<Rightarrow> 'r list) \<Rightarrow> world \<Rightarrow> world) \<Rightarrow> ('r \<Rightarrow> bool) \<Rightarrow> ('r \<Rightarrow> 'r) \<Rightarrow> 'r op"
where
  "dbUpdate get upd P f = (\<lambda>w. case List.find P (get w) of
     None \<Rightarrow> (Inl (PrismaError ''P2025''), w)
   | Some r \<Rightarrow> (Inr (f r), upd (updWhere P f) w))"

definition dbDelete ::
  "(world \<Rightarrow> 'r list) \<Rightarrow> (('r list \<Rightarrow> 'r list) \<Rightarrow> world \<Rightarrow> world) \<Rightarrow> ('r \<Rightarrow> bool) \<Rightarrow> 'r op"
where
  "dbDelete get upd P = (\<lambda>w. case List.find P (get w) of
     None \<Rightarrow> (Inl (PrismaError ''P2025''), w)
   | Some r \<Rightarrow> (Inr r, upd (filter (\<lambda>x. \<not> P x)) w))"

text \<open>A statement with a number column: the client rejects what the database cannot store.\<close>

definition floatArg :: "env \<Rightarrow> jsnum \<Rightarrow> unit op" where
  "floatArg E x = (case dbFloat E x of Inl m \<Rightarrow> throw (PrismaError m) | Inr _ \<Rightarrow> ret ())"

text \<open>\<open>orderBy\<close>; rows with equal keys keep the order in which they were inserted.\<close>

definition descBy :: "('r \<Rightarrow> int) \<Rightarrow> 'r list \<Rightarrow> 'r list" where
  "descBy k rs = sortBy (\<lambda>x y. k x < k y) rs"

definition ascBy :: "('r \<Rightarrow> int) \<Rightarrow> 'r list \<Rightarrow> 'r list" where
  "ascBy k rs = sortBy (\<lambda>x y. k y < k x) rs"

lemma set_descBy [simp]: "set (descBy k rs) = set rs"
  and mset_descBy [simp]: "mset (descBy k rs) = mset rs"
  and length_descBy [simp]: "length (descBy k rs) = length rs"
  by (simp_all add: descBy_def)

lemma set_ascBy [simp]: "set (ascBy k rs) = set rs"
  and mset_ascBy [simp]: "mset (ascBy k rs) = mset rs"
  and length_ascBy [simp]: "length (ascBy k rs) = length rs"
  by (simp_all add: ascBy_def)

lemma sorted_descBy: "sorted_wrt (\<lambda>x y. k y \<le> k x) (descBy k rs)"
  using sorted_sortBy [of "\<lambda>x y. k x < k y" rs] by (simp add: descBy_def not_less)

lemma sorted_ascBy: "sorted_wrt (\<lambda>x y. k x \<le> k y) (ascBy k rs)"
  using sorted_sortBy [of "\<lambda>x y. k y < k x" rs] by (simp add: ascBy_def not_less)

lemma descBy_hd_upper: "descBy k rs = r # rest \<Longrightarrow> x \<in> set rs \<Longrightarrow> k x \<le> k r"
  using sorted_descBy [of k rs] set_descBy [of k rs] by auto

text \<open>A page of results with its totals.\<close>

record 'r page =
  pg_data :: "'r list"
  pg_total :: nat
  pg_page :: int
  pg_limit :: int
  pg_totalPages :: int

definition mkPage :: "int \<Rightarrow> int \<Rightarrow> 'r list \<Rightarrow> 'r page" where
  "mkPage page limit rows = \<lparr>pg_data = pageOf page limit rows, pg_total = length rows,
     pg_page = page, pg_limit = limit, pg_totalPages = ceilDiv (int (length rows)) limit\<rparr>"

lemma mkPage_partition:
  "0 < limit \<Longrightarrow>
   concat (map (\<lambda>p. pg_data (mkPage (int p) limit rows))
     [1..<Suc (nat (pg_totalPages (mkPage page limit rows)))]) = rows"
  unfolding mkPage_def page.simps by (rule concat_all_pages)

lemma mkPage_bounds: "0 \<le> limit \<Longrightarrow> int (length (pg_data (mkPage page limit rows))) \<le> limit"
  by (simp add: mkPage_def length_pageOf_le)

text \<open>An integer column takes an integral number of 32 bits.\<close>

definition intArg :: "jsnum \<Rightarrow> int op" where
  "intArg x = (case x of
     Fin r \<Rightarrow> (if r = of_int \<lfloor>r\<rfloor> \<and> - (2 ^ 31) \<le> r \<and> r < 2 ^ 31 then ret \<lfloor>r\<rfloor>
       else throw (PrismaError ''validation''))
   | _ \<Rightarrow> throw (PrismaError ''validation''))"

lemma intArg_InrD: "intArg x w = (Inr n, w') \<Longrightarrow> w' = w \<and> x = ofInt n"
  by (cases x) (auto simp: intArg_def ofInt_def split: if_splits)

lemma intArg_state: "intArg x w = (r, w') \<Longrightarrow> w' = w"
  by (cases x) (auto simp: intArg_def split: if_splits)

text \<open>A date argument that does not parse is rejected by the database client.\<close>

definition dateArg :: "env \<Rightarrow> string \<Rightarrow> int op" where
  "dateArg E s = orThrow (dateParse E s) (PrismaError ''validation'')"

text \<open>\<open>new Date(n)\<close> of a number: invalid outside 8.64e15 milliseconds around the epoch.\<close>

definition timeClip :: "jsnum \<Rightarrow> int option" where
  "timeClip x = (case x of
     Fin r \<Rightarrow> (let t = (if 0 \<le> r then \<lfloor>r\<rfloor> else \<lceil>r\<rceil>) in if \<bar>r\<bar> \<le> 8640000000000000 then Some t else None)
   | _ \<Rightarrow> None)"

definition timeArg :: "jsnum \<Rightarrow> int op" where
  "timeArg x = orThrow (timeClip x) (PrismaError ''validation'')"

lemma timeArg_InrD: "timeArg x w = (Inr t, w') \<Longrightarrow> w' = w \<and> timeClip x = Some t"
  by (auto simp: timeArg_def dest: orThrow_InrD)

definition userExists :: "world \<Rightarrow> string \<Rightarrow> bool" where
  "userExists w i \<longleftrightarrow> i \<in> set (map u_id (users w))"

definition creditExists :: "world \<Rightarrow> string \<Rightarrow> bool" where
  "creditExists w i \<longleftrightarrow> i \<in> set (map cr_id (credits w))"

definition firstFail :: "(bool \<times> string) list \<Rightarrow> string option" where
  "firstFail cs = map_option snd (List.find fst cs)"

definition userById :: "world \<Rightarrow> string \<Rightarrow> user option" where
  "userById w i = List.find (\<lambda>u. u_id u = i) (users w)"

definition creditByNumber :: "world \<Rightarrow> int \<Rightarrow> credit option" where
  "creditByNumber w n = List.find (\<lambda>c. cr_creditId c = n) (credits w)"

definition userCheck :: "world \<Rightarrow> user \<Rightarrow> string option" where
  "userCheck w r = firstFail [
     (u_id r \<in> set (map u_id (users w)), ''P2002''),
     (u_stellarPub r \<in> set (map u_stellarPub (users w)), ''P2002'')]"

definition creditCheck :: "world \<Rightarrow> credit \<Rightarrow> string option" where
  "creditCheck w r = firstFail [
     (cr_id r \<in> set (map cr_id (credits w)), ''P2002''),
     (cr_creditId r \<in> set (map cr_creditId (credits w)), ''P2002''),
     (\<not> userExists w (cr_issuerId r) \<or> \<not> userExists w (cr_ownerId r), ''P2003'')]"

definition approvalCheck :: "world \<Rightarrow> approval \<Rightarrow> string option" where
  "approvalCheck w r = firstFail [
     (ap_id r \<in> set (map ap_id (approvals w)), ''P2002''),
     (\<not> creditExists w (ap_creditId r) \<or> \<not> userExists w (ap_verifierId r), ''P2003'')]"

definition verifierCheck :: "world \<Rightarrow> verifier \<Rightarrow> string option" where
  "verifierCheck w r = firstFail [
     (ve_id r \<in> set (map ve_id (verifiers w)), ''P2002''),
     (\<not> userExists w (ve_userId r), ''P2003'')]"

definition offerCheck :: "world \<Rightarrow> offer \<Rightarrow> string option" where
  "offerCheck w r = firstFail [
     (of_id r \<in> set (map of_id (offers w)), ''P2002''),
     (of_offerId r \<in> set (map of_offerId (offers w)), ''P2002''),
     (\<not> creditExists w (of_creditId r) \<or> \<not> userExists w (of_sellerId r), ''P2003'')]"

definition tradeCheck :: "world \<Rightarrow> trade \<Rightarrow> string option" where
  "tradeCheck w r = firstFail [
     (tr_id r \<in> set (map tr_id (trades w)), ''P2002''),
     (tr_offerId r \<notin> set (map of_id (offers w)) \<or> \<not> userExists w (tr_buyerId r)
        \<or> \<not> creditExists w (tr_creditId r), ''P2003'')]"

definition retirementCheck :: "world \<Rightarrow> retirement \<Rightarrow> string option" where
  "retirementCheck w r = firstFail [
     (rt_id r \<in> set (map rt_id (retirements w)), ''P2002''),
     (\<not> creditExists w (rt_creditId r), ''P2003'')]"

definition certificateCheck :: "world \<Rightarrow> certificate \<Rightarrow> string option" where
  "certificateCheck w r = firstFail [
     (ce_id r \<in> set (map ce_id (certificates w)), ''P2002''),
     (\<not> userExists w (ce_userId r), ''P2003'')]"

definition webhookCheck :: "world \<Rightarrow> webhook \<Rightarrow> string option" where
  "webhookCheck w r = firstFail [
     (wh_id r \<in> set (map wh_id (webhooks w)), ''P2002''),
     (\<not> userExists w (wh_userId r), ''P2003'')]"

definition deliveryCheck :: "world \<Rightarrow> delivery \<Rightarrow> string option" where
  "deliveryCheck w r = firstFail [
     (de_id r \<in> set (map de_id (deliveries w)), ''P2002''),
     (de_webhookId r \<notin> set (map wh_id (webhooks w)), ''P2003'')]"

definition challengeCheck :: "world \<Rightarrow> challenge \<Rightarrow> string option" where
  "challengeCheck w r = firstFail [
     (ch_id r \<in> set (map ch_id (challenges w)), ''P2002''),
     (ch_transaction r \<in> set (map ch_transaction (challenges w)), ''P2002'')]"

definition brKey :: "bridge_record \<Rightarrow> string \<times> string" where
  "brKey r = (br_sourceRegistry r, br_sourceSerial r)"

definition bridgeCheck :: "world \<Rightarrow> bridge_record \<Rightarrow> string option" where
  "bridgeCheck w r = firstFail [
     (br_id r \<in> set (map br_id (bridgeRecords w)), ''P2002''),
     (brKey r \<in> set (map brKey (bridgeRecords w)), ''P2002''),
     (\<not> userExists w (br_bridgerId r), ''P2003'')]"

lemma firstFail_None [simp]: "firstFail [] = None"
  by (simp add: firstFail_def)

lemma firstFail_Cons [simp]: "firstFail ((b, c) # cs) = (if b then Some c else firstFail cs)"
  by (simp add: firstFail_def)

lemmas check_defs = userCheck_def creditCheck_def approvalCheck_def verifierCheck_def
  offerCheck_def tradeCheck_def retirementCheck_def certificateCheck_def webhookCheck_def
  deliveryCheck_def challengeCheck_def bridgeCheck_def

lemma freshId_apply [act_simps]:
  "freshId E w = (Inr (cuid E (idseq w)), w\<lparr>idseq := idseq w + 1\<rparr>)"
  by (simp add: freshId_def)

lemma floatArg_apply [act_simps]:
  "floatArg E x w = (case dbFloat E x of Inl m \<Rightarrow> Inl (PrismaError m) | Inr _ \<Rightarrow> Inr (), w)"
  by (simp add: floatArg_def split: sum.splits)

section \<open>The laws of a table\<close>

locale table =
  fixes get :: "world \<Rightarrow> 'r list"
    and upd :: "('r list \<Rightarrow> 'r list) \<Rightarrow> world \<Rightarrow> world"
  assumes get_upd [simp]: "get (upd f w) = f (get w)"
begin

lemma insert_InrD:
  "dbInsert upd chk row w = (Inr r, w') \<Longrightarrow>
   r = row \<and> chk w row = None \<and> w' = upd (\<lambda>rs. rs @ [row]) w \<and> get w' = get w @ [row]"
  by (auto simp: dbInsert_def split: option.splits)

lemma insert_InlD:
  "dbInsert upd chk row w = (Inl e, w') \<Longrightarrow> w' = w \<and> (\<exists>c. chk w row = Some c \<and> e = PrismaError c)"
  by (auto simp: dbInsert_def split: option.splits)

lemma update_InrD:
  "dbUpdate get upd P f w = (Inr r, w') \<Longrightarrow>
   (\<exists>x. x \<in> set (get w) \<and> P x \<and> r = f x \<and> List.find P (get w) = Some x) \<and>
   w' = upd (updWhere P f) w \<and> get w' = updWhere P f (get w)"
  by (auto simp: dbUpdate_def split: option.splits dest: find_SomeD)

lemma update_InlD:
  "dbUpdate get upd P f w = (Inl e, w') \<Longrightarrow>
   w' = w \<and> e = PrismaError ''P2025'' \<and> (\<forall>x \<in> set (get w). \<not> P x)"
  by (auto simp: dbUpdate_def split: option.splits dest: find_NoneD)

lemma preserves_insert:
  "(\<And>w. chk w row = None \<Longrightarrow> I w \<Longrightarrow> I (upd (\<lambda>rs. rs @ [row]) w)) \<Longrightarrow>
   preserves I (dbInsert upd chk row)"
  by (auto simp: preserves_def relates_def dbInsert_def split: option.splits)

lemma preserves_update:
  "(\<And>w. I w \<Longrightarrow> I (upd (updWhere P f) w)) \<Longrightarrow> preserves I (dbUpdate get upd P f)"
  by (auto simp: preserves_def relates_def dbUpdate_def split: option.splits)

lemma preserves_delete:
  "(\<And>w. I w \<Longrightarrow> I (upd (filter (\<lambda>x. \<not> P x)) w)) \<Longrightarrow> preserves I (dbDelete get upd P)"
  by (auto simp: preserves_def relates_def dbDelete_def split: option.splits)

lemma relates_insert:
  "(\<And>w. R w w) \<Longrightarrow> (\<And>w. chk w row = None \<Longrightarrow> R w (upd (\<lambda>rs. rs @ [row]) w)) \<Longrightarrow>
   relates R (dbInsert upd chk row)"
  by (auto simp: relates_def dbInsert_def split: option.splits)

lemma relates_update:
  "(\<And>w. R w w) \<Longrightarrow> (\<And>w. R w (upd (updWhere P f) w)) \<Longrightarrow> relates R (dbUpdate get upd P f)"
  by (auto simp: relates_def dbUpdate_def split: option.splits)

lemma relates_delete:
  "(\<And>w. R w w) \<Longrightarrow> (\<And>w. R w (upd (filter (\<lambda>x. \<not> P x)) w)) \<Longrightarrow> relates R (dbDelete get upd P)"
  by (auto simp: relates_def dbDelete_def split: option.splits)

lemma keeps_insert: "(\<And>g w. p (upd g w) = p w) \<Longrightarrow> keeps p (dbInsert upd chk row)"
  unfolding keeps_def by (rule relates_insert) simp_all

lemma keeps_update: "(\<And>g w. p (upd g w) = p w) \<Longrightarrow> keeps p (dbUpdate get upd P f)"
  unfolding keeps_def by (rule relates_update) simp_all

lemma keeps_delete: "(\<And>g w. p (upd g w) = p w) \<Longrightarrow> keeps p (dbDelete get upd P)"
  unfolding keeps_def by (rule relates_delete) simp_all

lemma keeps_map_update:
  "(\<And>x. P x \<Longrightarrow> k (f x) = k x) \<Longrightarrow> keeps (\<lambda>w. map k (get w)) (dbUpdate get upd P f)"
  unfolding keeps_def by (rule relates_update) (simp_all add: map_updWhere_same)

end

interpretation userT: table users users_update by (rule table.intro) simp
interpretation creditT: table credits credits_update by (rule table.intro) simp
interpretation approvalT: table approvals approvals_update by (rule table.intro) simp
interpretation verifierT: table verifiers verifiers_update by (rule table.intro) simp
interpretation offerT: table offers offers_update by (rule table.intro) simp
interpretation tradeT: table trades trades_update by (rule table.intro) simp
interpretation retirementT: table retirements retirements_update by (rule table.intro) simp
interpretation certificateT: table certificates certificates_update by (rule table.intro) simp
interpretation webhookT: table webhooks webhooks_update by (rule table.intro) simp
interpretation deliveryT: table deliveries deliveries_update by (rule table.intro) simp
interpretation challengeT: table challenges challenges_update by (rule table.intro) simp
interpretation bridgeT: table bridgeRecords bridgeRecords_update by (rule table.intro) simp

lemmas keeps_insert_rules [act_intros] =
  userT.keeps_insert creditT.keeps_insert approvalT.keeps_insert verifierT.keeps_insert
  offerT.keeps_insert tradeT.keeps_insert retirementT.keeps_insert certificateT.keeps_insert
  webhookT.keeps_insert deliveryT.keeps_insert challengeT.keeps_insert bridgeT.keeps_insert

lemmas keeps_update_rules [act_intros] =
  userT.keeps_update creditT.keeps_update approvalT.keeps_update verifierT.keeps_update
  offerT.keeps_update tradeT.keeps_update retirementT.keeps_update certificateT.keeps_update
  webhookT.keeps_update deliveryT.keeps_update challengeT.keeps_update bridgeT.keeps_update

lemma keeps_freshId [act_intros]: "(\<And>n w. p (w\<lparr>idseq := n\<rparr>) = p w) \<Longrightarrow> keeps p (freshId E)"
  by (simp add: keeps_def relates_def freshId_def)

lemma keeps_floatArg [act_intros]: "keeps p (floatArg E x)"
  by (simp add: keeps_def relates_def floatArg_apply)

lemma preserves_floatArg [act_intros]: "preserves I (floatArg E x)"
  by (simp add: preserves_def relates_def floatArg_apply)

section \<open>Optional arguments\<close>

definition orElse :: "'a option \<Rightarrow> 'a \<Rightarrow> 'a" where
  "orElse x d = (case x of None \<Rightarrow> d | Some v \<Rightarrow> v)"

text \<open>\<open>if (filters.x)\<close>: an absent, empty or zero filter puts no condition.\<close>

definition given :: "string option \<Rightarrow> string option" where
  "given s = (case s of Some t \<Rightarrow> (if t = [] then None else Some t) | None \<Rightarrow> None)"

definition givenInt :: "int option \<Rightarrow> int option" where
  "givenInt n = (case n of Some k \<Rightarrow> (if k = 0 then None else Some k) | None \<Rightarrow> None)"

definition when_given :: "'a option \<Rightarrow> ('a \<Rightarrow> bool) \<Rightarrow> bool" where
  "when_given x P = (case x of None \<Rightarrow> True | Some v \<Rightarrow> P v)"

definition optText :: "string option \<Rightarrow> jsval" where
  "optText s = (case s of None \<Rightarrow> JUndef | Some t \<Rightarrow> JStr t)"

definition hasPub :: "world \<Rightarrow> string \<Rightarrow> string \<Rightarrow> bool" where
  "hasPub w i pub \<longleftrightarrow> (case userById w i of None \<Rightarrow> False | Some u \<Rightarrow> u_stellarPub u = pub)"

lemma dateArg_InrD: "dateArg E s w = (Inr d, w') \<Longrightarrow> w' = w \<and> dateParse E s = Some d"
  by (auto simp: dateArg_def dest: orThrow_InrD)

lemma floatArg_InrD: "floatArg E x w = (Inr u, w') \<Longrightarrow> w' = w \<and> dbFloat E x = Inr ()"
  by (auto simp: floatArg_apply split: sum.splits)


end
