(* ===== verification/Demo.thy ===== *)
theory Demo
  imports Schema
begin

text \<open>
  A concrete environment and a concrete state, at which the properties with hypotheses are
  instantiated: a network that settles every call at the first poll, and a registry with an issuer,
  two active verifiers, a pending and an active credit, an open offer and a webhook.
\<close>

section \<open>Environment\<close>

fun demoNative :: "scval \<Rightarrow> jsval" where
  "demoNative (ScAddress a) = JStr a"
| "demoNative (ScString s) = JStr s"
| "demoNative (ScU32 n) = JNum (ofInt n)"
| "demoNative (ScU64 n) = JBig n"
| "demoNative (ScI128 n) = JBig n"
| "demoNative (ScBool b) = JBool b"
| "demoNative (ScBytes b) = JBuf b"
| "demoNative (ScVec vs) = JArr (map demoNative vs)"
| "demoNative ScVoid = JNull"

fun demoI128 :: "jsnum \<Rightarrow> string + int" where
  "demoI128 (Fin r) = (if r = of_int \<lfloor>r\<rfloor> then Inr \<lfloor>r\<rfloor> else Inl ''not an integer'')"
| "demoI128 _ = Inl ''not an integer''"

fun demoFloat :: "jsnum \<Rightarrow> string + unit" where
  "demoFloat (Fin r) = Inr ()"
| "demoFloat _ = Inl ''validation''"

definition demoConf :: "(string \<times> string) list" where
  "demoConf = [(''STELLAR_ADMIN_SECRET_KEY'', ''SA''), (''STELLAR_VERIFIER_SECRET_KEY'', ''SV''),
     (''CREDIT_REGISTRY_CONTRACT'', ''C1''), (''MARKETPLACE_CONTRACT'', ''C2''),
     (''RETIREMENT_TRACKER_CONTRACT'', ''C3''), (''VERIFIER_STAKE_CONTRACT'', ''C4''),
     (''MERKLE_BRIDGE_CONTRACT'', ''C5''), (''REVENUE_SPLIT_CONTRACT'', ''C6''),
     (''ADMIN_WALLETS'', ''GADMIN'')]"

definition demoReturn :: "string \<Rightarrow> scval" where
  "demoReturn m = (if m = ''approve_and_mint'' then ScVec [ScString ''token-1'']
     else if m = ''bridge_in'' then ScU64 7 else if m = ''create_offer'' then ScU64 3
     else ScBool True)"

definition demoEnv :: env where
  "demoEnv = \<lparr>conf = map_of demoConf, clock = 1700000000000,
     cuid = (\<lambda>n. replicate (Suc n) CHR ''x''),
     dateParse = (\<lambda>s. if s = [] then None else Some 1672531200000),
     randomHex = (\<lambda>n. replicate (2 * n) CHR ''a''),
     hmacSha256 = (\<lambda>k m. ''mac''), sha256 = (\<lambda>m. ''digest''),
     httpPost = (\<lambda>url body sig n. if n < 2 then Inr 503 else Inr 200),
     httpMs = (\<lambda>url body n. 12),
     isValidPub = (\<lambda>s. case s of [] \<Rightarrow> False | c # _ \<Rightarrow> c = CHR ''G''),
     u64Of = (\<lambda>n. if 0 \<le> n then Inr n else Inl ''negative''), i128Of = demoI128,
     toNative = demoNative,
     keyFromSecret = (\<lambda>s. if s = ''SV'' then Inr ''GVERIF'' else Inr ''GADMIN''),
     mkContract = (\<lambda>s. Inr ()), rpcAccount = (\<lambda>s. Inr ()),
     rpcSend = (\<lambda>c. Inr \<lparr>sr_status = ''PENDING'', sr_hash = cc_method c, sr_errorResult = None\<rparr>),
     rpcTx = (\<lambda>h n. Inr \<lparr>tx_status = ''SUCCESS'', tx_resultXdr = None,
        tx_returnValue = Some (demoReturn h)\<rparr>),
     rpcDelay = (\<lambda>h n. 0), rpcSimulate = (\<lambda>c. Inr (SimResult (Some (ScBool (cc_method c \<noteq> ''is_retired''))))),
     rpcLatest = Inr (1, ''ab''), dbFloat = demoFloat\<rparr>"

section \<open>State\<close>

definition demoUser :: "string \<Rightarrow> string \<Rightarrow> user" where
  "demoUser i pub = \<lparr>u_id = i, u_stellarPub = pub, u_createdAt = 0\<rparr>"

definition demoCredit :: "string \<Rightarrow> int \<Rightarrow> credit_status \<Rightarrow> credit" where
  "demoCredit i n st = \<lparr>cr_id = i, cr_creditId = n, cr_projectId = ''P1'',
     cr_methodology = ''VCS:VM0007'', cr_vintageStart = 0, cr_vintageEnd = 1,
     cr_tonnes = ofInt 100, cr_geography = ''BR'', cr_serialPrefix = ''P1-VCSVM0-'',
     cr_sdgFlags = 1, cr_permanenceRating = 50, cr_bufferContributionPct = 10,
     cr_additionalityType = 0, cr_ipfsHash = ''cid'', cr_status = st, cr_tokenId = None,
     cr_createdAt = n, cr_updatedAt = n, cr_issuerId = ''u1'', cr_ownerId = ''u1''\<rparr>"

definition demoVerifier :: "string \<Rightarrow> string \<Rightarrow> verifier" where
  "demoVerifier i uid = \<lparr>ve_id = i, ve_userId = uid, ve_status = VActive, ve_stake = ofInt 1,
     ve_reputation = 100, ve_heartbeatAt = None, ve_createdAt = 0\<rparr>"

definition demoWorld :: world where
  "demoWorld = emptyWorld\<lparr>
     users := [demoUser ''u1'' ''GISSUER'', demoUser ''v1'' ''GV1'', demoUser ''v2'' ''GV2''],
     credits := [demoCredit ''c1'' 1 CPending, demoCredit ''c2'' 2 CActive],
     approvals := [\<lparr>ap_id = ''a1'', ap_creditId = ''c1'', ap_verifierId = ''v2'',
        ap_approved = True, ap_comments = None, ap_createdAt = 5\<rparr>],
     verifiers := [demoVerifier ''r1'' ''v1'', demoVerifier ''r2'' ''v2''],
     offers := [\<lparr>of_id = ''o1'', of_offerId = 1, of_creditId = ''c2'', of_sellerId = ''u1'',
        of_pricePerTonne = ofInt 5, of_amount = ofInt 40, of_amountFilled = ofInt 0,
        of_currency = ''GUSDC'', of_status = OActive, of_expiresAt = None, of_createdAt = 3\<rparr>],
     webhooks := [\<lparr>wh_id = ''w1'', wh_userId = ''u1'', wh_url = ''http://x'', wh_secret = ''s'',
        wh_events = [''credit.approved''], wh_active = True, wh_createdAt = 0,
        wh_updatedAt = 0\<rparr>]\<rparr>"

end
