(* ===== verification/Scval.thy ===== *)
theory Scval
  imports Environment
begin

text \<open>
  \<open>api/src/stellar/scval.ts\<close>: the encoders of contract-call arguments and the decoders of contract
  results.  An encoder returns \<open>Inl\<close> of the exception it throws.  The SDK constructors that may
  reject a value (\<open>Uint64.fromString\<close>, \<open>ScInt\<close>, the key check) are parameters of the environment.
\<close>

section \<open>Hexadecimal text\<close>

definition hexByte :: "8 word \<Rightarrow> string" where
  "hexByte b = [hexDigit (unat b div 16), hexDigit (unat b mod 16)]"

definition bytesToHex :: "8 word list \<Rightarrow> string" where
  "bytesToHex bs = concat (map hexByte bs)"

fun hexPairs :: "string \<Rightarrow> 8 word list option" where
  "hexPairs [] = Some []"
| "hexPairs (h # l # cs) = (case (hexVal h, hexVal l, hexPairs cs) of
     (Some a, Some b, Some bs) \<Rightarrow> Some (word_of_nat (16 * a + b) # bs) | _ \<Rightarrow> None)"
| "hexPairs [c] = None"

definition hexToBytes :: "string \<Rightarrow> api_error + 8 word list" where
  "hexToBytes hex = (case hexPairs hex of
     None \<Rightarrow> Inl (JsError (''Invalid hex string: '' @ hex))
   | Some bs \<Rightarrow> Inr bs)"

lemma hexVal_hexDigit: "n < 16 \<Longrightarrow> hexVal (hexDigit n) = Some n"
proof -
  assume "n < 16"
  then have "n \<in> set [0..<16]" by simp
  moreover have "\<forall>n \<in> set [0..<16]. hexVal (hexDigit n) = Some n" by code_simp
  ultimately show ?thesis by blast
qed

lemma hexPairs_bytesToHex: "hexPairs (bytesToHex bs) = Some bs"
proof (induction bs)
  case Nil
  then show ?case by (simp add: bytesToHex_def)
next
  case (Cons b bs)
  have "unat b < 256" using unsigned_less [of b] by simp
  then have "unat b div 16 < 16" "unat b mod 16 < 16" by auto
  then have "hexVal (hexDigit (unat b div 16)) = Some (unat b div 16)"
    and "hexVal (hexDigit (unat b mod 16)) = Some (unat b mod 16)"
    by (simp_all add: hexVal_hexDigit)
  moreover have "16 * (unat b div 16) + unat b mod 16 = unat b" by simp
  ultimately show ?case using Cons by (simp add: bytesToHex_def hexByte_def)
qed

lemma hexPairs_length: "hexPairs s = Some bs \<Longrightarrow> length s = 2 * length bs"
  by (induction s arbitrary: bs rule: hexPairs.induct) (auto split: option.splits)

section \<open>Encoders\<close>

definition scAddress :: "env \<Rightarrow> string \<Rightarrow> api_error + scval" where
  "scAddress E addr = (if \<not> isValidPub E addr
     then Inl (JsError (''Invalid Stellar address: '' @ addr)) else Inr (ScAddress addr))"

definition scString :: "string \<Rightarrow> scval" where
  "scString s = ScString s"

definition scU32 :: "jsnum \<Rightarrow> api_error + scval" where
  "scU32 v = (if \<not> isInteger v \<or> num_lt v (Fin 0)
     then Inl (JsError (''Invalid u32 value: '' @ num_to_string v))
     else (case v of Fin r \<Rightarrow> Inr (ScU32 \<lfloor>r\<rfloor>) | _ \<Rightarrow> Inl (JsError [])))"

definition scU64 :: "env \<Rightarrow> jsnum \<Rightarrow> api_error + scval" where
  "scU64 E v = (if \<not> isInteger v
     then Inl (JsError (''Invalid u64 value: '' @ num_to_string v))
     else (case v of Fin r \<Rightarrow> bindS (fromSdk (u64Of E \<lfloor>r\<rfloor>)) (\<lambda>n. Inr (ScU64 n))
                   | _ \<Rightarrow> Inl (JsError [])))"

definition scI128 :: "env \<Rightarrow> jsnum \<Rightarrow> api_error + scval" where
  "scI128 E v = bindS (fromSdk (i128Of E v)) (\<lambda>n. Inr (ScI128 n))"

definition scBool :: "bool \<Rightarrow> scval" where
  "scBool b = ScBool b"

definition scBytes32 :: "string \<Rightarrow> api_error + scval" where
  "scBytes32 hex = bindS (hexToBytes hex) (\<lambda>buf.
     if length buf \<noteq> 32
     then Inl (JsError (''BytesN<32> requires 32 bytes, got '' @ showNat (length buf)))
     else Inr (ScBytes buf))"

definition scOptionU64 :: "env \<Rightarrow> jsnum option \<Rightarrow> api_error + scval" where
  "scOptionU64 E v = (case v of
     None \<Rightarrow> Inr (ScVec []) | Some n \<Rightarrow> bindS (scU64 E n) (\<lambda>s. Inr (ScVec [s])))"

definition scStruct :: "scval list \<Rightarrow> scval" where
  "scStruct fs = ScVec fs"

definition scVec :: "scval list \<Rightarrow> scval" where
  "scVec es = ScVec es"

definition scOptionString :: "string option \<Rightarrow> scval" where
  "scOptionString v = (case v of None \<Rightarrow> ScVec [] | Some s \<Rightarrow> ScVec [scString s])"

definition scOptionI128 :: "env \<Rightarrow> jsnum option \<Rightarrow> api_error + scval" where
  "scOptionI128 E v = (case v of
     None \<Rightarrow> Inr (ScVec []) | Some n \<Rightarrow> bindS (scI128 E n) (\<lambda>s. Inr (ScVec [s])))"

definition scVecBytes32 :: "string list \<Rightarrow> api_error + scval" where
  "scVecBytes32 hs = bindS (mapS scBytes32 hs) (\<lambda>vs. Inr (ScVec vs))"

section \<open>Credit metadata\<close>

definition METADATA_FIELDS :: "string list" where
  "METADATA_FIELDS = [''projectId'', ''methodology'', ''vintageStart'', ''vintageEnd'', ''tonnes'',
     ''geography'', ''serialPrefix'', ''sdgFlags'', ''permanenceRating'', ''bufferContributionPct'',
     ''additionalityType'', ''ipfsHash'', ''status'', ''createdAt'', ''tokenId'']"

record metadata_input =
  mi_projectId :: "string option"
  mi_methodology :: "string option"
  mi_vintageStart :: "jsnum option"
  mi_vintageEnd :: "jsnum option"
  mi_tonnes :: "jsnum option"
  mi_geography :: "string option"
  mi_serialPrefix :: "string option"
  mi_sdgFlags :: "jsnum option"
  mi_permanenceRating :: "jsnum option"
  mi_bufferContributionPct :: "jsnum option"
  mi_additionalityType :: "jsnum option"
  mi_ipfsHash :: "string option"
  mi_status :: "jsnum option"
  mi_createdAt :: "jsnum option"
  mi_tokenId :: "string option"

definition orEmpty :: "string option \<Rightarrow> string" where
  "orEmpty s = (case s of None \<Rightarrow> [] | Some t \<Rightarrow> t)"

definition orZero :: "jsnum option \<Rightarrow> jsnum" where
  "orZero x = (case x of None \<Rightarrow> ofInt 0 | Some v \<Rightarrow> v)"

definition zero32 :: "8 word list" where
  "zero32 = replicate 32 0"

text \<open>The fields are encoded in the order in which the argument list evaluates them.\<close>

definition toCreditMetadataScVal :: "env \<Rightarrow> metadata_input \<Rightarrow> api_error + scval" where
  "toCreditMetadataScVal E m =
     bindS (scU64 E (orZero (mi_vintageStart m))) (\<lambda>vs.
     bindS (scU64 E (orZero (mi_vintageEnd m))) (\<lambda>ve.
     bindS (scI128 E (orZero (mi_tonnes m))) (\<lambda>tn.
     bindS (scU32 (orZero (mi_sdgFlags m))) (\<lambda>sdg.
     bindS (scU32 (orZero (mi_permanenceRating m))) (\<lambda>pr.
     bindS (scU32 (orZero (mi_bufferContributionPct m))) (\<lambda>bc.
     bindS (scU32 (orZero (mi_additionalityType m))) (\<lambda>ad.
     bindS (scU32 (orZero (mi_status m))) (\<lambda>st.
     bindS (scU64 E (orZero (mi_createdAt m))) (\<lambda>ca.
     bindS (case mi_tokenId m of
              Some t \<Rightarrow> (if t \<noteq> [] then scBytes32 t else Inr (ScBytes zero32))
            | None \<Rightarrow> Inr (ScBytes zero32)) (\<lambda>tok.
     Inr (scStruct [
       scString (orEmpty (mi_projectId m)), scString (orEmpty (mi_methodology m)), vs, ve, tn,
       scString (orEmpty (mi_geography m)), scString (orEmpty (mi_serialPrefix m)),
       sdg, pr, bc, ad, scString (orEmpty (mi_ipfsHash m)), st, ca, tok])))))))))))"

section \<open>Decoders\<close>

definition APPROVAL_FIELDS :: "string list" where
  "APPROVAL_FIELDS = [''verifier'', ''approved'', ''timestamp'', ''comments'']"

definition OFFER_FIELDS :: "string list" where
  "OFFER_FIELDS = [''offerId'', ''seller'', ''creditId'', ''pricePerTonne'', ''amount'', ''filled'',
     ''currency'', ''expiry'', ''createdAt'', ''status'']"

definition RETIREMENT_FIELDS :: "string list" where
  "RETIREMENT_FIELDS = [''creditId'', ''retiredBy'', ''beneficiary'', ''reason'',
     ''accountingPeriod'', ''tonnesRetired'', ''txHash'', ''ledgerSequence'', ''timestamp'',
     ''certificateHash'']"

definition VERIFIER_FIELDS :: "string list" where
  "VERIFIER_FIELDS = [''address'', ''totalStaked'', ''reputationScore'', ''approvalCount'',
     ''rejectionCount'', ''lastHeartbeat'', ''registeredAt'']"

definition REGISTRY_ROOT_FIELDS :: "string list" where
  "REGISTRY_ROOT_FIELDS = [''root'', ''blockHeight'', ''updatedAt'']"

definition REVENUE_CONFIG_FIELDS :: "string list" where
  "REVENUE_CONFIG_FIELDS = [''projectId'', ''beneficiaries'', ''protocolFeeBps'']"

definition CONFIG_FIELDS :: "string list" where
  "CONFIG_FIELDS = [''admin'', ''verifierThreshold'', ''verifierQuorum'', ''approvalWindow'',
     ''protocolFeeBps'', ''bufferPoolPct'']"

text \<open>\<open>zipNativeFields\<close>: every field name gets a value, undefined when the array is too short.\<close>

fun zipNativeFields :: "string list \<Rightarrow> jsval list \<Rightarrow> (string \<times> jsval) list" where
  "zipNativeFields [] vs = []"
| "zipNativeFields (n # ns) [] = (n, JUndef) # zipNativeFields ns []"
| "zipNativeFields (n # ns) (v # vs) = (n, v) # zipNativeFields ns vs"

fun typeOf :: "jsval \<Rightarrow> string" where
  "typeOf JUndef = ''undefined''"
| "typeOf (JBool b) = ''boolean''"
| "typeOf (JNum x) = ''number''"
| "typeOf (JBig n) = ''bigint''"
| "typeOf (JStr s) = ''string''"
| "typeOf v = ''object''"

definition decodeStruct :: "env \<Rightarrow> string list \<Rightarrow> scval \<Rightarrow> api_error + jsval" where
  "decodeStruct E fs sv = (case toNative E sv of
     JArr vs \<Rightarrow> Inr (JObj (zipNativeFields fs vs))
   | v \<Rightarrow> Inl (JsError (''Expected struct Vec, got '' @ typeOf v)))"

definition decodeCreditMetadata :: "env \<Rightarrow> scval \<Rightarrow> api_error + jsval" where
  "decodeCreditMetadata E sv = decodeStruct E METADATA_FIELDS sv"

definition decodeApprovalRecord :: "env \<Rightarrow> scval \<Rightarrow> api_error + jsval" where
  "decodeApprovalRecord E sv = decodeStruct E APPROVAL_FIELDS sv"

definition decodeOffer :: "env \<Rightarrow> scval \<Rightarrow> api_error + jsval" where
  "decodeOffer E sv = decodeStruct E OFFER_FIELDS sv"

definition decodeRetirementRecord :: "env \<Rightarrow> scval \<Rightarrow> api_error + jsval" where
  "decodeRetirementRecord E sv = decodeStruct E RETIREMENT_FIELDS sv"

definition decodeVerifier :: "env \<Rightarrow> scval \<Rightarrow> api_error + jsval" where
  "decodeVerifier E sv = decodeStruct E VERIFIER_FIELDS sv"

definition decodeRegistryRoot :: "env \<Rightarrow> scval \<Rightarrow> api_error + jsval" where
  "decodeRegistryRoot E sv = decodeStruct E REGISTRY_ROOT_FIELDS sv"

definition decodeContractConfig :: "env \<Rightarrow> scval \<Rightarrow> api_error + jsval" where
  "decodeContractConfig E sv = decodeStruct E CONFIG_FIELDS sv"

definition elemOr :: "jsval list \<Rightarrow> nat \<Rightarrow> jsval" where
  "elemOr vs i = (if i < length vs then vs ! i else JUndef)"

definition decodeBeneficiary :: "jsval \<Rightarrow> jsval" where
  "decodeBeneficiary row = (let pair = (case row of JArr vs \<Rightarrow> vs | _ \<Rightarrow> []) in
     JObj [(''address'', JStr (jsString (coalesce (elemOr pair 0) (JStr [])))),
           (''bps'', JNum (jsNumber (coalesce (elemOr pair 1) (JNum (Fin 0)))))])"

definition decodeRevenueConfig :: "env \<Rightarrow> scval \<Rightarrow> api_error + jsval" where
  "decodeRevenueConfig E sv = bindS (decodeStruct E REVENUE_CONFIG_FIELDS sv) (\<lambda>d.
     Inr (JObj [
       (''projectId'', JStr (jsString (coalesce (getProp d ''projectId'') (JStr [])))),
       (''beneficiaries'', JArr (case getProp d ''beneficiaries'' of
          JArr rows \<Rightarrow> map decodeBeneficiary rows | _ \<Rightarrow> [])),
       (''protocolFeeBps'', (case getProp d ''protocolFeeBps'' of
          JBig n \<Rightarrow> JNum (num_of_int n) | v \<Rightarrow> v))]))"

fun bigintToNumber :: "jsval \<Rightarrow> jsval" where
  "bigintToNumber (JBig n) = JNum (num_of_int n)"
| "bigintToNumber v = v"

definition decodeOptionBytes32Hex :: "env \<Rightarrow> scval \<Rightarrow> string option" where
  "decodeOptionBytes32Hex E sv = (case toNative E sv of
     JNull \<Rightarrow> None
   | JArr vs \<Rightarrow> (case vs of [] \<Rightarrow> None | JBuf b # _ \<Rightarrow> Some (bytesToHex b) | _ # _ \<Rightarrow> None)
   | JBuf b \<Rightarrow> Some (bytesToHex b)
   | _ \<Rightarrow> None)"

section \<open>Lemmas\<close>

lemma scAddress_Inr_iff: "scAddress E a = Inr v \<longleftrightarrow> isValidPub E a \<and> v = ScAddress a"
  by (auto simp: scAddress_def)

lemma scU32_ofInt: "0 \<le> n \<Longrightarrow> scU32 (ofInt n) = Inr (ScU32 n)"
  by (simp add: scU32_def ofInt_def)

lemma scU32_negative: "n < 0 \<Longrightarrow> \<exists>m. scU32 (ofInt n) = Inl (JsError m)"
  by (simp add: scU32_def ofInt_def)

lemma scU64_ofInt: "scU64 E (ofInt n) = bindS (fromSdk (u64Of E n)) (\<lambda>k. Inr (ScU64 k))"
  by (simp add: scU64_def ofInt_def)

lemma scBytes32_Inr: "scBytes32 h = Inr v \<Longrightarrow> length h = 64 \<and> (\<exists>b. v = ScBytes b \<and> length b = 32)"
  by (auto simp: scBytes32_def hexToBytes_def bindS_Inr_iff hexPairs_length
      split: option.splits if_splits)

lemma map_fst_zipNativeFields [simp]: "map fst (zipNativeFields fs vs) = fs"
  by (induction fs vs rule: zipNativeFields.induct) auto

lemma zipNativeFields_nth:
  "distinct fs \<Longrightarrow> i < length fs \<Longrightarrow>
   map_of (zipNativeFields fs vs) (fs ! i) = Some (elemOr vs i)"
proof (induction fs vs arbitrary: i rule: zipNativeFields.induct)
  case (1 vs)
  then show ?case by simp
next
  case (2 n ns)
  show ?case
  proof (cases i)
    case (Suc j)
    with 2 have "ns ! j \<noteq> n" by (metis distinct.simps(2) length_Cons not_less_eq nth_mem)
    with 2 Suc show ?thesis by (simp add: elemOr_def del: map_of_eq_Some_iff)
  qed (simp add: elemOr_def)
next
  case (3 n ns v vs)
  show ?case
  proof (cases i)
    case (Suc j)
    with 3 have "ns ! j \<noteq> n" by (metis distinct.simps(2) length_Cons not_less_eq nth_mem)
    with 3 Suc show ?thesis by (simp add: elemOr_def del: map_of_eq_Some_iff)
  qed (simp add: elemOr_def)
qed

lemma zipNativeFields_surplus:
  "zipNativeFields fs vs = zipNativeFields fs (take (length fs) vs)"
  by (induction fs vs rule: zipNativeFields.induct) auto

lemma toCreditMetadata_fields:
  assumes "toCreditMetadataScVal E m = Inr sv"
  shows "\<exists>fs. sv = ScVec fs \<and> length fs = length METADATA_FIELDS"
  using assms by (auto simp: toCreditMetadataScVal_def bindS_Inr_iff scStruct_def METADATA_FIELDS_def)

end
