(* ===== verification/SorobanClient.thy ===== *)
theory SorobanClient
  imports Demo Scval
begin

text \<open>
  \<open>api/src/stellar/soroban-client.ts\<close>: submitting a contract call and waiting for it to settle,
  and reading a contract by simulation.  \<open>sent\<close> grows by one call exactly when
  \<open>server.sendTransaction\<close> is reached.  The polling loop ends because every round sleeps for
  \<open>POLL_MS\<close>, so the clock passes the time-out.
\<close>

section \<open>Configuration\<close>

definition rpcUrl :: "env \<Rightarrow> string" where
  "rpcUrl E = confOr E ''SOROBAN_RPC_URL'' ''https://soroban-testnet.stellar.org''"

text \<open>\<open>Networks.TESTNET\<close> of the SDK is the passphrase of the public test network.\<close>

definition TESTNET :: string where
  "TESTNET = ''Test SDF Network ; September 2015''"

definition networkPassphrase :: "env \<Rightarrow> string" where
  "networkPassphrase E = confOr E ''STELLAR_NETWORK_PASSPHRASE'' TESTNET"

definition defaultFee :: "env \<Rightarrow> string" where
  "defaultFee E =
     (let parsed = (case confSet E ''STELLAR_TX_FEE'' of
                      Some raw \<Rightarrow> parseInt10 raw | None \<Rightarrow> ofInt 100000) in
      if isFinite parsed \<and> num_lt (ofInt 0) parsed then num_to_string parsed else ''100000'')"

definition getLatestLedger :: "env \<Rightarrow> api_error + (int \<times> string)" where
  "getLatestLedger E = fromSdk (rpcLatest E)"

section \<open>Waiting for a transaction\<close>

definition TIMEOUT_MS :: int where "TIMEOUT_MS = 30000"
definition POLL_MS :: int where "POLL_MS = 1500"

text \<open>\<open>Date.now() - started\<close> after the \<open>n\<close>-th poll: \<open>n\<close> sleeps and the time the calls took.\<close>

definition elapsed :: "env \<Rightarrow> string \<Rightarrow> nat \<Rightarrow> int" where
  "elapsed E h n = int n * POLL_MS + int (rpcDelay E h n)"

function waitLoop :: "env \<Rightarrow> string \<Rightarrow> nat \<Rightarrow> api_error + tx_response" where
  "waitLoop E h n = (case rpcTx E h n of
     Inl m \<Rightarrow> Inl (JsError m)
   | Inr tx \<Rightarrow>
       if tx_status tx = ''SUCCESS'' then Inr tx
       else if tx_status tx = ''FAILED'' then
         Inl (SorobanError (''Transaction '' @ h @ '' failed on-chain: '' @
           (case tx_resultXdr tx of None \<Rightarrow> ''no result XDR'' | Some x \<Rightarrow> x)))
       else if TIMEOUT_MS < elapsed E h n then
         Inl (SorobanError (''Timed out waiting for transaction '' @ h @ '' to settle''))
       else waitLoop E h (Suc n))"
  by pat_completeness auto
termination
  by (relation "measure (\<lambda>(E, h, n). nat (TIMEOUT_MS + 1 - int n * POLL_MS))")
     (auto simp: TIMEOUT_MS_def POLL_MS_def elapsed_def)

declare waitLoop.simps [simp del]

definition waitForReceipt :: "env \<Rightarrow> string \<Rightarrow> api_error + tx_response" where
  "waitForReceipt E h = waitLoop E h 0"

section \<open>State-changing calls\<close>

record invoke_receipt =
  ir_hash :: string
  ir_returnValue :: jsval

definition rpcSubmit :: "env \<Rightarrow> contract_call \<Rightarrow> send_response op" where
  "rpcSubmit E c = seqE (modifyE (\<lambda>w. w\<lparr>sent := sent w @ [c]\<rparr>)) (fromSum (fromSdk (rpcSend E c)))"

definition sorobanInvoke ::
  "env \<Rightarrow> string \<Rightarrow> string \<Rightarrow> scval list \<Rightarrow> string \<Rightarrow> string option \<Rightarrow> invoke_receipt op" where
  "sorobanInvoke E contractId method args signerSecret fee =
     bindE (fromSum (fromSdk (keyFromSecret E signerSecret))) (\<lambda>signer.
     seqE (fromSum (fromSdk (mkContract E contractId)))
    (seqE (fromSum (fromSdk (rpcAccount E signer)))
    (bindE (rpcSubmit E \<lparr>cc_contract = contractId, cc_method = method, cc_args = args,
        cc_source = signer, cc_fee = (case fee of None \<Rightarrow> defaultFee E | Some f \<Rightarrow> f),
        cc_network = networkPassphrase E\<rparr>) (\<lambda>send.
     if sr_status send = ''ERROR'' then
       throw (SorobanError (''Contract call '' @ method @ '' rejected: '' @
         (case sr_errorResult send of None \<Rightarrow> ''no error result'' | Some x \<Rightarrow> x)))
     else
       bindE (fromSum (waitForReceipt E (sr_hash send))) (\<lambda>receipt.
       ret \<lparr>ir_hash = sr_hash send,
            ir_returnValue = (case tx_returnValue receipt of
               None \<Rightarrow> JNull | Some v \<Rightarrow> toNative E v)\<rparr>)))))"

section \<open>Reads\<close>

definition sdkAccount :: "env \<Rightarrow> string \<Rightarrow> api_error + string" where
  "sdkAccount E a = (if isValidPub E a then Inr a else Inl (JsError ''accountId is invalid''))"

definition readSourceAccount :: "env \<Rightarrow> api_error + string" where
  "readSourceAccount E =
     (let fromPub = (case confSet E ''STELLAR_ADMIN_PUBLIC_KEY'' of
            None \<Rightarrow> Inl (SorobanError
              ''STELLAR_ADMIN_SECRET_KEY or STELLAR_ADMIN_PUBLIC_KEY must be configured'')
          | Some pub \<Rightarrow> sdkAccount E pub) in
      case confSet E ''STELLAR_ADMIN_SECRET_KEY'' of
        None \<Rightarrow> fromPub
      | Some secret \<Rightarrow>
          (case bindS (fromSdk (keyFromSecret E secret)) (sdkAccount E) of
             Inr a \<Rightarrow> Inr a | Inl _ \<Rightarrow> fromPub))"

definition sorobanReadScVal ::
  "env \<Rightarrow> string \<Rightarrow> string \<Rightarrow> scval list \<Rightarrow> string option \<Rightarrow> api_error + scval option" where
  "sorobanReadScVal E contractId method args source =
     bindS (case source of
              Some s \<Rightarrow> (if s \<noteq> [] then sdkAccount E s else readSourceAccount E)
            | None \<Rightarrow> readSourceAccount E) (\<lambda>acc.
     bindS (fromSdk (mkContract E contractId)) (\<lambda>_.
     bindS (fromSdk (rpcSimulate E \<lparr>cc_contract = contractId, cc_method = method, cc_args = args,
         cc_source = acc, cc_fee = ''100'', cc_network = networkPassphrase E\<rparr>)) (\<lambda>sim.
     case sim of
       SimError m \<Rightarrow> Inl (SorobanError (''Contract read '' @ method @ '' failed: '' @ m))
     | SimNoResult \<Rightarrow> Inl (SorobanError (''Contract read '' @ method @ '' returned no result''))
     | SimResult rv \<Rightarrow> Inr rv)))"

definition sorobanRead ::
  "env \<Rightarrow> string \<Rightarrow> string \<Rightarrow> scval list \<Rightarrow> string option \<Rightarrow> api_error + jsval" where
  "sorobanRead E contractId method args source =
     bindS (sorobanReadScVal E contractId method args source) (\<lambda>rv.
     Inr (case rv of None \<Rightarrow> JNull | Some v \<Rightarrow> toNative E v))"

section \<open>Lemmas\<close>

text \<open>The loop makes at most 22 polls: its result depends on the first 22 answers only.\<close>

lemma elapsed_lower: "int n * 1500 \<le> elapsed E h n"
  by (simp add: elapsed_def POLL_MS_def)

lemma waitLoop_cong:
  assumes "\<And>k. k \<le> 21 \<Longrightarrow> rpcTx E' h k = rpcTx E h k"
    and "rpcDelay E' = rpcDelay E"
    and "n \<le> 21"
  shows "waitLoop E' h n = waitLoop E h n"
  using assms(3)
proof (induction "21 - n" arbitrary: n)
  case 0
  then have n: "n = 21" by simp
  have "TIMEOUT_MS < elapsed E h n" "TIMEOUT_MS < elapsed E' h n"
    using elapsed_lower [of n E h] elapsed_lower [of n E' h] n by (simp_all add: TIMEOUT_MS_def)
  moreover have "rpcTx E' h n = rpcTx E h n" using n by (simp add: assms(1))
  ultimately show ?case
    unfolding waitLoop.simps [of E h n] waitLoop.simps [of E' h n] by (simp split: sum.split)
next
  case (Suc k)
  then have "waitLoop E' h (Suc n) = waitLoop E h (Suc n)" by simp
  moreover have "elapsed E' h n = elapsed E h n" by (simp add: elapsed_def assms(2))
  moreover have "rpcTx E' h n = rpcTx E h n" using Suc.prems by (rule assms(1))
  ultimately show ?case
    unfolding waitLoop.simps [of E h n] waitLoop.simps [of E' h n] by (simp split: sum.split)
qed

lemma waitLoop_SUCCESS: "waitLoop E h n = Inr tx \<Longrightarrow> tx_status tx = ''SUCCESS''"
  by (induction E h n rule: waitLoop.induct)
     (subst (asm) (2) waitLoop.simps, auto split: sum.splits if_splits)

lemma defaultFee_default: "conf E ''STELLAR_TX_FEE'' = None \<Longrightarrow> defaultFee E = ''100000''"
  by (simp add: defaultFee_def confSet_def) code_simp

lemma rpcSubmit_apply [act_simps]:
  "rpcSubmit E c w = (fromSdk (rpcSend E c), w\<lparr>sent := sent w @ [c]\<rparr>)"
  by (simp add: rpcSubmit_def act_simps)

lemma sorobanInvoke_effect:
  assumes "sorobanInvoke E i m as sec fee w = (r, w')"
  shows "w' = w \<or> (\<exists>c. w' = w\<lparr>sent := sent w @ [c]\<rparr> \<and> cc_contract c = i \<and> cc_method c = m \<and>
    cc_args c = as \<and> keyFromSecret E sec = Inr (cc_source c))"
  using assms
  by (auto simp: sorobanInvoke_def act_simps fromSdk_def split: sum.splits if_splits prod.splits)

lemma sorobanInvoke_Inr:
  assumes "sorobanInvoke E i m as sec fee w = (Inr r, w')"
  shows "\<exists>c. w' = w\<lparr>sent := sent w @ [c]\<rparr> \<and> cc_contract c = i \<and> cc_method c = m \<and>
    cc_args c = as \<and> keyFromSecret E sec = Inr (cc_source c)"
  using assms
  by (auto simp: sorobanInvoke_def act_simps fromSdk_def split: sum.splits if_splits prod.splits)

end
