(* ===== verification/StellarService.thy ===== *)
theory StellarService
  imports SorobanClient
begin

text \<open>
  \<open>api/src/stellar/stellar.service.ts\<close>: one operation per contract method.  A mutation reads the
  signing secret, checks the caller against it (\<open>warnIfSignerMismatch\<close> only logs, but deriving the
  public key may throw), encodes the arguments from left to right and submits the call.  Reads have
  no effect, so they are plain results.
\<close>

section \<open>Configuration\<close>

definition contract :: "env \<Rightarrow> string \<Rightarrow> api_error + string" where
  "contract E key = (case confSet E key of
     None \<Rightarrow> Inl (BadGateway (key @ '' is not configured; set it to the deployed contract address''))
   | Some v \<Rightarrow> Inr v)"

definition adminSecret :: "env \<Rightarrow> api_error + string" where
  "adminSecret E = (case confSet E ''STELLAR_ADMIN_SECRET_KEY'' of
     None \<Rightarrow> Inl (BadGateway ''STELLAR_ADMIN_SECRET_KEY is not configured'')
   | Some v \<Rightarrow> Inr v)"

definition verifierSecret :: "env \<Rightarrow> api_error + string" where
  "verifierSecret E = (case confSet E ''STELLAR_VERIFIER_SECRET_KEY'' of
     None \<Rightarrow> Inl (BadGateway ''STELLAR_VERIFIER_SECRET_KEY is not configured'')
   | Some v \<Rightarrow> Inr v)"

section \<open>Calls and reads\<close>

fun badGateway :: "api_error \<Rightarrow> api_error" where
  "badGateway (SorobanError m) = BadGateway m"
| "badGateway e = e"

fun mapErr :: "('e \<Rightarrow> 'e) \<Rightarrow> 'e + 'a \<Rightarrow> 'e + 'a" where
  "mapErr f (Inl e) = Inl (f e)"
| "mapErr f (Inr x) = Inr x"

definition stellarInvoke ::
  "env \<Rightarrow> string \<Rightarrow> string \<Rightarrow> scval list \<Rightarrow> string \<Rightarrow> invoke_receipt op" where
  "stellarInvoke E key method args sec =
     catchE (bindE (fromSum (contract E key)) (\<lambda>c. sorobanInvoke E c method args sec None))
            (\<lambda>e. throw (badGateway e))"

definition stellarRead :: "env \<Rightarrow> string \<Rightarrow> string \<Rightarrow> scval list \<Rightarrow> api_error + jsval" where
  "stellarRead E key method args =
     mapErr badGateway (bindS (contract E key) (\<lambda>c. sorobanRead E c method args None))"

definition stellarReadScVal :: "env \<Rightarrow> string \<Rightarrow> string \<Rightarrow> scval list \<Rightarrow> api_error + scval option"
where
  "stellarReadScVal E key method args =
     mapErr badGateway (bindS (contract E key) (\<lambda>c. sorobanReadScVal E c method args None))"

definition warnIfSignerMismatch :: "env \<Rightarrow> string \<Rightarrow> api_error + unit" where
  "warnIfSignerMismatch E sec = bindS (fromSdk (keyFromSecret E sec)) (\<lambda>_. Inr ())"

definition allS :: "(api_error + scval) list \<Rightarrow> api_error + scval list" where
  "allS vs = mapS (\<lambda>v. v) vs"

text \<open>The shape that the mutations share.\<close>

definition signedCall ::
  "env \<Rightarrow> (api_error + string) \<Rightarrow> string \<Rightarrow> string \<Rightarrow> (api_error + scval) list \<Rightarrow> invoke_receipt op"
where
  "signedCall E secret key method args =
     bindE (fromSum secret) (\<lambda>sec.
     seqE (fromSum (warnIfSignerMismatch E sec))
    (bindE (fromSum (allS args)) (\<lambda>as. stellarInvoke E key method as sec)))"

definition isTrue :: "invoke_receipt \<Rightarrow> bool" where
  "isTrue r \<longleftrightarrow> ir_returnValue r = JBool True"

text \<open>\<open>typeof v === 'bigint' ? Number(v) : Number(v ?? 0)\<close>.\<close>

definition receiptNumber :: "invoke_receipt \<Rightarrow> jsnum" where
  "receiptNumber r = jsNumber (coalesce (ir_returnValue r) (JNum (ofInt 0)))"

section \<open>Credit registry\<close>

definition submitCredit :: "env \<Rightarrow> string \<Rightarrow> metadata_input \<Rightarrow> string \<Rightarrow> string op" where
  "submitCredit E issuer metadata ipfsHash =
     bindE (signedCall E (adminSecret E) ''CREDIT_REGISTRY_CONTRACT'' ''submit_credit''
              [scAddress E issuer, toCreditMetadataScVal E metadata, Inr (scString ipfsHash)])
           (\<lambda>receipt. ret (ir_hash receipt))"

definition approveAndMint :: "env \<Rightarrow> string \<Rightarrow> jsnum \<Rightarrow> string \<Rightarrow> string option op" where
  "approveAndMint E verifier creditId comments =
     bindE (signedCall E (verifierSecret E) ''CREDIT_REGISTRY_CONTRACT'' ''approve_and_mint''
              [scAddress E verifier, scU64 E creditId, Inr (scString comments)])
           (\<lambda>receipt. ret (case ir_returnValue receipt of
              JArr (first # _) \<Rightarrow> Some (case first of
                JBuf b \<Rightarrow> bytesToHex b | v \<Rightarrow> jsString (coalesce v (JStr [])))
            | _ \<Rightarrow> None))"

definition stellarRejectCredit :: "env \<Rightarrow> string \<Rightarrow> jsnum \<Rightarrow> string \<Rightarrow> bool op" where
  "stellarRejectCredit E verifier creditId reason =
     bindE (signedCall E (verifierSecret E) ''CREDIT_REGISTRY_CONTRACT'' ''reject_credit''
              [scAddress E verifier, scU64 E creditId, Inr (scString reason)])
           (\<lambda>receipt. ret (isTrue receipt))"

definition transferCredit :: "env \<Rightarrow> string \<Rightarrow> string \<Rightarrow> jsnum \<Rightarrow> bool op" where
  "transferCredit E src dst creditId =
     bindE (signedCall E (adminSecret E) ''CREDIT_REGISTRY_CONTRACT'' ''transfer_credit''
              [scAddress E src, scAddress E dst, scU64 E creditId])
           (\<lambda>receipt. ret (isTrue receipt))"

fun mapCreditStatus :: "jsnum \<Rightarrow> string" where
  "mapCreditStatus (Fin r) = (if r = 0 then ''PENDING'' else if r = 1 then ''ACTIVE''
     else if r = 2 then ''RETIRED'' else if r = 3 then ''REJECTED'' else if r = 4 then ''BRIDGED''
     else ''UNKNOWN'')"
| "mapCreditStatus _ = ''UNKNOWN''"

text \<open>A buffer is shown in hexadecimal, anything else as it is; a bigint becomes a number.\<close>

fun hexIfBuffer :: "jsval \<Rightarrow> jsval" where
  "hexIfBuffer (JBuf b) = JStr (bytesToHex b)"
| "hexIfBuffer v = v"

definition numberOr0 :: "jsval \<Rightarrow> jsval" where
  "numberOr0 v = JNum (jsNumber (coalesce v (JNum (ofInt 0))))"

definition stellarGetCredit :: "env \<Rightarrow> jsnum \<Rightarrow> api_error + jsval" where
  "stellarGetCredit E creditId =
     bindS (scU64 E creditId) (\<lambda>a.
     bindS (stellarReadScVal E ''CREDIT_REGISTRY_CONTRACT'' ''get_credit'' [a]) (\<lambda>sv.
     case sv of None \<Rightarrow> Inr (JObj []) | Some s \<Rightarrow>
     bindS (decodeCreditMetadata E s) (\<lambda>m. Inr (JObj [
       (''creditId'', JNum creditId),
       (''projectId'', getProp m ''projectId''),
       (''methodology'', getProp m ''methodology''),
       (''vintageStart'', numberOr0 (getProp m ''vintageStart'')),
       (''vintageEnd'', numberOr0 (getProp m ''vintageEnd'')),
       (''tonnes'', numberOr0 (getProp m ''tonnes'')),
       (''geography'', getProp m ''geography''),
       (''serialPrefix'', getProp m ''serialPrefix''),
       (''sdgFlags'', getProp m ''sdgFlags''),
       (''permanenceRating'', getProp m ''permanenceRating''),
       (''bufferContributionPct'', getProp m ''bufferContributionPct''),
       (''additionalityType'', getProp m ''additionalityType''),
       (''ipfsHash'', getProp m ''ipfsHash''),
       (''status'', JStr (mapCreditStatus (jsNumber (coalesce (getProp m ''status'')
          (JNum (ofInt 0)))))),
       (''tokenId'', hexIfBuffer (getProp m ''tokenId''))]))))"

text \<open>\<open>sv.value()\<close> is an array for a vector value only.\<close>

fun svElems :: "scval \<Rightarrow> scval list option" where
  "svElems (ScVec vs) = Some vs"
| "svElems _ = None"

fun withField :: "jsval \<Rightarrow> string \<times> jsval \<Rightarrow> jsval" where
  "withField (JObj fs) f = JObj (fs @ [f])"
| "withField v f = v"

text \<open>\<open>native.map((entry, i) => ({...decode(entry), key: i + off}))\<close>.\<close>

definition decodeIndexed ::
  "(scval \<Rightarrow> api_error + jsval) \<Rightarrow> string \<Rightarrow> jsnum \<Rightarrow> scval option \<Rightarrow> api_error + jsval list" where
  "decodeIndexed dec key off sv = (case sv of None \<Rightarrow> Inr [] | Some s \<Rightarrow>
     (case svElems s of None \<Rightarrow> Inr [] | Some es \<Rightarrow>
        mapS (\<lambda>(i, e). bindS (dec e) (\<lambda>d.
               Inr (withField d (key, JNum (num_add (ofInt (int i)) off)))))
             (zip [0..<length es] es)))"

definition stellarGetProvenance :: "env \<Rightarrow> jsnum \<Rightarrow> api_error + jsval list" where
  "stellarGetProvenance E creditId =
     bindS (scU64 E creditId) (\<lambda>a.
     bindS (stellarReadScVal E ''CREDIT_REGISTRY_CONTRACT'' ''get_provenance'' [a])
       (decodeIndexed (decodeApprovalRecord E) ''step'' (ofInt 0)))"

definition getOwner :: "env \<Rightarrow> jsnum \<Rightarrow> api_error + string" where
  "getOwner E creditId =
     bindS (scU64 E creditId) (\<lambda>a.
     bindS (stellarRead E ''CREDIT_REGISTRY_CONTRACT'' ''get_owner'' [a]) (\<lambda>v.
     Inr (case v of JStr s \<Rightarrow> s | _ \<Rightarrow> [])))"

section \<open>Retirement tracker\<close>

record retire_receipt =
  rr_creditId :: jsnum
  rr_retiredBy :: jsval
  rr_beneficiary :: jsval
  rr_reason :: jsval
  rr_accountingPeriod :: jsval
  rr_txHash :: string
  rr_ledgerSequence :: jsval
  rr_timestamp :: jsnum

definition stellarRetire ::
  "env \<Rightarrow> string \<Rightarrow> jsnum \<Rightarrow> string \<Rightarrow> string \<Rightarrow> string \<Rightarrow> retire_receipt op" where
  "stellarRetire E owner creditId reason beneficiary accountingPeriod =
     bindE (signedCall E (adminSecret E) ''RETIREMENT_TRACKER_CONTRACT'' ''retire''
              [scAddress E owner, scU64 E creditId, Inr (scString reason),
               Inr (scString beneficiary), Inr (scString accountingPeriod)])
     (\<lambda>receipt.
       let rec = JObj (zipNativeFields RETIREMENT_FIELDS
                   (case ir_returnValue receipt of JArr vs \<Rightarrow> vs | _ \<Rightarrow> [])) in
       ret \<lparr>rr_creditId = creditId,
            rr_retiredBy = coalesce (getProp rec ''retiredBy'') (JStr owner),
            rr_beneficiary = coalesce (getProp rec ''beneficiary'') (JStr beneficiary),
            rr_reason = coalesce (getProp rec ''reason'') (JStr reason),
            rr_accountingPeriod = coalesce (getProp rec ''accountingPeriod'')
               (JStr accountingPeriod),
            rr_txHash = ir_hash receipt,
            rr_ledgerSequence = (case getProp rec ''ledgerSequence'' of
               JBig n \<Rightarrow> JNum (num_of_int n) | v \<Rightarrow> coalesce v (JNum (ofInt 0))),
            rr_timestamp = (case getProp rec ''timestamp'' of
               JBig n \<Rightarrow> num_mul (num_of_int n) (ofInt 1000) | _ \<Rightarrow> num_of_int (clock E))\<rparr>)"

definition isRetired :: "env \<Rightarrow> jsnum \<Rightarrow> api_error + bool" where
  "isRetired E creditId =
     bindS (scU64 E creditId) (\<lambda>a.
     bindS (stellarRead E ''RETIREMENT_TRACKER_CONTRACT'' ''is_retired'' [a]) (\<lambda>v.
     Inr (v = JBool True)))"

definition getCertificateHash :: "env \<Rightarrow> jsnum \<Rightarrow> api_error + string" where
  "getCertificateHash E creditId =
     bindS (scU64 E creditId) (\<lambda>a.
     bindS (stellarReadScVal E ''RETIREMENT_TRACKER_CONTRACT'' ''get_retirement_record'' [a])
     (\<lambda>sv. case Option.bind sv svElems of
             Some (e # _) \<Rightarrow> bindS (decodeRetirementRecord E e) (\<lambda>rec.
               let hash = getProp rec ''certificateHash'' in
               Inr (case hash of JBuf b \<Rightarrow> bytesToHex b
                               | _ \<Rightarrow> jsString (coalesce hash (JStr []))))
           | _ \<Rightarrow> Inr []))"

section \<open>Marketplace\<close>

definition stellarCreateOffer ::
  "env \<Rightarrow> string \<Rightarrow> jsnum \<Rightarrow> jsnum \<Rightarrow> jsnum \<Rightarrow> string \<Rightarrow> jsnum option \<Rightarrow> jsnum op" where
  "stellarCreateOffer E seller creditId pricePerTonne amount currency expiry =
     bindE (signedCall E (adminSecret E) ''MARKETPLACE_CONTRACT'' ''create_offer''
              [scAddress E seller, scU64 E creditId, scI128 E pricePerTonne, scI128 E amount,
               scAddress E currency, scOptionU64 E expiry])
           (\<lambda>receipt. ret (receiptNumber receipt))"

definition stellarBuyCredits :: "env \<Rightarrow> string \<Rightarrow> jsnum \<Rightarrow> jsnum \<Rightarrow> bool op" where
  "stellarBuyCredits E buyer offerId amount =
     bindE (signedCall E (adminSecret E) ''MARKETPLACE_CONTRACT'' ''buy_credits''
              [scAddress E buyer, scU64 E offerId, scI128 E amount])
           (\<lambda>receipt. ret (isTrue receipt))"

definition stellarCancelOffer :: "env \<Rightarrow> string \<Rightarrow> jsnum \<Rightarrow> bool op" where
  "stellarCancelOffer E caller offerId =
     bindE (signedCall E (adminSecret E) ''MARKETPLACE_CONTRACT'' ''cancel_offer''
              [scAddress E caller, scU64 E offerId])
           (\<lambda>receipt. ret (isTrue receipt))"

definition stellarGetListings ::
  "env \<Rightarrow> string option \<Rightarrow> string option \<Rightarrow> jsnum option \<Rightarrow> jsnum \<Rightarrow> jsnum \<Rightarrow> api_error + jsval list"
where
  "stellarGetListings E methodologyFilter geographyFilter maxPrice offset limit =
     bindS (allS [Inr (scOptionString methodologyFilter), Inr (scOptionString geographyFilter),
                  scOptionI128 E maxPrice, scU32 offset, scU32 limit]) (\<lambda>as.
     bindS (stellarReadScVal E ''MARKETPLACE_CONTRACT'' ''get_listings'' as)
       (decodeIndexed (decodeOffer E) ''index'' offset))"

definition stellarGetOffer :: "env \<Rightarrow> jsnum \<Rightarrow> api_error + jsval" where
  "stellarGetOffer E offerId =
     bindS (scU64 E offerId) (\<lambda>a.
     bindS (stellarReadScVal E ''MARKETPLACE_CONTRACT'' ''get_offer'' [a]) (\<lambda>sv.
     case sv of None \<Rightarrow> Inr (JObj []) | Some s \<Rightarrow> decodeOffer E s))"

section \<open>Bridge\<close>

record bridge_receipt =
  bi_creditId :: jsnum
  bi_txHash :: string

definition stellarBridgeIn ::
  "env \<Rightarrow> string \<Rightarrow> string \<Rightarrow> string \<Rightarrow> string list \<Rightarrow> metadata_input \<Rightarrow> bridge_receipt op" where
  "stellarBridgeIn E bridger sourceRegistry sourceSerial merkleProof metadata =
     bindE (fromSum (adminSecret E)) (\<lambda>sec.
     seqE (fromSum (warnIfSignerMismatch E sec))
    (case merkleProof of
       [] \<Rightarrow> throw (BadGateway ''bridgeIn requires a non-empty merkle proof'')
     | leaf # rest \<Rightarrow>
         bindE (fromSum (allS [scAddress E bridger, Inr (scString sourceRegistry),
                  Inr (scString sourceSerial), scBytes32 leaf, scVecBytes32 rest,
                  toCreditMetadataScVal E metadata])) (\<lambda>as.
         bindE (stellarInvoke E ''MERKLE_BRIDGE_CONTRACT'' ''bridge_in'' as sec) (\<lambda>receipt.
         ret \<lparr>bi_creditId = receiptNumber receipt, bi_txHash = ir_hash receipt\<rparr>))))"

definition stellarBridgeOut :: "env \<Rightarrow> string \<Rightarrow> jsnum \<Rightarrow> string op" where
  "stellarBridgeOut E owner creditId =
     bindE (signedCall E (adminSecret E) ''MERKLE_BRIDGE_CONTRACT'' ''bridge_out''
              [scAddress E owner, scU64 E creditId])
           (\<lambda>receipt. ret (ir_hash receipt))"

definition stellarVerifyProof :: "env \<Rightarrow> string \<Rightarrow> string list \<Rightarrow> string \<Rightarrow> api_error + bool" where
  "stellarVerifyProof E leaf proof mroot =
     bindS (allS [scBytes32 leaf, scVecBytes32 proof, scBytes32 mroot]) (\<lambda>as.
     bindS (stellarRead E ''MERKLE_BRIDGE_CONTRACT'' ''verify_proof'' as) (\<lambda>v.
     Inr (v = JBool True)))"

definition stellarGetRegistryRoot :: "env \<Rightarrow> string \<Rightarrow> api_error + jsval option" where
  "stellarGetRegistryRoot E registry =
     bindS (stellarReadScVal E ''MERKLE_BRIDGE_CONTRACT'' ''get_registry_root''
              [scString registry]) (\<lambda>sv.
     case Option.bind sv svElems of
       Some (e # _) \<Rightarrow> bindS (decodeRegistryRoot E e) (\<lambda>d. Inr (Some (JObj [
         (''registry'', JStr registry),
         (''root'', hexIfBuffer (getProp d ''root'')),
         (''blockHeight'', bigintToNumber (getProp d ''blockHeight'')),
         (''updatedAt'', (case getProp d ''updatedAt'' of
            JBig n \<Rightarrow> JNum (num_mul (num_of_int n) (ofInt 1000)) | v \<Rightarrow> v))])))
     | _ \<Rightarrow> Inr None)"

definition stellarUpdateRegistryRoot :: "env \<Rightarrow> string \<Rightarrow> string \<Rightarrow> string \<Rightarrow> jsnum \<Rightarrow> string op"
where
  "stellarUpdateRegistryRoot E admin registry mroot blockHeight =
     bindE (signedCall E (adminSecret E) ''MERKLE_BRIDGE_CONTRACT'' ''update_registry_root''
              [scAddress E admin, Inr (scString registry), scBytes32 mroot, scU64 E blockHeight])
           (\<lambda>receipt. ret (ir_hash receipt))"

section \<open>Verifier stake\<close>

definition adminPublicKey :: "env \<Rightarrow> api_error + string" where
  "adminPublicKey E = bindS (adminSecret E) (\<lambda>s. fromSdk (keyFromSecret E s))"

definition stellarRegisterVerifier :: "env \<Rightarrow> string \<Rightarrow> bool op" where
  "stellarRegisterVerifier E address =
     bindE (signedCall E (verifierSecret E) ''VERIFIER_STAKE_CONTRACT'' ''register''
              [scAddress E address])
           (\<lambda>receipt. ret (isTrue receipt))"

definition slashVerifier :: "env \<Rightarrow> string \<Rightarrow> jsnum \<Rightarrow> bool op" where
  "slashVerifier E address amount =
     bindE (signedCall E (adminSecret E) ''VERIFIER_STAKE_CONTRACT'' ''slash''
              [bindS (adminPublicKey E) (scAddress E), scAddress E address, scI128 E amount])
           (\<lambda>receipt. ret (isTrue receipt))"

section \<open>Revenue split\<close>

definition distributeRevenue :: "env \<Rightarrow> string \<Rightarrow> string \<Rightarrow> jsnum \<Rightarrow> bool op" where
  "distributeRevenue E projectId asset amount =
     bindE (signedCall E (adminSecret E) ''REVENUE_SPLIT_CONTRACT'' ''distribute''
              [bindS (adminPublicKey E) (scAddress E), Inr (scString projectId),
               scAddress E asset, scI128 E amount])
           (\<lambda>receipt. ret (isTrue receipt))"

record beneficiary =
  bn_address :: string
  bn_bps :: jsnum

definition scBeneficiary :: "env \<Rightarrow> beneficiary \<Rightarrow> api_error + scval" where
  "scBeneficiary E b = bindS (allS [scAddress E (bn_address b), scU32 (bn_bps b)])
     (\<lambda>vs. Inr (scVec vs))"

definition configureRevenueSplit :: "env \<Rightarrow> string \<Rightarrow> string \<Rightarrow> beneficiary list \<Rightarrow> string op" where
  "configureRevenueSplit E admin projectId beneficiaries =
     bindE (signedCall E (adminSecret E) ''REVENUE_SPLIT_CONTRACT'' ''configure''
              [scAddress E admin, Inr (scString projectId),
               bindS (mapS (scBeneficiary E) beneficiaries) (\<lambda>vs. Inr (scVec vs))])
           (\<lambda>receipt. ret (ir_hash receipt))"

definition distributeRevenueSplit :: "env \<Rightarrow> string \<Rightarrow> string \<Rightarrow> string \<Rightarrow> jsnum \<Rightarrow> string op" where
  "distributeRevenueSplit E caller projectId asset amount =
     bindE (signedCall E (adminSecret E) ''REVENUE_SPLIT_CONTRACT'' ''distribute''
              [scAddress E caller, Inr (scString projectId), scAddress E asset, scI128 E amount])
           (\<lambda>receipt. ret (ir_hash receipt))"

definition getRevenueConfig :: "env \<Rightarrow> string \<Rightarrow> api_error + jsval option" where
  "getRevenueConfig E projectId =
     bindS (stellarReadScVal E ''REVENUE_SPLIT_CONTRACT'' ''get_config'' [scString projectId])
     (\<lambda>sv. case sv of None \<Rightarrow> Inr None
                    | Some s \<Rightarrow> bindS (decodeRevenueConfig E s) (\<lambda>d. Inr (Some d)))"

section \<open>Lemmas\<close>

text \<open>What a mutation may do: nothing, or submit one call with its method and arguments.\<close>

definition submits :: "string \<Rightarrow> (scval list \<Rightarrow> bool) \<Rightarrow> world \<Rightarrow> world \<Rightarrow> bool" where
  "submits m A w w' \<longleftrightarrow> (\<exists>c. w' = w\<lparr>sent := sent w @ [c]\<rparr> \<and> cc_method c = m \<and> A (cc_args c))"

lemma submits_mono: "submits m A w w' \<Longrightarrow> (\<And>as. A as \<Longrightarrow> B as) \<Longrightarrow> submits m B w w'"
  by (auto simp: submits_def)

lemma stellarInvoke_effect:
  "stellarInvoke E key m as sec w = (r, w') \<Longrightarrow> w' = w \<or> submits m (\<lambda>x. x = as) w w'"
  by (auto simp: stellarInvoke_def act_simps submits_def split: sum.splits prod.splits
      dest!: sorobanInvoke_effect)

lemma stellarInvoke_Inr:
  "stellarInvoke E key m as sec w = (Inr r, w') \<Longrightarrow> submits m (\<lambda>x. x = as) w w'"
  by (auto simp: stellarInvoke_def act_simps submits_def split: sum.splits prod.splits
      dest!: sorobanInvoke_Inr)

lemma stellarInvoke_no_SorobanError:
  "stellarInvoke E key m as sec w = (Inl e, w') \<Longrightarrow> e \<noteq> SorobanError x"
  by (auto simp: stellarInvoke_def act_simps elim!: badGateway.elims
      split: sum.splits prod.splits)

lemma signedCall_effect:
  "signedCall E s key m args w = (r, w') \<Longrightarrow>
   w' = w \<or> (\<exists>as. allS args = Inr as \<and> submits m (\<lambda>x. x = as) w w')"
  by (auto simp: signedCall_def act_simps split: sum.splits prod.splits
      dest!: stellarInvoke_effect)

lemma signedCall_Inr:
  "signedCall E s key m args w = (Inr r, w') \<Longrightarrow>
   \<exists>as. allS args = Inr as \<and> submits m (\<lambda>x. x = as) w w'"
  by (auto simp: signedCall_def act_simps split: sum.splits prod.splits
      dest!: stellarInvoke_Inr)

text \<open>An argument that cannot be encoded stops the call before the network.\<close>

lemma signedCall_bad_arg:
  assumes "Inl e \<in> set args"
  shows "\<exists>e'. signedCall E s key m args w = (Inl e', w)"
proof -
  obtain e' where "allS args = Inl e'"
    using mapS_Inl_ex [OF assms, of "\<lambda>v. v" e] by (auto simp: allS_def)
  then show ?thesis by (auto simp: signedCall_def act_simps split: sum.splits)
qed

lemma signedRet_bad_arg:
  assumes "Inl e \<in> set args"
  shows "\<exists>e'. bindE (signedCall E s key m args) (\<lambda>r. ret (g r)) w = (Inl e', w)"
  using signedCall_bad_arg [OF assms, of E s key m w] by (auto simp: bindE_apply)

lemma keeps_signedCall [act_intros]:
  assumes "\<And>w x. p (w\<lparr>sent := x\<rparr>) = p w"
  shows "keeps p (signedCall E s key m args)"
  unfolding keeps_def
proof (rule relatesI)
  fix w
  obtain r w' where "signedCall E s key m args w = (r, w')" by (cases "signedCall E s key m args w")
  with assms show "p (snd (signedCall E s key m args w)) = p w"
    by (auto dest!: signedCall_effect simp: submits_def)
qed

lemma keeps_stellarInvoke [act_intros]:
  assumes "\<And>w x. p (w\<lparr>sent := x\<rparr>) = p w"
  shows "keeps p (stellarInvoke E key m as sec)"
  unfolding keeps_def
proof (rule relatesI)
  fix w
  obtain r w' where "stellarInvoke E key m as sec w = (r, w')"
    by (cases "stellarInvoke E key m as sec w")
  with assms show "p (snd (stellarInvoke E key m as sec w)) = p w"
    by (auto dest!: stellarInvoke_effect simp: submits_def)
qed

text \<open>The two outcomes of an operation that submits a call and reads its receipt.\<close>

lemma signedRet_InrD:
  "bindE (signedCall E s key m args) (\<lambda>r. ret (g r)) w = (Inr y, w') \<Longrightarrow>
   \<exists>as c. allS args = Inr as \<and> w' = w\<lparr>sent := sent w @ [c]\<rparr> \<and> cc_method c = m \<and> cc_args c = as"
  by (auto dest!: bindE_InrD signedCall_Inr simp: submits_def)

lemma signedRet_anyD:
  "bindE (signedCall E s key m args) (\<lambda>r. ret (g r)) w = (r, w') \<Longrightarrow>
   w' = w \<or> (\<exists>as c. allS args = Inr as \<and> w' = w\<lparr>sent := sent w @ [c]\<rparr> \<and> cc_method c = m
     \<and> cc_args c = as)"
  by (auto simp: bindE_apply submits_def split: prod.splits sum.splits dest!: signedCall_effect)

lemma allS_Cons_Inr:
  "allS (x # xs) = Inr as \<longleftrightarrow> (\<exists>v vs. x = Inr v \<and> allS xs = Inr vs \<and> as = v # vs)"
  by (auto simp: allS_def bindS_Inr_iff)

lemma allS_Nil [simp]: "allS [] = Inr as \<longleftrightarrow> as = []"
  by (auto simp: allS_def)

lemmas stellar_ops = submitCredit_def approveAndMint_def stellarRejectCredit_def
  transferCredit_def stellarRetire_def stellarCreateOffer_def stellarBuyCredits_def
  stellarCancelOffer_def stellarBridgeOut_def stellarUpdateRegistryRoot_def
  stellarRegisterVerifier_def slashVerifier_def distributeRevenue_def configureRevenueSplit_def
  distributeRevenueSplit_def

text \<open>A contract that is not configured is a bad gateway and nothing is sent.\<close>

lemma signedCall_unconfigured:
  assumes "confSet E key = None" and "s = Inr sec" and "keyFromSecret E sec = Inr k"
    and "allS args = Inr as"
  shows "signedCall E s key m args w =
    (Inl (BadGateway (key @ '' is not configured; set it to the deployed contract address'')), w)"
  using assms
  by (simp add: signedCall_def act_simps warnIfSignerMismatch_def stellarInvoke_def contract_def)

end
