(* ===== verification/Webhooks.thy ===== *)
theory Webhooks
  imports Demo
begin

text \<open>
  \<open>api/src/webhooks\<close> and \<open>api/src/events\<close>: registering, listing, removing and testing webhooks, and
  delivering an event to every active subscriber with retries.  \<open>deliverFrom\<close> is the retry loop; it
  also returns the delays between the attempts.  \<open>Promise.allSettled\<close> runs the deliveries of an
  event concurrently; their records do not depend on each other, and they are modelled one after
  another.
\<close>

section \<open>Signing and sending\<close>

definition backoffDelayMs :: "env \<Rightarrow> nat \<Rightarrow> jsnum" where
  "backoffDelayMs E attempt =
     (let base = (case confSet E ''WEBHOOK_RETRY_BASE_MS'' of
                    Some raw \<Rightarrow> parseInt10 raw | None \<Rightarrow> ofInt 1000);
          safeBase = (if isFinite base \<and> num_lt (ofInt 0) base then base else ofInt 1000) in
      num_mul safeBase (ofInt (2 ^ (attempt - 1))))"

definition maxAttempts :: "env \<Rightarrow> nat" where
  "maxAttempts E =
     (case (case confSet E ''WEBHOOK_MAX_ATTEMPTS'' of
              Some raw \<Rightarrow> parseInt10 raw | None \<Rightarrow> ofInt 3) of
        Fin r \<Rightarrow> (if 1 \<le> r then nat \<lfloor>min r 5\<rfloor> else 3)
      | _ \<Rightarrow> 3)"

definition signPayload :: "env \<Rightarrow> string \<Rightarrow> jsval \<Rightarrow> api_error + string" where
  "signPayload E secret payload =
     (if hasBig payload then Inl (JsError ''Do not know how to serialize a BigInt'')
      else Inr (hmacSha256 E secret (jsonOf payload)))"

definition dispatch :: "env \<Rightarrow> string \<Rightarrow> jsval \<Rightarrow> string \<Rightarrow> nat \<Rightarrow> int \<times> string option" where
  "dispatch E url payload signature n =
     (case httpPost E url (jsonOf payload) signature n of
        Inl m \<Rightarrow> (0, Some m) | Inr status \<Rightarrow> (status, None))"

definition okStatus :: "int \<Rightarrow> bool" where
  "okStatus status \<longleftrightarrow> 200 \<le> status \<and> status < 300"

definition retryable :: "int \<Rightarrow> bool" where
  "retryable status \<longleftrightarrow> status = 0 \<or> 500 \<le> status"

record outcome =
  oc_success :: bool
  oc_attempts :: nat
  oc_statusCode :: "int option"
  oc_durationMs :: int
  oc_error :: "string option"

text \<open>The loop returns the summary it records, and the delays it slept.\<close>

function deliverFrom ::
  "env \<Rightarrow> string \<Rightarrow> jsval \<Rightarrow> string \<Rightarrow> nat \<Rightarrow> nat \<Rightarrow> (outcome \<times> jsnum list) option" where
  "deliverFrom E url payload sig mx attempt =
     (if mx < attempt then None else
      let (status, err) = dispatch E url payload sig attempt;
          ms = httpMs E url (jsonOf payload) attempt in
      if okStatus status then
        Some (\<lparr>oc_success = True, oc_attempts = attempt, oc_statusCode = Some status,
               oc_durationMs = ms, oc_error = None\<rparr>, [])
      else if \<not> retryable status \<or> attempt = mx then
        Some (\<lparr>oc_success = False, oc_attempts = attempt,
               oc_statusCode = (if status = 0 then None else Some status), oc_durationMs = ms,
               oc_error = Some (case err of Some m \<Rightarrow> m | None \<Rightarrow> ''HTTP '' @ showInt status)\<rparr>, [])
      else map_option (\<lambda>(oc, ds). (oc, backoffDelayMs E attempt # ds))
             (deliverFrom E url payload sig mx (Suc attempt)))"
  by pat_completeness auto
termination
  by (relation "measure (\<lambda>(E, u, p, s, mx, a). Suc mx - a)") auto

declare deliverFrom.simps [simp del]

definition recordDelivery :: "env \<Rightarrow> webhook \<Rightarrow> string \<Rightarrow> jsval \<Rightarrow> outcome \<Rightarrow> unit op" where
  "recordDelivery E webhook eventType payload summary =
     catchE (bindE (freshId E) (\<lambda>i.
       bindE (dbInsert deliveries_update deliveryCheck
         \<lparr>de_id = i, de_webhookId = wh_id webhook, de_eventType = eventType,
          de_payload = payload, de_success = oc_success summary,
          de_attempts = oc_attempts summary, de_statusCode = oc_statusCode summary,
          de_durationMs = oc_durationMs summary, de_error = oc_error summary,
          de_createdAt = clock E\<rparr>) (\<lambda>_. ret ())))
       (\<lambda>_. ret ())"

definition deliverWithRetry :: "env \<Rightarrow> webhook \<Rightarrow> string \<Rightarrow> jsval \<Rightarrow> unit op" where
  "deliverWithRetry E webhook eventType payload =
     bindE (fromSum (signPayload E (wh_secret webhook) payload)) (\<lambda>sig.
     case deliverFrom E (wh_url webhook) payload sig (maxAttempts E) 1 of
       None \<Rightarrow> ret ()
     | Some (oc, _) \<Rightarrow> recordDelivery E webhook eventType payload oc)"

section \<open>Events\<close>

definition eventPayload :: "env \<Rightarrow> string \<Rightarrow> jsval \<Rightarrow> jsval" where
  "eventPayload E eventType data = JObj [(''event'', JStr eventType),
     (''timestamp'', JStr (isoString (clock E))), (''data'', data)]"

definition subscribed :: "string \<Rightarrow> webhook \<Rightarrow> bool" where
  "subscribed eventType w \<longleftrightarrow> eventType \<in> set (wh_events w) \<and> wh_active w"

definition dispatchEvent :: "env \<Rightarrow> string \<Rightarrow> jsval \<Rightarrow> unit op" where
  "dispatchEvent E eventType data =
     bindE (getsE (\<lambda>w. filter (subscribed eventType) (webhooks w))) (\<lambda>hooks.
     forE hooks (\<lambda>h. catchE (deliverWithRetry E h eventType (eventPayload E eventType data))
                            (\<lambda>_. ret ())))"

text \<open>\<open>WebhookProcessor.handleEvent\<close> and \<open>EventEmitterService.emit\<close> swallow every exception.\<close>

definition handleEvent :: "env \<Rightarrow> string \<Rightarrow> jsval \<Rightarrow> unit op" where
  "handleEvent E eventType data = catchE (dispatchEvent E eventType data) (\<lambda>_. ret ())"

definition emit :: "env \<Rightarrow> string \<Rightarrow> jsval \<Rightarrow> unit op" where
  "emit E type data =
     seqE (modifyE (\<lambda>w. w\<lparr>emitted := emitted w @ [(type, data)]\<rparr>))
          (catchE (handleEvent E type data) (\<lambda>_. ret ()))"

section \<open>Managing webhooks\<close>

record webhook_dto =
  wd_url :: string
  wd_events :: "string list"

definition generateSecret :: "env \<Rightarrow> string" where
  "generateSecret E = randomHex E 32"

definition registerWebhook :: "env \<Rightarrow> string \<Rightarrow> webhook_dto \<Rightarrow> webhook op" where
  "registerWebhook E userId dto =
     bindE (freshId E) (\<lambda>i.
     dbInsert webhooks_update webhookCheck
       \<lparr>wh_id = i, wh_userId = userId, wh_url = wd_url dto, wh_secret = generateSecret E,
        wh_events = wd_events dto, wh_active = True, wh_createdAt = clock E,
        wh_updatedAt = clock E\<rparr>)"

text \<open>The selected columns: all but the secret and the owner.\<close>

record webhook_view =
  wv_id :: string
  wv_url :: string
  wv_events :: "string list"
  wv_active :: bool
  wv_createdAt :: int
  wv_updatedAt :: int

definition webhookView :: "webhook \<Rightarrow> webhook_view" where
  "webhookView w = \<lparr>wv_id = wh_id w, wv_url = wh_url w, wv_events = wh_events w,
     wv_active = wh_active w, wv_createdAt = wh_createdAt w, wv_updatedAt = wh_updatedAt w\<rparr>"

definition listWebhooks :: "world \<Rightarrow> string \<Rightarrow> webhook_view list" where
  "listWebhooks w userId =
     map webhookView (descBy wh_createdAt (filter (\<lambda>h. wh_userId h = userId) (webhooks w)))"

definition findWebhook :: "world \<Rightarrow> string \<Rightarrow> webhook option" where
  "findWebhook w i = List.find (\<lambda>h. wh_id h = i) (webhooks w)"

definition ownedWebhook :: "string \<Rightarrow> string \<Rightarrow> webhook op" where
  "ownedWebhook userId webhookId =
     bindE (getsE (\<lambda>w. findWebhook w webhookId)) (\<lambda>h.
     bindE (orThrow h (NotFound ''Webhook not found'')) (\<lambda>webhook.
     seqE (throwIf (wh_userId webhook \<noteq> userId) (Forbidden ''You do not own this webhook''))
          (ret webhook)))"

text \<open>The foreign key of the deliveries is \<open>ON DELETE RESTRICT\<close>.\<close>

definition deleteWebhookRow :: "string \<Rightarrow> webhook op" where
  "deleteWebhookRow webhookId =
     bindE (getsE (\<lambda>w. webhookId \<in> set (map de_webhookId (deliveries w)))) (\<lambda>referenced.
     seqE (throwIf referenced (PrismaError ''P2003''))
          (dbDelete webhooks webhooks_update (\<lambda>h. wh_id h = webhookId)))"

definition removeWebhook :: "string \<Rightarrow> string \<Rightarrow> string op" where
  "removeWebhook userId webhookId =
     seqE (ownedWebhook userId webhookId) (seqE (deleteWebhookRow webhookId) (ret webhookId))"

record test_result =
  te_success :: bool
  te_statusCode :: int
  te_error :: "string option"
  te_webhookId :: string

definition sendTest :: "env \<Rightarrow> string \<Rightarrow> string \<Rightarrow> test_result op" where
  "sendTest E userId webhookId =
     bindE (ownedWebhook userId webhookId) (\<lambda>webhook.
       let testPayload = JObj [(''event'', JStr ''test.ping''),
             (''timestamp'', JStr (isoString (clock E))),
             (''data'', JObj [
                (''message'', JStr ''This is a test webhook payload from CarbonVeritas''),
                (''webhookId'', JStr webhookId)])] in
       bindE (fromSum (signPayload E (wh_secret webhook) testPayload)) (\<lambda>signature.
       case dispatch E (wh_url webhook) testPayload signature 1 of (status, err) \<Rightarrow>
       ret \<lparr>te_success = okStatus status, te_statusCode = status, te_error = err,
            te_webhookId = webhookId\<rparr>))"

text \<open>The controller's \<open>limit\<close> query parameter, then the service's clamp.\<close>

definition deliveriesLimit :: "string option \<Rightarrow> jsnum" where
  "deliveriesLimit q =
     (let parsedLimit = (case q of Some s \<Rightarrow> (if s \<noteq> [] then parseInt10 s else ofInt 50)
                                 | None \<Rightarrow> ofInt 50) in
      if isFinite parsedLimit then parsedLimit else ofInt 50)"

definition clampLimit :: "jsnum \<Rightarrow> nat" where
  "clampLimit l = (case l of Fin r \<Rightarrow> nat \<lfloor>min (max r 1) 200\<rfloor> | _ \<Rightarrow> 50)"

definition listDeliveries :: "world \<Rightarrow> string \<Rightarrow> string option \<Rightarrow> jsnum \<Rightarrow> delivery list" where
  "listDeliveries w userId eventType limit =
     (let ids = map wh_id (filter (\<lambda>h. wh_userId h = userId) (webhooks w)) in
      if ids = [] then [] else
      take (clampLimit limit) (descBy de_createdAt (filter (\<lambda>d.
        de_webhookId d \<in> set ids \<and>
        (case eventType of Some t \<Rightarrow> (t \<noteq> [] \<longrightarrow> de_eventType d = t) | None \<Rightarrow> True))
        (deliveries w))))"

section \<open>Lemmas\<close>

lemma maxAttempts_bounds: "1 \<le> maxAttempts E" "maxAttempts E \<le> 5"
proof -
  have "1 \<le> \<lfloor>min r 5\<rfloor> \<and> \<lfloor>min r 5\<rfloor> \<le> 5" if "1 \<le> r" for r :: rat
    using that by (simp add: le_floor_iff floor_le_iff min_def)
  then have *: "1 \<le> nat \<lfloor>min r 5\<rfloor> \<and> nat \<lfloor>min r 5\<rfloor> \<le> 5" if "1 \<le> r" for r :: rat
    using that by (simp add: nat_le_iff le_nat_iff)
  show "1 \<le> maxAttempts E" "maxAttempts E \<le> 5"
    using * by (auto simp: maxAttempts_def Let_def split: jsnum.splits)
qed

lemma clampLimit_bounds: "1 \<le> clampLimit l \<and> clampLimit l \<le> 200"
  by (cases l) (auto simp: clampLimit_def nat_le_iff le_nat_iff le_floor_iff floor_le_iff
      min_def max_def)

text \<open>The loop ends after at most \<open>mx\<close> attempts, all but the last of which may be retried.\<close>

lemma deliverFrom_spec:
  assumes "attempt \<le> mx"
  shows "\<exists>oc ds. deliverFrom E url p sig mx attempt = Some (oc, ds) \<and>
    attempt \<le> oc_attempts oc \<and> oc_attempts oc \<le> mx \<and>
    (\<forall>k. attempt \<le> k \<and> k < oc_attempts oc \<longrightarrow>
       retryable (fst (dispatch E url p sig k)) \<and> \<not> okStatus (fst (dispatch E url p sig k))) \<and>
    oc_success oc = okStatus (fst (dispatch E url p sig (oc_attempts oc))) \<and>
    (oc_success oc \<or> \<not> retryable (fst (dispatch E url p sig (oc_attempts oc)))
       \<or> oc_attempts oc = mx) \<and>
    ds = map (backoffDelayMs E) [attempt..<oc_attempts oc]"
  using assms
proof (induction "mx - attempt" arbitrary: attempt)
  case 0
  then have "attempt = mx" by simp
  then show ?case
    by (subst deliverFrom.simps) (auto simp: Let_def split: prod.splits)
next
  case (Suc k)
  obtain status err where d: "dispatch E url p sig attempt = (status, err)" by fastforce
  show ?case
  proof (cases "okStatus status \<or> \<not> retryable status")
    case True
    with Suc.prems d show ?thesis by (subst deliverFrom.simps) (auto simp: Let_def)
  next
    case False
    from Suc have lt: "attempt < mx" by simp
    have "k = mx - Suc attempt" "Suc attempt \<le> mx" using Suc.hyps(2) lt by simp_all
    from Suc.hyps(1) [OF this] obtain oc ds where
      ih: "deliverFrom E url p sig mx (Suc attempt) = Some (oc, ds)"
        "Suc attempt \<le> oc_attempts oc" "oc_attempts oc \<le> mx"
        "\<forall>k. Suc attempt \<le> k \<and> k < oc_attempts oc \<longrightarrow>
           retryable (fst (dispatch E url p sig k)) \<and> \<not> okStatus (fst (dispatch E url p sig k))"
        "oc_success oc = okStatus (fst (dispatch E url p sig (oc_attempts oc)))"
        "oc_success oc \<or> \<not> retryable (fst (dispatch E url p sig (oc_attempts oc)))
           \<or> oc_attempts oc = mx"
        "ds = map (backoffDelayMs E) [Suc attempt..<oc_attempts oc]"
      by blast
    have step: "deliverFrom E url p sig mx attempt = Some (oc, backoffDelayMs E attempt # ds)"
      using False lt d ih(1) by (subst deliverFrom.simps) (simp add: Let_def)
    have "retryable (fst (dispatch E url p sig k)) \<and> \<not> okStatus (fst (dispatch E url p sig k))"
      if "attempt \<le> k" "k < oc_attempts oc" for k
      using that ih(4) False d by (cases "k = attempt") auto
    moreover have "backoffDelayMs E attempt # ds = map (backoffDelayMs E) [attempt..<oc_attempts oc]"
      using ih(2,7) by (simp add: upt_conv_Cons)
    ultimately show ?thesis using step ih by auto
  qed
qed

lemma keeps_recordDelivery [act_intros]:
  assumes "\<And>w x. p (w\<lparr>deliveries := x\<rparr>) = p w" and "\<And>w n. p (w\<lparr>idseq := n\<rparr>) = p w"
  shows "keeps p (recordDelivery E h t pl oc)"
proof -
  have "p (deliveries_update g w) = p w" for g w
    using assms(1) [of "g (deliveries w)" w] by (cases w) simp
  with assms(2) show ?thesis
    unfolding recordDelivery_def by (intro act_intros) auto
qed

lemma keeps_deliverWithRetry [act_intros]:
  assumes "\<And>w x. p (w\<lparr>deliveries := x\<rparr>) = p w" and "\<And>w n. p (w\<lparr>idseq := n\<rparr>) = p w"
  shows "keeps p (deliverWithRetry E h t pl)"
  unfolding deliverWithRetry_def
  by (intro act_intros) (auto split: option.split intro!: act_intros assms)

lemma keeps_emit [act_intros]:
  assumes "\<And>w x. p (w\<lparr>deliveries := x\<rparr>) = p w" and "\<And>w n. p (w\<lparr>idseq := n\<rparr>) = p w"
    and "\<And>w x. p (w\<lparr>emitted := x\<rparr>) = p w"
  shows "keeps p (emit E t d)"
  unfolding emit_def handleEvent_def dispatchEvent_def
  by (intro act_intros assms)

text \<open>\<open>emit\<close> never throws, and logs exactly its event.\<close>

lemma catchE_ret_Inr: "fst (catchE m (\<lambda>_. ret x) w) = Inr y \<or> fst (catchE m (\<lambda>_. ret x) w) = Inr x"
  if "fst (m w) = Inr y \<or> (\<exists>e. fst (m w) = Inl e)"
  using that by (auto simp: catchE_apply split: prod.splits sum.splits)

lemma catchE_unit_Inr: "fst (catchE m (\<lambda>_. ret ()) w) = Inr ()"
  by (auto simp: catchE_apply split: prod.splits sum.splits)

lemma emit_Inr: "fst (emit E t d w) = Inr ()"
  by (simp add: emit_def seqE_apply catchE_unit_Inr)

lemma emit_emitted: "emitted (snd (emit E t d w)) = emitted w @ [(t, d)]"
proof -
  have "keeps emitted (catchE (handleEvent E t d) (\<lambda>_. ret ()))"
    unfolding handleEvent_def dispatchEvent_def by (intro act_intros) simp_all
  then show ?thesis by (simp add: emit_def seqE_apply keeps_snd)
qed

text \<open>Everything but the deliveries, the id counter and the event log stays as it was.\<close>

definition butNotified :: "world \<Rightarrow> world" where
  "butNotified w = w\<lparr>deliveries := [], idseq := 0, emitted := []\<rparr>"

lemma emit_butNotified: "butNotified (snd (emit E t d w)) = butNotified w"
  by (rule keeps_snd) (intro keeps_emit, simp_all add: butNotified_def)

lemma butNotified_eqD:
  "butNotified w' = butNotified w \<Longrightarrow>
   w' = w\<lparr>deliveries := deliveries w', idseq := idseq w', emitted := emitted w'\<rparr>"
  by (cases w; cases w') (simp add: butNotified_def)

lemma emit_eval:
  "emit E t d w = (Inr (), w') \<Longrightarrow>
   w' = w\<lparr>deliveries := deliveries w', idseq := idseq w', emitted := emitted w @ [(t, d)]\<rparr>"
  using butNotified_eqD [of w' w] emit_butNotified [of E t d w] emit_emitted [of E t d w] by simp

lemma emit_cases: obtains w' where "emit E t d w = (Inr (), w')"
  using emit_Inr [of E t d w] by (metis prod.exhaust_sel)

text \<open>What delivering an event leaves unchanged.\<close>

lemma emit_frame:
  assumes "emit E t d w = (r, w')"
  shows "r = Inr ()" "users w' = users w" "credits w' = credits w" "approvals w' = approvals w"
    "verifiers w' = verifiers w" "offers w' = offers w" "trades w' = trades w"
    "retirements w' = retirements w" "certificates w' = certificates w"
    "webhooks w' = webhooks w" "challenges w' = challenges w"
    "bridgeRecords w' = bridgeRecords w" "sent w' = sent w"
    "emitted w' = emitted w @ [(t, d)]"
proof -
  from emit_Inr [of E t d w] assms show r: "r = Inr ()" by simp
  have e: "w' = w\<lparr>deliveries := deliveries w', idseq := idseq w',
      emitted := emitted w @ [(t, d)]\<rparr>"
    using assms r by (intro emit_eval) simp
  show "users w' = users w" "credits w' = credits w" "approvals w' = approvals w"
    "verifiers w' = verifiers w" "offers w' = offers w" "trades w' = trades w"
    "retirements w' = retirements w" "certificates w' = certificates w"
    "webhooks w' = webhooks w" "challenges w' = challenges w"
    "bridgeRecords w' = bridgeRecords w" "sent w' = sent w"
    "emitted w' = emitted w @ [(t, d)]"
    by (subst e, simp)+
qed

lemma emit_frameD:
  "emit E t d w = (r, w') \<Longrightarrow> r = Inr () \<and> users w' = users w \<and> credits w' = credits w \<and>
   approvals w' = approvals w \<and> verifiers w' = verifiers w \<and> offers w' = offers w \<and>
   trades w' = trades w \<and> retirements w' = retirements w \<and> certificates w' = certificates w \<and>
   webhooks w' = webhooks w \<and> challenges w' = challenges w \<and>
   bridgeRecords w' = bridgeRecords w \<and> sent w' = sent w \<and> emitted w' = emitted w @ [(t, d)]"
  using emit_frame [of E t d w r w'] by simp

section \<open>Properties\<close>

text \<open>
  C31. Delivering a payload always ends: it makes between one and five attempts;
  every attempt but the last was answered by a time-out or a server error, the last one was
  accepted, rejected for good, or the last allowed; the delays double from the configured base.
\<close>

theorem delivery_attempts:
  "\<exists>oc ds. deliverFrom E url p sig (maxAttempts E) 1 = Some (oc, ds) \<and>
    1 \<le> oc_attempts oc \<and> oc_attempts oc \<le> maxAttempts E \<and> maxAttempts E \<le> 5 \<and>
    (\<forall>k \<in> {1..<oc_attempts oc}. retryable (fst (dispatch E url p sig k)) \<and>
       \<not> okStatus (fst (dispatch E url p sig k))) \<and>
    oc_success oc = okStatus (fst (dispatch E url p sig (oc_attempts oc))) \<and>
    (oc_success oc \<or> \<not> retryable (fst (dispatch E url p sig (oc_attempts oc)))
       \<or> oc_attempts oc = maxAttempts E) \<and>
    ds = map (backoffDelayMs E) [1..<oc_attempts oc]"
proof -
  from deliverFrom_spec [OF maxAttempts_bounds(1), of E url p sig] obtain oc ds where
    "deliverFrom E url p sig (maxAttempts E) 1 = Some (oc, ds)" "1 \<le> oc_attempts oc"
    "oc_attempts oc \<le> maxAttempts E"
    "\<forall>k. 1 \<le> k \<and> k < oc_attempts oc \<longrightarrow>
       retryable (fst (dispatch E url p sig k)) \<and> \<not> okStatus (fst (dispatch E url p sig k))"
    "oc_success oc = okStatus (fst (dispatch E url p sig (oc_attempts oc)))"
    "oc_success oc \<or> \<not> retryable (fst (dispatch E url p sig (oc_attempts oc)))
       \<or> oc_attempts oc = maxAttempts E"
    "ds = map (backoffDelayMs E) [1..<oc_attempts oc]"
    by blast
  then show ?thesis using maxAttempts_bounds(2) [of E]
    by (intro exI [of _ oc] exI [of _ ds]) auto
qed

theorem delivery_attempts_witness:
  "\<exists>oc ds. deliverFrom demoEnv ''http://x'' JNull ''s'' (maxAttempts demoEnv) 1 = Some (oc, ds) \<and>
     oc_attempts oc \<le> 5"
  using delivery_attempts [of demoEnv "''http://x''" JNull "''s''"] by fastforce

text \<open>
  Announcing an event never throws, whatever the subscribers answer, and changes
  nothing but the delivery records, the id counter and the log of events, which gains that event.
\<close>

theorem emit_isolated:
  "fst (emit E t d w) = Inr () \<and> butNotified (snd (emit E t d w)) = butNotified w \<and>
   emitted (snd (emit E t d w)) = emitted w @ [(t, d)]"
  by (simp add: emit_Inr emit_butNotified emit_emitted)

subsection \<open>One record per subscriber\<close>

definition deliveryIdsOk :: "env \<Rightarrow> world \<Rightarrow> bool" where
  "deliveryIdsOk E w \<longleftrightarrow> inj (cuid E) \<and> (\<forall>d \<in> set (deliveries w). \<exists>n < idseq w. de_id d = cuid E n)"

definition recorded :: "string \<Rightarrow> webhook \<Rightarrow> delivery \<Rightarrow> bool" where
  "recorded t h d \<longleftrightarrow> de_webhookId d = wh_id h \<and> de_eventType d = t \<and> 1 \<le> de_attempts d \<and>
     de_attempts d \<le> 5"

lemma deliveryId_fresh:
  assumes "deliveryIdsOk E w" shows "cuid E (idseq w) \<notin> set (map de_id (deliveries w))"
proof
  assume "cuid E (idseq w) \<in> set (map de_id (deliveries w))"
  then obtain n where "n < idseq w" "cuid E (idseq w) = cuid E n"
    using assms by (auto simp: deliveryIdsOk_def)
  then show False using assms by (auto simp: deliveryIdsOk_def inj_eq)
qed

lemma deliverWithRetry_records:
  assumes ok: "deliveryIdsOk E w" and h: "h \<in> set (webhooks w)" and pl: "\<not> hasBig pl"
  shows "\<exists>d. catchE (deliverWithRetry E h t pl) (\<lambda>_. ret ()) w =
      (Inr (), w\<lparr>idseq := idseq w + 1, deliveries := deliveries w @ [d]\<rparr>) \<and>
    recorded t h d \<and>
    deliveryIdsOk E (w\<lparr>idseq := idseq w + 1, deliveries := deliveries w @ [d]\<rparr>)"
proof -
  let ?sig = "hmacSha256 E (wh_secret h) (jsonOf pl)"
  from delivery_attempts [of E "wh_url h" pl ?sig] obtain oc ds where
    oc: "deliverFrom E (wh_url h) pl ?sig (maxAttempts E) 1 = Some (oc, ds)"
    "1 \<le> oc_attempts oc" "oc_attempts oc \<le> 5" by fastforce
  let ?d = "\<lparr>de_id = cuid E (idseq w), de_webhookId = wh_id h, de_eventType = t, de_payload = pl,
     de_success = oc_success oc, de_attempts = oc_attempts oc, de_statusCode = oc_statusCode oc,
     de_durationMs = oc_durationMs oc, de_error = oc_error oc, de_createdAt = clock E\<rparr>"
  have "deliveryCheck (w\<lparr>idseq := idseq w + 1\<rparr>) ?d = None"
    using deliveryId_fresh [OF ok] h by (simp add: deliveryCheck_def)
  then have "catchE (deliverWithRetry E h t pl) (\<lambda>_. ret ()) w =
      (Inr (), w\<lparr>idseq := idseq w + 1, deliveries := deliveries w @ [?d]\<rparr>)"
    using oc(1) pl by (simp add: deliverWithRetry_def recordDelivery_def signPayload_def act_simps
        dbInsert_def)
  moreover have "recorded t h ?d" using oc by (simp add: recorded_def)
  moreover have "deliveryIdsOk E (w\<lparr>idseq := idseq w + 1, deliveries := deliveries w @ [?d]\<rparr>)"
    using ok by (auto simp: deliveryIdsOk_def less_Suc_eq)
  ultimately show ?thesis by blast
qed

lemma deliverAll_records:
  assumes "deliveryIdsOk E w" and "set hs \<subseteq> set (webhooks w)" and "\<not> hasBig pl"
  shows "\<exists>ds w'. forE hs (\<lambda>h. catchE (deliverWithRetry E h t pl) (\<lambda>_. ret ())) w = (Inr (), w') \<and>
    deliveries w' = deliveries w @ ds \<and> list_all2 (recorded t) hs ds"
  using assms
proof (induction hs arbitrary: w)
  case Nil
  then show ?case by simp
next
  case (Cons h hs)
  then obtain d where d: "catchE (deliverWithRetry E h t pl) (\<lambda>_. ret ()) w =
      (Inr (), w\<lparr>idseq := idseq w + 1, deliveries := deliveries w @ [d]\<rparr>)" "recorded t h d"
    "deliveryIdsOk E (w\<lparr>idseq := idseq w + 1, deliveries := deliveries w @ [d]\<rparr>)"
    using deliverWithRetry_records [of E w h pl t] by auto
  let ?w = "w\<lparr>idseq := idseq w + 1, deliveries := deliveries w @ [d]\<rparr>"
  have "set hs \<subseteq> set (webhooks ?w)" using Cons.prems(2) by simp
  from Cons.IH [OF d(3) this Cons.prems(3)] obtain ds w' where
    "forE hs (\<lambda>h. catchE (deliverWithRetry E h t pl) (\<lambda>_. ret ())) ?w = (Inr (), w')"
    "deliveries w' = deliveries ?w @ ds" "list_all2 (recorded t) hs ds" by blast
  then have fin: "deliveries w' = deliveries w @ (d # ds) \<and> list_all2 (recorded t) (h # hs) (d # ds)"
    and "forE hs (\<lambda>h. catchE (deliverWithRetry E h t pl) (\<lambda>_. ret ())) ?w = (Inr (), w')"
    using d(2) by simp_all
  then have "forE (h # hs) (\<lambda>h. catchE (deliverWithRetry E h t pl) (\<lambda>_. ret ())) w = (Inr (), w')"
    unfolding forE.simps using seqE_Inr [where m = "catchE (deliverWithRetry E h t pl) (\<lambda>_. ret ())",
      OF d(1)] by (metis (no_types))
  with fin show ?case using d(2) by (intro exI [of _ "d # ds"] exI [of _ w']) blast
qed



subsection \<open>Ownership\<close>

text \<open>
  Only the owner removes a webhook, and only that webhook goes; a webhook
  that has a delivery record is never removed, because the record refers to it.
\<close>

theorem removeWebhook_owner:
  assumes "removeWebhook userId i w = (Inr r, w')"
  shows "(\<exists>h. findWebhook w i = Some h \<and> wh_userId h = userId) \<and>
    webhooks w' = filter (\<lambda>h. wh_id h \<noteq> i) (webhooks w) \<and>
    i \<notin> set (map de_webhookId (deliveries w)) \<and> deliveries w' = deliveries w"
  using assms
  by (auto simp: removeWebhook_def ownedWebhook_def deleteWebhookRow_def act_simps dbDelete_def
      split: option.splits if_splits)

theorem removeWebhook_owner_witness:
  "\<exists>r w'. removeWebhook ''u1'' ''w1'' demoWorld = (Inr r, w') \<and> webhooks w' = []"
proof -
  have "ranOk (removeWebhook ''u1'' ''w1'' demoWorld)" by code_simp
  then obtain r w' where run: "removeWebhook ''u1'' ''w1'' demoWorld = (Inr r, w')"
    by (blast dest: ranOk_D)
  from removeWebhook_owner [OF run] run show ?thesis by (auto simp: demoWorld_def)
qed

lemma removeWebhook_delivered:
  assumes "findWebhook w i = Some h" and "wh_userId h = userId" and "d \<in> set (deliveries w)"
    and "de_webhookId d = i"
  shows "removeWebhook userId i w = (Inl (PrismaError ''P2003''), w)"
  using assms by (auto simp: removeWebhook_def ownedWebhook_def deleteWebhookRow_def act_simps)

end
