(* ===== verification/Credits.thy ===== *)
theory Credits
  imports StellarService Webhooks "HOL-Library.Word"
begin

unbundle bit_operations_syntax

text \<open>
  \<open>api/src/credits/credits.service.ts\<close> and the pinning stub of \<open>api/src/ipfs\<close>: issuing a credit,
  the decisions of the verifiers, and the queries.  Requests run one after another; \<open>process.env\<close>
  and the configuration service read the same settings.
\<close>

section \<open>Pinning\<close>

record pin_result =
  pin_ipfsHash :: string
  pin_size :: nat
  pin_timestamp :: string

definition STUB_CID :: string where
  "STUB_CID = ''bafybeigdyrzt5sfp7udm7hu76uh7y26nf3efuylqabf3oclgtqy55fbzdi''"

definition pinJson :: "env \<Rightarrow> jsval \<Rightarrow> pin_result" where
  "pinJson E data = \<lparr>pin_ipfsHash = STUB_CID, pin_size = length (jsonOf data),
     pin_timestamp = isoString (clock E)\<rparr>"

definition pinFile :: "env \<Rightarrow> 8 word list \<Rightarrow> pin_result" where
  "pinFile E buffer = \<lparr>pin_ipfsHash = STUB_CID, pin_size = length buffer,
     pin_timestamp = isoString (clock E)\<rparr>"

section \<open>Issuing\<close>

record create_credit_dto =
  cd_projectId :: string
  cd_methodology :: string
  cd_vintageStart :: string
  cd_vintageEnd :: string
  cd_tonnes :: jsnum
  cd_geography :: string
  cd_documentation :: jsval
  cd_sdgCobenefits :: "int list option"
  cd_permanenceRating :: "int option"
  cd_bufferContributionPct :: "int option"
  cd_additionalityType :: "int option"

text \<open>\<open>methodology.replace(/[^A-Za-z0-9]/g, '').substring(0, 6).toUpperCase()\<close>\<close>

definition methodologyAbbr :: "string \<Rightarrow> string" where
  "methodologyAbbr m = toUpper (take 6 (filter isAlnum m))"

definition generateSerialPrefix :: "string \<Rightarrow> string \<Rightarrow> string" where
  "generateSerialPrefix projectId methodology =
     projectId @ ''-'' @ methodologyAbbr methodology @ ''-''"

text \<open>\<open>acc | (1 << (g - 1))\<close>: JavaScript shifts 32-bit numbers, by the count modulo 32.\<close>

definition sdgBit :: "int \<Rightarrow> 32 word" where
  "sdgBit g = push_bit (nat ((g - 1) mod 32)) 1"

definition computeSdgFlags :: "int list \<Rightarrow> int" where
  "computeSdgFlags goals = sint (foldl (\<lambda>acc g. acc OR sdgBit g) 0 goals)"

text \<open>\<open>Math.floor(new Date(s).getTime() / 1000)\<close>, NaN for an invalid date.\<close>

definition unixSeconds :: "env \<Rightarrow> string \<Rightarrow> jsnum" where
  "unixSeconds E s = (case dateParse E s of
     None \<Rightarrow> NaN | Some ms \<Rightarrow> num_floor (num_div (num_of_int ms) (ofInt 1000)))"

definition ipfsPayload :: "env \<Rightarrow> string \<Rightarrow> create_credit_dto \<Rightarrow> jsval" where
  "ipfsPayload E wallet dto = JObj [
     (''projectId'', JStr (cd_projectId dto)), (''methodology'', JStr (cd_methodology dto)),
     (''vintageStart'', JStr (cd_vintageStart dto)), (''vintageEnd'', JStr (cd_vintageEnd dto)),
     (''tonnes'', JNum (cd_tonnes dto)), (''geography'', JStr (cd_geography dto)),
     (''sdgFlags'', JNum (ofInt (computeSdgFlags (orElse (cd_sdgCobenefits dto) [])))),
     (''permanenceRating'', JNum (ofInt (orElse (cd_permanenceRating dto) 50))),
     (''bufferContributionPct'', JNum (ofInt (orElse (cd_bufferContributionPct dto) 10))),
     (''additionalityType'', JNum (ofInt (orElse (cd_additionalityType dto) 0))),
     (''documentation'', coalesce (cd_documentation dto) (JObj [])),
     (''issuer'', JStr wallet), (''timestamp'', JStr (isoString (clock E)))]"

definition issueMetadata :: "env \<Rightarrow> create_credit_dto \<Rightarrow> string \<Rightarrow> metadata_input" where
  "issueMetadata E dto ipfsHash = \<lparr>
     mi_projectId = Some (cd_projectId dto), mi_methodology = Some (cd_methodology dto),
     mi_vintageStart = Some (unixSeconds E (cd_vintageStart dto)),
     mi_vintageEnd = Some (unixSeconds E (cd_vintageEnd dto)),
     mi_tonnes = Some (cd_tonnes dto), mi_geography = Some (cd_geography dto),
     mi_serialPrefix = Some (generateSerialPrefix (cd_projectId dto) (cd_methodology dto)),
     mi_sdgFlags = Some (ofInt (computeSdgFlags (orElse (cd_sdgCobenefits dto) []))),
     mi_permanenceRating = Some (ofInt (orElse (cd_permanenceRating dto) 50)),
     mi_bufferContributionPct = Some (ofInt (orElse (cd_bufferContributionPct dto) 10)),
     mi_additionalityType = Some (ofInt (orElse (cd_additionalityType dto) 0)),
     mi_ipfsHash = Some ipfsHash, mi_status = None, mi_createdAt = None, mi_tokenId = None\<rparr>"

definition getNextCreditCounter :: "world \<Rightarrow> int" where
  "getNextCreditCounter w =
     (case descBy cr_creditId (credits w) of [] \<Rightarrow> 0 | c # _ \<Rightarrow> cr_creditId c) + 1"

definition issueCredit :: "env \<Rightarrow> string \<Rightarrow> string \<Rightarrow> create_credit_dto \<Rightarrow> credit op" where
  "issueCredit E userId wallet dto =
     bindE (getsE (\<lambda>w. userById w userId)) (\<lambda>user.
     bindE (orThrow user (NotFound ''User not found'')) (\<lambda>_.
       let ipfsHash = pin_ipfsHash (pinJson E (ipfsPayload E wallet dto)) in
       bindE (submitCredit E wallet (issueMetadata E dto ipfsHash) ipfsHash) (\<lambda>txHash.
       bindE (getsE getNextCreditCounter) (\<lambda>creditCounter.
       bindE (dateArg E (cd_vintageStart dto)) (\<lambda>vs.
       bindE (dateArg E (cd_vintageEnd dto)) (\<lambda>ve.
       seqE (floatArg E (cd_tonnes dto))
      (bindE (freshId E) (\<lambda>i.
       bindE (dbInsert credits_update creditCheck
         \<lparr>cr_id = i, cr_creditId = creditCounter, cr_projectId = cd_projectId dto,
          cr_methodology = cd_methodology dto, cr_vintageStart = vs, cr_vintageEnd = ve,
          cr_tonnes = cd_tonnes dto, cr_geography = cd_geography dto,
          cr_serialPrefix = generateSerialPrefix (cd_projectId dto) (cd_methodology dto),
          cr_sdgFlags = computeSdgFlags (orElse (cd_sdgCobenefits dto) []),
          cr_permanenceRating = orElse (cd_permanenceRating dto) 50,
          cr_bufferContributionPct = orElse (cd_bufferContributionPct dto) 10,
          cr_additionalityType = orElse (cd_additionalityType dto) 0,
          cr_ipfsHash = ipfsHash, cr_status = CPending, cr_tokenId = None,
          cr_createdAt = clock E, cr_updatedAt = clock E,
          cr_issuerId = userId, cr_ownerId = userId\<rparr>) (\<lambda>credit.
       seqE (emit E ''credit.submitted'' (JObj [
              (''creditId'', JNum (ofInt (cr_creditId credit))), (''issuer'', JStr wallet),
              (''ipfsHash'', JStr ipfsHash), (''txHash'', JStr txHash),
              (''projectId'', JStr (cd_projectId dto))]))
            (ret credit))))))))))"

section \<open>Decisions\<close>

record user_ref =
  ur_id :: string
  ur_stellarPub :: string

definition userRef :: "world \<Rightarrow> string \<Rightarrow> user_ref option" where
  "userRef w i = map_option (\<lambda>u. \<lparr>ur_id = u_id u, ur_stellarPub = u_stellarPub u\<rparr>) (userById w i)"

definition creditApprovals :: "world \<Rightarrow> credit \<Rightarrow> approval list" where
  "creditApprovals w c = filter (\<lambda>a. ap_creditId a = cr_id c) (approvals w)"

record credit_view =
  cv_credit :: credit
  cv_issuer :: "user_ref option"
  cv_owner :: "user_ref option"
  cv_approvals :: "(approval \<times> user_ref option) list"

definition creditView :: "world \<Rightarrow> (approval list \<Rightarrow> approval list) \<Rightarrow> credit \<Rightarrow> credit_view" where
  "creditView w order c = \<lparr>cv_credit = c, cv_issuer = userRef w (cr_issuerId c),
     cv_owner = userRef w (cr_ownerId c),
     cv_approvals = map (\<lambda>a. (a, userRef w (ap_verifierId a))) (order (creditApprovals w c))\<rparr>"

definition requireVerifier :: "string \<Rightarrow> unit op" where
  "requireVerifier userId =
     bindE (getsE (\<lambda>w. List.find (\<lambda>v. ve_userId v = userId) (verifiers w))) (\<lambda>v.
     throwIf (case v of None \<Rightarrow> True | Some r \<Rightarrow> ve_status r \<noteq> VActive)
       (Forbidden ''Not an active verifier''))"

definition decided :: "string \<Rightarrow> bool \<Rightarrow> approval \<Rightarrow> bool" where
  "decided userId b a \<longleftrightarrow> ap_verifierId a = userId \<and> ap_approved a = b"

definition createApproval :: "env \<Rightarrow> credit \<Rightarrow> string \<Rightarrow> bool \<Rightarrow> string option \<Rightarrow> approval op" where
  "createApproval E c userId b comments =
     bindE (freshId E) (\<lambda>i. dbInsert approvals_update approvalCheck
       \<lparr>ap_id = i, ap_creditId = cr_id c, ap_verifierId = userId, ap_approved = b,
        ap_comments = comments, ap_createdAt = clock E\<rparr>)"

definition countDecisions :: "world \<Rightarrow> credit \<Rightarrow> bool \<Rightarrow> nat" where
  "countDecisions w c b =
     length (filter (\<lambda>a. ap_creditId a = cr_id c \<and> ap_approved a = b) (approvals w))"

definition envInt :: "env \<Rightarrow> string \<Rightarrow> string \<Rightarrow> jsnum" where
  "envInt E key d = parseInt10 (confOr E key d)"

definition reaches :: "nat \<Rightarrow> jsnum \<Rightarrow> bool" where
  "reaches n threshold \<longleftrightarrow> num_le threshold (ofInt (int n))"

definition updateCredit :: "env \<Rightarrow> int \<Rightarrow> (credit \<Rightarrow> credit) \<Rightarrow> credit op" where
  "updateCredit E creditId f = dbUpdate credits credits_update (\<lambda>c. cr_creditId c = creditId)
     (\<lambda>c. (f c)\<lparr>cr_updatedAt := clock E\<rparr>)"

text \<open>\<open>txHash\<close>, truthy: the transaction returned a token.\<close>

definition tokenGiven :: "string option \<Rightarrow> bool" where
  "tokenGiven tx \<longleftrightarrow> tx \<noteq> None \<and> tx \<noteq> Some []"

definition loadPending :: "int \<Rightarrow> credit op" where
  "loadPending creditId =
     bindE (getsE (\<lambda>w. creditByNumber w creditId)) (\<lambda>r.
     bindE (orThrow r (NotFound ''Credit not found'')) (\<lambda>credit.
     seqE (throwIf (cr_status credit \<noteq> CPending)
            (BadRequest ''Credit is not in PENDING status''))
          (ret credit)))"

definition approveCredit ::
  "env \<Rightarrow> string \<Rightarrow> string \<Rightarrow> int \<Rightarrow> string option \<Rightarrow> credit_view option op" where
  "approveCredit E userId wallet creditId comments =
     seqE (requireVerifier userId)
    (bindE (loadPending creditId) (\<lambda>credit.
     bindE (getsE (\<lambda>w. creditApprovals w credit)) (\<lambda>as.
     seqE (throwIf (\<exists>a \<in> set as. decided userId True a)
            (BadRequest ''Already approved this credit''))
    (bindE (approveAndMint E wallet (ofInt creditId) (orEmpty comments)) (\<lambda>txHash.
     seqE (createApproval E credit userId True comments)
    (bindE (getsE (\<lambda>w. countDecisions w credit True)) (\<lambda>totalApprovals.
       let minted = (reaches totalApprovals (envInt E ''VERIFIER_THRESHOLD'' ''2'')
                      \<and> tokenGiven txHash) in
       seqE (whenE minted (seqE (updateCredit E creditId
              (\<lambda>c. c\<lparr>cr_status := CActive, cr_tokenId := txHash\<rparr>)) (ret ())))
      (seqE (emit E ''credit.approved'' (JObj [
              (''creditId'', JNum (ofInt creditId)), (''verifier'', JStr wallet),
              (''comments'', optText comments)]))
      (seqE (whenE minted (emit E ''credit.minted'' (JObj [
              (''creditId'', JNum (ofInt creditId)), (''tokenId'', optText txHash)])))
      (getsE (\<lambda>w. map_option (creditView w (\<lambda>as. as)) (creditByNumber w creditId))))))))))))"

definition rejectCredit ::
  "env \<Rightarrow> string \<Rightarrow> string \<Rightarrow> int \<Rightarrow> string \<Rightarrow> credit_view option op" where
  "rejectCredit E userId wallet creditId reason =
     seqE (requireVerifier userId)
    (bindE (loadPending creditId) (\<lambda>credit.
     bindE (getsE (\<lambda>w. creditApprovals w credit)) (\<lambda>as.
     seqE (throwIf (\<exists>a \<in> set as. decided userId False a)
            (BadRequest ''Already recorded a decision on this credit''))
    (bindE (stellarRejectCredit E wallet (ofInt creditId) reason) (\<lambda>_.
     seqE (createApproval E credit userId False (Some reason))
    (bindE (getsE (\<lambda>w. countDecisions w credit False)) (\<lambda>totalRejections.
       seqE (whenE (reaches totalRejections (envInt E ''VERIFIER_QUORUM'' ''3''))
              (seqE (updateCredit E creditId (\<lambda>c. c\<lparr>cr_status := CRejected\<rparr>)) (ret ())))
      (seqE (emit E ''credit.rejected'' (JObj [
              (''creditId'', JNum (ofInt creditId)), (''verifier'', JStr wallet),
              (''reason'', JStr reason)]))
      (getsE (\<lambda>w. map_option (creditView w (\<lambda>as. as)) (creditByNumber w creditId)))))))))))"

section \<open>Queries\<close>

record credit_filter =
  fi_methodology :: "string option"
  fi_geography :: "string option"
  fi_vintageMin :: "int option"
  fi_vintageMax :: "int option"
  fi_status :: "string option"
  fi_issuer :: "string option"
  fi_owner :: "string option"
  fi_page :: "int option"
  fi_limit :: "int option"
  fi_sort :: "string option"

definition creditStatusOf :: "string \<Rightarrow> credit_status option" where
  "creditStatusOf s = map_of [(''PENDING'', CPending), (''ACTIVE'', CActive),
     (''RETIRED'', CRetired), (''REJECTED'', CRejected), (''BRIDGED'', CBridged)] s"

definition dateBound :: "env \<Rightarrow> int option \<Rightarrow> string \<Rightarrow> api_error + int option" where
  "dateBound E year suffix = (case givenInt year of
     None \<Rightarrow> Inr None
   | Some y \<Rightarrow> (case dateParse E (showInt y @ suffix) of
       None \<Rightarrow> Inl (PrismaError ''validation'') | Some d \<Rightarrow> Inr (Some d)))"

definition statusArg :: "string option \<Rightarrow> api_error + credit_status option" where
  "statusArg s = (case given s of
     None \<Rightarrow> Inr None
   | Some t \<Rightarrow> (case creditStatusOf (toUpper t) of
       None \<Rightarrow> Inl (PrismaError ''validation'') | Some st \<Rightarrow> Inr (Some st)))"

definition creditWhere :: "env \<Rightarrow> world \<Rightarrow> credit_filter \<Rightarrow> api_error + (credit \<Rightarrow> bool)" where
  "creditWhere E w f =
     bindS (dateBound E (fi_vintageMin f) ''-01-01'') (\<lambda>gte.
     bindS (dateBound E (fi_vintageMax f) ''-12-31'') (\<lambda>lte.
     bindS (statusArg (fi_status f)) (\<lambda>st.
     Inr (\<lambda>c.
       when_given (given (fi_methodology f)) (\<lambda>m.
          includesStr (toUpper m) (toUpper (cr_methodology c))) \<and>
       when_given (given (fi_geography f)) (\<lambda>g. cr_geography c = toUpper g) \<and>
       when_given gte (\<lambda>d. d \<le> cr_vintageStart c) \<and>
       when_given lte (\<lambda>d. cr_vintageStart c \<le> d) \<and>
       when_given st (\<lambda>s. cr_status c = s) \<and>
       when_given (given (fi_issuer f)) (hasPub w (cr_issuerId c)) \<and>
       when_given (given (fi_owner f)) (hasPub w (cr_ownerId c))))))"

definition creditOrder :: "string option \<Rightarrow> credit list \<Rightarrow> credit list" where
  "creditOrder srt = (case given srt of
     Some s \<Rightarrow> (if s = ''created_asc'' then ascBy cr_createdAt
               else if s = ''vintage_asc'' then ascBy cr_vintageStart
               else descBy cr_createdAt)
   | None \<Rightarrow> descBy cr_createdAt)"

definition getCredits :: "env \<Rightarrow> world \<Rightarrow> credit_filter \<Rightarrow> api_error + credit page" where
  "getCredits E w filters =
     bindS (creditWhere E w filters) (\<lambda>P.
     Inr (mkPage (orElse (fi_page filters) 1) (orElse (fi_limit filters) 20)
            (creditOrder (fi_sort filters) (filter P (credits w)))))"

definition getCredit :: "world \<Rightarrow> int \<Rightarrow> api_error + credit_view" where
  "getCredit w creditId = (case creditByNumber w creditId of
     None \<Rightarrow> Inl (NotFound ''Credit not found'')
   | Some c \<Rightarrow> Inr (creditView w (ascBy ap_createdAt) c))"

datatype event_type = Issuance | ApprovalEvent | Rejection | Minted

record history_entry =
  he_type :: event_type
  he_timestamp :: int
  he_actor :: string
  he_details :: jsval

definition pubOf :: "user_ref option \<Rightarrow> string" where
  "pubOf u = (case u of None \<Rightarrow> [] | Some r \<Rightarrow> ur_stellarPub r)"

definition getProvenance :: "world \<Rightarrow> int \<Rightarrow> api_error + history_entry list" where
  "getProvenance w creditId = bindS (getCredit w creditId) (\<lambda>v.
     let credit = cv_credit v; issuer = pubOf (cv_issuer v) in
     Inr ([\<lparr>he_type = Issuance, he_timestamp = cr_createdAt credit, he_actor = issuer,
            he_details = JObj [(''projectId'', JStr (cr_projectId credit)),
               (''methodology'', JStr (cr_methodology credit))]\<rparr>]
      @ map (\<lambda>(a, u). \<lparr>he_type = (if ap_approved a then ApprovalEvent else Rejection),
            he_timestamp = ap_createdAt a, he_actor = pubOf u,
            he_details = JObj [(''comments'', optText (ap_comments a))]\<rparr>) (cv_approvals v)
      @ (if cr_status credit = CActive
         then [\<lparr>he_type = Minted, he_timestamp = cr_updatedAt credit, he_actor = issuer,
                he_details = JObj [(''tokenId'', optText (cr_tokenId credit))]\<rparr>]
         else [])))"

definition getOwnedCredits :: "world \<Rightarrow> string \<Rightarrow> credit list" where
  "getOwnedCredits w userId =
     descBy cr_createdAt (filter (\<lambda>c. cr_ownerId c = userId) (credits w))"

section \<open>Lemmas\<close>

definition activeVerifier :: "world \<Rightarrow> string \<Rightarrow> bool" where
  "activeVerifier w userId \<longleftrightarrow>
     (\<exists>v. List.find (\<lambda>v. ve_userId v = userId) (verifiers w) = Some v \<and> ve_status v = VActive)"

lemma requireVerifier_InrD:
  "requireVerifier userId w = (Inr u, w') \<Longrightarrow> w' = w \<and> activeVerifier w userId"
  by (auto simp: requireVerifier_def activeVerifier_def act_simps split: option.splits if_splits)

lemma requireVerifier_InlD: "requireVerifier userId w = (Inl e, w') \<Longrightarrow> w' = w"
  by (auto simp: requireVerifier_def act_simps)

lemma loadPending_InrD:
  "loadPending n w = (Inr c, w') \<Longrightarrow>
   w' = w \<and> creditByNumber w n = Some c \<and> cr_status c = CPending"
  by (auto simp: loadPending_def act_simps split: option.splits if_splits)

lemma loadPending_InlD: "loadPending n w = (Inl e, w') \<Longrightarrow> w' = w"
  by (auto simp: loadPending_def act_simps split: option.splits if_splits)

lemma creditByNumber_D: "creditByNumber w n = Some c \<Longrightarrow> c \<in> set (credits w) \<and> cr_creditId c = n"
  by (auto simp: creditByNumber_def dest: find_SomeD)

lemma createApproval_InrD:
  "createApproval E c uid b cm w = (Inr a, w') \<Longrightarrow>
   a = \<lparr>ap_id = cuid E (idseq w), ap_creditId = cr_id c, ap_verifierId = uid, ap_approved = b,
        ap_comments = cm, ap_createdAt = clock E\<rparr> \<and>
   w' = w\<lparr>idseq := idseq w + 1, approvals := approvals w @ [a]\<rparr>"
  by (auto simp: createApproval_def act_simps dest!: approvalT.insert_InrD)

lemma createApproval_InlD:
  "createApproval E c uid b cm w = (Inl e, w') \<Longrightarrow> w' = w\<lparr>idseq := idseq w + 1\<rparr>"
  by (auto simp: createApproval_def act_simps dest!: approvalT.insert_InlD)

definition stamped :: "env \<Rightarrow> (credit \<Rightarrow> credit) \<Rightarrow> credit \<Rightarrow> credit" where
  "stamped E f c = (f c)\<lparr>cr_updatedAt := clock E\<rparr>"

lemma updateCredit_run:
  assumes "creditByNumber w n = Some c"
  shows "updateCredit E n f w =
    (Inr (stamped E f c),
     w\<lparr>credits := updWhere (\<lambda>c. cr_creditId c = n) (stamped E f) (credits w)\<rparr>)"
proof -
  have "credits_update g w = w\<lparr>credits := g (credits w)\<rparr>" for g by (cases w) simp
  moreover have "stamped E f = (\<lambda>c. (f c)\<lparr>cr_updatedAt := clock E\<rparr>)"
    by (simp add: fun_eq_iff stamped_def)
  ultimately show ?thesis
    using assms by (simp add: updateCredit_def dbUpdate_def creditByNumber_def)
qed

lemma approveAndMint_InrD:
  "approveAndMint E v n cm w = (Inr tx, w') \<Longrightarrow>
   \<exists>c. w' = w\<lparr>sent := sent w @ [c]\<rparr> \<and> cc_method c = ''approve_and_mint''"
  unfolding approveAndMint_def by (drule signedRet_InrD) auto

lemma approveAndMint_InlD:
  "approveAndMint E v n cm w = (Inl e, w') \<Longrightarrow> w' = w \<or> (\<exists>c. w' = w\<lparr>sent := sent w @ [c]\<rparr>)"
  unfolding approveAndMint_def by (drule signedRet_anyD) auto

lemma stellarRejectCredit_InrD:
  "stellarRejectCredit E v n rs w = (Inr b, w') \<Longrightarrow>
   \<exists>c. w' = w\<lparr>sent := sent w @ [c]\<rparr> \<and> cc_method c = ''reject_credit''"
  unfolding stellarRejectCredit_def by (drule signedRet_InrD) auto

lemma stellarRejectCredit_InlD:
  "stellarRejectCredit E v n rs w = (Inl e, w') \<Longrightarrow> w' = w \<or> (\<exists>c. w' = w\<lparr>sent := sent w @ [c]\<rparr>)"
  unfolding stellarRejectCredit_def by (drule signedRet_anyD) auto

definition approvedUpdate :: "env \<Rightarrow> string option \<Rightarrow> credit \<Rightarrow> credit" where
  "approvedUpdate E tx = stamped E (\<lambda>c. c\<lparr>cr_status := CActive, cr_tokenId := tx\<rparr>)"

definition rejectedUpdate :: "env \<Rightarrow> credit \<Rightarrow> credit" where
  "rejectedUpdate E = stamped E (\<lambda>c. c\<lparr>cr_status := CRejected\<rparr>)"

text \<open>The run after the guards, from the state in which the approval is stored.\<close>

lemma decision_tail:
  assumes c: "creditByNumber w n = Some c"
    and run: "seqE (whenE b (seqE (updateCredit E n f) (ret ())))
       (seqE (emit E t d) (seqE (whenE b2 (emit E t2 d2)) (getsE g))) w = (r, w')"
  shows "(\<exists>v. r = Inr v) \<and> users w' = users w \<and> approvals w' = approvals w \<and> sent w' = sent w \<and>
    verifiers w' = verifiers w \<and>
    credits w' = (if b then updWhere (\<lambda>c. cr_creditId c = n) (stamped E f) (credits w)
                  else credits w) \<and>
    emitted w' = emitted w @ [(t, d)] @ (if b2 then [(t2, d2)] else [])"
proof -
  define w1 where "w1 = (if b then w\<lparr>credits := updWhere (\<lambda>c. cr_creditId c = n) (stamped E f)
      (credits w)\<rparr> else w)"
  have 1: "whenE b (seqE (updateCredit E n f) (ret ())) w = (Inr (), w1)"
    by (simp add: w1_def whenE_apply seqE_apply updateCredit_run [OF c])
  obtain r2 w2 where 2: "emit E t d w1 = (r2, w2)" by fastforce
  obtain r3 w3 where 3: "emit E t2 d2 w2 = (r3, w3)" by fastforce
  note f2 = emit_frame [OF 2] and f3 = emit_frame [OF 3]
  have "r = Inr (g w')" "w' = (if b2 then w3 else w2)"
    using run 1 2 3 f2(1) f3(1) by (auto simp: seqE_apply whenE_apply split: if_splits)
  then show ?thesis using f2 f3 by (auto simp: w1_def)
qed

lemma approveCredit_InrD:
  assumes "approveCredit E uid wal n cm w = (Inr v, w')"
  shows "\<exists>c tx ap call.
    activeVerifier w uid \<and> creditByNumber w n = Some c \<and> cr_status c = CPending \<and>
    (\<forall>a \<in> set (creditApprovals w c). \<not> decided uid True a) \<and>
    ap_creditId ap = cr_id c \<and> decided uid True ap \<and>
    approvals w' = approvals w @ [ap] \<and>
    credits w' = (if reaches (countDecisions w c True + 1) (envInt E ''VERIFIER_THRESHOLD'' ''2'')
                       \<and> tokenGiven tx
      then updWhere (\<lambda>c. cr_creditId c = n) (approvedUpdate E tx) (credits w) else credits w) \<and>
    sent w' = sent w @ [call] \<and> cc_method call = ''approve_and_mint'' \<and>
    fst (approveAndMint E wal (ofInt n) (orEmpty cm) w) = Inr tx"
proof -
  from assms obtain c tx w1 w2 ap where
    g: "activeVerifier w uid" "creditByNumber w n = Some c" "cr_status c = CPending"
       "\<forall>a \<in> set (creditApprovals w c). \<not> decided uid True a"
    and mint: "approveAndMint E wal (ofInt n) (orEmpty cm) w = (Inr tx, w1)"
    and ca: "createApproval E c uid True cm w1 = (Inr ap, w2)"
    and tail: "(let minted = (reaches (countDecisions w2 c True)
                  (envInt E ''VERIFIER_THRESHOLD'' ''2'') \<and> tokenGiven tx) in
       seqE (whenE minted (seqE (updateCredit E n
              (\<lambda>c. c\<lparr>cr_status := CActive, cr_tokenId := tx\<rparr>)) (ret ())))
      (seqE (emit E ''credit.approved'' (JObj [
              (''creditId'', JNum (ofInt n)), (''verifier'', JStr wal),
              (''comments'', optText cm)]))
      (seqE (whenE minted (emit E ''credit.minted'' (JObj [
              (''creditId'', JNum (ofInt n)), (''tokenId'', optText tx)])))
      (getsE (\<lambda>w. map_option (creditView w (\<lambda>as. as)) (creditByNumber w n)))))) w2 = (Inr v, w')"
    unfolding approveCredit_def
    by (fastforce dest!: run_InrD requireVerifier_InrD loadPending_InrD)
  from approveAndMint_InrD [OF mint] obtain call where
    w1: "w1 = w\<lparr>sent := sent w @ [call]\<rparr>" and m: "cc_method call = ''approve_and_mint''" by auto
  from createApproval_InrD [OF ca] have
    ap: "ap_creditId ap = cr_id c" "decided uid True ap" and
    w2: "w2 = w1\<lparr>idseq := idseq w1 + 1, approvals := approvals w1 @ [ap]\<rparr>"
    by (auto simp: decided_def)
  have cnt: "countDecisions w2 c True = countDecisions w c True + 1"
    using ap by (simp add: countDecisions_def w1 w2 decided_def)
  have "creditByNumber w2 n = Some c" using g(2) by (simp add: creditByNumber_def w1 w2)
  from decision_tail [OF this tail [unfolded Let_def]]
  have "approvals w' = approvals w @ [ap]" "sent w' = sent w @ [call]"
    "credits w' = (if reaches (countDecisions w2 c True) (envInt E ''VERIFIER_THRESHOLD'' ''2'')
          \<and> tokenGiven tx
      then updWhere (\<lambda>c. cr_creditId c = n) (approvedUpdate E tx) (credits w) else credits w)"
    by (simp_all add: w1 w2 approvedUpdate_def)
  then show ?thesis
    using g m ap mint unfolding cnt
    by (intro exI [of _ c] exI [of _ tx] exI [of _ ap] exI [of _ call]) simp
qed

lemma seqE_whenE_False: "seqE (whenE False x) m = m"
  by (rule ext) (simp add: act_simps)

lemma rejectCredit_tail:
  assumes "creditByNumber w n = Some c"
    and "seqE (whenE b (seqE (updateCredit E n f) (ret ()))) (seqE (emit E t d) (getsE g)) w = (r, w')"
  shows "(\<exists>v. r = Inr v) \<and> users w' = users w \<and> approvals w' = approvals w \<and> sent w' = sent w \<and>
    verifiers w' = verifiers w \<and>
    credits w' = (if b then updWhere (\<lambda>c. cr_creditId c = n) (stamped E f) (credits w)
                  else credits w) \<and>
    emitted w' = emitted w @ [(t, d)]"
  using decision_tail [of w n c b E f t d False "[]" JNull g r w', OF assms(1)] assms(2)
  by (simp add: seqE_whenE_False)

lemma rejectCredit_InrD:
  assumes "rejectCredit E uid wal n rs w = (Inr v, w')"
  shows "\<exists>c ap call.
    activeVerifier w uid \<and> creditByNumber w n = Some c \<and> cr_status c = CPending \<and>
    (\<forall>a \<in> set (creditApprovals w c). \<not> decided uid False a) \<and>
    ap_creditId ap = cr_id c \<and> decided uid False ap \<and> ap_comments ap = Some rs \<and>
    approvals w' = approvals w @ [ap] \<and>
    credits w' = (if reaches (countDecisions w c False + 1) (envInt E ''VERIFIER_QUORUM'' ''3'')
      then updWhere (\<lambda>c. cr_creditId c = n) (rejectedUpdate E) (credits w) else credits w) \<and>
    sent w' = sent w @ [call] \<and> cc_method call = ''reject_credit''"
proof -
  from assms obtain c b w1 w2 ap where
    g: "activeVerifier w uid" "creditByNumber w n = Some c" "cr_status c = CPending"
       "\<forall>a \<in> set (creditApprovals w c). \<not> decided uid False a"
    and rej: "stellarRejectCredit E wal (ofInt n) rs w = (Inr b, w1)"
    and ca: "createApproval E c uid False (Some rs) w1 = (Inr ap, w2)"
    and tail: "seqE (whenE (reaches (countDecisions w2 c False) (envInt E ''VERIFIER_QUORUM'' ''3''))
              (seqE (updateCredit E n (\<lambda>c. c\<lparr>cr_status := CRejected\<rparr>)) (ret ())))
      (seqE (emit E ''credit.rejected'' (JObj [
              (''creditId'', JNum (ofInt n)), (''verifier'', JStr wal),
              (''reason'', JStr rs)]))
      (getsE (\<lambda>w. map_option (creditView w (\<lambda>as. as)) (creditByNumber w n)))) w2 = (Inr v, w')"
    unfolding rejectCredit_def
    apply -
    apply (drule seqE_InrD, elim exE conjE, drule requireVerifier_InrD)
    apply (drule bindE_InrD, elim exE conjE, drule loadPending_InrD, elim exE conjE)
    apply (drule bindE_InrD, elim exE conjE, simp only: getsE_apply prod.inject sum.inject)
    apply (drule seqE_InrD, elim exE conjE, drule throwIf_InrD)
    apply (drule bindE_InrD, elim exE conjE)
    apply (drule seqE_InrD, elim exE conjE)
    apply (drule bindE_InrD, elim exE conjE, simp only: getsE_apply prod.inject sum.inject)
    apply clarify
    apply blast
    done
  from stellarRejectCredit_InrD [OF rej] obtain call where
    w1: "w1 = w\<lparr>sent := sent w @ [call]\<rparr>" and m: "cc_method call = ''reject_credit''" by auto
  from createApproval_InrD [OF ca] have
    ap: "ap_creditId ap = cr_id c" "decided uid False ap" "ap_comments ap = Some rs" and
    w2: "w2 = w1\<lparr>idseq := idseq w1 + 1, approvals := approvals w1 @ [ap]\<rparr>"
    by (auto simp: decided_def)
  have cnt: "countDecisions w2 c False = countDecisions w c False + 1"
    using ap by (simp add: countDecisions_def w1 w2 decided_def)
  have "creditByNumber w2 n = Some c" using g(2) by (simp add: creditByNumber_def w1 w2)
  note t = rejectCredit_tail [OF this tail]
  from t have "approvals w' = approvals w @ [ap]" "sent w' = sent w @ [call]"
    "credits w' = (if reaches (countDecisions w2 c False) (envInt E ''VERIFIER_QUORUM'' ''3'')
      then updWhere (\<lambda>c. cr_creditId c = n) (rejectedUpdate E) (credits w) else credits w)"
    by (simp_all only: w1 w2 rejectedUpdate_def, simp_all)
  with g m ap cnt show ?thesis by auto
qed

text \<open>Up to and including the insertion of the decision, an exception leaves both tables alone;
  after it there is no exception.\<close>

definition sameRegistry :: "world \<Rightarrow> world \<Rightarrow> bool" where
  "sameRegistry w w' \<longleftrightarrow> credits w' = credits w \<and> approvals w' = approvals w \<and> users w' = users w \<and>
     verifiers w' = verifiers w"

lemma decision_tail_Inl:
  "seqE (whenE b (seqE (updateCredit E n f) (ret ())))
     (seqE (emit E t d) (seqE (whenE b2 (emit E t2 d2)) (getsE g))) w = (Inl e, w') \<Longrightarrow>
   List.find (\<lambda>c. cr_creditId c = n) (credits w) \<noteq> Some c"
  by (rule notI) (drule decision_tail [unfolded creditByNumber_def, rotated], assumption, simp)

lemma rejectCredit_tail_Inl:
  "seqE (whenE b (seqE (updateCredit E n f) (ret ()))) (seqE (emit E t d) (getsE g)) w = (Inl e, w') \<Longrightarrow>
   List.find (\<lambda>c. cr_creditId c = n) (credits w) \<noteq> Some c"
  by (rule notI) (drule rejectCredit_tail [unfolded creditByNumber_def, rotated], assumption, simp)

lemmas decision_InlD = requireVerifier_InlD loadPending_InlD approveAndMint_InlD
  stellarRejectCredit_InlD createApproval_InlD

lemmas decision_InrD = requireVerifier_InrD loadPending_InrD throwIf_InrD approveAndMint_InrD
  stellarRejectCredit_InrD createApproval_InrD

lemma approveCredit_InlD:
  assumes "approveCredit E uid wal n cm w = (Inl e, w')"
  shows "sameRegistry w w'"
  using assms unfolding approveCredit_def Let_def
  by (auto dest!: bindE_InlD seqE_InlD decision_InlD decision_InrD decision_tail_Inl
      simp: throwIf_apply sameRegistry_def creditByNumber_def split: if_splits)

lemma rejectCredit_InlD:
  assumes "rejectCredit E uid wal n rs w = (Inl e, w')"
  shows "sameRegistry w w'"
  using assms unfolding rejectCredit_def
  by (auto dest!: bindE_InlD seqE_InlD decision_InlD decision_InrD rejectCredit_tail_Inl
      simp: throwIf_apply sameRegistry_def creditByNumber_def split: if_splits)

lemma submitCredit_InrD:
  "submitCredit E iss m h w = (Inr tx, w') \<Longrightarrow>
   \<exists>c sv. w' = w\<lparr>sent := sent w @ [c]\<rparr> \<and> cc_method c = ''submit_credit'' \<and>
     toCreditMetadataScVal E m = Inr sv \<and> cc_args c = [ScAddress iss, sv, ScString h]"
  unfolding submitCredit_def
  by (drule signedRet_InrD) (auto simp: allS_Cons_Inr scAddress_Inr_iff scString_def)

lemma getNextCreditCounter_upper:
  "c \<in> set (credits w) \<Longrightarrow> cr_creditId c < getNextCreditCounter w"
  by (cases "descBy cr_creditId (credits w)")
     (use set_descBy [of cr_creditId "credits w"] in
       \<open>auto simp: getNextCreditCounter_def zless_add1_eq dest: descBy_hd_upper
         intro: le_neq_implies_less\<close>)

lemma issueCredit_InrD:
  assumes "issueCredit E uid wal dto w = (Inr cr, w')"
  shows "\<exists>call sv tx. userById w uid \<noteq> None \<and>
    credits w' = credits w @ [cr] \<and> cr_creditId cr = getNextCreditCounter w \<and>
    cr_status cr = CPending \<and> cr_ownerId cr = uid \<and> cr_issuerId cr = uid \<and>
    cr_tokenId cr = None \<and> cr_tonnes cr = cd_tonnes dto \<and>
    sent w' = sent w @ [call] \<and> cc_method call = ''submit_credit'' \<and>
    toCreditMetadataScVal E (issueMetadata E dto STUB_CID) = Inr sv \<and>
    cc_args call = [ScAddress wal, sv, ScString STUB_CID] \<and>
    emitted w' = emitted w @ [(''credit.submitted'', JObj [
      (''creditId'', JNum (ofInt (cr_creditId cr))), (''issuer'', JStr wal),
      (''ipfsHash'', JStr STUB_CID), (''txHash'', JStr tx),
      (''projectId'', JStr (cd_projectId dto))])] \<and>
    users w' = users w \<and> approvals w' = approvals w"
proof -
  have pin: "pin_ipfsHash (pinJson E p) = STUB_CID" for p by (simp add: pinJson_def)
  from assms obtain u tx w1 vs ve w3 where
    u: "userById w uid = Some u"
    and sub: "submitCredit E wal (issueMetadata E dto STUB_CID) STUB_CID w = (Inr tx, w1)"
    and ins: "dbInsert credits_update creditCheck
         \<lparr>cr_id = cuid E (idseq w1), cr_creditId = getNextCreditCounter w1,
          cr_projectId = cd_projectId dto,
          cr_methodology = cd_methodology dto, cr_vintageStart = vs, cr_vintageEnd = ve,
          cr_tonnes = cd_tonnes dto, cr_geography = cd_geography dto,
          cr_serialPrefix = generateSerialPrefix (cd_projectId dto) (cd_methodology dto),
          cr_sdgFlags = computeSdgFlags (orElse (cd_sdgCobenefits dto) []),
          cr_permanenceRating = orElse (cd_permanenceRating dto) 50,
          cr_bufferContributionPct = orElse (cd_bufferContributionPct dto) 10,
          cr_additionalityType = orElse (cd_additionalityType dto) 0,
          cr_ipfsHash = STUB_CID, cr_status = CPending, cr_tokenId = None,
          cr_createdAt = clock E, cr_updatedAt = clock E,
          cr_issuerId = uid, cr_ownerId = uid\<rparr> (w1\<lparr>idseq := Suc (idseq w1)\<rparr>) = (Inr cr, w3)"
    and em: "emit E ''credit.submitted'' (JObj [
              (''creditId'', JNum (ofInt (cr_creditId cr))), (''issuer'', JStr wal),
              (''ipfsHash'', JStr STUB_CID), (''txHash'', JStr tx),
              (''projectId'', JStr (cd_projectId dto))]) w3 = (Inr (), w')"
    unfolding issueCredit_def Let_def pin
    by (auto dest!: run_InrD dateArg_InrD floatArg_InrD simp: freshId_apply)
  from submitCredit_InrD [OF sub] obtain call sv where
    w1: "w1 = w\<lparr>sent := sent w @ [call]\<rparr>" and
    call: "cc_method call = ''submit_credit''"
      "toCreditMetadataScVal E (issueMetadata E dto STUB_CID) = Inr sv"
      "cc_args call = [ScAddress wal, sv, ScString STUB_CID]" by blast
  have n: "getNextCreditCounter w1 = getNextCreditCounter w"
    by (simp add: w1 getNextCreditCounter_def)
  from creditT.insert_InrD [OF ins]
  have w3: "w3 = credits_update (\<lambda>rs. rs @ [cr]) (w1\<lparr>idseq := Suc (idseq w1)\<rparr>)"
    and cr: "cr_creditId cr = getNextCreditCounter w" "cr_status cr = CPending"
      "cr_ownerId cr = uid" "cr_issuerId cr = uid" "cr_tokenId cr = None"
      "cr_tonnes cr = cd_tonnes dto"
    by (auto simp: n)
  note f = emit_frame [OF em]
  show ?thesis using u call cr f by (auto simp: w3 w1)
qed

section \<open>Properties\<close>


lemma bit_sdgBit: "bit (sdgBit g) n \<longleftrightarrow> n = nat ((g - 1) mod 32)"
proof -
  have "nat ((g - 1) mod 32) < 32" by (simp add: nat_less_iff)
  then show ?thesis by (auto simp: sdgBit_def bit_exp_iff)
qed

lemma bit_sdgFold:
  "bit (foldl (\<lambda>acc g. acc OR sdgBit g) a goals) n \<longleftrightarrow>
   bit a n \<or> (\<exists>g \<in> set goals. n = nat ((g - 1) mod 32))"
  by (induction goals arbitrary: a) (auto simp: bit_or_iff bit_sdgBit)

text \<open>
  The flag word of goals between 1 and 31 is a non-negative number whose bit
  \<open>g - 1\<close> is set exactly for the goals that were given.
\<close>

theorem sdgFlags_bits:
  assumes "set goals \<subseteq> {1..31}"
  shows "0 \<le> computeSdgFlags goals \<and>
    (\<forall>g \<in> {1..31}. bit (computeSdgFlags goals) (nat (g - 1)) = (g \<in> set goals))"
proof (intro conjI ballI)
  let ?w = "foldl (\<lambda>acc g. acc OR sdgBit g) (0 :: 32 word) goals"
  have mod32: "(g - 1) mod 32 = g - 1" if "g \<in> {1..31}" for g :: int using that by simp
  have "\<not> bit ?w 31" using assms by (fastforce simp: bit_sdgFold mod32)
  then show "0 \<le> computeSdgFlags goals"
    using bit_last_iff [of ?w] by (simp add: computeSdgFlags_def)
  fix g :: int
  assume g: "g \<in> {1..31}"
  then have "bit (computeSdgFlags goals) (nat (g - 1)) = bit ?w (nat (g - 1))"
    by (auto simp: computeSdgFlags_def bit_sint_iff min_def)
  also have "\<dots> = (g \<in> set goals)"
  proof -
    have "nat (g - 1) = nat ((h - 1) mod 32) \<longleftrightarrow> h = g" if "h \<in> set goals" for h
    proof -
      have "h \<in> {1..31}" using that assms by blast
      then show ?thesis using g by (auto simp: mod32)
    qed
    then show ?thesis by (auto simp: bit_sdgFold)
  qed
  finally show "bit (computeSdgFlags goals) (nat (g - 1)) = (g \<in> set goals)" .
qed

theorem sdgFlags_bits_witness: "0 \<le> computeSdgFlags [1, 13, 15]"
  using sdgFlags_bits [of "[1, 13, 15]"] by simp

lemma sdgFlags_32: "computeSdgFlags [32] = - 2147483648" by code_simp

definition decisionKey :: "approval \<Rightarrow> string \<times> string \<times> bool" where
  "decisionKey a = (ap_creditId a, ap_verifierId a, ap_approved a)"

definition uniqueDecisions :: "world \<Rightarrow> bool" where
  "uniqueDecisions w \<longleftrightarrow> distinct (map decisionKey (approvals w))"

lemma uniqueDecisions_snoc:
  assumes "uniqueDecisions w" and "\<forall>a \<in> set (creditApprovals w c). \<not> decided uid b a"
    and "ap_creditId ap = cr_id c" and "decided uid b ap" and "approvals w' = approvals w @ [ap]"
  shows "uniqueDecisions w'"
  using assms by (auto simp: uniqueDecisions_def creditApprovals_def decided_def decisionKey_def)



text \<open>
  A successful rejection comes from an active verifier and concerns a pending credit; it
  adds exactly one rejection and no approval, and the credit becomes rejected exactly when the
  rejections reach the quorum.
\<close>

theorem rejectCredit_effect:
  assumes "rejectCredit E uid wal n rs w = (Inr v, w')"
  shows "\<exists>c. activeVerifier w uid \<and> creditByNumber w n = Some c \<and> cr_status c = CPending \<and>
    countDecisions w' c False = countDecisions w c False + 1 \<and>
    countDecisions w' c True = countDecisions w c True \<and>
    credits w' =
      (if reaches (countDecisions w' c False) (envInt E ''VERIFIER_QUORUM'' ''3'')
       then updWhere (\<lambda>c. cr_creditId c = n) (rejectedUpdate E) (credits w) else credits w)"
proof -
  from rejectCredit_InrD [OF assms] obtain c ap where
    *: "activeVerifier w uid" "creditByNumber w n = Some c" "cr_status c = CPending"
      "ap_creditId ap = cr_id c" "decided uid False ap" "approvals w' = approvals w @ [ap]"
      "credits w' = (if reaches (countDecisions w c False + 1) (envInt E ''VERIFIER_QUORUM'' ''3'')
      then updWhere (\<lambda>c. cr_creditId c = n) (rejectedUpdate E) (credits w) else credits w)"
    by blast
  then have "countDecisions w' c False = countDecisions w c False + 1"
    "countDecisions w' c True = countDecisions w c True"
    by (simp_all add: countDecisions_def decided_def)
  with * show ?thesis by auto
qed

text \<open>
  The history of a credit has one issuance entry, one entry per decision in the order of
  time, and a minting entry exactly when the credit is active.
\<close>

theorem getProvenance_history:
  assumes "creditByNumber w n = Some c"
  shows "\<exists>h. getProvenance w n = Inr h \<and>
    length h = 1 + length (creditApprovals w c) + (if cr_status c = CActive then 1 else 0) \<and>
    he_type (hd h) = Issuance \<and> he_timestamp (hd h) = cr_createdAt c \<and>
    sorted_wrt (\<lambda>x y. he_timestamp x \<le> he_timestamp y) (take (length (creditApprovals w c)) (tl h))"
proof -
  let ?as = "ascBy ap_createdAt (creditApprovals w c)"
  have "sorted_wrt (\<lambda>x y. ap_createdAt x \<le> ap_createdAt y) ?as" by (rule sorted_ascBy)
  then show ?thesis
    using assms
    by (simp add: getProvenance_def getCredit_def creditView_def Let_def sorted_wrt_map
        split_def o_def)
qed

theorem getProvenance_history_witness:
  "\<exists>h. getProvenance demoWorld 1 = Inr h \<and> length h = 2"
proof -
  have "creditByNumber demoWorld 1 = Some (demoCredit ''c1'' 1 CPending)" by code_simp
  from getProvenance_history [OF this] show ?thesis
    by (auto simp: demoWorld_def demoCredit_def creditApprovals_def)
qed
theorem rejectCredit_effect_witness:
  "\<exists>v w' c. rejectCredit demoEnv ''v1'' ''GV1'' 1 ''no'' demoWorld = (Inr v, w') \<and>
     creditByNumber demoWorld 1 = Some c \<and>
     countDecisions w' c False = countDecisions demoWorld c False + 1"
proof -
  have "ranOk (rejectCredit demoEnv ''v1'' ''GV1'' 1 ''no'' demoWorld)" by code_simp
  then obtain v w' where r: "rejectCredit demoEnv ''v1'' ''GV1'' 1 ''no'' demoWorld = (Inr v, w')"
    by (blast dest: ranOk_D)
  from rejectCredit_effect [OF r] r show ?thesis by blast
qed

definition anyFilter :: credit_filter where
  "anyFilter = \<lparr>fi_methodology = None, fi_geography = None, fi_vintageMin = None,
     fi_vintageMax = None, fi_status = None, fi_issuer = None, fi_owner = None, fi_page = None,
     fi_limit = Some 1, fi_sort = None\<rparr>"


text \<open>
  A successful issue appends one pending credit, owned by its issuer, with a
  number above every existing one; it submits exactly one call, with the issuer's address and the
  fifteen-field metadata, and announces the new credit.
\<close>

theorem issueCredit_effect:
  assumes "issueCredit E uid wal dto w = (Inr cr, w')"
  shows "credits w' = credits w @ [cr] \<and> (\<forall>c \<in> set (credits w). cr_creditId c < cr_creditId cr) \<and>
    cr_status cr = CPending \<and> cr_ownerId cr = uid \<and> cr_issuerId cr = uid \<and>
    (\<exists>call fs. sent w' = sent w @ [call] \<and> cc_method call = ''submit_credit'' \<and>
       cc_args call = [ScAddress wal, ScVec fs, ScString STUB_CID] \<and>
       length fs = length METADATA_FIELDS) \<and>
    (\<exists>d. emitted w' = emitted w @ [(''credit.submitted'', d)] \<and>
       getProp d ''creditId'' = JNum (ofInt (cr_creditId cr)))"
proof -
  from issueCredit_InrD [OF assms] obtain call sv tx where
    *: "credits w' = credits w @ [cr]" "cr_creditId cr = getNextCreditCounter w"
      "cr_status cr = CPending" "cr_ownerId cr = uid" "cr_issuerId cr = uid"
      "sent w' = sent w @ [call]" "cc_method call = ''submit_credit''"
      "cc_args call = [ScAddress wal, sv, ScString STUB_CID]"
    and sv: "toCreditMetadataScVal E (issueMetadata E dto STUB_CID) = Inr sv"
    and em: "emitted w' = emitted w @ [(''credit.submitted'', JObj [
      (''creditId'', JNum (ofInt (cr_creditId cr))), (''issuer'', JStr wal),
      (''ipfsHash'', JStr STUB_CID), (''txHash'', JStr tx),
      (''projectId'', JStr (cd_projectId dto))])]" by blast
  from toCreditMetadata_fields [OF sv] obtain fs where
    "sv = ScVec fs" "length fs = length METADATA_FIELDS" by blast
  with * em show ?thesis by (auto intro: getNextCreditCounter_upper)
qed

definition demoCreate :: create_credit_dto where
  "demoCreate = \<lparr>cd_projectId = ''P9'', cd_methodology = ''VCS:VM0007'',
     cd_vintageStart = ''2023-01-01'', cd_vintageEnd = ''2023-12-31'', cd_tonnes = ofInt 10,
     cd_geography = ''BR'', cd_documentation = JUndef, cd_sdgCobenefits = Some [1, 13],
     cd_permanenceRating = None, cd_bufferContributionPct = None, cd_additionalityType = None\<rparr>"

theorem issueCredit_effect_witness:
  "\<exists>cr w'. issueCredit demoEnv ''u1'' ''GISSUER'' demoCreate demoWorld = (Inr cr, w') \<and>
     (\<forall>c \<in> set (credits demoWorld). cr_creditId c < cr_creditId cr) \<and> cr_status cr = CPending"
proof -
  have "ranOk (issueCredit demoEnv ''u1'' ''GISSUER'' demoCreate demoWorld)" by code_simp
  then obtain v w' where
    r: "issueCredit demoEnv ''u1'' ''GISSUER'' demoCreate demoWorld = (Inr v, w')"
    by (blast dest: ranOk_D)
  from issueCredit_effect [OF r] r show ?thesis by blast
qed


text \<open>
  The two guards look at decisions of their own kind only, so one verifier may record both.
\<close>

lemma approve_then_reject:
  "ranOk (seqE (approveCredit demoEnv ''v1'' ''GV1'' 1 None)
               (rejectCredit demoEnv ''v1'' ''GV1'' 1 ''changed my mind'')
            (demoWorld\<lparr>approvals := []\<rparr>))"
  by code_simp

end
