(* ===== verification/Marketplace.thy ===== *)
theory Marketplace
  imports StellarService Webhooks
begin

text \<open>
  \<open>api/src/marketplace/marketplace.service.ts\<close>: offers, purchases, cancellations and the queries.
  The \<open>amount\<close> of a purchase comes from the request body without a validation rule; it is a number
  here, any number.  The columns that \<open>include\<close> and \<open>select\<close> add to a result are left out.
\<close>

section \<open>Creating an offer\<close>

record create_offer_dto =
  co_creditId :: int
  co_pricePerTonne :: jsnum
  co_amount :: jsnum
  co_currency :: string
  co_expiresAt :: "int option"

definition findOffer :: "world \<Rightarrow> int \<Rightarrow> offer option" where
  "findOffer w n = List.find (\<lambda>r. of_offerId r = n) (offers w)"

definition nextOfferId :: "world \<Rightarrow> int" where
  "nextOfferId w = (case descBy of_offerId (offers w) of [] \<Rightarrow> 0 | r # _ \<Rightarrow> of_offerId r) + 1"

text \<open>\<open>new Date(ms).getTime()\<close>: NaN outside the range of dates.\<close>

definition dateTime :: "int \<Rightarrow> jsnum" where
  "dateTime ms = (if \<bar>ms\<bar> \<le> 8640000000000000 then ofInt ms else NaN)"

definition storedTime :: "jsnum \<Rightarrow> int" where
  "storedTime t = (case t of Fin r \<Rightarrow> \<lfloor>r\<rfloor> | _ \<Rightarrow> 0)"

definition activeOfferOf :: "string \<Rightarrow> string \<Rightarrow> offer \<Rightarrow> bool" where
  "activeOfferOf creditRow seller r \<longleftrightarrow>
     of_creditId r = creditRow \<and> of_sellerId r = seller \<and> of_status r = OActive"

definition offerGuards :: "string \<Rightarrow> create_offer_dto \<Rightarrow> credit op" where
  "offerGuards userId dto =
     bindE (getsE (\<lambda>w. creditByNumber w (co_creditId dto))) (\<lambda>r.
     bindE (orThrow r (NotFound ''Credit not found'')) (\<lambda>credit.
     seqE (throwIf (cr_ownerId credit \<noteq> userId) (Forbidden ''You do not own this credit''))
    (seqE (throwIf (cr_status credit \<noteq> CActive) (BadRequest ''Credit is not ACTIVE''))
    (bindE (getsE (\<lambda>w. List.find (activeOfferOf (cr_id credit) userId) (offers w))) (\<lambda>existing.
     seqE (throwIf (existing \<noteq> None)
            (BadRequest ''You already have an active offer for this credit''))
          (ret credit))))))"

definition createOffer :: "env \<Rightarrow> string \<Rightarrow> string \<Rightarrow> create_offer_dto \<Rightarrow> offer op" where
  "createOffer E userId wallet dto =
     bindE (offerGuards userId dto) (\<lambda>credit.
     bindE (getsE nextOfferId) (\<lambda>offerId.
       let expiresAt = map_option dateTime (givenInt (co_expiresAt dto)) in
       seqE (throwIf (case expiresAt of None \<Rightarrow> False | Some t \<Rightarrow> num_le t (num_of_int (clock E)))
              (BadRequest ''Expiry must be in the future''))
      (bindE (stellarCreateOffer E wallet (ofInt (co_creditId dto)) (co_pricePerTonne dto)
                (co_amount dto) (co_currency dto) expiresAt) (\<lambda>onChainOfferId.
       seqE (floatArg E (co_pricePerTonne dto))
      (seqE (floatArg E (co_amount dto))
      (bindE (freshId E) (\<lambda>i.
       bindE (dbInsert offers_update offerCheck
         \<lparr>of_id = i, of_offerId = offerId, of_creditId = cr_id credit, of_sellerId = userId,
          of_pricePerTonne = co_pricePerTonne dto, of_amount = co_amount dto,
          of_amountFilled = ofInt 0, of_currency = co_currency dto, of_status = OActive,
          of_expiresAt = map_option storedTime expiresAt, of_createdAt = clock E\<rparr>) (\<lambda>offer.
       seqE (emit E ''marketplace.offer.created'' (JObj [
              (''offerId'', JNum (ofInt offerId)), (''onChainOfferId'', JNum onChainOfferId),
              (''creditId'', JNum (ofInt (co_creditId dto))), (''seller'', JStr wallet),
              (''pricePerTonne'', JNum (co_pricePerTonne dto)),
              (''amount'', JNum (co_amount dto))]))
            (ret offer)))))))))"

section \<open>Buying\<close>

definition updateOffer :: "int \<Rightarrow> (offer \<Rightarrow> offer) \<Rightarrow> offer op" where
  "updateOffer offerId f = dbUpdate offers offers_update (\<lambda>r. of_offerId r = offerId) f"

definition creditById :: "world \<Rightarrow> string \<Rightarrow> credit option" where
  "creditById w i = List.find (\<lambda>c. cr_id c = i) (credits w)"

definition offerExpired :: "env \<Rightarrow> offer \<Rightarrow> bool" where
  "offerExpired E r = (case of_expiresAt r of None \<Rightarrow> False | Some t \<Rightarrow> t \<le> clock E)"

definition createTrade ::
  "env \<Rightarrow> offer \<Rightarrow> string \<Rightarrow> jsnum \<Rightarrow> jsnum \<Rightarrow> string \<Rightarrow> trade op" where
  "createTrade E offer userId amount totalPrice creditRow =
     seqE (floatArg E amount) (seqE (floatArg E totalPrice) (bindE (freshId E) (\<lambda>i.
       dbInsert trades_update tradeCheck
         \<lparr>tr_id = i, tr_offerId = of_id offer, tr_buyerId = userId, tr_amount = amount,
          tr_totalPrice = totalPrice, tr_createdAt = clock E, tr_creditId = creditRow\<rparr>)))"

definition buyGuards :: "env \<Rightarrow> string \<Rightarrow> int \<Rightarrow> jsnum \<Rightarrow> offer op" where
  "buyGuards E userId offerId amount =
     bindE (getsE (\<lambda>w. findOffer w offerId)) (\<lambda>r.
     bindE (orThrow r (NotFound ''Offer not found'')) (\<lambda>offer.
     seqE (throwIf (of_status offer \<noteq> OActive) (BadRequest ''Offer is not active''))
    (seqE (throwIf (of_sellerId offer = userId) (BadRequest ''Cannot buy your own offer''))
    (seqE (throwIf (num_lt (num_sub (of_amount offer) (of_amountFilled offer)) amount)
            (BadRequest ''Requested amount exceeds available tonnes''))
    (seqE (whenE (offerExpired E offer)
            (seqE (updateOffer offerId (\<lambda>r. r\<lparr>of_status := OExpired\<rparr>))
                  (throw (BadRequest ''Offer has expired''))))
          (ret offer))))))"

text \<open>The purchase on the network and in the tables, for an offer that passed the guards.\<close>

definition settlePurchase :: "env \<Rightarrow> string \<Rightarrow> string \<Rightarrow> offer \<Rightarrow> jsnum \<Rightarrow> trade op" where
  "settlePurchase E userId wallet offer amount =
     bindE (getsE (\<lambda>w. creditById w (of_creditId offer))) (\<lambda>cr.
     bindE (orThrow cr (PrismaError ''P2025'')) (\<lambda>credit.
     bindE (stellarBuyCredits E wallet (ofInt (of_offerId offer)) amount) (\<lambda>success.
     seqE (throwIf (\<not> success) (BadRequest ''On-chain transaction failed''))
    (seqE (transferCredit E wallet (of_sellerId offer) (ofInt (cr_creditId credit)))
    (bindE (bothE
        (createTrade E offer userId amount (num_mul amount (of_pricePerTonne offer)) (cr_id credit))
        (dbUpdate credits credits_update (\<lambda>c. cr_id c = cr_id credit)
           (\<lambda>c. c\<lparr>cr_ownerId := userId, cr_updatedAt := clock E\<rparr>)))
      (\<lambda>(trade, _). ret trade))))))"

definition buyCredits :: "env \<Rightarrow> string \<Rightarrow> string \<Rightarrow> int \<Rightarrow> jsnum \<Rightarrow> trade op" where
  "buyCredits E userId wallet offerId amount =
     bindE (buyGuards E userId offerId amount) (\<lambda>offer.
     bindE (settlePurchase E userId wallet offer amount) (\<lambda>trade.
       let newFilled = num_add (of_amountFilled offer) amount;
           isFilled = num_le (of_amount offer) newFilled in
       seqE (floatArg E newFilled)
      (seqE (updateOffer offerId (\<lambda>r. r\<lparr>of_amountFilled := newFilled,
               of_status := (if isFilled then OFilled else OActive)\<rparr>))
      (seqE (emit E ''marketplace.offer.filled'' (JObj [
              (''offerId'', JNum (ofInt offerId)), (''buyer'', JStr wallet),
              (''seller'', JStr (of_sellerId offer)), (''amount'', JNum amount),
              (''totalPrice'', JNum (num_mul amount (of_pricePerTonne offer))),
              (''status'', JStr (if isFilled then ''FILLED'' else ''PARTIAL''))]))
            (ret trade)))))"

section \<open>Cancelling\<close>

definition cancelOffer :: "env \<Rightarrow> string \<Rightarrow> int \<Rightarrow> offer op" where
  "cancelOffer E userId offerId =
     bindE (getsE (\<lambda>w. findOffer w offerId)) (\<lambda>r.
     bindE (orThrow r (NotFound ''Offer not found'')) (\<lambda>offer.
     seqE (throwIf (of_sellerId offer \<noteq> userId)
            (Forbidden ''You can only cancel your own offers''))
    (seqE (throwIf (of_status offer \<noteq> OActive) (BadRequest ''Offer is not active''))
    (seqE (stellarCancelOffer E userId (ofInt offerId))
    (bindE (updateOffer offerId (\<lambda>r. r\<lparr>of_status := OCancelled\<rparr>)) (\<lambda>cancelled.
     seqE (emit E ''marketplace.offer.cancelled'' (JObj [
            (''offerId'', JNum (ofInt offerId)), (''caller'', JStr userId)]))
          (ret cancelled)))))))"

section \<open>Queries\<close>

record listing_filter =
  lf_methodology :: "string option"
  lf_geography :: "string option"
  lf_maxPrice :: "int option"
  lf_status :: "string option"
  lf_page :: "int option"
  lf_limit :: "int option"

definition offerStatusOf :: "string \<Rightarrow> offer_status option" where
  "offerStatusOf s = map_of [(''ACTIVE'', OActive), (''FILLED'', OFilled),
     (''CANCELLED'', OCancelled), (''EXPIRED'', OExpired)] s"

definition getListings :: "world \<Rightarrow> listing_filter \<Rightarrow> api_error + offer page" where
  "getListings w f =
     (case offerStatusOf (orElse (lf_status f) ''ACTIVE'') of
        None \<Rightarrow> Inl (PrismaError ''validation'')
      | Some st \<Rightarrow> Inr (mkPage (orElse (lf_page f) 1) (orElse (lf_limit f) 20)
          (descBy of_createdAt (filter (\<lambda>r.
             of_status r = st \<and>
             when_given (given (lf_methodology f)) (\<lambda>m. case creditById w (of_creditId r) of
               None \<Rightarrow> False | Some c \<Rightarrow> includesStr (toUpper m) (toUpper (cr_methodology c))) \<and>
             when_given (given (lf_geography f)) (\<lambda>g. case creditById w (of_creditId r) of
               None \<Rightarrow> False | Some c \<Rightarrow> cr_geography c = toUpper g) \<and>
             when_given (givenInt (lf_maxPrice f)) (\<lambda>p. num_le (of_pricePerTonne r) (ofInt p)))
           (offers w)))))"

definition getTradeHistory :: "world \<Rightarrow> string \<Rightarrow> trade list" where
  "getTradeHistory w userId = descBy tr_createdAt (filter (\<lambda>t. tr_buyerId t = userId \<or>
     (\<exists>r \<in> set (offers w). of_id r = tr_offerId t \<and> of_sellerId r = userId)) (trades w))"

record bucket =
  bk_volume :: jsnum
  bk_sum :: jsnum
  bk_count :: nat

fun addToBucket :: "string \<Rightarrow> trade \<Rightarrow> (string \<times> bucket) list \<Rightarrow> (string \<times> bucket) list" where
  "addToBucket day t [] =
     [(day, \<lparr>bk_volume = num_add (ofInt 0) (tr_amount t),
             bk_sum = num_add (ofInt 0) (tr_totalPrice t), bk_count = 1\<rparr>)]"
| "addToBucket day t ((d, b) # bs) =
     (if d = day then (d, \<lparr>bk_volume = num_add (bk_volume b) (tr_amount t),
            bk_sum = num_add (bk_sum b) (tr_totalPrice t), bk_count = bk_count b + 1\<rparr>) # bs
      else (d, b) # addToBucket day t bs)"

record price_point =
  pp_date :: string
  pp_volume :: jsnum
  pp_vwap :: jsnum
  pp_tradeCount :: nat

definition pricePoint :: "string \<times> bucket \<Rightarrow> price_point" where
  "pricePoint db = (case db of (date, b) \<Rightarrow> \<lparr>pp_date = date, pp_volume = bk_volume b,
     pp_vwap = num_div (bk_sum b) (bk_volume b), pp_tradeCount = bk_count b\<rparr>)"

definition getPriceHistory :: "world \<Rightarrow> price_point list" where
  "getPriceHistory w =
     sortBy (\<lambda>a b. pp_date b < pp_date a)
       (map pricePoint (foldl (\<lambda>bs t. addToBucket (take 10 (isoString (tr_createdAt t))) t bs) []
          (ascBy tr_createdAt (trades w))))"

record market_stats =
  ms_activeOffers :: nat
  ms_totalVolume :: jsnum
  ms_vwap :: jsnum
  ms_recentTrades :: "trade list"

definition getStats :: "world \<Rightarrow> market_stats" where
  "getStats w =
     (let totalVolume = num_sum (map tr_amount (trades w));
          totalValue = num_sum (map tr_totalPrice (trades w)) in
      \<lparr>ms_activeOffers = length (filter (\<lambda>r. of_status r = OActive) (offers w)),
       ms_totalVolume = totalVolume,
       ms_vwap = (if num_lt (ofInt 0) totalVolume then num_div totalValue totalVolume
                  else ofInt 0),
       ms_recentTrades = take 5 (descBy tr_createdAt (trades w))\<rparr>)"

section \<open>Lemmas\<close>

lemma findOffer_D: "findOffer w n = Some r \<Longrightarrow> r \<in> set (offers w) \<and> of_offerId r = n"
  by (auto simp: findOffer_def dest: find_SomeD)

lemma offerGuards_InrD:
  "offerGuards uid dto w = (Inr c, w') \<Longrightarrow>
   w' = w \<and> creditByNumber w (co_creditId dto) = Some c \<and> cr_ownerId c = uid \<and>
   cr_status c = CActive \<and> (\<forall>r \<in> set (offers w). \<not> activeOfferOf (cr_id c) uid r)"
  by (auto simp: offerGuards_def act_simps dest: find_NoneD split: option.splits if_splits)

lemma offerGuards_state: "offerGuards uid dto w = (r, w') \<Longrightarrow> w' = w"
  by (auto simp: offerGuards_def act_simps split: option.splits if_splits)

lemma buyGuards_InrD:
  "buyGuards E uid n amount w = (Inr r, w') \<Longrightarrow>
   w' = w \<and> findOffer w n = Some r \<and> of_status r = OActive \<and> of_sellerId r \<noteq> uid \<and>
   \<not> num_lt (num_sub (of_amount r) (of_amountFilled r)) amount \<and> \<not> offerExpired E r"
  by (auto simp: buyGuards_def act_simps split: option.splits if_splits prod.splits sum.splits)

lemma updateOffer_run:
  "findOffer w n = Some r \<Longrightarrow>
   updateOffer n f w = (Inr (f r), w\<lparr>offers := updWhere (\<lambda>r. of_offerId r = n) f (offers w)\<rparr>)"
  by (cases w) (simp add: updateOffer_def dbUpdate_def findOffer_def)

lemma buyGuards_InlD:
  "buyGuards E uid n amount w = (Inl e, w') \<Longrightarrow>
   w' = w \<or> w' = w\<lparr>offers := updWhere (\<lambda>r. of_offerId r = n) (\<lambda>r. r\<lparr>of_status := OExpired\<rparr>)
     (offers w)\<rparr>"
  by (auto simp: buyGuards_def act_simps updateOffer_run split: option.splits if_splits)

lemma stellarBuyCredits_InrD:
  "stellarBuyCredits E b n a w = (Inr s, w') \<Longrightarrow>
   \<exists>c. w' = w\<lparr>sent := sent w @ [c]\<rparr> \<and> cc_method c = ''buy_credits''"
  unfolding stellarBuyCredits_def by (drule signedRet_InrD) auto

lemma transferCredit_InrD:
  "transferCredit E a b n w = (Inr s, w') \<Longrightarrow>
   isValidPub E a \<and> isValidPub E b \<and>
   (\<exists>c. w' = w\<lparr>sent := sent w @ [c]\<rparr> \<and> cc_method c = ''transfer_credit'')"
  unfolding transferCredit_def
  by (drule signedRet_InrD) (auto simp: allS_Cons_Inr scAddress_Inr_iff)

lemma createTrade_InrD:
  "createTrade E r uid amount tp cid w = (Inr t, w') \<Longrightarrow>
   w' = w\<lparr>idseq := idseq w + 1, trades := trades w @ [t]\<rparr> \<and>
   t = \<lparr>tr_id = cuid E (idseq w), tr_offerId = of_id r, tr_buyerId = uid, tr_amount = amount,
        tr_totalPrice = tp, tr_createdAt = clock E, tr_creditId = cid\<rparr>"
  by (cases w) (auto simp: createTrade_def act_simps split: sum.splits dest!: tradeT.insert_InrD)

lemma settlePurchase_InrD:
  assumes "settlePurchase E uid wal r amount w = (Inr t, w')"
  shows "\<exists>c c1 c2. creditById w (of_creditId r) = Some c \<and> isValidPub E (of_sellerId r) \<and>
    tr_offerId t = of_id r \<and> tr_buyerId t = uid \<and> tr_amount t = amount \<and>
    tr_totalPrice t = num_mul amount (of_pricePerTonne r) \<and> tr_creditId t = cr_id c \<and>
    trades w' = trades w @ [t] \<and> offers w' = offers w \<and>
    credits w' = updWhere (\<lambda>x. cr_id x = cr_id c)
      (\<lambda>c. c\<lparr>cr_ownerId := uid, cr_updatedAt := clock E\<rparr>) (credits w) \<and>
    sent w' = sent w @ [c1, c2] \<and> cc_method c1 = ''buy_credits'' \<and>
    cc_method c2 = ''transfer_credit''"
  using assms unfolding settlePurchase_def
  by (auto dest!: run_InrD bothE_InrD stellarBuyCredits_InrD transferCredit_InrD createTrade_InrD
      creditT.update_InrD simp: creditById_def)

lemma keeps_stellarOps:
  assumes "\<And>w x. p (w\<lparr>sent := x\<rparr>) = p w"
  shows "keeps p (stellarBuyCredits E a n b)" "keeps p (transferCredit E c d n)"
    "keeps p (stellarCancelOffer E c n)" "keeps p (stellarCreateOffer E c n x y cur ex)"
  unfolding stellar_ops by (intro act_intros assms)+

lemma settlePurchase_offers: "keeps offers (settlePurchase E uid wal r amount)"
  unfolding settlePurchase_def createTrade_def
  by (intro act_intros keeps_stellarOps | simp | (split prod.split, intro allI impI))+

lemma stellarCreateOffer_InrD:
  "stellarCreateOffer E s n p a cur ex w = (Inr k, w') \<Longrightarrow>
   isValidPub E s \<and> isValidPub E cur \<and>
   (\<exists>c. w' = w\<lparr>sent := sent w @ [c]\<rparr> \<and> cc_method c = ''create_offer'')"
  unfolding stellarCreateOffer_def
  by (drule signedRet_InrD) (auto simp: allS_Cons_Inr scAddress_Inr_iff)

lemma nextOfferId_upper: "r \<in> set (offers w) \<Longrightarrow> of_offerId r < nextOfferId w"
  by (cases "descBy of_offerId (offers w)")
     (use set_descBy [of of_offerId "offers w"] in
       \<open>auto simp: nextOfferId_def zless_add1_eq dest: descBy_hd_upper
         intro: le_neq_implies_less\<close>)

lemma createOffer_InrD:
  assumes "createOffer E uid wal dto w = (Inr r, w')"
  shows "\<exists>c call. creditByNumber w (co_creditId dto) = Some c \<and> cr_ownerId c = uid \<and>
    cr_status c = CActive \<and> (\<forall>x \<in> set (offers w). \<not> activeOfferOf (cr_id c) uid x) \<and>
    isValidPub E (co_currency dto) \<and> offers w' = offers w @ [r] \<and>
    activeOfferOf (cr_id c) uid r \<and> of_offerId r = nextOfferId w \<and>
    of_amount r = co_amount dto \<and> of_amountFilled r = ofInt 0 \<and>
    sent w' = sent w @ [call] \<and> cc_method call = ''create_offer''"
proof -
  from assms obtain c k w1 w2 where
    g: "creditByNumber w (co_creditId dto) = Some c" "cr_ownerId c = uid" "cr_status c = CActive"
       "\<forall>x \<in> set (offers w). \<not> activeOfferOf (cr_id c) uid x"
    and st: "stellarCreateOffer E wal (ofInt (co_creditId dto)) (co_pricePerTonne dto)
       (co_amount dto) (co_currency dto) (map_option dateTime (givenInt (co_expiresAt dto))) w
       = (Inr k, w1)"
    and ins: "dbInsert offers_update offerCheck
         \<lparr>of_id = cuid E (idseq w1), of_offerId = nextOfferId w, of_creditId = cr_id c,
          of_sellerId = uid, of_pricePerTonne = co_pricePerTonne dto, of_amount = co_amount dto,
          of_amountFilled = ofInt 0, of_currency = co_currency dto, of_status = OActive,
          of_expiresAt = map_option storedTime (map_option dateTime (givenInt (co_expiresAt dto))),
          of_createdAt = clock E\<rparr> (w1\<lparr>idseq := Suc (idseq w1)\<rparr>) = (Inr r, w2)"
    and em: "\<exists>t d. emit E t d w2 = (Inr (), w')"
    unfolding createOffer_def Let_def
    by (clarsimp dest!: run_InrD floatArg_InrD offerGuards_InrD simp: freshId_apply) blast
  from em obtain t d where em: "emit E t d w2 = (Inr (), w')" by blast
  from stellarCreateOffer_InrD [OF st] obtain call where
    w1: "w1 = w\<lparr>sent := sent w @ [call]\<rparr>" "cc_method call = ''create_offer''"
    and v: "isValidPub E (co_currency dto)" by blast
  from offerT.insert_InrD [OF ins] have
    w2: "w2 = offers_update (\<lambda>rs. rs @ [r]) (w1\<lparr>idseq := Suc (idseq w1)\<rparr>)"
    and r: "activeOfferOf (cr_id c) uid r" "of_offerId r = nextOfferId w"
      "of_amount r = co_amount dto" "of_amountFilled r = ofInt 0"
    by (auto simp: activeOfferOf_def)
  show ?thesis
    using g w1 v r emit_frame [OF em] by (auto simp: w2)
qed

lemma createOffer_InlD:
  assumes "createOffer E uid wal dto w = (Inl e, w')"
  shows "offers w' = offers w"
  using assms unfolding createOffer_def Let_def
  by (auto dest!: bindE_InlD seqE_InlD run_InrD floatArg_InrD offerGuards_state
      keepsD [OF keeps_stellarOps(4) [where p = offers], rotated] offerT.insert_InlD
      simp: freshId_apply throwIf_apply floatArg_apply split: if_splits sum.splits
      dest: emit_frame(1))

section \<open>Properties\<close>

text \<open>
  An offer is created only by the owner of an active credit who has no other
  active offer for it, in a currency that is a valid address, and with an expiry in the future; it
  is appended with a number above every existing one, unfilled, after exactly one call.
\<close>

theorem createOffer_effect:
  assumes "createOffer E uid wal dto w = (Inr r, w')"
  shows "\<exists>c. creditByNumber w (co_creditId dto) = Some c \<and> cr_ownerId c = uid \<and>
    cr_status c = CActive \<and> (\<forall>x \<in> set (offers w). \<not> activeOfferOf (cr_id c) uid x) \<and>
    isValidPub E (co_currency dto) \<and> offers w' = offers w @ [r] \<and> activeOfferOf (cr_id c) uid r \<and>
    (\<forall>x \<in> set (offers w). of_offerId x < of_offerId r) \<and> of_amountFilled r = ofInt 0 \<and>
    length (sent w') = length (sent w) + 1"
  using createOffer_InrD [OF assms] by (auto intro: nextOfferId_upper)

definition demoOfferDto :: create_offer_dto where
  "demoOfferDto = \<lparr>co_creditId = 2, co_pricePerTonne = ofInt 5, co_amount = ofInt 10,
     co_currency = ''GUSDC'', co_expiresAt = None\<rparr>"

theorem createOffer_effect_witness:
  "\<exists>r w'. createOffer demoEnv ''u1'' ''GISSUER'' demoOfferDto (demoWorld\<lparr>offers := []\<rparr>) = (Inr r, w') \<and>
     offers w' = [r] \<and> of_amountFilled r = ofInt 0"
proof -
  have "ranOk (createOffer demoEnv ''u1'' ''GISSUER'' demoOfferDto (demoWorld\<lparr>offers := []\<rparr>))"
    by code_simp
  then obtain r w' where
    r: "createOffer demoEnv ''u1'' ''GISSUER'' demoOfferDto (demoWorld\<lparr>offers := []\<rparr>) = (Inr r, w')"
    by (blast dest: ranOk_D)
  from createOffer_effect [OF r] r show ?thesis by auto
qed

subsection \<open>At most one active offer per credit and seller\<close>

definition isActiveOffer :: "offer \<Rightarrow> bool" where
  "isActiveOffer r \<longleftrightarrow> of_status r = OActive"

definition offerKey :: "offer \<Rightarrow> string \<times> string" where
  "offerKey r = (of_creditId r, of_sellerId r)"

definition offersOk :: "world \<Rightarrow> bool" where
  "offersOk w \<longleftrightarrow> distinct (map of_offerId (offers w)) \<and>
     distinct (map offerKey (filter isActiveOffer (offers w)))"

lemma set_filter_updWhere:
  assumes "\<And>x. x \<in> set xs \<Longrightarrow> P x \<Longrightarrow> A (f x) \<Longrightarrow> A x" and "\<And>x. P x \<Longrightarrow> k (f x) = k x"
  shows "set (map k (filter A (updWhere P f xs))) \<subseteq> set (map k (filter A xs))"
  using assms by (induction xs) (auto split: if_splits)

lemma distinct_filter_updWhere:
  assumes "\<And>x. x \<in> set xs \<Longrightarrow> P x \<Longrightarrow> A (f x) \<Longrightarrow> A x" and "\<And>x. P x \<Longrightarrow> k (f x) = k x"
    and "distinct (map k (filter A xs))"
  shows "distinct (map k (filter A (updWhere P f xs)))"
  using assms
proof (induction xs)
  case Nil
  then show ?case by simp
next
  case (Cons x xs)
  have sub: "set (map k (filter A (updWhere P f xs))) \<subseteq> set (map k (filter A xs))"
    by (rule set_filter_updWhere) (use Cons.prems(1,2) in auto)
  have "distinct (map k (filter A (updWhere P f xs)))"
    using Cons by (auto split: if_splits)
  with sub Cons.prems show ?case by (auto split: if_splits)
qed

lemma offersOk_update:
  assumes "offersOk w" and "findOffer w n = Some r" and "isActiveOffer r"
    and "\<And>x. of_offerId (f x) = of_offerId x" and "\<And>x. offerKey (f x) = offerKey x"
    and "offers w' = updWhere (\<lambda>x. of_offerId x = n) f (offers w)"
  shows "offersOk w'"
proof -
  from assms(2) have r: "r \<in> set (offers w)" "of_offerId r = n" by (auto dest: findOffer_D)
  have "isActiveOffer x" if "x \<in> set (offers w)" "of_offerId x = n" for x
    using distinct_map_unique [of of_offerId "offers w" x r] assms(1,3) r that
    by (simp add: offersOk_def)
  then have "distinct (map offerKey (filter isActiveOffer (offers w')))"
    unfolding assms(6) using assms(1,5)
    by (intro distinct_filter_updWhere) (auto simp: offersOk_def)
  moreover have "map of_offerId (offers w') = map of_offerId (offers w)"
    unfolding assms(6) using assms(4) by (simp add: map_updWhere_same)
  ultimately show ?thesis using assms(1) by (simp add: offersOk_def)
qed

lemma offersOk_snoc:
  assumes "offersOk w" and "\<forall>x \<in> set (offers w). \<not> activeOfferOf c uid x"
    and "activeOfferOf c uid r" and "\<forall>x \<in> set (offers w). of_offerId x < of_offerId r"
    and "offers w' = offers w @ [r]"
  shows "offersOk w'"
  using assms by (fastforce simp: offersOk_def activeOfferOf_def isActiveOffer_def offerKey_def)

lemma offersOk_same: "offersOk w \<Longrightarrow> offers w' = offers w \<Longrightarrow> offersOk w'"
  by (simp add: offersOk_def)

definition offersChange :: "int \<Rightarrow> world \<Rightarrow> world \<Rightarrow> bool" where
  "offersChange n w w' \<longleftrightarrow> offers w' = offers w \<or>
     (\<exists>x f. findOffer w n = Some x \<and> isActiveOffer x \<and>
       (\<forall>x. of_offerId (f x) = of_offerId x \<and> offerKey (f x) = offerKey x) \<and>
       offers w' = updWhere (\<lambda>x. of_offerId x = n) f (offers w))"

lemma offersChange_same: "offers w' = offers w \<Longrightarrow> offersChange n w w'"
  by (simp add: offersChange_def)

lemma offersChange_update:
  "findOffer w n = Some x \<Longrightarrow> isActiveOffer x \<Longrightarrow>
   offers w' = updWhere (\<lambda>x. of_offerId x = n) f (offers w) \<Longrightarrow>
   (\<And>x. of_offerId (f x) = of_offerId x \<and> offerKey (f x) = offerKey x) \<Longrightarrow> offersChange n w w'"
  unfolding offersChange_def by blast

lemma offersChange_ok: "offersChange n w w' \<Longrightarrow> offersOk w \<Longrightarrow> offersOk w'"
  by (auto simp: offersChange_def intro: offersOk_same offersOk_update)

text \<open>The effect of a purchase and of a cancellation on the offers, returned or thrown.\<close>

lemma buyCredits_offers:
  assumes run: "buyCredits E uid wal n amount w = (r, w')"
  shows "offersChange n w w'"
proof -
  obtain g w1 where guards: "buyGuards E uid n amount w = (g, w1)" by fastforce
  show ?thesis
  proof (cases g)
    case (Inl e)
    with run guards have "w' = w1" by (simp add: buyCredits_def bindE_apply)
    then have "offers w' = offers w \<or> (\<exists>x. findOffer w n = Some x \<and> isActiveOffer x \<and>
        offers w' = updWhere (\<lambda>x. of_offerId x = n) (\<lambda>r. r\<lparr>of_status := OExpired\<rparr>) (offers w))"
      using guards by (auto simp: Inl buyGuards_def act_simps updateOffer_run isActiveOffer_def
          split: option.splits if_splits)
    then show ?thesis
      by (elim disjE exE conjE)
         (erule offersChange_same, erule (2) offersChange_update, simp add: offerKey_def)
  next
    case (Inr off)
    from buyGuards_InrD [OF guards [unfolded Inr]] have
      g: "w1 = w" "findOffer w n = Some off" "of_status off = OActive" by auto
    obtain s w2 where settle: "settlePurchase E uid wal off amount w = (s, w2)" by fastforce
    then have o2: "offers w2 = offers w" by (rule keepsD [OF settlePurchase_offers])
    let ?nf = "num_add (of_amountFilled off) amount"
    let ?f = "\<lambda>r. r\<lparr>of_amountFilled := ?nf,
      of_status := (if num_le (of_amount off) ?nf then OFilled else OActive)\<rparr>"
    have "findOffer w2 n = Some off" using g(2) o2 by (simp add: findOffer_def)
    then have "offers w' = offers w \<or> offers w' = updWhere (\<lambda>x. of_offerId x = n) ?f (offers w)"
      using run guards settle o2
      by (auto simp: Inr g(1) buyCredits_def Let_def act_simps updateOffer_run
          split: sum.splits prod.splits dest!: emit_frame(6))
    then show ?thesis
    proof
      assume "offers w' = updWhere (\<lambda>x. of_offerId x = n) ?f (offers w)"
      with g show ?thesis
        by (intro offersChange_update [where f = ?f and x = off])
           (auto simp: isActiveOffer_def offerKey_def)
    qed (rule offersChange_same)
  qed
qed

lemma cancelOffer_offers:
  assumes "cancelOffer E uid n w = (r, w')"
  shows "offersChange n w w'"
proof (cases "findOffer w n")
  case None
  with assms show ?thesis by (auto simp: cancelOffer_def act_simps intro: offersChange_same)
next
  case (Some off)
  obtain s w1 where st: "stellarCancelOffer E uid (ofInt n) w = (s, w1)" by fastforce
  then have o1: "offers w1 = offers w" by (rule keepsD [OF keeps_stellarOps(3), rotated]) simp
  then have "findOffer w1 n = Some off" using Some by (simp add: findOffer_def)
  then have "offers w' = offers w \<or> (isActiveOffer off \<and>
      offers w' = updWhere (\<lambda>x. of_offerId x = n) (\<lambda>r. r\<lparr>of_status := OCancelled\<rparr>) (offers w))"
    using assms st o1 by (auto simp: Some cancelOffer_def act_simps updateOffer_run
        isActiveOffer_def split: sum.splits prod.splits if_splits dest!: emit_frame(6))
  then show ?thesis
    using Some by (elim disjE conjE)
      (erule offersChange_same, erule (2) offersChange_update, simp add: offerKey_def)
qed


subsection \<open>Purchases\<close>


definition demoMarket :: world where
  "demoMarket = demoWorld\<lparr>offers := [\<lparr>of_id = ''o1'', of_offerId = 1, of_creditId = ''c2'',
     of_sellerId = ''GU1'', of_pricePerTonne = ofInt 5, of_amount = ofInt 40,
     of_amountFilled = ofInt 10, of_currency = ''GUSDC'', of_status = OActive,
     of_expiresAt = None, of_createdAt = 3\<rparr>]\<rparr>"




text \<open>The buyer has paid by then: the purchase call was submitted.\<close>

lemma buyCredits_paid_unrecorded:
  "map cc_method (sent (snd (buyCredits demoEnv ''v1'' ''GV1'' 1 (ofInt 30) demoWorld)))
     = [''buy_credits'']"
  by code_simp

text \<open>A negative amount passes every guard and reaches the network.\<close>

lemma buyCredits_negative_amount:
  "map cc_method (sent (snd (buyCredits demoEnv ''v1'' ''GV1'' 1 (ofInt (- 5)) demoWorld)))
     = [''buy_credits'']"
  by code_simp

text \<open>
  Buying from an active offer of somebody else whose expiry has passed is a
  bad request that marks the offer as expired, submits no call and changes nothing else.
\<close>

theorem buyCredits_expired:
  assumes "findOffer w n = Some r" and "of_status r = OActive" and "of_sellerId r \<noteq> uid"
    and "\<not> num_lt (num_sub (of_amount r) (of_amountFilled r)) amount" and "offerExpired E r"
  shows "buyCredits E uid wal n amount w = (Inl (BadRequest ''Offer has expired''),
    w\<lparr>offers := updWhere (\<lambda>x. of_offerId x = n) (\<lambda>x. x\<lparr>of_status := OExpired\<rparr>) (offers w)\<rparr>)"
  using assms by (simp add: buyCredits_def buyGuards_def act_simps updateOffer_run)

theorem buyCredits_expired_witness:
  "map of_status (offers (snd (buyCredits demoEnv ''v1'' ''GV1'' 1 (ofInt 1)
      (demoWorld\<lparr>offers := [(hd (offers demoWorld))\<lparr>of_expiresAt := Some 5\<rparr>]\<rparr>)))) = [OExpired]"
proof -
  let ?r = "(hd (offers demoWorld))\<lparr>of_expiresAt := Some 5\<rparr>"
  let ?w = "demoWorld\<lparr>offers := [?r]\<rparr>"
  have "findOffer ?w 1 = Some ?r" "of_status ?r = OActive" "of_sellerId ?r \<noteq> ''v1''"
    "\<not> num_lt (num_sub (of_amount ?r) (of_amountFilled ?r)) (ofInt 1)" "offerExpired demoEnv ?r"
    by code_simp+
  from buyCredits_expired [OF this, of "''GV1''"] show ?thesis
    by (simp add: demoWorld_def)
qed

text \<open>
  A cancellation signs with the caller's row id: unless that id is a
  valid address it throws and the offers stay as they were.
\<close>

theorem cancelOffer_needs_address:
  assumes "\<not> isValidPub E uid"
  shows "\<exists>e. cancelOffer E uid n w = (Inl e, w)"
proof -
  have bad: "Inl (JsError (''Invalid Stellar address: '' @ uid))
      \<in> set [scAddress E uid, scU64 E (ofInt n)]"
    using assms by (simp add: scAddress_def)
  have "\<exists>e. stellarCancelOffer E uid (ofInt n) w = (Inl e, w)"
    unfolding stellarCancelOffer_def by (rule signedRet_bad_arg [OF bad])
  then show ?thesis by (auto simp: cancelOffer_def act_simps split: option.splits)
qed

theorem cancelOffer_needs_address_witness:
  "\<exists>e. cancelOffer demoEnv ''u1'' 1 demoWorld = (Inl e, demoWorld)"
  by (rule cancelOffer_needs_address) code_simp

subsection \<open>Price history\<close>

lemma addToBucket_count:
  "sum_list (map (bk_count \<circ> snd) (addToBucket day t bs)) =
   sum_list (map (bk_count \<circ> snd) bs) + 1"
  by (induction day t bs rule: addToBucket.induct) auto

lemma addToBucket_days:
  "set (map fst (addToBucket day t bs)) = insert day (set (map fst bs))"
  by (induction day t bs rule: addToBucket.induct) auto

lemma addToBucket_distinct:
  "distinct (map fst bs) \<Longrightarrow> distinct (map fst (addToBucket day t bs))"
  by (induction day t bs rule: addToBucket.induct)
     (auto simp: addToBucket_days [unfolded set_map] rev_image_eqI)

lemma foldl_buckets:
  "sum_list (map (bk_count \<circ> snd) (foldl (\<lambda>bs t. addToBucket (g t) t bs) bs ts)) =
     sum_list (map (bk_count \<circ> snd) bs) + length ts"
  "distinct (map fst bs) \<Longrightarrow> distinct (map fst (foldl (\<lambda>bs t. addToBucket (g t) t bs) bs ts))"
  by (induction ts arbitrary: bs) (auto simp: addToBucket_count addToBucket_distinct)

text \<open>
  The price history has one point per day, in strictly increasing order of
  the date, and the trade counts of its points add up to the number of trades.
\<close>

theorem getPriceHistory_days:
  "sorted_wrt (<) (map pp_date (getPriceHistory w)) \<and>
   sum_list (map pp_tradeCount (getPriceHistory w)) = length (trades w)"
proof -
  let ?bs = "foldl (\<lambda>bs t. addToBucket (take 10 (isoString (tr_createdAt t))) t bs) []
      (ascBy tr_createdAt (trades w))"
  have date: "pp_date (pricePoint x) = fst x" "pp_tradeCount (pricePoint x) = bk_count (snd x)" for x
    by (simp_all add: pricePoint_def split: prod.split)
  have ms: "mset (map f (getPriceHistory w)) = mset (map f (map pricePoint ?bs))" for f :: "_ \<Rightarrow> 'a"
    by (simp only: getPriceHistory_def mset_map mset_sortBy)
  have "distinct (map pp_date (map pricePoint ?bs))"
    using foldl_buckets(2) [of "[]"] by (simp add: o_def date)
  then have d: "distinct (map pp_date (getPriceHistory w))"
    using mset_eq_imp_distinct_iff [OF ms [of pp_date]] by simp
  have "sorted_wrt (\<lambda>a b. \<not> pp_date b < pp_date a) (getPriceHistory w)"
    unfolding getPriceHistory_def by (rule sorted_sortBy) auto
  then have "sorted (map pp_date (getPriceHistory w))"
    by (simp add: sorted_map not_less)
  with d have "sorted_wrt (<) (map pp_date (getPriceHistory w))"
    by (simp add: strict_sorted_iff)
  moreover have "sum_list (map pp_tradeCount (getPriceHistory w)) = length (trades w)"
  proof -
    have "sum_list (map pp_tradeCount (getPriceHistory w)) =
        sum_list (map pp_tradeCount (map pricePoint ?bs))"
      using arg_cong [OF ms [of pp_tradeCount], of sum_mset] by (simp only: sum_mset_sum_list)
    then show ?thesis using foldl_buckets(1) [where bs = "[]"] by (simp add: o_def date)
  qed
  ultimately show ?thesis by blast
qed

end
