(* ===== verification/Retirement.thy ===== *)
theory Retirement
  imports StellarService Webhooks
begin

text \<open>
  \<open>api/src/retirement/retirement.service.ts\<close>: retiring a credit, in full or a part of its tonnes, and
  the certificate of a retired credit.
\<close>

record retire_dto =
  rd_reason :: string
  rd_beneficiary :: string
  rd_accountingPeriod :: string
  rd_tonnesRetired :: "string option"

definition tonnesToRetire :: "retire_dto \<Rightarrow> credit \<Rightarrow> jsnum" where
  "tonnesToRetire dto credit =
     (case given (rd_tonnesRetired dto) of Some t \<Rightarrow> parseFloatJs t | None \<Rightarrow> cr_tonnes credit)"

definition retireGuards :: "env \<Rightarrow> string \<Rightarrow> int \<Rightarrow> retire_dto \<Rightarrow> credit op" where
  "retireGuards E userId creditId dto =
     bindE (getsE (\<lambda>w. creditByNumber w creditId)) (\<lambda>r.
     bindE (orThrow r (NotFound ''Credit not found'')) (\<lambda>credit.
     seqE (throwIf (cr_ownerId credit \<noteq> userId) (BadRequest ''You do not own this credit''))
    (seqE (throwIf (cr_status credit \<noteq> CActive) (BadRequest ''Credit is not ACTIVE''))
    (bindE (fromSum (isRetired E (ofInt creditId))) (\<lambda>alreadyRetired.
     seqE (throwIf alreadyRetired (BadRequest ''Credit is already retired on-chain''))
    (seqE (throwIf (num_le (tonnesToRetire dto credit) (ofInt 0) \<or>
                    num_lt (cr_tonnes credit) (tonnesToRetire dto credit))
            (BadRequest ''Invalid retirement amount''))
          (ret credit)))))))"

text \<open>\<open>result.ledgerSequence as number\<close>: the database takes a number only.\<close>

definition ledgerArg :: "jsval \<Rightarrow> int op" where
  "ledgerArg v = (case v of JNum x \<Rightarrow> intArg x | _ \<Rightarrow> throw (PrismaError ''validation''))"

definition retireCredit :: "env \<Rightarrow> string \<Rightarrow> string \<Rightarrow> int \<Rightarrow> retire_dto \<Rightarrow> retirement op" where
  "retireCredit E userId wallet creditId dto =
     bindE (retireGuards E userId creditId dto) (\<lambda>credit.
       let tonnesRetired = tonnesToRetire dto credit in
       bindE (stellarRetire E wallet (ofInt creditId) (rd_reason dto) (rd_beneficiary dto)
                (rd_accountingPeriod dto)) (\<lambda>result.
       seqE (floatArg E tonnesRetired)
      (bindE (ledgerArg (rr_ledgerSequence result)) (\<lambda>ledger.
       bindE (freshId E) (\<lambda>i.
       bindE (dbInsert retirements_update retirementCheck
         \<lparr>rt_id = i, rt_creditId = cr_id credit, rt_retiredById = userId,
          rt_beneficiary = rd_beneficiary dto, rt_reason = rd_reason dto,
          rt_accountingPeriod = rd_accountingPeriod dto, rt_tonnesRetired = tonnesRetired,
          rt_txHash = rr_txHash result, rt_ledgerSequence = ledger,
          rt_timestamp = clock E, rt_certificateHash = None\<rparr>) (\<lambda>retirement.
       seqE (whenE (num_le (cr_tonnes credit) tonnesRetired)
         (seqE (dbUpdate credits credits_update (\<lambda>c. cr_creditId c = creditId)
                 (\<lambda>c. c\<lparr>cr_status := CRetired, cr_updatedAt := clock E\<rparr>)) (ret ())))
      (seqE (emit E ''credit.retired'' (JObj [
              (''creditId'', JNum (ofInt creditId)), (''owner'', JStr wallet),
              (''beneficiary'', JStr (rd_beneficiary dto)), (''reason'', JStr (rd_reason dto)),
              (''accountingPeriod'', JStr (rd_accountingPeriod dto)),
              (''tonnesRetired'', JNum tonnesRetired),
              (''txHash'', JStr (rr_txHash result))]))
            (ret retirement))))))))"

record certificate_data =
  cf_credit :: credit
  cf_retirements :: "retirement list"

definition creditRetirements :: "world \<Rightarrow> credit \<Rightarrow> retirement list" where
  "creditRetirements w c =
     descBy rt_timestamp (filter (\<lambda>r. rt_creditId r = cr_id c) (retirements w))"

definition getRetirementCertificate :: "world \<Rightarrow> int \<Rightarrow> api_error + certificate_data" where
  "getRetirementCertificate w creditId = (case creditByNumber w creditId of
     None \<Rightarrow> Inl (NotFound ''Credit not found'')
   | Some c \<Rightarrow>
       if cr_status c \<noteq> CRetired \<or> creditRetirements w c = []
       then Inl (BadRequest ''Credit has not been retired'')
       else Inr \<lparr>cf_credit = c, cf_retirements = creditRetirements w c\<rparr>)"

section \<open>Lemmas\<close>

lemma retireGuards_InrD:
  "retireGuards E uid n dto w = (Inr c, w') \<Longrightarrow>
   w' = w \<and> creditByNumber w n = Some c \<and> cr_ownerId c = uid \<and> cr_status c = CActive \<and>
   isRetired E (ofInt n) = Inr False \<and>
   \<not> num_le (tonnesToRetire dto c) (ofInt 0) \<and> \<not> num_lt (cr_tonnes c) (tonnesToRetire dto c)"
  by (auto simp: retireGuards_def act_simps split: option.splits if_splits sum.splits)

lemma retireGuards_InlD: "retireGuards E uid n dto w = (Inl e, w') \<Longrightarrow> w' = w"
  by (auto simp: retireGuards_def act_simps split: option.splits if_splits sum.splits)

lemma stellarRetire_InrD:
  "stellarRetire E ow n rs bn pe w = (Inr x, w') \<Longrightarrow>
   \<exists>c v. w' = w\<lparr>sent := sent w @ [c]\<rparr> \<and> cc_method c = ''retire'' \<and> scU64 E n = Inr v \<and>
     cc_args c = [ScAddress ow, v, ScString rs, ScString bn, ScString pe]"
  unfolding stellarRetire_def Let_def
  by (drule signedRet_InrD) (auto simp: allS_Cons_Inr scAddress_Inr_iff scString_def)

lemma stellarRetire_InlD:
  "stellarRetire E ow n rs bn pe w = (Inl e, w') \<Longrightarrow> w' = w \<or> (\<exists>c. w' = w\<lparr>sent := sent w @ [c]\<rparr>)"
  unfolding stellarRetire_def Let_def by (drule signedRet_anyD) auto

lemma ledgerArg_InrD: "ledgerArg v w = (Inr n, w') \<Longrightarrow> w' = w"
  by (auto simp: ledgerArg_def dest: intArg_InrD split: jsval.splits)

lemma ledgerArg_InlD: "ledgerArg v w = (Inl e, w') \<Longrightarrow> w' = w"
  by (auto simp: ledgerArg_def dest: intArg_state split: jsval.splits)

definition retiredUpdate :: "env \<Rightarrow> credit \<Rightarrow> credit" where
  "retiredUpdate E c = c\<lparr>cr_status := CRetired, cr_updatedAt := clock E\<rparr>"

lemma retire_tail:
  assumes c: "creditByNumber w n = Some c"
    and run: "seqE (whenE b (seqE (dbUpdate credits credits_update (\<lambda>c. cr_creditId c = n)
         (\<lambda>c. c\<lparr>cr_status := CRetired, cr_updatedAt := clock E\<rparr>)) (ret ())))
       (seqE (emit E t d) (ret x)) w = (r, w')"
  shows "r = Inr x \<and> retirements w' = retirements w \<and> sent w' = sent w \<and> users w' = users w \<and>
    credits w' = (if b then updWhere (\<lambda>c. cr_creditId c = n) (retiredUpdate E) (credits w)
                  else credits w)"
proof -
  let ?w1 = "if b then credits_update (updWhere (\<lambda>c. cr_creditId c = n) (retiredUpdate E)) w else w"
  have "whenE b (seqE (dbUpdate credits credits_update (\<lambda>c. cr_creditId c = n)
         (\<lambda>c. c\<lparr>cr_status := CRetired, cr_updatedAt := clock E\<rparr>)) (ret ())) w = (Inr (), ?w1)"
    using c by (simp add: whenE_apply seqE_apply dbUpdate_def creditByNumber_def
        retiredUpdate_def [abs_def])
  moreover obtain r2 w2 where e: "emit E t d ?w1 = (r2, w2)" by fastforce
  moreover note f = emit_frame [OF e]
  ultimately have "r = Inr x" "w' = w2" using run f(1) by (auto simp: seqE_apply)
  then show ?thesis using f by simp
qed

lemma retireCredit_InrD:
  assumes "retireCredit E uid wal n dto w = (Inr r, w')"
  shows "\<exists>c call v. creditByNumber w n = Some c \<and> cr_ownerId c = uid \<and> cr_status c = CActive \<and>
    isRetired E (ofInt n) = Inr False \<and> rt_creditId r = cr_id c \<and>
    rt_tonnesRetired r = tonnesToRetire dto c \<and> rt_retiredById r = uid \<and>
    rt_certificateHash r = None \<and>
    \<not> num_le (rt_tonnesRetired r) (ofInt 0) \<and> \<not> num_lt (cr_tonnes c) (rt_tonnesRetired r) \<and>
    retirements w' = retirements w @ [r] \<and>
    credits w' = (if num_le (cr_tonnes c) (rt_tonnesRetired r)
      then updWhere (\<lambda>c. cr_creditId c = n) (retiredUpdate E) (credits w) else credits w) \<and>
    sent w' = sent w @ [call] \<and> cc_method call = ''retire'' \<and>
    cc_args call = [ScAddress wal, v, ScString (rd_reason dto), ScString (rd_beneficiary dto),
      ScString (rd_accountingPeriod dto)] \<and> users w' = users w"
proof -
  from assms obtain c res w1 ledger w2 where
    g: "creditByNumber w n = Some c" "cr_ownerId c = uid" "cr_status c = CActive"
      "isRetired E (ofInt n) = Inr False" "\<not> num_le (tonnesToRetire dto c) (ofInt 0)"
      "\<not> num_lt (cr_tonnes c) (tonnesToRetire dto c)"
    and st: "stellarRetire E wal (ofInt n) (rd_reason dto) (rd_beneficiary dto)
        (rd_accountingPeriod dto) w = (Inr res, w1)"
    and ins: "\<exists>rr. dbInsert retirements_update retirementCheck
         \<lparr>rt_id = cuid E (idseq w1), rt_creditId = cr_id c, rt_retiredById = uid,
          rt_beneficiary = rd_beneficiary dto, rt_reason = rd_reason dto,
          rt_accountingPeriod = rd_accountingPeriod dto,
          rt_tonnesRetired = tonnesToRetire dto c,
          rt_txHash = rr_txHash res, rt_ledgerSequence = ledger,
          rt_timestamp = clock E, rt_certificateHash = None\<rparr> (w1\<lparr>idseq := Suc (idseq w1)\<rparr>)
         = (Inr rr, w2) \<and>
       (\<exists>t d. seqE (whenE (num_le (cr_tonnes c) (tonnesToRetire dto c))
         (seqE (dbUpdate credits credits_update (\<lambda>c. cr_creditId c = n)
                 (\<lambda>c. c\<lparr>cr_status := CRetired, cr_updatedAt := clock E\<rparr>)) (ret ())))
         (seqE (emit E t d) (ret rr)) w2 = (Inr r, w'))"
    unfolding retireCredit_def Let_def
    apply -
    apply ((drule bindE_InrD, elim exE conjE), drule retireGuards_InrD, elim conjE)
    apply ((drule bindE_InrD, elim exE conjE))
    apply ((drule seqE_InrD, elim exE conjE), drule floatArg_InrD, elim conjE)
    apply ((drule bindE_InrD, elim exE conjE), drule ledgerArg_InrD)
    apply ((drule bindE_InrD, elim exE conjE), simp only: freshId_apply prod.inject sum.inject)
    apply ((drule bindE_InrD, elim exE conjE))
    apply clarsimp
    apply blast
    done
  from stellarRetire_InrD [OF st] obtain call v where
    w1: "w1 = w\<lparr>sent := sent w @ [call]\<rparr>" "cc_method call = ''retire''"
      "cc_args call = [ScAddress wal, v, ScString (rd_reason dto),
         ScString (rd_beneficiary dto), ScString (rd_accountingPeriod dto)]" by blast
  from ins obtain rr t d where
    i: "dbInsert retirements_update retirementCheck
         \<lparr>rt_id = cuid E (idseq w1), rt_creditId = cr_id c, rt_retiredById = uid,
          rt_beneficiary = rd_beneficiary dto, rt_reason = rd_reason dto,
          rt_accountingPeriod = rd_accountingPeriod dto,
          rt_tonnesRetired = tonnesToRetire dto c,
          rt_txHash = rr_txHash res, rt_ledgerSequence = ledger,
          rt_timestamp = clock E, rt_certificateHash = None\<rparr> (w1\<lparr>idseq := Suc (idseq w1)\<rparr>)
         = (Inr rr, w2)"
    and tail: "seqE (whenE (num_le (cr_tonnes c) (tonnesToRetire dto c))
         (seqE (dbUpdate credits credits_update (\<lambda>c. cr_creditId c = n)
                 (\<lambda>c. c\<lparr>cr_status := CRetired, cr_updatedAt := clock E\<rparr>)) (ret ())))
         (seqE (emit E t d) (ret rr)) w2 = (Inr r, w')" by blast
  from retirementT.insert_InrD [OF i] have
    w2: "w2 = retirements_update (\<lambda>rs. rs @ [rr]) (w1\<lparr>idseq := Suc (idseq w1)\<rparr>)"
    and rr: "rt_creditId rr = cr_id c" "rt_tonnesRetired rr = tonnesToRetire dto c"
      "rt_retiredById rr = uid" "rt_certificateHash rr = None" by auto
  have "creditByNumber w2 n = Some c" using g(1) by (simp add: creditByNumber_def w1 w2)
  from retire_tail [OF this tail] g w1 rr show ?thesis by (auto simp: w2)
qed

lemma retireCredit_InlD:
  assumes "retireCredit E uid wal n dto w = (Inl e, w')"
  shows "credits w' = credits w \<and> retirements w' = retirements w \<and> users w' = users w"
proof -
  have tail: "creditByNumber v n = None"
    if "seqE (whenE b (seqE (dbUpdate credits credits_update (\<lambda>c. cr_creditId c = n)
         (\<lambda>c. c\<lparr>cr_status := CRetired, cr_updatedAt := clock E\<rparr>)) (ret ())))
       (seqE (emit E t d) (ret x)) v = (Inl e, w')" for b t d x v
    using retire_tail [OF _ that] by (cases "creditByNumber v n") auto
  show ?thesis
    using assms unfolding retireCredit_def Let_def
    by (auto dest!: bindE_InlD seqE_InlD retireGuards_InrD retireGuards_InlD stellarRetire_InrD
        stellarRetire_InlD floatArg_InrD ledgerArg_InrD ledgerArg_InlD retirementT.insert_InlD
        retirementT.insert_InrD tail [unfolded creditByNumber_def]
        simp: floatArg_apply freshId_apply creditByNumber_def split: sum.splits)
qed

section \<open>Properties\<close>

text \<open>
  C19. A retirement that returns concerns an active credit of the caller that the
  network does not know as retired, and tonnes that are positive and at most the credit's; it
  submits one call, stores one record with those tonnes, and retires the credit exactly when the
  record covers all its tonnes, changing no other credit.
\<close>

theorem retireCredit_effect:
  assumes "retireCredit E uid wal n dto w = (Inr r, w')"
  shows "\<exists>c. creditByNumber w n = Some c \<and> cr_ownerId c = uid \<and> cr_status c = CActive \<and>
    isRetired E (ofInt n) = Inr False \<and> rt_creditId r = cr_id c \<and>
    \<not> num_le (rt_tonnesRetired r) (ofInt 0) \<and> \<not> num_lt (cr_tonnes c) (rt_tonnesRetired r) \<and>
    retirements w' = retirements w @ [r] \<and>
    credits w' = (if num_le (cr_tonnes c) (rt_tonnesRetired r)
      then updWhere (\<lambda>c. cr_creditId c = n) (retiredUpdate E) (credits w) else credits w) \<and>
    length (sent w') = length (sent w) + 1"
proof -
  from retireCredit_InrD [OF assms] obtain c call where
    "creditByNumber w n = Some c" "cr_ownerId c = uid" "cr_status c = CActive"
    "isRetired E (ofInt n) = Inr False" "rt_creditId r = cr_id c"
    "\<not> num_le (rt_tonnesRetired r) (ofInt 0)" "\<not> num_lt (cr_tonnes c) (rt_tonnesRetired r)"
    "retirements w' = retirements w @ [r]" "sent w' = sent w @ [call]"
    "credits w' = (if num_le (cr_tonnes c) (rt_tonnesRetired r)
      then updWhere (\<lambda>c. cr_creditId c = n) (retiredUpdate E) (credits w) else credits w)"
    by blast
  then show ?thesis by auto
qed

definition demoRetire :: "string option \<Rightarrow> retire_dto" where
  "demoRetire t = \<lparr>rd_reason = ''r'', rd_beneficiary = ''b'', rd_accountingPeriod = ''2024'',
     rd_tonnesRetired = t\<rparr>"

theorem retireCredit_effect_witness:
  "\<exists>r w'. retireCredit demoEnv ''u1'' ''GISSUER'' 2 (demoRetire None) demoWorld = (Inr r, w') \<and>
     retirements w' = [r]"
proof -
  have "ranOk (retireCredit demoEnv ''u1'' ''GISSUER'' 2 (demoRetire None) demoWorld)" by code_simp
  then obtain r w' where
    run: "retireCredit demoEnv ''u1'' ''GISSUER'' 2 (demoRetire None) demoWorld = (Inr r, w')"
    by (blast dest: ranOk_D)
  from retireCredit_effect [OF run] run show ?thesis by (auto simp: demoWorld_def emptyWorld_def)
qed

text \<open>
  A retirement that throws leaves every credit, retirement and user row
  as it was, whether or not the call reached the network.
\<close>

theorem retireCredit_error_frame:
  "case retireCredit E uid wal n dto w of
     (Inl e, w') \<Rightarrow> credits w' = credits w \<and> retirements w' = retirements w \<and> users w' = users w
   | (Inr r, w') \<Rightarrow> True"
  by (auto split: prod.split sum.split dest: retireCredit_InlD)

text \<open>
  Certificate data is given for retired credits only; it lists
  exactly the retirements of that credit, at least one, newest first.
\<close>

theorem retirementCertificate_sound:
  assumes "getRetirementCertificate w n = Inr d"
  shows "creditByNumber w n = Some (cf_credit d) \<and> cr_status (cf_credit d) = CRetired \<and>
    cf_retirements d \<noteq> [] \<and>
    set (cf_retirements d) = {r \<in> set (retirements w). rt_creditId r = cr_id (cf_credit d)} \<and>
    sorted_wrt (\<lambda>x y. rt_timestamp y \<le> rt_timestamp x) (cf_retirements d)"
  using assms
  by (auto simp: getRetirementCertificate_def creditRetirements_def sorted_descBy
      split: option.splits if_splits)

definition demoRetired :: world where
  "demoRetired = demoWorld\<lparr>credits := [demoCredit ''c2'' 2 CRetired], retirements := [
     \<lparr>rt_id = ''r1'', rt_creditId = ''c2'', rt_retiredById = ''u1'', rt_beneficiary = ''b'',
      rt_reason = ''r'', rt_accountingPeriod = ''2024'', rt_tonnesRetired = ofInt 100,
      rt_txHash = ''tx'', rt_ledgerSequence = 9, rt_timestamp = 1700000000000,
      rt_certificateHash = Some ''abcd''\<rparr>]\<rparr>"

theorem retirementCertificate_sound_witness:
  "\<exists>d. getRetirementCertificate demoRetired 2 = Inr d \<and> cr_status (cf_credit d) = CRetired"
proof -
  obtain d where d: "getRetirementCertificate demoRetired 2 = Inr d"
    by (simp add: getRetirementCertificate_def creditByNumber_def creditRetirements_def
        demoRetired_def demoWorld_def demoCredit_def descBy_def sortBy_def)
  from retirementCertificate_sound [OF d] d show ?thesis by blast
qed

text \<open>
  A part retirement submits the same call as a full one, without the tonnes, and the credit stays
  active.
\<close>

lemma partial_retirement:
  "(case retireCredit demoEnv ''u1'' ''GISSUER'' 2 (demoRetire (Some ''40'')) demoWorld of (r, w') \<Rightarrow>
     map cc_args (sent w') = [[ScAddress ''GISSUER'', ScU64 2, ScString ''r'', ScString ''b'',
       ScString ''2024'']] \<and>
     map rt_tonnesRetired (retirements w') = [ofInt 40] \<and>
     map cr_status (credits w') = [CPending, CActive])"
  by code_simp

text \<open>Text that is not a number passes the guard; the call is submitted and no record is stored.\<close>

lemma retire_not_a_number:
  "(case retireCredit demoEnv ''u1'' ''GISSUER'' 2 (demoRetire (Some ''abc'')) demoWorld of (r, w') \<Rightarrow>
     map cc_method (sent w') = [''retire''] \<and> retirements w' = [] \<and>
     r = Inl (PrismaError ''validation''))"
  by code_simp

end
