(* ===== verification/Verifiers.thy ===== *)
theory Verifiers
  imports StellarService Webhooks
begin

text \<open>
  \<open>api/src/verifiers/verifiers.service.ts\<close>: registering as a verifier, the liveness heartbeat and the
  queries.  The columns that \<open>include\<close> and \<open>select\<close> add are left out.
\<close>

record register_verifier_dto =
  rv_stake :: jsnum

definition registerVerifier ::
  "env \<Rightarrow> string \<Rightarrow> string \<Rightarrow> register_verifier_dto \<Rightarrow> verifier op" where
  "registerVerifier E userId wallet dto =
     bindE (getsE (\<lambda>w. List.find (\<lambda>v. ve_userId v = userId) (verifiers w))) (\<lambda>existing.
     seqE (throwIf (existing \<noteq> None) (BadRequest ''Already registered as a verifier''))
    (bindE (stellarRegisterVerifier E wallet) (\<lambda>success.
     seqE (throwIf (\<not> success) (BadRequest ''On-chain verifier registration failed''))
    (seqE (floatArg E (rv_stake dto))
    (bindE (freshId E) (\<lambda>i.
     bindE (dbInsert verifiers_update verifierCheck
       \<lparr>ve_id = i, ve_userId = userId, ve_status = VActive, ve_stake = rv_stake dto,
        ve_reputation = 0, ve_heartbeatAt = Some (clock E), ve_createdAt = clock E\<rparr>) (\<lambda>verifier.
     seqE (emit E ''verifier.registered'' (JObj [
            (''userId'', JStr userId), (''wallet'', JStr wallet),
            (''stake'', JNum (rv_stake dto))]))
          (ret verifier))))))))"

definition findVerifier :: "world \<Rightarrow> string \<Rightarrow> verifier option" where
  "findVerifier w i = List.find (\<lambda>v. ve_id v = i) (verifiers w)"

definition findAllVerifiers :: "world \<Rightarrow> verifier list" where
  "findAllVerifiers w = descBy ve_reputation (verifiers w)"

definition findOneVerifier :: "world \<Rightarrow> string \<Rightarrow> api_error + verifier \<times> nat" where
  "findOneVerifier w i = (case findVerifier w i of
     None \<Rightarrow> Inl (NotFound ''Verifier not found'')
   | Some v \<Rightarrow> Inr (v, length (filter (\<lambda>a. ap_verifierId a = ve_userId v) (approvals w))))"

definition getVerifierApprovals :: "world \<Rightarrow> string \<Rightarrow> api_error + approval list" where
  "getVerifierApprovals w i = (case findVerifier w i of
     None \<Rightarrow> Inl (NotFound ''Verifier not found'')
   | Some v \<Rightarrow> Inr (descBy ap_createdAt
       (filter (\<lambda>a. ap_verifierId a = ve_userId v) (approvals w))))"

definition getPendingCredits :: "world \<Rightarrow> credit list" where
  "getPendingCredits w =
     ascBy cr_createdAt (filter (\<lambda>c. cr_status c = CPending) (credits w))"

text \<open>The caller is not an argument: any authenticated user sends any verifier's heartbeat.\<close>

definition heartbeat :: "env \<Rightarrow> string \<Rightarrow> verifier op" where
  "heartbeat E i =
     bindE (getsE (\<lambda>w. findVerifier w i)) (\<lambda>v.
     bindE (orThrow v (NotFound ''Verifier not found'')) (\<lambda>_.
     dbUpdate verifiers verifiers_update (\<lambda>v. ve_id v = i)
       (\<lambda>v. v\<lparr>ve_heartbeatAt := Some (clock E)\<rparr>)))"

section \<open>Lemmas\<close>

lemma stellarRegisterVerifier_InrD:
  "stellarRegisterVerifier E a w = (Inr s, w') \<Longrightarrow>
   isValidPub E a \<and> (\<exists>c. w' = w\<lparr>sent := sent w @ [c]\<rparr> \<and> cc_method c = ''register'')"
  unfolding stellarRegisterVerifier_def
  by (drule signedRet_InrD) (auto simp: allS_Cons_Inr scAddress_Inr_iff)

lemma stellarRegisterVerifier_InlD:
  "stellarRegisterVerifier E a w = (Inl e, w') \<Longrightarrow> w' = w \<or> (\<exists>c. w' = w\<lparr>sent := sent w @ [c]\<rparr>)"
  unfolding stellarRegisterVerifier_def by (drule signedRet_anyD) auto

lemma registerVerifier_InrD:
  assumes "registerVerifier E uid wal dto w = (Inr v, w')"
  shows "\<exists>call. uid \<notin> set (map ve_userId (verifiers w)) \<and> isValidPub E wal \<and>
    verifiers w' = verifiers w @ [v] \<and> ve_userId v = uid \<and> ve_status v = VActive \<and>
    ve_stake v = rv_stake dto \<and> ve_reputation v = 0 \<and>
    sent w' = sent w @ [call] \<and> cc_method call = ''register'' \<and> credits w' = credits w \<and>
    userExists w uid"
  using assms unfolding registerVerifier_def
  by (auto dest!: run_InrD stellarRegisterVerifier_InrD floatArg_InrD verifierT.insert_InrD
      emit_frameD find_None_all simp: freshId_apply check_defs userExists_def split: if_splits)

lemma registerVerifier_InlD:
  assumes "registerVerifier E uid wal dto w = (Inl e, w')"
  shows "verifiers w' = verifiers w \<and> credits w' = credits w"
  using assms unfolding registerVerifier_def
  by (auto dest!: bindE_InlD seqE_InlD run_InrD stellarRegisterVerifier_InrD
      stellarRegisterVerifier_InlD floatArg_InrD verifierT.insert_InlD emit_frameD
      simp: freshId_apply throwIf_apply floatArg_apply split: if_splits sum.splits)

section \<open>Properties\<close>

definition verifiersUnique :: "world \<Rightarrow> bool" where
  "verifiersUnique w \<longleftrightarrow> distinct (map ve_userId (verifiers w))"

text \<open>
  Registrations and heartbeats, whether they return or throw, keep at most
  one verifier record for each user.
\<close>

theorem verifiers_invariant:
  "preserves verifiersUnique (registerVerifier E uid wal dto) \<and>
   preserves verifiersUnique (heartbeat E i)"
proof
  show "preserves verifiersUnique (registerVerifier E uid wal dto)"
    by (rule preserves_runI)
       (auto dest!: registerVerifier_InrD registerVerifier_InlD simp: verifiersUnique_def)
  have "preserves verifiersUnique (dbUpdate verifiers verifiers_update (\<lambda>v. ve_id v = i)
       (\<lambda>v. v\<lparr>ve_heartbeatAt := Some (clock E)\<rparr>))"
    by (rule verifierT.preserves_update) (simp add: verifiersUnique_def map_updWhere_same)
  then show "preserves verifiersUnique (heartbeat E i)"
    unfolding heartbeat_def by (intro act_intros)
qed

text \<open>
  A registration that returns is the user's first: it submits one
  \<open>register\<close> call and appends one active record with the stake and no reputation.
\<close>

theorem registerVerifier_effect:
  assumes "registerVerifier E uid wal dto w = (Inr v, w')"
  shows "uid \<notin> set (map ve_userId (verifiers w)) \<and> verifiers w' = verifiers w @ [v] \<and>
    ve_userId v = uid \<and> ve_status v = VActive \<and> ve_stake v = rv_stake dto \<and> ve_reputation v = 0 \<and>
    (\<exists>call. sent w' = sent w @ [call] \<and> cc_method call = ''register'')"
  using registerVerifier_InrD [OF assms] by blast

theorem registerVerifier_effect_witness:
  "\<exists>v w'. registerVerifier demoEnv ''u1'' ''GISSUER'' \<lparr>rv_stake = ofInt 5\<rparr> demoWorld = (Inr v, w') \<and>
     length (verifiers w') = 3"
proof -
  have "ranOk (registerVerifier demoEnv ''u1'' ''GISSUER'' \<lparr>rv_stake = ofInt 5\<rparr> demoWorld)"
    by code_simp
  then obtain v w' where
    r: "registerVerifier demoEnv ''u1'' ''GISSUER'' \<lparr>rv_stake = ofInt 5\<rparr> demoWorld = (Inr v, w')"
    by (blast dest: ranOk_D)
  from registerVerifier_effect [OF r] r show ?thesis by (auto simp: demoWorld_def)
qed

end
