(* ===== verification/Bridge.thy ===== *)
theory Bridge
  imports StellarService Webhooks
begin

text \<open>
  \<open>api/src/bridge/bridge.service.ts\<close>: importing credits of legacy registries with a Merkle proof,
  bridging them out again, the ledger of bridge records, and the registry roots.
\<close>

record bridge_metadata =
  bm_projectId :: string
  bm_methodology :: string
  bm_vintageStart :: jsnum
  bm_vintageEnd :: jsnum
  bm_tonnes :: jsnum
  bm_geography :: string
  bm_serialPrefix :: string
  bm_sdgFlags :: "jsnum option"
  bm_permanenceRating :: "jsnum option"
  bm_bufferContributionPct :: "jsnum option"
  bm_additionalityType :: "jsnum option"
  bm_ipfsHash :: "string option"

record bridge_in_dto =
  bd_sourceRegistry :: string
  bd_sourceSerial :: string
  bd_leaf :: string
  bd_merkleProof :: "string list"
  bd_merkleRoot :: string
  bd_metadata :: bridge_metadata

definition toOnChainMetadata :: "bridge_metadata \<Rightarrow> metadata_input" where
  "toOnChainMetadata m = \<lparr>
     mi_projectId = Some (bm_projectId m), mi_methodology = Some (bm_methodology m),
     mi_vintageStart = Some (bm_vintageStart m), mi_vintageEnd = Some (bm_vintageEnd m),
     mi_tonnes = Some (bm_tonnes m), mi_geography = Some (bm_geography m),
     mi_serialPrefix = Some (bm_serialPrefix m),
     mi_sdgFlags = Some (orElse (bm_sdgFlags m) (ofInt 0)),
     mi_permanenceRating = Some (orElse (bm_permanenceRating m) (ofInt 50)),
     mi_bufferContributionPct = Some (orElse (bm_bufferContributionPct m) (ofInt 10)),
     mi_additionalityType = Some (orElse (bm_additionalityType m) (ofInt 0)),
     mi_ipfsHash = Some (orElse (bm_ipfsHash m) []),
     mi_status = None, mi_createdAt = None, mi_tokenId = None\<rparr>"

definition bridgeIn :: "env \<Rightarrow> string \<Rightarrow> string \<Rightarrow> bridge_in_dto \<Rightarrow> bridge_record op" where
  "bridgeIn E userId wallet dto =
     bindE (getsE (\<lambda>w. userById w userId)) (\<lambda>user.
     bindE (orThrow user (NotFound ''User not found'')) (\<lambda>_.
     bindE (fromSum (stellarVerifyProof E (bd_leaf dto) (bd_merkleProof dto) (bd_merkleRoot dto)))
       (\<lambda>proofOk.
     seqE (throwIf (\<not> proofOk)
            (BadRequest ''Merkle proof does not verify against the provided root''))
    (bindE (stellarBridgeIn E wallet (bd_sourceRegistry dto) (bd_sourceSerial dto)
              (bd_leaf dto # bd_merkleProof dto) (toOnChainMetadata (bd_metadata dto))) (\<lambda>receipt.
     bindE (intArg (bi_creditId receipt)) (\<lambda>creditId.
     bindE (freshId E) (\<lambda>i.
     dbInsert bridgeRecords_update bridgeCheck
       \<lparr>br_id = i, br_creditId = creditId, br_sourceRegistry = bd_sourceRegistry dto,
        br_sourceSerial = bd_sourceSerial dto, br_merkleRoot = bd_merkleRoot dto,
        br_status = Inbound, br_bridgerId = userId, br_txHash = bi_txHash receipt,
        br_timestamp = clock E\<rparr>)))))))"

definition bridgeOutGuards :: "string \<Rightarrow> int \<Rightarrow> bridge_record op" where
  "bridgeOutGuards userId creditId =
     bindE (getsE (\<lambda>w. creditByNumber w creditId)) (\<lambda>c.
     bindE (orThrow c (NotFound ''Credit not found'')) (\<lambda>credit.
     seqE (throwIf (cr_ownerId credit \<noteq> userId) (Forbidden ''You do not own this credit''))
    (bindE (getsE (\<lambda>w. List.find (\<lambda>r. br_creditId r = creditId) (bridgeRecords w))) (\<lambda>r.
     bindE (orThrow r (BadRequest
         ''Only credits imported from a legacy registry can be bridged out'')) (\<lambda>record.
     seqE (throwIf (br_status record = Outbound)
            (BadRequest ''Credit has already been bridged out''))
          (ret record))))))"

definition bridgeOut :: "env \<Rightarrow> string \<Rightarrow> string \<Rightarrow> int \<Rightarrow> bridge_record op" where
  "bridgeOut E userId wallet creditId =
     bindE (bridgeOutGuards userId creditId) (\<lambda>record.
     bindE (stellarBridgeOut E wallet (ofInt creditId)) (\<lambda>txHash.
     dbUpdate bridgeRecords bridgeRecords_update (\<lambda>r. br_id r = br_id record)
       (\<lambda>r. r\<lparr>br_status := Outbound, br_txHash := txHash\<rparr>)))"

record bridge_filter =
  bf_registry :: "string option"
  bf_status :: "bridge_status option"
  bf_page :: "int option"
  bf_limit :: "int option"

definition getBridgeRecords :: "world \<Rightarrow> bridge_filter \<Rightarrow> bridge_record page" where
  "getBridgeRecords w f =
     mkPage (orElse (bf_page f) 1) (orElse (bf_limit f) 20)
       (descBy br_timestamp (filter (\<lambda>r.
          when_given (given (bf_registry f)) (\<lambda>g. br_sourceRegistry r = toUpper g) \<and>
          when_given (bf_status f) (\<lambda>s. br_status r = s)) (bridgeRecords w)))"

definition getRegistryRoot :: "env \<Rightarrow> string \<Rightarrow> api_error + jsval" where
  "getRegistryRoot E registry =
     bindS (stellarGetRegistryRoot E (toUpper registry)) (\<lambda>r. case r of
       None \<Rightarrow> Inl (NotFound (''No merkle root published for registry '' @ toUpper registry))
     | Some v \<Rightarrow> Inr v)"

record root_receipt =
  ro_registry :: string
  ro_blockHeight :: jsnum
  ro_txHash :: string

definition updateRegistryRoot ::
  "env \<Rightarrow> string \<Rightarrow> string \<Rightarrow> string \<Rightarrow> jsnum \<Rightarrow> root_receipt op" where
  "updateRegistryRoot E wallet registry merkleRoot blockHeight =
     bindE (stellarUpdateRegistryRoot E wallet registry merkleRoot blockHeight) (\<lambda>txHash.
     ret \<lparr>ro_registry = registry, ro_blockHeight = blockHeight, ro_txHash = txHash\<rparr>)"

section \<open>Lemmas\<close>

lemma stellarBridgeIn_InrD:
  assumes "stellarBridgeIn E b reg ser ps m w = (Inr r, w')"
  shows "ps \<noteq> [] \<and> (\<exists>c. w' = w\<lparr>sent := sent w @ [c]\<rparr> \<and> cc_method c = ''bridge_in'')"
  using assms unfolding stellarBridgeIn_def
  by (auto dest!: run_InrD stellarInvoke_Inr simp: submits_def split: list.splits) blast

lemma stellarBridgeIn_InlD:
  assumes "stellarBridgeIn E b reg ser ps m w = (Inl e, w')"
  shows "w' = w \<or> (\<exists>c. w' = w\<lparr>sent := sent w @ [c]\<rparr>)"
  using assms unfolding stellarBridgeIn_def
  by (auto dest!: bindE_InlD seqE_InlD run_InrD stellarInvoke_effect simp: submits_def
      split: list.splits)

lemma stellarBridgeOut_InrD:
  "stellarBridgeOut E b n w = (Inr r, w') \<Longrightarrow>
   isValidPub E b \<and> (\<exists>c. w' = w\<lparr>sent := sent w @ [c]\<rparr> \<and> cc_method c = ''bridge_out'')"
  unfolding stellarBridgeOut_def
  by (drule signedRet_InrD) (auto simp: allS_Cons_Inr scAddress_Inr_iff)

lemma stellarBridgeOut_InlD:
  "stellarBridgeOut E b n w = (Inl e, w') \<Longrightarrow> w' = w \<or> (\<exists>c. w' = w\<lparr>sent := sent w @ [c]\<rparr>)"
  unfolding stellarBridgeOut_def by (drule signedRet_anyD) auto

lemma bridgeIn_InrD:
  assumes "bridgeIn E uid wal dto w = (Inr r, w')"
  shows "\<exists>call. userById w uid \<noteq> None \<and>
    stellarVerifyProof E (bd_leaf dto) (bd_merkleProof dto) (bd_merkleRoot dto) = Inr True \<and>
    bridgeRecords w' = bridgeRecords w @ [r] \<and> brKey r \<notin> set (map brKey (bridgeRecords w)) \<and>
    br_id r \<notin> set (map br_id (bridgeRecords w)) \<and>
    brKey r = (bd_sourceRegistry dto, bd_sourceSerial dto) \<and>
    br_merkleRoot r = bd_merkleRoot dto \<and> br_status r = Inbound \<and> br_bridgerId r = uid \<and>
    sent w' = sent w @ [call] \<and> cc_method call = ''bridge_in'' \<and> credits w' = credits w"
  using assms unfolding bridgeIn_def
  by (auto dest!: run_InrD intArg_InrD stellarBridgeIn_InrD bridgeT.insert_InrD
      simp: freshId_apply check_defs brKey_def split: if_splits)

lemma bridgeIn_InlD:
  assumes "bridgeIn E uid wal dto w = (Inl e, w')"
  shows "bridgeRecords w' = bridgeRecords w \<and> credits w' = credits w"
  using assms unfolding bridgeIn_def
  by (auto dest!: bindE_InlD seqE_InlD run_InrD intArg_InrD intArg_state stellarBridgeIn_InrD
      stellarBridgeIn_InlD bridgeT.insert_InlD
      simp: freshId_apply throwIf_apply orThrow_apply split: if_splits option.splits)

lemma bridgeOutGuards_InrD:
  "bridgeOutGuards uid n w = (Inr r, w') \<Longrightarrow>
   w' = w \<and> (\<exists>c. creditByNumber w n = Some c \<and> cr_ownerId c = uid) \<and>
   List.find (\<lambda>r. br_creditId r = n) (bridgeRecords w) = Some r \<and> br_status r \<noteq> Outbound"
  by (auto simp: bridgeOutGuards_def act_simps split: option.splits if_splits)

lemma bridgeOutGuards_InlD: "bridgeOutGuards uid n w = (Inl e, w') \<Longrightarrow> w' = w"
  by (auto simp: bridgeOutGuards_def act_simps split: option.splits if_splits)

lemma bridgeOut_InrD:
  assumes "bridgeOut E uid wal n w = (Inr r, w')"
  shows "\<exists>r0 call tx. (\<exists>c. creditByNumber w n = Some c \<and> cr_ownerId c = uid) \<and>
    List.find (\<lambda>r. br_creditId r = n) (bridgeRecords w) = Some r0 \<and> br_status r0 = Inbound \<and>
    bridgeRecords w' = updWhere (\<lambda>r. br_id r = br_id r0)
      (\<lambda>r. r\<lparr>br_status := Outbound, br_txHash := tx\<rparr>) (bridgeRecords w) \<and>
    sent w' = sent w @ [call] \<and> cc_method call = ''bridge_out'' \<and> credits w' = credits w"
proof -
  have st: "b = Inbound" if "b \<noteq> Outbound" for b using that by (cases b) auto
  show ?thesis
    using assms unfolding bridgeOut_def
    by (auto dest!: run_InrD bridgeOutGuards_InrD stellarBridgeOut_InrD bridgeT.update_InrD
        intro: st)
qed

lemma bridgeOut_InlD:
  assumes "bridgeOut E uid wal n w = (Inl e, w')"
  shows "bridgeRecords w' = bridgeRecords w \<and> credits w' = credits w"
  using assms unfolding bridgeOut_def
  by (auto dest!: bindE_InlD run_InrD bridgeOutGuards_InrD bridgeOutGuards_InlD
      stellarBridgeOut_InrD stellarBridgeOut_InlD bridgeT.update_InlD)

section \<open>Properties\<close>

definition bridgeOk :: "world \<Rightarrow> bool" where
  "bridgeOk w \<longleftrightarrow> distinct (map br_id (bridgeRecords w)) \<and> distinct (map brKey (bridgeRecords w))"

text \<open>
  Whatever the two operations return or throw, no serial number of a registry
  is recorded twice.
\<close>

theorem bridge_invariant:
  "preserves bridgeOk (bridgeIn E uid wal dto) \<and> preserves bridgeOk (bridgeOut E uid wal n)"
proof
  show "preserves bridgeOk (bridgeIn E uid wal dto)"
    by (rule preserves_runI) (auto dest!: bridgeIn_InrD bridgeIn_InlD simp: bridgeOk_def)
  show "preserves bridgeOk (bridgeOut E uid wal n)"
    by (rule preserves_runI)
       (auto dest!: bridgeOut_InrD bridgeOut_InlD simp: bridgeOk_def map_updWhere_same brKey_def)
qed

definition outboundIds :: "world \<Rightarrow> string set" where
  "outboundIds w = {br_id r | r. r \<in> set (bridgeRecords w) \<and> br_status r = Outbound}"

lemma outboundIds_update:
  assumes "bridgeRecords w' = updWhere P (\<lambda>r. r\<lparr>br_status := Outbound, br_txHash := tx\<rparr>)
      (bridgeRecords w)" and "i \<in> outboundIds w"
  shows "i \<in> outboundIds w'"
proof -
  from assms(2) obtain r where r: "r \<in> set (bridgeRecords w)" "br_status r = Outbound" "br_id r = i"
    by (auto simp: outboundIds_def)
  let ?r = "if P r then r\<lparr>br_status := Outbound, br_txHash := tx\<rparr> else r"
  have "?r \<in> set (bridgeRecords w')" unfolding assms(1) set_updWhere using r(1) by blast
  moreover have "br_status ?r = Outbound" "br_id ?r = i" using r by auto
  ultimately show ?thesis unfolding outboundIds_def by blast
qed


text \<open>
  C34. An import that returns verified its Merkle proof first, submitted one
  \<open>bridge_in\<close> call and appended one inbound record for a serial number that was not recorded yet.
\<close>

theorem bridgeIn_effect:
  assumes "bridgeIn E uid wal dto w = (Inr r, w')"
  shows "stellarVerifyProof E (bd_leaf dto) (bd_merkleProof dto) (bd_merkleRoot dto) = Inr True \<and>
    bridgeRecords w' = bridgeRecords w @ [r] \<and> br_status r = Inbound \<and> br_bridgerId r = uid \<and>
    brKey r = (bd_sourceRegistry dto, bd_sourceSerial dto) \<and>
    brKey r \<notin> set (map brKey (bridgeRecords w)) \<and>
    (\<exists>call. sent w' = sent w @ [call] \<and> cc_method call = ''bridge_in'')"
  using bridgeIn_InrD [OF assms] by blast

definition hex64 :: string where
  "hex64 = replicate 64 CHR ''a''"

definition demoBridge :: bridge_in_dto where
  "demoBridge = \<lparr>bd_sourceRegistry = ''VERRA'', bd_sourceSerial = ''S1'', bd_leaf = hex64,
     bd_merkleProof = [hex64], bd_merkleRoot = hex64, bd_metadata = \<lparr>bm_projectId = ''P'',
       bm_methodology = ''M'', bm_vintageStart = ofInt 1, bm_vintageEnd = ofInt 2,
       bm_tonnes = ofInt 3, bm_geography = ''BR'', bm_serialPrefix = ''V'', bm_sdgFlags = None,
       bm_permanenceRating = None, bm_bufferContributionPct = None, bm_additionalityType = None,
       bm_ipfsHash = None\<rparr>\<rparr>"

theorem bridgeIn_effect_witness:
  "\<exists>r w'. bridgeIn demoEnv ''u1'' ''GISSUER'' demoBridge demoWorld = (Inr r, w') \<and>
     bridgeRecords w' = [r] \<and> br_status r = Inbound"
proof -
  have "ranOk (bridgeIn demoEnv ''u1'' ''GISSUER'' demoBridge demoWorld)" by code_simp
  then obtain r w' where r: "bridgeIn demoEnv ''u1'' ''GISSUER'' demoBridge demoWorld = (Inr r, w')"
    by (blast dest: ranOk_D)
  from bridgeIn_effect [OF r] r show ?thesis by (auto simp: demoWorld_def emptyWorld_def)
qed

text \<open>
  An import stores no credit row, so the credit it imports is unknown to \<open>bridgeOut\<close> unless another
  program has stored it: the importer cannot bridge it out again through the API.
\<close>

lemma bridged_in_not_out:
  assumes "bridgeIn E uid wal dto w = (Inr r, w')" and "creditByNumber w (br_creditId r) = None"
  shows "bridgeOut E' uid' wal' (br_creditId r) w' = (Inl (NotFound ''Credit not found''), w')"
  using bridgeIn_InrD [OF assms(1)] assms(2)
  by (auto simp: bridgeOut_def bridgeOutGuards_def act_simps creditByNumber_def)

text \<open>Publishing keeps the registry name as it is, while reading converts it to upper case.\<close>

lemma registry_case:
  "map cc_args (sent (snd (updateRegistryRoot demoEnv ''GADMIN'' ''verra'' hex64 (ofInt 5) demoWorld)))
     = [[ScAddress ''GADMIN'', ScString ''verra'', ScBytes (replicate 32 170), ScU64 5]]"
  by code_simp

end
