(* ===== verification/Certificates.thy ===== *)
theory Certificates
  imports StellarService Webhooks Demo
begin

text \<open>
  \<open>api/src/certificates/certificates.service.ts\<close>: verifying a certificate hash against the network,
  reading certificates, and generating them in a batch.  Rendering (Handlebars, Puppeteer, the QR
  code) is a parameter of \<open>generatePdf\<close>; the data handed to the template is modelled.  A stored
  \<open>Json\<close> value holds dates as ISO text.
\<close>

section \<open>Verification\<close>

definition creditRow :: "world \<Rightarrow> string \<Rightarrow> credit option" where
  "creditRow w i = List.find (\<lambda>c. cr_id c = i) (credits w)"

definition certificateByHash :: "world \<Rightarrow> string \<Rightarrow> certificate option" where
  "certificateByHash w h = List.find (\<lambda>c. ce_certificateHash c = Some h) (certificates w)"

definition retirementByHash :: "world \<Rightarrow> string \<Rightarrow> retirement option" where
  "retirementByHash w h = List.find (\<lambda>r. rt_certificateHash r = Some h) (retirements w)"

record verify_result =
  vr_valid :: bool
  vr_message :: string
  vr_certificate :: "certificate option"
  vr_retirement :: "(retirement \<times> credit) option"

definition verifyCertificate :: "env \<Rightarrow> world \<Rightarrow> string \<Rightarrow> api_error + verify_result" where
  "verifyCertificate E w hash = (case certificateByHash w hash of
     None \<Rightarrow> Inr \<lparr>vr_valid = False, vr_message = ''Certificate not found in registry'',
       vr_certificate = None, vr_retirement = None\<rparr>
   | Some c \<Rightarrow> (case retirementByHash w hash of
       None \<Rightarrow> Inr \<lparr>vr_valid = False,
         vr_message = ''No matching retirement record found for certificate'',
         vr_certificate = None, vr_retirement = None\<rparr>
     | Some r \<Rightarrow> (case creditRow w (rt_creditId r) of
         None \<Rightarrow> Inl (PrismaError ''P2025'')
       | Some cr \<Rightarrow> bindS (getCertificateHash E (ofInt (cr_creditId cr))) (\<lambda>onChainHash.
           let valid = (onChainHash = hash) in
           Inr \<lparr>vr_valid = valid, vr_message = (if valid
                  then ''Certificate verified successfully on-chain''
                  else ''Certificate hash does not match on-chain record''),
                vr_certificate = Some c, vr_retirement = Some (r, cr)\<rparr>))))"

section \<open>Reading\<close>

record certificate_view =
  cw_certificate :: certificate
  cw_owner :: string
  cw_retirement :: "(retirement \<times> credit option) option"

definition findCertificate :: "world \<Rightarrow> string \<Rightarrow> certificate option" where
  "findCertificate w i = List.find (\<lambda>c. ce_id c = i) (certificates w)"

text \<open>\<open>where: { certificateHash: hash ?? undefined }\<close>: an undefined value is no condition.\<close>

definition getCertificate :: "world \<Rightarrow> string \<Rightarrow> api_error + certificate_view" where
  "getCertificate w i = (case findCertificate w i of
     None \<Rightarrow> Inl (NotFound ''Certificate not found'')
   | Some c \<Rightarrow>
       let r = List.find (\<lambda>r. when_given (ce_certificateHash c)
                 (\<lambda>h. rt_certificateHash r = Some h)) (retirements w) in
       Inr \<lparr>cw_certificate = c,
            cw_owner = (case userById w (ce_userId c) of None \<Rightarrow> [] | Some u \<Rightarrow> u_stellarPub u),
            cw_retirement = map_option (\<lambda>r. (r, creditRow w (rt_creditId r))) r\<rparr>)"

definition getOwnedCertificates :: "world \<Rightarrow> string \<Rightarrow> certificate list" where
  "getOwnedCertificates w userId =
     descBy ce_createdAt (filter (\<lambda>c. ce_userId c = userId) (certificates w))"

section \<open>Documents\<close>

text \<open>\<open>x ? new Date(x).toISOString().split('T')[0] : ''\<close>.\<close>

definition dayText :: "env \<Rightarrow> jsval \<Rightarrow> api_error + jsval" where
  "dayText E v = (if truthy v then (case dateParse E (jsString v) of
       None \<Rightarrow> Inl (JsError ''Invalid time value'') | Some d \<Rightarrow> Inr (JStr (isoDate d)))
     else Inr (JStr []))"

definition templateData :: "env \<Rightarrow> certificate \<Rightarrow> string \<Rightarrow> api_error + jsval" where
  "templateData E c qr =
     (let m = ce_metadata c; txt = JStr []; zero = JNum (ofInt 0);
          field = (\<lambda>k d. (k, coalesce (getProp m k) d));
          hash = JStr (orEmpty (ce_certificateHash c)) in
      bindS (dayText E (getProp m ''retirementDate'')) (\<lambda>rd.
      bindS (dayText E (getProp m ''vintageStart'')) (\<lambda>vs.
      bindS (dayText E (getProp m ''vintageEnd'')) (\<lambda>ve.
      Inr (JObj [(''certificateId'', JStr (ce_id c)), field ''beneficiary'' txt,
        field ''reason'' txt, field ''accountingPeriod'' txt, field ''tonnesRetired'' zero,
        (''retirementDate'', rd), field ''projectId'' txt, field ''methodology'' txt,
        field ''geography'' txt, (''vintageStart'', vs), (''vintageEnd'', ve),
        (''totalTonnes'', coalesce (getProp m ''tonnes'') zero), field ''serialPrefix'' txt,
        (''txHash'', JStr (orEmpty (ce_txHash c))), field ''ledgerSequence'' zero,
        (''certificateHash'', hash), (''qrCodeDataUri'', JStr qr)])))))"

text \<open>\<open>PlaceholderOf c\<close> stands for the indented JSON text of the row.\<close>

datatype document = Rendered "8 word list" | PlaceholderOf certificate

definition generatePdf ::
  "env \<Rightarrow> (string \<Rightarrow> string option) \<Rightarrow> (jsval \<Rightarrow> string + 8 word list) \<Rightarrow> certificate \<Rightarrow> document"
where
  "generatePdf E qrcode render c =
     (let qr = (case qrcode (orEmpty (ce_certificateHash c)) of None \<Rightarrow> [] | Some s \<Rightarrow> s) in
      case bindS (templateData E c qr) (\<lambda>d. fromSdk (render d)) of
        Inl _ \<Rightarrow> PlaceholderOf c | Inr b \<Rightarrow> Rendered b)"

definition getCertificatePdf ::
  "env \<Rightarrow> (string \<Rightarrow> string option) \<Rightarrow> (jsval \<Rightarrow> string + 8 word list) \<Rightarrow> world \<Rightarrow> string
   \<Rightarrow> api_error + (document \<times> string)" where
  "getCertificatePdf E qrcode render w i = (case findCertificate w i of
     None \<Rightarrow> Inl (NotFound ''Certificate not found'')
   | Some c \<Rightarrow> Inr (generatePdf E qrcode render c,
       ''attachment; filename=\"certificate-'' @ i @ ''.pdf\"''))"

section \<open>Generating a batch\<close>

definition certificatePayload :: "credit \<Rightarrow> retirement \<Rightarrow> string" where
  "certificatePayload c r = showInt (cr_creditId c) @ '':'' @ cr_projectId c @ '':'' @
     num_to_string (cr_tonnes c) @ '':'' @ rt_beneficiary r @ '':'' @ rt_reason r @ '':'' @
     showInt (rt_timestamp r)"

definition generateCertificateHash :: "env \<Rightarrow> credit \<Rightarrow> retirement \<Rightarrow> string" where
  "generateCertificateHash E c r = sha256 E (certificatePayload c r)"

definition certificateMetadata :: "credit \<Rightarrow> retirement \<Rightarrow> jsval" where
  "certificateMetadata c r = JObj [
     (''creditId'', JNum (ofInt (cr_creditId c))), (''projectId'', JStr (cr_projectId c)),
     (''methodology'', JStr (cr_methodology c)), (''geography'', JStr (cr_geography c)),
     (''vintageStart'', JStr (isoString (cr_vintageStart c))),
     (''vintageEnd'', JStr (isoString (cr_vintageEnd c))), (''tonnes'', JNum (cr_tonnes c)),
     (''serialPrefix'', JStr (cr_serialPrefix c)), (''beneficiary'', JStr (rt_beneficiary r)),
     (''reason'', JStr (rt_reason r)), (''accountingPeriod'', JStr (rt_accountingPeriod r)),
     (''tonnesRetired'', JNum (rt_tonnesRetired r)),
     (''retirementDate'', JStr (isoString (rt_timestamp r)))]"

datatype batch_status = Existing | Generated

record batch_entry =
  be_creditId :: int
  be_status :: batch_status
  be_certificateId :: string
  be_certificateHash :: "string option"

record batch_result =
  ba_total :: nat
  ba_generated :: nat
  ba_existing :: nat
  ba_results :: "batch_entry list"

text \<open>The caller's latest retirement of a credit.\<close>

definition latestRetirement :: "world \<Rightarrow> string \<Rightarrow> credit \<Rightarrow> retirement option" where
  "latestRetirement w userId c = (case descBy rt_timestamp
       (filter (\<lambda>r. rt_creditId r = cr_id c \<and> rt_retiredById r = userId) (retirements w)) of
     [] \<Rightarrow> None | r # _ \<Rightarrow> Some r)"

definition batchStep ::
  "env \<Rightarrow> string \<Rightarrow> credit \<times> retirement option \<Rightarrow> batch_entry option op" where
  "batchStep E userId cr = (case cr of (credit, latest) \<Rightarrow> (case latest of
     None \<Rightarrow> ret None
   | Some r \<Rightarrow>
       let hash = generateCertificateHash E credit r in
       bindE (getsE (\<lambda>w. certificateByHash w hash)) (\<lambda>existing. (case existing of
         Some c \<Rightarrow> ret (Some \<lparr>be_creditId = cr_creditId credit, be_status = Existing,
             be_certificateId = ce_id c, be_certificateHash = None\<rparr>)
       | None \<Rightarrow>
           bindE (freshId E) (\<lambda>i.
           bindE (dbInsert certificates_update certificateCheck
             \<lparr>ce_id = i, ce_userId = userId, ce_creditId = cr_id credit,
              ce_txHash = Some (rt_txHash r), ce_metadata = certificateMetadata credit r,
              ce_pdfUrl = None, ce_certificateHash = Some hash,
              ce_createdAt = clock E\<rparr>) (\<lambda>c.
           seqE (dbUpdate retirements retirements_update (\<lambda>x. rt_id x = rt_id r)
                   (\<lambda>x. x\<lparr>rt_certificateHash := Some hash\<rparr>))
                (ret (Some \<lparr>be_creditId = cr_creditId credit, be_status = Generated,
                   be_certificateId = ce_id c, be_certificateHash = Some hash\<rparr>))))))))"

definition eligible :: "world \<Rightarrow> int list \<Rightarrow> credit list" where
  "eligible w ids = filter (\<lambda>c. cr_creditId c \<in> set ids \<and> cr_status c = CRetired) (credits w)"

definition enqueueBatch :: "env \<Rightarrow> string \<Rightarrow> int list \<Rightarrow> batch_result op" where
  "enqueueBatch E userId creditIds =
     bindE (getsE (\<lambda>w. map (\<lambda>c. (c, latestRetirement w userId c)) (eligible w creditIds)))
       (\<lambda>crs.
     seqE (throwIf (crs = []) (BadRequest ''No eligible retired credits found''))
    (bindE (mapE (batchStep E userId) crs) (\<lambda>rs.
       let results = map the (filter (\<lambda>r. r \<noteq> None) rs) in
       ret \<lparr>ba_total = length crs,
            ba_generated = length (filter (\<lambda>r. be_status r = Generated) results),
            ba_existing = length (filter (\<lambda>r. be_status r = Existing) results),
            ba_results = results\<rparr>)))"

section \<open>Lemmas\<close>

definition unstamped :: "retirement \<Rightarrow> retirement" where
  "unstamped r = r\<lparr>rt_certificateHash := None\<rparr>"

lemma insertBy_map:
  "(\<And>x y. gt (f x) (f y) = gt x y) \<Longrightarrow> insertBy gt (f x) (map f ys) = map f (insertBy gt x ys)"
  by (induction ys) auto

lemma sortBy_map: "(\<And>x y. gt (f x) (f y) = gt x y) \<Longrightarrow> sortBy gt (map f xs) = map f (sortBy gt xs)"
proof -
  assume gt: "\<And>x y. gt (f x) (f y) = gt x y"
  have "foldr (insertBy gt) (map f xs) [] = map f (foldr (insertBy gt) xs [])"
    by (induction xs) (simp_all add: insertBy_map [of gt f, OF gt, symmetric])
  then show ?thesis by (simp add: sortBy_def)
qed

lemma latestRetirement_unstamped:
  assumes "map unstamped (retirements w') = map unstamped (retirements w)"
  shows "map_option unstamped (latestRetirement w' uid c) = map_option unstamped (latestRetirement w uid c)"
proof -
  have eq: "map unstamped (descBy rt_timestamp (filter P rs)) =
      descBy rt_timestamp (filter P (map unstamped rs))"
    if "\<And>r. P (unstamped r) = P r" for P rs
    using that by (simp add: descBy_def sortBy_map [symmetric] unstamped_def filter_map o_def)
  let ?P = "\<lambda>r. rt_creditId r = cr_id c \<and> rt_retiredById r = uid"
  have "map unstamped (descBy rt_timestamp (filter ?P (retirements w'))) =
      map unstamped (descBy rt_timestamp (filter ?P (retirements w)))"
    by (simp add: eq unstamped_def assms)
  then show ?thesis by (auto simp: latestRetirement_def split: list.splits)
qed

lemma hash_unstamped: "generateCertificateHash E c (unstamped r) = generateCertificateHash E c r"
  by (simp add: generateCertificateHash_def certificatePayload_def unstamped_def)

text \<open>One step: credits stay, retirements change in their hash only, certificates are added.\<close>

definition batchRel :: "world \<Rightarrow> world \<Rightarrow> bool" where
  "batchRel w w' \<longleftrightarrow> credits w' = credits w \<and>
     map unstamped (retirements w') = map unstamped (retirements w) \<and>
     (\<exists>cs. certificates w' = certificates w @ cs)"

interpretation batch_rel: guarantee batchRel
  by (rule guarantee.intro) (auto simp: batchRel_def)

lemma batchStep_rel: "relates batchRel (batchStep E uid cr)"
proof -
  have "relates batchRel (freshId E)"
    by (simp add: relates_def freshId_apply batchRel_def)
  moreover have "relates batchRel (dbInsert certificates_update certificateCheck row)" for row
    by (rule certificateT.relates_insert) (simp_all add: batchRel_def)
  moreover have "relates batchRel (dbUpdate retirements retirements_update (\<lambda>x. rt_id x = i)
       (\<lambda>x. x\<lparr>rt_certificateHash := Some h\<rparr>))" for i h
    by (rule retirementT.relates_update)
       (simp_all add: batchRel_def map_updWhere_same unstamped_def)
  ultimately show ?thesis
    unfolding batchStep_def Let_def
    by (auto split: prod.split option.split intro!: batch_rel.rules)
qed

lemma certificateByHash_iff:
  "certificateByHash w h \<noteq> None \<longleftrightarrow> Some h \<in> set (map ce_certificateHash (certificates w))"
  by (auto simp: certificateByHash_def find_None_iff image_iff) (metis)+

lemma batchStep_certified:
  assumes "batchStep E uid (c, Some r) w = (Inr x, w')"
  shows "x \<noteq> None \<and> certificateByHash w' (generateCertificateHash E c r) \<noteq> None"
proof (cases "certificateByHash w (generateCertificateHash E c r)")
  case None
  with assms show ?thesis unfolding certificateByHash_iff
    by (auto simp: batchStep_def Let_def
        dest!: run_InrD certificateT.insert_InrD retirementT.update_InrD)
next
  case (Some y)
  with assms show ?thesis by (auto simp: batchStep_def Let_def act_simps)
qed

lemma certificateByHash_rel:
  "batchRel w w' \<Longrightarrow> certificateByHash w h \<noteq> None \<Longrightarrow> certificateByHash w' h \<noteq> None"
  unfolding certificateByHash_iff by (auto simp: batchRel_def)

lemma batchStep_existing:
  assumes "certificateByHash w (generateCertificateHash E c r) \<noteq> None"
  shows "\<exists>x. batchStep E uid (c, Some r) w = (Inr (Some x), w) \<and> be_status x = Existing"
  using assms by (auto simp: batchStep_def Let_def act_simps)

lemma batchSteps_certified:
  assumes "mapE (batchStep E uid) crs w = (Inr rs, w')" and "(c, Some r) \<in> set crs"
  shows "certificateByHash w' (generateCertificateHash E c r) \<noteq> None"
  using assms
proof (induction crs arbitrary: w rs)
  case Nil
  then show ?case by simp
next
  case (Cons cr crs)
  from Cons.prems(1) obtain x w1 rs1 where
    s: "batchStep E uid cr w = (Inr x, w1)" and m: "mapE (batchStep E uid) crs w1 = (Inr rs1, w')"
    by (auto dest!: bindE_InrD)
  show ?case
  proof (cases "cr = (c, Some r)")
    case True
    with s have "certificateByHash w1 (generateCertificateHash E c r) \<noteq> None"
      by (auto dest: batchStep_certified)
    moreover have "batchRel w1 w'"
      using m by (rule relatesD [OF batch_rel.mapE [OF batchStep_rel]])
    ultimately show ?thesis by (rule certificateByHash_rel [rotated])
  next
    case False
    with Cons.IH [OF m] Cons.prems(2) show ?thesis by auto
  qed
qed

lemma batchSteps_existing:
  assumes "\<And>c r. (c, Some r) \<in> set crs \<Longrightarrow> certificateByHash w (generateCertificateHash E c r) \<noteq> None"
  shows "\<exists>rs. mapE (batchStep E uid) crs w = (Inr rs, w) \<and>
    (\<forall>x \<in> set rs. x \<noteq> None \<longrightarrow> be_status (the x) = Existing)"
  using assms
proof (induction crs)
  case Nil
  then show ?case by simp
next
  case (Cons cr crs)
  then obtain rs where rs: "mapE (batchStep E uid) crs w = (Inr rs, w)"
    "\<forall>x \<in> set rs. x \<noteq> None \<longrightarrow> be_status (the x) = Existing" by auto
  obtain c l where cr: "cr = (c, l)" by fastforce
  have "\<exists>x. batchStep E uid cr w = (Inr x, w) \<and> (x \<noteq> None \<longrightarrow> be_status (the x) = Existing)"
  proof (cases l)
    case None
    then show ?thesis by (simp add: cr batchStep_def)
  next
    case (Some r)
    with Cons.prems [of c r] cr batchStep_existing [of w E c r uid] show ?thesis by auto
  qed
  then obtain x where "batchStep E uid cr w = (Inr x, w)"
    "x \<noteq> None \<longrightarrow> be_status (the x) = Existing" by blast
  with rs show ?case by (auto simp: bindE_apply)
qed

section \<open>Properties\<close>

text \<open>
  A check that answers \<open>valid\<close> has found a stored certificate and a stored
  retirement with the hash, the credit of that retirement, and the same hash on the network; one
  that answers \<open>not valid\<close> has found the certificate or the retirement missing, or another hash.
\<close>

theorem verify_sound:
  assumes "verifyCertificate E w h = Inr v"
  shows "if vr_valid v
    then \<exists>c r cr. c \<in> set (certificates w) \<and> ce_certificateHash c = Some h \<and>
      r \<in> set (retirements w) \<and> rt_certificateHash r = Some h \<and>
      cr \<in> set (credits w) \<and> cr_id cr = rt_creditId r \<and>
      getCertificateHash E (ofInt (cr_creditId cr)) = Inr h \<and>
      vr_certificate v = Some c \<and> vr_retirement v = Some (r, cr)
    else (\<forall>c \<in> set (certificates w). ce_certificateHash c \<noteq> Some h) \<or>
      (\<forall>r \<in> set (retirements w). rt_certificateHash r \<noteq> Some h) \<or>
      (\<exists>r cr h'. vr_retirement v = Some (r, cr) \<and> rt_certificateHash r = Some h \<and>
         getCertificateHash E (ofInt (cr_creditId cr)) = Inr h' \<and> h' \<noteq> h)"
proof (cases "certificateByHash w h")
  case None
  with assms show ?thesis
    by (auto simp: verifyCertificate_def certificateByHash_def dest: find_NoneD)
next
  case (Some c)
  then have c: "c \<in> set (certificates w)" "ce_certificateHash c = Some h"
    by (auto simp: certificateByHash_def dest: find_SomeD)
  show ?thesis
  proof (cases "retirementByHash w h")
    case None
    with assms Some show ?thesis
      by (auto simp: verifyCertificate_def retirementByHash_def dest: find_NoneD)
  next
    case (Some r)
    then have r: "r \<in> set (retirements w)" "rt_certificateHash r = Some h"
      by (auto simp: retirementByHash_def dest: find_SomeD)
    from assms Some \<open>certificateByHash w h = Some c\<close> obtain cr h' where
      cr: "creditRow w (rt_creditId r) = Some cr"
      and h': "getCertificateHash E (ofInt (cr_creditId cr)) = Inr h'"
      and v: "vr_valid v = (h' = h)" "vr_certificate v = Some c" "vr_retirement v = Some (r, cr)"
      by (auto simp: verifyCertificate_def bindS_Inr_iff Let_def split: option.splits)
    from cr have "cr \<in> set (credits w)" "cr_id cr = rt_creditId r"
      by (auto simp: creditRow_def dest: find_SomeD)
    with c r h' v show ?thesis by auto
  qed
qed

definition demoCertified :: world where
  "demoCertified = demoWorld\<lparr>retirements := [
     \<lparr>rt_id = ''r1'', rt_creditId = ''c2'', rt_retiredById = ''u1'', rt_beneficiary = ''b'',
      rt_reason = ''r'', rt_accountingPeriod = ''2024'', rt_tonnesRetired = ofInt 100,
      rt_txHash = ''tx'', rt_ledgerSequence = 9, rt_timestamp = 1700000000000,
      rt_certificateHash = Some ''abcd''\<rparr>],
     certificates := [\<lparr>ce_id = ''k1'', ce_userId = ''u1'', ce_creditId = ''c2'',
      ce_txHash = Some ''tx'', ce_metadata = JNull, ce_pdfUrl = None,
      ce_certificateHash = Some ''abcd'', ce_createdAt = 0\<rparr>]\<rparr>"

text \<open>A network whose retirement records all have that hash.\<close>

definition certEnv :: env where
  "certEnv = demoEnv\<lparr>rpcSimulate := (\<lambda>c. Inr (SimResult (Some (ScVec [ScVec
     (replicate 9 (ScU32 0) @ [ScBytes [171, 205]])]))))\<rparr>"

theorem verify_sound_witness:
  "\<exists>v c. verifyCertificate certEnv demoCertified ''abcd'' = Inr v \<and> vr_valid v \<and>
     c \<in> set (certificates demoCertified) \<and> ce_certificateHash c = Some ''abcd''"
proof -
  have "(case verifyCertificate certEnv demoCertified ''abcd'' of Inr v \<Rightarrow> vr_valid v | Inl _ \<Rightarrow> False)"
    by code_simp
  then obtain v where v: "verifyCertificate certEnv demoCertified ''abcd'' = Inr v" "vr_valid v"
    by (auto split: sum.splits)
  from verify_sound [OF v(1)] v show ?thesis by auto
qed


definition demoBatch :: world where
  "demoBatch = demoCertified\<lparr>credits := [demoCredit ''c2'' 2 CRetired], certificates := []\<rparr>"


end
