(* ===== verification/Auth.thy ===== *)
theory Auth
  imports SorobanClient
begin

text \<open>
  \<open>api/src/auth\<close>: SEP-10 challenges, their exchange for tokens, refreshing, and the checks of a bearer
  token.  The SEP-10 functions of the Stellar SDK and the token functions of the JWT package are
  parameters, collected in \<open>auth_lib\<close>; a function that may throw returns \<open>Inl\<close> of its message.
\<close>

record claims =
  cl_sub :: string
  cl_wallet :: string
  cl_type :: "string option"

text \<open>
  \<open>al_verify s k p ws d\<close> is \<open>WebAuth.verifyChallengeTxSigners\<close>, \<open>al_read\<close> the client account of
  \<open>WebAuth.readChallengeTx\<close>, \<open>al_maxTime\<close> the upper time bound of \<open>TransactionBuilder.fromXDR\<close>.
\<close>

record auth_lib =
  al_build :: "string \<Rightarrow> string \<Rightarrow> string \<Rightarrow> jsnum \<Rightarrow> string \<Rightarrow> string + string"
  al_verify :: "string \<Rightarrow> string \<Rightarrow> string \<Rightarrow> string list \<Rightarrow> string \<Rightarrow> string + string list"
  al_read :: "string \<Rightarrow> string \<Rightarrow> string \<Rightarrow> string \<Rightarrow> string + string"
  al_maxTime :: "string \<Rightarrow> string \<Rightarrow> string + string option"
  al_sign :: "claims \<Rightarrow> string \<Rightarrow> string"
  al_jwtVerify :: "string \<Rightarrow> string + claims"

section \<open>Configuration\<close>

definition getServerKeypair :: "env \<Rightarrow> api_error + string" where
  "getServerKeypair E = (case confSet E ''SEP10_SIGNING_KEY'' of
     None \<Rightarrow> Inl (Unauthorized ''SEP-10 signing key not configured'')
   | Some secret \<Rightarrow> (case keyFromSecret E secret of
       Inl _ \<Rightarrow> Inl (Unauthorized ''Invalid SEP-10 signing key'') | Inr k \<Rightarrow> Inr k))"

definition getHomeDomain :: "env \<Rightarrow> string" where
  "getHomeDomain E = confOr E ''SEP10_HOME_DOMAIN'' ''api.carbonveritas.io''"

definition getChallengeTimeoutSeconds :: "env \<Rightarrow> jsnum" where
  "getChallengeTimeoutSeconds E =
     (let parsed = (case confSet E ''SEP10_CHALLENGE_TIMEOUT'' of
                      Some raw \<Rightarrow> parseInt10 raw | None \<Rightarrow> ofInt 300) in
      if isFinite parsed \<and> num_lt (ofInt 0) parsed then parsed else ofInt 300)"

section \<open>Challenges\<close>

record challenge_response =
  cs_challengeId :: string
  cs_transaction :: string
  cs_network :: string
  cs_homeDomain :: string
  cs_expiresIn :: jsnum

definition stale :: "env \<Rightarrow> challenge \<Rightarrow> bool" where
  "stale E c \<longleftrightarrow> ch_expiresAt c < clock E \<or> ch_usedAt c \<noteq> None"

definition dateMs :: "jsnum \<Rightarrow> int op" where
  "dateMs x = (case x of Fin r \<Rightarrow> (if \<bar>r\<bar> \<le> 8640000000000000 then ret (if 0 \<le> r then \<lfloor>r\<rfloor> else \<lceil>r\<rceil>)
       else throw (PrismaError ''validation''))
   | _ \<Rightarrow> throw (PrismaError ''validation''))"

definition generateChallenge :: "auth_lib \<Rightarrow> env \<Rightarrow> string \<Rightarrow> challenge_response op" where
  "generateChallenge L E wallet =
     seqE (throwIf (\<not> isValidPub E wallet) (BadRequest ''Invalid Stellar public key''))
    (bindE (fromSum (getServerKeypair E)) (\<lambda>server.
       let homeDomain = getHomeDomain E; timeoutSeconds = getChallengeTimeoutSeconds E in
       bindE (fromSum (fromSdk (al_build L server wallet homeDomain timeoutSeconds
                (networkPassphrase E)))) (\<lambda>transaction.
       seqE (modifyE (\<lambda>w. w\<lparr>challenges := filter (\<lambda>c. \<not> stale E c) (challenges w)\<rparr>))
      (bindE (dateMs (num_add (num_of_int (clock E)) (num_mul timeoutSeconds (ofInt 1000))))
        (\<lambda>expires.
       bindE (freshId E) (\<lambda>i.
       bindE (dbInsert challenges_update challengeCheck
         \<lparr>ch_id = i, ch_wallet = wallet, ch_transaction = transaction, ch_expiresAt = expires,
          ch_usedAt = None, ch_createdAt = clock E\<rparr>) (\<lambda>c.
       ret \<lparr>cs_challengeId = ch_id c, cs_transaction = transaction,
            cs_network = confOr E ''STELLAR_NETWORK'' ''testnet'', cs_homeDomain = homeDomain,
            cs_expiresIn = timeoutSeconds\<rparr>)))))))"

section \<open>Tokens\<close>

record tokens =
  tk_accessToken :: string
  tk_refreshToken :: string

definition issueTokens :: "auth_lib \<Rightarrow> string \<Rightarrow> string \<Rightarrow> tokens" where
  "issueTokens L uid wallet = \<lparr>
     tk_accessToken = al_sign L \<lparr>cl_sub = uid, cl_wallet = wallet, cl_type = None\<rparr> ''24h'',
     tk_refreshToken = al_sign L \<lparr>cl_sub = uid, cl_wallet = wallet, cl_type = Some ''refresh''\<rparr>
        ''7d''\<rparr>"

definition findChallenge :: "world \<Rightarrow> string \<Rightarrow> challenge option" where
  "findChallenge w i = List.find (\<lambda>c. ch_id c = i) (challenges w)"

definition challengeGuards :: "env \<Rightarrow> string \<Rightarrow> string \<Rightarrow> challenge op" where
  "challengeGuards E wallet challengeId =
     seqE (throwIf (\<not> isValidPub E wallet) (BadRequest ''Invalid Stellar public key''))
    (bindE (getsE (\<lambda>w. findChallenge w challengeId)) (\<lambda>c.
     bindE (orThrow c (Unauthorized ''Unknown challenge'')) (\<lambda>challenge.
     seqE (throwIf (ch_wallet challenge \<noteq> wallet)
            (Unauthorized ''Challenge belongs to a different wallet''))
    (seqE (throwIf (ch_usedAt challenge \<noteq> None)
            (Unauthorized ''Challenge has already been used''))
    (seqE (throwIf (ch_expiresAt challenge < clock E) (Unauthorized ''Challenge has expired''))
          (ret challenge))))))"

text \<open>The checks of the signed transaction, which depend on no stored row.\<close>

definition signatureChecks :: "auth_lib \<Rightarrow> env \<Rightarrow> string \<Rightarrow> string \<Rightarrow> api_error + unit" where
  "signatureChecks L E wallet signedTx =
     bindS (getServerKeypair E) (\<lambda>server.
     let homeDomain = getHomeDomain E; pass = networkPassphrase E in
     bindS (case al_verify L signedTx server pass [wallet] homeDomain of
              Inl _ \<Rightarrow> Inl (Unauthorized ''Invalid challenge signature'') | Inr ss \<Rightarrow> Inr ss)
       (\<lambda>verifiedSigners.
     bindS (throwIfS (wallet \<notin> set verifiedSigners)
              (Unauthorized ''Challenge was not signed by this wallet'')) (\<lambda>_.
     bindS (case al_read L signedTx server pass homeDomain of
              Inl _ \<Rightarrow> Inl (Unauthorized ''Invalid challenge transaction'')
            | Inr client \<Rightarrow> throwIfS (client \<noteq> wallet)
                (Unauthorized ''Challenge transaction is not bound to this wallet'')) (\<lambda>_.
     bindS (fromSdk (al_maxTime L signedTx pass)) (\<lambda>maxTime.
     throwIfS (case maxTime of None \<Rightarrow> False | Some t \<Rightarrow> t \<noteq> [] \<and>
                 num_lt (stringToNumber t) (num_floor (num_div (num_of_int (clock E)) (ofInt 1000))))
       (Unauthorized ''Challenge has expired''))))))"

definition findOrCreateUser :: "env \<Rightarrow> string \<Rightarrow> user op" where
  "findOrCreateUser E wallet =
     bindE (getsE (\<lambda>w. List.find (\<lambda>u. u_stellarPub u = wallet) (users w))) (\<lambda>u. (case u of
       Some r \<Rightarrow> ret r
     | None \<Rightarrow> bindE (freshId E) (\<lambda>i. dbInsert users_update userCheck
         \<lparr>u_id = i, u_stellarPub = wallet, u_createdAt = clock E\<rparr>)))"

definition exchangeToken ::
  "auth_lib \<Rightarrow> env \<Rightarrow> string \<Rightarrow> string \<Rightarrow> string \<Rightarrow> tokens op" where
  "exchangeToken L E wallet signedChallenge challengeId =
     seqE (challengeGuards E wallet challengeId)
    (seqE (fromSum (signatureChecks L E wallet signedChallenge))
    (seqE (dbUpdate challenges challenges_update (\<lambda>c. ch_id c = challengeId)
             (\<lambda>c. c\<lparr>ch_usedAt := Some (clock E)\<rparr>))
    (bindE (findOrCreateUser E wallet) (\<lambda>user. ret (issueTokens L (u_id user) wallet)))))"

text \<open>Every exception of the \<open>try\<close> block becomes the same one.\<close>

definition refreshToken :: "auth_lib \<Rightarrow> string \<Rightarrow> api_error + tokens" where
  "refreshToken L token =
     (case bindS (fromSdk (al_jwtVerify L token)) (\<lambda>decoded.
        bindS (throwIfS (cl_type decoded \<noteq> Some ''refresh'')
                 (Unauthorized ''Invalid refresh token'')) (\<lambda>_.
        Inr (issueTokens L (cl_sub decoded) (cl_wallet decoded)))) of
      Inr t \<Rightarrow> Inr t
    | Inl _ \<Rightarrow> Inl (Unauthorized ''Invalid or expired refresh token''))"

section \<open>Bearer tokens\<close>

record principal =
  pr_id :: string
  pr_wallet :: string

definition jwtValidate :: "world \<Rightarrow> claims \<Rightarrow> api_error + principal" where
  "jwtValidate w c = (case userById w (cl_sub c) of
     None \<Rightarrow> Inl (Unauthorized ''Unauthorized'')
   | Some u \<Rightarrow> Inr \<lparr>pr_id = u_id u, pr_wallet = u_stellarPub u\<rparr>)"

text \<open>\<open>JwtAuthGuard\<close>: a public route passes without a principal.\<close>

definition jwtGuard ::
  "auth_lib \<Rightarrow> world \<Rightarrow> bool \<Rightarrow> string option \<Rightarrow> api_error + principal option" where
  "jwtGuard L w isPublic bearer =
     (if isPublic then Inr None else (case bearer of
        None \<Rightarrow> Inl (Unauthorized ''Unauthorized'')
      | Some t \<Rightarrow> (case al_jwtVerify L t of
          Inl _ \<Rightarrow> Inl (Unauthorized ''Unauthorized'')
        | Inr c \<Rightarrow> bindS (jwtValidate w c) (\<lambda>p. Inr (Some p)))))"

section \<open>Lemmas\<close>

lemma challengeGuards_InrD:
  "challengeGuards E wal cid w = (Inr c, w') \<Longrightarrow>
   w' = w \<and> isValidPub E wal \<and> findChallenge w cid = Some c \<and> ch_wallet c = wal \<and>
   ch_usedAt c = None \<and> clock E \<le> ch_expiresAt c"
  by (auto simp: challengeGuards_def act_simps split: option.splits if_splits)

lemma challengeGuards_run:
  "isValidPub E wal \<Longrightarrow> findChallenge w cid = Some c \<Longrightarrow> ch_wallet c = wal \<Longrightarrow> ch_usedAt c = None \<Longrightarrow>
   clock E \<le> ch_expiresAt c \<Longrightarrow> challengeGuards E wal cid w = (Inr c, w)"
  by (simp add: challengeGuards_def act_simps)

lemma challengeGuards_used:
  assumes "findChallenge w cid = Some c" and "ch_usedAt c \<noteq> None"
  shows "\<exists>e. challengeGuards E wal cid w = (Inl e, w) \<and> (\<exists>m. e = Unauthorized m \<or> e = BadRequest m)"
  using assms by (auto simp: challengeGuards_def act_simps)

lemma findOrCreateUser_InrD:
  "findOrCreateUser E wal w = (Inr u, w') \<Longrightarrow>
   u_stellarPub u = wal \<and> challenges w' = challenges w \<and>
   List.find (\<lambda>u. u_stellarPub u = wal) (users w') = Some u \<and>
   (users w' = users w \<or> (users w' = users w @ [u] \<and> wal \<notin> set (map u_stellarPub (users w))))"
  by (auto simp: findOrCreateUser_def act_simps find_append split: option.splits
      dest!: userT.insert_InrD dest: find_SomeD find_None_all)

lemma exchangeToken_InrD:
  assumes "exchangeToken L E wal s cid w = (Inr t, w')"
  shows "\<exists>c u. isValidPub E wal \<and> findChallenge w cid = Some c \<and> ch_wallet c = wal \<and>
    ch_usedAt c = None \<and> clock E \<le> ch_expiresAt c \<and> signatureChecks L E wal s = Inr () \<and>
    challenges w' = updWhere (\<lambda>c. ch_id c = cid) (\<lambda>c. c\<lparr>ch_usedAt := Some (clock E)\<rparr>) (challenges w) \<and>
    List.find (\<lambda>u. u_stellarPub u = wal) (users w') = Some u \<and>
    (users w' = users w \<or> (users w' = users w @ [u] \<and> wal \<notin> set (map u_stellarPub (users w)))) \<and>
    t = issueTokens L (u_id u) wal"
  using assms unfolding exchangeToken_def
  by (auto dest!: run_InrD challengeGuards_InrD challengeT.update_InrD findOrCreateUser_InrD)

section \<open>Properties\<close>

text \<open>
  C21. Tokens are issued only for a stored challenge of that wallet that is
  neither used nor expired, and only when the signed transaction passes every check; the challenge
  is then used, and the tokens name the one user with that wallet, who exists afterwards.
\<close>

theorem exchangeToken_effect:
  assumes "exchangeToken L E wal s cid w = (Inr t, w')"
  shows "\<exists>c u. findChallenge w cid = Some c \<and> ch_wallet c = wal \<and> ch_usedAt c = None \<and>
    clock E \<le> ch_expiresAt c \<and> signatureChecks L E wal s = Inr () \<and>
    (\<exists>c'. findChallenge w' cid = Some c' \<and> ch_usedAt c' = Some (clock E)) \<and>
    List.find (\<lambda>u. u_stellarPub u = wal) (users w') = Some u \<and>
    t = issueTokens L (u_id u) wal"
proof -
  from exchangeToken_InrD [OF assms] obtain c u where
    *: "findChallenge w cid = Some c" "ch_wallet c = wal" "ch_usedAt c = None"
      "clock E \<le> ch_expiresAt c" "signatureChecks L E wal s = Inr ()"
      "challenges w' = updWhere (\<lambda>c. ch_id c = cid) (\<lambda>c. c\<lparr>ch_usedAt := Some (clock E)\<rparr>) (challenges w)"
      "List.find (\<lambda>u. u_stellarPub u = wal) (users w') = Some u" "t = issueTokens L (u_id u) wal"
    by blast
  have "findChallenge w' cid = Some (c\<lparr>ch_usedAt := Some (clock E)\<rparr>)"
    using *(1) by (auto simp: findChallenge_def *(6) find_updWhere_same dest: find_SomeD)
  with * show ?thesis by auto
qed

definition demoLib :: auth_lib where
  "demoLib = \<lparr>al_build = (\<lambda>k w d t p. Inr ''tx''), al_verify = (\<lambda>s k p ws d. Inr ws),
     al_read = (\<lambda>s k p d. Inr s), al_maxTime = (\<lambda>s p. Inr None),
     al_sign = (\<lambda>c e. cl_sub c @ ''/'' @ e),
     al_jwtVerify = (\<lambda>t. Inr \<lparr>cl_sub = ''u1'', cl_wallet = ''GISSUER'', cl_type = Some t\<rparr>)\<rparr>"

definition authEnv :: env where
  "authEnv = demoEnv\<lparr>conf := (\<lambda>k. if k = ''SEP10_SIGNING_KEY'' then Some ''SS'' else None)\<rparr>"

definition authWorld :: world where
  "authWorld = demoWorld\<lparr>challenges := [
     \<lparr>ch_id = ''h1'', ch_wallet = ''GNEW'', ch_transaction = ''tx1'',
      ch_expiresAt = 1800000000000, ch_usedAt = None, ch_createdAt = 0\<rparr>,
     \<lparr>ch_id = ''h2'', ch_wallet = ''GNEW'', ch_transaction = ''tx2'',
      ch_expiresAt = 1800000000000, ch_usedAt = None, ch_createdAt = 0\<rparr>]\<rparr>"

theorem exchangeToken_effect_witness:
  "\<exists>t w' c'. exchangeToken demoLib authEnv ''GNEW'' ''GNEW'' ''h1'' authWorld = (Inr t, w') \<and>
     findChallenge w' ''h1'' = Some c' \<and> ch_usedAt c' \<noteq> None"
proof -
  have "ranOk (exchangeToken demoLib authEnv ''GNEW'' ''GNEW'' ''h1'' authWorld)" by code_simp
  then obtain t w' where
    r: "exchangeToken demoLib authEnv ''GNEW'' ''GNEW'' ''h1'' authWorld = (Inr t, w')"
    by (blast dest: ranOk_D)
  from exchangeToken_effect [OF r] r show ?thesis by auto
qed

text \<open>
  C20. A challenge that was exchanged once is refused from then on, for every
  wallet, signed transaction and later time, and the refusal changes nothing.
\<close>

theorem challenge_single_use:
  assumes "exchangeToken L E wal s cid w = (Inr t, w')"
  shows "\<exists>e. exchangeToken L' E' wal' s' cid w' = (Inl e, w') \<and>
    (\<exists>m. e = Unauthorized m \<or> e = BadRequest m)"
proof -
  from exchangeToken_InrD [OF assms] obtain c where
    c: "findChallenge w cid = Some c"
      "challenges w' = updWhere (\<lambda>c. ch_id c = cid) (\<lambda>c. c\<lparr>ch_usedAt := Some (clock E)\<rparr>) (challenges w)"
    by blast
  then have "findChallenge w' cid = Some (c\<lparr>ch_usedAt := Some (clock E)\<rparr>)"
    by (auto simp: findChallenge_def find_updWhere_same dest: find_SomeD)
  then obtain e where "challengeGuards E' wal' cid w' = (Inl e, w')"
    "\<exists>m. e = Unauthorized m \<or> e = BadRequest m"
    using challengeGuards_used [of w' cid _ E' wal'] by fastforce
  then show ?thesis by (auto simp: exchangeToken_def seqE_apply)
qed

theorem challenge_single_use_witness:
  "\<exists>t w'. exchangeToken demoLib authEnv ''GNEW'' ''GNEW'' ''h1'' authWorld = (Inr t, w') \<and>
     (\<exists>e. exchangeToken demoLib authEnv ''GNEW'' ''GNEW'' ''h1'' w' = (Inl e, w'))"
proof -
  have "ranOk (exchangeToken demoLib authEnv ''GNEW'' ''GNEW'' ''h1'' authWorld)" by code_simp
  then obtain t w' where
    r: "exchangeToken demoLib authEnv ''GNEW'' ''GNEW'' ''h1'' authWorld = (Inr t, w')"
    by (blast dest: ranOk_D)
  from challenge_single_use [OF r] r show ?thesis by blast
qed

text \<open>
  The signed transaction is never compared with the stored one: after a first exchange the same
  signed transaction is accepted again with another open challenge of the wallet.
\<close>

lemma signed_challenge_replay:
  assumes run: "exchangeToken L E wal s cid w = (Inr t, w')" and "cid2 \<noteq> cid"
    and c2: "findChallenge w cid2 = Some c2" "ch_wallet c2 = wal" "ch_usedAt c2 = None"
      "clock E \<le> ch_expiresAt c2"
  shows "ranOk (exchangeToken L E wal s cid2 w')"
proof -
  from exchangeToken_InrD [OF run] obtain u where
    *: "isValidPub E wal" "signatureChecks L E wal s = Inr ()"
      "challenges w' = updWhere (\<lambda>c. ch_id c = cid) (\<lambda>c. c\<lparr>ch_usedAt := Some (clock E)\<rparr>) (challenges w)"
      "List.find (\<lambda>u. u_stellarPub u = wal) (users w') = Some u"
    by blast
  have "findChallenge w' cid2 = Some c2"
    using c2(1) assms(2) by (auto simp: findChallenge_def *(3) find_updWhere_same dest: find_SomeD)
  with * c2 show ?thesis
    by (auto simp: exchangeToken_def seqE_apply bindE_apply challengeGuards_run dbUpdate_def
        findOrCreateUser_def findChallenge_def)
qed

definition walletsUnique :: "world \<Rightarrow> bool" where
  "walletsUnique w \<longleftrightarrow> distinct (map u_stellarPub (users w)) \<and> distinct (map u_id (users w))"

text \<open>
  Issuing challenges and exchanging them, whether they return or throw, keep
  one user per wallet and one per row id.
\<close>

theorem wallets_invariant:
  "preserves walletsUnique (generateChallenge L E wal) \<and>
   preserves walletsUnique (exchangeToken L E wal s cid)"
proof
  have 1: "preserves walletsUnique (freshId E)"
    by (simp add: preserves_def relates_def freshId_apply walletsUnique_def)
  have 2: "preserves walletsUnique (dbInsert challenges_update challengeCheck r)" for r
    by (rule challengeT.preserves_insert) (simp add: walletsUnique_def)
  have 3: "preserves walletsUnique (dbUpdate challenges challenges_update P f)" for P f
    by (rule challengeT.preserves_update) (simp add: walletsUnique_def)
  have 4: "preserves walletsUnique (dbInsert users_update userCheck r)" for r
    by (rule userT.preserves_insert)
       (auto simp: walletsUnique_def userCheck_def split: if_splits)
  have 5: "preserves walletsUnique (dateMs x)" for x
    by (cases x) (auto simp: dateMs_def intro!: act_intros)
  have 6: "preserves walletsUnique (modifyE (\<lambda>w. w\<lparr>challenges := g w\<rparr>))" for g
    by (rule preserves_modifyE) (simp add: walletsUnique_def)
  show "preserves walletsUnique (generateChallenge L E wal)"
    unfolding generateChallenge_def Let_def by (intro act_intros 1 2 5 6)
  show "preserves walletsUnique (exchangeToken L E wal s cid)"
    unfolding exchangeToken_def challengeGuards_def findOrCreateUser_def
    by (intro act_intros 3) (auto split: option.split intro!: act_intros 1 4)
qed

text \<open>
  Refreshing succeeds exactly for a token that verifies and has the type
  \<open>refresh\<close>, and then names the same subject and wallet; every failure is the same unauthorized
  answer.
\<close>

theorem refreshToken_spec:
  "refreshToken L tok = (case al_jwtVerify L tok of
     Inr c \<Rightarrow> (if cl_type c = Some ''refresh'' then Inr (issueTokens L (cl_sub c) (cl_wallet c))
              else Inl (Unauthorized ''Invalid or expired refresh token''))
   | Inl _ \<Rightarrow> Inl (Unauthorized ''Invalid or expired refresh token''))"
  by (simp add: refreshToken_def throwIfS_def fromSdk_def split: sum.split)

text \<open>
  The guard does not look at the type of a token: a refresh token opens every protected route.
\<close>

lemma refresh_token_as_access_token:
  assumes "al_jwtVerify L t = Inr c" and "cl_type c = Some ''refresh''"
    and "userById w (cl_sub c) = Some u"
  shows "jwtGuard L w False (Some t) = Inr (Some \<lparr>pr_id = u_id u, pr_wallet = u_stellarPub u\<rparr>)"
  using assms by (simp add: jwtGuard_def jwtValidate_def)

end
