(* ===== verification/Admin.thy ===== *)
theory Admin
  imports StellarService Auth
begin

text \<open>
  \<open>api/src/admin\<close> and \<open>api/src/revenue-split\<close>: the administration calls, which go to the Soroban
  client directly, the guard in front of them, and the revenue split of a project.
\<close>

section \<open>Guard\<close>

definition adminWallets :: "env \<Rightarrow> string list" where
  "adminWallets E =
     filter (\<lambda>s. s \<noteq> []) (map trim (splitOn CHR '','' (confOr E ''ADMIN_WALLETS'' [])))"

text \<open>The argument is \<open>request.user?.wallet\<close>.\<close>

definition adminGuard :: "env \<Rightarrow> string option \<Rightarrow> api_error + unit" where
  "adminGuard E wallet = (case given wallet of
     None \<Rightarrow> Inl (Forbidden ''Administrator privileges required'')
   | Some w \<Rightarrow> throwIfS (w \<notin> set (adminWallets E))
       (Forbidden ''Administrator privileges required''))"

section \<open>Service\<close>

definition CONTRACT_ENV_KEYS :: "string list" where
  "CONTRACT_ENV_KEYS = [''CREDIT_REGISTRY_CONTRACT'', ''MARKETPLACE_CONTRACT'',
     ''RETIREMENT_TRACKER_CONTRACT'', ''VERIFIER_STAKE_CONTRACT'', ''MERKLE_BRIDGE_CONTRACT'',
     ''REVENUE_SPLIT_CONTRACT'']"

definition requireConf :: "env \<Rightarrow> string \<Rightarrow> api_error + string" where
  "requireConf E key = (case confSet E key of
     None \<Rightarrow> Inl (BadRequest (key @ '' is not configured'')) | Some v \<Rightarrow> Inr v)"

definition requireContract :: "env \<Rightarrow> string \<Rightarrow> api_error + string" where
  "requireContract E key = requireConf E key"

definition requireAdminSecret :: "env \<Rightarrow> api_error + string" where
  "requireAdminSecret E = requireConf E ''STELLAR_ADMIN_SECRET_KEY''"

definition requireAdminPublicKey :: "env \<Rightarrow> api_error + string" where
  "requireAdminPublicKey E = requireConf E ''STELLAR_ADMIN_PUBLIC_KEY''"

definition getProtocolConfig :: "env \<Rightarrow> api_error + jsval" where
  "getProtocolConfig E =
     bindS (requireContract E ''CREDIT_REGISTRY_CONTRACT'') (\<lambda>cid.
     bindS (sorobanReadScVal E cid ''get_config'' [] None) (\<lambda>rv. case rv of
       None \<Rightarrow> Inl (BadRequest ''Protocol config unavailable on-chain'')
     | Some sv \<Rightarrow> decodeContractConfig E sv))"

record update_config_dto =
  uc_verifierThreshold :: jsnum
  uc_verifierQuorum :: jsnum
  uc_approvalWindow :: jsnum
  uc_protocolFeeBps :: jsnum
  uc_bufferPoolPct :: jsnum

definition updateProtocolConfig :: "env \<Rightarrow> update_config_dto \<Rightarrow> bool op" where
  "updateProtocolConfig E dto =
     bindE (fromSum (requireContract E ''CREDIT_REGISTRY_CONTRACT'')) (\<lambda>cid.
     bindE (fromSum (requireAdminPublicKey E)) (\<lambda>pub.
     bindE (fromSum (requireAdminSecret E)) (\<lambda>sec.
     bindE (fromSum (allS [scAddress E pub, scU32 (uc_verifierThreshold dto),
              scU32 (uc_verifierQuorum dto), scU64 E (uc_approvalWindow dto),
              scU32 (uc_protocolFeeBps dto), scU32 (uc_bufferPoolPct dto)])) (\<lambda>args.
     bindE (sorobanInvoke E cid ''update_config'' args sec None) (\<lambda>receipt.
     ret (isTrue receipt))))))"

definition getContracts :: "env \<Rightarrow> (string \<times> string option) list" where
  "getContracts E = map (\<lambda>k. (k, conf E k)) CONTRACT_ENV_KEYS"

definition verifierRow :: "jsval \<Rightarrow> jsval" where
  "verifierRow row = (case row of
     JArr vs \<Rightarrow> JObj (zipNativeFields VERIFIER_FIELDS vs) | v \<Rightarrow> JObj [(''address'', v)])"

definition listVerifiers :: "env \<Rightarrow> api_error + jsval list" where
  "listVerifiers E =
     bindS (requireContract E ''VERIFIER_STAKE_CONTRACT'') (\<lambda>cid.
     bindS (sorobanRead E cid ''get_all_verifiers'' [] None) (\<lambda>rv.
     Inr (case rv of JArr rows \<Rightarrow> map verifierRow rows | _ \<Rightarrow> [])))"

definition changeVerifier :: "env \<Rightarrow> string \<Rightarrow> string \<Rightarrow> bool op" where
  "changeVerifier E method address =
     bindE (fromSum (requireContract E ''CREDIT_REGISTRY_CONTRACT'')) (\<lambda>cid.
     bindE (fromSum (requireAdminPublicKey E)) (\<lambda>pub.
     bindE (fromSum (allS [scAddress E pub, scAddress E address])) (\<lambda>args.
     bindE (fromSum (requireAdminSecret E)) (\<lambda>sec.
     seqE (sorobanInvoke E cid method args sec None) (ret True)))))"

definition addVerifier :: "env \<Rightarrow> string \<Rightarrow> bool op" where
  "addVerifier E address = changeVerifier E ''add_verifier'' address"

definition removeVerifier :: "env \<Rightarrow> string \<Rightarrow> bool op" where
  "removeVerifier E address = changeVerifier E ''remove_verifier'' address"

record system_status =
  ss_network :: "(int \<times> string) option"
  ss_users :: nat
  ss_credits :: nat
  ss_verifiers :: nat
  ss_offers :: nat
  ss_retirements :: nat
  ss_webhooks :: nat

definition getSystemStatus :: "env \<Rightarrow> world \<Rightarrow> system_status" where
  "getSystemStatus E w = \<lparr>
     ss_network = (case getLatestLedger E of Inl _ \<Rightarrow> None | Inr l \<Rightarrow> Some l),
     ss_users = length (users w), ss_credits = length (credits w),
     ss_verifiers = length (verifiers w), ss_offers = length (offers w),
     ss_retirements = length (retirements w), ss_webhooks = length (webhooks w)\<rparr>"

section \<open>Revenue split\<close>

text \<open>\<open>dto.beneficiaries.reduce((sum, b) => sum + b.bps, 0)\<close>\<close>

definition totalBps :: "beneficiary list \<Rightarrow> jsnum" where
  "totalBps bs = foldl (\<lambda>s b. num_add s (bn_bps b)) (ofInt 0) bs"

record split_receipt =
  sp_projectId :: string
  sp_txHash :: string

definition configureSplit ::
  "env \<Rightarrow> string \<Rightarrow> string \<Rightarrow> beneficiary list \<Rightarrow> split_receipt op" where
  "configureSplit E adminWallet projectId beneficiaries =
     seqE (throwIf (\<not> num_eq (totalBps beneficiaries) (ofInt 10000))
            (BadRequest (''Beneficiary bps shares must sum to exactly 10000, got '' @
               num_to_string (totalBps beneficiaries))))
    (bindE (configureRevenueSplit E adminWallet projectId beneficiaries) (\<lambda>txHash.
     ret \<lparr>sp_projectId = projectId, sp_txHash = txHash\<rparr>))"

record distribute_receipt =
  dr_projectId :: string
  dr_asset :: string
  dr_amount :: jsnum
  dr_txHash :: string

definition distributeSplit ::
  "env \<Rightarrow> string \<Rightarrow> string \<Rightarrow> string \<Rightarrow> jsnum \<Rightarrow> distribute_receipt op" where
  "distributeSplit E callerWallet projectId asset amount =
     bindE (distributeRevenueSplit E callerWallet projectId asset amount) (\<lambda>txHash.
     ret \<lparr>dr_projectId = projectId, dr_asset = asset, dr_amount = amount, dr_txHash = txHash\<rparr>)"

definition getSplitConfig :: "env \<Rightarrow> string \<Rightarrow> api_error + jsval" where
  "getSplitConfig E projectId =
     bindS (getRevenueConfig E projectId) (\<lambda>c. case c of
       None \<Rightarrow> Inl (NotFound (''No revenue split configured for project '' @ projectId))
     | Some v \<Rightarrow> Inr v)"

section \<open>Properties\<close>

text \<open>
  The guard lets a request through exactly when its wallet is non-empty and
  equal to an entry of the comma-separated list after trimming; without the setting nobody passes.
\<close>

theorem adminGuard_spec:
  "(adminGuard E wallet = Inr () \<longleftrightarrow> (\<exists>w e. wallet = Some w \<and> w \<noteq> [] \<and>
     e \<in> set (splitOn CHR '','' (confOr E ''ADMIN_WALLETS'' [])) \<and> trim e = w)) \<and>
   (adminGuard E wallet \<noteq> Inr () \<longleftrightarrow>
     adminGuard E wallet = Inl (Forbidden ''Administrator privileges required''))"
  by (auto simp: adminGuard_def adminWallets_def given_def throwIfS_def split: option.splits)

lemma adminGuard_unset:
  assumes "conf E ''ADMIN_WALLETS'' = None" shows "adminGuard E wallet \<noteq> Inr ()"
proof -
  have "adminWallets E = []" using assms by (simp add: adminWallets_def confOr_def trim_def trimLeft_def)
  then show ?thesis by (simp add: adminGuard_def throwIfS_def split: option.splits)
qed

text \<open>
  A revenue split reaches the network only when its shares add up to 10000;
  otherwise it is a bad request and nothing is sent.
\<close>

theorem configureSplit_exact:
  "(case configureSplit E adm pid bs w of
      (Inr r, w') \<Rightarrow> num_eq (totalBps bs) (ofInt 10000) \<and> length (sent w') = length (sent w) + 1
    | (Inl e, w') \<Rightarrow> num_eq (totalBps bs) (ofInt 10000) \<or>
        (w' = w \<and> (\<exists>m. e = BadRequest m)))"
proof -
  have "\<exists>c. w' = w\<lparr>sent := sent w @ [c]\<rparr>"
    if "configureRevenueSplit E adm pid bs w = (Inr h, w')" for h w'
    using that unfolding configureRevenueSplit_def by (auto dest!: signedRet_InrD)
  then show ?thesis
    by (auto simp: configureSplit_def act_simps split: prod.splits sum.splits)
qed

text \<open>
  A payment asset that is not an account address is refused; the address of an asset contract is
  none.
\<close>

lemma distribute_needs_account:
  assumes "\<not> isValidPub E asset"
  shows "\<exists>e. distributeSplit E caller pid asset amount w = (Inl e, w)"
proof -
  have "Inl (JsError (''Invalid Stellar address: '' @ asset))
      \<in> set [scAddress E caller, Inr (scString pid), scAddress E asset, scI128 E amount]"
    using assms by (simp add: scAddress_def)
  then have "\<exists>e. distributeRevenueSplit E caller pid asset amount w = (Inl e, w)"
    unfolding distributeRevenueSplit_def by (rule signedRet_bad_arg)
  then show ?thesis by (auto simp: distributeSplit_def bindE_apply)
qed

end
