(* ===== verification/Processors.thy ===== *)
theory Processors
  imports Demo
begin

text \<open>
  \<open>indexer/src/processors\<close>: what each event of the network does to the shared tables.  Rows are
  created with \<open>upsert\<close> where the code does so; an event about an unknown credit or offer is
  dropped or raises, as in the code.
\<close>

section \<open>Events\<close>

record credit_submitted_event =
  es_creditId :: jsnum
  es_issuer :: string
  es_projectId :: string
  es_methodology :: string
  es_vintageStart :: string
  es_vintageEnd :: string
  es_tonnes :: jsnum
  es_geography :: string
  es_serialPrefix :: string
  es_sdgFlags :: jsnum
  es_permanenceRating :: jsnum
  es_bufferContributionPct :: jsnum
  es_additionalityType :: jsnum
  es_ipfsHash :: string
  es_timestamp :: jsnum
  es_txHash :: string

record credit_approved_event =
  ea_creditId :: jsnum
  ea_verifier :: string
  ea_approved :: bool
  ea_comments :: "string option"
  ea_timestamp :: jsnum
  ea_txHash :: string

record credit_minted_event =
  em_creditId :: jsnum
  em_tokenId :: string
  em_timestamp :: jsnum
  em_txHash :: string

record credit_rejected_event =
  er_creditId :: jsnum
  er_verifier :: string
  er_reason :: string
  er_timestamp :: jsnum
  er_txHash :: string

record credit_transferred_event =
  et_creditId :: jsnum
  et_from :: string
  et_to :: string
  et_timestamp :: jsnum
  et_txHash :: string

record credit_retired_event =
  en_creditId :: jsnum
  en_retiredBy :: string
  en_beneficiary :: string
  en_reason :: string
  en_accountingPeriod :: string
  en_tonnesRetired :: jsnum
  en_txHash :: string
  en_ledgerSequence :: jsnum
  en_timestamp :: jsnum

record offer_created_event =
  oc_offerId :: jsnum
  oc_seller :: string
  oc_creditId :: jsnum
  oc_pricePerTonne :: jsnum
  oc_amount :: jsnum
  oc_currency :: string
  oc_expiresAt :: "jsnum option"
  oc_timestamp :: jsnum
  oc_txHash :: string

record offer_filled_event =
  fo_offerId :: jsnum
  fo_buyer :: string
  fo_amount :: jsnum
  fo_totalPrice :: jsnum
  fo_timestamp :: jsnum
  fo_txHash :: string

record offer_cancelled_event =
  ox_offerId :: jsnum
  ox_timestamp :: jsnum
  ox_txHash :: string

record credit_bridged_event =
  eb_creditId :: jsnum
  eb_sourceRegistry :: string
  eb_sourceSerial :: string
  eb_txHash :: string
  eb_timestamp :: jsnum

record credit_bridged_out_event =
  eo_creditId :: jsnum
  eo_owner :: string
  eo_txHash :: string
  eo_timestamp :: jsnum

record registry_root_event =
  rg_registry :: string
  rg_root :: string
  rg_ledgerSequence :: jsnum
  rg_txHash :: string
  rg_timestamp :: jsnum

section \<open>Processors\<close>

definition voidE :: "('s, 'e, 'a) act \<Rightarrow> ('s, 'e, unit) act" where
  "voidE m = bindE m (\<lambda>_. ret ())"

text \<open>\<open>prisma.user.upsert\<close> with an empty update.\<close>

definition upsertUser :: "env \<Rightarrow> string \<Rightarrow> user op" where
  "upsertUser E pub =
     bindE (getsE (\<lambda>w. List.find (\<lambda>u. u_stellarPub u = pub) (users w))) (\<lambda>u. (case u of
       Some r \<Rightarrow> ret r
     | None \<Rightarrow> bindE (freshId E) (\<lambda>i. dbInsert users_update userCheck
         \<lparr>u_id = i, u_stellarPub = pub, u_createdAt = clock E\<rparr>)))"

definition findCredit :: "jsnum \<Rightarrow> credit option op" where
  "findCredit n = bindE (intArg n) (\<lambda>k. getsE (\<lambda>w. creditByNumber w k))"

definition setCredit :: "env \<Rightarrow> jsnum \<Rightarrow> (credit \<Rightarrow> credit) \<Rightarrow> unit op" where
  "setCredit E n f = bindE (intArg n) (\<lambda>k.
     voidE (dbUpdate credits credits_update (\<lambda>c. cr_creditId c = k)
       (\<lambda>c. (f c)\<lparr>cr_updatedAt := clock E\<rparr>)))"

definition submittedFields ::
  "credit_submitted_event \<Rightarrow> int \<Rightarrow> int \<Rightarrow> int \<Rightarrow> int \<Rightarrow> int \<Rightarrow> int \<Rightarrow> credit \<Rightarrow> credit" where
  "submittedFields ev vs ve sdg perm buf addl c = c\<lparr>cr_projectId := es_projectId ev,
     cr_methodology := es_methodology ev, cr_vintageStart := vs, cr_vintageEnd := ve,
     cr_tonnes := es_tonnes ev, cr_geography := es_geography ev,
     cr_serialPrefix := es_serialPrefix ev, cr_sdgFlags := sdg, cr_permanenceRating := perm,
     cr_bufferContributionPct := buf, cr_additionalityType := addl, cr_ipfsHash := es_ipfsHash ev,
     cr_status := CPending\<rparr>"

definition blankCredit :: "string \<Rightarrow> int \<Rightarrow> string \<Rightarrow> int \<Rightarrow> credit" where
  "blankCredit i n owner now = \<lparr>cr_id = i, cr_creditId = n, cr_projectId = [], cr_methodology = [],
     cr_vintageStart = 0, cr_vintageEnd = 0, cr_tonnes = ofInt 0, cr_geography = [],
     cr_serialPrefix = [], cr_sdgFlags = 0, cr_permanenceRating = 0, cr_bufferContributionPct = 0,
     cr_additionalityType = 0, cr_ipfsHash = [], cr_status = CPending, cr_tokenId = None,
     cr_createdAt = now, cr_updatedAt = now, cr_issuerId = owner, cr_ownerId = owner\<rparr>"

definition upsertCredit ::
  "env \<Rightarrow> int \<Rightarrow> (credit \<Rightarrow> credit) \<Rightarrow> string \<Rightarrow> unit op" where
  "upsertCredit E n f issuerId =
     bindE (getsE (\<lambda>w. creditByNumber w n)) (\<lambda>c. (case c of
       Some _ \<Rightarrow> voidE (dbUpdate credits credits_update (\<lambda>c. cr_creditId c = n)
         (\<lambda>c. (f c)\<lparr>cr_updatedAt := clock E\<rparr>))
     | None \<Rightarrow> bindE (freshId E) (\<lambda>i. voidE (dbInsert credits_update creditCheck
         (f (blankCredit i n issuerId (clock E)))))))"

definition processCreditSubmitted :: "env \<Rightarrow> credit_submitted_event \<Rightarrow> unit op" where
  "processCreditSubmitted E ev =
     bindE (upsertUser E (es_issuer ev)) (\<lambda>issuer.
     bindE (intArg (es_creditId ev)) (\<lambda>n.
     bindE (dateArg E (es_vintageStart ev)) (\<lambda>vs. bindE (dateArg E (es_vintageEnd ev)) (\<lambda>ve.
     seqE (floatArg E (es_tonnes ev))
    (bindE (intArg (es_sdgFlags ev)) (\<lambda>sdg. bindE (intArg (es_permanenceRating ev)) (\<lambda>perm.
     bindE (intArg (es_bufferContributionPct ev)) (\<lambda>buf.
     bindE (intArg (es_additionalityType ev)) (\<lambda>addl.
       upsertCredit E n (submittedFields ev vs ve sdg perm buf addl) (u_id issuer))))))))))"

definition indexApproval :: "env \<Rightarrow> credit \<Rightarrow> user \<Rightarrow> bool \<Rightarrow> string option \<Rightarrow> unit op" where
  "indexApproval E credit verifier approved comments =
     bindE (freshId E) (\<lambda>i. voidE (dbInsert approvals_update approvalCheck
       \<lparr>ap_id = i, ap_creditId = cr_id credit, ap_verifierId = u_id verifier,
        ap_approved = approved, ap_comments = comments, ap_createdAt = clock E\<rparr>))"

definition processCreditApproved :: "env \<Rightarrow> credit_approved_event \<Rightarrow> unit op" where
  "processCreditApproved E ev =
     bindE (findCredit (ea_creditId ev)) (\<lambda>c. (case c of
       None \<Rightarrow> ret ()
     | Some credit \<Rightarrow> bindE (upsertUser E (ea_verifier ev)) (\<lambda>verifier.
         indexApproval E credit verifier (ea_approved ev) (ea_comments ev))))"

definition processCreditMinted :: "env \<Rightarrow> credit_minted_event \<Rightarrow> unit op" where
  "processCreditMinted E ev = setCredit E (em_creditId ev)
     (\<lambda>c. c\<lparr>cr_status := CActive, cr_tokenId := Some (em_tokenId ev)\<rparr>)"

definition processCreditRejected :: "env \<Rightarrow> credit_rejected_event \<Rightarrow> unit op" where
  "processCreditRejected E ev =
     bindE (findCredit (er_creditId ev)) (\<lambda>c. (case c of
       None \<Rightarrow> ret ()
     | Some credit \<Rightarrow> bindE (upsertUser E (er_verifier ev)) (\<lambda>verifier.
         seqE (indexApproval E credit verifier False (Some (er_reason ev)))
           (setCredit E (er_creditId ev) (\<lambda>c. c\<lparr>cr_status := CRejected\<rparr>)))))"

definition processCreditTransferred :: "env \<Rightarrow> credit_transferred_event \<Rightarrow> unit op" where
  "processCreditTransferred E ev =
     bindE (upsertUser E (et_to ev)) (\<lambda>newOwner.
       setCredit E (et_creditId ev) (\<lambda>c. c\<lparr>cr_ownerId := u_id newOwner\<rparr>))"

definition processCreditRetired :: "env \<Rightarrow> credit_retired_event \<Rightarrow> unit op" where
  "processCreditRetired E ev =
     bindE (findCredit (en_creditId ev)) (\<lambda>c. (case c of
       None \<Rightarrow> ret ()
     | Some credit \<Rightarrow> bindE (upsertUser E (en_retiredBy ev)) (\<lambda>retirer.
         seqE (floatArg E (en_tonnesRetired ev))
        (bindE (intArg (en_ledgerSequence ev)) (\<lambda>ledger.
         bindE (timeArg (en_timestamp ev)) (\<lambda>t.
         bindE (freshId E) (\<lambda>i.
         seqE (dbInsert retirements_update retirementCheck
           \<lparr>rt_id = i, rt_creditId = cr_id credit, rt_retiredById = u_id retirer,
            rt_beneficiary = en_beneficiary ev, rt_reason = en_reason ev,
            rt_accountingPeriod = en_accountingPeriod ev,
            rt_tonnesRetired = en_tonnesRetired ev, rt_txHash = en_txHash ev,
            rt_ledgerSequence = ledger, rt_timestamp = t, rt_certificateHash = None\<rparr>)
           (setCredit E (en_creditId ev) (\<lambda>c. c\<lparr>cr_status := CRetired\<rparr>)))))))))"

text \<open>\<open>event.expiresAt ? new Date(event.expiresAt) : null\<close>\<close>

definition expiryArg :: "jsnum option \<Rightarrow> int option op" where
  "expiryArg x = (case x of
     None \<Rightarrow> ret None
   | Some t \<Rightarrow> (if num_truthy t then bindE (timeArg t) (\<lambda>k. ret (Some k)) else ret None))"

definition processOfferCreated :: "env \<Rightarrow> offer_created_event \<Rightarrow> unit op" where
  "processOfferCreated E ev =
     bindE (upsertUser E (oc_seller ev)) (\<lambda>seller.
     bindE (findCredit (oc_creditId ev)) (\<lambda>c. (case c of
       None \<Rightarrow> ret ()
     | Some credit \<Rightarrow>
         bindE (intArg (oc_offerId ev)) (\<lambda>n. seqE (floatArg E (oc_pricePerTonne ev))
        (seqE (floatArg E (oc_amount ev)) (bindE (expiryArg (oc_expiresAt ev)) (\<lambda>expiry.
         bindE (getsE (\<lambda>w. List.find (\<lambda>r. of_offerId r = n) (offers w))) (\<lambda>old. (case old of
           Some _ \<Rightarrow> voidE (dbUpdate offers offers_update (\<lambda>r. of_offerId r = n)
             (\<lambda>r. r\<lparr>of_pricePerTonne := oc_pricePerTonne ev, of_amount := oc_amount ev,
                of_currency := oc_currency ev, of_expiresAt := expiry, of_status := OActive\<rparr>))
         | None \<Rightarrow> bindE (freshId E) (\<lambda>i. voidE (dbInsert offers_update offerCheck
             \<lparr>of_id = i, of_offerId = n, of_creditId = cr_id credit, of_sellerId = u_id seller,
              of_pricePerTonne = oc_pricePerTonne ev, of_amount = oc_amount ev,
              of_amountFilled = ofInt 0, of_currency = oc_currency ev, of_status = OActive,
              of_expiresAt = expiry, of_createdAt = clock E\<rparr>)))))))))))"

text \<open>The statements of \<open>processOfferFilled\<close> once the offer is found.\<close>

definition fillOffer :: "env \<Rightarrow> offer_filled_event \<Rightarrow> int \<Rightarrow> offer \<Rightarrow> unit op" where
  "fillOffer E ev n offer = bindE (upsertUser E (fo_buyer ev)) (\<lambda>buyer.
         let newFilled = num_add (of_amountFilled offer) (fo_amount ev);
             isFullyFilled = num_le (of_amount offer) newFilled in
         seqE (floatArg E newFilled)
        (seqE (dbUpdate offers offers_update (\<lambda>r. of_offerId r = n)
           (\<lambda>r. r\<lparr>of_amountFilled := newFilled,
              of_status := (if isFullyFilled then OFilled else of_status r)\<rparr>))
        (seqE (floatArg E (fo_amount ev)) (seqE (floatArg E (fo_totalPrice ev))
        (bindE (freshId E) (\<lambda>i.
         seqE (dbInsert trades_update tradeCheck
           \<lparr>tr_id = i, tr_offerId = of_id offer, tr_buyerId = u_id buyer,
            tr_amount = fo_amount ev, tr_totalPrice = fo_totalPrice ev,
            tr_createdAt = clock E, tr_creditId = of_creditId offer\<rparr>)
           (voidE (dbUpdate credits credits_update (\<lambda>c. cr_id c = of_creditId offer)
             (\<lambda>c. c\<lparr>cr_ownerId := u_id buyer, cr_updatedAt := clock E\<rparr>)))))))))"

definition processOfferFilled :: "env \<Rightarrow> offer_filled_event \<Rightarrow> unit op" where
  "processOfferFilled E ev =
     bindE (intArg (fo_offerId ev)) (\<lambda>n.
     bindE (getsE (\<lambda>w. List.find (\<lambda>r. of_offerId r = n) (offers w))) (\<lambda>found. (case found of
       None \<Rightarrow> ret ()
     | Some offer \<Rightarrow> fillOffer E ev n offer)))"

definition processOfferCancelled :: "offer_cancelled_event \<Rightarrow> unit op" where
  "processOfferCancelled ev = bindE (intArg (ox_offerId ev)) (\<lambda>n.
     voidE (dbUpdate offers offers_update (\<lambda>r. of_offerId r = n) (\<lambda>r. r\<lparr>of_status := OCancelled\<rparr>)))"

text \<open>\<open>event.txHash || record.txHash\<close>\<close>

definition orText :: "string \<Rightarrow> string \<Rightarrow> string" where
  "orText s d = (if s = [] then d else s)"

definition settleRecord :: "bridge_record \<Rightarrow> bridge_status \<Rightarrow> string \<Rightarrow> unit op" where
  "settleRecord rec st hash =
     voidE (dbUpdate bridgeRecords bridgeRecords_update (\<lambda>r. br_id r = br_id rec)
       (\<lambda>r. r\<lparr>br_status := st, br_txHash := orText hash (br_txHash rec)\<rparr>))"

definition processCreditBridged :: "credit_bridged_event \<Rightarrow> unit op" where
  "processCreditBridged ev =
     bindE (getsE (\<lambda>w. List.find (\<lambda>r. brKey r = (eb_sourceRegistry ev, eb_sourceSerial ev))
       (bridgeRecords w))) (\<lambda>r. (case r of
       None \<Rightarrow> ret ()
     | Some rec \<Rightarrow> settleRecord rec Inbound (eb_txHash ev)))"

definition processCreditBridgedOut :: "env \<Rightarrow> credit_bridged_out_event \<Rightarrow> unit op" where
  "processCreditBridgedOut E ev =
     seqE (setCredit E (eo_creditId ev) (\<lambda>c. c\<lparr>cr_status := CRetired\<rparr>))
    (bindE (intArg (eo_creditId ev)) (\<lambda>n.
     bindE (getsE (\<lambda>w. List.find (\<lambda>r. br_creditId r = n) (bridgeRecords w))) (\<lambda>r. (case r of
       None \<Rightarrow> ret ()
     | Some rec \<Rightarrow> settleRecord rec Outbound (eo_txHash ev)))))"

text \<open>A rotation of a registry root is only logged.\<close>

definition processRegistryRootUpdated :: "registry_root_event \<Rightarrow> unit op" where
  "processRegistryRootUpdated ev = ret ()"

section \<open>Lemmas\<close>

lemma voidE_InrD: "voidE m w = (Inr u, w') \<Longrightarrow> \<exists>x. m w = (Inr x, w')"
  unfolding voidE_def by (drule bindE_InrD) auto

lemma upsertUser_Some:
  "List.find (\<lambda>u. u_stellarPub u = pub) (users w) = Some u \<Longrightarrow> upsertUser E pub w = (Inr u, w)"
  by (simp add: upsertUser_def act_simps)

lemma upsertUser_InrD:
  "upsertUser E pub w = (Inr u, w') \<Longrightarrow>
   List.find (\<lambda>u. u_stellarPub u = pub) (users w') = Some u \<and> u_stellarPub u = pub \<and>
   credits w' = credits w \<and> offers w' = offers w \<and> trades w' = trades w"
  unfolding upsertUser_def
  by (auto dest!: run_InrD userT.insert_InrD
      simp: freshId_apply find_append dest: find_SomeD split: option.splits)

lemma upsertUser_retirements:
  "upsertUser E pub w = (Inr u, w') \<Longrightarrow> retirements w' = retirements w"
  unfolding upsertUser_def
  by (auto dest!: run_InrD userT.insert_InrD simp: freshId_apply split: option.splits)

lemma findCredit_InrD:
  "findCredit x w = (Inr c, w') \<Longrightarrow> w' = w \<and> (\<exists>n. x = ofInt n \<and> c = creditByNumber w n)"
  unfolding findCredit_def by (auto dest!: run_InrD intArg_InrD)

lemma dateArg_Inr: "dateArg E s w = (Inr d, w') \<Longrightarrow> dateArg E s v = (Inr d, v)"
  by (auto simp: dateArg_def orThrow_apply split: option.splits)

lemma floatArg_Inr: "floatArg E x w = (Inr u, w') \<Longrightarrow> floatArg E x v = (Inr u, v)"
  by (auto simp: floatArg_apply split: sum.splits)

lemma intArg_Inr: "intArg x w = (Inr n, w') \<Longrightarrow> intArg x v = (Inr n, v)"
  by (auto simp: intArg_def split: jsnum.splits if_splits)

lemma updWhere_idem:
  assumes "\<And>x. P x \<Longrightarrow> P (f x)" and "\<And>x. P x \<Longrightarrow> f (f x) = f x"
  shows "updWhere P f (updWhere P f xs) = updWhere P f xs"
  using assms by (simp add: updWhere_def)

lemma upsertCredit_again:
  assumes run: "upsertCredit E n f uid w = (Inr u, w')"
    and key: "\<And>c. cr_creditId (f c) = cr_creditId c"
    and upd: "\<And>c. cr_updatedAt (f c) = cr_updatedAt c"
    and idem: "\<And>c t. f ((f c)\<lparr>cr_updatedAt := t\<rparr>) = (f c)\<lparr>cr_updatedAt := t\<rparr>"
  shows "upsertCredit E n f uid w' = (Inr u, w')"
proof (cases "creditByNumber w n")
  case (Some c)
  let ?g = "\<lambda>c. (f c)\<lparr>cr_updatedAt := clock E\<rparr>"
  from Some run have w': "w' = credits_update (updWhere (\<lambda>c. cr_creditId c = n) ?g) w"
    by (auto simp: upsertCredit_def creditByNumber_def act_simps dest!: voidE_InrD
        creditT.update_InrD)
  have "creditByNumber w' n = Some (?g c)"
    using Some by (auto simp: w' creditByNumber_def find_updWhere_same key dest: find_SomeD)
  moreover have "updWhere (\<lambda>c. cr_creditId c = n) ?g (credits w') = credits w'"
    using updWhere_idem [of "\<lambda>c. cr_creditId c = n" ?g] by (simp add: w' key idem)
  ultimately show ?thesis
    by (simp add: upsertCredit_def creditByNumber_def act_simps voidE_def dbUpdate_def)
next
  case None
  let ?row = "f (blankCredit (cuid E (idseq w)) n uid (clock E))"
  let ?g = "\<lambda>c. (f c)\<lparr>cr_updatedAt := clock E\<rparr>"
  from None run have cs: "credits w' = credits w @ [?row]"
    by (auto simp: upsertCredit_def creditByNumber_def act_simps freshId_apply
        dest!: voidE_InrD creditT.insert_InrD)
  have n: "cr_creditId ?row = n" by (simp add: key blankCredit_def)
  have others: "c \<in> set (credits w) \<Longrightarrow> cr_creditId c \<noteq> n" for c
    using None find_None_all by (fastforce simp: creditByNumber_def)
  have find: "creditByNumber w' n = Some ?row"
    using None by (simp add: creditByNumber_def cs find_append n)
  have same: "?g ?row = ?row"
  proof -
    have touch: "r\<lparr>cr_updatedAt := cr_updatedAt r\<rparr> = r" for r :: credit by simp
    have "f ?row = ?row"
      using idem [where c = "blankCredit (cuid E (idseq w)) n uid (clock E)" and t = "cr_updatedAt ?row"]
      by (simp only: touch)
    moreover have "cr_updatedAt ?row = clock E" by (simp add: upd blankCredit_def)
    ultimately show ?thesis using touch [of ?row] by simp
  qed
  have "updWhere (\<lambda>c. cr_creditId c = n) ?g (credits w') = credits w'"
    using others same n by (simp add: cs updWhere_id)
  with find show ?thesis
    by (simp add: upsertCredit_def creditByNumber_def act_simps voidE_def dbUpdate_def)
qed


lemma upsertCredit_users: "upsertCredit E n f uid w = (Inr u, w') \<Longrightarrow> users w' = users w"
  unfolding upsertCredit_def
  by (auto dest!: run_InrD voidE_InrD creditT.update_InrD creditT.insert_InrD
      simp: freshId_apply split: option.splits)

lemma setCredit_InrD:
  "setCredit E x f w = (Inr u, w') \<Longrightarrow> \<exists>k c. x = ofInt k \<and> creditByNumber w k = Some c \<and>
   w' = credits_update (updWhere (\<lambda>c. cr_creditId c = k) (\<lambda>c. (f c)\<lparr>cr_updatedAt := clock E\<rparr>)) w"
  unfolding setCredit_def creditByNumber_def
  by (fastforce dest!: run_InrD intArg_InrD voidE_InrD creditT.update_InrD)

section \<open>Properties\<close>

text \<open>
  Processing a credit submission again after it succeeded
  changes nothing: the user and the credit are found and written with the values they have.
\<close>

theorem processCreditSubmitted_idempotent:
  assumes "processCreditSubmitted E ev w = (Inr (), w')"
  shows "processCreditSubmitted E ev w' = (Inr (), w')"
proof -
  from assms obtain u w1 n a vs b ve c d sdg e perm f buf g addl h where
    user: "upsertUser E (es_issuer ev) w = (Inr u, w1)"
    and args: "intArg (es_creditId ev) w1 = (Inr n, a)" "dateArg E (es_vintageStart ev) a = (Inr vs, b)"
      "dateArg E (es_vintageEnd ev) b = (Inr ve, c)" "floatArg E (es_tonnes ev) c = (Inr (), d)"
      "intArg (es_sdgFlags ev) d = (Inr sdg, e)" "intArg (es_permanenceRating ev) e = (Inr perm, f)"
      "intArg (es_bufferContributionPct ev) f = (Inr buf, g)"
      "intArg (es_additionalityType ev) g = (Inr addl, h)"
    and up: "upsertCredit E n (submittedFields ev vs ve sdg perm buf addl) (u_id u) h = (Inr (), w')"
    unfolding processCreditSubmitted_def by (auto dest!: run_InrD)
  have h: "h = w1" using args by (auto dest!: intArg_InrD dateArg_InrD floatArg_InrD)
  have "upsertUser E (es_issuer ev) w' = (Inr u, w')"
    using upsertUser_InrD [OF user] upsertCredit_users [OF up] by (simp add: h upsertUser_Some)
  moreover have
    "upsertCredit E n (submittedFields ev vs ve sdg perm buf addl) (u_id u) w' = (Inr (), w')"
    by (rule upsertCredit_again [OF up]) (simp_all add: submittedFields_def)
  ultimately show ?thesis
    unfolding processCreditSubmitted_def
    by (simp add: bindE_apply seqE_apply intArg_Inr [OF args(1)] dateArg_Inr [OF args(2)]
        dateArg_Inr [OF args(3)] floatArg_Inr [OF args(4)] intArg_Inr [OF args(5)]
        intArg_Inr [OF args(6)] intArg_Inr [OF args(7)] intArg_Inr [OF args(8)])
qed


definition demoSubmitted :: credit_submitted_event where
  "demoSubmitted = \<lparr>es_creditId = ofInt 2, es_issuer = ''GISSUER'', es_projectId = ''P1'',
     es_methodology = ''VCS:VM0007'', es_vintageStart = ''2023'', es_vintageEnd = ''2024'',
     es_tonnes = ofInt 100, es_geography = ''BR'', es_serialPrefix = ''P1'',
     es_sdgFlags = ofInt 1, es_permanenceRating = ofInt 50, es_bufferContributionPct = ofInt 10,
     es_additionalityType = ofInt 0, es_ipfsHash = ''cid'', es_timestamp = ofInt 1,
     es_txHash = ''h''\<rparr>"

theorem processCreditSubmitted_idempotent_witness:
  "\<exists>w'. processCreditSubmitted demoEnv demoSubmitted demoWorld = (Inr (), w') \<and>
     processCreditSubmitted demoEnv demoSubmitted w' = (Inr (), w')"
proof -
  have "ranOk (processCreditSubmitted demoEnv demoSubmitted demoWorld)" by code_simp
  then obtain v w' where "processCreditSubmitted demoEnv demoSubmitted demoWorld = (Inr v, w')"
    by (blast dest: ranOk_D)
  then have run: "processCreditSubmitted demoEnv demoSubmitted demoWorld = (Inr (), w')" by simp
  with processCreditSubmitted_idempotent [OF run] show ?thesis by blast
qed

text \<open>A submission of a credit that is already active makes it pending again.\<close>

lemma resubmission_resets:
  "map cr_status (credits demoWorld) = [CPending, CActive] \<and>
   map cr_status (credits (snd (processCreditSubmitted demoEnv demoSubmitted demoWorld))) =
     [CPending, CPending]"
  by code_simp

text \<open>
  Processing a fill of a known offer that succeeds adds the amount to the
  filled amount, closes the offer exactly when that reaches its amount, appends one trade of the
  offer's credit to the buyer, and makes the buyer's user the owner of the credit, touching no
  other offer or credit.
\<close>

theorem offerFilled_effect:
  assumes run: "processOfferFilled E ev w = (Inr (), w')"
    and num: "fo_offerId ev = ofInt n"
    and known: "List.find (\<lambda>r. of_offerId r = n) (offers w) = Some r"
  shows "\<exists>(buyer :: user) t. u_stellarPub buyer = fo_buyer ev \<and> userById w' (u_id buyer) \<noteq> None \<and>
    offers w' = updWhere (\<lambda>r. of_offerId r = n)
      (\<lambda>x. x\<lparr>of_amountFilled := num_add (of_amountFilled r) (fo_amount ev),
         of_status := (if num_le (of_amount r) (num_add (of_amountFilled r) (fo_amount ev))
           then OFilled else of_status x)\<rparr>) (offers w) \<and>
    trades w' = trades w @ [t] \<and> tr_offerId t = of_id r \<and> tr_buyerId t = u_id buyer \<and>
    tr_creditId t = of_creditId r \<and> tr_amount t = fo_amount ev \<and>
    tr_totalPrice t = fo_totalPrice ev \<and>
    credits w' = updWhere (\<lambda>c. cr_id c = of_creditId r)
      (\<lambda>c. c\<lparr>cr_ownerId := u_id buyer, cr_updatedAt := clock E\<rparr>) (credits w)"
proof -
  let ?filled = "num_add (of_amountFilled r) (fo_amount ev)"
  have fill: "fillOffer E ev n r w = (Inr (), w')"
  proof -
    obtain k a where "intArg (ofInt n) w = (Inr k, a)"
      using run unfolding processOfferFilled_def num by (blast dest: bindE_InrD)
    moreover from this have "a = w" "k = n" by (auto dest: intArg_InrD)
    ultimately show ?thesis
      using run unfolding processOfferFilled_def num by (simp add: bindE_apply known)
  qed
  then obtain u w1 w2 w3 i where user: "upsertUser E (fo_buyer ev) w = (Inr u, w1)"
    and off: "\<exists>x. dbUpdate offers offers_update (\<lambda>r. of_offerId r = n)
           (\<lambda>x. x\<lparr>of_amountFilled := ?filled,
              of_status := (if num_le (of_amount r) ?filled then OFilled else of_status x)\<rparr>) w1 =
           (Inr x, w2)"
    and ins: "\<exists>x. dbInsert trades_update tradeCheck
           \<lparr>tr_id = i, tr_offerId = of_id r, tr_buyerId = u_id u,
            tr_amount = fo_amount ev, tr_totalPrice = fo_totalPrice ev,
            tr_createdAt = clock E, tr_creditId = of_creditId r\<rparr> (w2\<lparr>idseq := Suc (idseq w2)\<rparr>) = (Inr x, w3)"
    and cr: "\<exists>x. dbUpdate credits credits_update (\<lambda>c. cr_id c = of_creditId r)
             (\<lambda>c. c\<lparr>cr_ownerId := u_id u, cr_updatedAt := clock E\<rparr>) w3 = (Inr x, w')"
    unfolding fillOffer_def Let_def
    by (auto dest!: run_InrD voidE_InrD floatArg_InrD simp: freshId_apply) blast
  from ins obtain t where w3: "w3 = trades_update (\<lambda>rs. rs @ [t]) (w2\<lparr>idseq := Suc (idseq w2)\<rparr>)"
    and t: "tr_offerId t = of_id r" "tr_buyerId t = u_id u" "tr_creditId t = of_creditId r"
      "tr_amount t = fo_amount ev" "tr_totalPrice t = fo_totalPrice ev"
    by (auto dest!: tradeT.insert_InrD)
  from off have w2: "w2 = offers_update (updWhere (\<lambda>r. of_offerId r = n)
        (\<lambda>x. x\<lparr>of_amountFilled := ?filled,
           of_status := (if num_le (of_amount r) ?filled then OFilled else of_status x)\<rparr>)) w1"
    by (auto dest!: offerT.update_InrD)
  from cr have w': "w' = credits_update (updWhere (\<lambda>c. cr_id c = of_creditId r)
        (\<lambda>c. c\<lparr>cr_ownerId := u_id u, cr_updatedAt := clock E\<rparr>)) w3"
    by (auto dest!: creditT.update_InrD)
  have "userById w1 (u_id u) \<noteq> None"
    using upsertUser_InrD [OF user] by (auto simp: userById_def find_None_iff dest: find_SomeD)
  then have "userById w' (u_id u) \<noteq> None" by (simp add: w' w3 w2 userById_def)
  with upsertUser_InrD [OF user] t show ?thesis
    by (intro exI [of _ u] exI [of _ t]) (simp add: w' w3 w2)
qed


definition demoFilled :: offer_filled_event where
  "demoFilled = \<lparr>fo_offerId = ofInt 1, fo_buyer = ''GV1'', fo_amount = ofInt 40,
     fo_totalPrice = ofInt 200, fo_timestamp = ofInt 1, fo_txHash = ''h''\<rparr>"

theorem offerFilled_effect_witness:
  "\<exists>w' t. processOfferFilled demoEnv demoFilled demoWorld = (Inr (), w') \<and>
     trades w' = [t] \<and> tr_amount t = ofInt 40 \<and> tr_creditId t = ''c2''"
proof -
  have "ranOk (processOfferFilled demoEnv demoFilled demoWorld)" by code_simp
  then obtain v w' where "processOfferFilled demoEnv demoFilled demoWorld = (Inr v, w')"
    by (blast dest: ranOk_D)
  then have run: "processOfferFilled demoEnv demoFilled demoWorld = (Inr (), w')" by simp
  have num: "fo_offerId demoFilled = ofInt 1" by (simp add: demoFilled_def)
  have known: "List.find (\<lambda>r. of_offerId r = 1) (offers demoWorld) = Some (hd (offers demoWorld))"
    by (simp add: demoWorld_def)
  from offerFilled_effect [OF run num known] obtain t where
    "trades w' = trades demoWorld @ [t]" "tr_amount t = fo_amount demoFilled"
    "tr_creditId t = of_creditId (hd (offers demoWorld))" by blast
  with run show ?thesis by (auto simp: demoWorld_def emptyWorld_def demoFilled_def)
qed

text \<open>A fill processed a second time is counted again: the processor is not idempotent.\<close>

lemma fill_counted_twice:
  "length (trades (snd (processOfferFilled demoEnv demoFilled demoWorld))) = 1 \<and>
   length (trades (snd (processOfferFilled demoEnv demoFilled
     (snd (processOfferFilled demoEnv demoFilled demoWorld))))) = 2"
  by code_simp

text \<open>
  Processing a retirement of a known credit that succeeds stores one
  retirement with the amounts of the event and marks exactly that credit as retired.
\<close>

theorem creditRetired_effect:
  assumes run: "processCreditRetired E ev w = (Inr (), w')"
    and num: "en_creditId ev = ofInt n" and known: "creditByNumber w n = Some c"
  shows "\<exists>r. retirements w' = retirements w @ [r] \<and> rt_creditId r = cr_id c \<and>
    rt_tonnesRetired r = en_tonnesRetired ev \<and> rt_txHash r = en_txHash ev \<and>
    Some (rt_timestamp r) = timeClip (en_timestamp ev) \<and>
    credits w' = updWhere (\<lambda>c. cr_creditId c = n)
      (\<lambda>c. c\<lparr>cr_status := CRetired, cr_updatedAt := clock E\<rparr>) (credits w)"
proof -
  have "findCredit (ofInt n) w = (Inr (Some c), w)"
  proof -
    obtain x a where "findCredit (ofInt n) w = (Inr x, a)"
      using run unfolding processCreditRetired_def num by (blast dest: bindE_InrD)
    with known show ?thesis by (auto dest: findCredit_InrD)
  qed
  with run obtain u w1 t l i w2 where user: "upsertUser E (en_retiredBy ev) w = (Inr u, w1)"
    and t: "timeArg (en_timestamp ev) w1 = (Inr t, w1)"
    and ins: "\<exists>x. dbInsert retirements_update retirementCheck
           \<lparr>rt_id = i, rt_creditId = cr_id c, rt_retiredById = u_id u,
            rt_beneficiary = en_beneficiary ev, rt_reason = en_reason ev,
            rt_accountingPeriod = en_accountingPeriod ev,
            rt_tonnesRetired = en_tonnesRetired ev, rt_txHash = en_txHash ev,
            rt_ledgerSequence = l, rt_timestamp = t, rt_certificateHash = None\<rparr>
           (w1\<lparr>idseq := Suc (idseq w1)\<rparr>) = (Inr x, w2)"
    and set: "setCredit E (ofInt n) (\<lambda>c. c\<lparr>cr_status := CRetired\<rparr>) w2 = (Inr (), w')"
    unfolding processCreditRetired_def num
    apply (simp add: bindE_Inr)
    apply (drule bindE_InrD, elim exE conjE)
    apply (drule seqE_InrD, elim exE conjE, frule floatArg_InrD)
    apply (drule bindE_InrD, elim exE conjE, frule intArg_InrD)
    apply (drule bindE_InrD, elim exE conjE, frule timeArg_InrD)
    apply (drule bindE_InrD, elim exE conjE, simp only: freshId_apply prod.inject sum.inject)
    apply (drule seqE_InrD, elim exE conjE)
    apply clarsimp
    apply blast
    done
  from ins obtain r where r: "w2 = retirements_update (\<lambda>rs. rs @ [r]) (w1\<lparr>idseq := Suc (idseq w1)\<rparr>)"
      "rt_creditId r = cr_id c" "rt_tonnesRetired r = en_tonnesRetired ev"
      "rt_txHash r = en_txHash ev" "rt_timestamp r = t"
    by (auto dest!: retirementT.insert_InrD)
  from setCredit_InrD [OF set] have
    w': "w' = credits_update (updWhere (\<lambda>c. cr_creditId c = n)
      (\<lambda>c. c\<lparr>cr_status := CRetired, cr_updatedAt := clock E\<rparr>)) w2" by auto
  have "retirements w1 = retirements w" by (rule upsertUser_retirements [OF user])
  then show ?thesis
    using upsertUser_InrD [OF user] timeArg_InrD [OF t] r by (auto simp: w')
qed

definition demoRetiredEvent :: credit_retired_event where
  "demoRetiredEvent = \<lparr>en_creditId = ofInt 2, en_retiredBy = ''GISSUER'', en_beneficiary = ''B'',
     en_reason = ''r'', en_accountingPeriod = ''2024'', en_tonnesRetired = ofInt 100,
     en_txHash = ''h'', en_ledgerSequence = ofInt 9, en_timestamp = ofInt 77\<rparr>"

theorem creditRetired_effect_witness:
  "\<exists>w' r. processCreditRetired demoEnv demoRetiredEvent demoWorld = (Inr (), w') \<and>
     retirements w' = [r] \<and> rt_timestamp r = 77"
proof -
  have "ranOk (processCreditRetired demoEnv demoRetiredEvent demoWorld)" by code_simp
  then obtain v w' where "processCreditRetired demoEnv demoRetiredEvent demoWorld = (Inr v, w')"
    by (blast dest: ranOk_D)
  then have run: "processCreditRetired demoEnv demoRetiredEvent demoWorld = (Inr (), w')" by simp
  have num: "en_creditId demoRetiredEvent = ofInt 2" by (simp add: demoRetiredEvent_def)
  have known: "creditByNumber demoWorld 2 = Some (demoCredit ''c2'' 2 CActive)"
    by (simp add: demoWorld_def creditByNumber_def demoCredit_def)
  have t: "timeClip (en_timestamp demoRetiredEvent) = Some 77"
    by (simp add: demoRetiredEvent_def timeClip_def ofInt_def)
  from creditRetired_effect [OF run num known] obtain r where
    "retirements w' = retirements demoWorld @ [r]" "rt_timestamp r = 77" unfolding t by auto
  with run show ?thesis by (auto simp: demoWorld_def emptyWorld_def)
qed

end
