(* ===== verification/Integrity.thy ===== *)
theory Integrity
  imports Credits Marketplace Retirement Verifiers Bridge Certificates Admin Processors
begin

text \<open>
  The well-formedness of the stored data: every primary key and unique column of
  \<open>api/prisma/schema.prisma\<close> is duplicate-free and every relation points to an existing row.  The
  statements of the client check it row by row; this theory shows that every request of the API and
  every processed contract event, whether it returns or throws half-way, keeps it.  \<open>intact U\<close> adds
  that the users of \<open>U\<close> exist, which is what a request may rely on after \<open>JwtStrategy.validate\<close> and a
  processor after its \<open>upsert\<close> of a user.
\<close>

section \<open>Well-formed data\<close>

definition keysOk :: "world \<Rightarrow> bool" where
  "keysOk w \<longleftrightarrow>
     distinct (map u_id (users w)) \<and> distinct (map u_stellarPub (users w)) \<and>
     distinct (map cr_id (credits w)) \<and> distinct (map cr_creditId (credits w)) \<and>
     distinct (map ap_id (approvals w)) \<and> distinct (map ve_id (verifiers w)) \<and>
     distinct (map of_id (offers w)) \<and> distinct (map of_offerId (offers w)) \<and>
     distinct (map tr_id (trades w)) \<and> distinct (map rt_id (retirements w)) \<and>
     distinct (map ce_id (certificates w)) \<and> distinct (map wh_id (webhooks w)) \<and>
     distinct (map de_id (deliveries w)) \<and> distinct (map ch_id (challenges w)) \<and>
     distinct (map ch_transaction (challenges w)) \<and> distinct (map br_id (bridgeRecords w)) \<and>
     distinct (map brKey (bridgeRecords w))"

definition refsOk :: "world \<Rightarrow> bool" where
  "refsOk w \<longleftrightarrow>
     (\<forall>c \<in> set (credits w). userExists w (cr_issuerId c) \<and> userExists w (cr_ownerId c)) \<and>
     (\<forall>a \<in> set (approvals w). creditExists w (ap_creditId a) \<and> userExists w (ap_verifierId a)) \<and>
     (\<forall>v \<in> set (verifiers w). userExists w (ve_userId v)) \<and>
     (\<forall>r \<in> set (offers w). creditExists w (of_creditId r) \<and> userExists w (of_sellerId r)) \<and>
     (\<forall>t \<in> set (trades w). tr_offerId t \<in> set (map of_id (offers w)) \<and>
        userExists w (tr_buyerId t) \<and> creditExists w (tr_creditId t)) \<and>
     (\<forall>r \<in> set (retirements w). creditExists w (rt_creditId r)) \<and>
     (\<forall>c \<in> set (certificates w). userExists w (ce_userId c)) \<and>
     (\<forall>h \<in> set (webhooks w). userExists w (wh_userId h)) \<and>
     (\<forall>d \<in> set (deliveries w). de_webhookId d \<in> set (map wh_id (webhooks w))) \<and>
     (\<forall>r \<in> set (bridgeRecords w). userExists w (br_bridgerId r))"

definition schemaOk :: "world \<Rightarrow> bool" where
  "schemaOk w \<longleftrightarrow> keysOk w \<and> refsOk w"

definition intact :: "string set \<Rightarrow> world \<Rightarrow> bool" where
  "intact U w \<longleftrightarrow> schemaOk w \<and> (\<forall>u \<in> U. userExists w u)"

lemma schemaOk_empty: "schemaOk emptyWorld"
  by (simp add: schemaOk_def keysOk_def refsOk_def emptyWorld_def)

lemma schemaOk_demo: "schemaOk demoWorld"
  unfolding schemaOk_def by (rule conjI; code_simp)

lemma intact_schemaOk: "intact {} w \<longleftrightarrow> schemaOk w"
  by (simp add: intact_def)

lemmas intact_defs = intact_def schemaOk_def keysOk_def refsOk_def userExists_def creditExists_def

section \<open>Statements\<close>

lemma keeps_preserves: "keeps I m \<Longrightarrow> preserves I m"
  by (simp add: keeps_def preserves_def relates_def)

lemma intact_freshId [act_intros]: "preserves (intact U) (freshId E)"
  by (rule keeps_preserves, rule keeps_freshId) (simp add: intact_defs)

lemma intact_user [act_intros]: "preserves (intact U) (dbInsert users_update userCheck r)"
  by (rule userT.preserves_insert)
     (auto simp: intact_defs userCheck_def split: if_splits)

lemma intact_credit [act_intros]: "preserves (intact U) (dbInsert credits_update creditCheck r)"
  by (rule creditT.preserves_insert)
     (auto simp: intact_defs creditCheck_def split: if_splits)

lemma intact_approval [act_intros]:
  "preserves (intact U) (dbInsert approvals_update approvalCheck r)"
  by (rule approvalT.preserves_insert)
     (auto simp: intact_defs approvalCheck_def split: if_splits)

lemma intact_verifier [act_intros]:
  "preserves (intact U) (dbInsert verifiers_update verifierCheck r)"
  by (rule verifierT.preserves_insert)
     (auto simp: intact_defs verifierCheck_def split: if_splits)

lemma intact_offer [act_intros]: "preserves (intact U) (dbInsert offers_update offerCheck r)"
  by (rule offerT.preserves_insert)
     (auto simp: intact_defs offerCheck_def split: if_splits)

lemma intact_trade [act_intros]: "preserves (intact U) (dbInsert trades_update tradeCheck r)"
  by (rule tradeT.preserves_insert)
     (auto simp: intact_defs tradeCheck_def split: if_splits)

lemma intact_retirement [act_intros]:
  "preserves (intact U) (dbInsert retirements_update retirementCheck r)"
  by (rule retirementT.preserves_insert)
     (auto simp: intact_defs retirementCheck_def split: if_splits)

lemma intact_certificate [act_intros]:
  "preserves (intact U) (dbInsert certificates_update certificateCheck r)"
  by (rule certificateT.preserves_insert)
     (auto simp: intact_defs certificateCheck_def split: if_splits)

lemma intact_webhook [act_intros]:
  "preserves (intact U) (dbInsert webhooks_update webhookCheck r)"
  by (rule webhookT.preserves_insert)
     (auto simp: intact_defs webhookCheck_def split: if_splits)

lemma intact_delivery [act_intros]:
  "preserves (intact U) (dbInsert deliveries_update deliveryCheck r)"
  by (rule deliveryT.preserves_insert)
     (auto simp: intact_defs deliveryCheck_def split: if_splits)

lemma intact_challenge [act_intros]:
  "preserves (intact U) (dbInsert challenges_update challengeCheck r)"
  by (rule challengeT.preserves_insert)
     (auto simp: intact_defs challengeCheck_def split: if_splits)

lemma intact_bridge [act_intros]:
  "preserves (intact U) (dbInsert bridgeRecords_update bridgeCheck r)"
  by (rule bridgeT.preserves_insert)
     (auto simp: intact_defs bridgeCheck_def split: if_splits)

text \<open>An update that leaves the keys and the references of a row alone.\<close>

lemma ball_updWhere:
  "(\<And>x. P x \<Longrightarrow> Q (f x) = Q x) \<Longrightarrow> (\<forall>x \<in> set (updWhere P f xs). Q x) = (\<forall>x \<in> set xs. Q x)"
  by (induction xs) auto

lemma intact_update_credit:
  assumes "\<And>c. cr_id (f c) = cr_id c \<and> cr_creditId (f c) = cr_creditId c \<and>
    (cr_issuerId (f c) = cr_issuerId c \<or> cr_issuerId (f c) \<in> U) \<and>
    (cr_ownerId (f c) = cr_ownerId c \<or> cr_ownerId (f c) \<in> U)"
  shows "preserves (intact U) (dbUpdate credits credits_update P f)"
proof (rule creditT.preserves_update)
  fix w assume I: "intact U w"
  have "\<forall>c \<in> set (updWhere P f (credits w)). userExists w (cr_issuerId c) \<and> userExists w (cr_ownerId c)"
    using I assms by (auto simp: set_updWhere intact_def schemaOk_def refsOk_def) metis+
  then show "intact U (credits_update (updWhere P f) w)"
    using I assms
    by (simp add: intact_defs map_updWhere_same map_map [symmetric] del: map_map set_map)
qed

lemma intact_update_verifier:
  "(\<And>v. ve_id (f v) = ve_id v \<and> ve_userId (f v) = ve_userId v) \<Longrightarrow>
   preserves (intact U) (dbUpdate verifiers verifiers_update P f)"
  by (rule verifierT.preserves_update)
     (simp add: intact_defs map_updWhere_same ball_updWhere del: set_map)

lemma intact_update_offer:
  "(\<And>r. of_id (f r) = of_id r \<and> of_offerId (f r) = of_offerId r \<and>
      of_creditId (f r) = of_creditId r \<and> of_sellerId (f r) = of_sellerId r) \<Longrightarrow>
   preserves (intact U) (dbUpdate offers offers_update P f)"
  by (rule offerT.preserves_update)
     (simp add: intact_defs map_updWhere_same ball_updWhere del: set_map)

lemma intact_update_retirement:
  "(\<And>r. rt_id (f r) = rt_id r \<and> rt_creditId (f r) = rt_creditId r) \<Longrightarrow>
   preserves (intact U) (dbUpdate retirements retirements_update P f)"
  by (rule retirementT.preserves_update)
     (simp add: intact_defs map_updWhere_same ball_updWhere del: set_map)

lemma intact_update_challenge:
  "(\<And>c. ch_id (f c) = ch_id c \<and> ch_transaction (f c) = ch_transaction c) \<Longrightarrow>
   preserves (intact U) (dbUpdate challenges challenges_update P f)"
  by (rule challengeT.preserves_update)
     (simp add: intact_defs map_updWhere_same ball_updWhere del: set_map)

lemma intact_update_bridge:
  "(\<And>r. br_id (f r) = br_id r \<and> brKey (f r) = brKey r \<and> br_bridgerId (f r) = br_bridgerId r) \<Longrightarrow>
   preserves (intact U) (dbUpdate bridgeRecords bridgeRecords_update P f)"
  by (rule bridgeT.preserves_update)
     (simp add: intact_defs map_updWhere_same ball_updWhere del: set_map)

lemmas intact_updates = intact_update_credit intact_update_verifier intact_update_offer
  intact_update_retirement intact_update_challenge intact_update_bridge

text \<open>Deleting a webhook that no delivery refers to, and dropping challenges.\<close>

lemma distinct_map_filterI: "distinct (map k xs) \<Longrightarrow> distinct (map k (filter P xs))"
  by (simp add: distinct_map inj_on_def)

lemma intact_deleteWebhookRow [act_intros]: "preserves (intact U) (deleteWebhookRow i)"
proof (rule preserves_runI)
  fix w h w' assume r: "deleteWebhookRow i w = (Inr h, w')" and I: "intact U w"
  then have n: "i \<notin> set (map de_webhookId (deliveries w))"
    and w': "w' = w\<lparr>webhooks := filter (\<lambda>h. wh_id h \<noteq> i) (webhooks w)\<rparr>"
    by (cases w; auto simp: deleteWebhookRow_def act_simps dbDelete_def split: option.splits if_splits)+
  have d: "\<forall>d \<in> set (deliveries w). de_webhookId d \<in> wh_id ` {h \<in> set (webhooks w). wh_id h \<noteq> i}"
  proof
    fix d assume d: "d \<in> set (deliveries w)"
    with I have "de_webhookId d \<in> wh_id ` set (webhooks w)"
      by (simp add: intact_def schemaOk_def refsOk_def)
    moreover have "de_webhookId d \<noteq> i" using d n by auto
    ultimately show "de_webhookId d \<in> wh_id ` {h \<in> set (webhooks w). wh_id h \<noteq> i}" by auto
  qed
  have "keysOk w'"
    using I by (simp add: intact_def schemaOk_def w' keysOk_def distinct_map_filterI)
  moreover have "refsOk w'"
    using I d by (simp add: w' intact_def schemaOk_def refsOk_def userExists_def creditExists_def)
  ultimately show "intact U w'"
    using I by (simp add: intact_def schemaOk_def w' userExists_def)
qed (auto simp: deleteWebhookRow_def act_simps dbDelete_def split: option.splits if_splits)

lemma intact_dropChallenges [act_intros]:
  "preserves (intact U) (modifyE (\<lambda>w. w\<lparr>challenges := filter (P w) (challenges w)\<rparr>))"
  by (rule preserves_modifyE) (auto simp: intact_defs distinct_map_filterI)

lemma intact_log [act_intros]:
  "preserves (intact U) (modifyE (\<lambda>w. w\<lparr>emitted := g w\<rparr>))"
  by (rule preserves_modifyE) (simp add: intact_defs)

text \<open>The parts of a method that read or call the network.\<close>

lemma intact_signedCall [act_intros]: "preserves (intact U) (signedCall E s key m args)"
  by (rule keeps_preserves, rule keeps_signedCall) (simp add: intact_defs)

lemma intact_stellarInvoke [act_intros]: "preserves (intact U) (stellarInvoke E key m as sec)"
  by (rule keeps_preserves, rule keeps_stellarInvoke) (simp add: intact_defs)

lemma readonly_preserves: "(\<And>w r w'. m w = (r, w') \<Longrightarrow> w' = w) \<Longrightarrow> preserves I m"
  by (metis preserves_runI)

lemma intact_args [act_intros]:
  "preserves I (intArg x)" "preserves I (dateArg E d)" "preserves I (timeArg x)"
  "preserves I (dateMs x)" "preserves I (ledgerArg v)"
  by (rule readonly_preserves;
      auto simp: intArg_state dateArg_def timeArg_def orThrow_apply dateMs_def ledgerArg_def
        dest: intArg_state split: jsnum.splits jsval.splits if_splits)+

lemma intact_emit [act_intros]: "preserves (intact U) (emit E t d)"
  unfolding emit_def handleEvent_def dispatchEvent_def deliverWithRetry_def recordDelivery_def
  by (intro act_intros inv_rel.option_case [folded preserves_def] | simp | (split prod.split, intro allI impI))+

section \<open>Requests\<close>

lemmas intact_case [act_intros] = inv_rel.option_case [folded preserves_def]

lemma intact_prod_case [act_intros]:
  "(\<And>a b. preserves I (f a b)) \<Longrightarrow> preserves I (case p of (a, b) \<Rightarrow> f a b)"
  by (cases p) simp

lemma intact_if [act_intros]:
  "(b \<Longrightarrow> preserves I m) \<Longrightarrow> (\<not> b \<Longrightarrow> preserves I n) \<Longrightarrow> preserves I (if b then m else n)"
  by simp

lemma intact_issueCredit: "preserves (intact U) (issueCredit E uid wal dto)"
  unfolding issueCredit_def Let_def submitCredit_def by (intro act_intros)

lemma intact_createApproval [act_intros]: "preserves (intact U) (createApproval E c uid b cm)"
  unfolding createApproval_def by (intro act_intros)

lemmas decision_parts = requireVerifier_def loadPending_def approveAndMint_def
  stellarRejectCredit_def updateCredit_def

lemma intact_approveCredit: "preserves (intact U) (approveCredit E uid wal n cm)"
  unfolding approveCredit_def Let_def decision_parts
  by (intro act_intros intact_update_credit) simp

lemma intact_rejectCredit: "preserves (intact U) (rejectCredit E uid wal n rs)"
  unfolding rejectCredit_def Let_def decision_parts
  by (intro act_intros intact_update_credit) simp

lemma intact_createOffer: "preserves (intact U) (createOffer E uid wal dto)"
  unfolding createOffer_def offerGuards_def Let_def stellarCreateOffer_def
  by (intro act_intros)

lemma intact_buyCredits: "uid \<in> U \<Longrightarrow> preserves (intact U) (buyCredits E uid wal n amount)"
  unfolding buyCredits_def buyGuards_def settlePurchase_def createTrade_def updateOffer_def Let_def
    stellarBuyCredits_def transferCredit_def
  by (intro act_intros intact_update_credit intact_update_offer) simp_all

lemma intact_cancelOffer: "preserves (intact U) (cancelOffer E uid n)"
  unfolding cancelOffer_def updateOffer_def stellarCancelOffer_def
  by (intro act_intros intact_update_offer) simp

lemma intact_retireCredit: "preserves (intact U) (retireCredit E uid wal n dto)"
  unfolding retireCredit_def retireGuards_def Let_def stellarRetire_def
  by (intro act_intros intact_update_credit) simp

lemma intact_registerVerifier: "preserves (intact U) (registerVerifier E uid wal dto)"
  unfolding registerVerifier_def stellarRegisterVerifier_def by (intro act_intros)

lemma intact_heartbeat: "preserves (intact U) (heartbeat E i)"
  unfolding heartbeat_def by (intro act_intros intact_update_verifier) simp

lemma intact_bridgeIn: "preserves (intact U) (bridgeIn E uid wal dto)"
  unfolding bridgeIn_def stellarBridgeIn_def list.case by (intro act_intros)

lemma intact_bridgeOut: "preserves (intact U) (bridgeOut E uid wal n)"
  unfolding bridgeOut_def bridgeOutGuards_def stellarBridgeOut_def
  by (intro act_intros intact_update_bridge) (simp add: brKey_def)

lemma intact_updateRegistryRoot: "preserves (intact U) (updateRegistryRoot E wal g r h)"
  unfolding updateRegistryRoot_def stellarUpdateRegistryRoot_def by (intro act_intros)

lemma intact_batchStep [act_intros]: "preserves (intact U) (batchStep E uid cr)"
  unfolding batchStep_def Let_def by (intro act_intros intact_update_retirement) simp

lemma intact_enqueueBatch: "preserves (intact U) (enqueueBatch E uid ids)"
  unfolding enqueueBatch_def Let_def by (intro act_intros)

lemma intact_findOrCreateUser [act_intros]: "preserves (intact U) (findOrCreateUser E wal)"
  unfolding findOrCreateUser_def by (intro act_intros)

lemma intact_generateChallenge: "preserves (intact U) (generateChallenge L E wal)"
  unfolding generateChallenge_def Let_def by (intro act_intros)

lemma intact_exchangeToken: "preserves (intact U) (exchangeToken L E wal s cid)"
  unfolding exchangeToken_def challengeGuards_def
  by (intro act_intros intact_update_challenge) simp

lemma intact_registerWebhook: "preserves (intact U) (registerWebhook E uid wdto)"
  unfolding registerWebhook_def by (intro act_intros)

lemma intact_removeWebhook: "preserves (intact U) (removeWebhook uid i)"
  unfolding removeWebhook_def ownedWebhook_def by (intro act_intros)

lemma intact_sendTest: "preserves (intact U) (sendTest E uid i)"
  unfolding sendTest_def ownedWebhook_def Let_def by (intro act_intros)

lemma intact_configureSplit: "preserves (intact U) (configureSplit E adm pid bs)"
  unfolding configureSplit_def configureRevenueSplit_def by (intro act_intros)

lemma intact_distributeSplit: "preserves (intact U) (distributeSplit E caller pid asset amount)"
  unfolding distributeSplit_def distributeRevenueSplit_def by (intro act_intros)

lemma intact_sent: "intact U (w\<lparr>sent := cs\<rparr>) \<longleftrightarrow> intact U w"
  by (simp add: intact_defs)

lemma intact_sorobanInvoke [act_intros]: "preserves (intact U) (sorobanInvoke E cid m as sec a)"
  unfolding preserves_def
proof (rule relatesI, rule impI)
  fix w assume "intact U w"
  moreover obtain r w' where run: "sorobanInvoke E cid m as sec a w = (r, w')" by fastforce
  from sorobanInvoke_effect [OF run] have "w' = w \<or> (\<exists>c. w' = w\<lparr>sent := sent w @ [c]\<rparr>)" by blast
  ultimately have "intact U w'" by (auto simp only: intact_sent)
  then show "intact U (snd (sorobanInvoke E cid m as sec a w))" by (simp only: run snd_conv)
qed

lemma intact_updateProtocolConfig: "preserves (intact U) (updateProtocolConfig E cdto)"
  unfolding updateProtocolConfig_def by (intro act_intros)

lemma intact_changeVerifier: "preserves (intact U) (changeVerifier E m a)"
  unfolding changeVerifier_def by (intro act_intros)

section \<open>Contract events\<close>

lemma preserves_bindE_post:
  assumes "preserves I m" and "\<And>s x s'. m s = (Inr x, s') \<Longrightarrow> Q x s'"
    and "\<And>x. preserves (\<lambda>s. I s \<and> Q x s) (f x)"
  shows "preserves I (bindE m f)"
proof (rule preserves_runI)
  fix s v t assume "bindE m f s = (Inr v, t)" and I: "I s"
  then obtain x s' where m: "m s = (Inr x, s')" and f: "f x s' = (Inr v, t)" by (blast dest: bindE_InrD)
  from preservesD [OF assms(1) I m] assms(2) [OF m] preservesD [OF assms(3) _ f] show "I t" by blast
next
  fix s e t assume "bindE m f s = (Inl e, t)" and I: "I s"
  then consider "m s = (Inl e, t)" | x s' where "m s = (Inr x, s')" "f x s' = (Inl e, t)"
    by (blast dest: bindE_InlD)
  then show "I t"
  proof cases
    case 1
    with preservesD [OF assms(1) I] show ?thesis .
  next
    case 2
    from preservesD [OF assms(1) I 2(1)] assms(2) [OF 2(1)] preservesD [OF assms(3) _ 2(2)]
    show ?thesis by blast
  qed
qed

lemma upsertUser_post: "upsertUser E pub w = (Inr u, w') \<Longrightarrow> userExists w' (u_id u)"
  by (auto simp: upsertUser_def act_simps userExists_def split: option.splits
      dest!: userT.insert_InrD dest: find_SomeD)

lemma intact_upsertUser [act_intros]: "preserves (intact U) (upsertUser E pub)"
  unfolding upsertUser_def by (intro act_intros)

lemma intact_insert: "intact U w \<and> userExists w i \<longleftrightarrow> intact (insert i U) w"
  by (auto simp: intact_def)

text \<open>What follows the \<open>upsert\<close> of a user may rely on the user.\<close>

lemma intact_with_user:
  "(\<And>u. preserves (intact (insert (u_id u) U)) (f u)) \<Longrightarrow>
   preserves (intact U) (bindE (upsertUser E pub) f)"
  by (rule preserves_bindE_post [where Q = "\<lambda>u w. userExists w (u_id u)"])
     (auto simp: intact_insert intro: act_intros upsertUser_post)

lemmas processor_parts = voidE_def findCredit_def setCredit_def upsertCredit_def indexApproval_def
  expiryArg_def settleRecord_def

lemma intact_processCreditSubmitted: "preserves (intact U) (processCreditSubmitted E ev1)"
  unfolding processCreditSubmitted_def processor_parts
  by (intro act_intros intact_update_credit) (simp add: submittedFields_def)

lemma intact_processCreditApproved: "preserves (intact U) (processCreditApproved E ev2)"
  unfolding processCreditApproved_def processor_parts by (intro act_intros)

lemma intact_processCreditMinted: "preserves (intact U) (processCreditMinted E ev3)"
  unfolding processCreditMinted_def processor_parts by (intro act_intros intact_update_credit) simp

lemma intact_processCreditRejected: "preserves (intact U) (processCreditRejected E ev4)"
  unfolding processCreditRejected_def processor_parts
  by (intro act_intros intact_update_credit) simp

lemma intact_processCreditTransferred: "preserves (intact U) (processCreditTransferred E ev5)"
  unfolding processCreditTransferred_def processor_parts
  by (rule intact_with_user) (intro act_intros intact_update_credit, simp)

lemma intact_processCreditRetired: "preserves (intact U) (processCreditRetired E ev6)"
  unfolding processCreditRetired_def processor_parts
  by (intro act_intros intact_update_credit) simp

lemma intact_processOfferCreated: "preserves (intact U) (processOfferCreated E ev7)"
  unfolding processOfferCreated_def processor_parts
  by (intro act_intros intact_update_offer) simp

lemma intact_fillOffer [act_intros]: "preserves (intact U) (fillOffer E ev8 n r)"
  unfolding fillOffer_def processor_parts Let_def
  by (rule intact_with_user)
     (intro act_intros intact_update_offer intact_update_credit, simp_all)

lemma intact_processOfferFilled: "preserves (intact U) (processOfferFilled E ev8)"
  unfolding processOfferFilled_def by (intro act_intros)

lemma intact_processOfferCancelled: "preserves (intact U) (processOfferCancelled ev9)"
  unfolding processOfferCancelled_def voidE_def by (intro act_intros intact_update_offer) simp

lemma intact_settleRecord [act_intros]: "preserves (intact U) (settleRecord r st h)"
  unfolding settleRecord_def voidE_def
  by (intro act_intros intact_update_bridge) (simp add: brKey_def)

lemma intact_processCreditBridged: "preserves (intact U) (processCreditBridged ev10)"
  unfolding processCreditBridged_def by (intro act_intros)

lemma intact_processCreditBridgedOut: "preserves (intact U) (processCreditBridgedOut E ev11)"
  unfolding processCreditBridgedOut_def setCredit_def voidE_def
  by (intro act_intros intact_update_credit) simp

lemma intact_processRegistryRootUpdated: "preserves (intact U) (processRegistryRootUpdated ev12)"
  unfolding processRegistryRootUpdated_def by (intro act_intros)

end
