(* ===== verification/Controllers.thy ===== *)
theory Controllers
  imports Integrity
begin

text \<open>
  The routes of \<open>api/src\<close> that change state, with the guards in front of them: the bearer token
  (\<open>JwtAuthGuard\<close>, unless the route is \<open>@Public\<close>), then \<open>AdminGuard\<close> where the controller asks for
  it.  A request carries the path parameters and the body as the pipes hand them to the handler; the
  response body is the service's result and is left out here.
\<close>

section \<open>Routes\<close>

datatype credits_route =
    PostIssue create_credit_dto
  | PostApprove int "string option"
  | PostReject int string

fun creditsController :: "env \<Rightarrow> principal \<Rightarrow> credits_route \<Rightarrow> unit op" where
  "creditsController E p (PostIssue dto) = voidE (issueCredit E (pr_id p) (pr_wallet p) dto)"
| "creditsController E p (PostApprove n comments) =
     voidE (approveCredit E (pr_id p) (pr_wallet p) n comments)"
| "creditsController E p (PostReject n reason) =
     voidE (rejectCredit E (pr_id p) (pr_wallet p) n reason)"

datatype marketplace_route =
    PostOffer create_offer_dto
  | PostBuy int jsnum
  | DeleteOffer int

fun marketplaceController :: "env \<Rightarrow> principal \<Rightarrow> marketplace_route \<Rightarrow> unit op" where
  "marketplaceController E p (PostOffer dto) =
     voidE (createOffer E (pr_id p) (pr_wallet p) dto)"
| "marketplaceController E p (PostBuy n amount) =
     voidE (buyCredits E (pr_id p) (pr_wallet p) n amount)"
| "marketplaceController E p (DeleteOffer n) = voidE (cancelOffer E (pr_id p) n)"

datatype verifiers_route = PostRegister register_verifier_dto | PostHeartbeat string

fun verifiersController :: "env \<Rightarrow> principal \<Rightarrow> verifiers_route \<Rightarrow> unit op" where
  "verifiersController E p (PostRegister dto) =
     voidE (registerVerifier E (pr_id p) (pr_wallet p) dto)"
| "verifiersController E p (PostHeartbeat i) = voidE (heartbeat E i)"

datatype bridge_route = PostRoot string string jsnum | PostIn bridge_in_dto | PostOut int

fun bridgeController :: "env \<Rightarrow> principal \<Rightarrow> bridge_route \<Rightarrow> unit op" where
  "bridgeController E p (PostRoot registry merkleRoot height) =
     voidE (updateRegistryRoot E (pr_wallet p) registry merkleRoot height)"
| "bridgeController E p (PostIn dto) = voidE (bridgeIn E (pr_id p) (pr_wallet p) dto)"
| "bridgeController E p (PostOut n) = voidE (bridgeOut E (pr_id p) (pr_wallet p) n)"

datatype split_route =
    PostSplit string "beneficiary list"
  | PostDistribute string string jsnum

fun revenueSplitController :: "env \<Rightarrow> principal \<Rightarrow> split_route \<Rightarrow> unit op" where
  "revenueSplitController E p (PostSplit pid bs) =
     voidE (configureSplit E (pr_wallet p) pid bs)"
| "revenueSplitController E p (PostDistribute pid asset amount) =
     voidE (distributeSplit E (pr_wallet p) pid asset amount)"

datatype webhooks_route = PostWebhook webhook_dto | DeleteWebhook string | PostTest string

fun webhooksController :: "env \<Rightarrow> principal \<Rightarrow> webhooks_route \<Rightarrow> unit op" where
  "webhooksController E p (PostWebhook dto) = voidE (registerWebhook E (pr_id p) dto)"
| "webhooksController E p (DeleteWebhook i) = voidE (removeWebhook (pr_id p) i)"
| "webhooksController E p (PostTest i) = voidE (sendTest E (pr_id p) i)"

datatype admin_route =
    PatchConfig update_config_dto
  | PostAddVerifier string
  | PostRemoveVerifier string

fun adminController :: "env \<Rightarrow> admin_route \<Rightarrow> unit op" where
  "adminController E (PatchConfig dto) = voidE (updateProtocolConfig E dto)"
| "adminController E (PostAddVerifier a) = voidE (addVerifier E a)"
| "adminController E (PostRemoveVerifier a) = voidE (removeVerifier E a)"

datatype auth_route = PostChallenge string | PostToken string string string

fun authController :: "auth_lib \<Rightarrow> env \<Rightarrow> auth_route \<Rightarrow> unit op" where
  "authController L E (PostChallenge wallet) = voidE (generateChallenge L E wallet)"
| "authController L E (PostToken wallet signedChallenge challengeId) =
     voidE (exchangeToken L E wallet signedChallenge challengeId)"

definition retirementController :: "env \<Rightarrow> principal \<Rightarrow> int \<Rightarrow> retire_dto \<Rightarrow> unit op" where
  "retirementController E p n dto = voidE (retireCredit E (pr_id p) (pr_wallet p) n dto)"

definition certificatesController :: "env \<Rightarrow> principal \<Rightarrow> int list \<Rightarrow> unit op" where
  "certificatesController E p ids = voidE (enqueueBatch E (pr_id p) ids)"

section \<open>Requests\<close>

datatype request =
    Credits credits_route
  | Marketplace marketplace_route
  | Retire int retire_dto
  | Verifiers verifiers_route
  | Certificates "int list"
  | Bridge bridge_route
  | RevenueSplit split_route
  | Webhooks webhooks_route
  | Admin admin_route
  | Auth auth_route

fun isPublic :: "request \<Rightarrow> bool" where
  "isPublic (Auth _) = True"
| "isPublic _ = False"

text \<open>\<open>@UseGuards(AdminGuard)\<close>: the admin controller and two single routes.\<close>

fun adminOnly :: "request \<Rightarrow> bool" where
  "adminOnly (Admin _) = True"
| "adminOnly (Bridge (PostRoot _ _ _)) = True"
| "adminOnly (RevenueSplit (PostSplit _ _)) = True"
| "adminOnly _ = False"

text \<open>The handlers of the routes that need a user.\<close>

fun userRoute :: "env \<Rightarrow> principal \<Rightarrow> request \<Rightarrow> unit op" where
  "userRoute E p (Credits r) = creditsController E p r"
| "userRoute E p (Marketplace r) = marketplaceController E p r"
| "userRoute E p (Retire n dto) = retirementController E p n dto"
| "userRoute E p (Verifiers r) = verifiersController E p r"
| "userRoute E p (Certificates ids) = certificatesController E p ids"
| "userRoute E p (Bridge r) = bridgeController E p r"
| "userRoute E p (RevenueSplit r) = revenueSplitController E p r"
| "userRoute E p (Webhooks r) = webhooksController E p r"
| "userRoute E p (Admin r) = adminController E r"
| "userRoute E p (Auth _) = ret ()"

definition guards ::
  "auth_lib \<Rightarrow> env \<Rightarrow> world \<Rightarrow> string option \<Rightarrow> request \<Rightarrow> api_error + principal option" where
  "guards L E w bearer req =
     bindS (jwtGuard L w (isPublic req) bearer) (\<lambda>p.
     bindS (if adminOnly req then adminGuard E (map_option pr_wallet p) else Inr ()) (\<lambda>_.
     Inr p))"

definition handleRequest ::
  "auth_lib \<Rightarrow> env \<Rightarrow> string option \<Rightarrow> request \<Rightarrow> unit op" where
  "handleRequest L E bearer req =
     bindE (getsE (\<lambda>w. guards L E w bearer req)) (\<lambda>g.
     bindE (fromSum g) (\<lambda>p. (case p of
       Some user \<Rightarrow> userRoute E user req
     | None \<Rightarrow> (case req of Auth r \<Rightarrow> authController L E r | _ \<Rightarrow> ret ()))))"

section \<open>Lemmas\<close>

lemma guards_user:
  "guards L E w bearer req = Inr (Some p) \<Longrightarrow> userExists w (pr_id p) \<and> \<not> isPublic req \<and>
     (adminOnly req \<longrightarrow> adminGuard E (Some (pr_wallet p)) = Inr ())"
  by (auto simp: guards_def jwtGuard_def jwtValidate_def bindS_Inr_iff userById_def userExists_def
      split: if_splits option.splits sum.splits dest: find_SomeD)

lemma guards_public: "isPublic req \<Longrightarrow> guards L E w bearer req = Inr None"
  by (cases req) (simp_all add: guards_def jwtGuard_def)

lemma guards_None: "guards L E w bearer req = Inr None \<Longrightarrow> isPublic req"
  by (auto simp: guards_def jwtGuard_def bindS_Inr_iff split: if_splits option.splits sum.splits)

lemma handleRequest_cases:
  obtains (rejected) e where "guards L E w bearer req = Inl e"
      "handleRequest L E bearer req w = (Inl e, w)"
  | (user) p where "guards L E w bearer req = Inr (Some p)"
      "handleRequest L E bearer req w = userRoute E p req w"
  | (auth) r where "req = Auth r" "handleRequest L E bearer req w = authController L E r w"
proof (cases "guards L E w bearer req")
  case (Inl e)
  then show ?thesis by (intro rejected) (simp_all add: handleRequest_def act_simps)
next
  case (Inr q)
  show ?thesis
  proof (cases q)
    case (Some p)
    with Inr show ?thesis by (intro user) (simp_all add: handleRequest_def act_simps)
  next
    case None
    with Inr have "isPublic req" by (simp add: guards_None)
    then obtain r where "req = Auth r" by (cases req) auto
    with Inr None show ?thesis by (intro auth) (simp_all add: handleRequest_def act_simps)
  qed
qed

lemma preserves_voidE [act_intros]: "preserves I m \<Longrightarrow> preserves I (voidE m)"
  unfolding voidE_def by (intro act_intros)

lemma keeps_voidE [act_intros]: "keeps p m \<Longrightarrow> keeps p (voidE m)"
  unfolding voidE_def by (intro act_intros)

lemmas intact_requests = intact_issueCredit intact_approveCredit intact_rejectCredit
  intact_createOffer intact_buyCredits intact_cancelOffer intact_retireCredit
  intact_registerVerifier intact_heartbeat intact_bridgeIn intact_bridgeOut
  intact_updateRegistryRoot intact_enqueueBatch intact_generateChallenge intact_exchangeToken
  intact_registerWebhook intact_removeWebhook intact_sendTest intact_configureSplit
  intact_distributeSplit intact_updateProtocolConfig intact_changeVerifier

lemmas controller_defs = retirementController_def certificatesController_def addVerifier_def
  removeVerifier_def

lemma intact_userRoute: "preserves (intact {pr_id p}) (userRoute E p req)"
proof (cases req)
  case (Credits r)
  then show ?thesis by (cases r) (simp_all add: preserves_voidE intact_requests)
next
  case (Marketplace r)
  then show ?thesis by (cases r) (simp_all add: preserves_voidE intact_requests)
next
  case (Verifiers r)
  then show ?thesis by (cases r) (simp_all add: preserves_voidE intact_requests)
next
  case (Bridge r)
  then show ?thesis by (cases r) (simp_all add: preserves_voidE intact_requests)
next
  case (RevenueSplit r)
  then show ?thesis by (cases r) (simp_all add: preserves_voidE intact_requests)
next
  case (Webhooks r)
  then show ?thesis by (cases r) (simp_all add: preserves_voidE intact_requests)
next
  case (Admin r)
  then show ?thesis by (cases r) (simp_all add: preserves_voidE intact_requests controller_defs)
qed (simp_all add: preserves_voidE intact_requests controller_defs preserves_rules)

lemma handleRequest_schemaOk:
  assumes "schemaOk w" shows "schemaOk (snd (handleRequest L E bearer req w))"
proof (cases rule: handleRequest_cases [where L = L and E = E and w = w and bearer = bearer and req = req])
  case (rejected e)
  with assms show ?thesis by simp
next
  case (user p)
  with assms have "intact {pr_id p} w" by (auto simp: intact_def dest: guards_user)
  moreover obtain r w' where "userRoute E p req w = (r, w')" by fastforce
  ultimately show ?thesis
    using user(2) preservesD [OF intact_userRoute, of p w E req r w'] by (simp add: intact_def)
next
  case (auth r)
  have "preserves (intact {}) (authController L E r)"
    by (cases r) (simp_all add: preserves_voidE intact_requests)
  moreover obtain v w' where "authController L E r w = (v, w')" by fastforce
  ultimately show ?thesis
    using assms auth(2) preservesD [of "intact {}" "authController L E r" w v w']
    by (simp add: intact_schemaOk)
qed

end
