(* ===== verification/IndexerSync.thy ===== *)
theory IndexerSync
  imports Processors "HOL-Library.Product_Lexorder"
begin

text \<open>
  \<open>indexer/src/sync.ts\<close> and \<open>config.ts\<close>: reading events page by page after a cursor, decoding them,
  and processing them in order.  The RPC server is a parameter: its answer to the \<open>k\<close>-th request
  that the indexer makes.
\<close>

section \<open>Configuration\<close>

definition CONTRACT_ENV_KEYS_indexer :: "string list" where
  "CONTRACT_ENV_KEYS_indexer = [''INDEXER_CREDIT_REGISTRY_CONTRACT'', ''INDEXER_MARKETPLACE_CONTRACT'',
     ''INDEXER_RETIREMENT_TRACKER_CONTRACT'', ''INDEXER_VERIFIER_STAKE_CONTRACT'',
     ''INDEXER_MERKLE_BRIDGE_CONTRACT'']"

definition contractIds :: "(string \<Rightarrow> string option) \<Rightarrow> string list" where
  "contractIds penv = filter (\<lambda>s. s \<noteq> []) (map trim (filter (\<lambda>s. s \<noteq> [])
     (map (\<lambda>k. orElse (penv k) []) CONTRACT_ENV_KEYS_indexer)))"

section \<open>Events\<close>

datatype sync_event =
    CreditSubmitted credit_submitted_event | CreditApproved credit_approved_event
  | CreditMinted credit_minted_event | CreditRejected credit_rejected_event
  | CreditTransferred credit_transferred_event | CreditRetired credit_retired_event
  | OfferCreated offer_created_event | OfferFilled offer_filled_event
  | OfferCancelled offer_cancelled_event | CreditBridged credit_bridged_event
  | CreditBridgedOut credit_bridged_out_event | RegistryRootUpdated registry_root_event

fun processEvent :: "env \<Rightarrow> sync_event \<Rightarrow> unit op" where
  "processEvent E (CreditSubmitted d) = processCreditSubmitted E d"
| "processEvent E (CreditApproved d) = processCreditApproved E d"
| "processEvent E (CreditMinted d) = processCreditMinted E d"
| "processEvent E (CreditRejected d) = processCreditRejected E d"
| "processEvent E (CreditTransferred d) = processCreditTransferred E d"
| "processEvent E (CreditRetired d) = processCreditRetired E d"
| "processEvent E (OfferCreated d) = processOfferCreated E d"
| "processEvent E (OfferFilled d) = processOfferFilled E d"
| "processEvent E (OfferCancelled d) = processOfferCancelled d"
| "processEvent E (CreditBridged d) = processCreditBridged d"
| "processEvent E (CreditBridgedOut d) = processCreditBridgedOut E d"
| "processEvent E (RegistryRootUpdated d) = processRegistryRootUpdated d"

record rpc_event =
  re_ledger :: "jsnum option"
  re_txHash :: "string option"
  re_txIndex :: "jsnum option"
  re_success :: "bool option"
  re_topic :: "jsval list option"
  re_value :: jsval

section \<open>Decoding\<close>

text \<open>\<open>a ?? b ?? \<dots> ?? z\<close>\<close>

fun firstOf :: "jsval list \<Rightarrow> jsval" where
  "firstOf [] = JUndef"
| "firstOf [v] = v"
| "firstOf (v # vs) = coalesce v (firstOf vs)"

definition isObject :: "jsval \<Rightarrow> bool" where
  "isObject v = (case v of JBuf _ \<Rightarrow> True | JArr _ \<Rightarrow> True | JObj _ \<Rightarrow> True | _ \<Rightarrow> False)"

definition zero :: jsval where "zero = JNum (ofInt 0)"
definition emptyText :: jsval where "emptyText = JStr []"

definition toNumber :: "jsval \<Rightarrow> jsnum" where
  "toNumber v = (case v of
     JNum x \<Rightarrow> x
   | JBig n \<Rightarrow> num_of_int n
   | _ \<Rightarrow> (if isObject v then
       (let inner = firstOf [getProp v ''u64'', getProp v ''i128'', getProp v ''i256'',
              getProp v ''value'', v] in
        if isObject inner then jsNumber (coalesce (getProp inner ''value'') zero)
        else jsNumber (coalesce inner zero))
      else jsNumber (coalesce v zero)))"

definition toStringValue :: "jsval \<Rightarrow> string" where
  "toStringValue v = (case v of
     JStr s \<Rightarrow> s
   | _ \<Rightarrow> (if isObject v then
       (let addr = coalesce (getProp v ''address'') v in
        if isObject addr then
          (let account = coalesce (getProp addr ''account'')
                 (case getProp addr ''publicKey'' of JStr _ \<Rightarrow> addr | _ \<Rightarrow> JUndef);
               contract = getProp addr ''contract'' in
           if isObject account then
             jsString (firstOf [getProp account ''publicKey'', getProp account ''contract'',
               getProp account ''value'', emptyText])
           else if isObject contract then
             jsString (coalesce (getProp contract ''contract_id'') emptyText)
           else jsString (firstOf [getProp addr ''contract_id'', getProp addr ''publicKey'',
             getProp addr ''value'', emptyText]))
        else jsString (firstOf [getProp v ''symbol'', getProp v ''str'', getProp v ''bytes'',
          getProp v ''value'', emptyText]))
      else jsString (coalesce v emptyText)))"

definition toHexValue :: "jsval \<Rightarrow> string" where
  "toHexValue v = (case v of
     JStr s \<Rightarrow> s
   | _ \<Rightarrow> (if isObject v then
       jsString (firstOf [getProp v ''bytes'', getProp v ''hex'', getProp v ''value'', emptyText])
      else jsString (coalesce v emptyText)))"

text \<open>\<open>Number(v.a ?? v.b ?? 0)\<close> and \<open>String(v.a ?? v.b ?? d)\<close>.\<close>

definition numField :: "jsval \<Rightarrow> string list \<Rightarrow> jsnum" where
  "numField v ks = jsNumber (firstOf (map (getProp v) ks @ [zero]))"

definition textField :: "jsval \<Rightarrow> string list \<Rightarrow> string \<Rightarrow> string" where
  "textField v ks d = jsString (firstOf (map (getProp v) ks @ [JStr d]))"

definition topicAt :: "rpc_event \<Rightarrow> nat \<Rightarrow> jsval" where
  "topicAt e i = (let ts = orElse (re_topic e) [] in if i < length ts then ts ! i else JUndef)"

definition eventHash :: "rpc_event \<Rightarrow> string" where
  "eventHash e = orElse (re_txHash e) (textField (re_value e) [''txHash''] [])"

definition eventLedger :: "rpc_event \<Rightarrow> jsnum" where
  "eventLedger e = orElse (re_ledger e) (ofInt 0)"

definition creditIdField :: "jsval \<Rightarrow> jsnum" where
  "creditIdField v = numField v [''credit_id'', ''creditId'']"

definition parseSubmitted :: "rpc_event \<Rightarrow> credit_submitted_event" where
  "parseSubmitted e = (let v = re_value e in
     \<lparr>es_creditId = creditIdField v, es_issuer = textField v [''issuer''] [],
      es_projectId = textField v [''project_id'', ''projectId''] [],
      es_methodology = textField v [''methodology''] [],
      es_vintageStart = textField v [''vintage_start'', ''vintageStart''] [],
      es_vintageEnd = textField v [''vintage_end'', ''vintageEnd''] [],
      es_tonnes = numField v [''tonnes''], es_geography = textField v [''geography''] [],
      es_serialPrefix = textField v [''serial_prefix'', ''serialPrefix''] [],
      es_sdgFlags = numField v [''sdg_flags'', ''sdgFlags''],
      es_permanenceRating = numField v [''permanence_rating'', ''permanenceRating''],
      es_bufferContributionPct = numField v [''buffer_contribution_pct'', ''bufferContributionPct''],
      es_additionalityType = numField v [''additionality_type'', ''additionalityType''],
      es_ipfsHash = textField v [''ipfs_hash'', ''ipfsHash''] [],
      es_timestamp = numField v [''timestamp''], es_txHash = eventHash e\<rparr>)"

definition parseApproved :: "rpc_event \<Rightarrow> credit_approved_event" where
  "parseApproved e = (let v = re_value e in
     \<lparr>ea_creditId = creditIdField v, ea_verifier = textField v [''verifier''] [],
      ea_approved = (getProp v ''approved'' = JBool True \<or> getProp v ''approved'' = JStr ''true''),
      ea_comments = (if truthy (getProp v ''comments'')
         then Some (jsString (getProp v ''comments'')) else None),
      ea_timestamp = numField v [''timestamp''], ea_txHash = eventHash e\<rparr>)"

definition parseRetired :: "rpc_event \<Rightarrow> credit_retired_event" where
  "parseRetired e = (let v = re_value e in
     \<lparr>en_creditId = creditIdField v, en_retiredBy = textField v [''retired_by'', ''retiredBy''] [],
      en_beneficiary = textField v [''beneficiary''] [], en_reason = textField v [''reason''] [],
      en_accountingPeriod = textField v [''accounting_period'', ''accountingPeriod''] [],
      en_tonnesRetired = numField v [''tonnes_retired'', ''tonnesRetired''],
      en_txHash = eventHash e,
      en_ledgerSequence = numField v [''ledger_sequence'', ''ledgerSequence''],
      en_timestamp = numField v [''timestamp'']\<rparr>)"

definition parseOfferCreated :: "rpc_event \<Rightarrow> offer_created_event" where
  "parseOfferCreated e = (let v = re_value e in
     \<lparr>oc_offerId = numField v [''offer_id'', ''offerId''], oc_seller = textField v [''seller''] [],
      oc_creditId = creditIdField v,
      oc_pricePerTonne = numField v [''price_per_tonne'', ''pricePerTonne''],
      oc_amount = numField v [''amount''], oc_currency = textField v [''currency''] ''USDC'',
      oc_expiresAt = (if truthy (getProp v ''expires_at'') then Some (jsNumber (getProp v ''expires_at''))
         else if truthy (getProp v ''expiresAt'') then Some (jsNumber (getProp v ''expiresAt''))
         else None),
      oc_timestamp = numField v [''timestamp''], oc_txHash = eventHash e\<rparr>)"

text \<open>The \<open>switch\<close> over the first topic.\<close>

definition parseTopic :: "rpc_event \<Rightarrow> string \<Rightarrow> sync_event option" where
  "parseTopic e t = (let v = re_value e in
     if t = ''bridged'' then Some (CreditBridged
       \<lparr>eb_creditId = toNumber v, eb_sourceRegistry = jsString (coalesce (topicAt e 1) emptyText),
        eb_sourceSerial = jsString (coalesce (topicAt e 2) emptyText),
        eb_txHash = orElse (re_txHash e) [], eb_timestamp = eventLedger e\<rparr>)
     else if t = ''bridge_ot'' then Some (CreditBridgedOut
       \<lparr>eo_creditId = toNumber (topicAt e 1), eo_owner = toStringValue v,
        eo_txHash = orElse (re_txHash e) [], eo_timestamp = eventLedger e\<rparr>)
     else if t = ''root_upd'' then Some (RegistryRootUpdated
       \<lparr>rg_registry = jsString (coalesce (topicAt e 1) emptyText), rg_root = toHexValue v,
        rg_ledgerSequence = eventLedger e, rg_txHash = orElse (re_txHash e) [],
        rg_timestamp = eventLedger e\<rparr>)
     else if t = ''credit_submitted'' then Some (CreditSubmitted (parseSubmitted e))
     else if t = ''credit_approved'' then Some (CreditApproved (parseApproved e))
     else if t = ''credit_minted'' then Some (CreditMinted
       \<lparr>em_creditId = creditIdField v, em_tokenId = textField v [''token_id'', ''tokenId''] [],
        em_timestamp = numField v [''timestamp''], em_txHash = eventHash e\<rparr>)
     else if t = ''credit_rejected'' then Some (CreditRejected
       \<lparr>er_creditId = creditIdField v, er_verifier = textField v [''verifier''] [],
        er_reason = textField v [''reason''] [], er_timestamp = numField v [''timestamp''],
        er_txHash = eventHash e\<rparr>)
     else if t = ''credit_transferred'' then Some (CreditTransferred
       \<lparr>et_creditId = creditIdField v, et_from = textField v [''from''] [],
        et_to = textField v [''to''] [], et_timestamp = numField v [''timestamp''],
        et_txHash = eventHash e\<rparr>)
     else if t = ''credit_retired'' then Some (CreditRetired (parseRetired e))
     else if t = ''offer_created'' then Some (OfferCreated (parseOfferCreated e))
     else if t = ''offer_filled'' then Some (OfferFilled
       \<lparr>fo_offerId = numField v [''offer_id'', ''offerId''], fo_buyer = textField v [''buyer''] [],
        fo_amount = numField v [''amount''],
        fo_totalPrice = numField v [''total_price'', ''totalPrice''],
        fo_timestamp = numField v [''timestamp''], fo_txHash = eventHash e\<rparr>)
     else if t = ''offer_cancelled'' then Some (OfferCancelled
       \<lparr>ox_offerId = numField v [''offer_id'', ''offerId''],
        ox_timestamp = numField v [''timestamp''], ox_txHash = eventHash e\<rparr>)
     else None)"

definition parseRpcEvent :: "rpc_event \<Rightarrow> sync_event option" where
  "parseRpcEvent e =
     (if \<not> truthy (re_value e) then None
      else (case topicAt e 0 of JStr t \<Rightarrow> parseTopic e t | _ \<Rightarrow> None))"

section \<open>Reading pages\<close>

record sync_cursor =
  sc_ledger :: jsnum
  sc_txIndex :: jsnum

definition PAGE_LIMIT :: nat where "PAGE_LIMIT = 100"
definition MAX_PAGES :: nat where "MAX_PAGES = 50"

datatype rpc_answer = HttpError int | RpcError | Events "rpc_event list"

text \<open>\<open>rpc k l\<close>: the answer to the \<open>k\<close>-th request, for the events from ledger \<open>l\<close> on; \<open>Inl\<close> when the
  request itself fails.\<close>

type_synonym rpc = "nat \<Rightarrow> jsnum \<Rightarrow> string + rpc_answer"

definition fetchEventPage :: "rpc \<Rightarrow> nat \<Rightarrow> jsnum \<Rightarrow> api_error + rpc_event list" where
  "fetchEventPage rpc k startLedger = (case rpc k startLedger of
     Inl m \<Rightarrow> Inl (JsError m)
   | Inr (HttpError s) \<Rightarrow> Inr []
   | Inr RpcError \<Rightarrow> Inr []
   | Inr (Events es) \<Rightarrow> Inr es)"

definition evLedger :: "sync_cursor \<Rightarrow> rpc_event \<Rightarrow> jsnum" where
  "evLedger seen e = orElse (re_ledger e) (sc_ledger seen)"

definition evTxIndex :: "rpc_event \<Rightarrow> jsnum" where
  "evTxIndex e = orElse (re_txIndex e) (ofInt 0)"

text \<open>The position of an event is behind the cursor, or at it.\<close>

definition alreadySeen :: "sync_cursor \<Rightarrow> rpc_event \<Rightarrow> bool" where
  "alreadySeen seen e \<longleftrightarrow> num_lt (evLedger seen e) (sc_ledger seen) \<or>
     (num_eq (evLedger seen e) (sc_ledger seen) \<and> num_le (evTxIndex e) (sc_txIndex seen))"

definition ahead :: "sync_cursor \<Rightarrow> rpc_event \<Rightarrow> bool" where
  "ahead seen e \<longleftrightarrow> num_lt (sc_ledger seen) (evLedger seen e) \<or>
     (num_eq (evLedger seen e) (sc_ledger seen) \<and> num_lt (sc_txIndex seen) (evTxIndex e))"

definition advance :: "sync_cursor \<Rightarrow> rpc_event \<Rightarrow> sync_cursor" where
  "advance seen e = (if ahead seen e
     then \<lparr>sc_ledger = evLedger seen e, sc_txIndex = evTxIndex e\<rparr> else seen)"

text \<open>The loop over a page: the events it accepts, in order, and the position after it.\<close>

fun scanPage :: "sync_cursor \<Rightarrow> rpc_event list \<Rightarrow> rpc_event list \<times> sync_cursor" where
  "scanPage seen [] = ([], seen)"
| "scanPage seen (e # es) =
     (if re_success e = Some False \<or> alreadySeen seen e then scanPage seen es
      else (case scanPage (advance seen e) es of (acc, seen') \<Rightarrow> (e # acc, seen')))"

record scan_state =
  ss_accepted :: "rpc_event list"
  ss_seen :: sync_cursor
  ss_drained :: bool

text \<open>
  The loop over pages.  \<open>n\<close> counts down the pages left, \<open>k\<close> is the number of the next request; the
  result also gives the number of requests made so far.
\<close>

fun pageLoop ::
  "rpc \<Rightarrow> nat \<Rightarrow> nat \<Rightarrow> jsnum \<Rightarrow> scan_state \<Rightarrow> (api_error + scan_state) \<times> nat" where
  "pageLoop rpc 0 k startLedger st = (Inr st, k)"
| "pageLoop rpc (Suc n) k startLedger st = (case fetchEventPage rpc k startLedger of
     Inl e \<Rightarrow> (Inl e, Suc k)
   | Inr page \<Rightarrow>
       (if page = [] then (Inr (st\<lparr>ss_drained := True\<rparr>), Suc k)
        else (case scanPage (ss_seen st) page of (acc, seen) \<Rightarrow>
          let st' = st\<lparr>ss_accepted := ss_accepted st @ acc, ss_seen := seen\<rparr> in
          if length page < PAGE_LIMIT then (Inr (st'\<lparr>ss_drained := True\<rparr>), Suc k)
          else pageLoop rpc n (Suc k) (sc_ledger seen) st')))"

record sync =
  sy_cursor :: sync_cursor
  sy_running :: bool
  sy_contractIds :: "string list"
  sy_warnedNoContracts :: bool
  sy_requests :: nat

definition cursorAfter :: "sync_cursor \<Rightarrow> scan_state \<Rightarrow> sync_cursor" where
  "cursorAfter cur st = (let seen = ss_seen st in
     if ss_drained st \<and> ss_accepted st \<noteq> []
     then \<lparr>sc_ledger = num_add (sc_ledger seen) (ofInt 1), sc_txIndex = ofInt 0\<rparr>
     else if num_lt (sc_ledger cur) (sc_ledger seen) \<or>
       (num_eq (sc_ledger seen) (sc_ledger cur) \<and> num_lt (sc_txIndex cur) (sc_txIndex seen))
     then seen else cur)"

text \<open>\<open>fetchEvents\<close>, before decoding.\<close>

definition fetchRaw :: "rpc \<Rightarrow> sync \<Rightarrow> (api_error + rpc_event list) \<times> sync" where
  "fetchRaw rpc s =
     (if sy_contractIds s = [] then (Inr [], s\<lparr>sy_warnedNoContracts := True\<rparr>)
      else (let cur = sy_cursor s in
        case pageLoop rpc MAX_PAGES (sy_requests s) (sc_ledger cur)
               \<lparr>ss_accepted = [], ss_seen = cur, ss_drained = False\<rparr> of
          (Inl e, k) \<Rightarrow> (Inl e, s\<lparr>sy_requests := k\<rparr>)
        | (Inr st, k) \<Rightarrow> (Inr (ss_accepted st),
            s\<lparr>sy_requests := k, sy_cursor := cursorAfter cur st\<rparr>)))"

definition fetchEvents :: "rpc \<Rightarrow> sync \<Rightarrow> (api_error + sync_event list) \<times> sync" where
  "fetchEvents rpc s = (case fetchRaw rpc s of (r, s') \<Rightarrow>
     (bindS r (\<lambda>es. Inr (List.map_filter parseRpcEvent es)), s'))"

section \<open>Polling\<close>

text \<open>The cursor has moved when the first event is processed; an exception stops the rest.\<close>

definition poll :: "env \<Rightarrow> rpc \<Rightarrow> (sync \<times> world, api_error, unit) act" where
  "poll E rpc = (\<lambda>(s, w). case fetchEvents rpc s of
     (Inl e, s') \<Rightarrow> (Inl e, (s', w))
   | (Inr evs, s') \<Rightarrow> (case forE evs (processEvent E) w of (r, w') \<Rightarrow> (r, (s', w'))))"

text \<open>\<open>n\<close> rounds of \<open>start\<close>: a failed poll is logged and the next one follows.\<close>

fun pollRounds :: "env \<Rightarrow> rpc \<Rightarrow> nat \<Rightarrow> sync \<times> world \<Rightarrow> sync \<times> world" where
  "pollRounds E rpc 0 sw = sw"
| "pollRounds E rpc (Suc n) sw =
     (if sy_running (fst sw) then pollRounds E rpc n (snd (poll E rpc sw)) else sw)"

definition startSync :: "sync \<Rightarrow> sync" where
  "startSync s = s\<lparr>sy_running := True\<rparr>"

definition stopSync :: "sync \<Rightarrow> sync" where
  "stopSync s = s\<lparr>sy_running := False\<rparr>"

definition initialCursor :: sync_cursor where
  "initialCursor = \<lparr>sc_ledger = ofInt 1, sc_txIndex = ofInt 0\<rparr>"

definition newSync :: "sync_cursor option \<Rightarrow> string list \<Rightarrow> (string \<Rightarrow> string option) \<Rightarrow> sync" where
  "newSync cur ids penv = \<lparr>sy_cursor = orElse cur initialCursor, sy_running = False,
     sy_contractIds = (if ids \<noteq> [] then ids else contractIds penv),
     sy_warnedNoContracts = False, sy_requests = 0\<rparr>"

text \<open>\<open>None\<close>: the loop does not return.  The result counts the events processed.\<close>

partial_function (option) resyncLoop ::
  "env \<Rightarrow> rpc \<Rightarrow> nat \<Rightarrow> sync \<times> world \<Rightarrow> ((api_error + nat) \<times> (sync \<times> world)) option" where
  "resyncLoop E rpc processed sw =
     (if \<not> sy_running (fst sw) then Some (Inr processed, sw)
      else (case fetchEvents rpc (fst sw) of
        (Inl e, s') \<Rightarrow> Some (Inl e, (s', snd sw))
      | (Inr evs, s') \<Rightarrow>
          (if evs = [] then Some (Inr processed, (s', snd sw))
           else (case forE evs (processEvent E) (snd sw) of
             (Inl e, w') \<Rightarrow> Some (Inl e, (s', w'))
           | (Inr _, w') \<Rightarrow> resyncLoop E rpc (processed + length evs) (s', w')))))"

definition resyncFromGenesis ::
  "env \<Rightarrow> rpc \<Rightarrow> sync \<times> world \<Rightarrow> ((api_error + nat) \<times> (sync \<times> world)) option" where
  "resyncFromGenesis E rpc sw =
     resyncLoop E rpc 0 ((fst sw)\<lparr>sy_cursor := initialCursor\<rparr>, snd sw)"

section \<open>Positions\<close>

definition intOf :: "jsnum \<Rightarrow> int" where
  "intOf x = (case x of Fin r \<Rightarrow> \<lfloor>r\<rfloor> | _ \<Rightarrow> 0)"

lemma intOf_ofInt [simp]: "intOf (ofInt n) = n"
  by (simp add: intOf_def ofInt_def)

definition eventPos :: "rpc_event \<Rightarrow> int \<times> int" where
  "eventPos e = (intOf (orElse (re_ledger e) (ofInt 0)), intOf (evTxIndex e))"

definition cursorPos :: "sync_cursor \<Rightarrow> int \<times> int" where
  "cursorPos c = (intOf (sc_ledger c), intOf (sc_txIndex c))"

text \<open>Ledger numbers are 32-bit words; the index is an integer.\<close>

definition placed :: "rpc_event \<Rightarrow> bool" where
  "placed e \<longleftrightarrow> (\<exists>l t. re_ledger e = Some (ofInt l) \<and> evTxIndex e = ofInt t \<and> 0 \<le> l \<and> l < 2 ^ 32)"

definition placedCursor :: "sync_cursor \<Rightarrow> bool" where
  "placedCursor c \<longleftrightarrow> (\<exists>l t. c = \<lparr>sc_ledger = ofInt l, sc_txIndex = ofInt t\<rparr> \<and> 0 \<le> l \<and> l \<le> 2 ^ 32)"

lemma placedE:
  assumes "placed e"
  obtains l t where "re_ledger e = Some (ofInt l)" "evTxIndex e = ofInt t" "0 \<le> l" "l < 2 ^ 32"
    "eventPos e = (l, t)"
  using assms by (auto simp: placed_def eventPos_def orElse_def)

lemma placedCursorE:
  assumes "placedCursor c"
  obtains l t where "c = \<lparr>sc_ledger = ofInt l, sc_txIndex = ofInt t\<rparr>" "0 \<le> l" "l \<le> 2 ^ 32"
    "cursorPos c = (l, t)"
  using assms by (auto simp: placedCursor_def cursorPos_def)

lemma seen_pos:
  assumes "placed e" and "placedCursor c"
  shows "alreadySeen c e \<longleftrightarrow> eventPos e \<le> cursorPos c" and "ahead c e \<longleftrightarrow> cursorPos c < eventPos e"
proof -
  from assms(1) obtain l t where e: "re_ledger e = Some (ofInt l)" "evTxIndex e = ofInt t"
    "eventPos e = (l, t)" by (rule placedE)
  from assms(2) obtain m u where c: "c = \<lparr>sc_ledger = ofInt m, sc_txIndex = ofInt u\<rparr>"
    "cursorPos c = (m, u)" by (rule placedCursorE)
  show "alreadySeen c e \<longleftrightarrow> eventPos e \<le> cursorPos c"
    using e c by (auto simp: alreadySeen_def evLedger_def orElse_def)
  show "ahead c e \<longleftrightarrow> cursorPos c < eventPos e"
    using e c by (auto simp: ahead_def evLedger_def orElse_def)
qed

lemma advance_pos:
  assumes "placed e" and "placedCursor c" and "cursorPos c < eventPos e"
  shows "placedCursor (advance c e) \<and> cursorPos (advance c e) = eventPos e"
proof -
  from assms(1) obtain l t where e: "re_ledger e = Some (ofInt l)" "evTxIndex e = ofInt t"
    "0 \<le> l" "l < 2 ^ 32" "eventPos e = (l, t)" by (rule placedE)
  have "ahead c e" using assms seen_pos(2) by blast
  then have "advance c e = \<lparr>sc_ledger = ofInt l, sc_txIndex = ofInt t\<rparr>"
    using e by (simp add: advance_def evLedger_def orElse_def)
  with e show ?thesis by (auto simp: placedCursor_def cursorPos_def)
qed

text \<open>The positions of a scan: strictly increasing from the one it starts at, ending at its cursor.\<close>

definition climbs :: "sync_cursor \<Rightarrow> rpc_event list \<Rightarrow> sync_cursor \<Rightarrow> bool" where
  "climbs c es c' \<longleftrightarrow> placedCursor c' \<and> (\<forall>e \<in> set es. placed e \<and> re_success e \<noteq> Some False) \<and>
     sorted_wrt (<) (cursorPos c # map eventPos es) \<and>
     cursorPos c' = last (cursorPos c # map eventPos es)"

lemma climbs_Nil: "placedCursor c \<Longrightarrow> climbs c [] c"
  by (simp add: climbs_def)

lemma le_last: "sorted_wrt (<) xs \<Longrightarrow> x \<in> set xs \<Longrightarrow> x \<le> (last xs :: 'a :: order)"
  by (induction xs) (auto simp: less_imp_le)

lemma climbs_append:
  assumes "climbs c es c'" and "climbs c' fs c''"
  shows "climbs c (es @ fs) c''"
proof -
  have upper: "x \<le> cursorPos c'" if "x \<in> set (cursorPos c # map eventPos es)" for x
    using that assms(1) le_last [of "cursorPos c # map eventPos es" x] by (auto simp: climbs_def)
  have "sorted_wrt (<) (cursorPos c # map eventPos es @ map eventPos fs)"
  proof -
    have "cursorPos c' < y" if "y \<in> set (map eventPos fs)" for y
      using that assms(2) by (auto simp: climbs_def)
    with upper have lt: "\<forall>x \<in> set (cursorPos c # map eventPos es). \<forall>y \<in> set (map eventPos fs). x < y"
      by (blast intro: le_less_trans)
    have "sorted_wrt (<) (cursorPos c # map eventPos es)" "sorted_wrt (<) (map eventPos fs)"
      using assms by (simp_all add: climbs_def)
    with lt have "sorted_wrt (<) ((cursorPos c # map eventPos es) @ map eventPos fs)"
      by (simp only: sorted_wrt_append)
    then show ?thesis by simp
  qed
  moreover have "cursorPos c'' = last (cursorPos c # map eventPos es @ map eventPos fs)"
    using assms by (cases fs) (auto simp: climbs_def)
  ultimately show ?thesis using assms by (auto simp: climbs_def)
qed

lemma scanPage_climbs:
  assumes "\<forall>e \<in> set es. placed e" and "placedCursor c" and "scanPage c es = (acc, c')"
  shows "climbs c acc c'"
  using assms
proof (induction es arbitrary: c acc)
  case Nil
  then show ?case by (simp add: climbs_Nil)
next
  case (Cons e es)
  show ?case
  proof (cases "re_success e = Some False \<or> alreadySeen c e")
    case True
    with Cons show ?thesis by auto
  next
    case False
    with Cons.prems seen_pos(1) have lt: "cursorPos c < eventPos e" by fastforce
    from Cons.prems False obtain acc2 where acc: "acc = e # acc2" "scanPage (advance c e) es = (acc2, c')"
      by (auto split: prod.splits)
    have adv: "placedCursor (advance c e)" "cursorPos (advance c e) = eventPos e"
      using advance_pos [OF _ Cons.prems(2) lt] Cons.prems(1) by auto
    then have "climbs (advance c e) acc2 c'" using Cons acc by auto
    moreover have "climbs c [e] (advance c e)"
      using adv lt Cons.prems(1) False by (auto simp: climbs_def)
    ultimately have "climbs c ([e] @ acc2) c'" by (rule climbs_append [rotated])
    with acc show ?thesis by simp
  qed
qed

text \<open>Every event that the server can answer has a position.\<close>

definition placedRpc :: "rpc \<Rightarrow> bool" where
  "placedRpc rpc \<longleftrightarrow> (\<forall>k l es. rpc k l = Inr (Events es) \<longrightarrow> (\<forall>e \<in> set es. placed e))"

lemma fetchEventPage_placed:
  "placedRpc rpc \<Longrightarrow> fetchEventPage rpc k l = Inr page \<Longrightarrow> \<forall>e \<in> set page. placed e"
  by (auto simp: placedRpc_def fetchEventPage_def split: sum.splits rpc_answer.splits)

lemma pageLoop_climbs:
  assumes "placedRpc rpc" and "climbs c (ss_accepted st) (ss_seen st)"
    and "pageLoop rpc n k l st = (Inr st', k')"
  shows "climbs c (ss_accepted st') (ss_seen st')"
  using assms(2,3)
proof (induction n arbitrary: k l st)
  case 0
  then show ?case by simp
next
  case (Suc n)
  obtain page where page: "fetchEventPage rpc k l = Inr page"
    using Suc.prems(2) by (cases "fetchEventPage rpc k l") auto
  obtain acc seen where scan: "scanPage (ss_seen st) page = (acc, seen)" by fastforce
  have "placedCursor (ss_seen st)" using Suc.prems(1) by (simp add: climbs_def)
  then have step: "climbs c (ss_accepted st @ acc) seen"
    using scanPage_climbs [OF fetchEventPage_placed [OF assms(1) page] _ scan] Suc.prems(1)
    by (blast intro: climbs_append)
  show ?case
  proof (cases "page = [] \<or> length page < PAGE_LIMIT")
    case True
    then show ?thesis using Suc.prems page scan step by (auto simp: Let_def split: if_splits)
  next
    case False
    let ?st = "st\<lparr>ss_accepted := ss_accepted st @ acc, ss_seen := seen\<rparr>"
    have "pageLoop rpc n (Suc k) (sc_ledger seen) ?st = (Inr st', k')"
      using Suc.prems(2) page scan False by (simp add: Let_def)
    moreover have "climbs c (ss_accepted ?st) (ss_seen ?st)" using step by simp
    ultimately show ?thesis by (rule Suc.IH [rotated])
  qed
qed

lemma cursorAfter_pos:
  assumes "climbs c (ss_accepted st) (ss_seen st)" and "placedCursor c"
  shows "placedCursor (cursorAfter c st) \<and> last (cursorPos c # map eventPos (ss_accepted st)) \<le>
    cursorPos (cursorAfter c st)"
proof -
  from assms(1) have seen: "placedCursor (ss_seen st)"
    "cursorPos (ss_seen st) = last (cursorPos c # map eventPos (ss_accepted st))"
    by (simp_all add: climbs_def)
  obtain l t where s: "ss_seen st = \<lparr>sc_ledger = ofInt l, sc_txIndex = ofInt t\<rparr>" "0 \<le> l" "l \<le> 2 ^ 32"
      "cursorPos (ss_seen st) = (l, t)" by (rule placedCursorE [OF seen(1)])
  obtain m u where c: "c = \<lparr>sc_ledger = ofInt m, sc_txIndex = ofInt u\<rparr>" "cursorPos c = (m, u)"
    by (rule placedCursorE [OF assms(2)])
  show ?thesis
  proof (cases "ss_drained st \<and> ss_accepted st \<noteq> []")
    case True
    then have "last (cursorPos c # map eventPos (ss_accepted st)) \<in> set (map eventPos (ss_accepted st))"
      by (metis last_ConsR last_in_set map_is_Nil_conv)
    then obtain e where "e \<in> set (ss_accepted st)" "eventPos e = (l, t)" using seen s by auto
    with assms(1) have "placed e" by (simp add: climbs_def)
    then have "l < 2 ^ 32" using \<open>eventPos e = (l, t)\<close> by (auto elim: placedE)
    moreover have "safeInt (l + 1)" using s by (simp add: safeInt_def)
    ultimately have "placedCursor (cursorAfter c st) \<and> cursorPos (cursorAfter c st) = (l + 1, 0)"
      using True s by (auto simp: cursorAfter_def Let_def num_add_ofInt placedCursor_def cursorPos_def)
    moreover have "(l, t) \<le> (l + 1, 0)" by simp
    ultimately show ?thesis using seen(2) s(4) by metis
  next
    case False
    have "cursorPos c \<le> (l, t)"
      using assms(1) seen(2) s(4) le_last [of "cursorPos c # map eventPos (ss_accepted st)" "cursorPos c"]
      by (simp add: climbs_def)
    then have "placedCursor (cursorAfter c st) \<and> cursorPos (cursorAfter c st) = (l, t)"
      using False s(1,4) c seen(1) assms(2) by (auto simp: cursorAfter_def Let_def)
    then show ?thesis using seen(2) s(4) by simp
  qed
qed

lemma fetchRaw_climbs:
  assumes "placedRpc rpc" and "placedCursor (sy_cursor s)" and "fetchRaw rpc s = (Inr es, s')"
  shows "placedCursor (sy_cursor s') \<and> (\<forall>e \<in> set es. placed e \<and> re_success e \<noteq> Some False) \<and>
    sorted_wrt (<) (cursorPos (sy_cursor s) # map eventPos es) \<and>
    last (cursorPos (sy_cursor s) # map eventPos es) \<le> cursorPos (sy_cursor s')"
proof (cases "sy_contractIds s = []")
  case True
  with assms show ?thesis by (auto simp: fetchRaw_def)
next
  case False
  let ?st0 = "\<lparr>ss_accepted = [], ss_seen = sy_cursor s, ss_drained = False\<rparr>"
  from False assms(3) obtain st k where
    loop: "pageLoop rpc MAX_PAGES (sy_requests s) (sc_ledger (sy_cursor s)) ?st0 = (Inr st, k)"
    and es: "es = ss_accepted st" and s': "sy_cursor s' = cursorAfter (sy_cursor s) st"
    by (auto simp: fetchRaw_def Let_def split: prod.splits sum.splits)
  have "climbs (sy_cursor s) (ss_accepted st) (ss_seen st)"
    by (rule pageLoop_climbs [OF assms(1) _ loop]) (simp add: climbs_Nil assms(2))
  with cursorAfter_pos [OF this assms(2)] es s' show ?thesis by (simp add: climbs_def)
qed

lemma fetchRaw_error: "fetchRaw rpc s = (Inl e, s') \<Longrightarrow> sy_cursor s' = sy_cursor s"
  by (auto simp: fetchRaw_def Let_def split: if_splits prod.splits sum.splits)

text \<open>The events that \<open>n\<close> polls read, whether or not a poll fails.\<close>

fun fetchMany :: "rpc \<Rightarrow> nat \<Rightarrow> sync \<Rightarrow> rpc_event list \<times> sync" where
  "fetchMany rpc 0 s = ([], s)"
| "fetchMany rpc (Suc n) s = (case fetchRaw rpc s of
     (Inl e, s') \<Rightarrow> fetchMany rpc n s'
   | (Inr es, s') \<Rightarrow> (case fetchMany rpc n s' of (fs, s'') \<Rightarrow> (es @ fs, s'')))"

lemma sorted_append_last:
  assumes "sorted_wrt (<) (a # xs)" and "last (a # xs) \<le> (b :: 'a :: order)"
    and "sorted_wrt (<) (b # ys)"
  shows "sorted_wrt (<) (a # xs @ ys)"
proof -
  have "x < y" if "x \<in> set (a # xs)" "y \<in> set ys" for x y
  proof -
    have "x \<le> b" using le_last [OF assms(1) that(1)] assms(2) by (rule order_trans)
    moreover have "b < y" using assms(3) that(2) by simp
    ultimately show ?thesis by (rule le_less_trans)
  qed
  then have "sorted_wrt (<) ((a # xs) @ ys)"
    using assms(1,3) by (simp only: sorted_wrt_append) auto
  then show ?thesis by simp
qed

section \<open>Properties\<close>

text \<open>
  C11. As long as the network gives its events a ledger and an index, the events
  that the indexer reads over any number of polls, with or without failed requests and through any
  paging, all come from successful calls, lie strictly after the cursor it started from and have
  strictly increasing positions: none is ever processed twice.
\<close>

theorem polls_process_once:
  assumes "placedRpc rpc" and "placedCursor (sy_cursor s)"
  shows "sorted_wrt (<) (cursorPos (sy_cursor s) # map eventPos (fst (fetchMany rpc n s))) \<and>
    (\<forall>e \<in> set (fst (fetchMany rpc n s)). re_success e \<noteq> Some False)"
  using assms(2)
proof (induction n arbitrary: s)
  case 0
  then show ?case by simp
next
  case (Suc n)
  obtain r s' where raw: "fetchRaw rpc s = (r, s')" by fastforce
  show ?case
  proof (cases r)
    case (Inl e)
    with raw have "sy_cursor s' = sy_cursor s" by (simp add: fetchRaw_error)
    with Suc.IH [of s'] Suc.prems raw Inl show ?thesis by simp
  next
    case (Inr es)
    note climb = fetchRaw_climbs [OF assms(1) Suc.prems raw [unfolded Inr]]
    then have rest: "sorted_wrt (<) (cursorPos (sy_cursor s') # map eventPos (fst (fetchMany rpc n s')))"
      "\<forall>e \<in> set (fst (fetchMany rpc n s')). re_success e \<noteq> Some False"
      using Suc.IH by auto
    have "fst (fetchMany rpc (Suc n) s) = es @ fst (fetchMany rpc n s')"
      using raw Inr by (simp add: split_beta)
    moreover have "sorted_wrt (<)
        (cursorPos (sy_cursor s) # map eventPos es @ map eventPos (fst (fetchMany rpc n s')))"
      using climb rest(1) by (blast intro: sorted_append_last)
    ultimately show ?thesis using climb rest(2) by auto
  qed
qed


definition demoEvent :: "int \<Rightarrow> int \<Rightarrow> rpc_event" where
  "demoEvent l t = \<lparr>re_ledger = Some (ofInt l), re_txHash = None, re_txIndex = Some (ofInt t),
     re_success = None, re_topic = Some [JStr ''credit_minted''],
     re_value = JObj [(''credit_id'', JNum (ofInt 2)), (''token_id'', JStr ''t'')]\<rparr>"

definition demoRpc :: rpc where
  "demoRpc k l = (if k = 0 then Inr (Events [demoEvent 7 1, demoEvent 7 2])
     else if k = 1 then Inr (Events [demoEvent 8 0, demoEvent 8 1]) else Inr (Events []))"

definition demoSync :: sync where
  "demoSync = \<lparr>sy_cursor = \<lparr>sc_ledger = ofInt 7, sc_txIndex = ofInt 0\<rparr>, sy_running = False,
     sy_contractIds = [''C1''], sy_warnedNoContracts = False, sy_requests = 0\<rparr>"

theorem polls_process_once_witness:
  "sorted_wrt (<) ((7, 0) # map eventPos (fst (fetchMany demoRpc 2 demoSync))) \<and>
   map eventPos (fst (fetchMany demoRpc 2 demoSync)) = [(7, 1), (7, 2), (8, 1)]"
proof -
  have "placed (demoEvent l t)" if "0 \<le> l" "l < 2 ^ 32" for l t
    using that by (auto simp: placed_def demoEvent_def evTxIndex_def orElse_def)
  then have rpc: "placedRpc demoRpc" by (auto simp: placedRpc_def demoRpc_def split: if_splits)
  have cur: "placedCursor (sy_cursor demoSync)" "cursorPos (sy_cursor demoSync) = (7, 0)"
    by (auto simp: placedCursor_def demoSync_def cursorPos_def)
  have "map eventPos (fst (fetchMany demoRpc 2 demoSync)) = [(7, 1), (7, 2), (8, 1)]"
    by code_simp
  with polls_process_once [OF rpc cur(1), of 2] cur(2) show ?thesis by simp
qed

text \<open>
  The first transaction of a ledger is lost when the poll before drained the ledger before it: of
  the events at (8, 0) and (8, 1) above only the second is read.  And an event whose ledger and
  index equal those of the one before it is dropped, so of two events of one transaction only the
  first is.
\<close>

lemma first_of_ledger_lost:
  "map eventPos (fst (fetchMany demoRpc 5 demoSync)) = [(7, 1), (7, 2), (8, 1)] \<and>
   demoRpc 1 (ofInt 8) = Inr (Events [demoEvent 8 0, demoEvent 8 1])"
  by code_simp

lemma same_transaction_dropped:
  assumes "placed e" and "placed e'" and "placedCursor c" and "eventPos e' = eventPos e"
  shows "fst (scanPage c [e, e']) = (if re_success e \<noteq> Some False \<and> cursorPos c < eventPos e
      then [e] else if re_success e' \<noteq> Some False \<and> cursorPos c < eventPos e' then [e'] else [])"
  using assms seen_pos [OF assms(1,3)] seen_pos [OF assms(2,3)] advance_pos [OF assms(1,3)]
    seen_pos(1) [OF assms(2), of "advance c e"]
  by (auto simp: not_le split: prod.splits)

lemma scanPage_complete:
  assumes "\<forall>e \<in> set es. placed e \<and> re_success e \<noteq> Some False" and "placedCursor c"
    and "sorted_wrt (\<lambda>e f. eventPos e < eventPos f) es"
  shows "fst (scanPage c es) = filter (\<lambda>e. cursorPos c < eventPos e) es"
  using assms
proof (induction es arbitrary: c)
  case Nil
  then show ?case by simp
next
  case (Cons e es)
  show ?case
  proof (cases "cursorPos c < eventPos e")
    case True
    have adv: "placedCursor (advance c e)" "cursorPos (advance c e) = eventPos e"
      using advance_pos [OF _ Cons.prems(2) True] Cons.prems(1) by auto
    have "\<forall>f \<in> set es. eventPos e < eventPos f" using Cons.prems(3) by simp
    with True have "filter (\<lambda>e. cursorPos c < eventPos e) es = es"
      "filter (\<lambda>f. eventPos e < eventPos f) es = es"
      by (auto simp: filter_id_conv intro: less_trans)
    moreover have "fst (scanPage (advance c e) es) = filter (\<lambda>f. eventPos e < eventPos f) es"
      using Cons adv by simp
    moreover have "\<not> alreadySeen c e"
      using seen_pos(1) [of e c] Cons.prems True by (auto simp: not_le)
    ultimately show ?thesis using True Cons.prems(1) by (simp add: split_beta)
  next
    case False
    then have "alreadySeen c e" using seen_pos(1) [of e c] Cons.prems by (auto simp: not_less)
    with False Cons show ?thesis by simp
  qed
qed

text \<open>
  A poll whose first page is shorter than the limit, in increasing order of
  position, reads exactly the events of the page that lie after the cursor, and then moves the
  cursor to the ledger after the last of them, or leaves it when there is none.
\<close>

theorem short_page_complete:
  assumes "rpc (sy_requests s) (sc_ledger (sy_cursor s)) = Inr (Events page)"
    and "length page < 100" and "\<forall>e \<in> set page. placed e \<and> re_success e \<noteq> Some False"
    and "sorted_wrt (\<lambda>e f. eventPos e < eventPos f) page"
    and "placedCursor (sy_cursor s)" and "sy_contractIds s \<noteq> []"
  defines "new \<equiv> filter (\<lambda>e. cursorPos (sy_cursor s) < eventPos e) page"
  shows "fst (fetchRaw rpc s) = Inr new \<and>
    cursorPos (sy_cursor (snd (fetchRaw rpc s))) =
      (if new = [] then cursorPos (sy_cursor s) else (fst (eventPos (last new)) + 1, 0))"
proof -
  let ?c = "sy_cursor s"
  obtain acc seen where scan: "scanPage ?c page = (acc, seen)" by fastforce
  have acc: "acc = new"
    using scanPage_complete [OF assms(3) assms(5) assms(4)] scan by (simp add: new_def)
  have climb: "climbs ?c new seen"
    using scanPage_climbs [OF _ assms(5) scan] assms(3) acc by auto
  obtain m where m: "MAX_PAGES = Suc m" by (simp add: MAX_PAGES_def)
  have page: "fetchEventPage rpc (sy_requests s) (sc_ledger ?c) = Inr page"
    using assms(1) by (simp add: fetchEventPage_def)
  let ?st = "\<lparr>ss_accepted = new, ss_seen = seen, ss_drained = True\<rparr>"
  have loop: "pageLoop rpc MAX_PAGES (sy_requests s) (sc_ledger ?c)
      \<lparr>ss_accepted = [], ss_seen = ?c, ss_drained = False\<rparr> = (Inr ?st, Suc (sy_requests s))"
    using page scan assms(2) acc by (auto simp: m PAGE_LIMIT_def)
  have cur: "cursorPos (cursorAfter ?c ?st) =
      (if new = [] then cursorPos ?c else (fst (eventPos (last new)) + 1, 0))"
  proof (cases "new = []")
    case True
    with climb have "cursorPos seen = cursorPos ?c" "placedCursor seen" by (simp_all add: climbs_def)
    with assms(5) True show ?thesis
      by (auto simp: cursorAfter_def Let_def elim!: placedCursorE)
  next
    case False
    with climb have seen: "placedCursor seen" "cursorPos seen = eventPos (last new)"
      by (simp_all add: climbs_def last_map)
    then obtain l t where "seen = \<lparr>sc_ledger = ofInt l, sc_txIndex = ofInt t\<rparr>" "0 \<le> l" "l \<le> 2 ^ 32"
      "cursorPos seen = (l, t)" by (elim placedCursorE)
    moreover from this have "safeInt (l + 1)" by (simp add: safeInt_def)
    ultimately show ?thesis
      using False seen(2) [symmetric]
      by (simp add: cursorAfter_def Let_def num_add_ofInt) (simp add: cursorPos_def)
  qed
  show ?thesis using loop cur assms(6) by (simp add: fetchRaw_def Let_def)
qed

theorem short_page_complete_witness:
  "fst (fetchRaw demoRpc demoSync) = Inr [demoEvent 7 1, demoEvent 7 2] \<and>
   cursorPos (sy_cursor (snd (fetchRaw demoRpc demoSync))) = (8, 0)"
proof -
  let ?page = "[demoEvent 7 1, demoEvent 7 2]"
  have "demoRpc (sy_requests demoSync) (sc_ledger (sy_cursor demoSync)) = Inr (Events ?page)"
    "length ?page < 100" "sy_contractIds demoSync \<noteq> []"
    by (simp_all add: demoRpc_def demoSync_def)
  moreover have "\<forall>e \<in> set ?page. placed e \<and> re_success e \<noteq> Some False"
    by (auto simp: placed_def demoEvent_def evTxIndex_def orElse_def)
  moreover have pos: "eventPos (demoEvent l t) = (l, t)" for l t
    by (simp add: eventPos_def demoEvent_def evTxIndex_def orElse_def)
  then have "sorted_wrt (\<lambda>e f. eventPos e < eventPos f) ?page" by simp
  moreover have "placedCursor (sy_cursor demoSync)" "cursorPos (sy_cursor demoSync) = (7, 0)"
    by (auto simp: placedCursor_def demoSync_def cursorPos_def)
  ultimately show ?thesis
    using short_page_complete [of demoRpc demoSync ?page] by (simp add: pos)
qed

lemma fetchRaw_requests:
  "sy_contractIds s \<noteq> [] \<Longrightarrow> fetchRaw rpc s = (r, s') \<Longrightarrow>
   sy_requests s < sy_requests s' \<and> sy_running s' = sy_running s \<and> sy_contractIds s' = sy_contractIds s"
proof -
  have up: "pageLoop rpc n k l st = (r, k') \<Longrightarrow> k + (if n = 0 then 0 else 1) \<le> k'" for n k l st r k'
  proof (induction n arbitrary: k l st)
    case 0
    then show ?case by simp
  next
    case (Suc n)
    then show ?case
      by (auto simp: Let_def split: sum.splits if_splits prod.splits) (metis Suc_leD add_leE)
  qed
  assume "sy_contractIds s \<noteq> []" "fetchRaw rpc s = (r, s')"
  then show ?thesis
    by (auto simp: fetchRaw_def Let_def MAX_PAGES_def split: prod.splits sum.splits
        dest!: up [of 50, unfolded])
qed

text \<open>Once the server has nothing more to say, a poll reads nothing.\<close>

lemma silent_fetch:
  assumes "rpc (sy_requests s) (sc_ledger (sy_cursor s)) = Inr (Events [])"
  shows "\<exists>s'. fetchEvents rpc s = (Inr [], s')"
proof -
  obtain m where m: "MAX_PAGES = Suc m" by (simp add: MAX_PAGES_def)
  have "fst (fetchRaw rpc s) = Inr []"
    using assms by (simp add: fetchRaw_def Let_def m fetchEventPage_def)
  then show ?thesis
    by (cases "fetchRaw rpc s") (simp add: fetchEvents_def map_filter_def)
qed

lemma fetchEvents_requests:
  "sy_contractIds s \<noteq> [] \<Longrightarrow> fetchEvents rpc s = (r, s') \<Longrightarrow>
   sy_requests s < sy_requests s' \<and> sy_contractIds s' = sy_contractIds s"
  using fetchRaw_requests by (fastforce simp: fetchEvents_def split: prod.splits)

lemma resyncLoop_returns:
  assumes "\<forall>k l. N \<le> k \<longrightarrow> rpc k l = Inr (Events [])" and "sy_contractIds (fst sw) \<noteq> []"
  shows "\<exists>res. resyncLoop E rpc processed sw = Some res"
  using assms(2)
proof (induction "N - sy_requests (fst sw)" arbitrary: sw processed rule: less_induct)
  case less
  show ?case
  proof (cases "N \<le> sy_requests (fst sw)")
    case True
    then obtain s' where "fetchEvents rpc (fst sw) = (Inr [], s')"
      using assms(1) silent_fetch [of rpc "fst sw"] by blast
    then show ?thesis by (subst resyncLoop.simps) simp
  next
    case False
    obtain r s' where fetch: "fetchEvents rpc (fst sw) = (r, s')" by fastforce
    note up = fetchEvents_requests [OF less.prems fetch]
    obtain q w' where run: "forE (case r of Inl _ \<Rightarrow> [] | Inr evs \<Rightarrow> evs) (processEvent E) (snd sw) = (q, w')"
      by fastforce
    have "N - sy_requests (fst (s', w')) < N - sy_requests (fst sw)"
      using up False by (auto intro: diff_less_mono2)
    moreover have "sy_contractIds (fst (s', w')) \<noteq> []" using up less.prems by simp
    ultimately have "\<exists>res. resyncLoop E rpc n (s', w') = Some res" for n by (rule less.hyps)
    then show ?thesis
      using run by (subst resyncLoop.simps) (auto simp: fetch split: sum.splits)
  qed
qed



text \<open>
  \<open>main.ts\<close> re-syncs before \<open>start\<close> has set the running flag, so the re-sync reads and processes
  nothing; it only resets the cursor.
\<close>

lemma resync_before_start:
  "\<not> sy_running s \<Longrightarrow>
   resyncFromGenesis E rpc (s, w) = Some (Inr 0, (s\<lparr>sy_cursor := initialCursor\<rparr>, w))"
  by (simp add: resyncFromGenesis_def resyncLoop.simps)

text \<open>
  The cursor moves when the events are read, before they are processed: when one fails, it and the
  ones after it are not read again.
\<close>

lemma failed_poll_moves_cursor:
  assumes "fetchEvents rpc s = (Inr evs, s')"
  shows "fst (snd (poll E rpc (s, w))) = s'"
  using assms by (simp add: poll_def split: prod.splits)

text \<open>
  The contracts publish a pair of topics, \<open>credit\<close> or \<open>offer\<close> or \<open>retire\<close> first; the decoder knows
  none of them, so it drops these events.
\<close>

lemma contract_topics_unknown:
  assumes "topicAt e 0 \<in> {JStr ''credit'', JStr ''offer'', JStr ''retire''}"
  shows "parseRpcEvent e = None"
  using assms by (auto simp: parseRpcEvent_def parseTopic_def)

definition TOPICS :: "string list" where
  "TOPICS = [''bridged'', ''bridge_ot'', ''root_upd'', ''credit_submitted'', ''credit_approved'',
     ''credit_minted'', ''credit_rejected'', ''credit_transferred'', ''credit_retired'',
     ''offer_created'', ''offer_filled'', ''offer_cancelled'']"

fun kindTopic :: "sync_event \<Rightarrow> string" where
  "kindTopic (CreditSubmitted d) = ''credit_submitted''"
| "kindTopic (CreditApproved d) = ''credit_approved''"
| "kindTopic (CreditMinted d) = ''credit_minted''"
| "kindTopic (CreditRejected d) = ''credit_rejected''"
| "kindTopic (CreditTransferred d) = ''credit_transferred''"
| "kindTopic (CreditRetired d) = ''credit_retired''"
| "kindTopic (OfferCreated d) = ''offer_created''"
| "kindTopic (OfferFilled d) = ''offer_filled''"
| "kindTopic (OfferCancelled d) = ''offer_cancelled''"
| "kindTopic (CreditBridged d) = ''bridged''"
| "kindTopic (CreditBridgedOut d) = ''bridge_ot''"
| "kindTopic (RegistryRootUpdated d) = ''root_upd''"

lemma parseTopic_known: "t \<in> set TOPICS \<Longrightarrow> \<exists>ev. parseTopic e t = Some ev \<and> kindTopic ev = t"
  by (auto simp: TOPICS_def parseTopic_def Let_def)

lemma parseTopic_SomeD: "parseTopic e t = Some ev \<Longrightarrow> t = kindTopic ev"
  by (auto simp: parseTopic_def Let_def split: if_splits)

lemma kindTopic_known: "kindTopic ev \<in> set TOPICS"
  by (cases ev) (simp_all add: TOPICS_def)

text \<open>
  An event decodes to one of the kind \<open>t\<close> exactly when it has a value and its first
  topic is \<open>t\<close>, one of the twelve known topics; everything else is dropped.
\<close>

theorem parse_kind:
  "(\<exists>ev. parseRpcEvent e = Some ev \<and> kindTopic ev = t) \<longleftrightarrow>
     truthy (re_value e) \<and> topicAt e 0 = JStr t \<and> t \<in> set TOPICS"
  using parseTopic_known [of t e] kindTopic_known
  by (auto simp: parseRpcEvent_def dest: parseTopic_SomeD split: jsval.splits)

end
