(* ===== verification/Lifecycle.thy ===== *)
theory Lifecycle
  imports Controllers IndexerSync
begin

text \<open>
  The contract that all routes together keep: the life of a credit.  \<open>lifecycle_step\<close> is the abstract
  machine, on a map from credit numbers to statuses; \<open>registryOf\<close> reads that map off the table.
  Every request of the API makes at most one abstract step.
\<close>

section \<open>The abstract machine\<close>

instantiation credit_status :: order
begin

definition less_eq_credit_status :: "credit_status \<Rightarrow> credit_status \<Rightarrow> bool" where
  "s \<le> t \<longleftrightarrow> s = t \<or> (s = CPending \<and> t \<in> {CActive, CRejected, CRetired}) \<or>
     (s = CActive \<and> t = CRetired)"

definition less_credit_status :: "credit_status \<Rightarrow> credit_status \<Rightarrow> bool" where
  "s < t \<longleftrightarrow> s \<le> t \<and> s \<noteq> (t :: credit_status)"

instance
  by standard (auto simp: less_eq_credit_status_def less_credit_status_def)

end

type_synonym registry = "int \<Rightarrow> credit_status option"

inductive lifecycle_step :: "registry \<Rightarrow> registry \<Rightarrow> bool" where
  stay: "lifecycle_step m m"
| submit: "m n = None \<Longrightarrow> (\<forall>k \<in> dom m. k < n) \<Longrightarrow> lifecycle_step m (m(n \<mapsto> CPending))"
| activate: "m n = Some CPending \<Longrightarrow> lifecycle_step m (m(n \<mapsto> CActive))"
| reject: "m n = Some CPending \<Longrightarrow> lifecycle_step m (m(n \<mapsto> CRejected))"
| retire: "m n = Some CActive \<Longrightarrow> lifecycle_step m (m(n \<mapsto> CRetired))"

inductive_cases lifecycle_stepE: "lifecycle_step m m'"

definition registryOf :: "world \<Rightarrow> registry" where
  "registryOf w = map_of (map (\<lambda>c. (cr_creditId c, cr_status c)) (credits w))"

text \<open>An abstract step never loses a credit and only moves its status forward.\<close>

lemma lifecycle_forward:
  "lifecycle_step m m' \<Longrightarrow> m n = Some s \<Longrightarrow> \<exists>t. m' n = Some t \<and> s \<le> t"
  by (elim lifecycle_stepE) (auto simp: less_eq_credit_status_def)

lemma lifecycle_reach_forward:
  "lifecycle_step\<^sup>*\<^sup>* m m' \<Longrightarrow> m n = Some s \<Longrightarrow> \<exists>t. m' n = Some t \<and> s \<le> t"
  by (induction rule: rtranclp_induct) (auto dest: lifecycle_forward intro: order_trans)

lemma lifecycle_terminal:
  "s \<in> {CRejected, CRetired, CBridged} \<Longrightarrow> s \<le> t \<Longrightarrow> t = (s :: credit_status)"
  by (auto simp: less_eq_credit_status_def)

section \<open>The table as a map\<close>

lemma registryOf_Some:
  assumes "distinct (map cr_creditId (credits w))" and "creditByNumber w n = Some c"
  shows "registryOf w n = Some (cr_status c)"
  using creditByNumber_D [OF assms(2)] assms(1)
  by (auto simp: registryOf_def comp_def intro!: map_of_is_SomeI)

lemma registryOf_dom: "k \<in> dom (registryOf w) \<longleftrightarrow> (\<exists>c \<in> set (credits w). cr_creditId c = k)"
  by (force simp: registryOf_def dom_map_of_conv_image_fst)

lemma map_of_updWhere:
  assumes "\<And>c. cr_creditId c = n \<Longrightarrow> cr_creditId (f c) = n \<and> cr_status (f c) = s"
  shows "map_of (map (\<lambda>c. (cr_creditId c, cr_status c)) (updWhere (\<lambda>c. cr_creditId c = n) f cs))
    = (let m = map_of (map (\<lambda>c. (cr_creditId c, cr_status c)) cs) in
       if m n = None then m else m(n \<mapsto> s))"
  by (induction cs) (auto simp: fun_eq_iff assms Let_def)

lemma registryOf_update:
  assumes "credits w' = updWhere (\<lambda>c. cr_creditId c = n) f (credits w)"
    and "creditByNumber w n = Some c" and "distinct (map cr_creditId (credits w))"
    and "\<And>c. cr_creditId (f c) = cr_creditId c \<and> cr_status (f c) = s"
  shows "registryOf w' = (registryOf w)(n \<mapsto> s)"
proof -
  have "registryOf w n \<noteq> None" using registryOf_Some [OF assms(3,2)] by simp
  moreover have "registryOf w' = (let m = registryOf w in if m n = None then m else m(n \<mapsto> s))"
    unfolding registryOf_def assms(1) by (rule map_of_updWhere) (simp add: assms(4))
  ultimately show ?thesis by (auto simp: Let_def)
qed

lemma registryOf_snoc:
  assumes "credits w' = credits w @ [c]" and "cr_creditId c \<notin> dom (registryOf w)"
  shows "registryOf w' = (registryOf w)(cr_creditId c \<mapsto> cr_status c)"
  using assms(2) by (auto simp: registryOf_def assms(1) map_add_def fun_eq_iff split: option.split)

text \<open>The column that the map is read from.\<close>

definition columnOf :: "(credit \<Rightarrow> 'k) \<Rightarrow> world \<Rightarrow> 'k list" where
  "columnOf k w = map k (credits w)"

definition statuses :: "world \<Rightarrow> (int \<times> credit_status) list" where
  "statuses = columnOf (\<lambda>c. (cr_creditId c, cr_status c))"

lemma statuses_registry: "statuses w' = statuses w \<Longrightarrow> registryOf w' = registryOf w"
  by (simp add: statuses_def columnOf_def registryOf_def)

section \<open>The requests that change a status\<close>

definition refinesStep :: "unit op \<Rightarrow> bool" where
  "refinesStep m \<longleftrightarrow> (\<forall>w. keysOk w \<longrightarrow> lifecycle_step (registryOf w) (registryOf (snd (m w))))"

lemma keysOk_numbers: "keysOk w \<Longrightarrow> distinct (map cr_creditId (credits w))"
  by (simp add: keysOk_def)

lemma stay_credits: "credits w' = credits w \<Longrightarrow> lifecycle_step (registryOf w) (registryOf w')"
  by (simp add: registryOf_def stay)

lemma voidE_run: "voidE m w = (r, w') \<Longrightarrow> \<exists>x. m w = (x, w')"
  by (auto simp: voidE_def act_simps split: prod.splits sum.splits)

lemma refinesStepI:
  assumes "\<And>w v w'. keysOk w \<Longrightarrow> m w = (Inr v, w') \<Longrightarrow> lifecycle_step (registryOf w) (registryOf w')"
    and "\<And>w e w'. keysOk w \<Longrightarrow> m w = (Inl e, w') \<Longrightarrow> lifecycle_step (registryOf w) (registryOf w')"
  shows "refinesStep (voidE m)"
  unfolding refinesStep_def
proof (intro allI impI)
  fix w assume k: "keysOk w"
  obtain r w' where v: "voidE m w = (r, w')" by fastforce
  then obtain x where "m w = (x, w')" by (blast dest: voidE_run)
  with assms k v show "lifecycle_step (registryOf w) (registryOf (snd (voidE m w)))"
    by (cases x) auto
qed

lemma refines_keeps: "keeps statuses m \<Longrightarrow> refinesStep m"
  unfolding refinesStep_def by (metis keeps_snd statuses_registry stay)

text \<open>A method that changes \<open>p\<close> only in a last statement, after which nothing throws.\<close>

definition failsClean :: "(world \<Rightarrow> 'f) \<Rightarrow> 'a op \<Rightarrow> bool" where
  "failsClean p m \<longleftrightarrow> (\<forall>w e w'. m w = (Inl e, w') \<longrightarrow> p w' = p w)"

lemma failsClean_bindE:
  "keeps p m \<Longrightarrow> (\<And>x. failsClean p (f x)) \<Longrightarrow> failsClean p (bindE m f)"
  unfolding failsClean_def
proof (intro allI impI)
  fix w e w'
  assume k: "keeps p m" and f: "\<And>x. \<forall>w e w'. f x w = (Inl e, w') \<longrightarrow> p w' = p w"
    and r: "bindE m f w = (Inl e, w')"
  from bindE_InlD [OF r] show "p w' = p w"
  proof
    assume "m w = (Inl e, w')"
    with k show ?thesis by (rule keepsD)
  next
    assume "\<exists>x s. m w = (Inr x, s) \<and> f x s = (Inl e, w')"
    then obtain x s where "m w = (Inr x, s)" "f x s = (Inl e, w')" by blast
    with keepsD [OF k, of w] f [of x] show ?thesis by metis
  qed
qed

lemma failsClean_seqE: "keeps p m \<Longrightarrow> failsClean p n \<Longrightarrow> failsClean p (seqE m n)"
  by (simp add: seqE_def failsClean_bindE)

lemma emit_ret_Inr: "fst (seqE (emit E t d) (ret v) w) = Inr v"
  by (rule emit_cases [of E t d w]) (simp add: seqE_apply)

lemma failsClean_insert_last:
  "failsClean p (bindE (dbInsert upd chk row) (\<lambda>r. seqE (emit E (t r) (d r)) (ret (v r))))"
  unfolding failsClean_def
proof (intro allI impI)
  fix w e w'
  assume r: "bindE (dbInsert upd chk row) (\<lambda>r. seqE (emit E (t r) (d r)) (ret (v r))) w = (Inl e, w')"
  have "seqE (emit E (t x) (d x)) (ret (v x)) s \<noteq> (Inl e, w')" for x s
    using emit_ret_Inr [of E "t x" "d x" "v x" s] by auto
  with r have "dbInsert upd chk row w = (Inl e, w')" by (blast dest: bindE_InlD)
  then show "p w' = p w" by (auto simp: dbInsert_def split: option.splits)
qed

lemma keeps_dateArg: "keeps p (dateArg E s)"
  unfolding dateArg_def by (intro act_intros)

lemma refines_issueCredit: "refinesStep (voidE (issueCredit E uid wal dto))"
proof (rule refinesStepI)
  fix w v w' assume k: "keysOk w" and "issueCredit E uid wal dto w = (Inr v, w')"
  then have c: "credits w' = credits w @ [v]" "cr_creditId v = getNextCreditCounter w"
      "cr_status v = CPending" by (auto dest: issueCredit_InrD)
  have up: "\<forall>k \<in> dom (registryOf w). k < cr_creditId v"
    unfolding registryOf_dom Ball_def c(2) using getNextCreditCounter_upper [of _ w] by blast
  then have "cr_creditId v \<notin> dom (registryOf w)" by auto
  then show "lifecycle_step (registryOf w) (registryOf w')"
    using up registryOf_snoc [OF c(1)] by (simp add: c(3) domIff submit)
next
  fix w e w' assume "issueCredit E uid wal dto w = (Inl e, w')"
  moreover have "failsClean credits (issueCredit E uid wal dto)"
    unfolding issueCredit_def Let_def submitCredit_def
    by (intro failsClean_insert_last failsClean_bindE failsClean_seqE keeps_dateArg act_intros) simp_all
  ultimately have "credits w' = credits w" by (simp add: failsClean_def)
  then show "lifecycle_step (registryOf w) (registryOf w')" by (rule stay_credits)
qed

lemma refines_approveCredit: "refinesStep (voidE (approveCredit E uid wal n cm))"
proof (rule refinesStepI)
  fix w v w' assume k: "keysOk w" and "approveCredit E uid wal n cm w = (Inr v, w')"
  then obtain c tx b where c: "creditByNumber w n = Some c" "cr_status c = CPending"
    and w': "credits w' = (if b then updWhere (\<lambda>c. cr_creditId c = n) (approvedUpdate E tx) (credits w)
      else credits w)"
    by (blast dest: approveCredit_InrD)
  show "lifecycle_step (registryOf w) (registryOf w')"
  proof (cases b)
    case True
    with w' have u: "credits w' = updWhere (\<lambda>c. cr_creditId c = n) (approvedUpdate E tx) (credits w)"
      by simp
    have "registryOf w' = (registryOf w)(n \<mapsto> CActive)"
      by (rule registryOf_update [OF u c(1) keysOk_numbers [OF k]])
         (simp add: approvedUpdate_def stamped_def)
    with registryOf_Some [OF keysOk_numbers [OF k] c(1)] c(2) show ?thesis by (simp add: activate)
  qed (use w' in \<open>simp add: stay_credits\<close>)
qed (auto dest!: approveCredit_InlD simp: sameRegistry_def stay_credits)

lemma refines_rejectCredit: "refinesStep (voidE (rejectCredit E uid wal n rs))"
proof (rule refinesStepI)
  fix w v w' assume k: "keysOk w" and "rejectCredit E uid wal n rs w = (Inr v, w')"
  then obtain c b where c: "creditByNumber w n = Some c" "cr_status c = CPending"
    and w': "credits w' = (if b then updWhere (\<lambda>c. cr_creditId c = n) (rejectedUpdate E) (credits w)
      else credits w)"
    by (blast dest: rejectCredit_InrD)
  show "lifecycle_step (registryOf w) (registryOf w')"
  proof (cases b)
    case True
    with w' have u: "credits w' = updWhere (\<lambda>c. cr_creditId c = n) (rejectedUpdate E) (credits w)"
      by simp
    have "registryOf w' = (registryOf w)(n \<mapsto> CRejected)"
      by (rule registryOf_update [OF u c(1) keysOk_numbers [OF k]])
         (simp add: rejectedUpdate_def stamped_def)
    with registryOf_Some [OF keysOk_numbers [OF k] c(1)] c(2) show ?thesis by (simp add: reject)
  qed (use w' in \<open>simp add: stay_credits\<close>)
qed (auto dest!: rejectCredit_InlD simp: sameRegistry_def stay_credits)

lemma refines_retireCredit: "refinesStep (voidE (retireCredit E uid wal n dto))"
proof (rule refinesStepI)
  fix w v w' assume k: "keysOk w" and r: "retireCredit E uid wal n dto w = (Inr v, w')"
  from retireCredit_InrD [OF r] obtain c b where
    c: "creditByNumber w n = Some c" "cr_status c = CActive"
    and w': "credits w' = (if b then updWhere (\<lambda>c. cr_creditId c = n) (retiredUpdate E) (credits w)
      else credits w)" by blast
  show "lifecycle_step (registryOf w) (registryOf w')"
  proof (cases b)
    case True
    with w' have u: "credits w' = updWhere (\<lambda>c. cr_creditId c = n) (retiredUpdate E) (credits w)"
      by simp
    have "registryOf w' = (registryOf w)(n \<mapsto> CRetired)"
      by (rule registryOf_update [OF u c(1) keysOk_numbers [OF k]]) (simp add: retiredUpdate_def)
    with registryOf_Some [OF keysOk_numbers [OF k] c(1)] c(2) show ?thesis by (simp add: retire)
  qed (use w' in \<open>simp add: stay_credits\<close>)
qed (auto dest!: retireCredit_InlD simp: stay_credits)

section \<open>The requests that change none\<close>

lemmas keeps_case [act_intros] = frame_rel.option_case [folded keeps_def]

lemma keeps_prod_case [act_intros]:
  "(\<And>a b. keeps p (f a b)) \<Longrightarrow> keeps p (case x of (a, b) \<Rightarrow> f a b)"
  by (cases x) simp

lemma readonly_keeps: "(\<And>w r w'. m w = (r, w') \<Longrightarrow> w' = w) \<Longrightarrow> keeps p m"
  by (simp add: keeps_def relates_def) (metis prod.exhaust_sel)

lemma keeps_args [act_intros]: "keeps p (intArg x)" "keeps p (dateMs x)"
  by (rule readonly_keeps;
      auto simp: intArg_state dateMs_def dest: intArg_state split: jsnum.splits if_splits)+

lemmas market_defs = createOffer_def offerGuards_def stellarCreateOffer_def buyCredits_def
  buyGuards_def settlePurchase_def createTrade_def updateOffer_def stellarBuyCredits_def
  transferCredit_def cancelOffer_def stellarCancelOffer_def

text \<open>
  A property of credits that a change of owner leaves alone is a column that only issuing and the
  three requests on the status can change.
\<close>

locale credit_column =
  fixes k :: "credit \<Rightarrow> 'k"
  assumes owner: "k (c\<lparr>cr_ownerId := u, cr_updatedAt := t\<rparr>) = k c"
begin

lemma frames:
  "keeps (columnOf k) (freshId E)" "keeps (columnOf k) (emit E t d)"
  "keeps (columnOf k) (signedCall E s key m args)" "keeps (columnOf k) (stellarInvoke E key m as sec)"
  "keeps (columnOf k) (dbInsert offers_update offerCheck r1)"
  "keeps (columnOf k) (dbInsert trades_update tradeCheck r2)"
  "keeps (columnOf k) (dbInsert verifiers_update verifierCheck r3)"
  "keeps (columnOf k) (dbInsert bridgeRecords_update bridgeCheck r4)"
  "keeps (columnOf k) (dbInsert certificates_update certificateCheck r5)"
  "keeps (columnOf k) (dbInsert webhooks_update webhookCheck r6)"
  "keeps (columnOf k) (dbInsert challenges_update challengeCheck r7)"
  "keeps (columnOf k) (dbInsert users_update userCheck r8)"
  "keeps (columnOf k) (dbUpdate offers offers_update P1 f1)"
  "keeps (columnOf k) (dbUpdate verifiers verifiers_update P2 f2)"
  "keeps (columnOf k) (dbUpdate bridgeRecords bridgeRecords_update P3 f3)"
  "keeps (columnOf k) (dbUpdate retirements retirements_update P4 f4)"
  "keeps (columnOf k) (dbUpdate challenges challenges_update P5 f5)"
  "keeps (columnOf k) (dbDelete webhooks webhooks_update P6)"
  by (intro keeps_freshId keeps_emit keeps_signedCall keeps_stellarInvoke keeps_insert_rules
      keeps_update_rules webhookT.keeps_delete; simp add: columnOf_def)+

lemma owner_update:
  "keeps (columnOf k) (dbUpdate credits credits_update P (\<lambda>c. c\<lparr>cr_ownerId := u, cr_updatedAt := t\<rparr>))"
  unfolding columnOf_def [abs_def] by (rule creditT.keeps_map_update) (simp add: owner)

lemma modify_challenges: "keeps (columnOf k) (modifyE (\<lambda>w. w\<lparr>challenges := g w\<rparr>))"
  by (rule keeps_modifyE) (simp add: columnOf_def)

lemma soroban: "keeps (columnOf k) (sorobanInvoke E cid m as sec a)"
  unfolding keeps_def
proof (rule relatesI)
  fix w
  obtain r w' where "sorobanInvoke E cid m as sec a w = (r, w')" by fastforce
  then show "columnOf k (snd (sorobanInvoke E cid m as sec a w)) = columnOf k w"
    by (auto dest!: sorobanInvoke_effect simp: columnOf_def)
qed

lemmas column_intros = frames owner_update modify_challenges soroban

lemma stay_market:
  "keeps (columnOf k) (createOffer E uid wal dto1)" "keeps (columnOf k) (buyCredits E uid wal n amount)"
  "keeps (columnOf k) (cancelOffer E uid n)"
  unfolding market_defs Let_def by (intro act_intros column_intros)+

lemma stay_verifiers:
  "keeps (columnOf k) (registerVerifier E uid wal dto2)" "keeps (columnOf k) (heartbeat E i)"
  unfolding registerVerifier_def stellarRegisterVerifier_def heartbeat_def
  by (intro act_intros column_intros)+

lemma stay_bridge:
  "keeps (columnOf k) (bridgeIn E uid wal dto3)" "keeps (columnOf k) (bridgeOut E uid wal n)"
  "keeps (columnOf k) (updateRegistryRoot E wal g r h)"
  unfolding bridgeIn_def stellarBridgeIn_def list.case bridgeOut_def bridgeOutGuards_def
    stellarBridgeOut_def updateRegistryRoot_def stellarUpdateRegistryRoot_def
  by (intro act_intros column_intros)+

lemma stay_certificates: "keeps (columnOf k) (enqueueBatch E uid ids)"
  unfolding enqueueBatch_def batchStep_def Let_def by (intro act_intros column_intros)

lemma stay_auth:
  "keeps (columnOf k) (generateChallenge L E wal)" "keeps (columnOf k) (exchangeToken L E wal s cid)"
  unfolding generateChallenge_def exchangeToken_def challengeGuards_def findOrCreateUser_def Let_def
  by (intro act_intros column_intros)+

lemma stay_webhooks:
  "keeps (columnOf k) (registerWebhook E uid wdto)" "keeps (columnOf k) (removeWebhook uid i)"
  "keeps (columnOf k) (sendTest E uid i)"
  unfolding registerWebhook_def removeWebhook_def deleteWebhookRow_def sendTest_def
    ownedWebhook_def Let_def
  by (intro act_intros column_intros)+

lemma stay_admin:
  "keeps (columnOf k) (configureSplit E adm pid bs)"
  "keeps (columnOf k) (distributeSplit E wal pid a x)"
  "keeps (columnOf k) (updateProtocolConfig E cdto)" "keeps (columnOf k) (changeVerifier E m adr)"
  unfolding configureSplit_def configureRevenueSplit_def distributeSplit_def
    distributeRevenueSplit_def updateProtocolConfig_def changeVerifier_def
  by (intro act_intros column_intros)+

lemmas stay_requests = stay_market stay_verifiers stay_bridge stay_certificates stay_auth
  stay_webhooks stay_admin

end

interpretation statusColumn: credit_column "\<lambda>c. (cr_creditId c, cr_status c)"
  by unfold_locales simp

lemmas stay_requests = statusColumn.stay_requests [folded statuses_def]

lemma refines_userRoute: "refinesStep (userRoute E p req)"
proof (cases req)
  case (Credits r)
  then show ?thesis
    by (cases r) (simp_all add: refines_issueCredit refines_approveCredit refines_rejectCredit)
next
  case (Retire n dto)
  then show ?thesis by (simp add: retirementController_def refines_retireCredit)
next
  case (Marketplace r)
  then show ?thesis by (cases r) (simp_all add: refines_keeps keeps_voidE stay_requests)
next
  case (Verifiers r)
  then show ?thesis by (cases r) (simp_all add: refines_keeps keeps_voidE stay_requests)
next
  case (Bridge r)
  then show ?thesis by (cases r) (simp_all add: refines_keeps keeps_voidE stay_requests)
next
  case (RevenueSplit r)
  then show ?thesis by (cases r) (simp_all add: refines_keeps keeps_voidE stay_requests)
next
  case (Webhooks r)
  then show ?thesis by (cases r) (simp_all add: refines_keeps keeps_voidE stay_requests)
next
  case (Admin r)
  then show ?thesis
    by (cases r) (simp_all add: refines_keeps keeps_voidE stay_requests controller_defs)
qed (simp_all add: refines_keeps keeps_voidE keeps_rules stay_requests controller_defs)

lemma refines_handleRequest: "refinesStep (handleRequest L E bearer req)"
  unfolding refinesStep_def
proof (intro allI impI)
  fix w assume k: "keysOk w"
  show "lifecycle_step (registryOf w) (registryOf (snd (handleRequest L E bearer req w)))"
  proof (cases rule: handleRequest_cases [where L = L and E = E and w = w and bearer = bearer and req = req])
    case (rejected e)
    then show ?thesis by (simp add: stay)
  next
    case (user p)
    with k refines_userRoute [of E p req] show ?thesis by (simp add: refinesStep_def)
  next
    case (auth r)
    have "refinesStep (authController L E r)"
      by (cases r) (simp_all add: refines_keeps keeps_voidE stay_requests)
    with k auth show ?thesis by (simp add: refinesStep_def)
  qed
qed

end
