(* ===== verification/System.thy ===== *)
theory System
  imports Lifecycle Demo
begin

text \<open>
  The running system: requests and contract events, one after another, on the shared tables.  Two
  locales state what a step relation needs to carry an invariant and to simulate an abstract machine;
  they are interpreted on the system's steps.  The last section follows several verifiers who
  approve one credit.
\<close>

section \<open>Steps\<close>

inductive request_step :: "world \<Rightarrow> world \<Rightarrow> bool" where
  request: "handleRequest L E bearer req w = (r, w') \<Longrightarrow> request_step w w'"

inductive event_step :: "world \<Rightarrow> world \<Rightarrow> bool" where
  event: "processEvent E ev w = (r, w') \<Longrightarrow> event_step w w'"

inductive system_step :: "world \<Rightarrow> world \<Rightarrow> bool" where
  by_request: "request_step w w' \<Longrightarrow> system_step w w'"
| by_event: "event_step w w' \<Longrightarrow> system_step w w'"

inductive_cases request_stepE: "request_step w w'"
inductive_cases event_stepE: "event_step w w'"
inductive_cases system_stepE: "system_step w w'"
inductive_simps system_step_iff: "system_step w w'"

locale machine =
  fixes step :: "'s \<Rightarrow> 's \<Rightarrow> bool" and inv :: "'s \<Rightarrow> bool"
  assumes step_inv: "inv s \<Longrightarrow> step s t \<Longrightarrow> inv t"
begin

lemma reach_inv: "step\<^sup>*\<^sup>* s t \<Longrightarrow> inv s \<Longrightarrow> inv t"
  by (induction rule: rtranclp_induct) (auto intro: step_inv)

end

locale simulation = machine step inv
  for step :: "'s \<Rightarrow> 's \<Rightarrow> bool" and inv :: "'s \<Rightarrow> bool" +
  fixes view :: "'s \<Rightarrow> 'a" and astep :: "'a \<Rightarrow> 'a \<Rightarrow> bool"
  assumes step_sim: "inv s \<Longrightarrow> step s t \<Longrightarrow> astep (view s) (view t)"
begin

lemma reach_sim: "step\<^sup>*\<^sup>* s t \<Longrightarrow> inv s \<Longrightarrow> astep\<^sup>*\<^sup>* (view s) (view t)"
proof (induction rule: rtranclp_induct)
  case (step t u)
  then have "inv t" by (simp add: reach_inv)
  with step show ?case by (auto intro: step_sim rtranclp.rtrancl_into_rtrancl)
qed simp

end

lemma processEvent_intact: "preserves (intact {}) (processEvent E ev)"
  by (cases ev)
     (simp_all add: intact_processCreditSubmitted intact_processCreditApproved
        intact_processCreditMinted intact_processCreditRejected intact_processCreditTransferred
        intact_processCreditRetired intact_processOfferCreated intact_processOfferFilled
        intact_processOfferCancelled intact_processCreditBridged intact_processCreditBridgedOut
        intact_processRegistryRootUpdated)

lemma request_step_schemaOk: "schemaOk w \<Longrightarrow> request_step w w' \<Longrightarrow> schemaOk w'"
  by (elim request_stepE) (metis handleRequest_schemaOk snd_conv)

lemma event_step_schemaOk: "schemaOk w \<Longrightarrow> event_step w w' \<Longrightarrow> schemaOk w'"
  by (elim event_stepE) (metis preservesD processEvent_intact intact_schemaOk)

lemma request_step_lifecycle:
  "schemaOk w \<Longrightarrow> request_step w w' \<Longrightarrow> lifecycle_step (registryOf w) (registryOf w')"
  by (elim request_stepE) (metis refines_handleRequest refinesStep_def schemaOk_def snd_conv)

interpretation sys: machine system_step schemaOk
  by unfold_locales (auto simp: system_step_iff intro: request_step_schemaOk event_step_schemaOk)

interpretation req: simulation request_step schemaOk registryOf lifecycle_step
  by unfold_locales (auto intro: request_step_schemaOk request_step_lifecycle)

section \<open>Several verifiers approve\<close>

definition approveAll :: "env \<Rightarrow> int \<Rightarrow> (string \<times> string) list \<Rightarrow> world \<Rightarrow> world" where
  "approveAll E n vs w =
     foldl (\<lambda>w (uid, wallet). snd (approveCredit E uid wallet n None w)) w vs"

lemma approveAll_simps [simp]:
  "approveAll E n [] w = w"
  "approveAll E n ((uid, wal) # vs) w = approveAll E n vs (snd (approveCredit E uid wal n None w))"
  by (simp_all add: approveAll_def)

text \<open>The ids that the generator has not given out are new to the table of approvals.\<close>

definition freshIds :: "env \<Rightarrow> world \<Rightarrow> bool" where
  "freshIds E w \<longleftrightarrow> (\<forall>k. idseq w \<le> k \<longrightarrow> cuid E k \<notin> set (map ap_id (approvals w)))"

lemma freshIds_keeps:
  "keeps (\<lambda>w. (idseq w, approvals w)) m \<Longrightarrow> preserves (freshIds E) m"
  by (auto simp: keeps_def preserves_def relates_def freshIds_def)

lemma freshIds_freshId [act_intros]: "preserves (freshIds E) (freshId E')"
  by (auto simp: preserves_def relates_def freshIds_def freshId_apply)

lemma freshIds_emit [act_intros]: "preserves (freshIds E) (emit E' t d)"
proof -
  have "preserves (freshIds E) (dbInsert deliveries_update deliveryCheck r)" for r
    by (rule freshIds_keeps, rule deliveryT.keeps_insert) simp
  moreover have "preserves (freshIds E) (modifyE (\<lambda>w. w\<lparr>emitted := g w\<rparr>))" for g
    by (rule preserves_modifyE) (simp add: freshIds_def)
  ultimately show ?thesis
    unfolding emit_def handleEvent_def dispatchEvent_def deliverWithRetry_def recordDelivery_def
    by (intro act_intros)
qed

lemma freshIds_createApproval:
  "inj (cuid E) \<Longrightarrow> preserves (freshIds E) (createApproval E c uid b cm)"
proof (rule preserves_runI)
  fix w a w' assume i: "inj (cuid E)" and f: "freshIds E w"
    and "createApproval E c uid b cm w = (Inr a, w')"
  then have w': "w' = w\<lparr>idseq := idseq w + 1, approvals := approvals w @ [a]\<rparr>"
    and a: "ap_id a = cuid E (idseq w)" by (auto dest: createApproval_InrD)
  show "freshIds E w'" unfolding freshIds_def
  proof (intro allI impI)
    fix k assume "idseq w' \<le> k"
    then have k: "idseq w \<le> k" "k \<noteq> idseq w" by (simp_all add: w')
    then have "cuid E k \<noteq> cuid E (idseq w)" using i by (auto dest: injD)
    with f k(1) show "cuid E k \<notin> set (map ap_id (approvals w'))" by (simp add: w' a freshIds_def)
  qed
next
  fix w e w' assume f: "freshIds E w" and "createApproval E c uid b cm w = (Inl e, w')"
  then have "w' = w\<lparr>idseq := idseq w + 1\<rparr>" by (blast dest: createApproval_InlD)
  with f show "freshIds E w'" by (simp add: freshIds_def del: set_map)
qed

lemma freshIds_signedCall [act_intros]: "preserves (freshIds E) (signedCall E' s key m args)"
  by (rule freshIds_keeps, rule keeps_signedCall) simp

lemma freshIds_approveCredit:
  assumes "inj (cuid E)" shows "preserves (freshIds E) (approveCredit E uid wal n cm)"
proof -
  have "preserves (freshIds E) (updateCredit E k f)" for k f
    unfolding updateCredit_def by (rule freshIds_keeps, rule creditT.keeps_update) simp
  then show ?thesis
    unfolding approveCredit_def Let_def requireVerifier_def loadPending_def approveAndMint_def
    by (intro act_intros freshIds_createApproval assms)
qed

lemma keeps_approveCredit:
  assumes "\<And>w x. p (w\<lparr>deliveries := x\<rparr>) = p w" "\<And>w n. p (w\<lparr>idseq := n\<rparr>) = p w"
    "\<And>w x. p (w\<lparr>emitted := x\<rparr>) = p w" "\<And>w x. p (w\<lparr>sent := x\<rparr>) = p w"
    "\<And>g w. p (credits_update g w) = p w" "\<And>g w. p (approvals_update g w) = p w"
  shows "keeps p (approveCredit E uid wal n cm)"
  unfolding approveCredit_def Let_def decision_parts createApproval_def
  by (intro act_intros assms)

text \<open>
  What an approval needs to return: the guards, a network that mints, and a database that takes the
  row.
\<close>

lemma approveCredit_returns:
  assumes v: "activeVerifier w uid" and c: "creditByNumber w n = Some c" "cr_status c = CPending"
    and a: "\<forall>a \<in> set (creditApprovals w c). \<not> decided uid True a"
    and ok: "schemaOk w" "freshIds E w"
    and net: "approveAndMint E wal (ofInt n) [] w = (Inr tx, w1)"
  shows "\<exists>v w'. approveCredit E uid wal n None w = (Inr v, w')"
proof -
  from v obtain r where r: "List.find (\<lambda>v. ve_userId v = uid) (verifiers w) = Some r"
    "ve_status r = VActive" by (auto simp: activeVerifier_def)
  then have "userExists w uid"
    using ok(1) by (auto simp: schemaOk_def refsOk_def dest!: find_SomeD)
  moreover have "creditExists w (cr_id c)"
    using creditByNumber_D [OF c(1)] by (auto simp: creditExists_def)
  moreover obtain call where w1: "w1 = w\<lparr>sent := sent w @ [call]\<rparr>"
    using approveAndMint_InrD [OF net] by blast
  moreover have "cuid E (idseq w) \<notin> ap_id ` set (approvals w)"
    using ok(2) by (auto simp: freshIds_def)
  ultimately obtain ap w2 where ca: "createApproval E c uid True None w1 = (Inr ap, w2)"
    by (auto simp: createApproval_def act_simps dbInsert_def approvalCheck_def userExists_def
        creditExists_def)
  from createApproval_InrD [OF ca] c(1) have c2: "creditByNumber w2 n = Some c"
    by (simp add: w1 creditByNumber_def)
  have g: "requireVerifier uid w = (Inr (), w)" "loadPending n w = (Inr c, w)"
    using r c by (simp_all add: requireVerifier_def loadPending_def act_simps)
  let ?run = "approveCredit E uid wal n None w"
  have run: "?run = (let b = reaches (countDecisions w2 c True) (envInt E ''VERIFIER_THRESHOLD'' ''2'')
         \<and> tokenGiven tx in
     seqE (whenE b (seqE (updateCredit E n (\<lambda>c. c\<lparr>cr_status := CActive, cr_tokenId := tx\<rparr>)) (ret ())))
    (seqE (emit E ''credit.approved'' (JObj [
              (''creditId'', JNum (ofInt n)), (''verifier'', JStr wal),
              (''comments'', optText None)]))
    (seqE (whenE b (emit E ''credit.minted'' (JObj [
              (''creditId'', JNum (ofInt n)), (''tokenId'', optText tx)])))
    (getsE (\<lambda>w. map_option (creditView w (\<lambda>as. as)) (creditByNumber w n))))) w2)"
    using g a net ca
    by (simp add: approveCredit_def Let_def seqE_apply bindE_apply throwIf_apply orEmpty_def)
  obtain x w' where x: "?run = (x, w')" by fastforce
  from decision_tail [OF c2 x [unfolded run Let_def]] x show ?thesis by auto
qed

text \<open>
  \<open>awaits k vs\<close>: credit \<open>n\<close> is pending, and it takes at most the verifiers \<open>vs\<close> to collect \<open>k\<close>
  approvals.
\<close>

definition awaits :: "env \<Rightarrow> int \<Rightarrow> nat \<Rightarrow> (string \<times> string) list \<Rightarrow> world \<Rightarrow> bool" where
  "awaits E n k vs w \<longleftrightarrow> (\<exists>c. creditByNumber w n = Some c \<and> cr_status c = CPending \<and>
     k \<le> countDecisions w c True + length vs \<and> countDecisions w c True < k \<and>
     (\<forall>v \<in> set vs. activeVerifier w (fst v) \<and>
        (\<forall>a \<in> set (creditApprovals w c). \<not> decided (fst v) True a)))"

definition settlesMints :: "env \<Rightarrow> int \<Rightarrow> (string \<times> string) list \<Rightarrow> bool" where
  "settlesMints E n vs \<longleftrightarrow> (\<forall>w. \<forall>v \<in> set vs. \<exists>tx w'.
     approveAndMint E (snd v) (ofInt n) [] w = (Inr tx, w') \<and> tokenGiven tx)"

lemma active_stays:
  assumes "schemaOk w" and "registryOf w n = Some CActive"
  shows "registryOf (snd (approveCredit E uid wal n None w)) n = Some CActive"
proof -
  obtain r w' where r: "approveCredit E uid wal n None w = (r, w')" by fastforce
  have "credits w' = credits w"
  proof (cases r)
    case (Inl e)
    with r show ?thesis by (auto dest: approveCredit_InlD simp: sameRegistry_def)
  next
    case (Inr v)
    with r obtain c where "creditByNumber w n = Some c" "cr_status c = CPending"
      by (blast dest: approveCredit_InrD)
    with assms registryOf_Some [of w n c] show ?thesis by (simp add: schemaOk_def keysOk_numbers)
  qed
  with r assms show ?thesis by (simp add: registryOf_def)
qed

lemma approve_once:
  assumes aw: "awaits E n k (v # vs) w" and ok: "schemaOk w" "freshIds E w"
    and vs: "fst v \<notin> set (map fst vs)" and net: "settlesMints E n (v # vs)"
    and k: "envInt E ''VERIFIER_THRESHOLD'' ''2'' = ofInt (int k)"
    and w': "w' = snd (approveCredit E (fst v) (snd v) n None w)"
  shows "registryOf w' n = Some CActive \<or> awaits E n k vs w'"
proof -
  from aw obtain c where c: "creditByNumber w n = Some c" "cr_status c = CPending"
      "k \<le> countDecisions w c True + Suc (length vs)" "countDecisions w c True < k"
    and act: "activeVerifier w (fst v)" "\<forall>u \<in> set vs. activeVerifier w (fst u)"
    and new: "\<forall>u \<in> set (v # vs). \<forall>a \<in> set (creditApprovals w c). \<not> decided (fst u) True a"
    by (auto simp: awaits_def)
  obtain tx w1 where mint: "approveAndMint E (snd v) (ofInt n) [] w = (Inr tx, w1)" "tokenGiven tx"
    using net by (fastforce simp: settlesMints_def)
  obtain x where r: "approveCredit E (fst v) (snd v) n None w = (Inr x, w')"
    using approveCredit_returns [OF act(1) c(1,2) _ ok mint(1)] new w' by auto
  from approveCredit_InrD [OF r] c(1) obtain tx' ap where
    ap: "ap_creditId ap = cr_id c" "decided (fst v) True ap" "approvals w' = approvals w @ [ap]"
    and cr: "credits w' = (if reaches (countDecisions w c True + 1) (ofInt (int k)) \<and> tokenGiven tx'
      then updWhere (\<lambda>c. cr_creditId c = n) (approvedUpdate E tx') (credits w) else credits w)"
    and "fst (approveAndMint E (snd v) (ofInt n) (orEmpty None) w) = Inr tx'"
    unfolding k by auto
  with mint have tx': "tokenGiven tx'" by (simp add: orEmpty_def)
  show ?thesis
  proof (cases "k = countDecisions w c True + 1")
    case True
    then have u: "credits w' = updWhere (\<lambda>c. cr_creditId c = n) (approvedUpdate E tx') (credits w)"
      using cr tx' by (simp add: reaches_def ofInt_def)
    have "registryOf w' = (registryOf w)(n \<mapsto> CActive)"
      using ok(1) by (intro registryOf_update [OF u c(1)])
        (simp_all add: schemaOk_def keysOk_numbers approvedUpdate_def stamped_def)
    then show ?thesis by simp
  next
    case False
    with c(4) have "\<not> reaches (countDecisions w c True + 1) (ofInt (int k))"
      by (simp add: reaches_def ofInt_def)
    with cr have e: "credits w' = credits w" by simp
    have ver: "verifiers w' = verifiers w"
      using keepsD [OF keeps_approveCredit [of verifiers] r] by simp
    have cnt: "countDecisions w' c True = countDecisions w c True + 1"
      using ap by (simp add: countDecisions_def decided_def)
    have as: "creditApprovals w' c = creditApprovals w c @ [ap]"
      using ap by (simp add: creditApprovals_def)
    have "awaits E n k vs w'"
      unfolding awaits_def
    proof (intro exI conjI ballI)
      show "creditByNumber w' n = Some c" using c(1) e by (simp add: creditByNumber_def)
      show "cr_status c = CPending" by (rule c(2))
      show "k \<le> countDecisions w' c True + length vs" "countDecisions w' c True < k"
        using c(3,4) False by (simp_all add: cnt)
    next
      fix u a assume u: "u \<in> set vs"
      then show "activeVerifier w' (fst u)" using act(2) by (simp add: activeVerifier_def ver)
      assume "a \<in> set (creditApprovals w' c)"
      moreover have "fst u \<noteq> fst v" using u vs by (metis image_eqI list.set_map)
      ultimately show "\<not> decided (fst u) True a" using u new ap(2) by (auto simp: as decided_def)
    qed
    then show ?thesis ..
  qed
qed

lemma approveAll_active:
  "schemaOk w \<Longrightarrow> registryOf w n = Some CActive \<Longrightarrow> registryOf (approveAll E n vs w) n = Some CActive"
proof (induction vs arbitrary: w)
  case (Cons v vs)
  obtain uid wal where v: "v = (uid, wal)" by (cases v)
  obtain r w' where r: "approveCredit E uid wal n None w = (r, w')" by fastforce
  have "schemaOk w'"
    using preservesD [OF intact_approveCredit _ r, of "{}"] Cons.prems(1)
    by (simp add: intact_schemaOk)
  moreover have "registryOf w' n = Some CActive"
    using active_stays [OF Cons.prems, of E uid wal] r by simp
  ultimately show ?case using Cons.IH by (simp add: v r)
qed simp

lemma approveAll_activates:
  "awaits E n k vs w \<Longrightarrow> schemaOk w \<Longrightarrow> freshIds E w \<Longrightarrow> distinct (map fst vs) \<Longrightarrow>
   settlesMints E n vs \<Longrightarrow> inj (cuid E) \<Longrightarrow>
   envInt E ''VERIFIER_THRESHOLD'' ''2'' = ofInt (int k) \<Longrightarrow>
   registryOf (approveAll E n vs w) n = Some CActive"
proof (induction vs arbitrary: w)
  case Nil
  then show ?case by (auto simp: awaits_def)
next
  case (Cons v vs)
  obtain uid wal where v: "v = (uid, wal)" by (cases v)
  obtain r w' where r: "approveCredit E uid wal n None w = (r, w')" by fastforce
  have ok: "schemaOk w'" "freshIds E w'"
    using preservesD [OF intact_approveCredit _ r, of "{}"]
      preservesD [OF freshIds_approveCredit _ r] Cons.prems
    by (simp_all add: intact_schemaOk)
  have "registryOf w' n = Some CActive \<or> awaits E n k vs w'"
    using Cons.prems r by (intro approve_once [where v = v and w = w]) (simp_all add: v)
  moreover have "settlesMints E n vs" using Cons.prems(5) by (simp add: settlesMints_def)
  ultimately show ?case
    using Cons.IH [of w'] Cons.prems ok approveAll_active [OF ok(1)] by (auto simp: v r)
qed

end
