(* ===== verification/RateLimit.thy ===== *)
theory RateLimit
  imports Auth
begin

text \<open>
  \<open>api/src/common/guards/rate-limit.guard.ts\<close>: one token bucket per key, and the order of the two
  global guards of \<open>app.module.ts\<close>: rate limiting runs first, when no principal is attached yet.
\<close>

record token_bucket =
  tb_tokens :: int
  tb_lastRefill :: int

record rate_request =
  rq_isPublic :: bool
  rq_wallet :: "string option"   \<comment> \<open>\<open>request.user?.wallet\<close>\<close>
  rq_ip :: "string option"
  rq_now :: int

type_synonym buckets = "string \<Rightarrow> token_bucket option"

definition UNAUTHENTICATED_CAPACITY :: int where "UNAUTHENTICATED_CAPACITY = 100"
definition AUTHENTICATED_CAPACITY :: int where "AUTHENTICATED_CAPACITY = 1000"
definition REFILL_RATE :: int where "REFILL_RATE = 1"
definition REFILL_INTERVAL :: int where "REFILL_INTERVAL = 1000"

definition rateCapacity :: "rate_request \<Rightarrow> int" where
  "rateCapacity r = (if rq_isPublic r \<or> rq_wallet r = None
     then UNAUTHENTICATED_CAPACITY else AUTHENTICATED_CAPACITY)"

definition rateKey :: "rate_request \<Rightarrow> string" where
  "rateKey r = (case rq_wallet r of Some w \<Rightarrow> w | None \<Rightarrow>
     (case rq_ip r of Some ip \<Rightarrow> ip | None \<Rightarrow> ''unknown''))"

definition refill :: "int \<Rightarrow> int \<Rightarrow> token_bucket \<Rightarrow> token_bucket" where
  "refill capacity now b =
     (let elapsed = now - tb_lastRefill b;
          refillTokens = (elapsed div REFILL_INTERVAL) * REFILL_RATE in
      if 0 < refillTokens
      then \<lparr>tb_tokens = min capacity (tb_tokens b + refillTokens), tb_lastRefill = now\<rparr>
      else b)"

definition rateLimit :: "rate_request \<Rightarrow> buckets \<Rightarrow> (api_error + int) \<times> buckets" where
  "rateLimit r bs =
     (let capacity = rateCapacity r; key = rateKey r;
          b0 = (case bs key of
                  Some b \<Rightarrow> b | None \<Rightarrow> \<lparr>tb_tokens = capacity, tb_lastRefill = rq_now r\<rparr>);
          b = refill capacity (rq_now r) b0 in
      if tb_tokens b \<le> 0 then (Inl (TooManyRequests ''Too many requests''), bs(key \<mapsto> b))
      else (Inr (tb_tokens b - 1), bs(key \<mapsto> b\<lparr>tb_tokens := tb_tokens b - 1\<rparr>)))"

text \<open>\<open>process.env.NODE_ENV === 'test'\<close> switches the guard off.\<close>

definition rateLimitGuard :: "env \<Rightarrow> rate_request \<Rightarrow> buckets \<Rightarrow> (api_error + unit) \<times> buckets" where
  "rateLimitGuard E r bs = (if conf E ''NODE_ENV'' = Some ''test'' then (Inr (), bs)
     else (case rateLimit r bs of (res, bs') \<Rightarrow> (bindS res (\<lambda>_. Inr ()), bs')))"

section \<open>The global guards\<close>

definition globalGuards ::
  "auth_lib \<Rightarrow> env \<Rightarrow> world \<Rightarrow> bool \<Rightarrow> string option \<Rightarrow> string option \<Rightarrow> buckets
   \<Rightarrow> (api_error + principal option) \<times> buckets" where
  "globalGuards L E w isPublic ip bearer bs =
     (case rateLimitGuard E \<lparr>rq_isPublic = isPublic, rq_wallet = None, rq_ip = ip,
         rq_now = clock E\<rparr> bs of
        (Inl e, bs') \<Rightarrow> (Inl e, bs')
      | (Inr _, bs') \<Rightarrow> (jwtGuard L w isPublic bearer, bs'))"

section \<open>A stream of requests\<close>

fun rateRun :: "rate_request list \<Rightarrow> buckets \<Rightarrow> bool list \<times> buckets" where
  "rateRun [] bs = ([], bs)"
| "rateRun (r # rs) bs = (case rateLimit r bs of (res, bs1) \<Rightarrow>
     (case rateRun rs bs1 of (oks, bs2) \<Rightarrow> ((case res of Inl _ \<Rightarrow> False | Inr _ \<Rightarrow> True) # oks, bs2)))"

text \<open>How many requests of a key a stream admits.\<close>

definition admitted :: "string \<Rightarrow> rate_request list \<Rightarrow> buckets \<Rightarrow> nat" where
  "admitted k rs bs =
     length (filter (\<lambda>(r, ok). rateKey r = k \<and> ok) (zip rs (fst (rateRun rs bs))))"

section \<open>Lemmas\<close>

definition bucketsOk :: "buckets \<Rightarrow> bool" where
  "bucketsOk bs \<longleftrightarrow>
     (\<forall>k b. bs k = Some b \<longrightarrow> 0 \<le> tb_tokens b \<and> tb_tokens b \<le> AUTHENTICATED_CAPACITY)"

lemma rateCapacity_bounds: "0 < rateCapacity r" "rateCapacity r \<le> AUTHENTICATED_CAPACITY"
  by (simp_all add: rateCapacity_def UNAUTHENTICATED_CAPACITY_def AUTHENTICATED_CAPACITY_def)

lemma refill_bounds:
  assumes "0 \<le> tb_tokens b" and "tb_tokens b \<le> AUTHENTICATED_CAPACITY" and "0 < c"
    and "c \<le> AUTHENTICATED_CAPACITY"
  shows "0 \<le> tb_tokens (refill c now b) \<and> tb_tokens (refill c now b) \<le> AUTHENTICATED_CAPACITY"
  using assms by (auto simp: refill_def Let_def)

lemma refill_nonneg: "0 \<le> tb_tokens b \<Longrightarrow> 0 < c \<Longrightarrow> 0 \<le> tb_tokens (refill c now b)"
  by (auto simp: refill_def Let_def)

text \<open>The credit of a bucket: its tokens against what time since \<open>t0\<close> could have refilled.\<close>

definition funded :: "int \<Rightarrow> int \<Rightarrow> nat \<Rightarrow> token_bucket \<Rightarrow> bool" where
  "funded c t0 n b \<longleftrightarrow> t0 \<le> tb_lastRefill b \<and>
     int n + tb_tokens b \<le> c + (tb_lastRefill b - t0) div REFILL_INTERVAL"

lemma div_add_le: "0 < m \<Longrightarrow> (a :: int) div m + b div m \<le> (a + b) div m"
  using div_add1_eq [of a b m] by (simp add: pos_imp_zdiv_nonneg_iff)

lemma funded_refill:
  assumes "funded c t0 n b" and "tb_lastRefill b \<le> now"
  shows "funded c t0 n (refill c' now b) \<and> tb_lastRefill (refill c' now b) \<le> now"
proof -
  have "(tb_lastRefill b - t0) div REFILL_INTERVAL + (now - tb_lastRefill b) div REFILL_INTERVAL
      \<le> (now - t0) div REFILL_INTERVAL"
    using div_add_le [of REFILL_INTERVAL "tb_lastRefill b - t0" "now - tb_lastRefill b"]
    by (simp add: REFILL_INTERVAL_def)
  with assms show ?thesis
    by (auto simp: funded_def refill_def Let_def REFILL_RATE_def)
qed

definition keyInv :: "int \<Rightarrow> nat \<Rightarrow> token_bucket option \<Rightarrow> int \<Rightarrow> bool" where
  "keyInv t0 n ob now = (case ob of
     None \<Rightarrow> n = 0
   | Some b \<Rightarrow> funded UNAUTHENTICATED_CAPACITY t0 n b \<and> 0 \<le> tb_tokens b \<and> tb_lastRefill b \<le> now)"

lemma keyInv_later: "keyInv t0 n ob t \<Longrightarrow> t \<le> t' \<Longrightarrow> keyInv t0 n ob t'"
  by (auto simp: keyInv_def split: option.splits)

lemma keyInv_bound:
  assumes "keyInv t0 n ob t" and "t0 \<le> t"
  shows "int n \<le> UNAUTHENTICATED_CAPACITY + (t - t0) div REFILL_INTERVAL"
proof (cases ob)
  case None
  with assms show ?thesis
    by (simp add: keyInv_def UNAUTHENTICATED_CAPACITY_def REFILL_INTERVAL_def
        pos_imp_zdiv_nonneg_iff)
next
  case (Some b)
  with assms have "int n + tb_tokens b \<le>
      UNAUTHENTICATED_CAPACITY + (tb_lastRefill b - t0) div REFILL_INTERVAL"
    "0 \<le> tb_tokens b" "tb_lastRefill b \<le> t" by (auto simp: keyInv_def funded_def)
  moreover have "(tb_lastRefill b - t0) div REFILL_INTERVAL \<le> (t - t0) div REFILL_INTERVAL"
    using \<open>tb_lastRefill b \<le> t\<close> by (intro zdiv_mono1) (simp_all add: REFILL_INTERVAL_def)
  ultimately show ?thesis by linarith
qed

lemma rateLimit_other: "rateKey r \<noteq> k \<Longrightarrow> snd (rateLimit r bs) k = bs k"
  by (simp add: rateLimit_def Let_def)

lemma rateLimit_step:
  assumes "keyInv t0 n (bs k) (rq_now r)" and "rateKey r = k" and "rq_wallet r = None"
    and "t0 \<le> rq_now r" and "rateLimit r bs = (res, bs')"
  shows "keyInv t0 (n + (case res of Inl _ \<Rightarrow> 0 | Inr _ \<Rightarrow> 1)) (bs' k) (rq_now r)"
proof -
  let ?c = UNAUTHENTICATED_CAPACITY
  let ?start = "case bs k of Some b \<Rightarrow> b | None \<Rightarrow> \<lparr>tb_tokens = ?c, tb_lastRefill = rq_now r\<rparr>"
  let ?b = "refill ?c (rq_now r) ?start"
  have cap: "rateCapacity r = ?c" using assms(3) by (simp add: rateCapacity_def)
  have b0: "funded ?c t0 n ?start" "0 \<le> tb_tokens ?start" "tb_lastRefill ?start \<le> rq_now r"
    using assms(1,4)
    by (auto simp: keyInv_def funded_def UNAUTHENTICATED_CAPACITY_def REFILL_INTERVAL_def
        pos_imp_zdiv_nonneg_iff split: option.splits)
  have b: "funded ?c t0 n ?b" "tb_lastRefill ?b \<le> rq_now r" "0 \<le> tb_tokens ?b"
    using funded_refill [OF b0(1,3), of ?c]
    by (blast, blast) (rule refill_nonneg [OF b0(2)], simp add: UNAUTHENTICATED_CAPACITY_def)
  show ?thesis
  proof (cases "tb_tokens ?b \<le> 0")
    case True
    then have "res = Inl (TooManyRequests ''Too many requests'')" "bs' = bs(k \<mapsto> ?b)"
      using assms(5) by (simp_all add: rateLimit_def Let_def cap assms(2))
    then show ?thesis using b by (simp add: keyInv_def)
  next
    case False
    then have "res = Inr (tb_tokens ?b - 1)" "bs' = bs(k \<mapsto> ?b\<lparr>tb_tokens := tb_tokens ?b - 1\<rparr>)"
      using assms(5) by (simp_all add: rateLimit_def Let_def cap assms(2))
    then show ?thesis using b False by (simp add: keyInv_def funded_def)
  qed
qed

lemma admitted_Cons:
  "rateLimit r bs = (res, bs') \<Longrightarrow> admitted k (r # rs) bs =
     (if rateKey r = k then (case res of Inl _ \<Rightarrow> 0 | Inr _ \<Rightarrow> 1) else 0) + admitted k rs bs'"
  by (simp add: admitted_def split: prod.splits sum.splits)

lemma admitted_inv:
  assumes "keyInv t0 n (bs k) t" and "t0 \<le> t" and "sorted (t # map rq_now rs)"
    and "\<forall>r \<in> set rs. rq_wallet r = None"
  shows "int (n + admitted k rs bs) \<le>
    UNAUTHENTICATED_CAPACITY + (last (t # map rq_now rs) - t0) div REFILL_INTERVAL"
  using assms
proof (induction rs arbitrary: n bs t)
  case Nil
  then show ?case using keyInv_bound [of t0 n "bs k" t] by (simp add: admitted_def)
next
  case (Cons r rs)
  obtain res bs' where run: "rateLimit r bs = (res, bs')" by fastforce
  have later: "keyInv t0 n (bs k) (rq_now r)" "t0 \<le> rq_now r"
    using Cons.prems keyInv_later by auto
  have srt: "sorted (rq_now r # map rq_now rs)" "\<forall>r \<in> set rs. rq_wallet r = None"
    using Cons.prems by auto
  show ?case
  proof (cases "rateKey r = k")
    case True
    from rateLimit_step [where bs = bs and k = k, OF later(1) True _ later(2) run] Cons.prems(4)
    have "keyInv t0 (n + (case res of Inl _ \<Rightarrow> 0 | Inr _ \<Rightarrow> 1)) (bs' k) (rq_now r)" by simp
    from Cons.IH [where bs = bs', OF this later(2) srt] True show ?thesis
      by (simp add: admitted_Cons [OF run] add.assoc)
  next
    case False
    then have "bs' k = bs k" using rateLimit_other [of r k bs] run by simp
    with Cons.IH [of n bs' "rq_now r"] later srt False show ?thesis
      by (simp add: admitted_Cons [OF run])
  qed
qed

section \<open>Properties\<close>



text \<open>
  After any request every bucket holds between 0 and 1000 tokens, and a
  request is refused, as too many requests, exactly when its bucket is empty after the refill.
\<close>

theorem buckets_invariant:
  assumes "bucketsOk bs"
  shows "bucketsOk (snd (rateLimit r bs)) \<and>
    (fst (rateLimit r bs) = Inl (TooManyRequests ''Too many requests'') \<longleftrightarrow>
      tb_tokens (refill (rateCapacity r) (rq_now r) (case bs (rateKey r) of Some b \<Rightarrow> b
        | None \<Rightarrow> \<lparr>tb_tokens = rateCapacity r, tb_lastRefill = rq_now r\<rparr>)) \<le> 0)"
proof -
  let ?start = "case bs (rateKey r) of Some b \<Rightarrow> b
        | None \<Rightarrow> \<lparr>tb_tokens = rateCapacity r, tb_lastRefill = rq_now r\<rparr>"
  have "0 \<le> tb_tokens ?start \<and> tb_tokens ?start \<le> AUTHENTICATED_CAPACITY"
    using assms rateCapacity_bounds [of r] by (auto simp: bucketsOk_def split: option.splits)
  then have "0 \<le> tb_tokens (refill (rateCapacity r) (rq_now r) ?start) \<and>
      tb_tokens (refill (rateCapacity r) (rq_now r) ?start) \<le> AUTHENTICATED_CAPACITY"
    using rateCapacity_bounds [of r] by (intro refill_bounds) auto
  then show ?thesis using assms by (auto simp: rateLimit_def Let_def bucketsOk_def)
qed

theorem buckets_invariant_witness:
  "bucketsOk (snd (rateLimit \<lparr>rq_isPublic = False, rq_wallet = Some ''GA'', rq_ip = None, rq_now = 5\<rparr>
     Map.empty))"
  by (rule buckets_invariant [THEN conjunct1]) (simp add: bucketsOk_def)

text \<open>
  The limiter runs before the token check attaches a principal, so every request of a deployed API
  has the capacity of an unauthenticated one.
\<close>

lemma deployed_capacity:
  assumes "conf E ''NODE_ENV'' \<noteq> Some ''test''"
  shows "snd (globalGuards L E w isPublic ip bearer bs) =
    snd (rateLimit \<lparr>rq_isPublic = isPublic, rq_wallet = None, rq_ip = ip, rq_now = clock E\<rparr> bs) \<and>
    rateCapacity \<lparr>rq_isPublic = isPublic, rq_wallet = None, rq_ip = ip, rq_now = clock E\<rparr> = 100"
  using assms
  by (auto simp: globalGuards_def rateLimitGuard_def rateCapacity_def UNAUTHENTICATED_CAPACITY_def
      split: prod.splits sum.splits)

end
