(* ===== verification/JsMap.thy ===== *)
theory JsMap
  imports JsText
begin

text \<open>
  JavaScript's \<open>Map\<close>: an association list in the order in which the keys were first set.  The
  lemmas say what a lookup returns after a \<open>set\<close>, that keys stay distinct, and what a loop that
  accumulates per key has built in the end.
\<close>

type_synonym ('k, 'v) jsmap = "('k \<times> 'v) list"

fun mapSet :: "'k \<Rightarrow> 'v \<Rightarrow> ('k, 'v) jsmap \<Rightarrow> ('k, 'v) jsmap" where
  "mapSet k v [] = [(k, v)]"
| "mapSet k v ((k', v') # m) = (if k' = k then (k, v) # m else (k', v') # mapSet k v m)"

text \<open>\<open>map.get(k) ?? d\<close>\<close>

definition mapGetOr :: "'v \<Rightarrow> ('k, 'v) jsmap \<Rightarrow> 'k \<Rightarrow> 'v" where
  "mapGetOr d m k = (case map_of m k of None \<Rightarrow> d | Some v \<Rightarrow> v)"

text \<open>\<open>map.set(k, f(map.get(k) ?? d))\<close>\<close>

definition mapAlter :: "'v \<Rightarrow> ('v \<Rightarrow> 'v) \<Rightarrow> 'k \<Rightarrow> ('k, 'v) jsmap \<Rightarrow> ('k, 'v) jsmap" where
  "mapAlter d f k m = mapSet k (f (mapGetOr d m k)) m"

lemma map_of_mapSet [simp]: "map_of (mapSet k v m) = (map_of m)(k \<mapsto> v)"
  by (induction m rule: mapSet.induct) auto

lemma keys_mapSet:
  "map fst (mapSet k v m) = (if k \<in> fst ` set m then map fst m else map fst m @ [k])"
  by (induction k v m rule: mapSet.induct) auto

lemma distinct_mapSet: "distinct (map fst m) \<Longrightarrow> distinct (map fst (mapSet k v m))"
  by (auto simp: keys_mapSet)

lemma map_of_mapAlter:
  "map_of (mapAlter d f k m) = (map_of m)(k \<mapsto> f (case map_of m k of None \<Rightarrow> d | Some v \<Rightarrow> v))"
  by (simp add: mapAlter_def mapGetOr_def)

lemma distinct_mapAlter: "distinct (map fst m) \<Longrightarrow> distinct (map fst (mapAlter d f k m))"
  by (simp add: mapAlter_def distinct_mapSet)

text \<open>\<open>for (const x of xs) map.set(key(x), f(x, map.get(key(x)) ?? d));\<close>\<close>

definition accumulateAll ::
  "('x \<Rightarrow> 'k) \<Rightarrow> 'v \<Rightarrow> ('x \<Rightarrow> 'v \<Rightarrow> 'v) \<Rightarrow> 'x list \<Rightarrow> ('k, 'v) jsmap \<Rightarrow> ('k, 'v) jsmap" where
  "accumulateAll key d f xs m = foldl (\<lambda>m x. mapAlter d (f x) (key x) m) m xs"

lemma distinct_accumulateAll:
  "distinct (map fst m) \<Longrightarrow> distinct (map fst (accumulateAll key d f xs m))"
  unfolding accumulateAll_def by (induction xs arbitrary: m) (simp_all add: distinct_mapAlter)

lemma map_of_accumulateAll:
  "map_of (accumulateAll key d f xs m) k =
     (if k \<in> key ` set xs
      then Some (foldl (\<lambda>v x. f x v) (mapGetOr d m k) (filter (\<lambda>x. key x = k) xs))
      else map_of m k)"
  unfolding accumulateAll_def
proof (induction xs arbitrary: m)
  case Nil
  then show ?case by simp
next
  case (Cons x xs)
  have "filter (\<lambda>x. key x = k) xs = []" if "k \<notin> key ` set xs"
    using that by (auto simp: filter_empty_conv)
  then show ?case using Cons by (auto simp: map_of_mapAlter mapGetOr_def)
qed

lemma set_accumulateAll:
  "(k, v) \<in> set (accumulateAll key d f xs []) \<longleftrightarrow>
     k \<in> key ` set xs \<and> v = foldl (\<lambda>v x. f x v) d (filter (\<lambda>x. key x = k) xs)"
proof -
  have "distinct (map fst (accumulateAll key d f xs []))" by (rule distinct_accumulateAll) simp
  then have "(k, v) \<in> set (accumulateAll key d f xs []) \<longleftrightarrow>
      map_of (accumulateAll key d f xs []) k = Some v"
    by (simp add: map_of_eq_Some_iff)
  then show ?thesis by (auto simp: map_of_accumulateAll mapGetOr_def)
qed

text \<open>Summing a count over the groups is summing it over the elements.\<close>

lemma sum_over_groups:
  fixes g :: "'k \<Rightarrow> 'n :: comm_monoid_add"
  assumes "distinct ks" and "set ks = key ` set xs"
    and "\<And>k. k \<in> set ks \<Longrightarrow> g k = sum_list (map h (filter (\<lambda>x. key x = k) xs))"
  shows "sum_list (map g ks) = sum_list (map h xs)"
proof -
  have "(\<Sum>k \<in> set ks. sum_list (map h (filter (\<lambda>x. key x = k) ys))) = sum_list (map h ys)"
    if "key ` set ys \<subseteq> set ks" for ys
    using that
  proof (induction ys)
    case Nil
    then show ?case by simp
  next
    case (Cons y ys)
    have "(\<Sum>k \<in> set ks. sum_list (map h (filter (\<lambda>x. key x = k) (y # ys)))) =
        (\<Sum>k \<in> set ks. (if k = key y then h y else 0) +
           sum_list (map h (filter (\<lambda>x. key x = k) ys)))"
      by (intro sum.cong) auto
    also have "\<dots> = h y + sum_list (map h ys)"
      using Cons by (simp add: sum.distrib)
    finally show ?case by simp
  qed
  moreover have "sum_list (map g ks) = (\<Sum>k \<in> set ks. g k)"
    using assms(1) by (simp add: sum_list_distinct_conv_sum_set)
  ultimately show ?thesis using assms(2,3) by simp
qed

section \<open>Sorting by a comparator that is an order on the elements\<close>

lemma set_insertBy: "set (insertBy gt x xs) = insert x (set xs)"
  by (induction xs) auto

lemma insertBy_cong:
  "(\<And>y. y \<in> set xs \<Longrightarrow> gt x y = gt' x y) \<Longrightarrow> insertBy gt x xs = insertBy gt' x xs"
  by (induction xs) auto

lemma sortBy_Cons: "sortBy gt (x # xs) = insertBy gt x (sortBy gt xs)"
  by (simp add: sortBy_def)

lemma sortBy_cong:
  assumes "\<And>x y. x \<in> set xs \<Longrightarrow> y \<in> set xs \<Longrightarrow> gt x y = gt' x y"
  shows "sortBy gt xs = sortBy gt' xs"
  using assms
proof (induction xs)
  case Nil
  then show ?case by (simp add: sortBy_def)
next
  case (Cons x xs)
  have "sortBy gt xs = sortBy gt' xs" by (rule Cons.IH) (simp add: Cons.prems)
  moreover have "insertBy gt x (sortBy gt' xs) = insertBy gt' x (sortBy gt' xs)"
    by (rule insertBy_cong) (simp add: Cons.prems)
  ultimately show ?case by (simp add: sortBy_Cons)
qed

end
