(* ===== verification/Observability.thy ===== *)
theory Observability
  imports SorobanClient Schema JsMap
begin

text \<open>
  \<open>api/src/observability\<close>: the metrics registry (counters, gauges, histograms by label set) with its
  Prometheus text, the interceptor that records every request, and the health check.
\<close>

section \<open>The registry\<close>

type_synonym metric_labels = "(string \<times> jsval) list"

record histogram_state =
  hs_sum :: jsnum
  hs_count :: nat
  hs_buckets :: "(int, nat) jsmap"

record metrics =
  mt_counters :: "(string, (string, jsnum) jsmap) jsmap"
  mt_gauges :: "(string, (string, jsnum) jsmap) jsmap"
  mt_histograms :: "(string, (string, histogram_state) jsmap) jsmap"

definition noMetrics :: metrics where
  "noMetrics = \<lparr>mt_counters = [], mt_gauges = [], mt_histograms = []\<rparr>"

definition DEFAULT_BUCKETS_MS :: "int list" where
  "DEFAULT_BUCKETS_MS = [10, 50, 100, 250, 500, 1000, 2500, 5000]"

text \<open>The order of \<open>Array.prototype.sort\<close> on texts.\<close>

fun textGreater :: "string \<Rightarrow> string \<Rightarrow> bool" where
  "textGreater [] ys = False"
| "textGreater (x # xs) [] = True"
| "textGreater (x # xs) (y # ys) = (if x = y then textGreater xs ys
     else (of_char y :: nat) < of_char x)"

definition labelKey :: "metric_labels \<Rightarrow> string" where
  "labelKey labels = joinWith '','' (map (\<lambda>(k, v). k @ [CHR ''='', CHR 0x22] @ jsString v @ [CHR 0x22])
     (sortBy (\<lambda>a b. textGreater (fst a) (fst b)) labels))"

definition incrementCounter :: "string \<Rightarrow> metric_labels \<Rightarrow> jsnum \<Rightarrow> metrics \<Rightarrow> metrics" where
  "incrementCounter name labels value m = m\<lparr>mt_counters := mapAlter []
     (mapAlter (ofInt 0) (\<lambda>n. num_add n value) (labelKey labels)) name (mt_counters m)\<rparr>"

definition setGauge :: "string \<Rightarrow> jsnum \<Rightarrow> metric_labels \<Rightarrow> metrics \<Rightarrow> metrics" where
  "setGauge name value labels m =
     m\<lparr>mt_gauges := mapAlter [] (mapSet (labelKey labels) value) name (mt_gauges m)\<rparr>"

definition newHistogram :: histogram_state where
  "newHistogram = \<lparr>hs_sum = ofInt 0, hs_count = 0, hs_buckets = map (\<lambda>b. (b, 0)) DEFAULT_BUCKETS_MS\<rparr>"

definition observeValue :: "jsnum \<Rightarrow> histogram_state \<Rightarrow> histogram_state" where
  "observeValue value h = \<lparr>hs_sum = num_add (hs_sum h) value, hs_count = hs_count h + 1,
     hs_buckets = foldl (\<lambda>bs b. if num_le value (ofInt b) then mapAlter 0 (\<lambda>n. n + 1) b bs else bs)
       (hs_buckets h) DEFAULT_BUCKETS_MS\<rparr>"

definition observeHistogram :: "string \<Rightarrow> jsnum \<Rightarrow> metric_labels \<Rightarrow> metrics \<Rightarrow> metrics" where
  "observeHistogram name value labels m = m\<lparr>mt_histograms := mapAlter []
     (mapAlter newHistogram (observeValue value) (labelKey labels)) name (mt_histograms m)\<rparr>"

section \<open>Reading the registry\<close>

definition snapshot :: "metrics \<Rightarrow> jsval" where
  "snapshot m =
     (let plainValues = (\<lambda>(name, vs). JObj [(''name'', JStr name),
            (''values'', JObj (map (\<lambda>(l, x). (l, JNum x)) vs))]);
          count = (\<lambda>n. JNum (ofInt (int n)));
          series = (\<lambda>(l, h). JObj [(''labels'', JStr l), (''count'', count (hs_count h)),
            (''sum'', JNum (hs_sum h)),
            (''buckets'', JObj (map (\<lambda>(b, n). (showInt b, count n)) (hs_buckets h)))]) in
      JObj [(''counters'', JArr (map plainValues (mt_counters m))),
            (''gauges'', JArr (map plainValues (mt_gauges m))),
            (''histograms'', JArr (map (\<lambda>(name, bl). JObj [(''name'', JStr name),
               (''series'', JArr (map series bl))]) (mt_histograms m)))])"

definition plainLines ::
  "string \<Rightarrow> string \<Rightarrow> (string, (string, jsnum) jsmap) jsmap \<Rightarrow> string list" where
  "plainLines help type m = concat (map (\<lambda>(name, vs).
     [''# HELP '' @ name @ '' '' @ help, ''# TYPE '' @ name @ '' '' @ type] @
     map (\<lambda>(labels, x). name @ (if labels = [] then [] else ''{'' @ labels @ ''}'') @ '' ''
       @ num_to_string x) vs) m)"

definition bucketLine :: "string \<Rightarrow> string \<Rightarrow> string \<Rightarrow> nat \<Rightarrow> string" where
  "bucketLine name labels upper n = name @ ''_bucket{le='' @ [CHR 0x22] @ upper @ [CHR 0x22]
     @ (if labels = [] then [] else '','' @ labels) @ ''} '' @ showNat n"

definition histogramLines :: "(string, (string, histogram_state) jsmap) jsmap \<Rightarrow> string list" where
  "histogramLines m = concat (map (\<lambda>(name, bl).
     [''# HELP '' @ name @ '' Duration histogram in milliseconds'',
      ''# TYPE '' @ name @ '' histogram''] @
     concat (map (\<lambda>(labels, h).
       (let suffix = (if labels = [] then [] else ''{'' @ labels @ ''}'') in
        [name @ ''_sum'' @ suffix @ '' '' @ num_to_string (hs_sum h),
         name @ ''_count'' @ suffix @ '' '' @ showNat (hs_count h)] @
        map (\<lambda>(upper, n). bucketLine name labels (showInt upper) n) (hs_buckets h) @
        [bucketLine name labels ''+Inf'' (hs_count h)])) bl)) m)"

definition renderPrometheus :: "metrics \<Rightarrow> string" where
  "renderPrometheus m = joinWith [CHR 0x0A]
     (plainLines ''Total events recorded'' ''counter'' (mt_counters m) @
      plainLines ''Current gauge value'' ''gauge'' (mt_gauges m) @
      histogramLines (mt_histograms m)) @ [CHR 0x0A]"

section \<open>The interceptor\<close>

text \<open>
  \<open>rs_status\<close> is the status on the response when the handler ended.  A handler that threw has set
  none, so it is still the framework's default for the route: the exception filter runs later.
\<close>

record request_span =
  rs_method :: string
  rs_routePath :: "string option"
  rs_originalUrl :: "string option"
  rs_status :: "int option"
  rs_failed :: bool
  rs_elapsed :: int

definition spanLabels :: "request_span \<Rightarrow> metric_labels" where
  "spanLabels r = [(''method'', JStr (rs_method r)),
     (''route'', JStr (orElse (rs_routePath r) (orElse (rs_originalUrl r) ''unknown''))),
     (''status'', JNum (ofInt (orElse (rs_status r) (if rs_failed r then 500 else 200))))]"

definition recordSpan :: "request_span \<Rightarrow> metrics \<Rightarrow> metrics" where
  "recordSpan r m = observeHistogram ''http_request_duration_ms'' (ofInt (rs_elapsed r)) (spanLabels r)
     (incrementCounter ''http_requests_total'' (spanLabels r) (ofInt 1) m)"

section \<open>Health\<close>

record health_check =
  hc_name :: string
  hc_ok :: bool
  hc_detail :: "string option"

datatype health_status = Healthy | Degraded | Down

record health_result =
  hr_status :: health_status
  hr_checks :: "health_check list"
  hr_timestamp :: string

text \<open>
  \<open>raw\<close> is the answer to \<open>SELECT 1\<close>, \<open>None\<close> when the client has no raw queries, and \<open>counted\<close> the
  answer to counting the credits; \<open>Inl\<close> is the message of a failure.
\<close>

definition checkDatabase :: "(string + unit) option \<Rightarrow> string + unit \<Rightarrow> health_check" where
  "checkDatabase raw counted = (case (case raw of Some r \<Rightarrow> r | None \<Rightarrow> counted) of
     Inr _ \<Rightarrow> \<lparr>hc_name = ''database'', hc_ok = True, hc_detail = None\<rparr>
   | Inl m \<Rightarrow> \<lparr>hc_name = ''database'', hc_ok = False, hc_detail = Some m\<rparr>)"

definition checkNetwork :: "env \<Rightarrow> health_check" where
  "checkNetwork E = (case confSet E ''CREDIT_REGISTRY_CONTRACT'' of
     None \<Rightarrow> \<lparr>hc_name = ''stellar-network'', hc_ok = True, hc_detail = Some ''not configured''\<rparr>
   | Some _ \<Rightarrow> (case rpcLatest E of
       Inr l \<Rightarrow> \<lparr>hc_name = ''stellar-network'', hc_ok = True,
         hc_detail = Some (''ledger '' @ showInt (fst l))\<rparr>
     | Inl m \<Rightarrow> \<lparr>hc_name = ''stellar-network'', hc_ok = False, hc_detail = Some m\<rparr>))"

definition checkHealth :: "env \<Rightarrow> (string + unit) option \<Rightarrow> string + unit \<Rightarrow> health_result" where
  "checkHealth E raw counted =
     (let checks = [checkDatabase raw counted, checkNetwork E];
          hasError = (\<exists>c \<in> set checks. \<not> hc_ok c);
          db = List.find (\<lambda>c. hc_name c = ''database'') checks in
      \<lparr>hr_status = (case db of
          Some c \<Rightarrow> (if \<not> hc_ok c then Down else if hasError then Degraded else Healthy)
        | None \<Rightarrow> (if hasError then Degraded else Healthy)),
       hr_checks = checks, hr_timestamp = isoString (clock E)\<rparr>)"

text \<open>A failed count leaves the gauges as they are.\<close>

definition refreshBusinessMetrics :: "string + unit \<Rightarrow> world \<Rightarrow> metrics \<Rightarrow> metrics" where
  "refreshBusinessMetrics counted w m = (case counted of
     Inl _ \<Rightarrow> m
   | Inr _ \<Rightarrow>
       setGauge ''carbonveritas_offers_total'' (ofInt (int (length (offers w)))) []
      (setGauge ''carbonveritas_verifiers_total'' (ofInt (int (length (verifiers w)))) []
      (setGauge ''carbonveritas_retirements_total'' (ofInt (int (length (retirements w)))) []
      (setGauge ''carbonveritas_credits_total'' (ofInt (int (length (credits w)))) [] m))))"

section \<open>Lemmas on histograms\<close>

record observation =
  ob_name :: string
  ob_value :: jsnum
  ob_labels :: metric_labels

definition observeAll :: "observation list \<Rightarrow> metrics \<Rightarrow> metrics" where
  "observeAll obs m = foldl (\<lambda>m b. observeHistogram (ob_name b) (ob_value b) (ob_labels b) m) m obs"

definition histogramAt :: "metrics \<Rightarrow> string \<Rightarrow> string \<Rightarrow> histogram_state option" where
  "histogramAt m name key = (case map_of (mt_histograms m) name of
     None \<Rightarrow> None | Some bl \<Rightarrow> map_of bl key)"

lemma observeAll_histograms:
  "mt_histograms (observeAll obs m) = accumulateAll ob_name []
     (\<lambda>b. mapAlter newHistogram (observeValue (ob_value b)) (labelKey (ob_labels b))) obs
     (mt_histograms m)"
  unfolding observeAll_def accumulateAll_def
  by (induction obs arbitrary: m) (simp_all add: observeHistogram_def)

definition observedAt :: "string \<Rightarrow> string \<Rightarrow> observation list \<Rightarrow> jsnum list" where
  "observedAt name key obs =
     map ob_value (filter (\<lambda>b. ob_name b = name \<and> labelKey (ob_labels b) = key) obs)"

lemma foldl_observe_filter:
  "foldl (\<lambda>h b. observeValue (ob_value b) h) h bs = foldl (\<lambda>h v. observeValue v h) h (map ob_value bs)"
  by (simp add: foldl_map)

lemma histogramAt_observeAll:
  assumes "observedAt name key obs \<noteq> []"
  shows "histogramAt (observeAll obs noMetrics) name key =
    Some (foldl (\<lambda>h v. observeValue v h) newHistogram (observedAt name key obs))"
proof -
  let ?same = "filter (\<lambda>b. ob_name b = name) obs"
  from assms obtain b where b: "b \<in> set obs" "ob_name b = name" "labelKey (ob_labels b) = key"
    by (auto simp: observedAt_def filter_empty_conv)
  then have "map_of (mt_histograms (observeAll obs noMetrics)) name =
      Some (accumulateAll (\<lambda>b. labelKey (ob_labels b)) newHistogram (\<lambda>b. observeValue (ob_value b)) ?same [])"
    by (auto simp: observeAll_histograms noMetrics_def map_of_accumulateAll mapGetOr_def
        accumulateAll_def [where m = "[]" and xs = ?same])
  moreover have "filter (\<lambda>b. labelKey (ob_labels b) = key) ?same =
      filter (\<lambda>b. ob_name b = name \<and> labelKey (ob_labels b) = key) obs"
    by (simp add: conj_commute)
  moreover have "key \<in> (\<lambda>b. labelKey (ob_labels b)) ` set ?same" using b by auto
  ultimately show ?thesis
    by (simp add: histogramAt_def map_of_accumulateAll mapGetOr_def foldl_observe_filter observedAt_def)
qed

text \<open>The buckets of a histogram that has seen the given values.\<close>

definition countsOf :: "jsnum list \<Rightarrow> histogram_state \<Rightarrow> bool" where
  "countsOf vs h \<longleftrightarrow> hs_count h = length vs \<and> hs_sum h = num_sum vs \<and>
     hs_buckets h = map (\<lambda>b. (b, length (filter (\<lambda>v. num_le v (ofInt b)) vs))) DEFAULT_BUCKETS_MS"

lemma countsOf_new: "countsOf [] newHistogram"
  by (simp add: countsOf_def newHistogram_def num_sum_def)

lemma mapAlter_map:
  "distinct bs \<Longrightarrow> b \<in> set bs \<Longrightarrow>
   mapAlter d f b (map (\<lambda>x. (x, g x)) bs) = map (\<lambda>x. (x, if x = b then f (g x) else g x)) bs"
proof -
  assume a: "distinct bs" "b \<in> set bs"
  have get: "mapGetOr d (map (\<lambda>x. (x, g x)) bs) b = g b"
    using a by (simp add: mapGetOr_def map_of_map_restrict restrict_map_def)
  have "mapSet b v (map (\<lambda>x. (x, g x)) bs) = map (\<lambda>x. (x, if x = b then v else g x)) bs" for v
    using a by (induction bs) auto
  then show ?thesis by (auto simp: mapAlter_def get)
qed

lemma bump_buckets:
  assumes "distinct bs" and "set cs \<subseteq> set bs" and "distinct cs"
  shows "foldl (\<lambda>m b. if P b then mapAlter 0 (\<lambda>n. n + 1) b m else m) (map (\<lambda>b. (b, g b)) bs) cs =
    map (\<lambda>b. (b, if b \<in> set cs \<and> P b then g b + 1 else (g b :: nat))) bs"
  using assms(2,3)
proof (induction cs arbitrary: g)
  case Nil
  then show ?case by simp
next
  case (Cons c cs)
  let ?g = "\<lambda>x. if x = c \<and> P c then g x + 1 else g x"
  have "(if P c then mapAlter 0 (\<lambda>n. n + 1) c (map (\<lambda>b. (b, g b)) bs) else map (\<lambda>b. (b, g b)) bs)
      = map (\<lambda>b. (b, ?g b)) bs"
    using Cons.prems by (auto simp: mapAlter_map [OF assms(1)])
  then show ?case using Cons.IH [of ?g] Cons.prems by auto
qed

lemma countsOf_observe:
  assumes "countsOf vs h"
  shows "countsOf (vs @ [v]) (observeValue v h)"
proof -
  have "distinct DEFAULT_BUCKETS_MS" by (simp add: DEFAULT_BUCKETS_MS_def)
  then have "hs_buckets (observeValue v h) = map (\<lambda>b. (b,
      if b \<in> set DEFAULT_BUCKETS_MS \<and> num_le v (ofInt b)
      then length (filter (\<lambda>v. num_le v (ofInt b)) vs) + 1
      else length (filter (\<lambda>v. num_le v (ofInt b)) vs))) DEFAULT_BUCKETS_MS"
    using assms by (simp add: observeValue_def countsOf_def bump_buckets)
  then have "hs_buckets (observeValue v h) =
      map (\<lambda>b. (b, length (filter (\<lambda>v. num_le v (ofInt b)) (vs @ [v])))) DEFAULT_BUCKETS_MS"
    by auto
  with assms show ?thesis by (simp add: countsOf_def observeValue_def num_sum_def)
qed

lemma countsOf_foldl: "countsOf vs h \<Longrightarrow> countsOf (vs @ ws) (foldl (\<lambda>h v. observeValue v h) h ws)"
  by (induction ws arbitrary: vs h) (simp, metis append.assoc append_Cons append_Nil countsOf_observe foldl_Cons)

section \<open>Properties\<close>

text \<open>
  After any sequence of observations, the histogram of a name and a label set
  counts exactly the observations recorded under them: its count and sum are theirs, and the bucket
  of each bound holds how many of them are at most the bound.
\<close>

theorem histogram_counts:
  assumes "observedAt name key obs \<noteq> []"
  shows "\<exists>h. histogramAt (observeAll obs noMetrics) name key = Some h \<and>
    hs_count h = length (observedAt name key obs) \<and>
    hs_sum h = num_sum (observedAt name key obs) \<and>
    hs_buckets h = map (\<lambda>b. (b, length (filter (\<lambda>v. num_le v (ofInt b)) (observedAt name key obs))))
      DEFAULT_BUCKETS_MS"
  using histogramAt_observeAll [OF assms] countsOf_foldl [OF countsOf_new, of "observedAt name key obs"]
  by (simp add: countsOf_def)

theorem histogram_counts_witness:
  "\<exists>h. histogramAt (observeAll [\<lparr>ob_name = ''d'', ob_value = ofInt 30, ob_labels = []\<rparr>] noMetrics) ''d'' []
     = Some h \<and> hs_buckets h = [(10, 0), (50, 1), (100, 1), (250, 1), (500, 1), (1000, 1), (2500, 1), (5000, 1)]"
proof -
  let ?obs = "[\<lparr>ob_name = ''d'', ob_value = ofInt 30, ob_labels = []\<rparr>]"
  have at: "observedAt ''d'' [] ?obs = [ofInt 30]"
    by (simp add: observedAt_def labelKey_def sortBy_def)
  then have "observedAt ''d'' [] ?obs \<noteq> []" by simp
  from histogram_counts [OF this] show ?thesis by (auto simp: at DEFAULT_BUCKETS_MS_def)
qed

text \<open>
  The health check reports the API down exactly when the database does not
  answer, degraded exactly when it does but a configured network does not, and it always lists
  both checks.
\<close>

theorem checkHealth_status:
  "(hr_status (checkHealth E (Some raw) counted) = Down \<longleftrightarrow> (\<exists>m. raw = Inl m)) \<and>
   (hr_status (checkHealth E (Some raw) counted) = Degraded \<longleftrightarrow>
      raw = Inr () \<and> confSet E ''CREDIT_REGISTRY_CONTRACT'' \<noteq> None \<and> (\<exists>m. rpcLatest E = Inl m)) \<and>
   map hc_name (hr_checks (checkHealth E (Some raw) counted)) = [''database'', ''stellar-network'']"
  by (auto simp: checkHealth_def checkDatabase_def checkNetwork_def Let_def
      split: sum.splits option.splits)

text \<open>
  A handler that throws is recorded with the default status of its route, not with the status of
  its exception.
\<close>

lemma failed_span_status:
  assumes "rs_status r = Some 201" and "rs_failed r"
  shows "(''status'', JNum (ofInt 201)) \<in> set (spanLabels r)"
  using assms by (simp add: spanLabels_def orElse_def)

end
