(* ===== verification/Clients.thy ===== *)
theory Clients
  imports Controllers
begin

text \<open>
  The route table of \<open>api/src/**/*.controller.ts\<close> and the two typed clients of the service: the client
  library \<open>sdk/src\<close> and the front end's \<open>frontend/src/lib/api.ts\<close>.  A request is a verb, a path of
  literal and inserted segments, query parameters and a body.  The last section runs the library's
  sign-in against the model of the service.
\<close>

section \<open>Requests and routes\<close>

datatype verb = VGet | VPost | VPatch | VDelete

text \<open>A segment of a path: a literal, or a value (in a request) or parameter (in a route).\<close>

datatype segment = Seg string | Var string

record http_call =
  hc_verb :: verb
  hc_path :: "segment list"
  hc_query :: "(string \<times> jsval) list"
  hc_body :: jsval

record endpoint =
  ep_verb :: verb
  ep_path :: "segment list"
  ep_public :: bool
  ep_admin :: bool

definition callGet :: "segment list \<Rightarrow> (string \<times> jsval) list \<Rightarrow> http_call" where
  "callGet p q = \<lparr>hc_verb = VGet, hc_path = p, hc_query = q, hc_body = JUndef\<rparr>"

definition callPost :: "segment list \<Rightarrow> jsval \<Rightarrow> http_call" where
  "callPost p b = \<lparr>hc_verb = VPost, hc_path = p, hc_query = [], hc_body = b\<rparr>"

definition callPatch :: "segment list \<Rightarrow> jsval \<Rightarrow> http_call" where
  "callPatch p b = \<lparr>hc_verb = VPatch, hc_path = p, hc_query = [], hc_body = b\<rparr>"

definition callDelete :: "segment list \<Rightarrow> http_call" where
  "callDelete p = \<lparr>hc_verb = VDelete, hc_path = p, hc_query = [], hc_body = JUndef\<rparr>"

definition open_route :: "verb \<Rightarrow> segment list \<Rightarrow> endpoint" where
  "open_route v p = \<lparr>ep_verb = v, ep_path = p, ep_public = True, ep_admin = False\<rparr>"

definition user_route :: "verb \<Rightarrow> segment list \<Rightarrow> endpoint" where
  "user_route v p = \<lparr>ep_verb = v, ep_path = p, ep_public = False, ep_admin = False\<rparr>"

definition admin_only_route :: "verb \<Rightarrow> segment list \<Rightarrow> endpoint" where
  "admin_only_route v p = \<lparr>ep_verb = v, ep_path = p, ep_public = False, ep_admin = True\<rparr>"

definition creditsRoutes :: "endpoint list" where
  "creditsRoutes = [
     open_route VGet [Seg ''credits''],
     user_route VGet [Seg ''credits'', Seg ''owned''],
     open_route VGet [Seg ''credits'', Var ''id''],
     open_route VGet [Seg ''credits'', Var ''id'', Seg ''provenance''],
     user_route VPost [Seg ''credits'', Seg ''issue''],
     user_route VPost [Seg ''credits'', Var ''id'', Seg ''approve''],
     user_route VPost [Seg ''credits'', Var ''id'', Seg ''reject'']]"

definition marketplaceRoutes :: "endpoint list" where
  "marketplaceRoutes = [
     user_route VPost [Seg ''marketplace'', Seg ''offer''],
     user_route VPost [Seg ''marketplace'', Seg ''buy'', Var ''id''],
     user_route VDelete [Seg ''marketplace'', Seg ''offer'', Var ''id''],
     user_route VGet [Seg ''marketplace'', Seg ''listings''],
     user_route VGet [Seg ''marketplace'', Seg ''history''],
     user_route VGet [Seg ''marketplace'', Seg ''price-history''],
     user_route VGet [Seg ''marketplace'', Seg ''stats'']]"

definition retirementRoutes :: "endpoint list" where
  "retirementRoutes = [
     user_route VPost [Seg ''credits'', Var ''id'', Seg ''retire''],
     open_route VGet [Seg ''credits'', Var ''id'', Seg ''certificate'']]"

definition verifiersRoutes :: "endpoint list" where
  "verifiersRoutes = [
     user_route VPost [Seg ''verifiers'', Seg ''register''],
     open_route VGet [Seg ''verifiers''],
     open_route VGet [Seg ''verifiers'', Seg ''pending''],
     open_route VGet [Seg ''verifiers'', Var ''id''],
     open_route VGet [Seg ''verifiers'', Var ''id'', Seg ''approvals''],
     user_route VPost [Seg ''verifiers'', Var ''id'', Seg ''heartbeat'']]"

definition certificatesRoutes :: "endpoint list" where
  "certificatesRoutes = [
     open_route VPost [Seg ''certificates'', Seg ''verify''],
     user_route VPost [Seg ''certificates'', Seg ''batch''],
     open_route VGet [Seg ''certificates'', Var ''id''],
     open_route VGet [Seg ''certificates'', Var ''id'', Seg ''pdf''],
     user_route VGet [Seg ''certificates'', Seg ''owned'']]"

definition bridgeRoutes :: "endpoint list" where
  "bridgeRoutes = [
     open_route VGet [Seg ''bridge'', Seg ''records''],
     open_route VGet [Seg ''bridge'', Seg ''registries'', Var ''registry'', Seg ''root''],
     admin_only_route VPost [Seg ''bridge'', Seg ''registries'', Var ''registry'', Seg ''root''],
     user_route VPost [Seg ''bridge'', Seg ''in''],
     user_route VPost [Seg ''bridge'', Seg ''credits'', Var ''creditId'', Seg ''out'']]"

definition revenueSplitRoutes :: "endpoint list" where
  "revenueSplitRoutes = [
     open_route VGet [Seg ''revenue-split'', Var ''projectId'', Seg ''config''],
     admin_only_route VPost [Seg ''revenue-split'', Var ''projectId'', Seg ''config''],
     user_route VPost [Seg ''revenue-split'', Var ''projectId'', Seg ''distribute'']]"

definition webhooksRoutes :: "endpoint list" where
  "webhooksRoutes = [
     user_route VPost [Seg ''webhooks''],
     user_route VGet [Seg ''webhooks''],
     user_route VGet [Seg ''webhooks'', Seg ''deliveries''],
     user_route VDelete [Seg ''webhooks'', Var ''id''],
     user_route VPost [Seg ''webhooks'', Var ''id'', Seg ''test'']]"

definition adminRoutes :: "endpoint list" where
  "adminRoutes = [
     admin_only_route VGet [Seg ''admin'', Seg ''config''],
     admin_only_route VPatch [Seg ''admin'', Seg ''config''],
     admin_only_route VGet [Seg ''admin'', Seg ''contracts''],
     admin_only_route VGet [Seg ''admin'', Seg ''verifiers''],
     admin_only_route VPost [Seg ''admin'', Seg ''verifiers''],
     admin_only_route VPost [Seg ''admin'', Seg ''verifiers'', Seg ''remove''],
     admin_only_route VGet [Seg ''admin'', Seg ''system'']]"

definition authRoutes :: "endpoint list" where
  "authRoutes = [
     open_route VPost [Seg ''auth'', Seg ''challenge''],
     open_route VPost [Seg ''auth'', Seg ''token''],
     open_route VPost [Seg ''auth'', Seg ''refresh'']]"

definition reportingRoutes :: "endpoint list" where
  "reportingRoutes = [user_route VGet [Seg ''reporting'', Seg ''scope3'']]"

definition observabilityRoutes :: "endpoint list" where
  "observabilityRoutes = [open_route VGet [Seg ''health''], open_route VGet [Seg ''metrics'']]"

definition routes :: "endpoint list" where
  "routes = creditsRoutes @ marketplaceRoutes @ retirementRoutes @ verifiersRoutes @
     certificatesRoutes @ bridgeRoutes @ revenueSplitRoutes @ webhooksRoutes @ adminRoutes @
     authRoutes @ reportingRoutes @ observabilityRoutes"

text \<open>
  A call agrees with a route when the verbs are the same and the paths have the same shape: equal
  literals, and a value where the route has a parameter.
\<close>

fun sameSegment :: "segment \<Rightarrow> segment \<Rightarrow> bool" where
  "sameSegment (Seg a) (Seg b) = (a = b)"
| "sameSegment (Var _) (Var _) = True"
| "sameSegment _ _ = False"

definition agrees :: "http_call \<Rightarrow> endpoint \<Rightarrow> bool" where
  "agrees c e \<longleftrightarrow> hc_verb c = ep_verb e \<and> list_all2 sameSegment (hc_path c) (ep_path e)"

definition served :: "http_call \<Rightarrow> endpoint list" where
  "served c = filter (agrees c) routes"

section \<open>The client library\<close>

text \<open>\<open>params\<close>: a key is sent when its value is truthy (\<open>if (filter.x) params.x = filter.x\<close>).\<close>

definition givenParams :: "(string \<times> jsval) list \<Rightarrow> (string \<times> jsval) list" where
  "givenParams kvs = filter (\<lambda>(k, v). truthy v) kvs"

datatype credits_call =
    ListCredits "(string \<times> jsval) list" | FetchCredit jsnum | IssueCredit jsval
  | ApproveCredit jsnum "jsval option" | RejectCredit jsnum jsval | TransferCredit jsnum string
  | CreditProvenance jsnum | OwnedCredits

fun creditsModule :: "credits_call \<Rightarrow> http_call" where
  "creditsModule (ListCredits filters) = callGet [Seg ''credits''] filters"
| "creditsModule (FetchCredit n) = callGet [Seg ''credits'', Var (num_to_string n)] []"
| "creditsModule (IssueCredit input) = callPost [Seg ''credits'', Seg ''issue''] input"
| "creditsModule (ApproveCredit n input) =
     callPost [Seg ''credits'', Var (num_to_string n), Seg ''approve''] (orElse input (JObj []))"
| "creditsModule (RejectCredit n input) =
     callPost [Seg ''credits'', Var (num_to_string n), Seg ''reject''] input"
| "creditsModule (TransferCredit n to) =
     callPost [Seg ''credits'', Var (num_to_string n), Seg ''transfer''] (JObj [(''to'', JStr to)])"
| "creditsModule (CreditProvenance n) =
     callGet [Seg ''credits'', Var (num_to_string n), Seg ''provenance''] []"
| "creditsModule OwnedCredits = callGet [Seg ''credits'', Seg ''owned''] []"

datatype marketplace_call =
    ListListings "(string \<times> jsval) list" | FetchOffer jsnum | CreateOffer jsval | Buy jsnum jsval
  | CancelOffer jsnum | TradeHistory | PriceHistory string | MarketStats

fun marketplaceModule :: "marketplace_call \<Rightarrow> http_call" where
  "marketplaceModule (ListListings filters) =
     callGet [Seg ''marketplace'', Seg ''listings''] filters"
| "marketplaceModule (FetchOffer n) =
     callGet [Seg ''marketplace'', Seg ''offer'', Var (num_to_string n)] []"
| "marketplaceModule (CreateOffer input) = callPost [Seg ''marketplace'', Seg ''offer''] input"
| "marketplaceModule (Buy n amount) =
     callPost [Seg ''marketplace'', Seg ''buy'', Var (num_to_string n)] (JObj [(''amount'', amount)])"
| "marketplaceModule (CancelOffer n) =
     callDelete [Seg ''marketplace'', Seg ''offer'', Var (num_to_string n)]"
| "marketplaceModule TradeHistory = callGet [Seg ''marketplace'', Seg ''history''] []"
| "marketplaceModule (PriceHistory rng) =
     callGet [Seg ''marketplace'', Seg ''price-history''] [(''range'', JStr rng)]"
| "marketplaceModule MarketStats = callGet [Seg ''marketplace'', Seg ''stats''] []"

datatype retirement_call =
  RetireCall jsnum jsval | RetirementRecord jsnum | RetirementCertificate jsnum

fun retirementModule :: "retirement_call \<Rightarrow> http_call" where
  "retirementModule (RetireCall n input) =
     callPost [Seg ''credits'', Var (num_to_string n), Seg ''retire''] input"
| "retirementModule (RetirementRecord n) =
     callGet [Seg ''credits'', Var (num_to_string n), Seg ''retirement''] []"
| "retirementModule (RetirementCertificate n) =
     callGet [Seg ''credits'', Var (num_to_string n), Seg ''certificate''] []"

datatype certificates_call =
  FetchCertificate string | CertificatePdf string | VerifyHash string | OwnedCertificates

fun certificatesModule :: "certificates_call \<Rightarrow> http_call" where
  "certificatesModule (FetchCertificate i) = callGet [Seg ''certificates'', Var i] []"
| "certificatesModule (CertificatePdf i) =
     callGet [Seg ''certificates'', Var i, Seg ''pdf''] []"
| "certificatesModule (VerifyHash h) =
     callPost [Seg ''certificates'', Seg ''verify''] (JObj [(''certificateHash'', JStr h)])"
| "certificatesModule OwnedCertificates = callGet [Seg ''certificates'', Seg ''owned''] []"

datatype bridge_call =
    BridgeRecords jsval jsval jsval jsval | BridgeInCall jsval | BridgeOutCall jsnum
  | FetchRoot string | PublishRoot string jsval

fun bridgeModule :: "bridge_call \<Rightarrow> http_call" where
  "bridgeModule (BridgeRecords registry status page limit) =
     callGet [Seg ''bridge'', Seg ''records''] (givenParams [(''registry'', registry),
       (''status'', status), (''page'', page), (''limit'', limit)])"
| "bridgeModule (BridgeInCall input) = callPost [Seg ''bridge'', Seg ''in''] input"
| "bridgeModule (BridgeOutCall n) =
     callPost [Seg ''bridge'', Seg ''credits'', Var (num_to_string n), Seg ''out''] JUndef"
| "bridgeModule (FetchRoot registry) =
     callGet [Seg ''bridge'', Seg ''registries'', Var registry, Seg ''root''] []"
| "bridgeModule (PublishRoot registry input) =
     callPost [Seg ''bridge'', Seg ''registries'', Var registry, Seg ''root''] input"

datatype split_call =
  SplitConfig string | ConfigureSplitCall string jsval | DistributeCall string jsval

fun revenueSplitModule :: "split_call \<Rightarrow> http_call" where
  "revenueSplitModule (SplitConfig pid) =
     callGet [Seg ''revenue-split'', Var pid, Seg ''config''] []"
| "revenueSplitModule (ConfigureSplitCall pid input) =
     callPost [Seg ''revenue-split'', Var pid, Seg ''config''] input"
| "revenueSplitModule (DistributeCall pid input) =
     callPost [Seg ''revenue-split'', Var pid, Seg ''distribute''] input"

datatype webhooks_call =
    CreateWebhookCall jsval | ListWebhooksCall | RemoveWebhookCall string | TestWebhookCall string
  | DeliveriesCall jsval jsval

fun webhooksModule :: "webhooks_call \<Rightarrow> http_call" where
  "webhooksModule (CreateWebhookCall input) = callPost [Seg ''webhooks''] input"
| "webhooksModule ListWebhooksCall = callGet [Seg ''webhooks''] []"
| "webhooksModule (RemoveWebhookCall i) = callDelete [Seg ''webhooks'', Var i]"
| "webhooksModule (TestWebhookCall i) = callPost [Seg ''webhooks'', Var i, Seg ''test''] JUndef"
| "webhooksModule (DeliveriesCall eventType limit) =
     callGet [Seg ''webhooks'', Seg ''deliveries'']
       (givenParams [(''eventType'', eventType), (''limit'', limit)])"

datatype admin_call =
    FetchConfig | UpdateConfig jsval | FetchContracts | ListVerifiersCall | AddVerifierCall string
  | RemoveVerifierCall string | SystemStatus

fun adminModule :: "admin_call \<Rightarrow> http_call" where
  "adminModule FetchConfig = callGet [Seg ''admin'', Seg ''config''] []"
| "adminModule (UpdateConfig input) = callPatch [Seg ''admin'', Seg ''config''] input"
| "adminModule FetchContracts = callGet [Seg ''admin'', Seg ''contracts''] []"
| "adminModule ListVerifiersCall = callGet [Seg ''admin'', Seg ''verifiers''] []"
| "adminModule (AddVerifierCall a) =
     callPost [Seg ''admin'', Seg ''verifiers''] (JObj [(''address'', JStr a)])"
| "adminModule (RemoveVerifierCall a) =
     callPost [Seg ''admin'', Seg ''verifiers'', Seg ''remove''] (JObj [(''address'', JStr a)])"
| "adminModule SystemStatus = callGet [Seg ''admin'', Seg ''system''] []"

text \<open>\<open>getScope3Report\<close> and \<open>buildScope3Url\<close>: the format, and the year when it is truthy.\<close>

datatype reporting_call = Scope3Json "string option" jsval | Scope3Csv jsval

fun reportingModule :: "reporting_call \<Rightarrow> http_call" where
  "reportingModule (Scope3Json fmt year) = callGet [Seg ''reporting'', Seg ''scope3'']
     ((''format'', JStr (orElse fmt ''json'')) # givenParams [(''year'', year)])"
| "reportingModule (Scope3Csv year) = callGet [Seg ''reporting'', Seg ''scope3'']
     ((''format'', JStr ''csv'') # givenParams [(''year'', JStr (if truthy year then jsString year else []))])"

datatype sdk_call =
    SdkCredits credits_call | SdkMarketplace marketplace_call | SdkRetirement retirement_call
  | SdkCertificates certificates_call | SdkBridge bridge_call | SdkSplit split_call
  | SdkWebhooks webhooks_call | SdkAdmin admin_call | SdkReporting reporting_call | SdkHealth

fun sdkRequest :: "sdk_call \<Rightarrow> http_call" where
  "sdkRequest (SdkCredits c) = creditsModule c"
| "sdkRequest (SdkMarketplace c) = marketplaceModule c"
| "sdkRequest (SdkRetirement c) = retirementModule c"
| "sdkRequest (SdkCertificates c) = certificatesModule c"
| "sdkRequest (SdkBridge c) = bridgeModule c"
| "sdkRequest (SdkSplit c) = revenueSplitModule c"
| "sdkRequest (SdkWebhooks c) = webhooksModule c"
| "sdkRequest (SdkAdmin c) = adminModule c"
| "sdkRequest (SdkReporting c) = reportingModule c"
| "sdkRequest SdkHealth = callGet [Seg ''health''] []"

text \<open>The methods of the library that the service has no route for.\<close>

fun unsupported :: "sdk_call \<Rightarrow> bool" where
  "unsupported (SdkCredits (TransferCredit _ _)) = True"
| "unsupported (SdkMarketplace (FetchOffer _)) = True"
| "unsupported (SdkRetirement (RetirementRecord _)) = True"
| "unsupported _ = False"

lemmas route_defs = routes_def creditsRoutes_def marketplaceRoutes_def retirementRoutes_def
  verifiersRoutes_def certificatesRoutes_def bridgeRoutes_def revenueSplitRoutes_def
  webhooksRoutes_def adminRoutes_def authRoutes_def reportingRoutes_def observabilityRoutes_def
  open_route_def user_route_def admin_only_route_def

lemmas call_defs = callGet_def callPost_def callPatch_def callDelete_def

text \<open>
  A request is compared only with the routes of its verb and length; the tables of these are computed
  once.
\<close>

definition routeTable :: "verb \<Rightarrow> nat \<Rightarrow> endpoint list" where
  "routeTable v n = filter (\<lambda>e. ep_verb e = v \<and> length (ep_path e) = n) routes"

lemma served_table:
  "served c = filter (\<lambda>e. list_all2 sameSegment (hc_path c) (ep_path e))
     (routeTable (hc_verb c) (length (hc_path c)))"
proof -
  have "agrees c = (\<lambda>e. ep_verb e = hc_verb c \<and> length (ep_path e) = length (hc_path c) \<and>
      list_all2 sameSegment (hc_path c) (ep_path e))"
    by (auto simp: fun_eq_iff agrees_def dest: list_all2_lengthD)
  then show ?thesis by (simp add: served_def routeTable_def)
qed

lemmas table_get = routeTable_def [of VGet "Suc 0", simplified route_defs, simplified]
  routeTable_def [of VGet "Suc (Suc 0)", simplified route_defs, simplified]
  routeTable_def [of VGet "Suc (Suc (Suc 0))", simplified route_defs, simplified]
  routeTable_def [of VGet "Suc (Suc (Suc (Suc 0)))", simplified route_defs, simplified]

lemmas table_post = routeTable_def [of VPost "Suc 0", simplified route_defs, simplified]
  routeTable_def [of VPost "Suc (Suc 0)", simplified route_defs, simplified]
  routeTable_def [of VPost "Suc (Suc (Suc 0))", simplified route_defs, simplified]
  routeTable_def [of VPost "Suc (Suc (Suc (Suc 0)))", simplified route_defs, simplified]

lemmas table_others = routeTable_def [of VPatch "Suc (Suc 0)", simplified route_defs, simplified]
  routeTable_def [of VDelete "Suc (Suc 0)", simplified route_defs, simplified]
  routeTable_def [of VDelete "Suc (Suc (Suc 0))", simplified route_defs, simplified]

lemmas served_simps = served_table table_get table_post table_others call_defs

text \<open>
  Every method of the client library, with any arguments, agrees in verb and path with
  exactly one route of the service, except the three methods named in \<open>unsupported\<close>, which agree
  with none.
\<close>

lemma sdk_routed:
  "length (served (sdkRequest c)) = (if unsupported c then 0 else 1)"
proof (cases c)
  case (SdkCredits d)
  then show ?thesis by (cases d) (simp_all add: served_simps)
next
  case (SdkMarketplace d)
  then show ?thesis by (cases d) (simp_all add: served_simps)
next
  case (SdkRetirement d)
  then show ?thesis by (cases d) (simp_all add: served_simps)
next
  case (SdkCertificates d)
  then show ?thesis by (cases d) (simp_all add: served_simps)
next
  case (SdkBridge d)
  then show ?thesis by (cases d) (simp_all add: served_simps)
next
  case (SdkSplit d)
  then show ?thesis by (cases d) (simp_all add: served_simps)
next
  case (SdkWebhooks d)
  then show ?thesis by (cases d) (simp_all add: served_simps)
next
  case (SdkAdmin d)
  then show ?thesis by (cases d) (simp_all add: served_simps)
next
  case (SdkReporting d)
  then show ?thesis by (cases d) (simp_all add: served_simps)
next
  case SdkHealth
  then show ?thesis by (simp add: served_simps)
qed

text \<open>The command line tool's heartbeat calls a path without an id.\<close>

lemma cli_heartbeat_unrouted:
  "served (callPost [Seg ''verifiers'', Seg ''heartbeat''] JUndef) = []"
  by (simp add: served_simps)

section \<open>The front end\<close>

text \<open>\<open>{ params: filters }\<close>: keys whose value is undefined or null are not sent.\<close>

definition definedParams :: "(string \<times> jsval) list \<Rightarrow> (string \<times> jsval) list" where
  "definedParams kvs = filter (\<lambda>(k, v). \<not> nullish v) kvs"

datatype web_account_call =
    WHealth | WChallenge string | WToken string string string | WListWebhooks | WCreateWebhook jsval
  | WDeleteWebhook string | WTestWebhook string | WDeliveries jsval

fun webAccount :: "web_account_call \<Rightarrow> http_call" where
  "webAccount WHealth = callGet [Seg ''health''] []"
| "webAccount (WChallenge wallet) =
     callPost [Seg ''auth'', Seg ''challenge''] (JObj [(''wallet'', JStr wallet)])"
| "webAccount (WToken wallet signedChallenge challengeId) =
     callPost [Seg ''auth'', Seg ''token''] (JObj [(''wallet'', JStr wallet),
       (''signedChallenge'', JStr signedChallenge), (''challengeId'', JStr challengeId)])"
| "webAccount WListWebhooks = callGet [Seg ''webhooks''] []"
| "webAccount (WCreateWebhook d) = callPost [Seg ''webhooks''] d"
| "webAccount (WDeleteWebhook i) = callDelete [Seg ''webhooks'', Var i]"
| "webAccount (WTestWebhook i) = callPost [Seg ''webhooks'', Var i, Seg ''test''] JUndef"
| "webAccount (WDeliveries limit) =
     callGet [Seg ''webhooks'', Seg ''deliveries''] [(''limit'', limit)]"

datatype web_admin_call =
    WConfig | WUpdateConfig jsval | WContracts | WAdminVerifiers | WAddVerifier string
  | WRemoveVerifier string | WSystem

fun webAdmin :: "web_admin_call \<Rightarrow> http_call" where
  "webAdmin WConfig = callGet [Seg ''admin'', Seg ''config''] []"
| "webAdmin (WUpdateConfig d) = callPatch [Seg ''admin'', Seg ''config''] d"
| "webAdmin WContracts = callGet [Seg ''admin'', Seg ''contracts''] []"
| "webAdmin WAdminVerifiers = callGet [Seg ''admin'', Seg ''verifiers''] []"
| "webAdmin (WAddVerifier a) =
     callPost [Seg ''admin'', Seg ''verifiers''] (JObj [(''address'', JStr a)])"
| "webAdmin (WRemoveVerifier a) =
     callPost [Seg ''admin'', Seg ''verifiers'', Seg ''remove''] (JObj [(''address'', JStr a)])"
| "webAdmin WSystem = callGet [Seg ''admin'', Seg ''system''] []"

datatype web_credit_call =
    WCredits "(string \<times> jsval) list" | WCredit jsnum | WProvenance jsnum | WOwnedCredits
  | WIssue jsval | WApprove jsnum jsval | WReject jsnum string
  | WListings "(string \<times> jsval) list" | WStats | WOffer jsval | WBuy jsnum jsval | WCancel jsnum

fun webCredits :: "web_credit_call \<Rightarrow> http_call" where
  "webCredits (WCredits filters) = callGet [Seg ''credits''] filters"
| "webCredits (WCredit n) = callGet [Seg ''credits'', Var (num_to_string n)] []"
| "webCredits (WProvenance n) =
     callGet [Seg ''credits'', Var (num_to_string n), Seg ''provenance''] []"
| "webCredits WOwnedCredits = callGet [Seg ''credits'', Seg ''owned''] []"
| "webCredits (WIssue d) = callPost [Seg ''credits'', Seg ''issue''] d"
| "webCredits (WApprove n comments) =
     callPost [Seg ''credits'', Var (num_to_string n), Seg ''approve''] (JObj [(''comments'', comments)])"
| "webCredits (WReject n reason) =
     callPost [Seg ''credits'', Var (num_to_string n), Seg ''reject''] (JObj [(''reason'', JStr reason)])"
| "webCredits (WListings filters) = callGet [Seg ''marketplace'', Seg ''listings''] filters"
| "webCredits WStats = callGet [Seg ''marketplace'', Seg ''stats''] []"
| "webCredits (WOffer d) = callPost [Seg ''marketplace'', Seg ''offer''] d"
| "webCredits (WBuy n amount) =
     callPost [Seg ''marketplace'', Seg ''buy'', Var (num_to_string n)] (JObj [(''amount'', amount)])"
| "webCredits (WCancel n) = callDelete [Seg ''marketplace'', Seg ''offer'', Var (num_to_string n)]"

datatype web_record_call =
    WRetire jsnum jsval | WRetirementCertificate jsnum | WCertificate string | WOwnedCertificates
  | WVerify string | WVerifiers | WRegister | WPriceHistory string | WScope3 jsval
  | WScope3Csv jsval | WRecords "(string \<times> jsval) list" | WRoot string | WBridgeIn jsval
  | WBridgeOut jsnum | WPublishRoot string jsval

fun webRecords :: "web_record_call \<Rightarrow> http_call" where
  "webRecords (WRetire n d) = callPost [Seg ''credits'', Var (num_to_string n), Seg ''retire''] d"
| "webRecords (WRetirementCertificate n) =
     callGet [Seg ''credits'', Var (num_to_string n), Seg ''certificate''] []"
| "webRecords (WCertificate i) = callGet [Seg ''certificates'', Var i] []"
| "webRecords WOwnedCertificates = callGet [Seg ''certificates'', Seg ''owned''] []"
| "webRecords (WVerify h) =
     callPost [Seg ''certificates'', Seg ''verify''] (JObj [(''certificateHash'', JStr h)])"
| "webRecords WVerifiers = callGet [Seg ''verifiers''] []"
| "webRecords WRegister = callPost [Seg ''verifiers'', Seg ''register''] JUndef"
| "webRecords (WPriceHistory rng) =
     callGet [Seg ''marketplace'', Seg ''price-history''] [(''range'', JStr rng)]"
| "webRecords (WScope3 year) = callGet [Seg ''reporting'', Seg ''scope3'']
     ((''format'', JStr ''json'') # givenParams [(''year'', year)])"
| "webRecords (WScope3Csv year) = callGet [Seg ''reporting'', Seg ''scope3'']
     ((''format'', JStr ''csv'') #
        givenParams [(''year'', JStr (if truthy year then jsString year else []))])"
| "webRecords (WRecords filters) = callGet [Seg ''bridge'', Seg ''records''] (definedParams filters)"
| "webRecords (WRoot registry) =
     callGet [Seg ''bridge'', Seg ''registries'', Var registry, Seg ''root''] []"
| "webRecords (WBridgeIn d) = callPost [Seg ''bridge'', Seg ''in''] d"
| "webRecords (WBridgeOut n) =
     callPost [Seg ''bridge'', Seg ''credits'', Var (num_to_string n), Seg ''out''] JUndef"
| "webRecords (WPublishRoot registry d) =
     callPost [Seg ''bridge'', Seg ''registries'', Var registry, Seg ''root''] d"

text \<open>
  Every request of the front end's API module agrees with exactly one route.
\<close>

lemma web_routed:
  "length (served (webAccount a)) = 1 \<and> length (served (webAdmin b)) = 1 \<and>
   length (served (webCredits c)) = 1 \<and> length (served (webRecords d)) = 1"
proof (intro conjI)
  show "length (served (webAccount a)) = 1" by (cases a) (simp_all add: served_simps)
  show "length (served (webAdmin b)) = 1" by (cases b) (simp_all add: served_simps)
  show "length (served (webCredits c)) = 1" by (cases c) (simp_all add: served_simps)
  show "length (served (webRecords d)) = 1" by (cases d) (simp_all add: served_simps)
qed

section \<open>Signing in\<close>

text \<open>
  A transport takes the \<open>Authorization\<close> header and a request to the response body or the message of
  the error that is thrown; its state is that of the service behind it.
\<close>

type_synonym 's transport = "string option \<Rightarrow> http_call \<Rightarrow> ('s, api_error, jsval) act"

record client =
  ck_apiUrl :: string
  ck_network :: string
  ck_authToken :: "string option"

definition newClient :: "string option \<Rightarrow> string option \<Rightarrow> client" where
  "newClient apiUrl network = \<lparr>ck_apiUrl = orElse apiUrl ''http://localhost:3000'',
     ck_network = orElse network ''testnet'', ck_authToken = None\<rparr>"

definition setAuthToken :: "client \<Rightarrow> string option \<Rightarrow> client" where
  "setAuthToken c t = c\<lparr>ck_authToken := t\<rparr>"

definition authHeader :: "client \<Rightarrow> string option" where
  "authHeader c = map_option (\<lambda>t. ''Bearer '' @ t) (given (ck_authToken c))"

definition requestChallenge :: "'s transport \<Rightarrow> client \<Rightarrow> string \<Rightarrow> ('s, api_error, jsval) act" where
  "requestChallenge T c wallet = T (authHeader c)
     (callPost [Seg ''auth'', Seg ''challenge''] (JObj [(''wallet'', JStr wallet)]))"

definition authenticate ::
  "'s transport \<Rightarrow> client \<Rightarrow> string \<Rightarrow> string \<Rightarrow> string \<Rightarrow> ('s, api_error, jsval \<times> client) act" where
  "authenticate T c wallet signedChallenge challengeId =
     bindE (T (authHeader c) (callPost [Seg ''auth'', Seg ''token'']
       (JObj [(''wallet'', JStr wallet), (''signedChallenge'', JStr signedChallenge),
              (''challengeId'', JStr challengeId)]))) (\<lambda>data.
     ret (data, setAuthToken c (case getProp data ''accessToken'' of JStr t \<Rightarrow> Some t | _ \<Rightarrow> None)))"

text \<open>
  \<open>sign tx passphrase\<close> parses the transaction, signs it with the key pair and encodes it again;
  \<open>public\<close> is the passphrase of the main network.
\<close>

definition authenticateWithKeypair ::
  "'s transport \<Rightarrow> (string \<Rightarrow> string \<Rightarrow> string + string) \<Rightarrow> string \<Rightarrow> client \<Rightarrow> string \<Rightarrow> string option \<Rightarrow>
   ('s, api_error, jsval \<times> client) act" where
  "authenticateWithKeypair T sign public c wallet given_passphrase =
     bindE (requestChallenge T c wallet) (\<lambda>challenge.
       let passphrase = orElse given_passphrase
             (if ck_network c = ''mainnet'' then public else TESTNET) in
       bindE (fromSum (fromSdk (sign (jsString (getProp challenge ''transaction'')) passphrase)))
         (\<lambda>signed.
       authenticate T c wallet signed (jsString (getProp challenge ''challengeId''))))"

text \<open>Retirements one after another; the first one that throws ends the batch.\<close>

definition batchRetire ::
  "'s transport \<Rightarrow> client \<Rightarrow> (jsnum \<times> jsval) list \<Rightarrow> ('s, api_error, jsval list) act" where
  "batchRetire T c inputs =
     mapE (\<lambda>(n, input). T (authHeader c) (retirementModule (RetireCall n input))) inputs"

text \<open>The two sign-in routes of the service as a transport.\<close>

definition challengeBody :: "challenge_response \<Rightarrow> jsval" where
  "challengeBody r = JObj [(''challengeId'', JStr (cs_challengeId r)),
     (''transaction'', JStr (cs_transaction r)), (''network'', JStr (cs_network r)),
     (''homeDomain'', JStr (cs_homeDomain r)), (''expiresIn'', JNum (cs_expiresIn r))]"

definition tokensBody :: "tokens \<Rightarrow> jsval" where
  "tokensBody t = JObj [(''accessToken'', JStr (tk_accessToken t)),
     (''refreshToken'', JStr (tk_refreshToken t))]"

definition signInService :: "auth_lib \<Rightarrow> env \<Rightarrow> world transport" where
  "signInService L E hdr call =
     (let field = (\<lambda>k. jsString (getProp (hc_body call) k)) in
      if agrees call (open_route VPost [Seg ''auth'', Seg ''challenge'']) then
        bindE (generateChallenge L E (field ''wallet'')) (\<lambda>r. ret (challengeBody r))
      else if agrees call (open_route VPost [Seg ''auth'', Seg ''token'']) then
        bindE (exchangeToken L E (field ''wallet'') (field ''signedChallenge'')
                 (field ''challengeId'')) (\<lambda>t. ret (tokensBody t))
      else throw (NotFound ''Cannot serve''))"

text \<open>
  What the SEP-10 functions promise for a challenge that its client signed, and what the token
  functions promise for a token that was just signed.
\<close>

definition signsChallenge ::
  "auth_lib \<Rightarrow> env \<Rightarrow> (string \<Rightarrow> string \<Rightarrow> string + string) \<Rightarrow> string \<Rightarrow> string \<Rightarrow> string \<Rightarrow> bool" where
  "signsChallenge L E sign wallet tx stx \<longleftrightarrow>
     (\<exists>server ss mt. getServerKeypair E = Inr server \<and>
        al_build L server wallet (getHomeDomain E) (getChallengeTimeoutSeconds E)
          (networkPassphrase E) = Inr tx \<and>
        sign tx (networkPassphrase E) = Inr stx \<and>
        al_verify L stx server (networkPassphrase E) [wallet] (getHomeDomain E) = Inr ss \<and>
        wallet \<in> set ss \<and>
        al_read L stx server (networkPassphrase E) (getHomeDomain E) = Inr wallet \<and>
        al_maxTime L stx (networkPassphrase E) = Inr mt \<and>
        (\<forall>t. mt = Some t \<longrightarrow> \<not> num_lt (stringToNumber t)
           (num_floor (num_div (num_of_int (clock E)) (ofInt 1000)))))"

definition tokensVerify :: "auth_lib \<Rightarrow> bool" where
  "tokensVerify L \<longleftrightarrow> (\<forall>cl e. al_sign L cl e \<noteq> [] \<and> al_jwtVerify L (al_sign L cl e) = Inr cl)"

text \<open>The challenge fits the table: its id and its transaction are new, and so is the next id.\<close>

definition roomFor :: "env \<Rightarrow> world \<Rightarrow> string \<Rightarrow> bool" where
  "roomFor E w tx \<longleftrightarrow> cuid E (idseq w) \<notin> set (map ch_id (challenges w)) \<and>
     tx \<notin> set (map ch_transaction (challenges w)) \<and>
     cuid E (Suc (idseq w)) \<notin> set (map u_id (users w))"

definition storedChallenge :: "env \<Rightarrow> world \<Rightarrow> string \<Rightarrow> string \<Rightarrow> int \<Rightarrow> challenge" where
  "storedChallenge E w wallet tx s = \<lparr>ch_id = cuid E (idseq w), ch_wallet = wallet,
     ch_transaction = tx, ch_expiresAt = clock E + 1000 * s, ch_usedAt = None,
     ch_createdAt = clock E\<rparr>"

lemma dateMs_ofInt: "\<bar>n\<bar> \<le> 8640000000000000 \<Longrightarrow> dateMs (ofInt n) = ret n"
  by (simp add: dateMs_def ofInt_def) linarith

lemma generateChallenge_run:
  assumes v: "isValidPub E wallet" and sc: "signsChallenge L E sign wallet tx stx"
    and t: "getChallengeTimeoutSeconds E = ofInt s" "0 \<le> s" "0 \<le> clock E"
      "clock E + 1000 * s \<le> 8640000000000000"
    and room: "roomFor E w tx"
  defines "c \<equiv> storedChallenge E w wallet tx s"
  shows "\<exists>r w1. generateChallenge L E wallet w = (Inr r, w1) \<and> cs_challengeId r = ch_id c \<and>
    cs_transaction r = tx \<and> findChallenge w1 (ch_id c) = Some c \<and> users w1 = users w \<and>
    idseq w1 = Suc (idseq w)"
proof -
  from sc obtain server where s: "getServerKeypair E = Inr server"
    and b: "al_build L server wallet (getHomeDomain E) (getChallengeTimeoutSeconds E)
      (networkPassphrase E) = Inr tx" by (auto simp: signsChallenge_def)
  have safe: "safeInt x" if "0 \<le> x" "x \<le> 8640000000000000" for x
    using that by (simp add: safeInt_def)
  have e: "dateMs (num_add (num_of_int (clock E)) (num_mul (getChallengeTimeoutSeconds E) (ofInt 1000)))
      = ret (clock E + 1000 * s)"
    using t by (simp add: num_of_int_safe num_mul_ofInt num_add_ofInt safe dateMs_ofInt mult.commute)
  let ?w = "w\<lparr>challenges := filter (\<lambda>c. \<not> stale E c) (challenges w), idseq := Suc (idseq w)\<rparr>"
  have chk: "challengeCheck ?w c = None"
    using room by (auto simp: challengeCheck_def c_def storedChallenge_def roomFor_def)
  have fresh: "List.find (\<lambda>c'. ch_id c' = ch_id c) (filter (\<lambda>c. \<not> stale E c) (challenges w)) = None"
  proof -
    have "ch_id x \<noteq> cuid E (idseq w)" if "x \<in> set (challenges w)" for x
      using room that by (metis image_eqI list.set_map roomFor_def)
    then show ?thesis by (auto simp: find_None_iff c_def storedChallenge_def)
  qed
  show ?thesis
    using v s b e chk fresh
    by (simp add: generateChallenge_def Let_def act_simps fromSdk_def dbInsert_def findChallenge_def
        find_append c_def [unfolded storedChallenge_def, symmetric])
qed

lemma findOrCreateUser_returns:
  assumes "cuid E (idseq w) \<notin> set (map u_id (users w))" and "distinct (map u_id (users w))"
  shows "\<exists>(u :: user) w'. findOrCreateUser E wallet w = (Inr u, w') \<and> u_stellarPub u = wallet \<and>
    userById w' (u_id u) = Some u"
proof (cases "List.find (\<lambda>u. u_stellarPub u = wallet) (users w)")
  case None
  have "wallet \<notin> u_stellarPub ` set (users w)"
    using find_NoneD [OF None] by auto
  moreover have "List.find (\<lambda>u. u_id u = cuid E (idseq w)) (users w) = None"
    using assms(1) by (force simp: find_None_iff)
  ultimately show ?thesis
    using assms(1) None by (simp add: findOrCreateUser_def act_simps dbInsert_def userCheck_def
        userById_def find_append)
next
  case (Some u)
  then have u: "u \<in> set (users w)" "u_stellarPub u = wallet" by (auto dest: find_SomeD)
  with Some find_unique [OF assms(2) u(1)] show ?thesis
    by (auto simp: findOrCreateUser_def act_simps userById_def)
qed

lemma exchangeToken_returns:
  assumes v: "isValidPub E wallet" and sc: "signsChallenge L E sign wallet tx stx"
    and c: "findChallenge w (ch_id c) = Some c" "ch_wallet c = wallet" "ch_usedAt c = None"
      "clock E \<le> ch_expiresAt c"
    and room: "cuid E (idseq w) \<notin> set (map u_id (users w))" "distinct (map u_id (users w))"
  shows "\<exists>(u :: user) w'. exchangeToken L E wallet stx (ch_id c) w = (Inr (issueTokens L (u_id u) wallet), w') \<and>
    u_stellarPub u = wallet \<and> userById w' (u_id u) = Some u"
proof -
  let ?w = "w\<lparr>challenges := updWhere (\<lambda>x. ch_id x = ch_id c) (\<lambda>x. x\<lparr>ch_usedAt := Some (clock E)\<rparr>)
    (challenges w)\<rparr>"
  have sig: "signatureChecks L E wallet stx = Inr ()"
    using sc by (auto simp: signsChallenge_def signatureChecks_def throwIfS_def fromSdk_def Let_def
        split: option.splits)
  have upd: "\<exists>x. dbUpdate challenges challenges_update (\<lambda>x. ch_id x = ch_id c)
      (\<lambda>x. x\<lparr>ch_usedAt := Some (clock E)\<rparr>) w = (Inr x, ?w)"
    using c(1) by (auto simp: dbUpdate_def findChallenge_def)
  obtain u w' where u: "findOrCreateUser E wallet ?w = (Inr u, w')" "u_stellarPub u = wallet"
      "userById w' (u_id u) = Some u"
    using findOrCreateUser_returns [of E ?w wallet] room by auto
  from upd obtain x where "dbUpdate challenges challenges_update (\<lambda>x. ch_id x = ch_id c)
      (\<lambda>x. x\<lparr>ch_usedAt := Some (clock E)\<rparr>) w = (Inr x, ?w)" by blast
  with challengeGuards_run [OF v c] sig u(1)
  have "exchangeToken L E wallet stx (ch_id c) w = (Inr (issueTokens L (u_id u) wallet), w')"
    by (simp add: exchangeToken_def seqE_apply bindE_apply)
  with u(2,3) show ?thesis by blast
qed

lemma jsString_JStr [simp]: "jsString (JStr s) = s"
  by (simp add: jsString_def)

lemmas transport_defs = signInService_def agrees_def callPost_def open_route_def Let_def bindE_apply

lemma requestChallenge_run:
  "generateChallenge L E wallet w = (Inr r, w1) \<Longrightarrow>
   requestChallenge (signInService L E) c wallet w = (Inr (challengeBody r), w1)"
  by (simp add: requestChallenge_def transport_defs)

lemma authenticate_run:
  "exchangeToken L E wallet stx cid w1 = (Inr t, w') \<Longrightarrow>
   authenticate (signInService L E) c wallet stx cid w1 =
     (Inr (tokensBody t, setAuthToken c (Some (tk_accessToken t))), w')"
  by (simp add: authenticate_def transport_defs tokensBody_def)

text \<open>
  C12. When the wallet is valid, the SEP-10 and token functions keep their promises, the
  passphrases agree and the tables have room, the library's sign-in succeeds against the service in
  any state: it returns tokens, later requests carry the access token, and the service's guard takes
  that token for a user with this wallet.
\<close>

theorem sdk_login:
  assumes "isValidPub E wallet" and "signsChallenge L E sign wallet tx stx" and "tokensVerify L"
    and "getChallengeTimeoutSeconds E = ofInt s" and "0 \<le> s" and "0 \<le> clock E"
    and "clock E + 1000 * s \<le> 8640000000000000" and "roomFor E w tx" and "schemaOk w"
    and "orElse ov (if ck_network c = ''mainnet'' then public else TESTNET) = networkPassphrase E"
  shows "\<exists>data c' w' t uid. authenticateWithKeypair (signInService L E) sign public c wallet ov w =
      (Inr (data, c'), w') \<and> ck_authToken c' = Some t \<and> authHeader c' = Some (''Bearer '' @ t) \<and>
    jwtGuard L w' False (Some t) = Inr (Some \<lparr>pr_id = uid, pr_wallet = wallet\<rparr>)"
proof -
  let ?ch = "storedChallenge E w wallet tx s"
  obtain r w1 where g: "generateChallenge L E wallet w = (Inr r, w1)" "cs_challengeId r = ch_id ?ch"
      "cs_transaction r = tx" "findChallenge w1 (ch_id ?ch) = Some ?ch" "users w1 = users w"
      "idseq w1 = Suc (idseq w)"
    using generateChallenge_run [OF assms(1,2,4-8)] by blast
  have "cuid E (idseq w1) \<notin> set (map u_id (users w1))" "distinct (map u_id (users w1))"
    using assms(8,9) g(5,6) by (simp_all add: roomFor_def schemaOk_def keysOk_def)
  then obtain u w' where x: "exchangeToken L E wallet stx (ch_id ?ch) w1 =
      (Inr (issueTokens L (u_id u) wallet), w')" "u_stellarPub u = wallet" "userById w' (u_id u) = Some u"
    using exchangeToken_returns [OF assms(1,2) g(4)] assms(5) by (auto simp: storedChallenge_def)
  let ?t = "tk_accessToken (issueTokens L (u_id u) wallet)"
  have sg: "sign tx (networkPassphrase E) = Inr stx" using assms(2) by (auto simp: signsChallenge_def)
  have "authenticateWithKeypair (signInService L E) sign public c wallet ov w =
      (Inr (tokensBody (issueTokens L (u_id u) wallet), setAuthToken c (Some ?t)), w')"
    using requestChallenge_run [OF g(1)] authenticate_run [OF x(1)] sg g(2,3)
    by (simp add: authenticateWithKeypair_def bindE_apply challengeBody_def assms(10) fromSdk_def)
  moreover have "?t \<noteq> []" and "al_jwtVerify L ?t = Inr \<lparr>cl_sub = u_id u, cl_wallet = wallet, cl_type = None\<rparr>"
    using assms(3) by (simp_all add: tokensVerify_def issueTokens_def)
  ultimately show ?thesis
    using x(2,3) by (intro exI conjI)
      (auto simp: setAuthToken_def authHeader_def given_def jwtGuard_def jwtValidate_def)
qed

text \<open>A token is the claims, each field after its length in unary.\<close>

definition putField :: "string \<Rightarrow> string" where
  "putField s = replicate (length s) CHR ''a'' @ CHR ''-'' # s"

definition takeField :: "string \<Rightarrow> string \<times> string" where
  "takeField s = (let n = length (takeWhile (\<lambda>c. c = CHR ''a'') s); r = drop (Suc n) s in
     (take n r, drop n r))"

lemma takeField_putField [simp]: "takeField (putField s @ rest) = (s, rest)"
proof -
  have "takeWhile (\<lambda>c. c = CHR ''a'') (replicate (length s) CHR ''a'' @ CHR ''-'' # s @ rest)
      = replicate (length s) CHR ''a''" by (simp add: takeWhile_append)
  then show ?thesis by (simp add: takeField_def putField_def Let_def)
qed

definition demoToken :: "claims \<Rightarrow> string" where
  "demoToken cl = putField (cl_sub cl) @ putField (cl_wallet cl) @
     (case cl_type cl of None \<Rightarrow> [] | Some t \<Rightarrow> CHR ''t'' # t)"

definition demoClaims :: "string \<Rightarrow> claims" where
  "demoClaims s = (case takeField s of (sub, r) \<Rightarrow> (case takeField r of (wallet, r2) \<Rightarrow>
     \<lparr>cl_sub = sub, cl_wallet = wallet, cl_type = (case r2 of [] \<Rightarrow> None | _ # t \<Rightarrow> Some t)\<rparr>))"

definition loginLib :: auth_lib where
  "loginLib = demoLib\<lparr>al_sign := (\<lambda>cl e. demoToken cl), al_jwtVerify := (\<lambda>t. Inr (demoClaims t))\<rparr>"

lemma tokensVerify_demo: "tokensVerify loginLib"
proof -
  have "demoClaims (demoToken cl) = cl" for cl
    by (cases cl) (auto simp: demoToken_def demoClaims_def split: option.split)
  moreover have "demoToken cl \<noteq> []" for cl by (simp add: demoToken_def putField_def)
  ultimately show ?thesis by (simp add: tokensVerify_def loginLib_def)
qed

theorem sdk_login_witness:
  "\<exists>data c' w'. authenticateWithKeypair (signInService loginLib authEnv) (\<lambda>tx p. Inr ''GNEW'') ''Public''
     (newClient None None) ''GNEW'' None demoWorld = (Inr (data, c'), w') \<and> ck_authToken c' \<noteq> None"
proof -
  have sc: "signsChallenge loginLib authEnv (\<lambda>tx p. Inr ''GNEW'') ''GNEW'' ''tx'' ''GNEW''"
    unfolding signsChallenge_def
    by (intro exI [of _ "''GADMIN''"] exI [of _ "[''GNEW'']"] exI [of _ None])
       (simp add: loginLib_def demoLib_def getServerKeypair_def confSet_def authEnv_def demoEnv_def)
  have "getChallengeTimeoutSeconds authEnv = ofInt 300" by code_simp
  moreover have "roomFor authEnv demoWorld ''tx''" by code_simp
  moreover have "orElse None (if ck_network (newClient None None) = ''mainnet'' then ''Public'' else TESTNET)
      = networkPassphrase authEnv" by code_simp
  ultimately show ?thesis
    using sdk_login [of authEnv "''GNEW''" loginLib "\<lambda>tx p. Inr ''GNEW''" "''tx''" "''GNEW''" 300 demoWorld
        None "newClient None None" "''Public''"] sc tokensVerify_demo schemaOk_demo
    by (fastforce simp: authEnv_def demoEnv_def)
qed

end
