(* ===== verification/WebSession.thy ===== *)
theory WebSession
  imports Clients
begin

text \<open>
  The session of the front end: the networks of \<open>frontend/src/lib/stellar.ts\<close>, the wallet extension
  behind \<open>lib/freighter.ts\<close>, the stored token of \<open>lib/api.ts\<close>, and the provider of
  \<open>hooks/use-wallet.tsx\<close> that signs in with them.  The extension is a parameter: what each of its
  functions answers.  A handler of a component is a method on the state of the component, the stored
  token and the state of the service behind the transport.
\<close>

section \<open>Networks\<close>

record network_config =
  nw_network :: string
  nw_rpcUrl :: string
  nw_horizonUrl :: string
  nw_networkPassphrase :: string

definition NETWORKS :: "(string \<times> network_config) list" where
  "NETWORKS = [
     (''testnet'', \<lparr>nw_network = ''testnet'', nw_rpcUrl = ''https://soroban-testnet.stellar.org'',
        nw_horizonUrl = ''https://horizon-testnet.stellar.org'',
        nw_networkPassphrase = ''Test SDF Network ; September 2015''\<rparr>),
     (''mainnet'', \<lparr>nw_network = ''mainnet'', nw_rpcUrl = ''https://soroban.stellar.org'',
        nw_horizonUrl = ''https://horizon.stellar.org'',
        nw_networkPassphrase = ''Public Global Stellar Network ; September 2015''\<rparr>),
     (''futurenet'', \<lparr>nw_network = ''futurenet'', nw_rpcUrl = ''https://rpc-futurenet.stellar.org'',
        nw_horizonUrl = ''https://horizon-futurenet.stellar.org'',
        nw_networkPassphrase = ''Future Network ; September 2024''\<rparr>)]"

definition getNetwork :: "(string \<Rightarrow> string option) \<Rightarrow> network_config" where
  "getNetwork penv = (case map_of NETWORKS (orElse (penv ''NEXT_PUBLIC_STELLAR_NETWORK'') ''testnet'') of
     Some n \<Rightarrow> n | None \<Rightarrow> snd (hd NETWORKS))"

section \<open>The wallet extension\<close>

text \<open>Each function of the package answers a value or throws; \<open>fr_load\<close> is its dynamic import.\<close>

record freighter =
  fr_load :: "api_error + unit"
  fr_isConnected :: "api_error + jsval"
  fr_requestAccess :: "api_error + jsval"
  fr_getAddress :: "api_error + jsval"
  fr_signTransaction :: "string \<Rightarrow> string \<Rightarrow> api_error + jsval"

record wallet_info =
  wi_publicKey :: string
  wi_isConnected :: bool

definition getFreighterModule :: "freighter \<Rightarrow> api_error + unit" where
  "getFreighterModule F = (case fr_load F of
     Inl _ \<Rightarrow> Inl (JsError ''Freighter extension not detected. Please install Freighter wallet.'')
   | Inr u \<Rightarrow> Inr u)"

definition isFreighterInstalled :: "freighter \<Rightarrow> bool" where
  "isFreighterInstalled F =
     (case bindS (getFreighterModule F) (\<lambda>_. fr_isConnected F) of
        Inl _ \<Rightarrow> False
      | Inr r \<Rightarrow> truthy r \<and> truthy (getProp r ''isConnected''))"

definition connectWallet :: "freighter \<Rightarrow> api_error + wallet_info" where
  "connectWallet F = bindS (getFreighterModule F) (\<lambda>_. bindS (fr_requestAccess F) (\<lambda>r.
     Inr \<lparr>wi_publicKey = (case r of JStr s \<Rightarrow> s | _ \<Rightarrow> []), wi_isConnected = True\<rparr>))"

definition getPublicKey :: "freighter \<Rightarrow> string option" where
  "getPublicKey F = (case bindS (getFreighterModule F) (\<lambda>_. fr_getAddress F) of
     Inl _ \<Rightarrow> None
   | Inr r \<Rightarrow> (case r of JStr s \<Rightarrow> Some s
      | _ \<Rightarrow> (case getProp r ''address'' of JStr s \<Rightarrow> Some s | _ \<Rightarrow> None)))"

definition signTransaction ::
  "freighter \<Rightarrow> (string \<Rightarrow> string option) \<Rightarrow> string \<Rightarrow> string option \<Rightarrow> api_error + jsval" where
  "signTransaction F penv xdr network = bindS (getFreighterModule F) (\<lambda>_.
     bindS (fr_signTransaction F xdr (orElse network (nw_networkPassphrase (getNetwork penv)))) (\<lambda>r.
       if nullish r then Inl (JsError ''TypeError'')
       else Inr (case r of JStr s \<Rightarrow> JStr s | _ \<Rightarrow> coalesce (getProp r ''signedTxXdr'') (JStr []))))"

section \<open>The stored token\<close>

record 's browser =
  br_token :: "string option"
  br_server :: 's

definition bearerHeader :: "string option \<Rightarrow> string option" where
  "bearerHeader t = map_option (\<lambda>t. ''Bearer '' @ t) (given t)"

definition storeToken :: "jsval \<Rightarrow> string option" where
  "storeToken v = (if truthy v then Some (jsString v) else None)"

text \<open>A request of \<open>lib/api.ts\<close>: the state of the component stays as it is.\<close>

type_synonym ('p, 's, 'a) handler = "('p \<times> 's browser, api_error, 'a) act"

definition send :: "'s transport \<Rightarrow> http_call \<Rightarrow> ('p, 's, jsval) handler" where
  "send T call = (\<lambda>(p, b). case T (bearerHeader (br_token b)) call (br_server b) of
     (r, s) \<Rightarrow> (r, (p, b\<lparr>br_server := s\<rparr>)))"

definition setToken :: "jsval \<Rightarrow> ('p, 's, unit) handler" where
  "setToken v = modifyE (\<lambda>(p, b). (p, b\<lparr>br_token := storeToken v\<rparr>))"

definition here :: "('p, 's, 'p) handler" where
  "here = getsE fst"

definition setState :: "('p \<Rightarrow> 'p) \<Rightarrow> ('p, 's, unit) handler" where
  "setState f = modifyE (\<lambda>(p, b). (f p, b))"

text \<open>\<open>try { m } catch (e) { h e } finally { f }\<close> and \<open>try { m } finally { f }\<close>.\<close>

definition finallyE :: "('s, 'e, 'a) act \<Rightarrow> ('s, 'e, unit) act \<Rightarrow> ('s, 'e, 'a) act" where
  "finallyE m f = (\<lambda>s. case m s of (r, s') \<Rightarrow> (case f s' of
     (Inl e, s'') \<Rightarrow> (Inl e, s'') | (Inr _, s'') \<Rightarrow> (r, s'')))"

definition tryE ::
  "('s, 'e, unit) act \<Rightarrow> ('e \<Rightarrow> ('s, 'e, unit) act) \<Rightarrow> ('s, 'e, unit) act \<Rightarrow> ('s, 'e, unit) act" where
  "tryE m h f = finallyE (catchE m h) f"

section \<open>The wallet provider\<close>

record wallet_state =
  ws_wallet :: "wallet_info option"
  ws_isConnecting :: bool

definition initialWallet :: wallet_state where
  "initialWallet = \<lparr>ws_wallet = None, ws_isConnecting = False\<rparr>"

definition checkConnection :: "freighter \<Rightarrow> (wallet_state, 's, unit) handler" where
  "checkConnection F = whenE (isFreighterInstalled F) (case given (getPublicKey F) of
     None \<Rightarrow> ret ()
   | Some pk \<Rightarrow> setState (\<lambda>p. p\<lparr>ws_wallet := Some \<lparr>wi_publicKey = pk, wi_isConnected = True\<rparr>\<rparr>))"

definition connect ::
  "freighter \<Rightarrow> (string \<Rightarrow> string option) \<Rightarrow> 's transport \<Rightarrow> (wallet_state, 's, unit) handler" where
  "connect F penv T =
     seqE (setState (\<lambda>p. p\<lparr>ws_isConnecting := True\<rparr>))
    (finallyE
      (bindE (fromSum (connectWallet F)) (\<lambda>info.
       seqE (setState (\<lambda>p. p\<lparr>ws_wallet := Some info\<rparr>))
      (bindE (send T (webAccount (WChallenge (wi_publicKey info)))) (\<lambda>ch.
       bindE (fromSum (signTransaction F penv (jsString (getProp ch ''transaction'')) None)) (\<lambda>signed.
       bindE (send T (webAccount (WToken (wi_publicKey info) (jsString signed)
                (jsString (getProp ch ''challengeId''))))) (\<lambda>session.
       setToken (getProp session ''accessToken'')))))))
      (setState (\<lambda>p. p\<lparr>ws_isConnecting := False\<rparr>)))"

definition disconnect :: "(wallet_state, 's, unit) handler" where
  "disconnect = seqE (setState (\<lambda>p. p\<lparr>ws_wallet := None\<rparr>)) (setToken JNull)"

text \<open>What the button of \<open>components/wallet-connector\<close> offers.\<close>

datatype connector_view = Connecting | Connected string | ConnectButton

definition walletConnector :: "wallet_state \<Rightarrow> connector_view" where
  "walletConnector p = (if ws_isConnecting p then Connecting else (case ws_wallet p of
     Some i \<Rightarrow> (if wi_isConnected i then Connected (take 6 (wi_publicKey i) @ ''...'' @
         drop (length (wi_publicKey i) - 4) (wi_publicKey i)) else ConnectButton)
   | None \<Rightarrow> ConnectButton))"

section \<open>Protocol statistics\<close>

record protocol_stats =
  ps_totalCredits :: jsval
  ps_totalTonnesRetired :: int
  ps_activeVerifiers :: nat
  ps_totalOffers :: int

text \<open>\<open>Promise.allSettled\<close>: both requests run.  The responses are taken to have their declared shape.\<close>

definition settled :: "('s, 'e, 'a) act \<Rightarrow> ('s, 'e, 'e + 'a) act" where
  "settled m = (\<lambda>s. case m s of (r, s') \<Rightarrow> (Inr r, s'))"

definition getProtocolStats :: "'s transport \<Rightarrow> ('p, 's, protocol_stats) handler" where
  "getProtocolStats T =
     bindE (settled (send T (callGet [Seg ''credits''] [(''limit'', JStr ''1'')]))) (\<lambda>creditsRes.
     bindE (settled (send T (webRecords WVerifiers))) (\<lambda>verifiersRes.
     ret \<lparr>ps_totalCredits = (case creditsRes of Inl _ \<Rightarrow> JNum (ofInt 0)
            | Inr d \<Rightarrow> getProp (getProp d ''meta'') ''total''),
          ps_totalTonnesRetired = 0,
          ps_activeVerifiers = (case verifiersRes of Inr (JArr vs) \<Rightarrow> length vs | _ \<Rightarrow> 0),
          ps_totalOffers = 0\<rparr>))"

section \<open>What connecting does\<close>

lemma here_apply [act_simps]: "here (p, b) = (Inr p, (p, b))"
  by (simp add: here_def)

lemma setState_apply [act_simps]: "setState f (p, b) = (Inr (), (f p, b))"
  by (simp add: setState_def)

lemma setToken_apply [act_simps]: "setToken v (p, b) = (Inr (), (p, b\<lparr>br_token := storeToken v\<rparr>))"
  by (simp add: setToken_def)

lemma send_apply [act_simps]:
  "send T call (p, b) = (case T (bearerHeader (br_token b)) call (br_server b) of
     (r, s) \<Rightarrow> (r, (p, b\<lparr>br_server := s\<rparr>)))"
  by (simp add: send_def)

lemma finallyE_apply [act_simps]:
  "finallyE m f s = (case m s of (r, s') \<Rightarrow> (case f s' of
     (Inl e, s'') \<Rightarrow> (Inl e, s'') | (Inr _, s'') \<Rightarrow> (r, s'')))"
  by (simp add: finallyE_def)

text \<open>
  What a handler keeps of the state of its component.  \<open>keepsState q m\<close>: \<open>q\<close> holds of the state after
  every run of \<open>m\<close> that started with it.
\<close>

definition keepsState :: "('p \<Rightarrow> bool) \<Rightarrow> ('p, 's, 'a) handler \<Rightarrow> bool" where
  "keepsState q m = preserves (\<lambda>s. q (fst s)) m"

lemma keepsState_setState [act_intros]: "(\<And>p. q p \<Longrightarrow> q (f p)) \<Longrightarrow> keepsState q (setState f)"
  by (auto simp: keepsState_def setState_def intro: preserves_modifyE)

lemma keepsState_send [act_intros]: "keepsState q (send T call)"
  by (auto simp: keepsState_def preserves_def relates_def send_def split: prod.split)

lemma keepsState_setToken [act_intros]: "keepsState q (setToken v)"
  by (auto simp: keepsState_def setToken_def intro: preserves_modifyE)

lemma preserves_finallyE:
  "preserves I m \<Longrightarrow> preserves I f \<Longrightarrow> preserves I (finallyE m f)"
  by (auto simp: preserves_def relates_def finallyE_apply split: prod.splits sum.splits)

lemma keepsState_rules [act_intros]:
  "keepsState q (ret x)" "keepsState q here" "keepsState q (fromSum r)"
  "keepsState q m \<Longrightarrow> (\<And>x. keepsState q (f x)) \<Longrightarrow> keepsState q (bindE m f)"
  "keepsState q m \<Longrightarrow> keepsState q n \<Longrightarrow> keepsState q (seqE m n)"
  "keepsState q n \<Longrightarrow> keepsState q (whenE c n)"
  "keepsState q m \<Longrightarrow> (\<And>e. keepsState q (h e)) \<Longrightarrow> keepsState q (catchE m h)"
  "keepsState q m \<Longrightarrow> keepsState q n \<Longrightarrow> keepsState q (finallyE m n)"
  "(\<And>x. keepsState q (g x)) \<Longrightarrow> keepsState q (forE xs g)"
  by (auto simp: keepsState_def here_def intro!: act_intros preserves_finallyE)

lemma keepsState_tryE [act_intros]:
  "keepsState q m \<Longrightarrow> (\<And>e. keepsState q (h e)) \<Longrightarrow> keepsState q n \<Longrightarrow> keepsState q (tryE m h n)"
  unfolding tryE_def by (intro keepsState_rules)

lemma keepsState_cases [act_intros]:
  "(x = None \<Longrightarrow> keepsState q m) \<Longrightarrow> (\<And>v. x = Some v \<Longrightarrow> keepsState q (f v)) \<Longrightarrow>
   keepsState q (case x of None \<Rightarrow> m | Some v \<Rightarrow> f v)"
  "(c \<Longrightarrow> keepsState q m) \<Longrightarrow> (\<not> c \<Longrightarrow> keepsState q n) \<Longrightarrow> keepsState q (if c then m else n)"
  "(\<And>a d. y = (a, d) \<Longrightarrow> keepsState q (g a d)) \<Longrightarrow> keepsState q (case y of (a, d) \<Rightarrow> g a d)"
  by (auto split: option.split prod.split)

text \<open>
  A flag that is set before a handler's work and reset in its \<open>finally\<close>: it is clear afterwards,
  however the work ends, when the work keeps the rest \<open>j\<close> of the condition.
\<close>

lemma keepsState_bracket:
  assumes "keepsState j m" and "\<And>p. q p \<Longrightarrow> j (f p)" and "\<And>p. j p \<Longrightarrow> q (g p)"
  shows "keepsState q (seqE (setState f) (finallyE m (setState g)))"
  unfolding keepsState_def preserves_def
proof (rule relatesI, rule impI)
  fix s :: "'a \<times> 'b browser" assume i: "q (fst s)"
  obtain p b where s: "s = (p, b)" by (cases s)
  obtain r p' b' where m: "m (f p, b) = (r, (p', b'))" by (metis prod.exhaust)
  have "j p'"
    using preservesD [OF assms(1) [unfolded keepsState_def] _ m] assms(2) i s by simp
  then show "q (fst (snd (seqE (setState f) (finallyE m (setState g)) s)))"
    using m assms(3) by (simp add: s act_simps)
qed

lemma keepsState_try_bracket:
  assumes "keepsState j m" and "\<And>e. keepsState j (h e)"
    and "\<And>p. q p \<Longrightarrow> j (f p)" and "\<And>p. j p \<Longrightarrow> q (g p)"
  shows "keepsState q (seqE (setState f) (tryE m h (setState g)))"
  unfolding tryE_def
proof (rule keepsState_bracket)
  show "keepsState j (catchE m h)" by (intro act_intros assms(1,2))
qed (fact assms(3), fact assms(4))

text \<open>However it ends, the provider is no longer connecting.\<close>

lemma connect_idle: "connect F penv T (p, b) = (r, (p', b')) \<Longrightarrow> \<not> ws_isConnecting p'"
  by (auto simp: connect_def seqE_apply finallyE_apply setState_apply split: prod.splits)

text \<open>
  The wallet is shown as connected before the sign-in has happened: when it fails, the wallet stays
  and the stored token is the one of before.
\<close>

lemma connect_unsigned:
  assumes "connectWallet F = Inr info" and "T (bearerHeader (br_token b))
      (webAccount (WChallenge (wi_publicKey info))) (br_server b) = (Inl e, s)"
  shows "connect F penv T (p, b) =
    (Inl e, (\<lparr>ws_wallet = Some info, ws_isConnecting = False\<rparr>, b\<lparr>br_server := s\<rparr>))"
  using assms by (cases p) (simp add: connect_def act_simps)

text \<open>An answer that is not a string, such as an object with the address, gives the empty key.\<close>

lemma connectWallet_object:
  "fr_load F = Inr u \<Longrightarrow> fr_requestAccess F = Inr (JObj kvs) \<Longrightarrow>
   connectWallet F = Inr \<lparr>wi_publicKey = [], wi_isConnected = True\<rparr>"
  by (simp add: connectWallet_def getFreighterModule_def)

lemma service_challenge:
  "generateChallenge L E wallet w = (Inr r, w1) \<Longrightarrow>
   signInService L E h (webAccount (WChallenge wallet)) w = (Inr (challengeBody r), w1)"
  by (simp add: transport_defs)

lemma service_token:
  "exchangeToken L E wallet stx cid w1 = (Inr t, w') \<Longrightarrow>
   signInService L E h (webAccount (WToken wallet stx cid)) w1 = (Inr (tokensBody t), w')"
  by (simp add: transport_defs)


definition demoFreighter :: freighter where
  "demoFreighter = \<lparr>fr_load = Inr (), fr_isConnected = Inr (JObj [(''isConnected'', JBool True)]),
     fr_requestAccess = Inr (JStr ''GNEW''), fr_getAddress = Inr (JStr ''GNEW''),
     fr_signTransaction = (\<lambda>x n. Inr (JStr ''GNEW''))\<rparr>"


end
