(* ===== verification/WebTrading.thy ===== *)
theory WebTrading
  imports WebSession
begin

text \<open>
  The trading pages of the front end: the order book (\<open>components/marketplace-orderbook\<close>), the
  marketplace, portfolio and retirement pages.  A page is the record of its state hooks; an event of
  a page (a click, a typed value, an effect of React) is a handler on it.  A handler reads the hooks
  once, at its start, as a React closure does; a request that a handler starts without waiting for it
  runs to its end there.  Responses have the shape that \<open>types/index.ts\<close> declares.  Only decisions of
  the views are modelled: which branch is drawn, what a button says and when it is disabled.
\<close>

named_theorems page_simps \<open>handlers at a state of their page\<close>

section \<open>Pages\<close>

text \<open>
  An event keeps a page idle when no flag that disables its buttons is left set; then no sequence of
  events leaves one set, whatever the service answers.
\<close>

definition runEvents :: "('e \<Rightarrow> ('p, 's, unit) handler) \<Rightarrow> 'e list \<Rightarrow> 'p \<times> 's browser \<Rightarrow> 'p \<times> 's browser" where
  "runEvents act es pb = fold (\<lambda>e s. snd (act e s)) es pb"

locale web_page =
  fixes idle :: "'p \<Rightarrow> bool"
    and act :: "'e \<Rightarrow> ('p, 's, unit) handler"
  assumes act_idle: "keepsState idle (act e)"
begin

lemma runs_idle: "idle (fst pb) \<Longrightarrow> idle (fst (runEvents act es pb))"
proof (induction es arbitrary: pb)
  case (Cons e es)
  have "idle (fst (snd (act e pb)))"
    using preservesD [OF act_idle [unfolded keepsState_def] Cons.prems prod.collapse [symmetric]] .
  with Cons.IH show ?case by (simp add: runEvents_def)
qed (simp add: runEvents_def)

end

definition elems :: "jsval \<Rightarrow> jsval list" where
  "elems v = (case v of JArr xs \<Rightarrow> xs | _ \<Rightarrow> [])"

definition numProp :: "jsval \<Rightarrow> string \<Rightarrow> jsnum" where
  "numProp v k = jsNumber (getProp v k)"

definition walletKey :: "wallet_info option \<Rightarrow> string option" where
  "walletKey w = (case w of None \<Rightarrow> None
     | Some i \<Rightarrow> (if wi_isConnected i then Some (wi_publicKey i) else None))"

section \<open>The order book\<close>

record orderbook =
  ob_offers :: "jsval list"
  ob_loading :: bool
  ob_error :: "string option"
  ob_methodology :: string
  ob_geography :: string
  ob_buyAmount :: string
  ob_showBuy :: bool
  ob_selected :: "jsval option"
  ob_cancelling :: "jsnum option"
  ob_purchasing :: bool

definition newOrderbook :: orderbook where
  "newOrderbook = \<lparr>ob_offers = [], ob_loading = True, ob_error = None, ob_methodology = [],
     ob_geography = [], ob_buyAmount = [], ob_showBuy = False, ob_selected = None,
     ob_cancelling = None, ob_purchasing = False\<rparr>"

definition listingFilters :: "orderbook \<Rightarrow> (string \<times> jsval) list" where
  "listingFilters p =
     (if ob_methodology p \<noteq> [] then [(''methodology'', JStr (ob_methodology p))] else []) @
     (if ob_geography p \<noteq> [] then [(''geography'', JStr (ob_geography p))] else [])"

definition fetchListings :: "'s transport \<Rightarrow> (orderbook, 's, unit) handler" where
  "fetchListings T = tryE
     (bindE here (\<lambda>p. bindE (send T (webCredits (WListings (listingFilters p)))) (\<lambda>res.
      setState (\<lambda>p. p\<lparr>ob_offers := elems (getProp res ''data''), ob_error := None\<rparr>))))
     (\<lambda>_. setState (\<lambda>p. p\<lparr>ob_error := Some ''Failed to load listings''\<rparr>))
     (setState (\<lambda>p. p\<lparr>ob_loading := False\<rparr>))"

definition handleBuy :: "'s transport \<Rightarrow> (orderbook, 's, unit) handler" where
  "handleBuy T = bindE here (\<lambda>p. (case ob_selected p of
     None \<Rightarrow> ret ()
   | Some offer \<Rightarrow>
       seqE (setState (\<lambda>p. p\<lparr>ob_purchasing := True\<rparr>))
      (tryE
        (bindE (send T (webCredits (WBuy (numProp offer ''offerId'')
           (if ob_buyAmount p \<noteq> [] then JNum (stringToNumber (ob_buyAmount p)) else JUndef)))) (\<lambda>_.
         seqE (setState (\<lambda>p. p\<lparr>ob_showBuy := False, ob_buyAmount := []\<rparr>)) (fetchListings T)))
        (\<lambda>_. setState (\<lambda>p. p\<lparr>ob_error := Some ''Purchase failed. Please try again.''\<rparr>))
        (setState (\<lambda>p. p\<lparr>ob_purchasing := False\<rparr>)))))"

definition handleCancel :: "'s transport \<Rightarrow> jsnum \<Rightarrow> (orderbook, 's, unit) handler" where
  "handleCancel T offerId =
     seqE (setState (\<lambda>p. p\<lparr>ob_cancelling := Some offerId\<rparr>))
    (tryE (bindE (send T (webCredits (WCancel offerId))) (\<lambda>_. fetchListings T))
      (\<lambda>_. setState (\<lambda>p. p\<lparr>ob_error := Some ''Failed to cancel offer.''\<rparr>))
      (setState (\<lambda>p. p\<lparr>ob_cancelling := None\<rparr>)))"

definition remaining :: "jsval \<Rightarrow> jsnum" where
  "remaining offer = num_sub (numProp offer ''amount'') (numProp offer ''amountFilled'')"

definition openBuyDialog :: "jsval \<Rightarrow> (orderbook, 's, unit) handler" where
  "openBuyDialog offer = setState (\<lambda>p. p\<lparr>ob_selected := Some offer,
     ob_buyAmount := num_to_string (remaining offer), ob_showBuy := True\<rparr>)"

datatype orderbook_event =
    ObLoad | ObMethodology string | ObGeography string | ObOpenBuy jsval | ObAmount string
  | ObShowBuy bool | ObBuy | ObCancel jsnum

fun orderbookAct :: "'s transport \<Rightarrow> orderbook_event \<Rightarrow> (orderbook, 's, unit) handler" where
  "orderbookAct T ObLoad = fetchListings T"
| "orderbookAct T (ObMethodology m) = seqE (setState (\<lambda>p. p\<lparr>ob_methodology := m\<rparr>)) (fetchListings T)"
| "orderbookAct T (ObGeography g) = seqE (setState (\<lambda>p. p\<lparr>ob_geography := g\<rparr>)) (fetchListings T)"
| "orderbookAct T (ObOpenBuy offer) = openBuyDialog offer"
| "orderbookAct T (ObAmount a) = setState (\<lambda>p. p\<lparr>ob_buyAmount := a\<rparr>)"
| "orderbookAct T (ObShowBuy v) = setState (\<lambda>p. p\<lparr>ob_showBuy := v\<rparr>)"
| "orderbookAct T ObBuy = handleBuy T"
| "orderbookAct T (ObCancel n) = handleCancel T n"

definition orderbookIdle :: "orderbook \<Rightarrow> bool" where
  "orderbookIdle p \<longleftrightarrow> \<not> ob_purchasing p \<and> ob_cancelling p = None"

text \<open>What is drawn: the rows with their buttons, \<open>CancelButton\<close> with busy and \<open>BuyButton\<close> with its text and disabled.\<close>

datatype row_action = CancelButton bool | BuyButton string bool

definition isOwnOffer :: "wallet_info option \<Rightarrow> jsval \<Rightarrow> bool" where
  "isOwnOffer w offer = (case walletKey w of None \<Rightarrow> False
     | Some k \<Rightarrow> getProp (getProp offer ''seller'') ''stellarPub'' = JStr k)"

definition listingExpired :: "env \<Rightarrow> jsval \<Rightarrow> bool" where
  "listingExpired E offer = (case getProp offer ''expiresAt'' of
     JStr s \<Rightarrow> s \<noteq> [] \<and> (case dateParse E s of None \<Rightarrow> False | Some t \<Rightarrow> t < clock E)
   | _ \<Rightarrow> False)"

definition rowAction :: "env \<Rightarrow> wallet_info option \<Rightarrow> orderbook \<Rightarrow> jsval \<Rightarrow> row_action" where
  "rowAction E w p offer =
     (let rem0 = num_le (remaining offer) (ofInt 0) in
      if isOwnOffer w offer then CancelButton (ob_cancelling p = Some (numProp offer ''offerId''))
      else BuyButton (if walletKey w = None then ''Connect'' else if rem0 then ''Filled'' else ''Buy'')
        (walletKey w = None \<or> listingExpired E offer \<or> rem0))"

datatype orderbook_view = ObSpinner | ObFailed string | ObEmpty | ObRows "row_action list"

definition orderbookView :: "env \<Rightarrow> wallet_info option \<Rightarrow> orderbook \<Rightarrow> orderbook_view" where
  "orderbookView E w p =
     (if ob_loading p then ObSpinner
      else if given (ob_error p) \<noteq> None \<and> ob_offers p = [] then ObFailed (the (ob_error p))
      else if ob_offers p = [] then ObEmpty
      else ObRows (map (rowAction E w p) (ob_offers p)))"

definition confirmDisabled :: "orderbook \<Rightarrow> bool" where
  "confirmDisabled p \<longleftrightarrow> ob_purchasing p \<or> ob_buyAmount p = [] \<or>
     num_le (stringToNumber (ob_buyAmount p)) (ofInt 0)"

section \<open>The marketplace page\<close>

record market_page =
  mp_stats :: "jsval option"
  mp_statsLoading :: bool
  mp_showCreate :: bool
  mp_owned :: "jsval list"
  mp_creditId :: string
  mp_price :: string
  mp_amount :: string
  mp_currency :: string
  mp_creating :: bool
  mp_error :: "string option"
  mp_history :: "jsval list"
  mp_range :: string
  mp_chartLoading :: bool

definition newMarketPage :: market_page where
  "newMarketPage = \<lparr>mp_stats = None, mp_statsLoading = True, mp_showCreate = False, mp_owned = [],
     mp_creditId = [], mp_price = [], mp_amount = [], mp_currency = ''USDC'', mp_creating = False,
     mp_error = None, mp_history = [], mp_range = ''30d'', mp_chartLoading = True\<rparr>"

definition loadStats :: "'s transport \<Rightarrow> (market_page, 's, unit) handler" where
  "loadStats T = tryE
     (bindE (send T (webCredits WStats)) (\<lambda>d. setState (\<lambda>p. p\<lparr>mp_stats := Some d\<rparr>)))
     (\<lambda>_. ret ()) (setState (\<lambda>p. p\<lparr>mp_statsLoading := False\<rparr>))"

definition loadPrices :: "'s transport \<Rightarrow> (market_page, 's, unit) handler" where
  "loadPrices T =
     bindE here (\<lambda>p. seqE (setState (\<lambda>p. p\<lparr>mp_chartLoading := True\<rparr>))
    (tryE (bindE (send T (webRecords (WPriceHistory (mp_range p)))) (\<lambda>res.
         setState (\<lambda>p. p\<lparr>mp_history := elems (getProp res ''data'')\<rparr>)))
       (\<lambda>_. setState (\<lambda>p. p\<lparr>mp_history := []\<rparr>))
       (setState (\<lambda>p. p\<lparr>mp_chartLoading := False\<rparr>))))"

definition isActive :: "jsval \<Rightarrow> bool" where
  "isActive c \<longleftrightarrow> getProp c ''status'' = JStr ''ACTIVE''"

definition handleOpenCreateOffer ::
  "wallet_info option \<Rightarrow> 's transport \<Rightarrow> (market_page, 's, unit) handler" where
  "handleOpenCreateOffer w T = whenE (walletKey w \<noteq> None)
     (seqE (setState (\<lambda>p. p\<lparr>mp_showCreate := True\<rparr>))
     (catchE (bindE (send T (webCredits WOwnedCredits)) (\<lambda>cs.
         setState (\<lambda>p. p\<lparr>mp_owned := filter isActive (elems cs)\<rparr>)))
       (\<lambda>_. setState (\<lambda>p. p\<lparr>mp_owned := []\<rparr>))))"

definition handleCreateOffer :: "'s transport \<Rightarrow> (market_page, 's, unit) handler" where
  "handleCreateOffer T = bindE here (\<lambda>p.
     whenE (mp_creditId p \<noteq> [] \<and> mp_price p \<noteq> [] \<and> mp_amount p \<noteq> [])
      (seqE (setState (\<lambda>p. p\<lparr>mp_creating := True, mp_error := None\<rparr>))
      (tryE
        (bindE (send T (webCredits (WOffer (JObj [
             (''creditId'', JNum (stringToNumber (mp_creditId p))),
             (''pricePerTonne'', JNum (stringToNumber (mp_price p))),
             (''amount'', JNum (stringToNumber (mp_amount p))),
             (''currency'', JStr (mp_currency p))])))) (\<lambda>_.
         setState (\<lambda>p. p\<lparr>mp_showCreate := False, mp_creditId := [], mp_price := [], mp_amount := []\<rparr>)))
        (\<lambda>_. setState (\<lambda>p. p\<lparr>mp_error := Some ''Failed to create offer. Please try again.''\<rparr>))
        (setState (\<lambda>p. p\<lparr>mp_creating := False\<rparr>)))))"

datatype market_event =
    MpStats | MpPrices | MpRange string | MpOpenCreate | MpShowCreate bool | MpCredit string
  | MpPrice string | MpAmount string | MpCurrency string | MpCreate

fun marketAct ::
  "wallet_info option \<Rightarrow> 's transport \<Rightarrow> market_event \<Rightarrow> (market_page, 's, unit) handler" where
  "marketAct w T MpStats = loadStats T"
| "marketAct w T MpPrices = loadPrices T"
| "marketAct w T (MpRange r) = seqE (setState (\<lambda>p. p\<lparr>mp_range := r\<rparr>)) (loadPrices T)"
| "marketAct w T MpOpenCreate = handleOpenCreateOffer w T"
| "marketAct w T (MpShowCreate v) = setState (\<lambda>p. p\<lparr>mp_showCreate := v\<rparr>)"
| "marketAct w T (MpCredit s) = setState (\<lambda>p. p\<lparr>mp_creditId := s\<rparr>)"
| "marketAct w T (MpPrice s) = setState (\<lambda>p. p\<lparr>mp_price := s\<rparr>)"
| "marketAct w T (MpAmount s) = setState (\<lambda>p. p\<lparr>mp_amount := s\<rparr>)"
| "marketAct w T (MpCurrency s) = setState (\<lambda>p. p\<lparr>mp_currency := s\<rparr>)"
| "marketAct w T MpCreate = handleCreateOffer T"

definition createDisabled :: "market_page \<Rightarrow> bool" where
  "createDisabled p \<longleftrightarrow> mp_creating p \<or> mp_creditId p = [] \<or> mp_price p = [] \<or> mp_amount p = []"

section \<open>The portfolio page\<close>

definition lowerC :: "char \<Rightarrow> char" where
  "lowerC c = (if isUpperC c then char_of (of_char c + 32 :: nat) else c)"

definition toLower :: "string \<Rightarrow> string" where
  "toLower s = map lowerC s"

record portfolio_page =
  pf_credits :: "jsval list"
  pf_offers :: "jsval list"
  pf_certificates :: "jsval list"
  pf_loading :: bool
  pf_selected :: "jsval option"
  pf_search :: string
  pf_vwap :: jsnum

definition newPortfolio :: portfolio_page where
  "newPortfolio = \<lparr>pf_credits = [], pf_offers = [], pf_certificates = [], pf_loading = True,
     pf_selected = None, pf_search = [], pf_vwap = ofInt 0\<rparr>"

text \<open>\<open>request.catch(() => d)\<close>.\<close>

definition caught :: "('s, 'e, 'a) act \<Rightarrow> 'a \<Rightarrow> ('s, 'e, 'a) act" where
  "caught m d = catchE m (\<lambda>_. ret d)"

definition offersOf :: "string \<Rightarrow> jsval \<Rightarrow> jsval list" where
  "offersOf pub d = filter (\<lambda>x. pub \<noteq> [] \<and> getProp (getProp x ''seller'') ''stellarPub'' = JStr pub)
     (case d of JArr xs \<Rightarrow> xs | _ \<Rightarrow> elems (getProp d ''data''))"

definition loadPortfolio ::
  "wallet_info option \<Rightarrow> 's transport \<Rightarrow> (portfolio_page, 's, unit) handler" where
  "loadPortfolio w T = (case walletKey w of
     None \<Rightarrow> setState (\<lambda>p. p\<lparr>pf_loading := False\<rparr>)
   | Some pub \<Rightarrow> finallyE
       (bindE (caught (send T (webCredits WOwnedCredits)) (JArr [])) (\<lambda>cs.
        bindE (caught (send T (webRecords WOwnedCertificates)) (JArr [])) (\<lambda>certs.
        bindE (caught (send T (webCredits (WListings []))) (JArr [])) (\<lambda>os.
        bindE (caught (send T (webCredits WStats)) (JObj [(''vwap'', JNum (ofInt 0))])) (\<lambda>st.
        setState (\<lambda>p. p\<lparr>pf_credits := elems cs, pf_certificates := elems certs,
          pf_vwap := jsNumber (coalesce (getProp st ''vwap'') (JNum (ofInt 0))),
          pf_offers := offersOf pub os\<rparr>))))))
       (setState (\<lambda>p. p\<lparr>pf_loading := False\<rparr>)))"

definition totalValue :: "portfolio_page \<Rightarrow> jsnum" where
  "totalValue p = foldl (\<lambda>sum c. num_add sum (num_mul (numProp c ''tonnes'') (pf_vwap p)))
     (ofInt 0) (pf_credits p)"

definition matchesSearch :: "string \<Rightarrow> jsval \<Rightarrow> bool" where
  "matchesSearch q c = (let has = (\<lambda>k. includesStr q (toLower (jsString (getProp c k)))) in
     has ''methodology'' \<or> has ''geography'' \<or> has ''projectId'' \<or>
     includesStr q (jsString (getProp c ''creditId'')))"

definition filteredCredits :: "portfolio_page \<Rightarrow> jsval list" where
  "filteredCredits p = (if pf_search p = [] then pf_credits p
     else filter (matchesSearch (toLower (pf_search p))) (pf_credits p))"

datatype portfolio_event = PfLoad | PfSearch string | PfSelect "jsval option"

fun portfolioAct ::
  "wallet_info option \<Rightarrow> 's transport \<Rightarrow> portfolio_event \<Rightarrow> (portfolio_page, 's, unit) handler" where
  "portfolioAct w T PfLoad = loadPortfolio w T"
| "portfolioAct w T (PfSearch s) = setState (\<lambda>p. p\<lparr>pf_search := s\<rparr>)"
| "portfolioAct w T (PfSelect c) = setState (\<lambda>p. p\<lparr>pf_selected := c\<rparr>)"

datatype portfolio_view = PfConnect | PfSpinner | PfCredits "jsval list" "jsnum option"

text \<open>The credits with the estimated value, which is shown when there is a price.\<close>

definition portfolioView :: "wallet_info option \<Rightarrow> portfolio_page \<Rightarrow> portfolio_view" where
  "portfolioView w p = (if walletKey w = None then PfConnect else if pf_loading p then PfSpinner
     else PfCredits (filteredCredits p)
       (if num_lt (ofInt 0) (pf_vwap p) then Some (totalValue p) else None))"

section \<open>The retirement page\<close>

text \<open>The selection is a \<open>Set\<close>: numbers in the order in which they were added, none twice.\<close>

record retire_page =
  rp_credits :: "jsval list"
  rp_loading :: bool
  rp_selected :: "jsnum list"
  rp_beneficiary :: string
  rp_reason :: string
  rp_period :: string
  rp_showConfirm :: bool
  rp_retiring :: bool
  rp_error :: "string option"
  rp_retired :: "(jsnum \<times> jsval) option"
  rp_certificate :: "jsval option"

definition newRetirePage :: retire_page where
  "newRetirePage = \<lparr>rp_credits = [], rp_loading = True, rp_selected = [], rp_beneficiary = [],
     rp_reason = [], rp_period = [], rp_showConfirm = False, rp_retiring = False, rp_error = None,
     rp_retired = None, rp_certificate = None\<rparr>"

definition showCertificate :: "'s transport \<Rightarrow> (retire_page, 's, unit) handler" where
  "showCertificate T = bindE here (\<lambda>p. (case rp_retired p of
     None \<Rightarrow> setState (\<lambda>p. p\<lparr>rp_certificate := None\<rparr>)
   | Some (n, _) \<Rightarrow> catchE
       (bindE (send T (webRecords (WRetirementCertificate n))) (\<lambda>d.
         setState (\<lambda>p. p\<lparr>rp_certificate := Some d\<rparr>)))
       (\<lambda>_. setState (\<lambda>p. p\<lparr>rp_certificate := None\<rparr>))))"

definition loadOwned :: "wallet_info option \<Rightarrow> 's transport \<Rightarrow> (retire_page, 's, unit) handler" where
  "loadOwned w T = (if walletKey w = None then setState (\<lambda>p. p\<lparr>rp_loading := False\<rparr>)
     else tryE (bindE (send T (webCredits WOwnedCredits)) (\<lambda>cs.
         setState (\<lambda>p. p\<lparr>rp_credits := filter isActive (elems cs)\<rparr>)))
       (\<lambda>_. ret ()) (setState (\<lambda>p. p\<lparr>rp_loading := False\<rparr>)))"

definition toggle :: "'a \<Rightarrow> 'a list \<Rightarrow> 'a list" where
  "toggle x xs = (if x \<in> set xs then filter (\<lambda>y. y \<noteq> x) xs else xs @ [x])"

definition toggleCredit :: "jsnum \<Rightarrow> (retire_page, 's, unit) handler" where
  "toggleCredit n = setState (\<lambda>p. p\<lparr>rp_selected := toggle n (rp_selected p)\<rparr>)"

definition retireBody :: "env \<Rightarrow> retire_page \<Rightarrow> jsval" where
  "retireBody E p = JObj [(''beneficiary'', JStr (rp_beneficiary p)), (''reason'', JStr (rp_reason p)),
     (''accountingPeriod'', JStr (if rp_period p \<noteq> [] then rp_period p else take 7 (isoString (clock E))))]"

definition retireOne :: "'s transport \<Rightarrow> jsval \<Rightarrow> jsnum \<Rightarrow> (retire_page, 's, unit) handler" where
  "retireOne T body n = bindE (send T (webRecords (WRetire n body))) (\<lambda>r.
     setState (\<lambda>p. p\<lparr>rp_retired := Some (n, getProp r ''certificateHash'')\<rparr>))"

definition handleRetire :: "env \<Rightarrow> 's transport \<Rightarrow> (retire_page, 's, unit) handler" where
  "handleRetire E T = bindE here (\<lambda>p. whenE (rp_selected p \<noteq> [] \<and> rp_beneficiary p \<noteq> [])
     (seqE (setState (\<lambda>p. p\<lparr>rp_retiring := True, rp_error := None\<rparr>))
     (tryE
       (seqE (forE (rp_selected p) (retireOne T (retireBody E p)))
         (setState (\<lambda>p. p\<lparr>rp_showConfirm := False, rp_selected := []\<rparr>)))
       (\<lambda>_. setState (\<lambda>p. p\<lparr>rp_error := Some ''Retirement failed. Please try again.''\<rparr>))
       (setState (\<lambda>p. p\<lparr>rp_retiring := False\<rparr>)))))"

definition openConfirm :: "(retire_page, 's, unit) handler" where
  "openConfirm = bindE here (\<lambda>p. whenE (rp_selected p \<noteq> [] \<and> rp_beneficiary p \<noteq> [])
     (setState (\<lambda>p. p\<lparr>rp_showConfirm := True\<rparr>)))"

definition selectedCredits :: "retire_page \<Rightarrow> jsval list" where
  "selectedCredits p = filter (\<lambda>c. numProp c ''creditId'' \<in> set (rp_selected p)) (rp_credits p)"

definition selectedTonnes :: "retire_page \<Rightarrow> jsnum" where
  "selectedTonnes p = foldl (\<lambda>sum c. num_add sum (numProp c ''tonnes'')) (ofInt 0) (selectedCredits p)"

datatype retire_event =
    RpLoad | RpToggle jsnum | RpBeneficiary string | RpReason string | RpPeriod string
  | RpOpenConfirm | RpShowConfirm bool | RpRetire | RpCertificate | RpRetireMore

fun retireAct ::
  "env \<Rightarrow> wallet_info option \<Rightarrow> 's transport \<Rightarrow> retire_event \<Rightarrow> (retire_page, 's, unit) handler" where
  "retireAct E w T RpLoad = loadOwned w T"
| "retireAct E w T (RpToggle n) = toggleCredit n"
| "retireAct E w T (RpBeneficiary s) = setState (\<lambda>p. p\<lparr>rp_beneficiary := s\<rparr>)"
| "retireAct E w T (RpReason s) = setState (\<lambda>p. p\<lparr>rp_reason := s\<rparr>)"
| "retireAct E w T (RpPeriod s) = setState (\<lambda>p. p\<lparr>rp_period := s\<rparr>)"
| "retireAct E w T RpOpenConfirm = openConfirm"
| "retireAct E w T (RpShowConfirm v) = setState (\<lambda>p. p\<lparr>rp_showConfirm := v\<rparr>)"
| "retireAct E w T RpRetire = handleRetire E T"
| "retireAct E w T RpCertificate = showCertificate T"
| "retireAct E w T RpRetireMore = setState (\<lambda>p. p\<lparr>rp_retired := None\<rparr>)"

datatype retire_view =
    RpConnect | RpSucceeded jsnum "jsval option" | RpForm "jsval list" jsnum "string option" bool

text \<open>The error is drawn with the form only, and the form only when no retirement is shown.\<close>

definition retireView :: "wallet_info option \<Rightarrow> retire_page \<Rightarrow> retire_view" where
  "retireView w p = (if walletKey w = None then RpConnect else (case rp_retired p of
     Some (n, _) \<Rightarrow> RpSucceeded n (rp_certificate p)
   | None \<Rightarrow> RpForm (rp_credits p) (selectedTonnes p) (rp_error p)
       (rp_selected p = [] \<or> rp_beneficiary p = [])))"

section \<open>No page stays busy\<close>

lemma keepsState_many [act_intros]:
  "(\<And>x. keepsState q (g x)) \<Longrightarrow> keepsState q (mapE g xs)"
  "keepsState q m1 \<Longrightarrow> keepsState q m2 \<Longrightarrow> keepsState q (bothE m1 m2)"
  by (auto simp: keepsState_def intro!: act_intros)

lemma keepsState_settled [act_intros]: "keepsState q m \<Longrightarrow> keepsState q (settled m)"
  unfolding keepsState_def preserves_def relates_def settled_def
  by (metis (mono_tags, lifting) case_prod_beta snd_conv)

lemma keepsState_caught [act_intros]: "keepsState q m \<Longrightarrow> keepsState q (caught m d)"
  unfolding caught_def by (intro act_intros)

lemmas handler_simps = act_simps tryE_def

lemma fetchListings_keeps:
  "(\<And>p v. q (p\<lparr>ob_offers := v, ob_error := None\<rparr>) = q p) \<Longrightarrow> (\<And>p v. q (p\<lparr>ob_error := v\<rparr>) = q p) \<Longrightarrow>
   (\<And>p v. q (p\<lparr>ob_loading := v\<rparr>) = q p) \<Longrightarrow> keepsState q (fetchListings T)"
  unfolding fetchListings_def by (intro act_intros) simp_all

interpretation orderbookPage: web_page orderbookIdle "orderbookAct T" for T :: "'s transport"
proof
  fix e
  have buy: "keepsState orderbookIdle (handleBuy T)"
    unfolding handleBuy_def
    by (intro act_intros keepsState_try_bracket [where j = "\<lambda>p. ob_cancelling p = None"]
        fetchListings_keeps) (simp_all add: orderbookIdle_def)
  have cancel: "keepsState orderbookIdle (handleCancel T n)" for n
    unfolding handleCancel_def
    by (intro act_intros keepsState_try_bracket [where j = "\<lambda>p. \<not> ob_purchasing p"]
        fetchListings_keeps) (simp_all add: orderbookIdle_def)
  show "keepsState orderbookIdle (orderbookAct T e)"
    by (cases e) (auto simp: orderbookIdle_def openBuyDialog_def
        intro!: act_intros fetchListings_keeps buy cancel)
qed

interpretation marketPage: web_page "\<lambda>p. \<not> mp_creating p" "marketAct w T"
  for w :: "wallet_info option" and T :: "'s transport"
proof
  fix e
  have create: "keepsState (\<lambda>p. \<not> mp_creating p) (handleCreateOffer T)"
    unfolding handleCreateOffer_def
    by (intro act_intros keepsState_try_bracket [where j = "\<lambda>p. True"]) simp_all
  show "keepsState (\<lambda>p. \<not> mp_creating p) (marketAct w T e)"
    by (cases e) (auto simp: loadStats_def loadPrices_def handleOpenCreateOffer_def
        intro!: act_intros create)
qed

lemma retireOne_keeps:
  "(\<And>p v. q (p\<lparr>rp_retired := v\<rparr>) = q p) \<Longrightarrow> keepsState q (retireOne T body n)"
  unfolding retireOne_def by (intro act_intros) simp_all

interpretation retirePage: web_page "\<lambda>p. \<not> rp_retiring p" "retireAct E w T"
  for E :: env and w :: "wallet_info option" and T :: "'s transport"
proof
  fix e
  have retire: "keepsState (\<lambda>p. \<not> rp_retiring p) (handleRetire E T)"
    unfolding handleRetire_def
    by (intro act_intros keepsState_try_bracket [where j = "\<lambda>p. True"] retireOne_keeps) simp_all
  show "keepsState (\<lambda>p. \<not> rp_retiring p) (retireAct E w T e)"
    by (cases e) (auto simp: loadOwned_def toggleCredit_def openConfirm_def showCertificate_def
        intro!: act_intros retire)
qed

section \<open>The dialogs send what they show\<close>

text \<open>A transport that also lists the requests it was given.\<close>

definition logged :: "'s transport \<Rightarrow> ('s \<times> http_call list) transport" where
  "logged T h c = (\<lambda>(s, l). case T h c s of (r, s') \<Rightarrow> (r, (s', l @ [c])))"

lemma logged_apply: "logged T h c (s, l) = (case T h c s of (r, s') \<Rightarrow> (r, (s', l @ [c])))"
  by (simp add: logged_def)

lemma retireOne_run:
  assumes "retireOne (logged T) body n (p, b) = (r, (p', b'))"
  shows "snd (br_server b') = snd (br_server b) @ [webRecords (WRetire n body)] \<and>
   ((\<exists>h. r = Inr () \<and> p' = p\<lparr>rp_retired := Some (n, h)\<rparr>) \<or> (\<exists>e. r = Inl e \<and> p' = p))"
proof -
  let ?c = "webRecords (WRetire n body)"
  obtain s l where sl: "br_server b = (s, l)" by fastforce
  obtain q t where "T (bearerHeader (br_token b)) ?c s = (q, t)" by fastforce
  then have m: "send (logged T) ?c (p, b) = (q, (p, b\<lparr>br_server := (t, l @ [?c])\<rparr>))"
    by (simp add: send_apply logged_apply sl del: webRecords.simps)
  show ?thesis
    using assms m by (cases q) (auto simp: retireOne_def act_simps sl simp del: webRecords.simps)
qed

lemma retireLoop_run:
  "forE ns (retireOne (logged T) body) (p, b) = (r, (p', b')) \<Longrightarrow>
   \<exists>k \<le> length ns. snd (br_server b') = snd (br_server b) @
       map (\<lambda>n. webRecords (WRetire n body)) (take k ns) \<and> (r = Inr () \<longrightarrow> k = length ns) \<and>
     (\<exists>v. p' = p\<lparr>rp_retired := v\<rparr>)"
proof (induction ns arbitrary: p b)
  case Nil
  then show ?case by (cases p) (auto intro: exI [of _ "rp_retired p"])
next
  case (Cons n ns)
  obtain r1 p1 b1 where one: "retireOne (logged T) body n (p, b) = (r1, (p1, b1))"
    by (metis prod.exhaust)
  note run = retireOne_run [OF one]
  show ?case
  proof (cases r1)
    case (Inl e)
    then have "p' = p" "b' = b1" "r = Inl e"
      using Cons.prems one run by (auto simp: act_simps)
    with run show ?thesis
      by (intro exI [of _ 1]) (auto intro: exI [of _ "rp_retired p"])
  next
    case (Inr u)
    then have rest: "forE ns (retireOne (logged T) body) (p1, b1) = (r, (p', b'))"
      using Cons.prems one by (simp add: act_simps)
    from Cons.IH [OF rest] obtain k v where k: "k \<le> length ns" "snd (br_server b') =
        snd (br_server b1) @ map (\<lambda>n. webRecords (WRetire n body)) (take k ns)"
      "r = Inr () \<longrightarrow> k = length ns" "p' = p1\<lparr>rp_retired := v\<rparr>" by blast
    from run Inr obtain h where "p1 = p\<lparr>rp_retired := Some (n, h)\<rparr>" by blast
    with k(4) have "p' = p\<lparr>rp_retired := v\<rparr>" by simp
    with k(1-3) run show ?thesis
      by (intro exI [of _ "Suc k"]) (auto simp del: webRecords.simps)
  qed
qed

lemma handleRetire_log:
  assumes "handleRetire E (logged T) (p, b) = (r, (p', b'))"
    and "rp_selected p \<noteq> []" and "rp_beneficiary p \<noteq> []"
  shows "\<exists>k \<le> length (rp_selected p). snd (br_server b') = snd (br_server b) @
       map (\<lambda>n. webRecords (WRetire n (retireBody E p))) (take k (rp_selected p)) \<and> r = Inr () \<and>
     (if rp_error p' = None then k = length (rp_selected p) \<and> rp_selected p' = []
      else rp_selected p' = rp_selected p)"
proof -
  let ?q = "p\<lparr>rp_retiring := True, rp_error := None\<rparr>"
  obtain r1 p1 b1 where loop: "forE (rp_selected p) (retireOne (logged T) (retireBody E p)) (?q, b) =
      (r1, (p1, b1))"
    by (metis prod.exhaust)
  from retireLoop_run [OF loop] obtain k v where k: "k \<le> length (rp_selected p)"
      "snd (br_server b1) = snd (br_server b) @
         map (\<lambda>n. webRecords (WRetire n (retireBody E p))) (take k (rp_selected p))"
      "r1 = Inr () \<longrightarrow> k = length (rp_selected p)" "p1 = ?q\<lparr>rp_retired := v\<rparr>" by blast
  have "r = Inr () \<and> b' = b1 \<and> p' = (case r1 of
      Inr _ \<Rightarrow> p1\<lparr>rp_showConfirm := False, rp_selected := [], rp_retiring := False\<rparr>
    | Inl _ \<Rightarrow> p1\<lparr>rp_error := Some ''Retirement failed. Please try again.'', rp_retiring := False\<rparr>)"
    using assms loop by (cases r1) (auto simp: handleRetire_def handler_simps)
  with k show ?thesis by (cases r1) auto
qed

interpretation retireSelection: web_page "\<lambda>p. distinct (rp_selected p)" "retireAct E w T"
  for E :: env and w :: "wallet_info option" and T :: "'s transport"
proof
  fix e
  have keep: "keepsState (\<lambda>p. distinct (rp_selected p)) (retireOne T body n)" for body n
    by (rule retireOne_keeps) simp
  show "keepsState (\<lambda>p. distinct (rp_selected p)) (retireAct E w T e)"
    by (cases e) (auto simp: loadOwned_def toggleCredit_def openConfirm_def showCertificate_def
        handleRetire_def toggle_def intro!: act_intros keep)
qed


text \<open>A service that accepts the first retirement and refuses every later one.\<close>

definition onceTransport :: "nat transport" where
  "onceTransport h c n = (if n = 0 then (Inr (JObj [(''certificateHash'', JStr ''ab'')]), 1)
     else (Inl (BadRequest ''Credit is not ACTIVE''), n + 1))"

abbreviation demoRetireEvents :: "retire_event list" where
  "demoRetireEvents \<equiv> [RpToggle (ofInt 7), RpToggle (ofInt 9), RpToggle (ofInt 8), RpToggle (ofInt 9),
     RpBeneficiary ''ACME'', RpPeriod ''2024'']"

abbreviation demoRetirePage :: "retire_page \<times> (nat \<times> http_call list) browser" where
  "demoRetirePage \<equiv> runEvents (retireAct demoEnv (Some \<lparr>wi_publicKey = ''GA'', wi_isConnected = True\<rparr>)
     (logged onceTransport)) demoRetireEvents (newRetirePage, \<lparr>br_token = None, br_server = (0, [])\<rparr>)"


text \<open>
  A refusal after the first retirement: the page draws the success of the first, and the error, which
  is set, is not drawn.
\<close>

lemma retire_partial_hidden:
  "let p = fst (runEvents (retireAct demoEnv (Some \<lparr>wi_publicKey = ''GA'', wi_isConnected = True\<rparr>)
       (logged onceTransport)) (demoRetireEvents @ [RpRetire])
       (newRetirePage, \<lparr>br_token = None, br_server = (0, [])\<rparr>)) in
   retireView (Some \<lparr>wi_publicKey = ''GA'', wi_isConnected = True\<rparr>) p = RpSucceeded (ofInt 7) None \<and>
   rp_error p \<noteq> None \<and> rp_selected p = [ofInt 7, ofInt 8]"
  by code_simp

text \<open>The filter \<open>All\<close> of the order book is sent as a methodology of this name.\<close>

lemma orderbook_all_filter:
  "listingFilters (p\<lparr>ob_methodology := ''all''\<rparr>) =
   (''methodology'', JStr ''all'') # listingFilters (p\<lparr>ob_methodology := []\<rparr>)"
  by (simp add: listingFilters_def)

end
