(* ===== verification/WebConsole.thy ===== *)
theory WebConsole
  imports WebTrading
begin

text \<open>
  The other pages of the front end, in the style of the trading pages: administration, verifiers,
  bridge, webhooks, reporting, certificates, and the public lists of credits.
\<close>

section \<open>The administration page\<close>

record registry_row =
  rr_name :: string
  rr_code :: string
  rr_root :: string

record admin_page =
  ad_verifiers :: "jsval list"
  ad_loading :: bool
  ad_feeBps :: string
  ad_threshold :: string
  ad_quorum :: string
  ad_approvalWindow :: string
  ad_bufferPct :: string
  ad_configSaving :: bool
  ad_config :: "jsval option"
  ad_system :: "jsval option"
  ad_contracts :: "jsval option"
  ad_showSlash :: bool
  ad_slashVerifier :: "jsval option"
  ad_slashAmount :: string
  ad_slashing :: bool
  ad_beneficiaries :: "(string \<times> string) list"
  ad_registries :: "registry_row list"
  ad_blockHeight :: string
  ad_error :: "string option"

definition newAdminPage :: admin_page where
  "newAdminPage = \<lparr>ad_verifiers = [], ad_loading = True, ad_feeBps = ''50'', ad_threshold = ''2'',
     ad_quorum = ''2'', ad_approvalWindow = ''2592000'', ad_bufferPct = ''10'',
     ad_configSaving = False, ad_config = None, ad_system = None, ad_contracts = None,
     ad_showSlash = False, ad_slashVerifier = None, ad_slashAmount = [], ad_slashing = False,
     ad_beneficiaries = [([], [])],
     ad_registries = [\<lparr>rr_name = ''Verra'', rr_code = ''VERRA'', rr_root = []\<rparr>,
       \<lparr>rr_name = ''Gold Standard'', rr_code = ''GOLD_STANDARD'', rr_root = []\<rparr>],
     ad_blockHeight = [], ad_error = None\<rparr>"

text \<open>\<open>String(config.key ?? default)\<close>.\<close>

definition configText :: "jsval \<Rightarrow> string \<Rightarrow> int \<Rightarrow> string" where
  "configText c k d = jsString (coalesce (getProp c k) (JNum (ofInt d)))"

definition whenOk :: "api_error + jsval \<Rightarrow> (jsval \<Rightarrow> 'p \<Rightarrow> 'p) \<Rightarrow> ('p, 's, unit) handler" where
  "whenOk r f = (case r of Inl _ \<Rightarrow> ret () | Inr v \<Rightarrow> setState (f v))"

definition loadAdmin :: "'s transport \<Rightarrow> (admin_page, 's, unit) handler" where
  "loadAdmin T =
     bindE (settled (send T (webRecords WVerifiers))) (\<lambda>v.
     bindE (settled (send T (webAdmin WConfig))) (\<lambda>c.
     bindE (settled (send T (webAdmin WSystem))) (\<lambda>s.
     bindE (settled (send T (webAdmin WContracts))) (\<lambda>ct.
     seqE (whenOk v (\<lambda>v p. p\<lparr>ad_verifiers := elems v\<rparr>))
    (seqE (whenOk c (\<lambda>c p. p\<lparr>ad_config := Some c, ad_feeBps := configText c ''protocolFeeBps'' 50,
        ad_threshold := configText c ''verifierThreshold'' 2,
        ad_quorum := configText c ''verifierQuorum'' 2,
        ad_approvalWindow := configText c ''approvalWindow'' 2592000,
        ad_bufferPct := configText c ''bufferPoolPct'' 10\<rparr>))
    (seqE (whenOk s (\<lambda>s p. p\<lparr>ad_system := Some s\<rparr>))
    (seqE (whenOk ct (\<lambda>ct p. p\<lparr>ad_contracts := Some ct\<rparr>))
      (setState (\<lambda>p. p\<lparr>ad_loading := False\<rparr>)))))))))"

definition typedNumber :: "string \<Rightarrow> jsval" where
  "typedNumber s = JNum (stringToNumber s)"

definition handleSaveConfig :: "'s transport \<Rightarrow> (admin_page, 's, unit) handler" where
  "handleSaveConfig T = bindE here (\<lambda>p.
     seqE (setState (\<lambda>p. p\<lparr>ad_configSaving := True, ad_error := None\<rparr>))
    (tryE
      (bindE (send T (webAdmin (WUpdateConfig (JObj [
           (''verifierThreshold'', typedNumber (ad_threshold p)),
           (''verifierQuorum'', typedNumber (ad_quorum p)),
           (''approvalWindow'', typedNumber (ad_approvalWindow p)),
           (''protocolFeeBps'', typedNumber (ad_feeBps p)),
           (''bufferPoolPct'', typedNumber (ad_bufferPct p))])))) (\<lambda>updated.
       whenE (\<not> truthy updated)
         (setState (\<lambda>p. p\<lparr>ad_error := Some ''Failed to update protocol config on-chain.''\<rparr>))))
      (\<lambda>_. setState (\<lambda>p. p\<lparr>ad_error := Some ''Failed to save configuration.''\<rparr>))
      (setState (\<lambda>p. p\<lparr>ad_configSaving := False\<rparr>))))"

text \<open>The dialog waits half a second and closes; there is no request.\<close>

definition handleSlash :: "(admin_page, 's, unit) handler" where
  "handleSlash = bindE here (\<lambda>p. whenE (ad_slashVerifier p \<noteq> None \<and> ad_slashAmount p \<noteq> [])
     (seqE (setState (\<lambda>p. p\<lparr>ad_slashing := True, ad_error := None\<rparr>))
     (tryE (setState (\<lambda>p. p\<lparr>ad_showSlash := False, ad_slashAmount := []\<rparr>))
       (\<lambda>_. setState (\<lambda>p. p\<lparr>ad_error := Some ''Failed to slash verifier.''\<rparr>))
       (setState (\<lambda>p. p\<lparr>ad_slashing := False\<rparr>)))))"

definition addBeneficiary :: "(admin_page, 's, unit) handler" where
  "addBeneficiary = setState (\<lambda>p. if 20 \<le> length (ad_beneficiaries p) then p
     else p\<lparr>ad_beneficiaries := ad_beneficiaries p @ [([], [])]\<rparr>)"

definition removeBeneficiary :: "nat \<Rightarrow> (admin_page, 's, unit) handler" where
  "removeBeneficiary i = setState (\<lambda>p. p\<lparr>ad_beneficiaries :=
     take i (ad_beneficiaries p) @ drop (Suc i) (ad_beneficiaries p)\<rparr>)"

definition updateBeneficiary ::
  "nat \<Rightarrow> (string \<times> string \<Rightarrow> string \<times> string) \<Rightarrow> (admin_page, 's, unit) handler" where
  "updateBeneficiary i f = setState (\<lambda>p. p\<lparr>ad_beneficiaries :=
     (ad_beneficiaries p)[i := f (ad_beneficiaries p ! i)]\<rparr>)"

text \<open>\<open>Number(b.bps) || 0\<close>, added up.\<close>

definition typedBps :: "(string \<times> string) list \<Rightarrow> jsnum" where
  "typedBps bs = foldl (\<lambda>sum b. num_add sum
     (let n = stringToNumber (snd b) in if num_truthy n then n else ofInt 0)) (ofInt 0) bs"

definition handleSaveRevenueSplit :: "(admin_page, 's, unit) handler" where
  "handleSaveRevenueSplit = bindE here (\<lambda>p.
     seqE (setState (\<lambda>p. p\<lparr>ad_error := None\<rparr>))
      (let total = typedBps (ad_beneficiaries p) in
       whenE (total \<noteq> ofInt 10000) (setState (\<lambda>p. p\<lparr>ad_error := Some
         (''Beneficiary BPS must sum to 10000 (currently '' @ num_to_string total @ '')'')\<rparr>))))"

fun messageOf :: "api_error \<Rightarrow> string" where
  "messageOf (NotFound m) = m" | "messageOf (BadRequest m) = m" | "messageOf (Forbidden m) = m"
| "messageOf (Unauthorized m) = m" | "messageOf (BadGateway m) = m"
| "messageOf (TooManyRequests m) = m" | "messageOf (JsError m) = m"
| "messageOf (SorobanError m) = m" | "messageOf (PrismaError m) = m"

definition handleUpdateRoot :: "'s transport \<Rightarrow> (admin_page, 's, unit) handler" where
  "handleUpdateRoot T = bindE here (\<lambda>p.
     seqE (setState (\<lambda>p. p\<lparr>ad_error := None\<rparr>))
    (catchE
      (let updates = filter (\<lambda>r. trim (rr_root r) \<noteq> []) (ad_registries p) in
       if updates = []
       then setState (\<lambda>p. p\<lparr>ad_error := Some ''Enter at least one merkle root.''\<rparr>)
       else seqE (forE updates (\<lambda>r. seqE (send T (webRecords (WPublishRoot (rr_code r) (JObj [
             (''root'', JStr (trim (rr_root r))),
             (''blockHeight'', typedNumber (ad_blockHeight p))])))) (ret ())))
         (setState (\<lambda>p. p\<lparr>ad_registries := map (\<lambda>r. r\<lparr>rr_root := []\<rparr>) (ad_registries p),
            ad_blockHeight := []\<rparr>)))
      (\<lambda>e. setState (\<lambda>p. p\<lparr>ad_error := Some (''Failed to update registry root: '' @ messageOf e)\<rparr>))))"

datatype admin_event =
    AdLoad | AdFee string | AdThreshold string | AdQuorum string | AdWindow string | AdBuffer string
  | AdSaveConfig | AdOpenSlash jsval | AdShowSlash bool | AdSlashAmount string | AdSlash
  | AdAddBeneficiary | AdRemoveBeneficiary nat | AdAddress nat string | AdBps nat string | AdSaveSplit
  | AdRoot nat string | AdHeight string | AdUpdateRoots

fun adminAct :: "'s transport \<Rightarrow> admin_event \<Rightarrow> (admin_page, 's, unit) handler" where
  "adminAct T AdLoad = loadAdmin T"
| "adminAct T (AdFee s) = setState (\<lambda>p. p\<lparr>ad_feeBps := s\<rparr>)"
| "adminAct T (AdThreshold s) = setState (\<lambda>p. p\<lparr>ad_threshold := s\<rparr>)"
| "adminAct T (AdQuorum s) = setState (\<lambda>p. p\<lparr>ad_quorum := s\<rparr>)"
| "adminAct T (AdWindow s) = setState (\<lambda>p. p\<lparr>ad_approvalWindow := s\<rparr>)"
| "adminAct T (AdBuffer s) = setState (\<lambda>p. p\<lparr>ad_bufferPct := s\<rparr>)"
| "adminAct T AdSaveConfig = handleSaveConfig T"
| "adminAct T (AdOpenSlash v) = setState (\<lambda>p. p\<lparr>ad_slashVerifier := Some v, ad_showSlash := True\<rparr>)"
| "adminAct T (AdShowSlash v) = setState (\<lambda>p. p\<lparr>ad_showSlash := v\<rparr>)"
| "adminAct T (AdSlashAmount s) = setState (\<lambda>p. p\<lparr>ad_slashAmount := s\<rparr>)"
| "adminAct T AdSlash = handleSlash"
| "adminAct T AdAddBeneficiary = addBeneficiary"
| "adminAct T (AdRemoveBeneficiary i) = removeBeneficiary i"
| "adminAct T (AdAddress i s) = updateBeneficiary i (\<lambda>b. (s, snd b))"
| "adminAct T (AdBps i s) = updateBeneficiary i (\<lambda>b. (fst b, s))"
| "adminAct T AdSaveSplit = handleSaveRevenueSplit"
| "adminAct T (AdRoot i s) = setState (\<lambda>p. p\<lparr>ad_registries :=
     (ad_registries p)[i := (ad_registries p ! i)\<lparr>rr_root := s\<rparr>]\<rparr>)"
| "adminAct T (AdHeight s) = setState (\<lambda>p. p\<lparr>ad_blockHeight := s\<rparr>)"
| "adminAct T AdUpdateRoots = handleUpdateRoot T"

section \<open>The verifier page\<close>

datatype decision = Approve | Reject

record verifier_page =
  vp_pending :: "jsval list"
  vp_verifiers :: "jsval list"
  vp_loading :: bool
  vp_selected :: "jsval option"
  vp_comments :: string
  vp_reason :: string
  vp_actionLoading :: bool
  vp_confirm :: "(jsnum \<times> decision) option"
  vp_error :: "string option"
  vp_heartbeatLoading :: bool
  vp_expanded :: "jsval option"

definition newVerifierPage :: verifier_page where
  "newVerifierPage = \<lparr>vp_pending = [], vp_verifiers = [], vp_loading = True, vp_selected = None,
     vp_comments = [], vp_reason = [], vp_actionLoading = False, vp_confirm = None, vp_error = None,
     vp_heartbeatLoading = False, vp_expanded = None\<rparr>"

definition fetchData :: "'s transport \<Rightarrow> (verifier_page, 's, unit) handler" where
  "fetchData T =
     seqE (setState (\<lambda>p. p\<lparr>vp_loading := True\<rparr>))
    (tryE
      (bindE (bothE (send T (webCredits (WCredits [(''status'', JStr ''PENDING''),
           (''limit'', JStr ''50'')]))) (send T (webRecords WVerifiers))) (\<lambda>(creditsRes, verifiersData).
       setState (\<lambda>p. p\<lparr>vp_pending := elems (getProp creditsRes ''data''),
         vp_verifiers := elems verifiersData\<rparr>)))
      (\<lambda>_. setState (\<lambda>p. p\<lparr>vp_error := Some ''Failed to fetch data''\<rparr>))
      (setState (\<lambda>p. p\<lparr>vp_loading := False\<rparr>)))"

definition decisionCall :: "verifier_page \<Rightarrow> jsnum \<Rightarrow> decision \<Rightarrow> http_call" where
  "decisionCall p n d = webCredits (case d of
     Approve \<Rightarrow> WApprove n (JStr (vp_comments p)) | Reject \<Rightarrow> WReject n (vp_reason p))"

definition handleConfirm :: "'s transport \<Rightarrow> (verifier_page, 's, unit) handler" where
  "handleConfirm T = bindE here (\<lambda>p. (case vp_confirm p of
     None \<Rightarrow> ret ()
   | Some (n, d) \<Rightarrow>
       seqE (setState (\<lambda>p. p\<lparr>vp_actionLoading := True, vp_error := None\<rparr>))
      (tryE
        (seqE (send T (decisionCall p n d))
        (seqE (setState (\<lambda>p. p\<lparr>vp_selected := None, vp_comments := [], vp_reason := []\<rparr>))
          (fetchData T)))
        (\<lambda>_. setState (\<lambda>p. p\<lparr>vp_error := Some (''Failed to '' @ (case d of Approve \<Rightarrow> ''approve''
           | Reject \<Rightarrow> ''reject'') @ '' credit. Please try again.'')\<rparr>))
        (setState (\<lambda>p. p\<lparr>vp_actionLoading := False, vp_confirm := None\<rparr>)))))"

text \<open>The heartbeat goes to the server of the front end itself, \<open>N\<close>, and without the token.\<close>

definition heartbeatCall :: http_call where
  "heartbeatCall = callPost [Seg ''api'', Seg ''verifiers'', Seg ''heartbeat''] JUndef"

definition handleHeartbeat :: "'s transport \<Rightarrow> (verifier_page, 's, unit) handler" where
  "handleHeartbeat N =
     seqE (setState (\<lambda>p. p\<lparr>vp_heartbeatLoading := True\<rparr>))
    (tryE (seqE (send (\<lambda>_. N None) heartbeatCall) (ret ())) (\<lambda>_. ret ())
      (setState (\<lambda>p. p\<lparr>vp_heartbeatLoading := False\<rparr>)))"

definition isVerifier :: "wallet_info option \<Rightarrow> verifier_page \<Rightarrow> bool" where
  "isVerifier w p = (case walletKey w of None \<Rightarrow> False
     | Some k \<Rightarrow> list_ex (\<lambda>v. getProp (getProp v ''user'') ''stellarPub'' = JStr k \<and>
         getProp v ''status'' = JStr ''ACTIVE'') (vp_verifiers p))"

text \<open>An invalid date is never expired: the comparison is with NaN.\<close>

definition submissionExpired :: "env \<Rightarrow> jsval \<Rightarrow> bool" where
  "submissionExpired E c = (case dateParse E (jsString (getProp c ''createdAt'')) of
     None \<Rightarrow> False | Some t \<Rightarrow> 7 * 24 * 60 * 60 * 1000 < clock E - t)"

datatype verifier_event =
    VpLoad | VpComments string | VpReason string | VpAsk jsval decision | VpClose
  | VpConfirm | VpHeartbeat | VpExpand "jsval option"

fun verifierAct :: "'s transport \<Rightarrow> 's transport \<Rightarrow> verifier_event \<Rightarrow> (verifier_page, 's, unit) handler" where
  "verifierAct N T VpLoad = fetchData T"
| "verifierAct N T (VpComments s) = setState (\<lambda>p. p\<lparr>vp_comments := s\<rparr>)"
| "verifierAct N T (VpReason s) = setState (\<lambda>p. p\<lparr>vp_reason := s\<rparr>)"
| "verifierAct N T (VpAsk c d) = setState (\<lambda>p. p\<lparr>vp_selected := Some c,
     vp_confirm := Some (numProp c ''creditId'', d)\<rparr>)"
| "verifierAct N T VpClose = setState (\<lambda>p. p\<lparr>vp_confirm := None\<rparr>)"
| "verifierAct N T VpConfirm = handleConfirm T"
| "verifierAct N T VpHeartbeat = handleHeartbeat N"
| "verifierAct N T (VpExpand c) = setState (\<lambda>p. p\<lparr>vp_expanded := c\<rparr>)"

text \<open>Whether the buttons of a row, and of the two dialogs, are disabled.\<close>

definition decideDisabled :: "wallet_info option \<Rightarrow> verifier_page \<Rightarrow> bool" where
  "decideDisabled w p \<longleftrightarrow> \<not> isVerifier w p"

definition verdictDisabled :: "verifier_page \<Rightarrow> decision \<Rightarrow> bool" where
  "verdictDisabled p d \<longleftrightarrow> vp_actionLoading p \<or> d = Reject \<and> vp_reason p = []"

section \<open>No page stays busy\<close>

definition adminIdle :: "admin_page \<Rightarrow> bool" where
  "adminIdle p \<longleftrightarrow> \<not> ad_configSaving p \<and> \<not> ad_slashing p"

lemma whenOk_keeps: "(\<And>v p. q p \<Longrightarrow> q (f v p)) \<Longrightarrow> keepsState q (whenOk r f)"
  by (cases r) (auto simp: whenOk_def intro!: act_intros)

interpretation adminPage: web_page adminIdle "adminAct T" for T :: "'s transport"
proof
  fix e
  have save: "keepsState adminIdle (handleSaveConfig T)"
    unfolding handleSaveConfig_def
    by (intro act_intros keepsState_try_bracket [where j = "\<lambda>p. \<not> ad_slashing p"])
      (simp_all add: adminIdle_def)
  have slash: "keepsState adminIdle handleSlash"
    unfolding handleSlash_def
    by (intro act_intros keepsState_try_bracket [where j = "\<lambda>p. \<not> ad_configSaving p"])
      (simp_all add: adminIdle_def)
  have load: "keepsState adminIdle (loadAdmin T)"
    unfolding loadAdmin_def by (intro act_intros whenOk_keeps) (simp_all add: adminIdle_def)
  have roots: "keepsState adminIdle (handleUpdateRoot T)"
    unfolding handleUpdateRoot_def Let_def by (intro act_intros) (simp_all add: adminIdle_def)
  show "keepsState adminIdle (adminAct T e)"
    by (cases e) (auto simp: adminIdle_def addBeneficiary_def removeBeneficiary_def
        updateBeneficiary_def handleSaveRevenueSplit_def Let_def
        intro!: act_intros save slash load roots)
qed

definition verifierIdle :: "verifier_page \<Rightarrow> bool" where
  "verifierIdle p \<longleftrightarrow> \<not> vp_actionLoading p \<and> \<not> vp_heartbeatLoading p"

lemma fetchData_keeps:
  "(\<And>p v u. q (p\<lparr>vp_pending := v, vp_verifiers := u\<rparr>) = q p) \<Longrightarrow>
   (\<And>p v. q (p\<lparr>vp_error := v\<rparr>) = q p) \<Longrightarrow> (\<And>p v. q (p\<lparr>vp_loading := v\<rparr>) = q p) \<Longrightarrow>
   keepsState q (fetchData T)"
  unfolding fetchData_def by (intro act_intros) simp_all

interpretation verifierPage: web_page verifierIdle "verifierAct N T"
  for N :: "'s transport" and T :: "'s transport"
proof
  fix e
  have confirm: "keepsState verifierIdle (handleConfirm T)"
    unfolding handleConfirm_def
    by (intro act_intros keepsState_try_bracket [where j = "\<lambda>p. \<not> vp_heartbeatLoading p"]
        fetchData_keeps) (simp_all add: verifierIdle_def)
  have heartbeat: "keepsState verifierIdle (handleHeartbeat N)"
    unfolding handleHeartbeat_def
    by (intro act_intros keepsState_try_bracket [where j = "\<lambda>p. \<not> vp_actionLoading p"])
      (simp_all add: verifierIdle_def)
  show "keepsState verifierIdle (verifierAct N T e)"
    by (cases e) (auto simp: verifierIdle_def intro!: act_intros fetchData_keeps confirm heartbeat)
qed

section \<open>What the pages do not do\<close>

text \<open>Slashing a verifier and saving a revenue split send no request: they take no transport, and
  the service is as before, although the dialog closes without an error.\<close>

lemma slash_sends_nothing:
  "ad_slashVerifier p = Some v \<Longrightarrow> ad_slashAmount p \<noteq> [] \<Longrightarrow>
   handleSlash (p, b) = (Inr (), (p\<lparr>ad_error := None, ad_showSlash := False, ad_slashAmount := [],
     ad_slashing := False\<rparr>, b))"
  by (simp add: handleSlash_def handler_simps)

lemma split_sends_nothing:
  "typedBps (ad_beneficiaries p) = ofInt 10000 \<Longrightarrow>
   handleSaveRevenueSplit (p, b) = (Inr (), (p\<lparr>ad_error := None\<rparr>, b))"
  by (simp add: handleSaveRevenueSplit_def Let_def handler_simps)

text \<open>The path of the heartbeat is none of the service either.\<close>

lemma page_heartbeat_unrouted: "served heartbeatCall = []"
  by code_simp

end
