(* ===== verification/WebRegistry.thy ===== *)
theory WebRegistry
  imports WebConsole
begin

text \<open>
  The remaining pages of the front end: the bridge with its four tabs, webhooks, reporting,
  certificates, and the lists of credits and retirements that the public pages draw.
\<close>

section \<open>The bridge page\<close>

definition REGISTRIES :: "string list" where
  "REGISTRIES = [''VERRA'', ''GOLD_STANDARD'', ''CDM'', ''ACR'', ''CAR'', ''PLAN_VIVO'']"

text \<open>The ellipsis is one character, written as its UTF-8 bytes.\<close>

definition shorten :: "string \<Rightarrow> nat \<Rightarrow> string" where
  "shorten value n = (if value = [] \<or> length value \<le> n * 2 + 1 then value
     else take n value @ [CHR 0xE2, CHR 0x80, CHR 0xA6] @ drop (length value - n) value)"

record ledger_tab =
  lt_records :: "jsval list"
  lt_registry :: string
  lt_status :: string
  lt_loading :: bool
  lt_error :: "string option"

definition newLedgerTab :: ledger_tab where
  "newLedgerTab = \<lparr>lt_records = [], lt_registry = ''all'', lt_status = ''all'', lt_loading = True,
     lt_error = None\<rparr>"

definition loadLedger :: "'s transport \<Rightarrow> (ledger_tab, 's, unit) handler" where
  "loadLedger T = bindE here (\<lambda>p.
     seqE (setState (\<lambda>p. p\<lparr>lt_loading := True, lt_error := None\<rparr>))
    (tryE
      (bindE (send T (webRecords (WRecords (
          (if lt_registry p \<noteq> ''all'' then [(''registry'', JStr (lt_registry p))] else []) @
          (if lt_status p \<noteq> ''all'' then [(''status'', JStr (lt_status p))] else []))))) (\<lambda>res.
       setState (\<lambda>p. p\<lparr>lt_records := elems (getProp res ''data'')\<rparr>)))
      (\<lambda>e. setState (\<lambda>p. p\<lparr>lt_error := Some (messageOf e)\<rparr>))
      (setState (\<lambda>p. p\<lparr>lt_loading := False\<rparr>))))"

datatype ledger_event = LtLoad | LtRegistry string | LtStatus string

fun ledgerAct :: "'s transport \<Rightarrow> ledger_event \<Rightarrow> (ledger_tab, 's, unit) handler" where
  "ledgerAct T LtLoad = loadLedger T"
| "ledgerAct T (LtRegistry r) = seqE (setState (\<lambda>p. p\<lparr>lt_registry := r\<rparr>)) (loadLedger T)"
| "ledgerAct T (LtStatus x) = seqE (setState (\<lambda>p. p\<lparr>lt_status := x\<rparr>)) (loadLedger T)"

record bridge_in_form =
  bf_sourceRegistry :: string
  bf_sourceSerial :: string
  bf_leaf :: string
  bf_merkleProof :: string
  bf_merkleRoot :: string
  bf_projectId :: string
  bf_methodology :: string
  bf_vintageStart :: string
  bf_vintageEnd :: string
  bf_tonnes :: string
  bf_geography :: string
  bf_serialPrefix :: string
  bf_submitting :: bool
  bf_result :: "jsval option"
  bf_error :: "string option"

definition newBridgeInForm :: bridge_in_form where
  "newBridgeInForm = \<lparr>bf_sourceRegistry = ''VERRA'', bf_sourceSerial = [], bf_leaf = [],
     bf_merkleProof = [], bf_merkleRoot = [], bf_projectId = [], bf_methodology = [],
     bf_vintageStart = [], bf_vintageEnd = [], bf_tonnes = [], bf_geography = [],
     bf_serialPrefix = [], bf_submitting = False, bf_result = None, bf_error = None\<rparr>"

definition bridgeInBody :: "bridge_in_form \<Rightarrow> jsval" where
  "bridgeInBody p = JObj [(''sourceRegistry'', JStr (bf_sourceRegistry p)),
     (''sourceSerial'', JStr (bf_sourceSerial p)), (''leaf'', JStr (bf_leaf p)),
     (''merkleProof'', JArr (map JStr (filter (\<lambda>s. s \<noteq> [])
        (map trim (splitOn CHR '','' (bf_merkleProof p)))))),
     (''merkleRoot'', JStr (bf_merkleRoot p)),
     (''metadata'', JObj [(''projectId'', JStr (bf_projectId p)),
        (''methodology'', JStr (bf_methodology p)),
        (''vintageStart'', typedNumber (bf_vintageStart p)),
        (''vintageEnd'', typedNumber (bf_vintageEnd p)), (''tonnes'', typedNumber (bf_tonnes p)),
        (''geography'', JStr (bf_geography p)), (''serialPrefix'', JStr (bf_serialPrefix p))])]"

definition submitBridgeIn :: "'s transport \<Rightarrow> (bridge_in_form, 's, unit) handler" where
  "submitBridgeIn T = bindE here (\<lambda>p.
     seqE (setState (\<lambda>p. p\<lparr>bf_submitting := True, bf_error := None, bf_result := None\<rparr>))
    (tryE
      (bindE (send T (webRecords (WBridgeIn (bridgeInBody p)))) (\<lambda>r.
       setState (\<lambda>p. p\<lparr>bf_result := Some r\<rparr>)))
      (\<lambda>e. setState (\<lambda>p. p\<lparr>bf_error := Some (messageOf e)\<rparr>))
      (setState (\<lambda>p. p\<lparr>bf_submitting := False\<rparr>))))"

datatype bridge_in_field =
    FRegistry | FSerial | FLeaf | FProof | FRoot | FProject | FMethodology | FVintageStart
  | FVintageEnd | FTonnes | FGeography | FSerialPrefix

fun enterField :: "bridge_in_field \<Rightarrow> string \<Rightarrow> bridge_in_form \<Rightarrow> bridge_in_form" where
  "enterField FRegistry v p = p\<lparr>bf_sourceRegistry := v\<rparr>"
| "enterField FSerial v p = p\<lparr>bf_sourceSerial := v\<rparr>"
| "enterField FLeaf v p = p\<lparr>bf_leaf := v\<rparr>"
| "enterField FProof v p = p\<lparr>bf_merkleProof := v\<rparr>"
| "enterField FRoot v p = p\<lparr>bf_merkleRoot := v\<rparr>"
| "enterField FProject v p = p\<lparr>bf_projectId := v\<rparr>"
| "enterField FMethodology v p = p\<lparr>bf_methodology := v\<rparr>"
| "enterField FVintageStart v p = p\<lparr>bf_vintageStart := v\<rparr>"
| "enterField FVintageEnd v p = p\<lparr>bf_vintageEnd := v\<rparr>"
| "enterField FTonnes v p = p\<lparr>bf_tonnes := v\<rparr>"
| "enterField FGeography v p = p\<lparr>bf_geography := v\<rparr>"
| "enterField FSerialPrefix v p = p\<lparr>bf_serialPrefix := v\<rparr>"

datatype bridge_in_event = BiEnter bridge_in_field string | BiSubmit | BiAnother

fun bridgeInAct :: "'s transport \<Rightarrow> bridge_in_event \<Rightarrow> (bridge_in_form, 's, unit) handler" where
  "bridgeInAct T (BiEnter f v) = setState (enterField f v)"
| "bridgeInAct T BiSubmit = submitBridgeIn T"
| "bridgeInAct T BiAnother = setState (\<lambda>p. p\<lparr>bf_result := None\<rparr>)"

definition bridgeInDisabled :: "bridge_in_form \<Rightarrow> bool" where
  "bridgeInDisabled p \<longleftrightarrow> bf_submitting p \<or> bf_sourceSerial p = [] \<or> bf_leaf p = [] \<or>
     bf_merkleProof p = [] \<or> bf_merkleRoot p = []"

record bridge_out_form =
  bg_creditId :: string
  bg_submitting :: bool
  bg_result :: "jsval option"
  bg_error :: "string option"

definition newBridgeOutForm :: bridge_out_form where
  "newBridgeOutForm = \<lparr>bg_creditId = [], bg_submitting = False, bg_result = None, bg_error = None\<rparr>"

definition submitBridgeOut :: "'s transport \<Rightarrow> (bridge_out_form, 's, unit) handler" where
  "submitBridgeOut T = bindE here (\<lambda>p.
     seqE (setState (\<lambda>p. p\<lparr>bg_submitting := True, bg_error := None, bg_result := None\<rparr>))
    (tryE
      (bindE (send T (webRecords (WBridgeOut (stringToNumber (bg_creditId p))))) (\<lambda>r.
       setState (\<lambda>p. p\<lparr>bg_result := Some r\<rparr>)))
      (\<lambda>e. setState (\<lambda>p. p\<lparr>bg_error := Some (messageOf e)\<rparr>))
      (setState (\<lambda>p. p\<lparr>bg_submitting := False\<rparr>))))"

datatype bridge_out_event = BoEnter string | BoSubmit | BoAnother

fun bridgeOutAct :: "'s transport \<Rightarrow> bridge_out_event \<Rightarrow> (bridge_out_form, 's, unit) handler" where
  "bridgeOutAct T (BoEnter v) = setState (\<lambda>p. p\<lparr>bg_creditId := v\<rparr>)"
| "bridgeOutAct T BoSubmit = submitBridgeOut T"
| "bridgeOutAct T BoAnother = setState (\<lambda>p. p\<lparr>bg_result := None\<rparr>)"

record roots_tab =
  rb_roots :: "(string \<times> jsval) list"
  rb_selected :: string
  rb_newRoot :: string
  rb_blockHeight :: string
  rb_publishing :: bool
  rb_loading :: bool
  rb_error :: "string option"
  rb_published :: "string option"

definition newRootsTab :: roots_tab where
  "newRootsTab = \<lparr>rb_roots = [], rb_selected = ''VERRA'', rb_newRoot = [], rb_blockHeight = [],
     rb_publishing = False, rb_loading = True, rb_error = None, rb_published = None\<rparr>"

text \<open>A registry without an answer has no entry; a null answer counts as none.\<close>

definition fetchRootOf :: "'s transport \<Rightarrow> string \<Rightarrow> ('p, 's, string \<times> jsval) handler" where
  "fetchRootOf T r = bindE (caught (send T (webRecords (WRoot r))) JNull) (\<lambda>v. ret (r, v))"

definition loadRoots :: "'s transport \<Rightarrow> (roots_tab, 's, unit) handler" where
  "loadRoots T =
     seqE (setState (\<lambda>p. p\<lparr>rb_loading := True\<rparr>))
    (tryE
      (bindE (mapE (fetchRootOf T) REGISTRIES) (\<lambda>entries.
       setState (\<lambda>p. p\<lparr>rb_roots := filter (\<lambda>(_, v). truthy v) entries\<rparr>)))
      (\<lambda>_. setState (\<lambda>p. p\<lparr>rb_error := Some ''Failed to load registry roots.''\<rparr>))
      (setState (\<lambda>p. p\<lparr>rb_loading := False\<rparr>)))"

definition handlePublish :: "'s transport \<Rightarrow> (roots_tab, 's, unit) handler" where
  "handlePublish T = bindE here (\<lambda>p.
     seqE (setState (\<lambda>p. p\<lparr>rb_publishing := True, rb_error := None, rb_published := None\<rparr>))
    (tryE
      (seqE (send T (webRecords (WPublishRoot (rb_selected p) (JObj [
           (''root'', JStr (rb_newRoot p)), (''blockHeight'', typedNumber (rb_blockHeight p))]))))
      (seqE (setState (\<lambda>q. q\<lparr>rb_published := Some (''Root published for '' @ rb_selected p),
           rb_newRoot := [], rb_blockHeight := []\<rparr>))
        (loadRoots T)))
      (\<lambda>e. setState (\<lambda>p. p\<lparr>rb_error := Some (messageOf e)\<rparr>))
      (setState (\<lambda>p. p\<lparr>rb_publishing := False\<rparr>))))"

datatype roots_event = RbLoad | RbSelect string | RbRoot string | RbHeight string | RbPublish

fun rootsAct :: "'s transport \<Rightarrow> roots_event \<Rightarrow> (roots_tab, 's, unit) handler" where
  "rootsAct T RbLoad = loadRoots T"
| "rootsAct T (RbSelect r) = setState (\<lambda>p. p\<lparr>rb_selected := r\<rparr>)"
| "rootsAct T (RbRoot v) = setState (\<lambda>p. p\<lparr>rb_newRoot := v\<rparr>)"
| "rootsAct T (RbHeight v) = setState (\<lambda>p. p\<lparr>rb_blockHeight := v\<rparr>)"
| "rootsAct T RbPublish = handlePublish T"

definition publishDisabled :: "roots_tab \<Rightarrow> bool" where
  "publishDisabled p \<longleftrightarrow> rb_publishing p \<or> rb_newRoot p = [] \<or> rb_blockHeight p = []"

section \<open>The webhooks page\<close>

definition EVENT_TYPES :: "string list" where
  "EVENT_TYPES = [''credit.submitted'', ''credit.approved'', ''credit.minted'', ''credit.rejected'',
     ''credit.retired'', ''marketplace.offer.created'', ''marketplace.offer.cancelled'',
     ''marketplace.offer.filled'', ''verifier.registered'']"

record webhooks_page =
  wp_webhooks :: "jsval list"
  wp_deliveries :: "jsval list"
  wp_loading :: bool
  wp_url :: string
  wp_events :: "string list"
  wp_creating :: bool
  wp_error :: "string option"

definition newWebhooksPage :: webhooks_page where
  "newWebhooksPage = \<lparr>wp_webhooks = [], wp_deliveries = [], wp_loading = True, wp_url = [],
     wp_events = EVENT_TYPES, wp_creating = False, wp_error = None\<rparr>"

definition refreshHooks :: "'s transport \<Rightarrow> (webhooks_page, 's, unit) handler" where
  "refreshHooks T = tryE
     (bindE (bothE (send T (webAccount WListWebhooks))
        (send T (webAccount (WDeliveries (JNum (ofInt 50)))))) (\<lambda>(hooks, dels).
      setState (\<lambda>p. p\<lparr>wp_webhooks := elems hooks, wp_deliveries := elems dels\<rparr>)))
     (\<lambda>_. setState (\<lambda>p. p\<lparr>wp_error :=
        Some ''Failed to load webhooks. Check that you are connected and authenticated.''\<rparr>))
     (setState (\<lambda>p. p\<lparr>wp_loading := False\<rparr>))"

definition openWebhooks ::
  "wallet_info option \<Rightarrow> 's transport \<Rightarrow> (webhooks_page, 's, unit) handler" where
  "openWebhooks w T = (if walletKey w \<noteq> None then refreshHooks T
     else setState (\<lambda>p. p\<lparr>wp_loading := False\<rparr>))"

definition handleCreate :: "'s transport \<Rightarrow> (webhooks_page, 's, unit) handler" where
  "handleCreate T = bindE here (\<lambda>p.
     if trim (wp_url p) = [] then setState (\<lambda>p. p\<lparr>wp_error := Some ''A callback URL is required.''\<rparr>)
     else if wp_events p = []
     then setState (\<lambda>p. p\<lparr>wp_error := Some ''Select at least one event to subscribe to.''\<rparr>)
     else seqE (setState (\<lambda>p. p\<lparr>wp_creating := True, wp_error := None\<rparr>))
      (tryE
        (seqE (send T (webAccount (WCreateWebhook (JObj [(''url'', JStr (trim (wp_url p))),
             (''events'', JArr (map JStr (wp_events p)))]))))
        (seqE (setState (\<lambda>p. p\<lparr>wp_url := [], wp_events := EVENT_TYPES\<rparr>)) (refreshHooks T)))
        (\<lambda>_. setState (\<lambda>p. p\<lparr>wp_error := Some ''Failed to register webhook.''\<rparr>))
        (setState (\<lambda>p. p\<lparr>wp_creating := False\<rparr>))))"

definition handleDelete :: "'s transport \<Rightarrow> string \<Rightarrow> (webhooks_page, 's, unit) handler" where
  "handleDelete T i =
     seqE (setState (\<lambda>p. p\<lparr>wp_error := None\<rparr>))
    (catchE
      (seqE (send T (webAccount (WDeleteWebhook i)))
        (setState (\<lambda>p. p\<lparr>wp_webhooks := filter (\<lambda>h. getProp h ''id'' \<noteq> JStr i) (wp_webhooks p)\<rparr>)))
      (\<lambda>_. setState (\<lambda>p. p\<lparr>wp_error := Some ''Failed to delete webhook.''\<rparr>)))"

definition handleTest :: "'s transport \<Rightarrow> string \<Rightarrow> (webhooks_page, 's, unit) handler" where
  "handleTest T i =
     seqE (setState (\<lambda>p. p\<lparr>wp_error := None\<rparr>))
    (catchE (seqE (send T (webAccount (WTestWebhook i))) (refreshHooks T))
      (\<lambda>_. setState (\<lambda>p. p\<lparr>wp_error := Some ''Failed to send test delivery.''\<rparr>)))"

datatype webhooks_event =
    WpOpen | WpUrl string | WpToggle string | WpCreate | WpDelete string | WpTest string

fun webhooksAct ::
  "wallet_info option \<Rightarrow> 's transport \<Rightarrow> webhooks_event \<Rightarrow> (webhooks_page, 's, unit) handler" where
  "webhooksAct w T WpOpen = openWebhooks w T"
| "webhooksAct w T (WpUrl s) = setState (\<lambda>p. p\<lparr>wp_url := s\<rparr>)"
| "webhooksAct w T (WpToggle e) = setState (\<lambda>p. p\<lparr>wp_events := toggle e (wp_events p)\<rparr>)"
| "webhooksAct w T WpCreate = handleCreate T"
| "webhooksAct w T (WpDelete i) = handleDelete T i"
| "webhooksAct w T (WpTest i) = handleTest T i"

section \<open>The reporting page\<close>

record reporting_page =
  rq_report :: "jsval option"
  rq_year :: string
  rq_loading :: bool
  rq_error :: "string option"
  rq_downloads :: "(string \<times> string) list"

text \<open>The year as a query value: all years send none.\<close>

definition yearArg :: "string \<Rightarrow> jsval" where
  "yearArg y = (if y = ''all'' then JUndef else typedNumber y)"

definition loadReport ::
  "wallet_info option \<Rightarrow> 's transport \<Rightarrow> (reporting_page, 's, unit) handler" where
  "loadReport w T = (if walletKey w = None then setState (\<lambda>p. p\<lparr>rq_loading := False\<rparr>)
     else bindE here (\<lambda>p.
       seqE (setState (\<lambda>p. p\<lparr>rq_loading := True, rq_error := None\<rparr>))
      (tryE
        (bindE (send T (webRecords (WScope3 (yearArg (rq_year p))))) (\<lambda>d.
         setState (\<lambda>p. p\<lparr>rq_report := Some d\<rparr>)))
        (\<lambda>e. setState (\<lambda>p. p\<lparr>rq_error := Some (messageOf e), rq_report := None\<rparr>))
        (setState (\<lambda>p. p\<lparr>rq_loading := False\<rparr>)))))"

text \<open>A download is the name of the file and its content; the service answers the CSV as text.\<close>

definition downloadCsv :: "'s transport \<Rightarrow> (reporting_page, 's, unit) handler" where
  "downloadCsv T = bindE here (\<lambda>p.
     bindE (send T (webRecords (WScope3Csv (yearArg (rq_year p))))) (\<lambda>csv.
     setState (\<lambda>q. q\<lparr>rq_downloads := rq_downloads q @
       [(''scope3-'' @ rq_year p @ ''.csv'', jsString csv)]\<rparr>)))"

text \<open>\<open>JSON.stringify(v, null, 2)\<close>: one property or element per line, two spaces per level.\<close>

definition jsonBlock :: "string \<Rightarrow> string \<Rightarrow> nat \<Rightarrow> string list \<Rightarrow> string" where
  "jsonBlock l r k es = (if es = [] then l @ r else l @ [CHR 0x0A] @
     joinWith ('','' @ [CHR 0x0A]) (map (\<lambda>e. replicate (2 * Suc k) (CHR '' '') @ e) es) @
     [CHR 0x0A] @ replicate (2 * k) (CHR '' '') @ r)"

primrec jsonPretty :: "jsval \<Rightarrow> nat \<Rightarrow> string option" where
  "jsonPretty JUndef = (\<lambda>k. None)"
| "jsonPretty JNull = (\<lambda>k. Some ''null'')"
| "jsonPretty (JBool b) = (\<lambda>k. Some (if b then ''true'' else ''false''))"
| "jsonPretty (JNum x) = (\<lambda>k. Some (if isFinite x then num_to_string x else ''null''))"
| "jsonPretty (JBig n) = (\<lambda>k. None)"
| "jsonPretty (JStr s) = (\<lambda>k. Some (quoteJson s))"
| "jsonPretty (JBuf bs) = (\<lambda>k. Some (jsonBlock ''{'' ''}'' k
     [quoteJson ''type'' @ '': '' @ quoteJson ''Buffer'',
      quoteJson ''data'' @ '': '' @ jsonBlock ''['' '']'' (Suc k) (map (\<lambda>b. showNat (unat b)) bs)]))"
| "jsonPretty (JArr vs) = (\<lambda>k. Some (jsonBlock ''['' '']'' k
     (map (\<lambda>r. case r of None \<Rightarrow> ''null'' | Some t \<Rightarrow> t) (map (\<lambda>f. f (Suc k)) (map jsonPretty vs)))))"
| "jsonPretty (JObj kvs) = (\<lambda>k. Some (jsonBlock ''{'' ''}'' k (List.map_filter
     (\<lambda>(key, f). map_option (\<lambda>t. quoteJson key @ '': '' @ t) (f (Suc k)))
     (map (map_prod id jsonPretty) kvs))))"

definition downloadJson :: "(reporting_page, 's, unit) handler" where
  "downloadJson = bindE here (\<lambda>p. (case rq_report p of
     None \<Rightarrow> ret ()
   | Some v \<Rightarrow> whenE (truthy v) (setState (\<lambda>q. q\<lparr>rq_downloads := rq_downloads q @
       [(''scope3-'' @ rq_year p @ ''.json'', the (jsonPretty v 0))]\<rparr>))))"

definition newReportingPage :: reporting_page where
  "newReportingPage = \<lparr>rq_report = None, rq_year = ''all'', rq_loading = True, rq_error = None,
     rq_downloads = []\<rparr>"

datatype reporting_event = RqLoad | RqYear string | RqCsv | RqJson

fun reportingAct ::
  "wallet_info option \<Rightarrow> 's transport \<Rightarrow> reporting_event \<Rightarrow> (reporting_page, 's, unit) handler" where
  "reportingAct w T RqLoad = loadReport w T"
| "reportingAct w T (RqYear y) = seqE (setState (\<lambda>p. p\<lparr>rq_year := y\<rparr>)) (loadReport w T)"
| "reportingAct w T RqCsv = downloadCsv T"
| "reportingAct w T RqJson = downloadJson"

section \<open>Certificates\<close>

record certificate_page =
  cp_certificate :: "jsval option"
  cp_loading :: bool
  cp_verifying :: bool
  cp_result :: "(bool \<times> string) option"

definition loadCertificate :: "'s transport \<Rightarrow> string \<Rightarrow> (certificate_page, 's, unit) handler" where
  "loadCertificate T i = tryE
     (bindE (send T (webRecords (WCertificate i))) (\<lambda>c. setState (\<lambda>p. p\<lparr>cp_certificate := Some c\<rparr>)))
     (\<lambda>_. ret ()) (setState (\<lambda>p. p\<lparr>cp_loading := False\<rparr>))"

definition certificateHashOf :: "jsval option \<Rightarrow> string option" where
  "certificateHashOf c = (case c of None \<Rightarrow> None
     | Some v \<Rightarrow> (let h = getProp v ''certificateHash'' in if truthy h then Some (jsString h) else None))"

definition handleVerify :: "'s transport \<Rightarrow> (certificate_page, 's, unit) handler" where
  "handleVerify T = bindE here (\<lambda>p. (case certificateHashOf (cp_certificate p) of
     None \<Rightarrow> ret ()
   | Some h \<Rightarrow>
       seqE (setState (\<lambda>p. p\<lparr>cp_verifying := True, cp_result := None\<rparr>))
      (tryE
        (bindE (send T (webRecords (WVerify h))) (\<lambda>_. setState (\<lambda>p. p\<lparr>cp_result := Some (True,
          ''Certificate hash verified on-chain. The retirement is recorded on the Stellar blockchain.'')\<rparr>)))
        (\<lambda>_. setState (\<lambda>p. p\<lparr>cp_result := Some (False,
          ''Verification failed. The certificate hash could not be found on-chain.'')\<rparr>))
        (setState (\<lambda>p. p\<lparr>cp_verifying := False\<rparr>)))))"

definition newCertificatePage :: certificate_page where
  "newCertificatePage = \<lparr>cp_certificate = None, cp_loading = True, cp_verifying = False,
     cp_result = None\<rparr>"

datatype certificate_event = CpLoad string | CpVerify

fun certificateAct :: "'s transport \<Rightarrow> certificate_event \<Rightarrow> (certificate_page, 's, unit) handler" where
  "certificateAct T (CpLoad i) = loadCertificate T i"
| "certificateAct T CpVerify = handleVerify T"

text \<open>The address that \<open>components/certificate-preview\<close> shares.\<close>

definition shareUrl :: "string option \<Rightarrow> jsval \<Rightarrow> string" where
  "shareUrl origin c = (case origin of None \<Rightarrow> []
     | Some base \<Rightarrow> base @ ''/certificates/'' @ jsString (getProp c ''id''))"

section \<open>Lists of credits\<close>

record credits_page =
  cs_credits :: "jsval list"
  cs_loading :: bool
  cs_total :: jsnum
  cs_page :: int
  cs_status :: "string option"
  cs_search :: string

definition pageLimit :: int where
  "pageLimit = 12"

definition newCreditsPage :: credits_page where
  "newCreditsPage = \<lparr>cs_credits = [], cs_loading = True, cs_total = ofInt 0, cs_page = 1,
     cs_status = None, cs_search = []\<rparr>"

definition creditParams :: "credits_page \<Rightarrow> (string \<times> jsval) list" where
  "creditParams p = (case cs_status p of None \<Rightarrow> [] | Some s \<Rightarrow> [(''status'', JStr s)]) @
     [(''limit'', JStr (showInt pageLimit)), (''page'', JStr (showInt (cs_page p)))] @
     (if cs_search p \<noteq> [] then [(''methodology'', JStr (cs_search p))] else [])"

definition fetchCredits :: "'s transport \<Rightarrow> (credits_page, 's, unit) handler" where
  "fetchCredits T = bindE here (\<lambda>p.
     seqE (setState (\<lambda>p. p\<lparr>cs_loading := True\<rparr>))
    (tryE
      (bindE (send T (webCredits (WCredits (creditParams p)))) (\<lambda>res.
       setState (\<lambda>p. p\<lparr>cs_credits := elems (getProp res ''data''),
         cs_total := numProp (getProp res ''meta'') ''total''\<rparr>)))
      (\<lambda>_. ret ()) (setState (\<lambda>p. p\<lparr>cs_loading := False\<rparr>))))"

datatype credits_event = CsLoad | CsSearch string | CsStatus string | CsPrevious | CsNext

text \<open>A change of the search, the status or the page runs the effect that reads the credits again.\<close>

fun creditsAct :: "'s transport \<Rightarrow> credits_event \<Rightarrow> (credits_page, 's, unit) handler" where
  "creditsAct T CsLoad = fetchCredits T"
| "creditsAct T (CsSearch s) = seqE (setState (\<lambda>p. p\<lparr>cs_search := s\<rparr>)) (fetchCredits T)"
| "creditsAct T (CsStatus s) = seqE (setState (\<lambda>p. p\<lparr>cs_status :=
     (if s = ''all'' then None else Some s)\<rparr>)) (fetchCredits T)"
| "creditsAct T CsPrevious = seqE (setState (\<lambda>p. p\<lparr>cs_page := cs_page p - 1\<rparr>)) (fetchCredits T)"
| "creditsAct T CsNext = seqE (setState (\<lambda>p. p\<lparr>cs_page := cs_page p + 1\<rparr>)) (fetchCredits T)"

definition totalPages :: "credits_page \<Rightarrow> jsnum" where
  "totalPages p = num_neg (num_floor (num_neg (num_div (cs_total p) (ofInt pageLimit))))"

definition previousDisabled :: "credits_page \<Rightarrow> bool" where
  "previousDisabled p \<longleftrightarrow> cs_page p \<le> 1"

definition nextDisabled :: "credits_page \<Rightarrow> bool" where
  "nextDisabled p \<longleftrightarrow> num_le (totalPages p) (ofInt (cs_page p))"

text \<open>\<open>app/credits/[id]\<close>, and the lists of \<open>featured-projects\<close> and \<open>retirements-feed\<close>.\<close>

record 'a loaded =
  ld_value :: 'a
  ld_loading :: bool

definition loadWith :: "('a loaded, 's, 'b) handler \<Rightarrow> ('b \<Rightarrow> 'a) \<Rightarrow> ('a loaded, 's, unit) handler"
where
  "loadWith m f = tryE (bindE m (\<lambda>d. setState (\<lambda>p. p\<lparr>ld_value := f d\<rparr>)))
     (\<lambda>_. ret ()) (setState (\<lambda>p. p\<lparr>ld_loading := False\<rparr>))"

definition loadCreditDetail :: "'s transport \<Rightarrow> string \<Rightarrow> (jsval option loaded, 's, unit) handler" where
  "loadCreditDetail T i = loadWith (send T (webCredits (WCredit (stringToNumber i)))) Some"

definition loadFeatured :: "'s transport \<Rightarrow> (jsval list loaded, 's, unit) handler" where
  "loadFeatured T = loadWith (send T (webCredits (WCredits [(''status'', JStr ''ACTIVE''),
     (''limit'', JStr ''6''), (''sort'', JStr ''created_desc'')]))) (\<lambda>d. elems (getProp d ''data''))"

definition loadRetirements :: "'s transport \<Rightarrow> (jsval list loaded, 's, unit) handler" where
  "loadRetirements T = loadWith (send T (webCredits (WCredits [(''status'', JStr ''RETIRED''),
     (''limit'', JStr ''5''), (''sort'', JStr ''created_desc'')]))) (\<lambda>d. elems (getProp d ''data''))"

text \<open>\<open>components/stats-cards\<close>.\<close>

definition defaultStats :: protocol_stats where
  "defaultStats = \<lparr>ps_totalCredits = JNum (ofInt 0), ps_totalTonnesRetired = 0,
     ps_activeVerifiers = 0, ps_totalOffers = 0\<rparr>"

definition loadStatsCards :: "'s transport \<Rightarrow> (protocol_stats loaded, 's, unit) handler" where
  "loadStatsCards T = loadWith (getProtocolStats T) (\<lambda>st. st)"

definition loadProvenance :: "'s transport \<Rightarrow> jsnum \<Rightarrow> (jsval list loaded, 's, unit) handler" where
  "loadProvenance T n = tryE
     (bindE (send T (webCredits (WProvenance n))) (\<lambda>d. setState (\<lambda>p. p\<lparr>ld_value := elems d\<rparr>)))
     (\<lambda>_. setState (\<lambda>p. p\<lparr>ld_value := []\<rparr>)) (setState (\<lambda>p. p\<lparr>ld_loading := False\<rparr>))"

definition eventLabel :: "string \<Rightarrow> string" where
  "eventLabel t = (case map_of [(''SUBMITTED'', ''Issued''), (''APPROVED'', ''Approved''),
     (''REJECTED'', ''Rejected''), (''MINTED'', ''Minted''), (''TRANSFERRED'', ''Transferred''),
     (''RETIRED'', ''Retired'')] t of Some l \<Rightarrow> l | None \<Rightarrow> t)"

text \<open>The variant of a status badge.\<close>

definition statusColors :: "string \<Rightarrow> string option" where
  "statusColors = map_of [(''PENDING'', ''outline''), (''ACTIVE'', ''default''),
     (''RETIRED'', ''secondary''), (''REJECTED'', ''destructive'')]"

definition isActiveLink :: "string \<Rightarrow> string \<Rightarrow> bool" where
  "isActiveLink pathname href \<longleftrightarrow> pathname = href \<or> href \<noteq> ''/'' \<and> isPrefixStr href pathname"

section \<open>No page stays busy\<close>


interpretation bridgeInPage: web_page "\<lambda>p. \<not> bf_submitting p" "bridgeInAct T" for T :: "'s transport"
proof
  fix e
  have "\<not> bf_submitting (enterField f v p) \<longleftrightarrow> \<not> bf_submitting p" for f v p by (cases f) simp_all
  moreover have "keepsState (\<lambda>p. \<not> bf_submitting p) (submitBridgeIn T)"
    unfolding submitBridgeIn_def
    by (intro act_intros keepsState_try_bracket [where j = "\<lambda>p. True"]) simp_all
  ultimately show "keepsState (\<lambda>p. \<not> bf_submitting p) (bridgeInAct T e)"
    by (cases e) (auto intro!: act_intros)
qed

interpretation bridgeOutPage: web_page "\<lambda>p. \<not> bg_submitting p" "bridgeOutAct T" for T :: "'s transport"
proof
  fix e
  have "keepsState (\<lambda>p. \<not> bg_submitting p) (submitBridgeOut T)"
    unfolding submitBridgeOut_def
    by (intro act_intros keepsState_try_bracket [where j = "\<lambda>p. True"]) simp_all
  then show "keepsState (\<lambda>p. \<not> bg_submitting p) (bridgeOutAct T e)"
    by (cases e) (auto intro!: act_intros)
qed

lemma loadRoots_keeps:
  "(\<And>p v. q (p\<lparr>rb_roots := v\<rparr>) = q p) \<Longrightarrow> (\<And>p v. q (p\<lparr>rb_loading := v\<rparr>) = q p) \<Longrightarrow>
   (\<And>p v. q (p\<lparr>rb_error := v\<rparr>) = q p) \<Longrightarrow> keepsState q (loadRoots T)"
  unfolding loadRoots_def fetchRootOf_def by (intro act_intros) simp_all

interpretation rootsPage: web_page "\<lambda>p. \<not> rb_publishing p" "rootsAct T" for T :: "'s transport"
proof
  fix e
  have "keepsState (\<lambda>p. \<not> rb_publishing p) (handlePublish T)"
    unfolding handlePublish_def
    by (intro act_intros keepsState_try_bracket [where j = "\<lambda>p. True"] loadRoots_keeps) simp_all
  then show "keepsState (\<lambda>p. \<not> rb_publishing p) (rootsAct T e)"
    by (cases e) (auto intro!: act_intros loadRoots_keeps)
qed

lemma refreshHooks_keeps:
  "(\<And>p v u. q (p\<lparr>wp_webhooks := v, wp_deliveries := u\<rparr>) = q p) \<Longrightarrow>
   (\<And>p v. q (p\<lparr>wp_error := v\<rparr>) = q p) \<Longrightarrow> (\<And>p v. q (p\<lparr>wp_loading := v\<rparr>) = q p) \<Longrightarrow>
   keepsState q (refreshHooks T)"
  unfolding refreshHooks_def by (intro act_intros) simp_all

interpretation webhooksPage: web_page "\<lambda>p. \<not> wp_creating p" "webhooksAct w T"
  for w :: "wallet_info option" and T :: "'s transport"
proof
  fix e
  have "keepsState (\<lambda>p. \<not> wp_creating p) (handleCreate T)"
    unfolding handleCreate_def
    by (intro act_intros keepsState_try_bracket [where j = "\<lambda>p. True"] refreshHooks_keeps) simp_all
  then show "keepsState (\<lambda>p. \<not> wp_creating p) (webhooksAct w T e)"
    by (cases e) (auto simp: openWebhooks_def handleDelete_def handleTest_def
        intro!: act_intros refreshHooks_keeps)
qed

interpretation certificatePage: web_page "\<lambda>p. \<not> cp_verifying p" "certificateAct T"
  for T :: "'s transport"
proof
  fix e
  have "keepsState (\<lambda>p. \<not> cp_verifying p) (handleVerify T)"
    unfolding handleVerify_def
    by (intro act_intros keepsState_try_bracket [where j = "\<lambda>p. True"]) simp_all
  then show "keepsState (\<lambda>p. \<not> cp_verifying p) (certificateAct T e)"
    by (cases e) (auto simp: loadCertificate_def intro!: act_intros)
qed

text \<open>
  C38. No sequence of events on a page, with any wallet and any service, failing ones
  included, leaves a flag set that disables its buttons: buying and cancelling on the order book,
  creating an offer, retiring, saving and slashing on the administration page, deciding and the
  heartbeat on the verifier page, both directions of the bridge, publishing a root, creating a
  webhook, and verifying a certificate.
\<close>

theorem pages_idle:
  "orderbookIdle (fst (runEvents (orderbookAct T) es1 (newOrderbook, b))) \<and>
   \<not> mp_creating (fst (runEvents (marketAct w T) es2 (newMarketPage, b))) \<and>
   \<not> rp_retiring (fst (runEvents (retireAct E w T) es3 (newRetirePage, b))) \<and>
   adminIdle (fst (runEvents (adminAct T) es4 (newAdminPage, b))) \<and>
   verifierIdle (fst (runEvents (verifierAct N T) es5 (newVerifierPage, b))) \<and>
   \<not> bf_submitting (fst (runEvents (bridgeInAct T) es6 (newBridgeInForm, b))) \<and>
   \<not> bg_submitting (fst (runEvents (bridgeOutAct T) es7 (newBridgeOutForm, b))) \<and>
   \<not> rb_publishing (fst (runEvents (rootsAct T) es8 (newRootsTab, b))) \<and>
   \<not> wp_creating (fst (runEvents (webhooksAct w T) es9 (newWebhooksPage, b))) \<and>
   \<not> cp_verifying (fst (runEvents (certificateAct T) es10 (newCertificatePage, b)))"
  by (intro conjI orderbookPage.runs_idle marketPage.runs_idle retirePage.runs_idle
      adminPage.runs_idle verifierPage.runs_idle bridgeInPage.runs_idle bridgeOutPage.runs_idle
      rootsPage.runs_idle webhooksPage.runs_idle certificatePage.runs_idle)
    (simp_all add: newOrderbook_def orderbookIdle_def newMarketPage_def newRetirePage_def newAdminPage_def
      adminIdle_def newVerifierPage_def verifierIdle_def newBridgeInForm_def newBridgeOutForm_def
      newRootsTab_def newWebhooksPage_def newCertificatePage_def)

section \<open>What the pages do not say\<close>

text \<open>Every answer of the check counts as a verified certificate, also one that says it is invalid.\<close>

lemma certificate_any_answer:
  assumes "certificateHashOf (cp_certificate p) = Some h"
    and "T (bearerHeader (br_token b)) (webRecords (WVerify h)) (br_server b) = (Inr answer, s)"
  shows "map_option fst (cp_result (fst (snd (handleVerify T (p, b))))) = Some True"
  using assms by (simp add: handleVerify_def handler_simps del: webRecords.simps)

text \<open>A service without the certificate answers that it is not valid; it does not fail.\<close>

lemma certificate_unknown:
  "certificateByHash w h = None \<Longrightarrow> \<exists>v. verifyCertificate E w h = Inr v \<and> \<not> vr_valid v"
  by (simp add: verifyCertificate_def)

text \<open>A new search or status reads the page number of before.\<close>

lemma credits_page_kept:
  "cs_page (fst (snd (creditsAct T (CsSearch s) (p, b)))) = cs_page p"
  "cs_page (fst (snd (creditsAct T (CsStatus t) (p, b)))) = cs_page p"
  by (auto simp: fetchCredits_def handler_simps split: prod.split sum.split)

end
