(* ===== verification/ApiTypes.thy ===== *)
theory ApiTypes
  imports JsText
begin

text \<open>
  The types the two clients declare for what they send and receive: \<open>sdk/src/types.ts\<close> and the
  front end's \<open>types/index.ts\<close>.  A type is data, so that a value can be tested against it and two
  types can be compared; \<open>conforms\<close> is the test.  The compiler erases these declarations, so
  nothing tests an answer at run time: whether the service's answers have the declared types is
  what the theory \<open>Payloads\<close> is about, and whether a value of a declared input type passes the
  service's validation is what the theory \<open>Validation\<close> is about.

  The values are those that travel as JSON.  A number is a finite one, since JSON writes \<open>NaN\<close> and
  the infinities as \<open>null\<close>.  A missing property reads as \<open>undefined\<close>.  The flag of \<open>conforms\<close> says
  how an optional property is read: strictly (the property is missing or has the type), or
  leniently, where \<open>null\<close> counts as missing too.  The clients only ever test optional properties
  for truth or with \<open>??\<close> and \<open>?.\<close>, which is the lenient reading.
\<close>

section \<open>Types and their values\<close>

datatype ty =
    TString | TNumber | TBool | TNull | TUndef | TUnknown | TLit "string list" | TArr ty | TRecord ty
  | TObj "field list" | TOr ty ty | TAnd ty ty
and field = Req string ty | Opt string ty

fun conforms :: "bool \<Rightarrow> ty \<Rightarrow> jsval \<Rightarrow> bool"
  and hasFields :: "bool \<Rightarrow> field list \<Rightarrow> jsval \<Rightarrow> bool"
  and hasField :: "bool \<Rightarrow> field \<Rightarrow> jsval \<Rightarrow> bool" where
  "conforms l TString v = (case v of JStr s \<Rightarrow> True | _ \<Rightarrow> False)"
| "conforms l TNumber v = (case v of JNum x \<Rightarrow> isFinite x | _ \<Rightarrow> False)"
| "conforms l TBool v = (case v of JBool b \<Rightarrow> True | _ \<Rightarrow> False)"
| "conforms l TNull v = (v = JNull)"
| "conforms l TUndef v = (v = JUndef)"
| "conforms l TUnknown v = True"
| "conforms l (TLit ss) v = (case v of JStr s \<Rightarrow> s \<in> set ss | _ \<Rightarrow> False)"
| "conforms l (TArr T) v = (case v of JArr vs \<Rightarrow> list_all (conforms l T) vs | _ \<Rightarrow> False)"
| "conforms l (TRecord T) v =
     (case v of JObj kvs \<Rightarrow> list_all (\<lambda>kv. conforms l T (snd kv)) kvs | _ \<Rightarrow> False)"
| "conforms l (TObj fs) v = (case v of JObj kvs \<Rightarrow> hasFields l fs v | _ \<Rightarrow> False)"
| "conforms l (TOr T U) v = (conforms l T v \<or> conforms l U v)"
| "conforms l (TAnd T U) v = (conforms l T v \<and> conforms l U v)"
| "hasFields l [] v = True"
| "hasFields l (f # fs) v = (hasField l f v \<and> hasFields l fs v)"
| "hasField l (Req n T) v = conforms l T (getProp v n)"
| "hasField l (Opt n T) v =
     (getProp v n = JUndef \<or> (l \<and> getProp v n = JNull) \<or> conforms l T (getProp v n))"

text \<open>What has a type strictly has it leniently.\<close>

lemma conforms_lenient:
  "conforms False T v \<Longrightarrow> conforms l T v"
  "hasFields False fs v \<Longrightarrow> hasFields l fs v"
  "hasField False f v \<Longrightarrow> hasField l f v"
  by (induction "False" T v and "False" fs v and "False" f v
      rule: conforms_hasFields_hasField.induct)
    (auto split: jsval.splits simp: list_all_iff)

lemma hasFields_iff: "hasFields l fs v \<longleftrightarrow> (\<forall>f \<in> set fs. hasField l f v)"
  by (induction fs) auto

section \<open>The types of the client library\<close>

definition creditStatusT :: ty where
  "creditStatusT = TLit [''PENDING'', ''ACTIVE'', ''RETIRED'', ''REJECTED'', ''BRIDGED'']"

definition approvalT :: ty where
  "approvalT = TObj [Req ''id'' TString, Req ''creditId'' TString,
     Req ''verifierId'' TString, Req ''approved'' TBool, Opt ''comments'' TString,
     Req ''createdAt'' TString, Req ''verifier'' (TObj [Req ''id'' TString,
     Req ''stellarPub'' TString])]"

definition creditT :: ty where
  "creditT = TObj [Req ''id'' TString, Req ''creditId'' TNumber, Req ''projectId'' TString,
     Req ''methodology'' TString, Req ''vintageStart'' TString, Req ''vintageEnd'' TString,
     Req ''tonnes'' TNumber, Req ''geography'' TString, Req ''serialPrefix'' TString,
     Req ''sdgFlags'' TNumber, Req ''permanenceRating'' TNumber,
     Req ''bufferContributionPct'' TNumber, Req ''additionalityType'' TNumber,
     Req ''ipfsHash'' TString, Req ''status'' creditStatusT, Opt ''tokenId'' TString,
     Req ''createdAt'' TString, Req ''issuer'' (TObj [Req ''id'' TString,
     Req ''stellarPub'' TString]), Req ''owner'' (TObj [Req ''id'' TString,
     Req ''stellarPub'' TString]), Opt ''approvals'' (TArr approvalT),
     Opt ''_count'' (TObj [Req ''approvals'' TNumber, Req ''offers'' TNumber])]"

definition offerStatusT :: ty where
  "offerStatusT = TLit [''ACTIVE'', ''FILLED'', ''CANCELLED'', ''EXPIRED'']"

definition offerT :: ty where
  "offerT = TObj [Req ''id'' TString, Req ''offerId'' TNumber, Req ''creditId'' TString,
     Req ''sellerId'' TString, Req ''pricePerTonne'' TNumber, Req ''amount'' TNumber,
     Req ''amountFilled'' TNumber, Req ''currency'' TString, Req ''status'' offerStatusT,
     Opt ''expiresAt'' TString, Req ''createdAt'' TString,
     Req ''seller'' (TObj [Req ''id'' TString, Req ''stellarPub'' TString]),
     Req ''credit'' (TObj [Req ''creditId'' TNumber, Req ''projectId'' TString,
     Req ''methodology'' TString, Req ''geography'' TString, Req ''tonnes'' TNumber])]"

definition tradeT :: ty where
  "tradeT = TObj [Req ''id'' TString, Req ''offerId'' TString, Req ''buyerId'' TString,
     Req ''amount'' TNumber, Req ''totalPrice'' TNumber, Req ''createdAt'' TString,
     Req ''buyer'' (TObj [Req ''stellarPub'' TString]),
     Req ''credit'' (TObj [Req ''creditId'' TNumber, Req ''projectId'' TString,
     Req ''methodology'' TString])]"

definition retirementT :: ty where
  "retirementT = TObj [Req ''id'' TString, Req ''creditId'' TString,
     Req ''retiredById'' TString, Req ''beneficiary'' TString, Req ''reason'' TString,
     Req ''accountingPeriod'' TString, Req ''tonnesRetired'' TNumber, Req ''txHash'' TString,
     Req ''ledgerSequence'' TNumber, Req ''timestamp'' TString,
     Opt ''certificateHash'' TString, Opt ''credit'' (TObj [Req ''creditId'' TNumber,
     Req ''projectId'' TString, Req ''methodology'' TString, Req ''geography'' TString])]"

definition certificateT :: ty where
  "certificateT = TObj [Req ''id'' TString, Opt ''certificateHash'' TString,
     Opt ''txHash'' TString, Req ''metadata'' (TRecord TUnknown), Opt ''pdfUrl'' TString,
     Req ''createdAt'' TString, Opt ''owner'' TString,
     Opt ''retirement'' (TAnd retirementT (TObj [Req ''credit'' (TObj [Req ''creditId'' TNumber,
     Req ''projectId'' TString, Req ''methodology'' TString, Req ''geography'' TString,
     Req ''vintageStart'' TString, Req ''vintageEnd'' TString, Req ''tonnes'' TNumber,
     Req ''serialPrefix'' TString])]))]"

definition verifierStatusT :: ty where
  "verifierStatusT = TLit [''PENDING'', ''ACTIVE'', ''SLASHED'', ''UNREGISTERED'']"

definition verifierT :: ty where
  "verifierT = TObj [Req ''id'' TString, Req ''userId'' TString,
     Req ''status'' verifierStatusT, Req ''stake'' TNumber, Req ''reputation'' TNumber,
     Opt ''heartbeatAt'' TString, Req ''createdAt'' TString,
     Req ''user'' (TObj [Req ''stellarPub'' TString])]"

definition paginatedResponseT :: "ty \<Rightarrow> ty" where
  "paginatedResponseT T = TObj [Req ''data'' (TArr T),
     Req ''meta'' (TObj [Req ''total'' TNumber, Req ''page'' TNumber, Req ''limit'' TNumber,
     Req ''totalPages'' TNumber])]"

definition marketplaceStatsT :: ty where
  "marketplaceStatsT = TObj [Req ''totalVolume'' TNumber, Req ''vwap'' TNumber,
     Req ''openInterest'' TNumber, Req ''totalListings'' TNumber]"

definition pricePointT :: ty where
  "pricePointT = TObj [Req ''date'' TString, Req ''price'' TNumber, Req ''volume'' TNumber]"

definition protocolStatsT :: ty where
  "protocolStatsT = TObj [Req ''totalCredits'' TNumber, Req ''totalTonnesRetired'' TNumber,
     Req ''activeVerifiers'' TNumber, Req ''totalOffers'' TNumber]"

definition provenanceEventT :: ty where
  "provenanceEventT = TObj [Req ''type'' TString, Req ''timestamp'' TString,
     Req ''actor'' TString]"

definition healthStatusT :: ty where
  "healthStatusT = TObj [Req ''status'' TString, Req ''version'' TString,
     Req ''network'' TString]"

definition createCreditInputT :: ty where
  "createCreditInputT = TObj [Req ''projectId'' TString, Req ''methodology'' TString,
     Req ''vintageStart'' TString, Req ''vintageEnd'' TString, Req ''tonnes'' TNumber,
     Req ''geography'' TString, Opt ''documentation'' (TRecord TString),
     Opt ''sdgCobenefits'' (TArr TNumber), Opt ''permanenceRating'' TNumber,
     Opt ''bufferContributionPct'' TNumber, Opt ''additionalityType'' TNumber]"

definition approveCreditInputT :: ty where
  "approveCreditInputT = TObj [Opt ''comments'' TString]"

definition rejectCreditInputT :: ty where
  "rejectCreditInputT = TObj [Req ''reason'' TString]"

definition createOfferInputT :: ty where
  "createOfferInputT = TObj [Req ''creditId'' TNumber, Req ''pricePerTonne'' TNumber,
     Req ''amount'' TNumber, Req ''currency'' TString, Opt ''expiresAt'' TNumber]"

definition retireCreditInputT :: ty where
  "retireCreditInputT = TObj [Req ''reason'' TString, Req ''beneficiary'' TString,
     Req ''accountingPeriod'' TString, Opt ''tonnesRetired'' TString]"

definition registerVerifierInputT :: ty where
  "registerVerifierInputT = TObj [Req ''stake'' TNumber, Opt ''credentials'' TString]"

definition creditFilterT :: ty where
  "creditFilterT = TObj [Opt ''methodology'' TString, Opt ''geography'' TString,
     Opt ''vintageMin'' TNumber, Opt ''vintageMax'' TNumber, Opt ''status'' TString,
     Opt ''issuer'' TString, Opt ''owner'' TString, Opt ''page'' TNumber,
     Opt ''limit'' TNumber, Opt ''sort'' TString]"

definition marketplaceFilterT :: ty where
  "marketplaceFilterT = TObj [Opt ''methodology'' TString, Opt ''geography'' TString,
     Opt ''maxPrice'' TNumber, Opt ''status'' TString, Opt ''page'' TNumber,
     Opt ''limit'' TNumber]"

definition sdkConfigT :: ty where
  "sdkConfigT = TObj [Opt ''apiUrl'' TString, Opt ''network'' (TLit [''testnet'',
     ''mainnet'', ''futurenet'']), Opt ''adapter'' TUnknown]"

definition tokenResponseT :: ty where
  "tokenResponseT = TObj [Req ''accessToken'' TString, Req ''wallet'' TString]"

definition challengeResponseT :: ty where
  "challengeResponseT = TObj [Req ''challengeId'' TString, Req ''transaction'' TString]"

definition deepHealthCheckT :: ty where
  "deepHealthCheckT = TObj [Req ''name'' TString, Req ''status'' (TLit [''ok'', ''error'']),
     Opt ''detail'' TString]"

definition deepHealthT :: ty where
  "deepHealthT = TObj [Req ''status'' (TLit [''ok'', ''degraded'', ''down'']),
     Req ''checks'' (TArr deepHealthCheckT), Req ''timestamp'' TString]"

definition webhookT :: ty where
  "webhookT = TObj [Req ''id'' TString, Req ''url'' TString, Opt ''secret'' TString,
     Req ''events'' (TArr TString), Req ''active'' TBool, Req ''createdAt'' TString]"

definition webhookDeliveryT :: ty where
  "webhookDeliveryT = TObj [Req ''id'' TString, Req ''webhookId'' TString,
     Req ''eventType'' TString, Req ''payload'' TUnknown, Req ''success'' TBool,
     Req ''attempts'' TNumber, Req ''statusCode'' (TOr TNumber TNull),
     Req ''durationMs'' TNumber, Req ''error'' (TOr TString TNull),
     Req ''createdAt'' TString]"

definition protocolConfigT :: ty where
  "protocolConfigT = TObj [Req ''admin'' TString, Req ''verifierThreshold'' TNumber,
     Req ''verifierQuorum'' TNumber, Req ''approvalWindow'' TNumber,
     Req ''protocolFeeBps'' TNumber, Req ''bufferPoolPct'' TNumber]"

definition systemStatusT :: ty where
  "systemStatusT = TObj [Req ''network'' (TObj [Req ''connected'' TBool,
     Opt ''sequence'' TNumber, Opt ''ledgerHash'' TString]),
     Req ''counts'' (TObj [Req ''users'' TNumber, Req ''credits'' TNumber,
     Req ''verifiers'' TNumber, Req ''offers'' TNumber, Req ''retirements'' TNumber,
     Req ''webhooks'' TNumber])]"

definition scope3LineItemT :: ty where
  "scope3LineItemT = TObj [Req ''retirementId'' TString, Req ''creditId'' TNumber,
     Req ''projectId'' TString, Req ''methodology'' TString, Req ''geography'' TString,
     Req ''vintageStart'' TString, Req ''vintageEnd'' TString, Req ''serialPrefix'' TString,
     Req ''tonnesRetired'' TNumber, Req ''beneficiary'' TString, Req ''reason'' TString,
     Req ''accountingPeriod'' TString, Req ''retirementDate'' TString,
     Req ''txHash'' TString, Req ''ledgerSequence'' TNumber,
     Req ''certificateHash'' (TOr TString TNull)]"

definition scope3BreakdownEntryT :: ty where
  "scope3BreakdownEntryT = TAnd (TObj [Req ''tonnes'' TNumber,
     Req ''retirements'' TNumber]) (TRecord (TOr TString TNumber))"

definition scope3SummaryT :: ty where
  "scope3SummaryT = TObj [Req ''totalTonnesRetired'' TNumber,
     Req ''totalRetirements'' TNumber, Req ''totalCredits'' TNumber,
     Req ''byMethodology'' (TArr scope3BreakdownEntryT),
     Req ''byGeography'' (TArr scope3BreakdownEntryT),
     Req ''byVintage'' (TArr scope3BreakdownEntryT)]"

definition scope3ReportT :: ty where
  "scope3ReportT = TObj [Req ''reportType'' (TLit [''scope3'']),
     Req ''reportingPeriod'' TString, Req ''generatedAt'' TString,
     Req ''account'' (TObj [Req ''wallet'' TString]), Req ''summary'' scope3SummaryT,
     Req ''lineItems'' (TArr scope3LineItemT)]"

definition scope3ReportQueryT :: ty where
  "scope3ReportQueryT = TObj [Opt ''format'' (TLit [''json'', ''csv'']),
     Opt ''year'' TNumber]"

definition bridgeStatusT :: ty where
  "bridgeStatusT = TLit [''INBOUND'', ''OUTBOUND'']"

definition sourceRegistryT :: ty where
  "sourceRegistryT = TLit [''VERRA'', ''GOLD_STANDARD'', ''CDM'', ''ACR'', ''CAR'',
     ''PLAN_VIVO'']"

definition bridgeMetadataT :: ty where
  "bridgeMetadataT = TObj [Req ''projectId'' TString, Req ''methodology'' TString,
     Req ''vintageStart'' TNumber, Req ''vintageEnd'' TNumber, Req ''tonnes'' TNumber,
     Req ''geography'' TString, Req ''serialPrefix'' TString, Opt ''sdgFlags'' TNumber,
     Opt ''permanenceRating'' TNumber, Opt ''bufferContributionPct'' TNumber,
     Opt ''additionalityType'' TNumber, Opt ''ipfsHash'' TString]"

definition bridgeInInputT :: ty where
  "bridgeInInputT = TObj [Req ''sourceRegistry'' sourceRegistryT,
     Req ''sourceSerial'' TString, Req ''leaf'' TString, Req ''merkleProof'' (TArr TString),
     Req ''merkleRoot'' TString, Req ''metadata'' bridgeMetadataT]"

definition bridgeRecordT :: ty where
  "bridgeRecordT = TObj [Req ''id'' TString, Req ''creditId'' TNumber,
     Req ''sourceRegistry'' TString, Req ''sourceSerial'' TString,
     Req ''merkleRoot'' TString, Req ''status'' bridgeStatusT, Req ''txHash'' TString,
     Req ''timestamp'' TString, Opt ''bridger'' (TObj [Req ''id'' TString,
     Req ''stellarPub'' TString])]"

definition registryRootT :: ty where
  "registryRootT = TObj [Req ''registry'' TString, Req ''root'' TString,
     Req ''blockHeight'' TNumber, Req ''updatedAt'' TNumber]"

definition updateRegistryRootInputT :: ty where
  "updateRegistryRootInputT = TObj [Req ''root'' TString, Req ''blockHeight'' TNumber]"

definition updateRegistryRootResultT :: ty where
  "updateRegistryRootResultT = TObj [Req ''registry'' TString, Req ''blockHeight'' TNumber,
     Req ''txHash'' TString]"

definition bridgeRecordFilterT :: ty where
  "bridgeRecordFilterT = TObj [Opt ''registry'' TString, Opt ''status'' bridgeStatusT,
     Opt ''page'' TNumber, Opt ''limit'' TNumber]"

definition revenueBeneficiaryT :: ty where
  "revenueBeneficiaryT = TObj [Req ''address'' TString, Req ''bps'' TNumber]"

definition revenueConfigT :: ty where
  "revenueConfigT = TObj [Req ''projectId'' TString,
     Req ''beneficiaries'' (TArr revenueBeneficiaryT), Req ''protocolFeeBps'' TNumber]"

definition configureRevenueSplitInputT :: ty where
  "configureRevenueSplitInputT = TObj [Req ''beneficiaries'' (TArr revenueBeneficiaryT)]"

definition distributeRevenueSplitInputT :: ty where
  "distributeRevenueSplitInputT = TObj [Req ''asset'' TString, Req ''amount'' TNumber]"

definition configureRevenueSplitResultT :: ty where
  "configureRevenueSplitResultT = TObj [Req ''projectId'' TString, Req ''txHash'' TString]"

definition distributeRevenueSplitResultT :: ty where
  "distributeRevenueSplitResultT = TObj [Req ''projectId'' TString, Req ''asset'' TString,
     Req ''amount'' TNumber, Req ''txHash'' TString]"

section \<open>The types of the front end\<close>

definition webCreditStatusT :: ty where
  "webCreditStatusT = TLit [''PENDING'', ''ACTIVE'', ''RETIRED'', ''REJECTED'', ''BRIDGED'']"

definition webApprovalT :: ty where
  "webApprovalT = TObj [Req ''id'' TString, Req ''creditId'' TString,
     Req ''verifierId'' TString, Req ''approved'' TBool, Opt ''comments'' TString,
     Req ''createdAt'' TString, Req ''verifier'' (TObj [Req ''id'' TString,
     Req ''stellarPub'' TString])]"

definition webCreditT :: ty where
  "webCreditT = TObj [Req ''id'' TString, Req ''creditId'' TNumber,
     Req ''projectId'' TString, Req ''methodology'' TString, Req ''vintageStart'' TString,
     Req ''vintageEnd'' TString, Req ''tonnes'' TNumber, Req ''geography'' TString,
     Req ''serialPrefix'' TString, Req ''sdgFlags'' TNumber,
     Req ''permanenceRating'' TNumber, Req ''bufferContributionPct'' TNumber,
     Req ''additionalityType'' TNumber, Req ''ipfsHash'' TString,
     Req ''status'' webCreditStatusT, Opt ''tokenId'' TString, Req ''createdAt'' TString,
     Req ''issuer'' (TObj [Req ''id'' TString, Req ''stellarPub'' TString]),
     Req ''owner'' (TObj [Req ''id'' TString, Req ''stellarPub'' TString]),
     Opt ''approvals'' (TArr webApprovalT), Opt ''_count'' (TObj [Req ''approvals'' TNumber,
     Req ''offers'' TNumber])]"

definition webOfferStatusT :: ty where
  "webOfferStatusT = TLit [''ACTIVE'', ''FILLED'', ''CANCELLED'', ''EXPIRED'']"

definition webOfferT :: ty where
  "webOfferT = TObj [Req ''id'' TString, Req ''offerId'' TNumber, Req ''creditId'' TString,
     Req ''sellerId'' TString, Req ''pricePerTonne'' TNumber, Req ''amount'' TNumber,
     Req ''amountFilled'' TNumber, Req ''currency'' TString, Req ''status'' webOfferStatusT,
     Opt ''expiresAt'' TString, Req ''createdAt'' TString,
     Req ''seller'' (TObj [Req ''id'' TString, Req ''stellarPub'' TString]),
     Req ''credit'' (TObj [Req ''creditId'' TNumber, Req ''projectId'' TString,
     Req ''methodology'' TString, Req ''geography'' TString, Req ''tonnes'' TNumber])]"

definition webTradeT :: ty where
  "webTradeT = TObj [Req ''id'' TString, Req ''offerId'' TString, Req ''buyerId'' TString,
     Req ''amount'' TNumber, Req ''totalPrice'' TNumber, Req ''createdAt'' TString,
     Req ''buyer'' (TObj [Req ''stellarPub'' TString]),
     Req ''credit'' (TObj [Req ''creditId'' TNumber, Req ''projectId'' TString,
     Req ''methodology'' TString])]"

definition webRetirementT :: ty where
  "webRetirementT = TObj [Req ''id'' TString, Req ''creditId'' TString,
     Req ''retiredById'' TString, Req ''beneficiary'' TString, Req ''reason'' TString,
     Req ''accountingPeriod'' TString, Req ''tonnesRetired'' TNumber, Req ''txHash'' TString,
     Req ''ledgerSequence'' TNumber, Req ''timestamp'' TString,
     Opt ''certificateHash'' TString, Opt ''credit'' (TObj [Req ''creditId'' TNumber,
     Req ''projectId'' TString, Req ''methodology'' TString, Req ''geography'' TString])]"

definition webCertificateT :: ty where
  "webCertificateT = TObj [Req ''id'' TString, Opt ''certificateHash'' TString,
     Opt ''txHash'' TString, Req ''metadata'' (TRecord TUnknown), Opt ''pdfUrl'' TString,
     Req ''createdAt'' TString, Opt ''owner'' TString,
     Opt ''retirement'' (TAnd webRetirementT (TObj [Req ''credit'' (TObj [Req ''creditId'' TNumber,
     Req ''projectId'' TString, Req ''methodology'' TString, Req ''geography'' TString,
     Req ''vintageStart'' TString, Req ''vintageEnd'' TString, Req ''tonnes'' TNumber,
     Req ''serialPrefix'' TString])]))]"

definition webVerifierStatusT :: ty where
  "webVerifierStatusT = TLit [''PENDING'', ''ACTIVE'', ''SLASHED'', ''UNREGISTERED'']"

definition webVerifierT :: ty where
  "webVerifierT = TObj [Req ''id'' TString, Req ''userId'' TString,
     Req ''status'' webVerifierStatusT, Req ''stake'' TNumber, Req ''reputation'' TNumber,
     Opt ''heartbeatAt'' TString, Req ''createdAt'' TString,
     Req ''user'' (TObj [Req ''stellarPub'' TString])]"

definition webPaginatedResponseT :: "ty \<Rightarrow> ty" where
  "webPaginatedResponseT T = TObj [Req ''data'' (TArr T),
     Req ''meta'' (TObj [Req ''total'' TNumber, Req ''page'' TNumber, Req ''limit'' TNumber,
     Req ''totalPages'' TNumber])]"

definition webMarketplaceStatsT :: ty where
  "webMarketplaceStatsT = TObj [Req ''totalVolume'' TNumber, Req ''vwap'' TNumber,
     Req ''openInterest'' TNumber, Req ''totalListings'' TNumber]"

definition webPricePointT :: ty where
  "webPricePointT = TObj [Req ''date'' TString, Req ''price'' TNumber,
     Req ''volume'' TNumber]"

definition webProtocolStatsT :: ty where
  "webProtocolStatsT = TObj [Req ''totalCredits'' TNumber,
     Req ''totalTonnesRetired'' TNumber, Req ''activeVerifiers'' TNumber,
     Req ''totalOffers'' TNumber]"

definition webDeepHealthCheckT :: ty where
  "webDeepHealthCheckT = TObj [Req ''name'' TString, Req ''status'' (TLit [''up'', ''down'',
     ''not_configured'']), Opt ''latencyMs'' TNumber, Opt ''detail'' TString]"

definition webDeepHealthT :: ty where
  "webDeepHealthT = TObj [Req ''status'' (TLit [''ok'', ''degraded'']),
     Req ''checks'' (TArr webDeepHealthCheckT), Req ''timestamp'' TString]"

definition webAuthChallengeT :: ty where
  "webAuthChallengeT = TObj [Req ''challengeId'' TString, Req ''transaction'' TString]"

definition webAuthSessionT :: ty where
  "webAuthSessionT = TObj [Req ''accessToken'' TString, Req ''refreshToken'' TString]"

definition webWebhookT :: ty where
  "webWebhookT = TObj [Req ''id'' TString, Req ''url'' TString, Opt ''secret'' TString,
     Req ''events'' (TArr TString), Req ''active'' TBool, Req ''createdAt'' TString]"

definition webWebhookDeliveryT :: ty where
  "webWebhookDeliveryT = TObj [Req ''id'' TString, Req ''webhookId'' TString,
     Req ''eventType'' TString, Req ''payload'' TUnknown, Req ''success'' TBool,
     Req ''attempts'' TNumber, Req ''statusCode'' (TOr TNumber TNull),
     Req ''durationMs'' TNumber, Req ''error'' (TOr TString TNull),
     Req ''createdAt'' TString]"

definition webProtocolConfigT :: ty where
  "webProtocolConfigT = TObj [Req ''admin'' TString, Req ''verifierThreshold'' TNumber,
     Req ''verifierQuorum'' TNumber, Req ''approvalWindow'' TNumber,
     Req ''protocolFeeBps'' TNumber, Req ''bufferPoolPct'' TNumber]"

definition webAdminContractsT :: ty where
  "webAdminContractsT = TRecord (TOr TString TNull)"

definition webSystemStatusT :: ty where
  "webSystemStatusT = TObj [Req ''network'' (TObj [Req ''connected'' TBool,
     Opt ''sequence'' TNumber, Opt ''ledgerHash'' TString]),
     Req ''counts'' (TObj [Req ''users'' TNumber, Req ''credits'' TNumber,
     Req ''verifiers'' TNumber, Req ''offers'' TNumber, Req ''retirements'' TNumber,
     Req ''webhooks'' TNumber])]"

definition webScope3LineItemT :: ty where
  "webScope3LineItemT = TObj [Req ''retirementId'' TString, Req ''creditId'' TNumber,
     Req ''projectId'' TString, Req ''methodology'' TString, Req ''geography'' TString,
     Req ''vintageStart'' TString, Req ''vintageEnd'' TString, Req ''serialPrefix'' TString,
     Req ''tonnesRetired'' TNumber, Req ''beneficiary'' TString, Req ''reason'' TString,
     Req ''accountingPeriod'' TString, Req ''retirementDate'' TString,
     Req ''txHash'' TString, Req ''ledgerSequence'' TNumber,
     Req ''certificateHash'' (TOr TString TNull)]"

definition webScope3BreakdownEntryT :: ty where
  "webScope3BreakdownEntryT = TAnd (TObj [Req ''tonnes'' TNumber,
     Req ''retirements'' TNumber]) (TRecord (TOr TString TNumber))"

definition webScope3SummaryT :: ty where
  "webScope3SummaryT = TObj [Req ''totalTonnesRetired'' TNumber,
     Req ''totalRetirements'' TNumber, Req ''totalCredits'' TNumber,
     Req ''byMethodology'' (TArr webScope3BreakdownEntryT),
     Req ''byGeography'' (TArr webScope3BreakdownEntryT),
     Req ''byVintage'' (TArr webScope3BreakdownEntryT)]"

definition webScope3ReportT :: ty where
  "webScope3ReportT = TObj [Req ''reportType'' (TLit [''scope3'']),
     Req ''reportingPeriod'' TString, Req ''generatedAt'' TString,
     Req ''account'' (TObj [Req ''wallet'' TString]), Req ''summary'' webScope3SummaryT,
     Req ''lineItems'' (TArr webScope3LineItemT)]"

definition webBridgeStatusT :: ty where
  "webBridgeStatusT = TLit [''INBOUND'', ''OUTBOUND'']"

definition webSourceRegistryT :: ty where
  "webSourceRegistryT = TLit [''VERRA'', ''GOLD_STANDARD'', ''CDM'', ''ACR'', ''CAR'',
     ''PLAN_VIVO'']"

definition webBridgeRecordT :: ty where
  "webBridgeRecordT = TObj [Req ''id'' TString, Req ''creditId'' TNumber,
     Req ''sourceRegistry'' TString, Req ''sourceSerial'' TString,
     Req ''merkleRoot'' TString, Req ''status'' webBridgeStatusT, Req ''txHash'' TString,
     Req ''timestamp'' TString, Opt ''bridger'' (TObj [Req ''id'' TString,
     Req ''stellarPub'' TString])]"

definition webRegistryRootT :: ty where
  "webRegistryRootT = TObj [Req ''registry'' TString, Req ''root'' TString,
     Req ''blockHeight'' TNumber, Req ''updatedAt'' TNumber]"

end
