(* ===== verification/Validation.thy ===== *)
theory Validation
  imports WebTrading WebConsole WebRegistry ApiTypes
begin

text \<open>
  The validation of request bodies and query strings: the \<open>dto\<close> classes of the service, with the
  decorators of each property as data, and the global \<open>ValidationPipe\<close> that \<open>main.ts\<close> installs.

  What one decorator accepts is the business of the package \<open>class-validator\<close>, which is a parameter
  \<open>V\<close>; \<open>documented\<close> states what its documentation promises of the decorators used here.  The pipe
  refuses a body with a property that no decorator names (\<open>forbidNonWhitelisted\<close>), skips an
  \<open>@IsOptional\<close> property that is null or undefined, converts the properties with
  \<open>@Type(() => Number)\<close> and hands on the properties that are named.
\<close>

section \<open>Decorators\<close>

datatype check =
    IsString | IsNotEmpty | IsInt | IsNumber | IsArray | MinValue rat | MaxValue rat
  | MinLength nat | MaxLength nat | IsIn "string list" | IsUrl | ArrayMinSize nat | ArrayUnique

text \<open>A property: its name, whether it is optional, whether it is converted to a number, its rules.\<close>

datatype 'r column = Column string bool bool "'r list"

datatype rule = Is check | Each check | Nested "check column list" | EachNested "check column list"

type_synonym dto = "rule column list"

definition col :: "string \<Rightarrow> check list \<Rightarrow> rule column" where
  "col n cs = Column n False False (map Is cs)"

definition colOpt :: "string \<Rightarrow> check list \<Rightarrow> rule column" where
  "colOpt n cs = Column n True False (map Is cs)"

text \<open>An optional property of a query string with \<open>@Type(() => Number)\<close>.\<close>

definition colNumber :: "string \<Rightarrow> check list \<Rightarrow> rule column" where
  "colNumber n cs = Column n True True (map Is cs)"

section \<open>The classes\<close>

definition CreateCreditDto :: dto where
  "CreateCreditDto = [col ''projectId'' [IsString, IsNotEmpty],
     col ''methodology'' [IsString, IsNotEmpty], col ''vintageStart'' [IsString, IsNotEmpty],
     col ''vintageEnd'' [IsString, IsNotEmpty], col ''tonnes'' [IsNumber, MinValue 1],
     col ''geography'' [IsString, IsNotEmpty, MinLength 2, MaxLength 2],
     colOpt ''documentation'' [],
     Column ''sdgCobenefits'' True False [Is IsArray, Each IsInt],
     colOpt ''permanenceRating'' [IsInt, MinValue 0, MaxValue 100],
     colOpt ''bufferContributionPct'' [IsInt, MinValue 0, MaxValue 20],
     colOpt ''additionalityType'' [IsInt, MinValue 0, MaxValue 2]]"

definition ApproveCreditDto :: dto where
  "ApproveCreditDto = [colOpt ''comments'' [IsString]]"

definition RejectCreditDto :: dto where
  "RejectCreditDto = [col ''reason'' [IsString, IsNotEmpty]]"

definition CreditFilterDto :: dto where
  "CreditFilterDto = [colOpt ''methodology'' [IsString], colOpt ''geography'' [IsString],
     colNumber ''vintageMin'' [IsInt], colNumber ''vintageMax'' [IsInt],
     colOpt ''status'' [IsString], colOpt ''issuer'' [IsString], colOpt ''owner'' [IsString],
     colNumber ''page'' [IsInt, MinValue 1], colNumber ''limit'' [IsInt, MinValue 1, MaxValue 100],
     colOpt ''sort'' [IsString]]"

definition CreateOfferDto :: dto where
  "CreateOfferDto = [col ''creditId'' [IsInt, MinValue 1],
     col ''pricePerTonne'' [IsNumber, MinValue (1 / 100)], col ''amount'' [IsNumber, MinValue 1],
     col ''currency'' [IsString, MinLength 2], colOpt ''expiresAt'' [IsInt]]"

definition MarketplaceFilterDto :: dto where
  "MarketplaceFilterDto = [colOpt ''methodology'' [IsString], colOpt ''geography'' [IsString],
     colNumber ''maxPrice'' [IsInt], colOpt ''status'' [IsString],
     colNumber ''page'' [IsInt, MinValue 1], colNumber ''limit'' [IsInt, MinValue 1, MaxValue 100]]"

definition RetireCreditDto :: dto where
  "RetireCreditDto = [col ''reason'' [IsString, IsNotEmpty],
     col ''beneficiary'' [IsString, IsNotEmpty], col ''accountingPeriod'' [IsString, IsNotEmpty],
     colOpt ''tonnesRetired'' [IsString]]"

definition RegisterVerifierDto :: dto where
  "RegisterVerifierDto = [col ''stake'' [IsNumber, MinValue 1], colOpt ''credentials'' [IsString]]"

definition BatchCertificateDto :: dto where
  "BatchCertificateDto = [Column ''creditIds'' False False
     [Is IsArray, Each IsInt, Each (MinValue 1), Is (ArrayMinSize 1)]]"

definition VerifyCertificateDto :: dto where
  "VerifyCertificateDto = [col ''certificateHash'' [IsString, IsNotEmpty]]"

definition Scope3QueryDto :: dto where
  "Scope3QueryDto = [colOpt ''format'' [IsIn [''json'', ''csv'']],
     colNumber ''year'' [IsInt, MinValue 2000, MaxValue 2200]]"

definition CreateWebhookDto :: dto where
  "CreateWebhookDto = [col ''url'' [IsUrl, IsNotEmpty],
     Column ''events'' False False
       [Is IsArray, Each IsString, Is (ArrayMinSize 1), Is ArrayUnique]]"

definition UpdateConfigDto :: dto where
  "UpdateConfigDto = [col ''verifierThreshold'' [IsInt, MinValue 1, MaxValue 20],
     col ''verifierQuorum'' [IsInt, MinValue 1, MaxValue 20],
     col ''approvalWindow'' [IsInt, MinValue 3600, MaxValue (90 * 24 * 3600)],
     col ''protocolFeeBps'' [IsInt, MinValue 0, MaxValue 1000],
     col ''bufferPoolPct'' [IsInt, MinValue 0, MaxValue 50]]"

definition VerifierAddressDto :: dto where
  "VerifierAddressDto = [col ''address'' [IsString]]"

definition NetworkSwitchDto :: dto where
  "NetworkSwitchDto = [col ''network'' [IsIn [''testnet'', ''mainnet'']],
     colOpt ''rpcUrl'' [IsString]]"

definition ChallengeDto :: dto where
  "ChallengeDto = [col ''wallet'' [IsString, IsNotEmpty]]"

definition TokenDto :: dto where
  "TokenDto = [col ''wallet'' [IsString, IsNotEmpty],
     col ''signedChallenge'' [IsString, IsNotEmpty], col ''challengeId'' [IsString, IsNotEmpty]]"

definition RefreshDto :: dto where
  "RefreshDto = [col ''refreshToken'' [IsString, MinLength 10]]"

definition BeneficiaryDto :: "check column list" where
  "BeneficiaryDto = [Column ''address'' False False [IsString],
     Column ''bps'' False False [IsInt, MinValue 0, MaxValue 10000]]"

definition ConfigureRevenueSplitDto :: dto where
  "ConfigureRevenueSplitDto = [Column ''beneficiaries'' False False
     [Is IsArray, Is (ArrayMinSize 1), EachNested BeneficiaryDto]]"

definition DistributeRevenueSplitDto :: dto where
  "DistributeRevenueSplitDto = [col ''asset'' [IsString], col ''amount'' [IsInt, MinValue 1]]"

definition BridgeMetadataDto :: "check column list" where
  "BridgeMetadataDto = [Column ''projectId'' False False [IsString],
     Column ''methodology'' False False [IsString],
     Column ''vintageStart'' False False [IsInt, MinValue 0],
     Column ''vintageEnd'' False False [IsInt, MinValue 0],
     Column ''tonnes'' False False [IsInt, MinValue 1],
     Column ''geography'' False False [IsString], Column ''serialPrefix'' False False [IsString],
     Column ''sdgFlags'' True False [IsInt, MinValue 0],
     Column ''permanenceRating'' True False [IsInt, MinValue 0],
     Column ''bufferContributionPct'' True False [IsInt, MinValue 0],
     Column ''additionalityType'' True False [IsInt, MinValue 0],
     Column ''ipfsHash'' True False [IsString]]"

definition BridgeInDto :: dto where
  "BridgeInDto = [col ''sourceRegistry'' [IsString, MinLength 2],
     col ''sourceSerial'' [IsString, MinLength 1], col ''leaf'' [IsString],
     Column ''merkleProof'' False False [Is IsArray, Is (ArrayMinSize 1), Each IsString],
     col ''merkleRoot'' [IsString], Column ''metadata'' False False [Nested BridgeMetadataDto]]"

definition UpdateRegistryRootDto :: dto where
  "UpdateRegistryRootDto = [col ''root'' [IsString], col ''blockHeight'' [IsInt, MinValue 0]]"

definition BridgeFilterDto :: dto where
  "BridgeFilterDto = [colOpt ''registry'' [IsString],
     colOpt ''status'' [IsIn [''INBOUND'', ''OUTBOUND'']],
     colNumber ''page'' [IsInt, MinValue 1], colNumber ''limit'' [IsInt, MinValue 1, MaxValue 100]]"

lemmas dto_defs = CreateCreditDto_def ApproveCreditDto_def RejectCreditDto_def CreditFilterDto_def
  CreateOfferDto_def MarketplaceFilterDto_def RetireCreditDto_def RegisterVerifierDto_def
  BatchCertificateDto_def VerifyCertificateDto_def Scope3QueryDto_def CreateWebhookDto_def
  UpdateConfigDto_def VerifierAddressDto_def NetworkSwitchDto_def ChallengeDto_def TokenDto_def
  RefreshDto_def ConfigureRevenueSplitDto_def DistributeRevenueSplitDto_def BridgeInDto_def
  UpdateRegistryRootDto_def BridgeFilterDto_def

lemmas column_defs = col_def colOpt_def colNumber_def

section \<open>The pipe\<close>

fun columnName :: "'r column \<Rightarrow> string" where
  "columnName (Column n opt num rs) = n"

definition converted :: "bool \<Rightarrow> jsval \<Rightarrow> jsval" where
  "converted num x = (if num \<and> \<not> nullish x then JNum (jsNumber x) else x)"

fun columnOk :: "('r \<Rightarrow> jsval \<Rightarrow> bool) \<Rightarrow> jsval \<Rightarrow> 'r column \<Rightarrow> bool" where
  "columnOk P v (Column n opt num rs) =
     (let x = converted num (getProp v n) in (opt \<and> nullish x) \<or> list_all (\<lambda>r. P r x) rs)"

fun knownKeys :: "'r column list \<Rightarrow> jsval \<Rightarrow> bool" where
  "knownKeys d (JObj kvs) = list_all (\<lambda>kv. fst kv \<in> columnName ` set d) kvs"
| "knownKeys d v = False"

definition objectOk :: "('r \<Rightarrow> jsval \<Rightarrow> bool) \<Rightarrow> 'r column list \<Rightarrow> jsval \<Rightarrow> bool" where
  "objectOk P d v \<longleftrightarrow> knownKeys d v \<and> list_all (columnOk P v) d"

text \<open>The options of \<open>new ValidationPipe({ \<dots> })\<close> in \<open>bootstrap\<close>.\<close>

record pipe_options =
  po_whitelist :: bool
  po_forbidNonWhitelisted :: bool
  po_transform :: bool

definition globalPipe :: pipe_options where
  "globalPipe = \<lparr>po_whitelist = True, po_forbidNonWhitelisted = True, po_transform = True\<rparr>"

text \<open>The value handed on: the named properties, the numeric ones of them converted.\<close>

definition isNumeric :: "'r column list \<Rightarrow> string \<Rightarrow> bool" where
  "isNumeric d k \<longleftrightarrow> (\<exists>c \<in> set d. case c of Column n opt num rs \<Rightarrow> n = k \<and> num)"

definition keptEntry :: "pipe_options \<Rightarrow> 'r column list \<Rightarrow> string \<times> jsval \<Rightarrow> (string \<times> jsval) list" where
  "keptEntry opts d kv =
     (if fst kv \<in> columnName ` set d
      then [(fst kv, converted (po_transform opts \<and> isNumeric d (fst kv)) (snd kv))]
      else if po_whitelist opts then [] else [kv])"

fun kept :: "pipe_options \<Rightarrow> 'r column list \<Rightarrow> jsval \<Rightarrow> jsval" where
  "kept opts d (JObj kvs) = JObj (concat (map (keptEntry opts d) kvs))"
| "kept opts d v = v"

text \<open>A missing body is validated as an empty object.\<close>

definition orEmptyObject :: "jsval \<Rightarrow> jsval" where
  "orEmptyObject v = (if nullish v then JObj [] else v)"

definition validationPipe ::
  "pipe_options \<Rightarrow> (rule \<Rightarrow> jsval \<Rightarrow> bool) \<Rightarrow> dto \<Rightarrow> jsval \<Rightarrow> api_error + jsval" where
  "validationPipe opts V d v0 = (let v = orEmptyObject v0 in
     if (case v of JObj kvs \<Rightarrow> False | _ \<Rightarrow> True)
        \<or> po_whitelist opts \<and> po_forbidNonWhitelisted opts \<and> \<not> knownKeys d v
        \<or> \<not> list_all (columnOk V v) d
     then Inl (BadRequest ''Bad Request Exception'')
     else Inr (kept opts d v))"

lemma validationPipe_global:
  "validationPipe globalPipe V d v =
     (if objectOk V d (orEmptyObject v) then Inr (kept globalPipe d (orEmptyObject v))
      else Inl (BadRequest ''Bad Request Exception''))"
  by (cases "orEmptyObject v")
    (auto simp: validationPipe_def globalPipe_def objectOk_def Let_def)

lemma map_of_kept:
  "list_all (\<lambda>kv. fst kv \<in> columnName ` set d) kvs \<Longrightarrow>
   map_of (concat (map (keptEntry globalPipe d) kvs)) k =
     map_option (converted (isNumeric d k)) (map_of kvs k)"
  by (induction kvs) (auto simp: keptEntry_def globalPipe_def)

lemma getProp_kept:
  assumes "knownKeys d v"
  shows "getProp (kept globalPipe d v) k = converted (isNumeric d k) (getProp v k)"
  using assms map_of_kept [of d _ k]
  by (cases v) (auto simp: converted_def nullish_def split: option.splits)

section \<open>What the decorators promise\<close>

definition isText :: "jsval \<Rightarrow> bool" where
  "isText v \<longleftrightarrow> (case v of JStr s \<Rightarrow> True | _ \<Rightarrow> False)"

definition isNumber :: "jsval \<Rightarrow> bool" where
  "isNumber v \<longleftrightarrow> (case v of JNum x \<Rightarrow> isFinite x | _ \<Rightarrow> False)"

definition isArrayJs :: "jsval \<Rightarrow> bool" where
  "isArrayJs v \<longleftrightarrow> (case v of JArr xs \<Rightarrow> True | _ \<Rightarrow> False)"

definition isObjectJs :: "jsval \<Rightarrow> bool" where
  "isObjectJs v \<longleftrightarrow> (case v of JObj kvs \<Rightarrow> True | _ \<Rightarrow> False)"

text \<open>
  From the documentation of \<open>class-validator\<close>: the decorators of a type accept values of that type
  only, \<open>each: true\<close> validates every element of an array, and nested validation applies the class to
  the nested object.  How \<open>@ValidateNested\<close> treats a missing value is left open.
\<close>

definition documented :: "(rule \<Rightarrow> jsval \<Rightarrow> bool) \<Rightarrow> bool" where
  "documented V \<longleftrightarrow>
     (\<forall>v. V (Is IsString) v \<longleftrightarrow> isText v) \<and> (\<forall>v. V (Is IsNumber) v \<longleftrightarrow> isNumber v) \<and>
     (\<forall>v. V (Is IsInt) v \<longrightarrow> isNumber v) \<and> (\<forall>v. V (Is IsArray) v \<longleftrightarrow> isArrayJs v) \<and>
     (\<forall>v. V (Is IsUrl) v \<longrightarrow> isText v) \<and>
     (\<forall>v ss. V (Is (IsIn ss)) v \<longleftrightarrow> (\<exists>t \<in> set ss. v = JStr t)) \<and>
     (\<forall>c xs. V (Each c) (JArr xs) \<longleftrightarrow> list_all (V (Is c)) xs) \<and>
     (\<forall>d xs. V (EachNested d) (JArr xs) \<longleftrightarrow> list_all (V (Nested d)) xs) \<and>
     (\<forall>d v. isObjectJs v \<longrightarrow> (V (Nested d) v \<longleftrightarrow> objectOk (\<lambda>c. V (Is c)) d v)) \<and>
     (\<forall>d v. \<not> nullish v \<and> \<not> isArrayJs v \<and> \<not> isObjectJs v \<longrightarrow> \<not> V (Nested d) v)"

text \<open>The type that the decorators of a property leave to its values.\<close>

definition scalarType :: "check list \<Rightarrow> ty" where
  "scalarType cs =
     (if IsString \<in> set cs \<or> IsUrl \<in> set cs then TString
      else if IsInt \<in> set cs \<or> IsNumber \<in> set cs then TNumber
      else case List.find (\<lambda>c. case c of IsIn ss \<Rightarrow> True | _ \<Rightarrow> False) cs of
        Some (IsIn ss) \<Rightarrow> TLit ss | _ \<Rightarrow> TUnknown)"

fun propertyType :: "('r list \<Rightarrow> ty) \<Rightarrow> 'r column \<Rightarrow> field" where
  "propertyType f (Column n opt num rs) = (if opt then Opt n (f rs) else Req n (f rs))"

definition flatType :: "check column list \<Rightarrow> ty" where
  "flatType d = TObj (map (propertyType scalarType) d)"

text \<open>A nested value may be missing or an array, as far as the documentation goes.\<close>

definition nestedType :: "check column list \<Rightarrow> ty" where
  "nestedType d = TOr (flatType d) (TOr TNull (TOr TUndef (TArr TUnknown)))"

definition checksOf :: "rule list \<Rightarrow> check list" where
  "checksOf rs = List.map_filter (\<lambda>r. case r of Is c \<Rightarrow> Some c | _ \<Rightarrow> None) rs"

definition eachChecks :: "rule list \<Rightarrow> check list" where
  "eachChecks rs = List.map_filter (\<lambda>r. case r of Each c \<Rightarrow> Some c | _ \<Rightarrow> None) rs"

definition nestedOf :: "rule list \<Rightarrow> check column list list" where
  "nestedOf rs = List.map_filter (\<lambda>r. case r of Nested d \<Rightarrow> Some d | _ \<Rightarrow> None) rs"

definition eachNestedOf :: "rule list \<Rightarrow> check column list list" where
  "eachNestedOf rs = List.map_filter (\<lambda>r. case r of EachNested d \<Rightarrow> Some d | _ \<Rightarrow> None) rs"

definition ruleType :: "(check column list \<Rightarrow> ty) \<Rightarrow> rule list \<Rightarrow> ty" where
  "ruleType nested rs =
     (if IsArray \<in> set (checksOf rs) then
        TArr (case eachNestedOf rs of d # _ \<Rightarrow> nested d | [] \<Rightarrow> scalarType (eachChecks rs))
      else case nestedOf rs of d # _ \<Rightarrow> nested d | [] \<Rightarrow> scalarType (checksOf rs))"

definition impliedType :: "dto \<Rightarrow> ty" where
  "impliedType d = TObj (map (propertyType (ruleType nestedType)) d)"

lemma in_checksOf: "c \<in> set (checksOf rs) \<longleftrightarrow> Is c \<in> set rs"
  and in_eachChecks: "c \<in> set (eachChecks rs) \<longleftrightarrow> Each c \<in> set rs"
  and in_nestedOf: "d \<in> set (nestedOf rs) \<longleftrightarrow> Nested d \<in> set rs"
  and in_eachNestedOf: "d \<in> set (eachNestedOf rs) \<longleftrightarrow> EachNested d \<in> set rs"
  by (force simp: checksOf_def eachChecks_def nestedOf_def eachNestedOf_def map_filter_def
      split: rule.splits option.splits)+

lemma documentedD:
  assumes "documented V"
  shows "V (Is IsString) v \<longleftrightarrow> isText v" and "V (Is IsNumber) v \<longleftrightarrow> isNumber v"
    and "V (Is IsInt) v \<Longrightarrow> isNumber v" and "V (Is IsArray) v \<longleftrightarrow> isArrayJs v"
    and "V (Is IsUrl) v \<Longrightarrow> isText v" and "V (Is (IsIn ss)) v \<longleftrightarrow> (\<exists>t \<in> set ss. v = JStr t)"
    and "V (Each c) (JArr xs) \<longleftrightarrow> list_all (V (Is c)) xs"
    and "V (EachNested d) (JArr xs) \<longleftrightarrow> list_all (V (Nested d)) xs"
    and "isObjectJs v \<Longrightarrow> V (Nested d) v \<longleftrightarrow> objectOk (\<lambda>c. V (Is c)) d v"
    and "\<not> nullish v \<Longrightarrow> \<not> isArrayJs v \<Longrightarrow> \<not> isObjectJs v \<Longrightarrow> \<not> V (Nested d) v"
  using assms unfolding documented_def by blast+

lemma scalarType_sound:
  assumes "documented V" and "\<forall>c \<in> set cs. V (Is c) v"
  shows "conforms l (scalarType cs) v"
proof -
  note D = documentedD [OF assms(1)]
  have lit: "conforms l (TLit ss) v" if "IsIn ss \<in> set cs" for ss
    using D(6) [of ss v] assms(2) that by auto
  consider "IsString \<in> set cs \<or> IsUrl \<in> set cs"
    | "IsString \<notin> set cs" "IsUrl \<notin> set cs" "IsInt \<in> set cs \<or> IsNumber \<in> set cs"
    | "IsString \<notin> set cs" "IsUrl \<notin> set cs" "IsInt \<notin> set cs" "IsNumber \<notin> set cs"
    by blast
  then show ?thesis
  proof cases
    case 1
    then have "isText v" using D(1,5) assms(2) by blast
    with 1 show ?thesis by (simp add: scalarType_def isText_def)
  next
    case 2
    then have "isNumber v" using D(2,3) assms(2) by blast
    with 2 show ?thesis by (simp add: scalarType_def isNumber_def)
  next
    case 3
    then show ?thesis
      using lit by (auto simp: scalarType_def simp del: conforms.simps(7) split: option.splits
          check.splits dest!: find_SomeD)
  qed
qed

lemma hasField_propertyType:
  assumes "columnOk P v (Column n opt num rs)" and "\<not> num"
    and "list_all (\<lambda>r. P r (getProp v n)) rs \<Longrightarrow> conforms True (f rs) (getProp v n)"
  shows "hasField True (propertyType f (Column n opt num rs)) v"
  using assms by (auto simp: converted_def nullish_def Let_def)

text \<open>No property of a nested class is converted.\<close>

definition plainFlat :: "check column list \<Rightarrow> bool" where
  "plainFlat d \<longleftrightarrow> list_all (\<lambda>c. case c of Column n opt num rs \<Rightarrow> \<not> num) d"

lemma flatType_sound:
  assumes "documented V" and "objectOk (\<lambda>c. V (Is c)) d v" and "plainFlat d"
  shows "conforms True (flatType d) v"
proof -
  have "hasField True (propertyType scalarType c) v" if "c \<in> set d" for c
  proof (cases c)
    case (Column n opt num rs)
    with that assms(2,3) have "columnOk (\<lambda>c. V (Is c)) v (Column n opt num rs)" "\<not> num"
      by (auto simp: objectOk_def plainFlat_def list_all_iff)
    then show ?thesis
      unfolding Column
      by (rule hasField_propertyType)
        (intro scalarType_sound [OF assms(1)], simp add: list_all_iff)
  qed
  moreover obtain kvs where "v = JObj kvs" using assms(2) by (cases v) (auto simp: objectOk_def)
  ultimately show ?thesis by (auto simp: flatType_def hasFields_iff)
qed

definition plainNested :: "rule list \<Rightarrow> bool" where
  "plainNested rs \<longleftrightarrow> list_all plainFlat (nestedOf rs @ eachNestedOf rs)"

lemma nestedType_sound:
  assumes "documented V" and "V (Nested d) v" and "plainFlat d"
  shows "conforms True (nestedType d) v"
proof (cases "isObjectJs v")
  case True
  with assms have "objectOk (\<lambda>c. V (Is c)) d v" using documentedD(9) by blast
  then show ?thesis using flatType_sound assms(1,3) by (simp add: nestedType_def)
next
  case False
  then have "nullish v \<or> isArrayJs v" using assms(1,2) documentedD(10) by blast
  then show ?thesis
    by (cases v) (auto simp: nestedType_def nullish_def isArrayJs_def list_all_iff)
qed

lemma ruleType_sound:
  assumes "documented V" and "list_all (\<lambda>r. V r v) rs" and "plainNested rs"
  shows "conforms True (ruleType nestedType rs) v"
proof (cases "IsArray \<in> set (checksOf rs)")
  case True
  with assms(1,2) have "isArrayJs v"
    using documentedD(4) by (auto simp: in_checksOf list_all_iff)
  then obtain xs where xs: "v = JArr xs" by (cases v) (auto simp: isArrayJs_def)
  show ?thesis
  proof (cases "eachNestedOf rs")
    case Nil
    have "conforms True (scalarType (eachChecks rs)) x" if "x \<in> set xs" for x
    proof (rule scalarType_sound [OF assms(1)], rule ballI)
      fix c assume "c \<in> set (eachChecks rs)"
      then have "V (Each c) (JArr xs)" using assms(2) xs by (simp add: in_eachChecks list_all_iff)
      then show "V (Is c) x" using documentedD(7) [OF assms(1)] that by (simp add: list_all_iff)
    qed
    then show ?thesis using True Nil xs by (simp add: ruleType_def list_all_iff)
  next
    case (Cons d ds)
    then have d: "d \<in> set (eachNestedOf rs)" by simp
    then have "V (EachNested d) (JArr xs)"
      using assms(2) xs by (simp add: in_eachNestedOf list_all_iff)
    then have "V (Nested d) x" if "x \<in> set xs" for x
      using documentedD(8) [OF assms(1)] that by (simp add: list_all_iff)
    then have "conforms True (nestedType d) x" if "x \<in> set xs" for x
      using nestedType_sound [OF assms(1)] assms(3) d that
      by (simp add: plainNested_def list_all_iff)
    then show ?thesis using True Cons xs by (simp add: ruleType_def list_all_iff)
  qed
next
  case False
  show ?thesis
  proof (cases "nestedOf rs")
    case Nil
    then show ?thesis
      using False scalarType_sound [OF assms(1), of "checksOf rs"] assms(2)
      by (simp add: ruleType_def in_checksOf list_all_iff)
  next
    case (Cons d ds)
    then have d: "d \<in> set (nestedOf rs)" by simp
    then have "V (Nested d) v" using assms(2) by (simp add: in_nestedOf list_all_iff)
    then show ?thesis
      using False Cons d nestedType_sound [OF assms(1)] assms(3)
      by (simp add: ruleType_def plainNested_def list_all_iff)
  qed
qed

text \<open>Every property is declared once, and the properties of nested classes are not converted.\<close>

definition wellFormedDto :: "dto \<Rightarrow> bool" where
  "wellFormedDto d \<longleftrightarrow> distinct (map columnName d) \<and>
     list_all (\<lambda>c. case c of Column n opt num rs \<Rightarrow> plainNested rs) d"

lemma isNumeric_column:
  assumes "distinct (map columnName d)" and "Column n opt num rs \<in> set d"
  shows "isNumeric d n \<longleftrightarrow> num"
proof
  assume "isNumeric d n"
  then obtain c where c: "c \<in> set d" "case c of Column m opt' num' rs' \<Rightarrow> m = n \<and> num'"
    by (auto simp: isNumeric_def)
  moreover obtain m opt' num' rs' where "c = Column m opt' num' rs'" by (cases c)
  ultimately have "Column n opt' True rs' \<in> set d" by simp
  with assms show num by (auto simp: distinct_map inj_on_def) (metis columnName.simps column.inject)
next
  assume num
  with assms(2) show "isNumeric d n" by (force simp: isNumeric_def)
qed

lemma converted_same [simp]: "converted False x = x"
  by (simp add: converted_def)

lemma impliedType_sound:
  assumes "documented V" and "wellFormedDto d" and "objectOk V d v"
  shows "conforms True (impliedType d) (kept globalPipe d v)"
proof -
  obtain kvs where v: "v = JObj kvs" using assms(3) by (cases v) (auto simp: objectOk_def)
  have "hasField True (propertyType (ruleType nestedType) c) (kept globalPipe d v)"
    if "c \<in> set d" for c
  proof (cases c)
    case (Column n opt num rs)
    let ?x = "converted num (getProp v n)"
    have k: "getProp (kept globalPipe d v) n = ?x"
      using that assms(2,3) Column
      by (simp add: getProp_kept objectOk_def wellFormedDto_def isNumeric_column)
    have "columnOk V v (Column n opt num rs)" "plainNested rs"
      using that assms(2,3) Column by (auto simp: objectOk_def wellFormedDto_def list_all_iff)
    then show ?thesis
      using ruleType_sound [OF assms(1), of ?x rs] k
      by (auto simp: Column Let_def nullish_def)
  qed
  then show ?thesis by (auto simp: v impliedType_def hasFields_iff)
qed

section \<open>Inputs of the declared types\<close>

text \<open>
  The checks that only look at the kind of a value, and what is left of the rules of a class for a
  value that has the kinds its declared type says: bounds, lengths, integrality, non-emptiness.
\<close>

definition kindCheck :: "check \<Rightarrow> bool" where
  "kindCheck c \<longleftrightarrow> c = IsString \<or> c = IsNumber \<or> c = IsArray"

definition flatValues :: "(rule \<Rightarrow> jsval \<Rightarrow> bool) \<Rightarrow> check column list \<Rightarrow> jsval \<Rightarrow> bool" where
  "flatValues V d v \<longleftrightarrow> knownKeys d v \<and> list_all (columnOk (\<lambda>c x. kindCheck c \<or> V (Is c) x) v) d"

fun valueRule :: "(rule \<Rightarrow> jsval \<Rightarrow> bool) \<Rightarrow> rule \<Rightarrow> jsval \<Rightarrow> bool" where
  "valueRule V (Is c) x = (kindCheck c \<or> V (Is c) x)"
| "valueRule V (Each c) x = (kindCheck c \<or> V (Each c) x)"
| "valueRule V (Nested d) x = flatValues V d x"
| "valueRule V (EachNested d) x = (case x of JArr xs \<Rightarrow> list_all (flatValues V d) xs | _ \<Rightarrow> False)"

definition valueRules :: "(rule \<Rightarrow> jsval \<Rightarrow> bool) \<Rightarrow> dto \<Rightarrow> jsval \<Rightarrow> bool" where
  "valueRules V d v \<longleftrightarrow> list_all (columnOk (valueRule V) v) d"

definition plainType :: "dto \<Rightarrow> ty" where
  "plainType d = TObj (map (propertyType (ruleType flatType)) d)"

text \<open>The rules of a property agree with one type.\<close>

fun fits :: "ty \<Rightarrow> check \<Rightarrow> bool" where
  "fits T IsString = (T = TString)"
| "fits T IsNumber = (T = TNumber)"
| "fits T IsArray = (case T of TArr U \<Rightarrow> True | _ \<Rightarrow> False)"
| "fits T c = True"

definition coherentFlat :: "check column list \<Rightarrow> bool" where
  "coherentFlat d \<longleftrightarrow> plainFlat d \<and>
     list_all (\<lambda>c. case c of Column n opt num rs \<Rightarrow> list_all (fits (scalarType rs)) rs) d"

fun fitsRule :: "ty \<Rightarrow> rule \<Rightarrow> bool" where
  "fitsRule T (Is c) = fits T c"
| "fitsRule T (Each c) = (case T of TArr U \<Rightarrow> fits U c | _ \<Rightarrow> False)"
| "fitsRule T (Nested d) = (T = flatType d \<and> coherentFlat d)"
| "fitsRule T (EachNested d) = (T = TArr (flatType d) \<and> coherentFlat d)"

definition coherent :: "dto \<Rightarrow> bool" where
  "coherent d \<longleftrightarrow> list_all (\<lambda>c. case c of Column n opt num rs \<Rightarrow>
     \<not> num \<and> list_all (fitsRule (ruleType flatType rs)) rs) d"

lemma fits_kind:
  assumes "documented V" and "conforms l T x" and "fits T c" and "kindCheck c"
  shows "V (Is c) x"
  using assms documentedD(1,2,4) [OF assms(1), of x]
  by (cases c) (auto simp: kindCheck_def isText_def isNumber_def isArrayJs_def split: ty.splits
      jsval.splits)

lemma columnOk_cong:
  assumes "hasField True (propertyType f (Column n opt num rs)) v" and "\<not> num"
    and "\<And>r. r \<in> set rs \<Longrightarrow> conforms True (f rs) (getProp v n) \<Longrightarrow>
      P r (getProp v n) \<longleftrightarrow> Q r (getProp v n)"
  shows "columnOk P v (Column n opt num rs) \<longleftrightarrow> columnOk Q v (Column n opt num rs)"
proof (cases "opt \<and> nullish (getProp v n)")
  case False
  then have "conforms True (f rs) (getProp v n)"
    using assms(1) by (auto simp: nullish_def split: if_splits)
  then show ?thesis using False assms(2,3) by (auto simp: Let_def list_all_iff)
qed (use assms(2) in \<open>simp add: Let_def\<close>)

lemma flatValues_iff:
  assumes "documented V" and "coherentFlat d" and "conforms True (flatType d) v"
  shows "objectOk (\<lambda>c. V (Is c)) d v \<longleftrightarrow> flatValues V d v"
proof -
  have "columnOk (\<lambda>c. V (Is c)) v c \<longleftrightarrow> columnOk (\<lambda>c x. kindCheck c \<or> V (Is c) x) v c"
    if "c \<in> set d" for c
  proof (cases c)
    case (Column n opt num rs)
    have "hasField True (propertyType scalarType (Column n opt num rs)) v"
      using assms(3) that Column
      by (force simp: flatType_def hasFields_iff simp del: propertyType.simps split: jsval.splits)
    moreover have "\<not> num" "list_all (fits (scalarType rs)) rs"
      using assms(2) that Column by (auto simp: coherentFlat_def plainFlat_def list_all_iff)
    ultimately show ?thesis
      unfolding Column using fits_kind [OF assms(1)]
      by (intro columnOk_cong) (auto simp: list_all_iff)
  qed
  then show ?thesis by (auto simp: objectOk_def flatValues_def list_all_iff)
qed

lemma nested_iff:
  assumes "documented V" and "coherentFlat d" and "conforms True (flatType d) x"
  shows "V (Nested d) x \<longleftrightarrow> flatValues V d x"
proof -
  have "isObjectJs x" using assms(3) by (cases x) (simp_all add: flatType_def isObjectJs_def)
  then show ?thesis using documentedD(9) [OF assms(1)] flatValues_iff [OF assms] by simp
qed

lemma valueRule_iff:
  assumes "documented V" and "fitsRule T r" and "conforms True T x"
  shows "V r x \<longleftrightarrow> valueRule V r x"
proof (cases r)
  case (Is c)
  then show ?thesis using assms fits_kind [OF assms(1,3)] by auto
next
  case (Each c)
  with assms(2) obtain U where U: "T = TArr U" "fits U c" by (auto split: ty.splits)
  with assms(3) obtain xs where xs: "x = JArr xs" "list_all (conforms True U) xs"
    by (cases x) auto
  have "V (Each c) (JArr xs)" if "kindCheck c"
    using documentedD(7) [OF assms(1)] fits_kind [OF assms(1) _ U(2) that] xs(2)
    by (auto simp: list_all_iff)
  then show ?thesis using Each xs by auto
next
  case (Nested d)
  then show ?thesis using assms nested_iff by simp
next
  case (EachNested d)
  with assms(2,3) obtain xs where xs: "x = JArr xs" "list_all (conforms True (flatType d)) xs"
    by (cases x) auto
  have "V (Nested d) y \<longleftrightarrow> flatValues V d y" if "y \<in> set xs" for y
    using nested_iff [OF assms(1)] EachNested assms(2) xs(2) that by (simp add: list_all_iff)
  then show ?thesis
    using EachNested xs documentedD(8) [OF assms(1)] by (auto simp: list_all_iff)
qed

lemma typed_input:
  assumes "documented V" and "coherent d" and "conforms True (plainType d) v" and "knownKeys d v"
  shows "objectOk V d v \<longleftrightarrow> valueRules V d v"
proof -
  have "columnOk V v c \<longleftrightarrow> columnOk (valueRule V) v c" if "c \<in> set d" for c
  proof (cases c)
    case (Column n opt num rs)
    have "hasField True (propertyType (ruleType flatType) (Column n opt num rs)) v"
      using assms(3) that Column
      by (force simp: plainType_def hasFields_iff simp del: propertyType.simps split: jsval.splits)
    moreover have "\<not> num" "list_all (fitsRule (ruleType flatType rs)) rs"
      using assms(2) that Column by (auto simp: coherent_def list_all_iff)
    ultimately show ?thesis
      unfolding Column using valueRule_iff [OF assms(1)]
      by (intro columnOk_cong) (auto simp: list_all_iff)
  qed
  with assms(4) show ?thesis by (auto simp: objectOk_def valueRules_def list_all_iff)
qed

section \<open>The inputs of the client library\<close>

definition updateConfigInputT :: ty where
  "updateConfigInputT = TObj [Req ''verifierThreshold'' TNumber, Req ''verifierQuorum'' TNumber,
     Req ''approvalWindow'' TNumber, Req ''protocolFeeBps'' TNumber, Req ''bufferPoolPct'' TNumber]"

definition createWebhookInputT :: ty where
  "createWebhookInputT = TObj [Req ''url'' TString, Req ''events'' (TArr TString)]"

text \<open>The declared type of an argument and the class that validates it.\<close>

definition sdkInputs :: "(ty \<times> dto) list" where
  "sdkInputs = [(createCreditInputT, CreateCreditDto), (approveCreditInputT, ApproveCreditDto),
     (rejectCreditInputT, RejectCreditDto), (createOfferInputT, CreateOfferDto),
     (retireCreditInputT, RetireCreditDto), (registerVerifierInputT, RegisterVerifierDto),
     (bridgeInInputT, BridgeInDto), (updateRegistryRootInputT, UpdateRegistryRootDto),
     (configureRevenueSplitInputT, ConfigureRevenueSplitDto),
     (distributeRevenueSplitInputT, DistributeRevenueSplitDto),
     (updateConfigInputT, UpdateConfigDto), (createWebhookInputT, CreateWebhookDto)]"

definition allDtos :: "dto list" where
  "allDtos = [CreateCreditDto, ApproveCreditDto, RejectCreditDto, CreditFilterDto, CreateOfferDto,
     MarketplaceFilterDto, RetireCreditDto, RegisterVerifierDto, BatchCertificateDto,
     VerifyCertificateDto, Scope3QueryDto, CreateWebhookDto, UpdateConfigDto, VerifierAddressDto,
     NetworkSwitchDto, ChallengeDto, TokenDto, RefreshDto, ConfigureRevenueSplitDto,
     DistributeRevenueSplitDto, BridgeInDto, UpdateRegistryRootDto, BridgeFilterDto]"

lemma wellFormed_all: "list_all wellFormedDto allDtos"
  by code_simp

lemma coherent_inputs: "list_all (\<lambda>i. coherent (snd i)) sdkInputs"
  by code_simp

text \<open>
  The rules of these classes leave exactly the declared type; the exceptions are the documentation
  of a credit, which has no rule, and the source registry, of which only the length is checked.
\<close>

lemma plain_input_types:
  "plainType ApproveCreditDto = approveCreditInputT"
  "plainType RejectCreditDto = rejectCreditInputT"
  "plainType CreateOfferDto = createOfferInputT"
  "plainType RetireCreditDto = retireCreditInputT"
  "plainType RegisterVerifierDto = registerVerifierInputT"
  "plainType UpdateRegistryRootDto = updateRegistryRootInputT"
  "plainType ConfigureRevenueSplitDto = configureRevenueSplitInputT"
  "plainType DistributeRevenueSplitDto = distributeRevenueSplitInputT"
  "plainType UpdateConfigDto = updateConfigInputT"
  "plainType CreateWebhookDto = createWebhookInputT"
  by code_simp+

text \<open>A coarse comparison of object types, enough for the two exceptions.\<close>

fun widerField :: "field \<Rightarrow> field \<Rightarrow> bool" where
  "widerField (Req n T) (Req m U) =
     (n = m \<and> (T = U \<or> U = TUnknown \<or> U = TString \<and> (case T of TLit ss \<Rightarrow> True | _ \<Rightarrow> False)))"
| "widerField (Opt n T) (Opt m U) = (n = m \<and> (T = U \<or> U = TUnknown))"
| "widerField f g = False"

fun wider :: "ty \<Rightarrow> ty \<Rightarrow> bool" where
  "wider (TObj fs) (TObj gs) = list_all2 widerField fs gs"
| "wider T U = (T = U)"

lemma widerField_sound: "widerField f g \<Longrightarrow> hasField True f v \<Longrightarrow> hasField True g v"
  by (cases "(f, g)" rule: widerField.cases) (auto split: ty.splits jsval.splits)

lemma wider_sound:
  assumes "wider T U" and "conforms True T v"
  shows "conforms True U v"
proof (cases "\<exists>fs gs. T = TObj fs \<and> U = TObj gs")
  case True
  then obtain fs gs where TU: "T = TObj fs" "U = TObj gs" by blast
  with assms(2) have "\<forall>f \<in> set fs. hasField True f v" by (cases v) (auto simp: hasFields_iff)
  moreover have "\<exists>f \<in> set fs. widerField f g" if "g \<in> set gs" for g
    using assms(1) that TU by (simp add: list_all2_conv_all_nth) (metis in_set_conv_nth)
  ultimately have "\<forall>g \<in> set gs. hasField True g v" using widerField_sound by blast
  then show ?thesis using TU assms(2) by (cases v) (auto simp: hasFields_iff)
next
  case False
  with assms show ?thesis by (cases T; cases U; simp)
qed

lemma inputs_wider: "list_all (\<lambda>i. wider (fst i) (plainType (snd i))) sdkInputs"
  by code_simp

text \<open>
  C9. An argument of the type that the client library declares for a request,
  with no property beyond those of the class, passes the global pipe exactly when the rules on
  values hold (bounds, lengths, integrality, non-emptiness): it is never refused for its shape.
\<close>

theorem typed_inputs_pass:
  assumes "documented V" and "(T, d) \<in> set sdkInputs" and "conforms True T v" and "knownKeys d v"
  shows "(\<exists>x. validationPipe globalPipe V d v = Inr x) \<longleftrightarrow> valueRules V d v"
proof -
  have "conforms True (plainType d) v" "coherent d"
    using assms(2,3) inputs_wider coherent_inputs wider_sound by (fastforce simp: list_all_iff)+
  moreover have "orEmptyObject v = v"
    using assms(4) by (cases v) (simp_all add: orEmptyObject_def nullish_def)
  ultimately show ?thesis
    using typed_input [OF assms(1) _ _ assms(4)] by (simp add: validationPipe_global)
qed

text \<open>
  The declared types of the properties of a class, for the classes without nested ones.  For the
  documentation of a credit, which no rule looks at, it is \<open>unknown\<close>.
\<close>

definition handlerTypes :: "(ty \<times> dto) list" where
  "handlerTypes = [(approveCreditInputT, ApproveCreditDto), (rejectCreditInputT, RejectCreditDto),
     (createOfferInputT, CreateOfferDto), (retireCreditInputT, RetireCreditDto),
     (registerVerifierInputT, RegisterVerifierDto),
     (updateRegistryRootInputT, UpdateRegistryRootDto),
     (distributeRevenueSplitInputT, DistributeRevenueSplitDto),
     (updateConfigInputT, UpdateConfigDto), (createWebhookInputT, CreateWebhookDto),
     (creditFilterT, CreditFilterDto), (marketplaceFilterT, MarketplaceFilterDto),
     (bridgeRecordFilterT, BridgeFilterDto), (scope3ReportQueryT, Scope3QueryDto),
     (TObj [Req ''creditIds'' (TArr TNumber)], BatchCertificateDto),
     (TObj [Req ''certificateHash'' TString], VerifyCertificateDto),
     (TObj [Req ''address'' TString], VerifierAddressDto),
     (TObj [Req ''network'' (TLit [''testnet'', ''mainnet'']), Opt ''rpcUrl'' TString],
      NetworkSwitchDto),
     (TObj [Req ''wallet'' TString], ChallengeDto),
     (TObj [Req ''wallet'' TString, Req ''signedChallenge'' TString, Req ''challengeId'' TString],
      TokenDto),
     (TObj [Req ''refreshToken'' TString], RefreshDto),
     (TObj [Req ''projectId'' TString, Req ''methodology'' TString, Req ''vintageStart'' TString,
        Req ''vintageEnd'' TString, Req ''tonnes'' TNumber, Req ''geography'' TString,
        Opt ''documentation'' TUnknown, Opt ''sdgCobenefits'' (TArr TNumber),
        Opt ''permanenceRating'' TNumber, Opt ''bufferContributionPct'' TNumber,
        Opt ''additionalityType'' TNumber], CreateCreditDto)]"

lemma handlerTypes_implied:
  "list_all (\<lambda>h. impliedType (snd h) = fst h \<and> wellFormedDto (snd h)) handlerTypes"
  by code_simp

lemma pipe_implied:
  assumes "documented V" and "wellFormedDto d" and "validationPipe globalPipe V d v = Inr x"
  shows "conforms True (impliedType d) x"
proof -
  have "objectOk V d (orEmptyObject v)" "x = kept globalPipe d (orEmptyObject v)"
    using assms(3) by (auto simp: validationPipe_global split: if_splits)
  then show ?thesis using impliedType_sound [OF assms(1,2)] by simp
qed


section \<open>A validator\<close>

text \<open>An instance of the documented behaviour, at which the two properties are applied.\<close>

fun sampleCheck :: "check \<Rightarrow> jsval \<Rightarrow> bool" where
  "sampleCheck IsString v = isText v"
| "sampleCheck IsUrl v = isText v"
| "sampleCheck IsNumber v = isNumber v"
| "sampleCheck IsInt v = (case v of JNum x \<Rightarrow> isInteger x | _ \<Rightarrow> False)"
| "sampleCheck IsArray v = isArrayJs v"
| "sampleCheck (IsIn ss) v = list_ex (\<lambda>t. v = JStr t) ss"
| "sampleCheck IsNotEmpty v = (v \<noteq> JStr [] \<and> \<not> nullish v)"
| "sampleCheck (MinValue r) v = (case v of JNum (Fin x) \<Rightarrow> r \<le> x | _ \<Rightarrow> False)"
| "sampleCheck (MaxValue r) v = (case v of JNum (Fin x) \<Rightarrow> x \<le> r | _ \<Rightarrow> False)"
| "sampleCheck (MinLength n) v = (case v of JStr s \<Rightarrow> n \<le> length s | _ \<Rightarrow> False)"
| "sampleCheck (MaxLength n) v = (case v of JStr s \<Rightarrow> length s \<le> n | _ \<Rightarrow> False)"
| "sampleCheck (ArrayMinSize n) v = (case v of JArr xs \<Rightarrow> n \<le> length xs | _ \<Rightarrow> False)"
| "sampleCheck ArrayUnique v = (case v of JArr xs \<Rightarrow> distinct xs | _ \<Rightarrow> False)"

fun sampleRule :: "rule \<Rightarrow> jsval \<Rightarrow> bool" where
  "sampleRule (Is c) v = sampleCheck c v"
| "sampleRule (Each c) v = (case v of JArr xs \<Rightarrow> list_all (sampleCheck c) xs | _ \<Rightarrow> sampleCheck c v)"
| "sampleRule (Nested d) v = (nullish v \<or> objectOk sampleCheck d v)"
| "sampleRule (EachNested d) v = (case v of
     JArr xs \<Rightarrow> list_all (\<lambda>x. nullish x \<or> objectOk sampleCheck d x) xs | _ \<Rightarrow> False)"

lemma sampleRule_fun:
  "sampleRule (Is c) = sampleCheck c" "(\<lambda>c. sampleRule (Is c)) = sampleCheck"
  "sampleRule (Nested d) = (\<lambda>x. nullish x \<or> objectOk sampleCheck d x)"
  by (simp_all add: fun_eq_iff)

lemma sampleRule_documented: "documented sampleRule"
proof -
  have "sampleCheck IsInt v \<Longrightarrow> isNumber v" for v
    by (auto simp: isNumber_def split: jsval.splits elim: isInteger.elims isFinite.elims)
  then show ?thesis
    unfolding documented_def
    by (auto simp: sampleRule_fun isObjectJs_def isArrayJs_def nullish_def list_ex_iff
        objectOk_def split: jsval.splits)
qed

definition sampleSplit :: jsval where
  "sampleSplit = JObj [(''beneficiaries'', JArr [
     JObj [(''address'', JStr ''GA''), (''bps'', JNum (Fin 6000))],
     JObj [(''address'', JStr ''GB''), (''bps'', JNum (Fin 4000))]])]"

theorem typed_inputs_pass_witness:
  "\<exists>x. validationPipe globalPipe sampleRule ConfigureRevenueSplitDto sampleSplit = Inr x"
proof -
  have "(configureRevenueSplitInputT, ConfigureRevenueSplitDto) \<in> set sdkInputs"
    by (simp add: sdkInputs_def)
  moreover have "conforms True configureRevenueSplitInputT sampleSplit" by code_simp
  moreover have "knownKeys ConfigureRevenueSplitDto sampleSplit" by code_simp
  moreover have "valueRules sampleRule ConfigureRevenueSplitDto sampleSplit" by code_simp
  ultimately show ?thesis using typed_inputs_pass [OF sampleRule_documented] by blast
qed


section \<open>Bodies that do not pass, and one that should not\<close>

text \<open>The registration of a verifier from the front end has no body.\<close>

lemma register_without_body:
  assumes "documented V"
  shows "validationPipe globalPipe V RegisterVerifierDto (hc_body (webRecords WRegister)) =
    Inl (BadRequest ''Bad Request Exception'')"
  using documentedD(2) [OF assms, of JUndef]
  by (simp add: validationPipe_global orEmptyObject_def nullish_def callPost_def objectOk_def
      RegisterVerifierDto_def col_def converted_def isNumber_def)

text \<open>The form of the retirement page may be sent with an empty reason.\<close>

lemma retire_without_reason:
  assumes "\<not> V (Is IsNotEmpty) (JStr [])" and "rp_reason p = []"
  shows "validationPipe globalPipe V RetireCreditDto (retireBody E p) =
    Inl (BadRequest ''Bad Request Exception'')"
  using assms
  by (simp add: validationPipe_global orEmptyObject_def nullish_def retireBody_def objectOk_def
      RetireCreditDto_def col_def converted_def)

text \<open>
  Nested validation that skips a missing value, as the installed package does, lets a bridge request
  without metadata through; the service then reads a property of an undefined value.
\<close>

lemma metadata_may_be_missing:
  assumes "V (Nested BridgeMetadataDto) JUndef" and "getProp v ''metadata'' = JUndef"
  shows "objectOk V BridgeInDto v \<longleftrightarrow> knownKeys BridgeInDto v \<and> list_all (columnOk V v) (butlast BridgeInDto)"
  using assms by (auto simp: objectOk_def BridgeInDto_def converted_def)

text \<open>The other bodies of the pages have the declared types.\<close>

lemma retireBody_typed:
  "conforms True retireCreditInputT (retireBody E p)" "knownKeys RetireCreditDto (retireBody E p)"
  by (simp_all add: retireCreditInputT_def retireBody_def RetireCreditDto_def col_def colOpt_def)

lemma bridgeInBody_typed:
  assumes "bf_sourceRegistry p \<in> {''VERRA'', ''GOLD_STANDARD'', ''CDM'', ''ACR'', ''CAR'', ''PLAN_VIVO''}"
    and "isFinite (stringToNumber (bf_vintageStart p))" and "isFinite (stringToNumber (bf_vintageEnd p))"
    and "isFinite (stringToNumber (bf_tonnes p))"
  shows "conforms True bridgeInInputT (bridgeInBody p)"
  using assms
  by (auto simp: bridgeInInputT_def sourceRegistryT_def bridgeMetadataT_def bridgeInBody_def
      typedNumber_def list_all_iff)

end
