(* ===== verification/Service.thy ===== *)
theory Service
  imports Lifecycle RateLimit Observability Validation
begin

text \<open>
  The service as \<open>main.ts\<close> and \<open>app.module.ts\<close> assemble it: the limit on the size of a body, the two
  global guards and the guard of an administrator's route, the interceptors that log and measure a
  request, the validation pipe, the handler and the exception filter, in the order in which the
  framework runs them.  A request is refused before the interceptors run when a guard throws; the
  pipe and the handler run inside them.  \<open>requestBody\<close> is the JSON of the values that a request
  hands to its handler.
\<close>

section \<open>Start-up\<close>

definition BODY_LIMIT :: nat where
  "BODY_LIMIT = 10 * 1024"

definition corsOrigins :: "env \<Rightarrow> string list" where
  "corsOrigins E = (case conf E ''CORS_ORIGIN'' of
     Some s \<Rightarrow> splitOn CHR '','' s | None \<Rightarrow> [''http://localhost:3001''])"

definition corsMethods :: "string list" where
  "corsMethods = [''GET'', ''POST'', ''PUT'', ''DELETE'', ''PATCH'']"

definition corsHeaders :: "string list" where
  "corsHeaders = [''Content-Type'', ''Authorization'', ''x-admin-key'']"

definition listenPort :: "env \<Rightarrow> string" where
  "listenPort E = confOr E ''PORT'' ''3000''"

text \<open>\<open>GET /\<close>\<close>

definition getInfo :: "env \<Rightarrow> jsval" where
  "getInfo E = JObj [(''name'', JStr ''carbonveritas-api''), (''version'', JStr ''1.0.0''),
     (''network'', JStr (confOr E ''STELLAR_NETWORK'' ''testnet''))]"

section \<open>The bodies of the routes\<close>

definition optNum :: "jsnum option \<Rightarrow> jsval" where
  "optNum x = (case x of None \<Rightarrow> JUndef | Some n \<Rightarrow> JNum n)"

definition optInt :: "int option \<Rightarrow> jsval" where
  "optInt x = optNum (map_option ofInt x)"

definition createCreditBody :: "create_credit_dto \<Rightarrow> jsval" where
  "createCreditBody d = JObj [(''projectId'', JStr (cd_projectId d)),
     (''methodology'', JStr (cd_methodology d)), (''vintageStart'', JStr (cd_vintageStart d)),
     (''vintageEnd'', JStr (cd_vintageEnd d)), (''tonnes'', JNum (cd_tonnes d)),
     (''geography'', JStr (cd_geography d)), (''documentation'', cd_documentation d),
     (''sdgCobenefits'', (case cd_sdgCobenefits d of
        None \<Rightarrow> JUndef | Some gs \<Rightarrow> JArr (map (\<lambda>g. JNum (ofInt g)) gs))),
     (''permanenceRating'', optInt (cd_permanenceRating d)),
     (''bufferContributionPct'', optInt (cd_bufferContributionPct d)),
     (''additionalityType'', optInt (cd_additionalityType d))]"

definition createOfferBody :: "create_offer_dto \<Rightarrow> jsval" where
  "createOfferBody d = JObj [(''creditId'', JNum (ofInt (co_creditId d))),
     (''pricePerTonne'', JNum (co_pricePerTonne d)), (''amount'', JNum (co_amount d)),
     (''currency'', JStr (co_currency d)), (''expiresAt'', optInt (co_expiresAt d))]"

definition retireDtoBody :: "retire_dto \<Rightarrow> jsval" where
  "retireDtoBody d = JObj [(''reason'', JStr (rd_reason d)), (''beneficiary'', JStr (rd_beneficiary d)),
     (''accountingPeriod'', JStr (rd_accountingPeriod d)),
     (''tonnesRetired'', optText (rd_tonnesRetired d))]"

definition bridgeDtoBody :: "bridge_in_dto \<Rightarrow> jsval" where
  "bridgeDtoBody d = (let m = bd_metadata d in
     JObj [(''sourceRegistry'', JStr (bd_sourceRegistry d)),
       (''sourceSerial'', JStr (bd_sourceSerial d)), (''leaf'', JStr (bd_leaf d)),
       (''merkleProof'', JArr (map JStr (bd_merkleProof d))), (''merkleRoot'', JStr (bd_merkleRoot d)),
       (''metadata'', JObj [(''projectId'', JStr (bm_projectId m)),
          (''methodology'', JStr (bm_methodology m)), (''vintageStart'', JNum (bm_vintageStart m)),
          (''vintageEnd'', JNum (bm_vintageEnd m)), (''tonnes'', JNum (bm_tonnes m)),
          (''geography'', JStr (bm_geography m)), (''serialPrefix'', JStr (bm_serialPrefix m)),
          (''sdgFlags'', optNum (bm_sdgFlags m)), (''permanenceRating'', optNum (bm_permanenceRating m)),
          (''bufferContributionPct'', optNum (bm_bufferContributionPct m)),
          (''additionalityType'', optNum (bm_additionalityType m)),
          (''ipfsHash'', optText (bm_ipfsHash m))])])"

definition configBody :: "update_config_dto \<Rightarrow> jsval" where
  "configBody d = JObj [(''verifierThreshold'', JNum (uc_verifierThreshold d)),
     (''verifierQuorum'', JNum (uc_verifierQuorum d)), (''approvalWindow'', JNum (uc_approvalWindow d)),
     (''protocolFeeBps'', JNum (uc_protocolFeeBps d)), (''bufferPoolPct'', JNum (uc_bufferPoolPct d))]"

text \<open>The class that validates the body of a route; a purchase reads \<open>amount\<close> without one.\<close>

fun validated :: "request \<Rightarrow> (dto \<times> jsval) option" where
  "validated (Credits (PostIssue d)) = Some (CreateCreditDto, createCreditBody d)"
| "validated (Credits (PostApprove n comments)) =
     Some (ApproveCreditDto, JObj [(''comments'', optText comments)])"
| "validated (Credits (PostReject n reason)) =
     Some (RejectCreditDto, JObj [(''reason'', JStr reason)])"
| "validated (Marketplace (PostOffer d)) = Some (CreateOfferDto, createOfferBody d)"
| "validated (Marketplace r) = None"
| "validated (Retire n d) = Some (RetireCreditDto, retireDtoBody d)"
| "validated (Verifiers (PostRegister d)) =
     Some (RegisterVerifierDto, JObj [(''stake'', JNum (rv_stake d))])"
| "validated (Verifiers r) = None"
| "validated (Certificates ids) = Some (BatchCertificateDto,
     JObj [(''creditIds'', JArr (map (\<lambda>n. JNum (ofInt n)) ids))])"
| "validated (Bridge (PostRoot registry merkleRoot height)) = Some (UpdateRegistryRootDto,
     JObj [(''root'', JStr merkleRoot), (''blockHeight'', JNum height)])"
| "validated (Bridge (PostIn d)) = Some (BridgeInDto, bridgeDtoBody d)"
| "validated (Bridge r) = None"
| "validated (RevenueSplit (PostSplit pid bs)) = Some (ConfigureRevenueSplitDto,
     JObj [(''beneficiaries'', JArr (map (\<lambda>b. JObj [(''address'', JStr (bn_address b)),
        (''bps'', JNum (bn_bps b))]) bs))])"
| "validated (RevenueSplit (PostDistribute pid asset amount)) = Some (DistributeRevenueSplitDto,
     JObj [(''asset'', JStr asset), (''amount'', JNum amount)])"
| "validated (Webhooks (PostWebhook d)) = Some (CreateWebhookDto,
     JObj [(''url'', JStr (wd_url d)), (''events'', JArr (map JStr (wd_events d)))])"
| "validated (Webhooks r) = None"
| "validated (Admin (PatchConfig d)) = Some (UpdateConfigDto, configBody d)"
| "validated (Admin (PostAddVerifier a)) = Some (VerifierAddressDto, JObj [(''address'', JStr a)])"
| "validated (Admin (PostRemoveVerifier a)) = Some (VerifierAddressDto, JObj [(''address'', JStr a)])"
| "validated (Auth (PostChallenge wallet)) = Some (ChallengeDto, JObj [(''wallet'', JStr wallet)])"
| "validated (Auth (PostToken wallet signedChallenge challengeId)) = Some (TokenDto,
     JObj [(''wallet'', JStr wallet), (''signedChallenge'', JStr signedChallenge),
       (''challengeId'', JStr challengeId)])"

definition pipeFor :: "(rule \<Rightarrow> jsval \<Rightarrow> bool) \<Rightarrow> request \<Rightarrow> api_error + unit" where
  "pipeFor V req = (case validated req of None \<Rightarrow> Inr ()
     | Some (d, v) \<Rightarrow> bindS (validationPipe globalPipe V d v) (\<lambda>_. Inr ()))"

section \<open>Serving a request\<close>

record app =
  app_world :: world
  app_buckets :: buckets
  app_metrics :: metrics
  app_log :: "string list"

record incoming =
  in_method :: string
  in_url :: string
  in_route :: "string option"
  in_ip :: "string option"
  in_bearer :: "string option"
  in_length :: nat
  in_status :: int      \<comment> \<open>the framework's default for the route: 201 for a post, 200 otherwise\<close>
  in_elapsed :: int
  in_request :: request

datatype reply = TooLarge | Refused filter_body | Answered

text \<open>\<open>LoggingInterceptor.intercept\<close>: \<open>tap\<close> with one function sees the answers, not the errors.\<close>

definition logLine :: "incoming \<Rightarrow> string" where
  "logLine i = in_method i @ '' '' @ in_url i @ '' '' @ showInt (in_status i) @ '' ''
     @ showInt (in_elapsed i) @ ''ms''"

definition spanOf :: "incoming \<Rightarrow> bool \<Rightarrow> request_span" where
  "spanOf i failed = \<lparr>rs_method = in_method i, rs_routePath = in_route i,
     rs_originalUrl = Some (in_url i), rs_status = Some (in_status i), rs_failed = failed,
     rs_elapsed = in_elapsed i\<rparr>"

text \<open>The handler of an admitted request, behind the pipe.\<close>

definition handled ::
  "auth_lib \<Rightarrow> env \<Rightarrow> (rule \<Rightarrow> jsval \<Rightarrow> bool) \<Rightarrow> principal option \<Rightarrow> request \<Rightarrow> unit op" where
  "handled L E V p req = bindE (fromSum (pipeFor V req)) (\<lambda>_. (case p of
     Some user \<Rightarrow> userRoute E user req
   | None \<Rightarrow> (case req of Auth r \<Rightarrow> authController L E r | _ \<Rightarrow> ret ())))"

definition serve ::
  "auth_lib \<Rightarrow> env \<Rightarrow> (rule \<Rightarrow> jsval \<Rightarrow> bool) \<Rightarrow> incoming \<Rightarrow> app \<Rightarrow> reply \<times> app" where
  "serve L E V i a =
     (if BODY_LIMIT < in_length i then (TooLarge, a) else
      case rateLimitGuard E \<lparr>rq_isPublic = isPublic (in_request i), rq_wallet = None,
             rq_ip = in_ip i, rq_now = clock E\<rparr> (app_buckets a) of
        (Inl e, bs) \<Rightarrow> (Refused (filterCatch E e), a\<lparr>app_buckets := bs\<rparr>)
      | (Inr _, bs) \<Rightarrow>
        (case guards L E (app_world a) (in_bearer i) (in_request i) of
           Inl e \<Rightarrow> (Refused (filterCatch E e), a\<lparr>app_buckets := bs\<rparr>)
         | Inr p \<Rightarrow>
           (case handled L E V p (in_request i) (app_world a) of
              (Inl e, w) \<Rightarrow> (Refused (filterCatch E e), a\<lparr>app_buckets := bs, app_world := w,
                 app_metrics := recordSpan (spanOf i True) (app_metrics a)\<rparr>)
            | (Inr _, w) \<Rightarrow> (Answered, a\<lparr>app_buckets := bs, app_world := w,
                 app_metrics := recordSpan (spanOf i False) (app_metrics a),
                 app_log := app_log a @ [logLine i]\<rparr>))))"

fun serveAll ::
  "auth_lib \<Rightarrow> env \<Rightarrow> (rule \<Rightarrow> jsval \<Rightarrow> bool) \<Rightarrow> incoming list \<Rightarrow> app \<Rightarrow> reply list \<times> app" where
  "serveAll L E V [] a = ([], a)"
| "serveAll L E V (i # is) a = (case serve L E V i a of (out, a1) \<Rightarrow>
     (case serveAll L E V is a1 of (outs, a2) \<Rightarrow> (out # outs, a2)))"

section \<open>Lemmas\<close>

lemma handled_handleRequest:
  assumes "guards L E w bearer req = Inr p" and "pipeFor V req = Inr u"
  shows "handled L E V p req w = handleRequest L E bearer req w"
  using assms by (cases p) (simp_all add: handled_def handleRequest_def act_simps)

lemma handled_refused:
  "pipeFor V req = Inl e \<Longrightarrow> handled L E V p req w = (Inl e, w)"
  by (simp add: handled_def act_simps)

lemma serve_cases:
  obtains (early) out bs where "serve L E V i a = (out, a\<lparr>app_buckets := bs\<rparr>)" and "out \<noteq> Answered"
  | (invalid) e bs p where "pipeFor V (in_request i) = Inl e"
      and "guards L E (app_world a) (in_bearer i) (in_request i) = Inr p"
      and "in_length i \<le> BODY_LIMIT"
      and "serve L E V i a = (Refused (filterCatch E e), a\<lparr>app_buckets := bs,
         app_metrics := recordSpan (spanOf i True) (app_metrics a)\<rparr>)"
  | (failed) e w bs p where "pipeFor V (in_request i) = Inr ()"
      and "guards L E (app_world a) (in_bearer i) (in_request i) = Inr p"
      and "in_length i \<le> BODY_LIMIT"
      and "handleRequest L E (in_bearer i) (in_request i) (app_world a) = (Inl e, w)"
      and "serve L E V i a = (Refused (filterCatch E e), a\<lparr>app_buckets := bs, app_world := w,
         app_metrics := recordSpan (spanOf i True) (app_metrics a)\<rparr>)"
  | (answered) w bs p where "pipeFor V (in_request i) = Inr ()"
      and "guards L E (app_world a) (in_bearer i) (in_request i) = Inr p"
      and "in_length i \<le> BODY_LIMIT"
      and "handleRequest L E (in_bearer i) (in_request i) (app_world a) = (Inr (), w)"
      and "serve L E V i a = (Answered, a\<lparr>app_buckets := bs, app_world := w,
         app_metrics := recordSpan (spanOf i False) (app_metrics a),
         app_log := app_log a @ [logLine i]\<rparr>)"
proof (cases "BODY_LIMIT < in_length i")
  case True
  then show ?thesis by (intro early [of TooLarge "app_buckets a"]) (simp_all add: serve_def)
next
  case len: False
  obtain res bs where rate: "rateLimitGuard E \<lparr>rq_isPublic = isPublic (in_request i),
      rq_wallet = None, rq_ip = in_ip i, rq_now = clock E\<rparr> (app_buckets a) = (res, bs)" by fastforce
  show ?thesis
  proof (cases res)
    case (Inl e)
    then show ?thesis using len rate
      by (intro early [of "Refused (filterCatch E e)" bs]) (simp_all add: serve_def)
  next
    case admitted: (Inr u)
    show ?thesis
    proof (cases "guards L E (app_world a) (in_bearer i) (in_request i)")
      case (Inl e)
      then show ?thesis using len rate admitted
        by (intro early [of "Refused (filterCatch E e)" bs]) (simp_all add: serve_def)
    next
      case g: (Inr p)
      show ?thesis
      proof (cases "pipeFor V (in_request i)")
        case (Inl e)
        then show ?thesis using len rate admitted g
          by (intro invalid [of e p bs]) (simp_all add: serve_def handled_refused)
      next
        case (Inr u)
        obtain r w where h: "handleRequest L E (in_bearer i) (in_request i) (app_world a) = (r, w)"
          by fastforce
        with Inr g have "handled L E V p (in_request i) (app_world a) = (r, w)"
          by (simp add: handled_handleRequest)
        then show ?thesis
        proof (cases r)
          case (Inl e)
          with \<open>handled L E V p (in_request i) (app_world a) = (r, w)\<close> show ?thesis
            using len rate admitted g Inr h
            by (intro failed [of p e w bs]) (simp_all add: serve_def)
        next
          case ok: (Inr v)
          with \<open>handled L E V p (in_request i) (app_world a) = (r, w)\<close> show ?thesis
            using len rate admitted g Inr h
            by (intro answered [of p w bs]) (simp_all add: serve_def)
        qed
      qed
    qed
  qed
qed

section \<open>What no request changes of a credit\<close>

text \<open>
  A property of credits that neither a change of owner nor a change of status touches: only issuing
  a credit adds to its column.
\<close>

locale static_column = credit_column k for k :: "credit \<Rightarrow> 'k" +
  assumes activated: "k (c\<lparr>cr_status := s, cr_tokenId := tx, cr_updatedAt := t\<rparr>) = k c"
    and decided: "k (c\<lparr>cr_status := s, cr_updatedAt := t\<rparr>) = k c"
begin

lemma status_updates:
  "keeps (columnOf k) (dbUpdate credits credits_update P
     (\<lambda>c. c\<lparr>cr_status := s, cr_tokenId := tx, cr_updatedAt := t\<rparr>))"
  "keeps (columnOf k) (dbUpdate credits credits_update P (\<lambda>c. c\<lparr>cr_status := s, cr_updatedAt := t\<rparr>))"
  unfolding columnOf_def [abs_def]
  by (rule creditT.keeps_map_update; simp add: activated decided)+

lemma approval_insert: "keeps (columnOf k) (dbInsert approvals_update approvalCheck r)"
  "keeps (columnOf k) (dbInsert retirements_update retirementCheck r')"
  by (intro keeps_insert_rules; simp add: columnOf_def)+

lemma stay_decisions:
  "keeps (columnOf k) (approveCredit E uid wal n cm)" "keeps (columnOf k) (rejectCredit E uid wal n rs)"
  unfolding approveCredit_def rejectCredit_def Let_def decision_parts createApproval_def
  by (intro act_intros column_intros status_updates approval_insert)+

lemma keeps_ledgerArg: "keeps p (ledgerArg v)"
  by (rule readonly_keeps) (auto simp: ledgerArg_def dest: intArg_state split: jsnum.splits jsval.splits)

lemma stay_retire: "keeps (columnOf k) (retireCredit E uid wal n dto)"
  unfolding retireCredit_def retireGuards_def Let_def stellarRetire_def
  by (intro act_intros column_intros status_updates approval_insert keeps_ledgerArg)

lemmas stay_all = stay_requests stay_decisions stay_retire

lemma userRoute_keeps:
  assumes "\<nexists>d. req = Credits (PostIssue d)"
  shows "keeps (columnOf k) (userRoute E p req)"
proof (cases req)
  case (Credits r)
  with assms show ?thesis by (cases r) (simp_all add: keeps_voidE stay_all)
next
  case (Marketplace r)
  then show ?thesis by (cases r) (simp_all add: keeps_voidE stay_all)
next
  case (Verifiers r)
  then show ?thesis by (cases r) (simp_all add: keeps_voidE stay_all)
next
  case (Bridge r)
  then show ?thesis by (cases r) (simp_all add: keeps_voidE stay_all)
next
  case (RevenueSplit r)
  then show ?thesis by (cases r) (simp_all add: keeps_voidE stay_all)
next
  case (Webhooks r)
  then show ?thesis by (cases r) (simp_all add: keeps_voidE stay_all)
next
  case (Admin r)
  then show ?thesis by (cases r) (simp_all add: keeps_voidE stay_all controller_defs)
qed (simp_all add: keeps_voidE keeps_rules stay_all controller_defs)

lemma handleRequest_keeps:
  assumes "\<nexists>d. req = Credits (PostIssue d)"
  shows "columnOf k (snd (handleRequest L E bearer req w)) = columnOf k w"
proof (cases rule: handleRequest_cases [where L = L and E = E and w = w and bearer = bearer and req = req])
  case (user p)
  then show ?thesis using keeps_snd [OF userRoute_keeps [OF assms]] by simp
next
  case (auth r)
  have "keeps (columnOf k) (authController L E r)" by (cases r) (simp_all add: keeps_voidE stay_all)
  then show ?thesis using auth keeps_snd by metis
qed simp

end

text \<open>The values that an issuer chooses.\<close>

definition creditTerms :: "credit \<Rightarrow> jsnum \<times> int \<times> int \<times> int \<times> string \<times> string" where
  "creditTerms c = (cr_tonnes c, cr_permanenceRating c, cr_bufferContributionPct c,
     cr_additionalityType c, cr_projectId c, cr_methodology c)"

interpretation terms: static_column creditTerms
  by unfold_locales (simp_all add: creditTerms_def)

section \<open>Bounds of the stored terms\<close>

definition termsOk :: "jsnum \<times> int \<times> int \<times> int \<times> string \<times> string \<Rightarrow> bool" where
  "termsOk v = (case v of (tonnes, permanence, buffer, additionality, projectId, methodology) \<Rightarrow>
     isFinite tonnes \<and> num_le (ofInt 1) tonnes \<and> 0 \<le> permanence \<and> permanence \<le> 100 \<and>
     0 \<le> buffer \<and> buffer \<le> 20 \<and> 0 \<le> additionality \<and> additionality \<le> 2 \<and>
     projectId \<noteq> [] \<and> methodology \<noteq> [])"

definition boundedTerms :: "world \<Rightarrow> bool" where
  "boundedTerms w \<longleftrightarrow> list_all termsOk (columnOf creditTerms w)"

text \<open>From the documentation of \<open>class-validator\<close>: bounds and non-emptiness.\<close>

definition documentedBounds :: "(rule \<Rightarrow> jsval \<Rightarrow> bool) \<Rightarrow> bool" where
  "documentedBounds V \<longleftrightarrow> (\<forall>r x. V (Is (MinValue r)) (JNum (Fin x)) \<longrightarrow> r \<le> x) \<and>
     (\<forall>r x. V (Is (MaxValue r)) (JNum (Fin x)) \<longrightarrow> x \<le> r) \<and> \<not> V (Is IsNotEmpty) (JStr [])"

definition dtoTerms :: "create_credit_dto \<Rightarrow> jsnum \<times> int \<times> int \<times> int \<times> string \<times> string" where
  "dtoTerms d = (cd_tonnes d, orElse (cd_permanenceRating d) 50,
     orElse (cd_bufferContributionPct d) 10, orElse (cd_additionalityType d) 0,
     cd_projectId d, cd_methodology d)"

lemma piped_number:
  assumes "documentedBounds V" and "V (Is (MinValue r)) (optInt n) \<and> V (Is (MaxValue s)) (optInt n) \<or> nullish (optInt n)"
    and "r \<le> of_int x" and "of_int x \<le> s"
  shows "r \<le> of_int (orElse n x) \<and> of_int (orElse n x) \<le> s"
  using assms by (cases n) (auto simp: documentedBounds_def optInt_def optNum_def ofInt_def orElse_def
      nullish_def)

lemma piped_terms:
  assumes "documented V" and B: "documentedBounds V" and "pipeFor V (Credits (PostIssue d)) = Inr ()"
  shows "termsOk (dtoTerms d)"
proof -
  let ?v = "createCreditBody d"
  have "objectOk V CreateCreditDto ?v"
    using assms(3) by (auto simp: pipeFor_def validationPipe_global bindS_Inr_iff orEmptyObject_def
        nullish_def createCreditBody_def split: if_splits)
  then have cols: "columnOk V ?v c" if "c \<in> set CreateCreditDto" for c
    using that by (simp add: objectOk_def list_all_iff)
  have nonempty: "s \<noteq> []" if "V (Is IsNotEmpty) (JStr s)" for s
    using that B by (auto simp: documentedBounds_def)
  have "V (Is IsNotEmpty) (JStr (cd_projectId d))" "V (Is IsNotEmpty) (JStr (cd_methodology d))"
    "V (Is IsNumber) (JNum (cd_tonnes d))" "V (Is (MinValue 1)) (JNum (cd_tonnes d))"
    using cols [of "col ''projectId'' [IsString, IsNotEmpty]"]
      cols [of "col ''methodology'' [IsString, IsNotEmpty]"]
      cols [of "col ''tonnes'' [IsNumber, MinValue 1]"]
    by (simp_all add: CreateCreditDto_def col_def createCreditBody_def Let_def)
  moreover from this have "isFinite (cd_tonnes d)" "num_le (ofInt 1) (cd_tonnes d)"
    using documentedD(2) [OF assms(1)] B
    by (cases "cd_tonnes d"; force simp: isNumber_def documentedBounds_def ofInt_def)+
  moreover have
    "0 \<le> (of_int (orElse (cd_permanenceRating d) 50) :: rat) \<and> of_int (orElse (cd_permanenceRating d) 50) \<le> (100 :: rat)"
    using cols [of "colOpt ''permanenceRating'' [IsInt, MinValue 0, MaxValue 100]"]
    by (intro piped_number [OF B]) (auto simp: CreateCreditDto_def colOpt_def createCreditBody_def Let_def)
  moreover have
    "0 \<le> (of_int (orElse (cd_bufferContributionPct d) 10) :: rat) \<and> of_int (orElse (cd_bufferContributionPct d) 10) \<le> (20 :: rat)"
    using cols [of "colOpt ''bufferContributionPct'' [IsInt, MinValue 0, MaxValue 20]"]
    by (intro piped_number [OF B]) (auto simp: CreateCreditDto_def colOpt_def createCreditBody_def Let_def)
  moreover have
    "0 \<le> (of_int (orElse (cd_additionalityType d) 0) :: rat) \<and> of_int (orElse (cd_additionalityType d) 0) \<le> (2 :: rat)"
    using cols [of "colOpt ''additionalityType'' [IsInt, MinValue 0, MaxValue 2]"]
    by (intro piped_number [OF B]) (auto simp: CreateCreditDto_def colOpt_def createCreditBody_def Let_def)
  ultimately show ?thesis using nonempty by (simp add: termsOk_def dtoTerms_def)
qed

lemma keeps_terms_preserves: "keeps (columnOf creditTerms) m \<Longrightarrow> preserves boundedTerms m"
  by (rule keeps_preserves) (simp add: keeps_def relates_def boundedTerms_def)

lemma terms_insert:
  "termsOk (creditTerms r) \<Longrightarrow> preserves boundedTerms (dbInsert credits_update creditCheck r)"
  by (rule creditT.preserves_insert) (simp add: boundedTerms_def columnOf_def)

lemma issue_bounded:
  assumes "termsOk (dtoTerms d)"
  shows "preserves boundedTerms (issueCredit E uid wal d)"
  unfolding issueCredit_def Let_def submitCredit_def
  by (intro act_intros terms_insert terms.column_intros [THEN keeps_terms_preserves])
    (use assms in \<open>simp add: creditTerms_def dtoTerms_def\<close>)

lemma handleRequest_bounded:
  assumes "documented V" and "documentedBounds V" and "pipeFor V req = Inr ()" and "boundedTerms w"
  shows "boundedTerms (snd (handleRequest L E bearer req w))"
proof (cases "\<exists>d. req = Credits (PostIssue d)")
  case False
  then show ?thesis
    using terms.handleRequest_keeps [of req L E bearer w] assms(4) by (simp add: boundedTerms_def)
next
  case True
  then obtain d where d: "req = Credits (PostIssue d)" ..
  have "termsOk (dtoTerms d)" using piped_terms assms(1,2,3) d by blast
  then have issue: "preserves boundedTerms (userRoute E p req)" for p
    by (simp add: d preserves_voidE issue_bounded)
  show ?thesis
  proof (cases rule: handleRequest_cases [where L = L and E = E and w = w and bearer = bearer and req = req])
    case (user p)
    obtain r w' where "userRoute E p req w = (r, w')" by fastforce
    with user(2) preservesD [OF issue assms(4)] show ?thesis by simp
  qed (use assms(4) d in simp_all)
qed

section \<open>A run of the service\<close>

lemma serve_world:
  "app_world (snd (serve L E V i a)) = app_world a \<or>
   pipeFor V (in_request i) = Inr () \<and> app_world (snd (serve L E V i a)) =
     snd (handleRequest L E (in_bearer i) (in_request i) (app_world a))"
  by (rule serve_cases [of L E V i a]) simp_all

lemma serve_log:
  "app_log (snd (serve L E V i a)) =
     app_log a @ (if fst (serve L E V i a) = Answered then [logLine i] else [])"
  by (rule serve_cases [of L E V i a]) simp_all

lemma serveAll_invariant:
  assumes "\<And>i a. I a \<Longrightarrow> I (snd (serve L E V i a))" and "I a"
  shows "I (snd (serveAll L E V is a))"
  using assms(2)
proof (induction "is" arbitrary: a)
  case (Cons i "is")
  obtain out a1 where s: "serve L E V i a = (out, a1)" by fastforce
  with assms(1) [OF Cons.prems] have "I a1" by (metis snd_conv)
  with Cons.IH [of a1] s show ?case by (cases "serveAll L E V is a1") simp
qed simp


text \<open>
  C6. Whatever requests arrive in whatever order: a service that starts with
  credits of at least one tonne, a permanence rating up to 100, a buffer contribution up to 20
  percent, an additionality type up to 2 and named projects and methodologies only ever stores such
  credits.
\<close>

theorem stored_terms_bounded:
  assumes "documented V" and "documentedBounds V" and "boundedTerms (app_world a)"
  shows "boundedTerms (app_world (snd (serveAll L E V is a)))"
proof (rule serveAll_invariant [of "\<lambda>a. boundedTerms (app_world a)", OF _ assms(3)])
  fix i and b :: app
  assume "boundedTerms (app_world b)"
  then show "boundedTerms (app_world (snd (serve L E V i b)))"
    using serve_world [of L E V i b] handleRequest_bounded [OF assms(1,2)] by metis
qed

text \<open>The data stay intact over any run of the service, whoever calls it.\<close>

lemma service_keeps_data:
  "schemaOk (app_world a) \<Longrightarrow> schemaOk (app_world (snd (serveAll L E V is a)))"
  using serve_world handleRequest_schemaOk
  by (intro serveAll_invariant [of "\<lambda>a. schemaOk (app_world a)"]) metis+

lemma service_log_length:
  "serveAll L E V is a = (outs, a') \<Longrightarrow>
   length (app_log a') = length (app_log a) + length (filter (\<lambda>r. r = Answered) outs)"
proof (induction "is" arbitrary: a outs)
  case (Cons i "is")
  obtain out a1 where s: "serve L E V i a = (out, a1)" by fastforce
  obtain outs2 a2 where r: "serveAll L E V is a1 = (outs2, a2)" by fastforce
  from Cons.prems s r have "outs = out # outs2" "a' = a2" by auto
  moreover have "app_log a1 = app_log a @ (if out = Answered then [logLine i] else [])"
    using serve_log [of L E V i a] s by simp
  ultimately show ?case using Cons.IH [of a1 outs2] r by simp
qed simp

section \<open>A concrete service\<close>

lemma sampleRule_bounds: "documentedBounds sampleRule"
  by (simp add: documentedBounds_def)

definition demoApp :: app where
  "demoApp = \<lparr>app_world = demoWorld, app_buckets = (\<lambda>k. None), app_metrics = noMetrics, app_log = []\<rparr>"

definition webhookRequest :: incoming where
  "webhookRequest = \<lparr>in_method = ''POST'', in_url = ''/webhooks'', in_route = Some ''/webhooks'',
     in_ip = Some ''::1'',
     in_bearer = Some (demoToken \<lparr>cl_sub = ''u1'', cl_wallet = ''GISSUER'', cl_type = None\<rparr>),
     in_length = 120, in_status = 201, in_elapsed = 5, in_request = Webhooks (PostWebhook
       \<lparr>wd_url = ''http://y'', wd_events = [''credit.retired'']\<rparr>)\<rparr>"


theorem stored_terms_bounded_witness:
  "boundedTerms (app_world (snd (serveAll loginLib demoEnv sampleRule [webhookRequest] demoApp)))"
proof -
  have "boundedTerms (app_world demoApp)"
    by (simp add: boundedTerms_def columnOf_def demoApp_def demoWorld_def creditTerms_def
        termsOk_def demoCredit_def ofInt_def)
  from stored_terms_bounded [OF sampleRule_documented sampleRule_bounds this] show ?thesis .
qed

end
