(* ===== verification/Reporting.thy ===== *)
theory Reporting
  imports Certificates JsMap
begin

text \<open>
  \<open>api/src/reporting/reporting.service.ts\<close>: the Scope 3 report of an account's retirements, its
  summary by methodology, geography and vintage, and its export as CSV.  The text of the export is
  taken as its UTF-8 bytes.
\<close>

section \<open>The report\<close>

record line_item =
  li_retirementId :: string
  li_creditId :: int
  li_projectId :: string
  li_methodology :: string
  li_geography :: string
  li_vintageStart :: string
  li_vintageEnd :: string
  li_serialPrefix :: string
  li_tonnesRetired :: jsnum
  li_beneficiary :: string
  li_reason :: string
  li_accountingPeriod :: string
  li_retirementDate :: string
  li_txHash :: string
  li_ledgerSequence :: int
  li_certificateHash :: "string option"

record group_total =
  gt_tonnes :: jsnum
  gt_retirements :: nat

record scope3_summary =
  ss_totalTonnesRetired :: jsnum
  ss_totalRetirements :: nat
  ss_totalCredits :: nat
  ss_byMethodology :: "(string \<times> group_total) list"
  ss_byGeography :: "(string \<times> group_total) list"
  ss_byVintage :: "(int \<times> group_total) list"

record scope3_report =
  sc3_reportingPeriod :: string
  sc3_generatedAt :: string
  sc3_wallet :: string
  sc3_summary :: scope3_summary
  sc3_lineItems :: "line_item list"

text \<open>A retirement with its credit, as \<open>include\<close> returns it.\<close>

type_synonym retirement_row = "retirement \<times> credit"

definition fetchRetirements ::
  "env \<Rightarrow> world \<Rightarrow> string \<Rightarrow> int option \<Rightarrow> api_error + retirement_row list" where
  "fetchRetirements E w userId year =
     (let rows = (case givenInt year of
          None \<Rightarrow> Inr (filter (\<lambda>r. rt_retiredById r = userId) (retirements w))
        | Some y \<Rightarrow> (case (dateParse E (showInt y @ ''-01-01T00:00:00.000Z''),
                          dateParse E (showInt (y + 1) @ ''-01-01T00:00:00.000Z'')) of
              (Some a, Some b) \<Rightarrow> Inr (filter (\<lambda>r. rt_retiredById r = userId \<and>
                  a \<le> rt_timestamp r \<and> rt_timestamp r < b) (retirements w))
            | _ \<Rightarrow> Inl (PrismaError ''validation''))) in
      bindS rows (\<lambda>rs. mapS (\<lambda>r. case creditRow w (rt_creditId r) of
          None \<Rightarrow> Inl (PrismaError ''P2025'') | Some c \<Rightarrow> Inr (r, c)) (descBy rt_timestamp rs)))"

definition toDateString :: "int \<Rightarrow> string" where
  "toDateString t = hd (splitOn (CHR ''T'') (isoString t))"

definition toLineItem :: "retirement_row \<Rightarrow> line_item" where
  "toLineItem row = (let r = fst row; c = snd row in
     \<lparr>li_retirementId = rt_id r, li_creditId = cr_creditId c, li_projectId = cr_projectId c,
      li_methodology = cr_methodology c, li_geography = cr_geography c,
      li_vintageStart = toDateString (cr_vintageStart c),
      li_vintageEnd = toDateString (cr_vintageEnd c), li_serialPrefix = cr_serialPrefix c,
      li_tonnesRetired = rt_tonnesRetired r, li_beneficiary = rt_beneficiary r,
      li_reason = rt_reason r, li_accountingPeriod = rt_accountingPeriod r,
      li_retirementDate = isoString (rt_timestamp r), li_txHash = rt_txHash r,
      li_ledgerSequence = rt_ledgerSequence r, li_certificateHash = rt_certificateHash r\<rparr>)"

section \<open>The summary\<close>

definition noTotal :: group_total where
  "noTotal = \<lparr>gt_tonnes = ofInt 0, gt_retirements = 0\<rparr>"

definition addTotal :: "jsnum \<Rightarrow> group_total \<Rightarrow> group_total" where
  "addTotal tonnes g = \<lparr>gt_tonnes = num_add (gt_tonnes g) tonnes,
     gt_retirements = gt_retirements g + 1\<rparr>"

definition accumulate ::
  "('k, group_total) jsmap \<Rightarrow> 'k \<Rightarrow> jsnum \<Rightarrow> ('k, group_total) jsmap" where
  "accumulate m key tonnes = mapAlter noTotal (addTotal tonnes) key m"

text \<open>\<open>.sort((a, b) => b.tonnes - a.tonnes)\<close>\<close>

definition sortTotals :: "('k \<times> group_total) list \<Rightarrow> ('k \<times> group_total) list" where
  "sortTotals = sortBy (\<lambda>a b. num_lt (ofInt 0) (num_sub (gt_tonnes (snd b)) (gt_tonnes (snd a))))"

definition orUnknown :: "string \<Rightarrow> string" where
  "orUnknown s = (if s = [] then ''UNKNOWN'' else s)"

definition methodologyKey :: "retirement_row \<Rightarrow> string" where
  "methodologyKey row = orUnknown (cr_methodology (snd row))"

definition geographyKey :: "retirement_row \<Rightarrow> string" where
  "geographyKey row = orUnknown (cr_geography (snd row))"

definition vintageKey :: "retirement_row \<Rightarrow> int" where
  "vintageKey row = utcYear (cr_vintageStart (snd row))"

definition rowTonnes :: "retirement_row \<Rightarrow> jsnum" where
  "rowTonnes row = rt_tonnesRetired (fst row)"

text \<open>One pass of the loop over the rows, for one of the three maps.\<close>

definition groupRows ::
  "(retirement_row \<Rightarrow> 'k) \<Rightarrow> retirement_row list \<Rightarrow> ('k, group_total) jsmap" where
  "groupRows key rows = foldl (\<lambda>m row. accumulate m (key row) (rowTonnes row)) [] rows"

definition buildSummary :: "retirement_row list \<Rightarrow> scope3_summary" where
  "buildSummary rows =
     \<lparr>ss_totalTonnesRetired = foldl (\<lambda>t row. num_add t (rowTonnes row)) (ofInt 0) rows,
      ss_totalRetirements = length rows,
      ss_totalCredits = length (remdups (map (\<lambda>row. cr_creditId (snd row)) rows)),
      ss_byMethodology = sortTotals (groupRows methodologyKey rows),
      ss_byGeography = sortTotals (groupRows geographyKey rows),
      ss_byVintage = sortTotals (groupRows vintageKey rows)\<rparr>"

definition getScope3Report ::
  "env \<Rightarrow> world \<Rightarrow> string \<Rightarrow> string \<Rightarrow> int option \<Rightarrow> api_error + scope3_report" where
  "getScope3Report E w userId wallet year =
     bindS (fetchRetirements E w userId year) (\<lambda>rows. Inr
       \<lparr>sc3_reportingPeriod = (case givenInt year of None \<Rightarrow> ''all-time'' | Some y \<Rightarrow> showInt y),
        sc3_generatedAt = isoString (clock E), sc3_wallet = wallet,
        sc3_summary = buildSummary rows, sc3_lineItems = map toLineItem rows\<rparr>)"

section \<open>The export\<close>

definition quoteC :: char where "quoteC = CHR 0x22"
definition newlineC :: char where "newlineC = CHR 0x0A"

definition escapeCsv :: "string \<Rightarrow> string" where
  "escapeCsv v =
     (if quoteC \<in> set v \<or> CHR '','' \<in> set v \<or> newlineC \<in> set v \<or> CHR 0x0D \<in> set v
      then quoteC # concat (map (\<lambda>c. if c = quoteC then [quoteC, quoteC] else [c]) v) @ [quoteC]
      else v)"

definition CSV_HEADERS :: "string list" where
  "CSV_HEADERS = [''credit_id'', ''project_id'', ''methodology'', ''geography'',
     ''vintage_start'', ''vintage_end'', ''serial_prefix'', ''tonnes_retired'', ''beneficiary'',
     ''reason'', ''accounting_period'', ''retirement_date'', ''tx_hash'', ''ledger_sequence'',
     ''certificate_hash'']"

definition csvFields :: "line_item \<Rightarrow> string list" where
  "csvFields i = [showInt (li_creditId i), li_projectId i, li_methodology i, li_geography i,
     li_vintageStart i, li_vintageEnd i, li_serialPrefix i, num_to_string (li_tonnesRetired i),
     li_beneficiary i, li_reason i, li_accountingPeriod i, li_retirementDate i, li_txHash i,
     showInt (li_ledgerSequence i), orElse (li_certificateHash i) []]"

definition csvLine :: "line_item \<Rightarrow> string" where
  "csvLine i = joinWith '','' (map escapeCsv (csvFields i))"

definition byteOrderMark :: string where
  "byteOrderMark = [CHR 0xEF, CHR 0xBB, CHR 0xBF]"

definition toScope3Csv :: "scope3_report \<Rightarrow> string" where
  "toScope3Csv report =
     (let rows = joinWith '','' CSV_HEADERS # map csvLine (sc3_lineItems report);
          rows' = (if 1 < length rows then rows @ [[]] else rows) in
      byteOrderMark @ joinWith [newlineC] rows')"

text \<open>The controller: which of the two formats a query gets.\<close>

definition scope3 ::
  "env \<Rightarrow> world \<Rightarrow> string \<Rightarrow> string \<Rightarrow> int option \<Rightarrow> string \<Rightarrow> api_error + (scope3_report + string)"
where
  "scope3 E w userId wallet year fmt =
     bindS (getScope3Report E w userId wallet year) (\<lambda>report.
       Inr (if fmt = ''csv'' then Inr (toScope3Csv report) else Inl report))"

section \<open>A reader of CSV\<close>

text \<open>
  The reference: comma-separated fields, one record per line, a field in quotes where a quote is
  doubled.  A final line break ends the last record.
\<close>

fun headField :: "(string \<Rightarrow> string) \<Rightarrow> string list list \<Rightarrow> string list list" where
  "headField f ((s # fs) # rs) = (f s # fs) # rs"
| "headField f rs = rs"

fun csvRows :: "bool \<Rightarrow> string \<Rightarrow> string list list" where
  "csvRows q [] = [[[]]]"
| "csvRows False (c # cs) =
     (if c = CHR '','' then (case csvRows False cs of r # rs \<Rightarrow> ([] # r) # rs | [] \<Rightarrow> [])
      else if c = newlineC then [[]] # csvRows False cs
      else if c = quoteC then csvRows True cs
      else headField ((#) c) (csvRows False cs))"
| "csvRows True [c] = (if c = quoteC then [[[]]] else headField ((#) c) [[[]]])"
| "csvRows True (c # d # ds) =
     (if c = quoteC then
        (if d = quoteC then headField ((#) quoteC) (csvRows True ds) else csvRows False (d # ds))
      else headField ((#) c) (csvRows True (d # ds)))"

definition readCsv :: "string \<Rightarrow> string list list" where
  "readCsv s = (let rs = csvRows False s in if last rs = [[]] then butlast rs else rs)"

section \<open>Lemmas on the export\<close>

lemma headField_ne: "rs \<noteq> [] \<and> hd rs \<noteq> [] \<Longrightarrow> headField f rs \<noteq> [] \<and> hd (headField f rs) \<noteq> []"
  by (cases "(f, rs)" rule: headField.cases) auto

lemma csvRows_ne [simp]: "csvRows q s \<noteq> [] \<and> hd (csvRows q s) \<noteq> []"
proof (induction q s rule: csvRows.induct)
  case (2 c cs)
  then show ?case using headField_ne [of "csvRows False cs" "(#) c"]
    by (cases "csvRows False cs") auto
next
  case (4 c d ds)
  then show ?case by (auto simp: headField_ne)
qed auto

lemma csvRows_shape: "\<exists>s fs rs. csvRows q t = (s # fs) # rs"
  using csvRows_ne [of q t] by (metis list.exhaust list.sel(1))

lemma headField_comp: "headField f (headField g rs) = headField (\<lambda>s. f (g s)) rs"
  by (cases "(g, rs)" rule: headField.cases) auto

definition plain :: "string \<Rightarrow> bool" where
  "plain v \<longleftrightarrow> quoteC \<notin> set v \<and> CHR '','' \<notin> set v \<and> newlineC \<notin> set v"

lemma csvRows_plain: "plain v \<Longrightarrow> csvRows False (v @ t) = headField ((@) v) (csvRows False t)"
proof (induction v)
  case Nil
  then show ?case using csvRows_shape [of False t] by auto
next
  case (Cons c v)
  then have "c \<noteq> quoteC" "c \<noteq> CHR '','' " "c \<noteq> newlineC" "plain v" by (auto simp: plain_def)
  with Cons.IH show ?case by (simp add: headField_comp)
qed

definition doubled :: "string \<Rightarrow> string" where
  "doubled v = concat (map (\<lambda>c. if c = quoteC then [quoteC, quoteC] else [c]) v)"

lemma csvRows_quoted:
  assumes "t = [] \<or> hd t \<noteq> quoteC"
  shows "csvRows True (doubled v @ quoteC # t) = headField ((@) v) (csvRows False t)"
proof (induction v)
  case Nil
  then show ?case using assms csvRows_shape [of False t]
    by (cases t) (auto simp: doubled_def)
next
  case (Cons c v)
  have step: "csvRows True (c # u) = headField ((#) c) (csvRows True u)" if "c \<noteq> quoteC" for u
    using that by (cases u) simp_all
  from Cons step show ?case by (auto simp: doubled_def headField_comp)
qed

lemma csvRows_escaped:
  assumes "t = [] \<or> hd t \<noteq> quoteC"
  shows "csvRows False (escapeCsv v @ t) = headField ((@) v) (csvRows False t)"
proof (cases "quoteC \<in> set v \<or> CHR '','' \<in> set v \<or> newlineC \<in> set v \<or> CHR 0x0D \<in> set v")
  case True
  then have "escapeCsv v @ t = quoteC # doubled v @ quoteC # t"
    by (simp add: escapeCsv_def doubled_def)
  then show ?thesis
    using csvRows_quoted [OF assms, of v] by (simp add: quoteC_def newlineC_def)
next
  case False
  then show ?thesis using csvRows_plain [of v t] by (simp add: escapeCsv_def plain_def)
qed

text \<open>A line of escaped fields reads as its fields.\<close>

lemma csvRows_line:
  assumes "fs \<noteq> []" and "t = [] \<or> hd t = newlineC"
  shows "csvRows False (joinWith '','' (map escapeCsv fs) @ t) =
    (case t of [] \<Rightarrow> [fs] | _ # u \<Rightarrow> fs # csvRows False u)"
  using assms(1)
proof (induction fs rule: induct_list012)
  case 1
  then show ?case by simp
next
  case (2 f)
  have "t = [] \<or> hd t \<noteq> quoteC" using assms(2) by (auto simp: newlineC_def quoteC_def)
  from csvRows_escaped [OF this, of f] assms(2) show ?case
    by (cases t) (auto simp: newlineC_def)
next
  case (3 f g fs)
  let ?rest = "joinWith '','' (map escapeCsv (g # fs)) @ t"
  have "csvRows False (escapeCsv f @ CHR '','' # ?rest)
      = headField ((@) f) (csvRows False (CHR '','' # ?rest))"
    by (rule csvRows_escaped) (simp add: quoteC_def)
  with 3 show ?case by (cases t) simp_all
qed

lemma csvRows_lines:
  assumes "\<forall>fs \<in> set recs. fs \<noteq> []"
  shows "csvRows False (concat (map (\<lambda>fs. joinWith '','' (map escapeCsv fs) @ [newlineC]) recs))
    = recs @ [[[]]]"
  using assms
proof (induction recs)
  case Nil
  then show ?case by simp
next
  case (Cons fs recs)
  let ?u = "concat (map (\<lambda>fs. joinWith '','' (map escapeCsv fs) @ [newlineC]) recs)"
  from Cons csvRows_line [of fs "newlineC # ?u"] show ?case by simp
qed

lemma joinWith_newlines:
  "joinWith [n] (ls @ [[]]) = concat (map (\<lambda>l. l @ [n]) ls)"
proof (induction ls)
  case Nil
  then show ?case by simp
next
  case (Cons l ls)
  then show ?case by (simp add: joinWith_Cons)
qed

lemma headers_line: "joinWith '','' CSV_HEADERS = joinWith '','' (map escapeCsv CSV_HEADERS)"
  by code_simp

lemma toScope3Csv_text:
  "toScope3Csv report = byteOrderMark @
     (if sc3_lineItems report = [] then joinWith '','' (map escapeCsv CSV_HEADERS)
      else concat (map (\<lambda>fs. joinWith '','' (map escapeCsv fs) @ [newlineC])
        (CSV_HEADERS # map csvFields (sc3_lineItems report))))"
  unfolding toScope3Csv_def headers_line
  by (simp add: Let_def joinWith_newlines [of _ "_ # _", simplified] csvLine_def comp_def)

section \<open>Lemmas on the summary\<close>

lemma groupRows_accumulateAll:
  "groupRows key rows = accumulateAll key noTotal (\<lambda>row. addTotal (rowTonnes row)) rows []"
  by (simp add: groupRows_def accumulateAll_def accumulate_def)

lemma foldl_addTotal:
  "foldl (\<lambda>g row. addTotal (rowTonnes row) g) \<lparr>gt_tonnes = t, gt_retirements = n\<rparr> rows =
     \<lparr>gt_tonnes = foldl num_add t (map rowTonnes rows), gt_retirements = n + length rows\<rparr>"
  by (induction rows arbitrary: t n) (simp_all add: addTotal_def)

lemma set_groupRows:
  "(k, g) \<in> set (groupRows key rows) \<longleftrightarrow> k \<in> key ` set rows \<and>
     g = \<lparr>gt_tonnes = num_sum (map rowTonnes (filter (\<lambda>r. key r = k) rows)),
          gt_retirements = length (filter (\<lambda>r. key r = k) rows)\<rparr>"
  by (simp add: groupRows_accumulateAll set_accumulateAll noTotal_def foldl_addTotal num_sum_def)

lemma fst_groupRows: "fst ` set (groupRows key rows) = key ` set rows"
proof (intro set_eqI iffI)
  fix k assume "k \<in> fst ` set (groupRows key rows)"
  then obtain g where "(k, g) \<in> set (groupRows key rows)" by auto
  then show "k \<in> key ` set rows" by (simp add: set_groupRows)
next
  fix k assume "k \<in> key ` set rows"
  then have "\<exists>g. (k, g) \<in> set (groupRows key rows)" by (simp add: set_groupRows)
  then show "k \<in> fst ` set (groupRows key rows)" by force
qed

lemma distinct_sortTotals: "distinct (map fst m) \<Longrightarrow> distinct (map fst (sortTotals m))"
  unfolding sortTotals_def by (metis mset_map mset_sortBy mset_eq_imp_distinct_iff)

text \<open>What a grouping of rows promises.\<close>

definition groupsOf ::
  "(retirement_row \<Rightarrow> 'k) \<Rightarrow> retirement_row list \<Rightarrow> ('k \<times> group_total) list \<Rightarrow> bool" where
  "groupsOf key rows gs \<longleftrightarrow>
     distinct (map fst gs) \<and> set (map fst gs) = key ` set rows \<and>
     (\<forall>(k, g) \<in> set gs.
        gt_tonnes g = num_sum (map rowTonnes (filter (\<lambda>r. key r = k) rows)) \<and>
        gt_retirements g = length (filter (\<lambda>r. key r = k) rows)) \<and>
     sum_list (map (\<lambda>(k, g). gt_retirements g) gs) = length rows"

lemma groupsOf_sortTotals: "groupsOf key rows (sortTotals (groupRows key rows))"
proof -
  let ?gs = "sortTotals (groupRows key rows)"
  have set: "set ?gs = set (groupRows key rows)" by (simp add: sortTotals_def)
  have dist: "distinct (map fst ?gs)"
    by (intro distinct_sortTotals)
       (simp add: groupRows_accumulateAll distinct_accumulateAll)
  have keys: "set (map fst ?gs) = key ` set rows"
    by (simp only: set_map set fst_groupRows)
  have each: "\<forall>(k, g) \<in> set ?gs.
      gt_tonnes g = num_sum (map rowTonnes (filter (\<lambda>r. key r = k) rows)) \<and>
      gt_retirements g = length (filter (\<lambda>r. key r = k) rows)"
    by (auto simp: set set_groupRows)
  have "map (\<lambda>(k, g). gt_retirements g) ?gs
      = map (\<lambda>k. length (filter (\<lambda>r. key r = k) rows)) (map fst ?gs)"
    using each by auto
  moreover have "sum_list (map (\<lambda>k. length (filter (\<lambda>r. key r = k) rows)) (map fst ?gs))
      = sum_list (map (\<lambda>_. 1) rows)"
    by (rule sum_over_groups [OF dist keys]) (simp add: sum_list_triv)
  ultimately have "sum_list (map (\<lambda>(k, g). gt_retirements g) ?gs) = sum_list (map (\<lambda>_. 1) rows)"
    by (simp only:)
  then have "sum_list (map (\<lambda>(k, g). gt_retirements g) ?gs) = length rows"
    by (simp add: sum_list_triv)
  with dist keys each show ?thesis by (simp add: groupsOf_def)
qed

text \<open>Whole tonnes: what the sums are when no rounding happens, and the order of the groups.\<close>

definition exactGroups ::
  "(retirement_row \<Rightarrow> int) \<Rightarrow> (retirement_row \<Rightarrow> 'k) \<Rightarrow> retirement_row list
   \<Rightarrow> ('k \<times> group_total) list \<Rightarrow> bool" where
  "exactGroups t key rows gs \<longleftrightarrow>
     (\<forall>(k, g) \<in> set gs. gt_tonnes g = ofInt (sum_list (map t (filter (\<lambda>r. key r = k) rows)))) \<and>
     sorted_wrt (\<lambda>a b. num_le (gt_tonnes (snd b)) (gt_tonnes (snd a))) gs"

lemma sum_list_filter_le:
  assumes "\<forall>r \<in> set rows. 0 \<le> (t r :: int)"
  shows "0 \<le> sum_list (map t (filter P rows)) \<and> sum_list (map t (filter P rows)) \<le> sum_list (map t rows)"
  using assms by (induction rows) auto

lemma num_sum_exact:
  assumes "\<forall>r \<in> set rows. rowTonnes r = ofInt (t r) \<and> 0 \<le> t r"
    and "safeInt (sum_list (map t rows))"
  shows "num_sum (map rowTonnes (filter P rows)) = ofInt (sum_list (map t (filter P rows)))"
proof -
  have "map rowTonnes (filter P rows) = map ofInt (map t (filter P rows))"
    using assms(1) by simp
  moreover have "safeInt (0 + sum_list (map t (filter P rows)))"
    using sum_list_filter_le [of rows t P] assms safeInt_between [OF safeInt_0 assms(2)] by simp
  ultimately show ?thesis
    using foldl_num_add_ofInt [of 0 "map t (filter P rows)"] assms(1)
    by (simp add: num_sum_def del: map_map)
qed

lemma exactGroups_sortTotals:
  assumes "\<forall>r \<in> set rows. rowTonnes r = ofInt (t r) \<and> 0 \<le> t r"
    and "safeInt (sum_list (map t rows))"
  shows "exactGroups t key rows (sortTotals (groupRows key rows))"
proof -
  let ?m = "groupRows key rows"
  let ?v = "\<lambda>a :: 'a \<times> group_total. sum_list (map t (filter (\<lambda>r. key r = fst a) rows))"
  have val: "gt_tonnes (snd a) = ofInt (?v a)" if "a \<in> set ?m" for a
  proof -
    from that have "(fst a, snd a) \<in> set ?m" by simp
    then have "gt_tonnes (snd a) = num_sum (map rowTonnes (filter (\<lambda>r. key r = fst a) rows))"
      unfolding set_groupRows by (metis group_total.select_convs(1))
    then show ?thesis by (simp add: num_sum_exact [OF assms])
  qed
  have sum: "0 \<le> ?v a" "?v a \<le> sum_list (map t rows)" for a
    using sum_list_filter_le [of rows t] assms(1) by auto
  have safe: "safeInt (?v b - ?v a)" for a b
    using sum [of a] sum [of b] assms(2) by (auto simp: safeInt_def)
  have "sortTotals ?m = sortBy (\<lambda>a b. ?v a < ?v b) ?m"
    unfolding sortTotals_def by (rule sortBy_cong) (simp add: val num_sub_ofInt [OF safe])
  moreover have "sorted_wrt (\<lambda>a b. \<not> ?v a < ?v b) (sortBy (\<lambda>a b. ?v a < ?v b) ?m)"
    by (rule sorted_sortBy) auto
  ultimately have "sorted_wrt (\<lambda>a b. ?v b \<le> ?v a) (sortTotals ?m)" by (simp add: not_less)
  moreover have "num_le (gt_tonnes (snd b)) (gt_tonnes (snd a)) \<longleftrightarrow> ?v b \<le> ?v a"
    if "a \<in> set (sortTotals ?m)" "b \<in> set (sortTotals ?m)" for a b
    using that by (simp add: sortTotals_def val)
  ultimately have "sorted_wrt (\<lambda>a b. num_le (gt_tonnes (snd b)) (gt_tonnes (snd a))) (sortTotals ?m)"
    by (auto intro: sorted_wrt_mono_rel [of "sortTotals ?m" "\<lambda>a b. ?v b \<le> ?v a"])
  moreover have "\<forall>(k, g) \<in> set (sortTotals ?m). gt_tonnes g = ofInt (?v (k, g))"
    using val by (auto simp: sortTotals_def)
  ultimately show ?thesis by (simp add: exactGroups_def)
qed

section \<open>Properties\<close>

text \<open>
  C28. The export is the byte order mark followed by a text from which a CSV reader
  recovers the header row and, for every line item, exactly its fifteen fields, whatever quotes,
  commas and line breaks they contain.
\<close>

theorem csv_roundtrip:
  "take 3 (toScope3Csv report) = byteOrderMark \<and>
   readCsv (drop 3 (toScope3Csv report)) = CSV_HEADERS # map csvFields (sc3_lineItems report)"
proof (cases "sc3_lineItems report = []")
  case True
  have "csvRows False (joinWith '','' (map escapeCsv CSV_HEADERS)) = [CSV_HEADERS]"
    using csvRows_line [of CSV_HEADERS "[]"] by (simp add: CSV_HEADERS_def)
  with True show ?thesis
    by (simp add: toScope3Csv_text byteOrderMark_def readCsv_def) (simp add: CSV_HEADERS_def)
next
  case False
  let ?recs = "CSV_HEADERS # map csvFields (sc3_lineItems report)"
  have "csvRows False (concat (map (\<lambda>fs. joinWith '','' (map escapeCsv fs) @ [newlineC]) ?recs))
      = ?recs @ [[[]]]"
    by (rule csvRows_lines) (auto simp: CSV_HEADERS_def csvFields_def)
  with False show ?thesis
    by (simp add: toScope3Csv_text byteOrderMark_def readCsv_def del: map_append)
qed

text \<open>
  C29. A report lists exactly the retirements of the account (of the calendar
  year, when one is given), newest first and each with its credit, and groups them by methodology,
  geography and vintage: every group holds the number and the sum of its retirements, and the
  groups of each kind together count every retirement once.
\<close>

definition inYear :: "env \<Rightarrow> int option \<Rightarrow> retirement \<Rightarrow> bool" where
  "inYear E year r = when_given (givenInt year) (\<lambda>y.
     case (dateParse E (showInt y @ ''-01-01T00:00:00.000Z''),
           dateParse E (showInt (y + 1) @ ''-01-01T00:00:00.000Z'')) of
       (Some a, Some b) \<Rightarrow> a \<le> rt_timestamp r \<and> rt_timestamp r < b | _ \<Rightarrow> False)"

lemma mapS_pair_fst:
  "mapS (\<lambda>r. case f r of None \<Rightarrow> Inl e | Some c \<Rightarrow> Inr (r, c)) rs = Inr rows \<Longrightarrow>
   map fst rows = rs \<and> (\<forall>(r, c) \<in> set rows. f r = Some c)"
  by (induction rs arbitrary: rows) (auto simp: bindS_Inr_iff split: option.splits)

lemma fetchRetirements_InrD:
  assumes "fetchRetirements E w userId year = Inr rows"
  shows "map fst rows =
      descBy rt_timestamp (filter (\<lambda>r. rt_retiredById r = userId \<and> inYear E year r) (retirements w))"
    and "\<forall>(r, c) \<in> set rows. creditRow w (rt_creditId r) = Some c"
proof -
  from assms obtain rs where
    "rs = filter (\<lambda>r. rt_retiredById r = userId \<and> inYear E year r) (retirements w)"
    "mapS (\<lambda>r. case creditRow w (rt_creditId r) of
        None \<Rightarrow> Inl (PrismaError ''P2025'') | Some c \<Rightarrow> Inr (r, c)) (descBy rt_timestamp rs) = Inr rows"
    by (auto simp: fetchRetirements_def Let_def bindS_Inr_iff inYear_def when_given_def
        split: option.splits)
  from mapS_pair_fst [OF this(2)] this(1) show
    "map fst rows =
      descBy rt_timestamp (filter (\<lambda>r. rt_retiredById r = userId \<and> inYear E year r) (retirements w))"
    "\<forall>(r, c) \<in> set rows. creditRow w (rt_creditId r) = Some c" by simp_all
qed

theorem getScope3Report_groups:
  assumes "getScope3Report E w userId wallet year = Inr report"
  shows "\<exists>rows. sc3_lineItems report = map toLineItem rows \<and>
    mset (map fst rows) =
      mset (filter (\<lambda>r. rt_retiredById r = userId \<and> inYear E year r) (retirements w)) \<and>
    sorted_wrt (\<lambda>x y. rt_timestamp y \<le> rt_timestamp x) (map fst rows) \<and>
    (\<forall>(r, c) \<in> set rows. creditRow w (rt_creditId r) = Some c) \<and>
    ss_totalRetirements (sc3_summary report) = length rows \<and>
    groupsOf methodologyKey rows (ss_byMethodology (sc3_summary report)) \<and>
    groupsOf geographyKey rows (ss_byGeography (sc3_summary report)) \<and>
    groupsOf vintageKey rows (ss_byVintage (sc3_summary report))"
proof -
  from assms obtain rows where rows: "fetchRetirements E w userId year = Inr rows"
    and rep: "sc3_summary report = buildSummary rows" "sc3_lineItems report = map toLineItem rows"
    by (auto simp: getScope3Report_def bindS_Inr_iff)
  have "groupsOf methodologyKey rows (ss_byMethodology (buildSummary rows)) \<and>
      groupsOf geographyKey rows (ss_byGeography (buildSummary rows)) \<and>
      groupsOf vintageKey rows (ss_byVintage (buildSummary rows))"
    by (simp add: buildSummary_def groupsOf_sortTotals)
  moreover have "ss_totalRetirements (buildSummary rows) = length rows"
    by (simp add: buildSummary_def)
  ultimately show ?thesis
    using fetchRetirements_InrD [OF rows] rep
    by (intro exI [of _ rows]) (simp add: sorted_descBy)
qed

definition demoRetirement :: "string \<Rightarrow> int \<Rightarrow> int \<Rightarrow> retirement" where
  "demoRetirement i n t = \<lparr>rt_id = i, rt_creditId = ''c2'', rt_retiredById = ''u1'',
     rt_beneficiary = ''A, B'', rt_reason = ''r'', rt_accountingPeriod = ''2024'',
     rt_tonnesRetired = ofInt n, rt_txHash = ''h'', rt_ledgerSequence = 0, rt_timestamp = t,
     rt_certificateHash = None\<rparr>"

definition demoReported :: world where
  "demoReported = demoWorld\<lparr>retirements := [demoRetirement ''r1'' 5 10, demoRetirement ''r2'' 7 20]\<rparr>"

theorem getScope3Report_groups_witness:
  "\<exists>report rows. getScope3Report demoEnv demoReported ''u1'' ''GISSUER'' None = Inr report \<and>
     sc3_lineItems report = map toLineItem rows \<and>
     groupsOf methodologyKey rows (ss_byMethodology (sc3_summary report))"
proof -
  have "\<exists>report. getScope3Report demoEnv demoReported ''u1'' ''GISSUER'' None = Inr report"
    by (simp add: getScope3Report_def fetchRetirements_def givenInt_def demoReported_def demoWorld_def
        emptyWorld_def demoRetirement_def creditRow_def demoCredit_def descBy_def sortBy_def)
  then obtain report where
    run: "getScope3Report demoEnv demoReported ''u1'' ''GISSUER'' None = Inr report" by blast
  with getScope3Report_groups [OF run] show ?thesis by blast
qed

text \<open>
  C30. When every retired amount is a whole non-negative number of tonnes and
  their sum is a safe integer, the total and the tonnes of every group are the exact sums, and each
  list of groups is in descending order of tonnes.
\<close>

theorem buildSummary_exact:
  assumes "\<forall>row \<in> set rows. rowTonnes row = ofInt (t row) \<and> 0 \<le> t row"
    and "safeInt (sum_list (map t rows))"
  shows "ss_totalTonnesRetired (buildSummary rows) = ofInt (sum_list (map t rows)) \<and>
    exactGroups t methodologyKey rows (ss_byMethodology (buildSummary rows)) \<and>
    exactGroups t geographyKey rows (ss_byGeography (buildSummary rows)) \<and>
    exactGroups t vintageKey rows (ss_byVintage (buildSummary rows))"
proof -
  have "foldl (\<lambda>s row. num_add s (rowTonnes row)) (ofInt 0) rows = num_sum (map rowTonnes rows)"
    by (simp add: num_sum_def foldl_map)
  then show ?thesis
    using num_sum_exact [OF assms, of "\<lambda>_. True"]
    by (simp add: buildSummary_def exactGroups_sortTotals [OF assms])
qed

theorem buildSummary_exact_witness:
  "ss_totalTonnesRetired (buildSummary
     [(demoRetirement ''r1'' 5 10, demoCredit ''c2'' 2 CActive),
      (demoRetirement ''r2'' 7 20, demoCredit ''c2'' 2 CActive)]) = ofInt 12"
proof -
  let ?t = "\<lambda>row :: retirement_row. if rt_id (fst row) = ''r1'' then 5 else 7 :: int"
  let ?rows = "[(demoRetirement ''r1'' 5 10, demoCredit ''c2'' 2 CActive),
      (demoRetirement ''r2'' 7 20, demoCredit ''c2'' 2 CActive)]"
  have "\<forall>row \<in> set ?rows. rowTonnes row = ofInt (?t row) \<and> 0 \<le> ?t row"
    "safeInt (sum_list (map ?t ?rows))"
    by (simp_all add: rowTonnes_def demoRetirement_def safeInt_def)
  from buildSummary_exact [OF this] show ?thesis by (simp add: demoRetirement_def)
qed

end
