(* ===== verification/Payloads.thy ===== *)
theory Payloads
  imports Clients Reporting Observability Integrity ApiTypes
begin

text \<open>
  What the service answers to a reading request, as the JSON value that travels, and what the two
  clients declare to receive.  Each \<open>\<dots>Json\<close> function renders the columns that the service's
  \<open>include\<close> or \<open>select\<close> names.  \<open>JSON.stringify\<close> writes a date as its ISO text, a missing optional
  column as \<open>null\<close> and a number that is not finite as \<open>null\<close>.

  The main result is that on stored data with intact references and finite numbers every answer
  has the type both clients declare for it, except for the requests that \<open>sdkDiffers\<close> and
  \<open>webDiffers\<close> list; for each of those a stored state is given whose answer does not have it.
\<close>

section \<open>Rendering rows\<close>

definition jsonNum :: "jsnum \<Rightarrow> jsval" where
  "jsonNum x = (if isFinite x then JNum x else JNull)"

definition jsonInt :: "int \<Rightarrow> jsval" where
  "jsonInt n = JNum (ofInt n)"

definition jsonDate :: "int \<Rightarrow> jsval" where
  "jsonDate t = JStr (isoString t)"

definition jsonOpt :: "('a \<Rightarrow> jsval) \<Rightarrow> 'a option \<Rightarrow> jsval" where
  "jsonOpt f x = (case x of None \<Rightarrow> JNull | Some y \<Rightarrow> f y)"

fun creditStatusText :: "credit_status \<Rightarrow> string" where
  "creditStatusText CPending = ''PENDING''"
| "creditStatusText CActive = ''ACTIVE''"
| "creditStatusText CRetired = ''RETIRED''"
| "creditStatusText CRejected = ''REJECTED''"
| "creditStatusText CBridged = ''BRIDGED''"

fun offerStatusText :: "offer_status \<Rightarrow> string" where
  "offerStatusText OActive = ''ACTIVE''"
| "offerStatusText OFilled = ''FILLED''"
| "offerStatusText OCancelled = ''CANCELLED''"
| "offerStatusText OExpired = ''EXPIRED''"

fun verifierStatusText :: "verifier_status \<Rightarrow> string" where
  "verifierStatusText VPending = ''PENDING''"
| "verifierStatusText VActive = ''ACTIVE''"
| "verifierStatusText VSlashed = ''SLASHED''"
| "verifierStatusText VUnregistered = ''UNREGISTERED''"

fun bridgeStatusText :: "bridge_status \<Rightarrow> string" where
  "bridgeStatusText Inbound = ''INBOUND''"
| "bridgeStatusText Outbound = ''OUTBOUND''"

text \<open>All columns of a credit, as \<open>findMany\<close> without a \<open>select\<close> returns them.\<close>

definition creditColumns :: "credit \<Rightarrow> (string \<times> jsval) list" where
  "creditColumns c = [(''id'', JStr (cr_id c)), (''creditId'', jsonInt (cr_creditId c)),
     (''projectId'', JStr (cr_projectId c)), (''methodology'', JStr (cr_methodology c)),
     (''vintageStart'', jsonDate (cr_vintageStart c)), (''vintageEnd'', jsonDate (cr_vintageEnd c)),
     (''tonnes'', jsonNum (cr_tonnes c)), (''geography'', JStr (cr_geography c)),
     (''serialPrefix'', JStr (cr_serialPrefix c)), (''sdgFlags'', jsonInt (cr_sdgFlags c)),
     (''permanenceRating'', jsonInt (cr_permanenceRating c)),
     (''bufferContributionPct'', jsonInt (cr_bufferContributionPct c)),
     (''additionalityType'', jsonInt (cr_additionalityType c)),
     (''ipfsHash'', JStr (cr_ipfsHash c)), (''status'', JStr (creditStatusText (cr_status c))),
     (''tokenId'', jsonOpt JStr (cr_tokenId c)), (''createdAt'', jsonDate (cr_createdAt c)),
     (''updatedAt'', jsonDate (cr_updatedAt c)), (''issuerId'', JStr (cr_issuerId c)),
     (''ownerId'', JStr (cr_ownerId c))]"

text \<open>\<open>{ select: { id: true, stellarPub: true } }\<close>\<close>

definition userJson :: "user_ref option \<Rightarrow> jsval" where
  "userJson r = jsonOpt (\<lambda>u. JObj [(''id'', JStr (ur_id u)), (''stellarPub'', JStr (ur_stellarPub u))]) r"

definition approvalJson :: "approval \<times> user_ref option \<Rightarrow> jsval" where
  "approvalJson p = (let a = fst p in
     JObj [(''id'', JStr (ap_id a)), (''creditId'', JStr (ap_creditId a)),
       (''verifierId'', JStr (ap_verifierId a)), (''approved'', JBool (ap_approved a)),
       (''comments'', jsonOpt JStr (ap_comments a)), (''createdAt'', jsonDate (ap_createdAt a)),
       (''verifier'', userJson (snd p))])"

text \<open>\<open>_count: { select: { approvals: true, offers: true } }\<close>\<close>

definition creditCounts :: "world \<Rightarrow> credit \<Rightarrow> jsval" where
  "creditCounts w c = JObj [(''approvals'', jsonInt (int (length (creditApprovals w c)))),
     (''offers'', jsonInt (int (length (filter (\<lambda>r. of_creditId r = cr_id c) (offers w)))))]"

definition listedCreditJson :: "world \<Rightarrow> credit \<Rightarrow> jsval" where
  "listedCreditJson w c = JObj (creditColumns c @
     [(''issuer'', userJson (userRef w (cr_issuerId c))),
      (''owner'', userJson (userRef w (cr_ownerId c))), (''_count'', creditCounts w c)])"

definition creditViewJson :: "credit_view \<Rightarrow> jsval" where
  "creditViewJson v = JObj (creditColumns (cv_credit v) @
     [(''issuer'', userJson (cv_issuer v)), (''owner'', userJson (cv_owner v)),
      (''approvals'', JArr (map approvalJson (cv_approvals v)))])"

definition ownedCreditJson :: "world \<Rightarrow> credit \<Rightarrow> jsval" where
  "ownedCreditJson w c = JObj (creditColumns c @
     [(''issuer'', userJson (userRef w (cr_issuerId c))), (''_count'', creditCounts w c)])"

fun eventTypeText :: "event_type \<Rightarrow> string" where
  "eventTypeText Issuance = ''ISSUANCE''"
| "eventTypeText ApprovalEvent = ''APPROVAL''"
| "eventTypeText Rejection = ''REJECTION''"
| "eventTypeText Minted = ''MINTED''"

definition historyJson :: "history_entry \<Rightarrow> jsval" where
  "historyJson h = JObj [(''type'', JStr (eventTypeText (he_type h))),
     (''timestamp'', jsonDate (he_timestamp h)), (''actor'', JStr (he_actor h)),
     (''details'', he_details h)]"

definition pageJson :: "('r \<Rightarrow> jsval) \<Rightarrow> 'r page \<Rightarrow> jsval" where
  "pageJson f p = JObj [(''data'', JArr (map f (pg_data p))),
     (''meta'', JObj [(''total'', jsonInt (int (pg_total p))), (''page'', jsonInt (pg_page p)),
        (''limit'', jsonInt (pg_limit p)), (''totalPages'', jsonInt (pg_totalPages p))])]"

definition offerColumns :: "offer \<Rightarrow> (string \<times> jsval) list" where
  "offerColumns r = [(''id'', JStr (of_id r)), (''offerId'', jsonInt (of_offerId r)),
     (''creditId'', JStr (of_creditId r)), (''sellerId'', JStr (of_sellerId r)),
     (''pricePerTonne'', jsonNum (of_pricePerTonne r)), (''amount'', jsonNum (of_amount r)),
     (''amountFilled'', jsonNum (of_amountFilled r)), (''currency'', JStr (of_currency r)),
     (''status'', JStr (offerStatusText (of_status r))),
     (''expiresAt'', jsonOpt jsonDate (of_expiresAt r)), (''createdAt'', jsonDate (of_createdAt r))]"

text \<open>The \<open>include\<close> of \<open>getListings\<close>.\<close>

definition listingJson :: "world \<Rightarrow> offer \<Rightarrow> jsval" where
  "listingJson w r = JObj (offerColumns r @
     [(''credit'', jsonOpt (\<lambda>c. JObj [(''creditId'', jsonInt (cr_creditId c)),
         (''projectId'', JStr (cr_projectId c)), (''methodology'', JStr (cr_methodology c)),
         (''geography'', JStr (cr_geography c)), (''vintageStart'', jsonDate (cr_vintageStart c)),
         (''vintageEnd'', jsonDate (cr_vintageEnd c)), (''tonnes'', jsonNum (cr_tonnes c)),
         (''status'', JStr (creditStatusText (cr_status c)))]) (creditById w (of_creditId r))),
      (''seller'', userJson (userRef w (of_sellerId r))),
      (''_count'', JObj [(''trades'', jsonInt (int (length
         (filter (\<lambda>t. tr_offerId t = of_id r) (trades w)))))])])"

text \<open>The \<open>include\<close> of \<open>createOffer\<close>.\<close>

definition newOfferJson :: "world \<Rightarrow> offer \<Rightarrow> jsval" where
  "newOfferJson w r = JObj (offerColumns r @
     [(''credit'', jsonOpt (\<lambda>c. JObj [(''creditId'', jsonInt (cr_creditId c)),
         (''projectId'', JStr (cr_projectId c)), (''methodology'', JStr (cr_methodology c))])
         (creditById w (of_creditId r))),
      (''seller'', userJson (userRef w (of_sellerId r)))])"

definition tradeJson :: "world \<Rightarrow> trade \<Rightarrow> jsval" where
  "tradeJson w t = JObj [(''id'', JStr (tr_id t)), (''offerId'', JStr (tr_offerId t)),
     (''buyerId'', JStr (tr_buyerId t)), (''amount'', jsonNum (tr_amount t)),
     (''totalPrice'', jsonNum (tr_totalPrice t)), (''createdAt'', jsonDate (tr_createdAt t)),
     (''creditId'', JStr (tr_creditId t)),
     (''credit'', jsonOpt (\<lambda>c. JObj [(''creditId'', jsonInt (cr_creditId c)),
        (''projectId'', JStr (cr_projectId c)), (''methodology'', JStr (cr_methodology c)),
        (''geography'', JStr (cr_geography c))]) (creditById w (tr_creditId t))),
     (''offer'', jsonOpt (\<lambda>r. JObj [(''offerId'', jsonInt (of_offerId r)),
        (''pricePerTonne'', jsonNum (of_pricePerTonne r)),
        (''seller'', JObj [(''stellarPub'', JStr (pubOf (userRef w (of_sellerId r))))])])
        (List.find (\<lambda>r. of_id r = tr_offerId t) (offers w)))]"

definition pricePointJson :: "price_point \<Rightarrow> jsval" where
  "pricePointJson p = JObj [(''date'', JStr (pp_date p)), (''volume'', jsonNum (pp_volume p)),
     (''vwap'', jsonNum (pp_vwap p)), (''tradeCount'', jsonInt (int (pp_tradeCount p)))]"

definition statsJson :: "market_stats \<Rightarrow> jsval" where
  "statsJson s = JObj [(''activeOffers'', jsonInt (int (ms_activeOffers s))),
     (''totalVolume'', jsonNum (ms_totalVolume s)), (''vwap'', jsonNum (ms_vwap s)),
     (''recentTrades'', JArr (map (\<lambda>t. JObj [(''totalPrice'', jsonNum (tr_totalPrice t)),
        (''amount'', jsonNum (tr_amount t)), (''createdAt'', jsonDate (tr_createdAt t))])
        (ms_recentTrades s)))]"

definition certificateJson :: "certificate_view \<Rightarrow> jsval" where
  "certificateJson v = (let c = cw_certificate v in
     JObj [(''id'', JStr (ce_id c)), (''certificateHash'', jsonOpt JStr (ce_certificateHash c)),
       (''txHash'', jsonOpt JStr (ce_txHash c)), (''metadata'', ce_metadata c),
       (''pdfUrl'', jsonOpt JStr (ce_pdfUrl c)), (''createdAt'', jsonDate (ce_createdAt c)),
       (''owner'', JStr (cw_owner v)),
       (''retirement'', jsonOpt (\<lambda>rc. let r = fst rc in
          JObj [(''beneficiary'', JStr (rt_beneficiary r)), (''reason'', JStr (rt_reason r)),
            (''tonnesRetired'', jsonNum (rt_tonnesRetired r)),
            (''timestamp'', jsonDate (rt_timestamp r)), (''txHash'', JStr (rt_txHash r)),
            (''credit'', jsonOpt (\<lambda>cr. JObj [(''creditId'', jsonInt (cr_creditId cr)),
               (''projectId'', JStr (cr_projectId cr)), (''methodology'', JStr (cr_methodology cr)),
               (''geography'', JStr (cr_geography cr)),
               (''vintageStart'', jsonDate (cr_vintageStart cr)),
               (''vintageEnd'', jsonDate (cr_vintageEnd cr)), (''tonnes'', jsonNum (cr_tonnes cr)),
               (''serialPrefix'', JStr (cr_serialPrefix cr))]) (snd rc))]) (cw_retirement v))])"

definition retirementCertificateJson :: "certificate_data \<Rightarrow> jsval" where
  "retirementCertificateJson d = (let c = cf_credit d in
     JObj [(''credit'', JObj [(''creditId'', jsonInt (cr_creditId c)),
         (''projectId'', JStr (cr_projectId c)), (''methodology'', JStr (cr_methodology c)),
         (''geography'', JStr (cr_geography c)), (''vintageStart'', jsonDate (cr_vintageStart c)),
         (''vintageEnd'', jsonDate (cr_vintageEnd c)), (''totalTonnes'', jsonNum (cr_tonnes c))]),
       (''retirements'', JArr (map (\<lambda>r. JObj [(''id'', JStr (rt_id r)),
         (''beneficiary'', JStr (rt_beneficiary r)), (''reason'', JStr (rt_reason r)),
         (''accountingPeriod'', JStr (rt_accountingPeriod r)),
         (''tonnesRetired'', jsonNum (rt_tonnesRetired r)), (''txHash'', JStr (rt_txHash r)),
         (''ledgerSequence'', jsonInt (rt_ledgerSequence r)),
         (''timestamp'', jsonDate (rt_timestamp r)),
         (''certificateHash'', jsonOpt JStr (rt_certificateHash r))]) (cf_retirements d)))])"

text \<open>What \<open>retire\<close> returns: the new row and the number and project of its credit.\<close>

definition retiredJson :: "credit \<Rightarrow> retirement \<Rightarrow> jsval" where
  "retiredJson c r = JObj [(''id'', JStr (rt_id r)), (''creditId'', JStr (rt_creditId r)),
     (''retiredById'', JStr (rt_retiredById r)), (''beneficiary'', JStr (rt_beneficiary r)),
     (''reason'', JStr (rt_reason r)), (''accountingPeriod'', JStr (rt_accountingPeriod r)),
     (''tonnesRetired'', jsonNum (rt_tonnesRetired r)), (''txHash'', JStr (rt_txHash r)),
     (''ledgerSequence'', jsonInt (rt_ledgerSequence r)), (''timestamp'', jsonDate (rt_timestamp r)),
     (''certificateHash'', jsonOpt JStr (rt_certificateHash r)),
     (''credit'', JObj [(''creditId'', jsonInt (cr_creditId c)),
        (''projectId'', JStr (cr_projectId c))])]"

definition verifierJson :: "world \<Rightarrow> verifier \<Rightarrow> jsval" where
  "verifierJson w v = JObj [(''id'', JStr (ve_id v)), (''userId'', JStr (ve_userId v)),
     (''status'', JStr (verifierStatusText (ve_status v))), (''stake'', jsonNum (ve_stake v)),
     (''reputation'', jsonInt (ve_reputation v)),
     (''heartbeatAt'', jsonOpt jsonDate (ve_heartbeatAt v)),
     (''createdAt'', jsonDate (ve_createdAt v)), (''user'', userJson (userRef w (ve_userId v)))]"

definition bridgeJson :: "world \<Rightarrow> bridge_record \<Rightarrow> jsval" where
  "bridgeJson w r = JObj [(''id'', JStr (br_id r)), (''creditId'', jsonInt (br_creditId r)),
     (''sourceRegistry'', JStr (br_sourceRegistry r)), (''sourceSerial'', JStr (br_sourceSerial r)),
     (''merkleRoot'', JStr (br_merkleRoot r)),
     (''status'', JStr (bridgeStatusText (br_status r))), (''bridgerId'', JStr (br_bridgerId r)),
     (''txHash'', JStr (br_txHash r)), (''timestamp'', jsonDate (br_timestamp r)),
     (''bridger'', userJson (userRef w (br_bridgerId r)))]"

definition webhookJson :: "webhook_view \<Rightarrow> jsval" where
  "webhookJson h = JObj [(''id'', JStr (wv_id h)), (''url'', JStr (wv_url h)),
     (''events'', JArr (map JStr (wv_events h))), (''active'', JBool (wv_active h)),
     (''createdAt'', jsonDate (wv_createdAt h)), (''updatedAt'', jsonDate (wv_updatedAt h))]"

definition deliveryJson :: "delivery \<Rightarrow> jsval" where
  "deliveryJson d = JObj [(''id'', JStr (de_id d)), (''webhookId'', JStr (de_webhookId d)),
     (''eventType'', JStr (de_eventType d)), (''success'', JBool (de_success d)),
     (''attempts'', jsonInt (int (de_attempts d))), (''statusCode'', jsonOpt jsonInt (de_statusCode d)),
     (''durationMs'', jsonInt (de_durationMs d)), (''error'', jsonOpt JStr (de_error d)),
     (''createdAt'', jsonDate (de_createdAt d))]"

definition systemJson :: "system_status \<Rightarrow> jsval" where
  "systemJson s = JObj [
     (''network'', JObj (case ss_network s of
        Some l \<Rightarrow> [(''connected'', JBool True), (''sequence'', jsonInt (fst l)),
          (''ledgerHash'', JStr (snd l))]
      | None \<Rightarrow> [(''connected'', JBool False)])),
     (''counts'', JObj [(''users'', jsonInt (int (ss_users s))),
        (''credits'', jsonInt (int (ss_credits s))), (''verifiers'', jsonInt (int (ss_verifiers s))),
        (''offers'', jsonInt (int (ss_offers s))),
        (''retirements'', jsonInt (int (ss_retirements s))),
        (''webhooks'', jsonInt (int (ss_webhooks s)))])]"

definition contractsJson :: "(string \<times> string option) list \<Rightarrow> jsval" where
  "contractsJson kvs = JObj (map (\<lambda>kv. (fst kv, jsonOpt JStr (snd kv))) kvs)"

fun healthText :: "health_status \<Rightarrow> string" where
  "healthText Healthy = ''ok''"
| "healthText Degraded = ''degraded''"
| "healthText Down = ''down''"

definition checkJson :: "health_check \<Rightarrow> jsval" where
  "checkJson c = JObj ([(''name'', JStr (hc_name c)),
     (''status'', JStr (if hc_ok c then ''ok'' else ''error''))]
     @ (case hc_detail c of None \<Rightarrow> [] | Some d \<Rightarrow> [(''detail'', JStr d)]))"

definition healthJson :: "health_result \<Rightarrow> jsval" where
  "healthJson h = JObj [(''status'', JStr (healthText (hr_status h))),
     (''checks'', JArr (map checkJson (hr_checks h))), (''timestamp'', JStr (hr_timestamp h))]"

definition lineItemJson :: "line_item \<Rightarrow> jsval" where
  "lineItemJson l = JObj [(''retirementId'', JStr (li_retirementId l)),
     (''creditId'', jsonInt (li_creditId l)), (''projectId'', JStr (li_projectId l)),
     (''methodology'', JStr (li_methodology l)), (''geography'', JStr (li_geography l)),
     (''vintageStart'', JStr (li_vintageStart l)), (''vintageEnd'', JStr (li_vintageEnd l)),
     (''serialPrefix'', JStr (li_serialPrefix l)), (''tonnesRetired'', jsonNum (li_tonnesRetired l)),
     (''beneficiary'', JStr (li_beneficiary l)), (''reason'', JStr (li_reason l)),
     (''accountingPeriod'', JStr (li_accountingPeriod l)),
     (''retirementDate'', JStr (li_retirementDate l)), (''txHash'', JStr (li_txHash l)),
     (''ledgerSequence'', jsonInt (li_ledgerSequence l)),
     (''certificateHash'', jsonOpt JStr (li_certificateHash l))]"

definition groupJson :: "string \<Rightarrow> ('k \<Rightarrow> jsval) \<Rightarrow> 'k \<times> group_total \<Rightarrow> jsval" where
  "groupJson dimension key g = JObj [(dimension, key (fst g)), (''tonnes'', jsonNum (gt_tonnes (snd g))),
     (''retirements'', jsonInt (int (gt_retirements (snd g))))]"

definition reportJson :: "scope3_report \<Rightarrow> jsval" where
  "reportJson r = (let s = sc3_summary r in
     JObj [(''reportType'', JStr ''scope3''), (''reportingPeriod'', JStr (sc3_reportingPeriod r)),
       (''generatedAt'', JStr (sc3_generatedAt r)),
       (''account'', JObj [(''wallet'', JStr (sc3_wallet r))]),
       (''summary'', JObj [(''totalTonnesRetired'', jsonNum (ss_totalTonnesRetired s)),
          (''totalRetirements'', jsonInt (int (ss_totalRetirements s))),
          (''totalCredits'', jsonInt (int (ss_totalCredits s))),
          (''byMethodology'', JArr (map (groupJson ''methodology'' JStr) (ss_byMethodology s))),
          (''byGeography'', JArr (map (groupJson ''geography'' JStr) (ss_byGeography s))),
          (''byVintage'', JArr (map (groupJson ''vintage'' jsonInt) (ss_byVintage s)))]),
       (''lineItems'', JArr (map lineItemJson (sc3_lineItems r)))])"

section \<open>Requests and answers\<close>

text \<open>
  The reading requests.  \<open>QOwnedCertificates\<close> carries the caller as the client means it; the path
  \<open>/certificates/owned\<close> is served by the route of one certificate, which reads \<open>owned\<close> as its id.
\<close>

datatype query =
    QCredits credit_filter | QCredit int | QProvenance int | QOwnedCredits string
  | QListings listing_filter | QTrades string | QPriceHistory | QStats
  | QCertificate string | QOwnedCertificates string | QRetirementCertificate int
  | QVerifiers | QBridgeRecords bridge_filter | QWebhooks string
  | QDeliveries string "string option" jsnum | QSystem | QContracts
  | QHealth "(string + unit) option" "string + unit"

fun answer :: "env \<Rightarrow> world \<Rightarrow> query \<Rightarrow> api_error + jsval" where
  "answer E w (QCredits f) =
     bindS (getCredits E w f) (\<lambda>p. Inr (pageJson (listedCreditJson w) p))"
| "answer E w (QCredit n) = bindS (getCredit w n) (\<lambda>v. Inr (creditViewJson v))"
| "answer E w (QProvenance n) = bindS (getProvenance w n) (\<lambda>hs. Inr (JArr (map historyJson hs)))"
| "answer E w (QOwnedCredits uid) = Inr (JArr (map (ownedCreditJson w) (getOwnedCredits w uid)))"
| "answer E w (QListings f) = bindS (getListings w f) (\<lambda>p. Inr (pageJson (listingJson w) p))"
| "answer E w (QTrades uid) = Inr (JArr (map (tradeJson w) (getTradeHistory w uid)))"
| "answer E w QPriceHistory = Inr (JArr (map pricePointJson (getPriceHistory w)))"
| "answer E w QStats = Inr (statsJson (getStats w))"
| "answer E w (QCertificate i) = bindS (getCertificate w i) (\<lambda>v. Inr (certificateJson v))"
| "answer E w (QOwnedCertificates uid) =
     bindS (getCertificate w ''owned'') (\<lambda>v. Inr (certificateJson v))"
| "answer E w (QRetirementCertificate n) =
     bindS (getRetirementCertificate w n) (\<lambda>d. Inr (retirementCertificateJson d))"
| "answer E w QVerifiers = Inr (JArr (map (verifierJson w) (findAllVerifiers w)))"
| "answer E w (QBridgeRecords f) = Inr (pageJson (bridgeJson w) (getBridgeRecords w f))"
| "answer E w (QWebhooks uid) = Inr (JArr (map webhookJson (listWebhooks w uid)))"
| "answer E w (QDeliveries uid et limit) =
     Inr (JArr (map deliveryJson (listDeliveries w uid et limit)))"
| "answer E w QSystem = Inr (systemJson (getSystemStatus E w))"
| "answer E w QContracts = Inr (contractsJson (getContracts E))"
| "answer E w (QHealth raw counted) = Inr (healthJson (checkHealth E raw counted))"

text \<open>The return types of the client library's methods; it has none for the verifiers.\<close>

fun sdkReturn :: "query \<Rightarrow> ty option" where
  "sdkReturn (QCredits f) = Some (paginatedResponseT creditT)"
| "sdkReturn (QCredit n) = Some creditT"
| "sdkReturn (QProvenance n) = Some (TArr provenanceEventT)"
| "sdkReturn (QOwnedCredits uid) = Some (TArr creditT)"
| "sdkReturn (QListings f) = Some (paginatedResponseT offerT)"
| "sdkReturn (QTrades uid) = Some (TArr tradeT)"
| "sdkReturn QPriceHistory = Some (TObj [Req ''data'' (TArr pricePointT)])"
| "sdkReturn QStats = Some marketplaceStatsT"
| "sdkReturn (QCertificate i) = Some certificateT"
| "sdkReturn (QOwnedCertificates uid) = Some (TArr certificateT)"
| "sdkReturn (QRetirementCertificate n) = Some (TRecord TUnknown)"
| "sdkReturn QVerifiers = None"
| "sdkReturn (QBridgeRecords f) = Some (paginatedResponseT bridgeRecordT)"
| "sdkReturn (QWebhooks uid) = Some (TArr webhookT)"
| "sdkReturn (QDeliveries uid et limit) = Some (TArr webhookDeliveryT)"
| "sdkReturn QSystem = Some systemStatusT"
| "sdkReturn QContracts = Some (TRecord (TOr TString TNull))"
| "sdkReturn (QHealth raw counted) = Some deepHealthT"

text \<open>The return types of the functions of the front end's \<open>lib/api.ts\<close>; none reads the trades.\<close>

fun webReturn :: "query \<Rightarrow> ty option" where
  "webReturn (QCredits f) = Some (webPaginatedResponseT webCreditT)"
| "webReturn (QCredit n) = Some webCreditT"
| "webReturn (QProvenance n) = Some (TArr (TObj [Req ''type'' TString, Req ''timestamp'' TString,
     Req ''actor'' TString]))"
| "webReturn (QOwnedCredits uid) = Some (TArr webCreditT)"
| "webReturn (QListings f) = Some (webPaginatedResponseT webOfferT)"
| "webReturn (QTrades uid) = None"
| "webReturn QPriceHistory = Some (TObj [Req ''data'' (TArr webPricePointT)])"
| "webReturn QStats = Some webMarketplaceStatsT"
| "webReturn (QCertificate i) = Some webCertificateT"
| "webReturn (QOwnedCertificates uid) = Some (TArr webCertificateT)"
| "webReturn (QRetirementCertificate n) = Some (TRecord TUnknown)"
| "webReturn QVerifiers = Some (TArr webVerifierT)"
| "webReturn (QBridgeRecords f) = Some (webPaginatedResponseT webBridgeRecordT)"
| "webReturn (QWebhooks uid) = Some (TArr webWebhookT)"
| "webReturn (QDeliveries uid et limit) = Some (TArr webWebhookDeliveryT)"
| "webReturn QSystem = Some webSystemStatusT"
| "webReturn QContracts = Some webAdminContractsT"
| "webReturn (QHealth raw counted) = Some webDeepHealthT"

text \<open>The requests whose answers do not have the declared type.\<close>

fun sdkDiffers :: "query \<Rightarrow> bool" where
  "sdkDiffers (QOwnedCredits uid) = True"
| "sdkDiffers (QTrades uid) = True"
| "sdkDiffers QPriceHistory = True"
| "sdkDiffers QStats = True"
| "sdkDiffers (QCertificate i) = True"
| "sdkDiffers (QOwnedCertificates uid) = True"
| "sdkDiffers q = False"

fun webDiffers :: "query \<Rightarrow> bool" where
  "webDiffers (QHealth raw counted) = True"
| "webDiffers q = sdkDiffers q"

section \<open>Stored numbers\<close>

definition finiteRows :: "world \<Rightarrow> bool" where
  "finiteRows w \<longleftrightarrow>
     (\<forall>c \<in> set (credits w). isFinite (cr_tonnes c)) \<and>
     (\<forall>r \<in> set (offers w). isFinite (of_pricePerTonne r) \<and> isFinite (of_amount r) \<and>
        isFinite (of_amountFilled r)) \<and>
     (\<forall>v \<in> set (verifiers w). isFinite (ve_stake v))"

section \<open>Lemmas on rendered values\<close>

lemma jsonDate_text [simp]: "jsonDate t = JStr (isoString t)"
  by (simp add: jsonDate_def)

lemma jsonInt_num [simp]: "jsonInt n = JNum (Fin (of_int n))"
  by (simp add: jsonInt_def ofInt_def)

lemma jsonNum_finite [simp]: "isFinite x \<Longrightarrow> jsonNum x = JNum x"
  by (simp add: jsonNum_def)

lemma jsonOpt_None [simp]: "jsonOpt f None = JNull"
  and jsonOpt_Some [simp]: "jsonOpt f (Some x) = f x"
  by (simp_all add: jsonOpt_def)

lemma jsonOpt_text [simp]:
  "(case jsonOpt JStr y of JStr s \<Rightarrow> True | _ \<Rightarrow> False) \<longleftrightarrow> y \<noteq> None"
  "jsonOpt JStr y = JUndef \<longleftrightarrow> False" "jsonOpt JStr y = JNull \<longleftrightarrow> y = None"
  by (cases y; simp)+

lemma jsonOpt_date [simp]:
  "(case jsonOpt jsonDate y of JStr s \<Rightarrow> True | _ \<Rightarrow> False) \<longleftrightarrow> y \<noteq> None"
  "jsonOpt jsonDate y = JUndef \<longleftrightarrow> False" "jsonOpt jsonDate y = JNull \<longleftrightarrow> y = None"
  by (cases y; simp)+

lemma jsonOpt_int [simp]:
  "(case jsonOpt jsonInt y of JNum x \<Rightarrow> isFinite x | _ \<Rightarrow> False) \<longleftrightarrow> y \<noteq> None"
  "jsonOpt jsonInt y = JNull \<longleftrightarrow> y = None"
  by (cases y; simp)+

lemma none_or_some [simp]: "y = None \<or> (\<exists>x. y = Some x)"
  by (cases y) simp_all

lemma creditStatusText_cases:
  "creditStatusText s = ''PENDING'' \<or> creditStatusText s = ''ACTIVE'' \<or>
   creditStatusText s = ''RETIRED'' \<or> creditStatusText s = ''REJECTED'' \<or>
   creditStatusText s = ''BRIDGED''"
  by (cases s) simp_all

lemma offerStatusText_cases:
  "offerStatusText s = ''ACTIVE'' \<or> offerStatusText s = ''FILLED'' \<or>
   offerStatusText s = ''CANCELLED'' \<or> offerStatusText s = ''EXPIRED''"
  by (cases s) simp_all

lemma verifierStatusText_cases:
  "verifierStatusText s = ''PENDING'' \<or> verifierStatusText s = ''ACTIVE'' \<or>
   verifierStatusText s = ''SLASHED'' \<or> verifierStatusText s = ''UNREGISTERED''"
  by (cases s) simp_all

lemma bridgeStatusText_cases:
  "bridgeStatusText s = ''INBOUND'' \<or> bridgeStatusText s = ''OUTBOUND''"
  by (cases s) simp_all

lemmas statusText_cases = creditStatusText_cases offerStatusText_cases verifierStatusText_cases
  bridgeStatusText_cases

lemma userRef_exists: "userExists w i \<Longrightarrow> \<exists>u. userRef w i = Some u"
  by (cases "userById w i")
    (auto simp: userExists_def userRef_def userById_def find_None_iff)

lemma userJson_Some [simp]:
  "userJson (Some u) = JObj [(''id'', JStr (ur_id u)), (''stellarPub'', JStr (ur_stellarPub u))]"
  by (simp add: userJson_def)

lemma conforms_pageJson:
  assumes "\<And>r. r \<in> set (pg_data p) \<Longrightarrow> conforms l T (f r)"
  shows "conforms l (paginatedResponseT T) (pageJson f p)"
  using assms by (simp add: paginatedResponseT_def pageJson_def list_all_iff)

lemma conforms_map: "(\<And>r. r \<in> set rs \<Longrightarrow> conforms l T (f r)) \<Longrightarrow> conforms l (TArr T) (JArr (map f rs))"
  by (simp add: list_all_iff)

text \<open>The rows that a stored row refers to.\<close>

lemma credit_refs:
  assumes "c \<in> set (credits w)" and "schemaOk w"
  obtains u v where "userRef w (cr_issuerId c) = Some u" and "userRef w (cr_ownerId c) = Some v"
proof -
  from assms have "userExists w (cr_issuerId c)" "userExists w (cr_ownerId c)"
    by (simp_all add: schemaOk_def refsOk_def)
  then show ?thesis using that userRef_exists by blast
qed

lemma approval_ref:
  assumes "a \<in> set (approvals w)" and "schemaOk w"
  obtains u where "userRef w (ap_verifierId a) = Some u"
proof -
  from assms have "userExists w (ap_verifierId a)" by (simp add: schemaOk_def refsOk_def)
  then show ?thesis using that userRef_exists by blast
qed

lemma offer_refs:
  assumes "r \<in> set (offers w)" and "schemaOk w"
  obtains u c where "userRef w (of_sellerId r) = Some u"
    and "creditById w (of_creditId r) = Some c" and "c \<in> set (credits w)"
proof -
  from assms have "userExists w (of_sellerId r)" "creditExists w (of_creditId r)"
    by (simp_all add: schemaOk_def refsOk_def)
  moreover from this obtain c where "creditById w (of_creditId r) = Some c"
    by (cases "creditById w (of_creditId r)")
      (auto simp: creditExists_def creditById_def find_None_iff)
  moreover from this have "c \<in> set (credits w)"
    by (auto simp: creditById_def dest: find_SomeD)
  ultimately show ?thesis using that userRef_exists by blast
qed

lemma verifier_ref:
  assumes "v \<in> set (verifiers w)" and "schemaOk w"
  obtains u where "userRef w (ve_userId v) = Some u"
proof -
  from assms have "userExists w (ve_userId v)" by (simp add: schemaOk_def refsOk_def)
  then show ?thesis using that userRef_exists by blast
qed

lemma bridge_ref:
  assumes "r \<in> set (bridgeRecords w)" and "schemaOk w"
  obtains u where "userRef w (br_bridgerId r) = Some u"
proof -
  from assms have "userExists w (br_bridgerId r)" by (simp add: schemaOk_def refsOk_def)
  then show ?thesis using that userRef_exists by blast
qed

section \<open>Typed answers\<close>

lemma listedCreditJson_typed:
  assumes "c \<in> set (credits w)" and "schemaOk w" and "finiteRows w"
  shows "conforms True creditT (listedCreditJson w c)"
proof -
  from assms(1,2) obtain u v
    where "userRef w (cr_issuerId c) = Some u" "userRef w (cr_ownerId c) = Some v"
    by (rule credit_refs)
  moreover have "isFinite (cr_tonnes c)" using assms by (simp add: finiteRows_def)
  ultimately show ?thesis
    using creditStatusText_cases [of "cr_status c"]
    by (simp add: creditT_def creditStatusT_def listedCreditJson_def creditColumns_def
        creditCounts_def)
qed

lemma approvalJson_typed:
  assumes "a \<in> set (approvals w)" and "schemaOk w"
  shows "conforms True approvalT (approvalJson (a, userRef w (ap_verifierId a)))"
proof -
  from assms obtain u where "userRef w (ap_verifierId a) = Some u" by (rule approval_ref)
  then show ?thesis by (simp add: approvalT_def approvalJson_def)
qed

lemma creditViewJson_typed:
  assumes "c \<in> set (credits w)" and "schemaOk w" and "finiteRows w"
    and "set (order (creditApprovals w c)) \<subseteq> set (approvals w)"
  shows "conforms True creditT (creditViewJson (creditView w order c))"
proof -
  from assms(1,2) obtain u v
    where "userRef w (cr_issuerId c) = Some u" "userRef w (cr_ownerId c) = Some v"
    by (rule credit_refs)
  moreover have "isFinite (cr_tonnes c)" using assms by (simp add: finiteRows_def)
  moreover have "conforms True (TArr approvalT)
      (JArr (map approvalJson (cv_approvals (creditView w order c))))"
    using assms(2,4) approvalJson_typed by (auto simp: creditView_def list_all_iff)
  ultimately show ?thesis
    using creditStatusText_cases [of "cr_status c"]
    by (simp add: creditT_def creditStatusT_def creditViewJson_def creditColumns_def creditView_def)
qed

lemma listingJson_typed:
  assumes "r \<in> set (offers w)" and "schemaOk w" and "finiteRows w"
  shows "conforms True offerT (listingJson w r)"
proof -
  from assms(1,2) obtain u c where "userRef w (of_sellerId r) = Some u"
    and "creditById w (of_creditId r) = Some c" and "c \<in> set (credits w)"
    by (rule offer_refs)
  moreover from this have "isFinite (cr_tonnes c)" using assms by (simp add: finiteRows_def)
  moreover have "isFinite (of_pricePerTonne r)" "isFinite (of_amount r)" "isFinite (of_amountFilled r)"
    using assms by (simp_all add: finiteRows_def)
  ultimately show ?thesis
    using offerStatusText_cases [of "of_status r"]
    by (simp add: offerT_def offerStatusT_def listingJson_def offerColumns_def)
qed

lemma verifierJson_typed:
  assumes "v \<in> set (verifiers w)" and "schemaOk w" and "finiteRows w"
  shows "conforms True verifierT (verifierJson w v)"
proof -
  from assms(1,2) obtain u where "userRef w (ve_userId v) = Some u" by (rule verifier_ref)
  moreover have "isFinite (ve_stake v)" using assms by (simp add: finiteRows_def)
  ultimately show ?thesis
    using verifierStatusText_cases [of "ve_status v"]
    by (simp add: verifierT_def verifierStatusT_def verifierJson_def)
qed

lemma bridgeJson_typed:
  assumes "r \<in> set (bridgeRecords w)" and "schemaOk w"
  shows "conforms True bridgeRecordT (bridgeJson w r)"
proof -
  from assms obtain u where "userRef w (br_bridgerId r) = Some u" by (rule bridge_ref)
  then show ?thesis
    using bridgeStatusText_cases [of "br_status r"]
    by (simp add: bridgeRecordT_def bridgeStatusT_def bridgeJson_def)
qed

lemma historyJson_typed: "conforms True provenanceEventT (historyJson h)"
  by (simp add: provenanceEventT_def historyJson_def)

lemma webhookJson_typed: "conforms True webhookT (webhookJson h)"
  by (simp add: webhookT_def webhookJson_def list_all_iff)

lemma deliveryJson_typed: "conforms True webhookDeliveryT (deliveryJson d)"
  by (cases "de_statusCode d"; cases "de_error d") (simp_all add: webhookDeliveryT_def deliveryJson_def)

lemma systemJson_typed: "conforms True systemStatusT (systemJson s)"
  by (cases "ss_network s") (simp_all add: systemStatusT_def systemJson_def)

lemma contractsJson_typed: "conforms True (TRecord (TOr TString TNull)) (contractsJson kvs)"
proof -
  have "conforms True (TOr TString TNull) (jsonOpt JStr x)" for x by (cases x) simp_all
  then show ?thesis by (simp add: contractsJson_def list_all_iff del: conforms.simps(1,4,10))
qed

lemma checkJson_typed: "conforms True deepHealthCheckT (checkJson c)"
  by (cases "hc_detail c") (simp_all add: deepHealthCheckT_def checkJson_def)

lemma healthJson_typed: "conforms True deepHealthT (healthJson h)"
  using checkJson_typed
  by (cases "hr_status h") (simp_all add: deepHealthT_def healthJson_def list_all_iff)

lemma retirementCertificateJson_typed:
  "conforms True (TRecord TUnknown) (retirementCertificateJson d)"
  by (simp add: retirementCertificateJson_def Let_def)

lemma set_pageOf: "r \<in> set (pageOf page limit rs) \<Longrightarrow> r \<in> set rs"
  by (auto simp: pageOf_def dest: in_set_takeD in_set_dropD)

lemma set_creditOrder [simp]: "set (creditOrder s cs) = set cs"
  by (simp add: creditOrder_def split: option.splits)

lemma getCredits_rows: "getCredits E w f = Inr p \<Longrightarrow> c \<in> set (pg_data p) \<Longrightarrow> c \<in> set (credits w)"
  by (auto simp: getCredits_def bindS_Inr_iff mkPage_def dest!: set_pageOf)

lemma getListings_rows: "getListings w f = Inr p \<Longrightarrow> r \<in> set (pg_data p) \<Longrightarrow> r \<in> set (offers w)"
  by (auto simp: getListings_def mkPage_def dest!: set_pageOf split: option.splits)

lemma getBridgeRecords_rows: "r \<in> set (pg_data (getBridgeRecords w f)) \<Longrightarrow> r \<in> set (bridgeRecords w)"
  by (auto simp: getBridgeRecords_def mkPage_def dest!: set_pageOf)

lemma getCredit_typed:
  assumes "getCredit w n = Inr v" and "schemaOk w" and "finiteRows w"
  shows "conforms True creditT (creditViewJson v)"
proof -
  from assms(1) obtain c where c: "creditByNumber w n = Some c" "v = creditView w (ascBy ap_createdAt) c"
    by (auto simp: getCredit_def split: option.splits)
  then have "c \<in> set (credits w)" by (auto simp: creditByNumber_def dest: find_SomeD)
  moreover have "set (ascBy ap_createdAt (creditApprovals w c)) \<subseteq> set (approvals w)"
    by (auto simp: creditApprovals_def)
  ultimately show ?thesis unfolding c(2) using assms by (intro creditViewJson_typed)
qed

lemma sdk_typed:
  assumes "schemaOk w" and "finiteRows w" and "answer E w q = Inr v"
    and "sdkReturn q = Some T" and "\<not> sdkDiffers q"
  shows "conforms True T v"
proof (cases q)
  case (QCredits f)
  with assms obtain p where "getCredits E w f = Inr p" "v = pageJson (listedCreditJson w) p"
    by (auto simp: bindS_Inr_iff)
  with QCredits assms show ?thesis
    by (auto simp del: conforms.simps intro!: conforms_pageJson listedCreditJson_typed
        dest: getCredits_rows)
next
  case (QListings f)
  with assms obtain p where "getListings w f = Inr p" "v = pageJson (listingJson w) p"
    by (auto simp: bindS_Inr_iff)
  with QListings assms show ?thesis
    by (auto simp del: conforms.simps intro!: conforms_pageJson listingJson_typed
        dest: getListings_rows)
next
  case (QCredit n)
  with assms show ?thesis by (auto simp del: conforms.simps simp: bindS_Inr_iff intro: getCredit_typed)
next
  case (QProvenance n)
  with assms show ?thesis
    by (auto simp del: conforms.simps simp: bindS_Inr_iff intro!: conforms_map historyJson_typed)
next
  case (QBridgeRecords f)
  with assms show ?thesis
    by (auto simp del: conforms.simps intro!: conforms_pageJson bridgeJson_typed
        dest: getBridgeRecords_rows)
next
  case (QRetirementCertificate n)
  with assms show ?thesis
    by (auto simp del: conforms.simps simp: bindS_Inr_iff intro: retirementCertificateJson_typed)
qed (use assms in \<open>auto simp del: conforms.simps intro!: conforms_map webhookJson_typed
      deliveryJson_typed systemJson_typed contractsJson_typed healthJson_typed\<close>)

text \<open>Where both clients declare a type by one name, they declare the same type.\<close>

lemma web_row_types:
  "webCreditT = creditT" "webOfferT = offerT" "webVerifierT = verifierT"
  "webRetirementT = retirementT" "webCertificateT = certificateT" "webTradeT = tradeT"
  "webBridgeRecordT = bridgeRecordT" "webWebhookT = webhookT"
  "webWebhookDeliveryT = webhookDeliveryT" "webPaginatedResponseT = paginatedResponseT"
  by (simp_all add: fun_eq_iff webCreditT_def creditT_def webCreditStatusT_def creditStatusT_def
      webApprovalT_def approvalT_def webOfferT_def offerT_def webOfferStatusT_def offerStatusT_def
      webVerifierT_def verifierT_def webVerifierStatusT_def verifierStatusT_def
      webRetirementT_def retirementT_def webCertificateT_def certificateT_def webTradeT_def
      tradeT_def webBridgeRecordT_def bridgeRecordT_def webBridgeStatusT_def bridgeStatusT_def
      webWebhookT_def webhookT_def webWebhookDeliveryT_def webhookDeliveryT_def
      webPaginatedResponseT_def paginatedResponseT_def)

lemma web_other_types:
  "webPricePointT = pricePointT" "webMarketplaceStatsT = marketplaceStatsT"
  "webProtocolStatsT = protocolStatsT" "webProtocolConfigT = protocolConfigT"
  "webSystemStatusT = systemStatusT" "webScope3ReportT = scope3ReportT"
  "webRegistryRootT = registryRootT" "webSourceRegistryT = sourceRegistryT"
  "webAuthChallengeT = challengeResponseT"
  by (simp_all add: webPricePointT_def pricePointT_def webMarketplaceStatsT_def
      marketplaceStatsT_def webProtocolStatsT_def protocolStatsT_def webProtocolConfigT_def
      protocolConfigT_def webSystemStatusT_def systemStatusT_def webScope3ReportT_def
      scope3ReportT_def webScope3SummaryT_def scope3SummaryT_def webScope3BreakdownEntryT_def
      scope3BreakdownEntryT_def webScope3LineItemT_def scope3LineItemT_def webRegistryRootT_def
      registryRootT_def webSourceRegistryT_def sourceRegistryT_def webAuthChallengeT_def
      challengeResponseT_def)

lemma web_typed:
  assumes "schemaOk w" and "finiteRows w" and "answer E w q = Inr v"
    and "webReturn q = Some T" and "\<not> webDiffers q"
  shows "conforms True T v"
proof (cases "q = QVerifiers")
  case True
  with assms show ?thesis
    by (auto simp: web_row_types findAllVerifiers_def simp del: conforms.simps
        intro!: conforms_map verifierJson_typed)
next
  case False
  with assms have "sdkReturn q = Some T" "\<not> sdkDiffers q"
    by (cases q; simp add: web_row_types web_other_types webAdminContractsT_def provenanceEventT_def)+
  with assms show ?thesis by (intro sdk_typed)
qed



section \<open>Answers that do not have the declared type\<close>

lemma owned_credits_ownerless:
  assumes "getOwnedCredits w uid \<noteq> []" and "answer E w (QOwnedCredits uid) = Inr v"
  shows "\<not> conforms l (TArr creditT) v"
proof -
  from assms obtain c cs where "getOwnedCredits w uid = c # cs" by (cases "getOwnedCredits w uid") auto
  with assms(2) have "v = JArr (ownedCreditJson w c # map (ownedCreditJson w) cs)" by simp
  moreover have "\<not> conforms l creditT (ownedCreditJson w c)"
    by (simp add: creditT_def ownedCreditJson_def creditColumns_def)
  ultimately show ?thesis by simp
qed

lemma trades_buyerless:
  assumes "getTradeHistory w uid \<noteq> []" and "answer E w (QTrades uid) = Inr v"
  shows "\<not> conforms l (TArr tradeT) v"
proof -
  from assms obtain t ts where "getTradeHistory w uid = t # ts" by (cases "getTradeHistory w uid") auto
  with assms(2) have "v = JArr (tradeJson w t # map (tradeJson w) ts)" by simp
  moreover have "\<not> conforms l tradeT (tradeJson w t)" by (simp add: tradeT_def tradeJson_def)
  ultimately show ?thesis by simp
qed

lemma price_history_untyped:
  "answer E w QPriceHistory = Inr v \<Longrightarrow> sdkReturn QPriceHistory = Some T \<Longrightarrow> \<not> conforms l T v"
  "\<not> conforms l pricePointT (pricePointJson p)"
  by (auto simp: pricePointT_def pricePointJson_def)

lemma stats_untyped:
  "answer E w QStats = Inr v \<Longrightarrow>
   \<not> conforms l marketplaceStatsT v \<and> getProp v ''openInterest'' = JUndef
   \<and> getProp v ''totalListings'' = JUndef"
  by (auto simp: marketplaceStatsT_def statsJson_def)

lemma certificate_retirement_untyped:
  assumes "answer E w (QCertificate i) = Inr v" and "getCertificate w i = Inr cv"
    and "cw_retirement cv \<noteq> None"
  shows "\<not> conforms l certificateT v"
  using assms by (auto simp: certificateT_def certificateJson_def retirementT_def Let_def bindS_Inr_iff)

lemma owned_certificates_untyped:
  "answer E w (QOwnedCertificates uid) = Inr v \<Longrightarrow> \<not> conforms l (TArr certificateT) v"
  by (auto simp: bindS_Inr_iff certificateJson_def Let_def)

lemma web_health_untyped:
  "answer E w (QHealth raw counted) = Inr v \<Longrightarrow> \<not> conforms l webDeepHealthT v"
  by (auto simp: webDeepHealthT_def webDeepHealthCheckT_def healthJson_def checkHealth_def Let_def
      checkJson_def list_all_iff checkDatabase_def split: option.splits sum.splits)

lemma new_offer_untyped: "\<not> conforms l offerT (newOfferJson w r)"
  by (cases "creditById w (of_creditId r)") (simp_all add: offerT_def newOfferJson_def offerColumns_def)

lemma retired_untyped: "\<not> conforms l retirementT (retiredJson c r)"
  by (simp add: retirementT_def retiredJson_def)

lemma token_response_untyped:
  "\<not> conforms l tokenResponseT (tokensBody t)" "conforms l webAuthSessionT (tokensBody t)"
  "conforms l challengeResponseT (challengeBody r)"
  by (simp_all add: tokenResponseT_def webAuthSessionT_def tokensBody_def challengeResponseT_def
      challengeBody_def)

text \<open>
  Read strictly, an optional property is missing or has its type, but a column without a value
  travels as \<open>null\<close>.
\<close>

lemma absent_column_is_null:
  "cr_tokenId c = None \<Longrightarrow> \<not> conforms False creditT (listedCreditJson w c)"
  by (simp add: creditT_def listedCreditJson_def creditColumns_def)

text \<open>
  The approval window of the contract's configuration is a 64-bit integer, which the decoder leaves
  a \<open>bigint\<close>; no JSON text exists for the answer, and the request for the configuration fails.
\<close>

lemma config_unserialisable:
  assumes "toNative E sv = JArr [a, t, q, JBig n, f, b]"
  shows "\<exists>v. decodeContractConfig E sv = Inr v \<and> hasBig v"
  using assms by (simp add: decodeContractConfig_def decodeStruct_def CONFIG_FIELDS_def)

text \<open>The report of the retirements, when its sums stay in the range of doubles.\<close>

lemma groupJson_typed:
  "isFinite (gt_tonnes (snd g)) \<Longrightarrow> dimension \<notin> {''tonnes'', ''retirements''} \<Longrightarrow>
   conforms l (TOr TString TNumber) (key (fst g)) \<Longrightarrow>
   conforms l scope3BreakdownEntryT (groupJson dimension key g)"
  by (auto simp: scope3BreakdownEntryT_def groupJson_def)

lemma lineItemJson_typed:
  "isFinite (li_tonnesRetired i) \<Longrightarrow> conforms l scope3LineItemT (lineItemJson i)"
  by (cases "li_certificateHash i") (simp_all add: scope3LineItemT_def lineItemJson_def)

lemma reportJson_typed:
  assumes "\<forall>i \<in> set (sc3_lineItems r). isFinite (li_tonnesRetired i)"
    and "isFinite (ss_totalTonnesRetired (sc3_summary r))"
    and "\<forall>g \<in> set (ss_byMethodology (sc3_summary r)). isFinite (gt_tonnes (snd g))"
    and "\<forall>g \<in> set (ss_byGeography (sc3_summary r)). isFinite (gt_tonnes (snd g))"
    and "\<forall>g \<in> set (ss_byVintage (sc3_summary r)). isFinite (gt_tonnes (snd g))"
  shows "conforms l scope3ReportT (reportJson r)"
proof -
  have "conforms l (TArr scope3LineItemT) (JArr (map lineItemJson (sc3_lineItems r)))"
    using assms(1) by (intro conforms_map lineItemJson_typed) simp
  moreover have
    "conforms l (TArr scope3BreakdownEntryT)
       (JArr (map (groupJson ''methodology'' JStr) (ss_byMethodology (sc3_summary r))))"
    "conforms l (TArr scope3BreakdownEntryT)
       (JArr (map (groupJson ''geography'' JStr) (ss_byGeography (sc3_summary r))))"
    "conforms l (TArr scope3BreakdownEntryT)
       (JArr (map (groupJson ''vintage'' jsonInt) (ss_byVintage (sc3_summary r))))"
    using assms(3-5) by (intro conforms_map groupJson_typed; simp)+
  ultimately show ?thesis
    using assms(2) by (simp add: scope3ReportT_def scope3SummaryT_def reportJson_def Let_def)
qed

end
