(* ===== verification/Drawing.thy ===== *)
theory Drawing
  imports WebRegistry ApiTypes
begin

text \<open>
  What a page of the front end draws.  A page or component is a function from its state to the
  elements it returns, or to the exception that evaluating its JSX throws: a member of \<open>undefined\<close>
  or \<open>null\<close>, or a method that the value does not have.  Icons, class names and other styling are left
  out; of an element its text, its buttons and fields with the events they dispatch, its links, and
  whether it is disabled are kept.  A component that keeps state of its own is drawn as an element
  with its name and its property; it has its own function.

  The locale \<open>drawn_page\<close> says when a page can always be drawn: answers of the declared types keep
  the state of the page typed, a typed state is drawn, and what the drawn page offers to dispatch
  carries typed values only.
\<close>

section \<open>Elements\<close>

text \<open>
  \<open>DBad\<close> is an object where React needs a node: evaluating the JSX succeeds, mounting the element
  throws.  A \<open>DBox\<close> with an event is an element with an \<open>onClick\<close> of its own.  \<open>DInput\<close> has its
  placeholder, its value and \<open>onChange\<close>; \<open>DSelect\<close> its value, its placeholder, its options and
  \<open>onValueChange\<close>; a \<open>DOption\<close> its value and whether it is disabled.
\<close>

datatype 'e drawn =
    DText string
  | DBad
  | DSpinner
  | DSkeleton
  | DComponent string jsval
  | DFrame string
  | DChart "jsval list"
  | DBadge string "'e drawn list"
  | DButton bool "'e option" "'e drawn list"
  | DLink string "'e drawn list"
  | DInput string string "string \<Rightarrow> 'e"
  | DCheck bool 'e
  | DSelect string string "'e drawn list" "string \<Rightarrow> 'e"
  | DOption string bool "'e drawn list"
  | DBox "'e option" "'e drawn list"
  | DTrigger string "'e drawn list"
  | DPanel string "'e drawn list"

text \<open>Whether React can mount the elements.\<close>

fun sound :: "'e drawn \<Rightarrow> bool" where
  "sound DBad = False"
| "sound (DBadge v ds) = list_all sound ds"
| "sound (DButton b e ds) = list_all sound ds"
| "sound (DLink h ds) = list_all sound ds"
| "sound (DSelect v pl ds f) = list_all sound ds"
| "sound (DOption v b ds) = list_all sound ds"
| "sound (DBox e ds) = list_all sound ds"
| "sound (DTrigger v ds) = list_all sound ds"
| "sound (DPanel v ds) = list_all sound ds"
| "sound d = True"

text \<open>
  The clicks that the elements offer, each with the events it dispatches: the element's own event
  and then those of the elements around it.  A disabled button or option offers none.
\<close>

fun clicks :: "'e drawn \<Rightarrow> 'e list list" where
  "clicks (DBadge v ds) = concat (map clicks ds)"
| "clicks (DButton b e ds) = (if b then [] else [case e of None \<Rightarrow> [] | Some x \<Rightarrow> [x]])"
| "clicks (DLink h ds) = concat (map clicks ds)"
| "clicks (DCheck b e) = [[e]]"
| "clicks (DSelect v pl ds f) =
     concat (map (\<lambda>d. case d of DOption x b _ \<Rightarrow> (if b then [] else [[f x]]) | _ \<Rightarrow> []) ds)"
| "clicks (DBox e ds) =
     (case e of None \<Rightarrow> concat (map clicks ds)
      | Some x \<Rightarrow> map (\<lambda>es. es @ [x]) (concat (map clicks ds)) @ [[x]])"
| "clicks (DTrigger v ds) = concat (map clicks ds)"
| "clicks (DPanel v ds) = concat (map clicks ds)"
| "clicks d = []"

section \<open>Evaluating JSX\<close>

type_synonym 'e drawing = "api_error + 'e drawn list"

type_synonym piece = "api_error + jsval"

definition typeError :: api_error where
  "typeError = JsError ''TypeError''"

text \<open>\<open>v.k\<close>; the optional \<open>v?.k\<close> is \<open>getProp\<close>.\<close>

definition dot :: "jsval \<Rightarrow> string \<Rightarrow> piece" where
  "dot v k = (if nullish v then Inl typeError else Inr (getProp v k))"

definition says :: "string \<Rightarrow> piece" where
  "says s = Inr (JStr s)"

text \<open>The text of a value as a child: nothing for \<open>null\<close>, \<open>undefined\<close> and the booleans.\<close>

fun childText :: "jsval \<Rightarrow> string" where
  "childText (JNum x) = num_to_string x"
| "childText (JBig n) = showInt n"
| "childText (JStr s) = s"
| "childText (JArr vs) = concat (map childText vs)"
| "childText v = []"

fun isNode :: "jsval \<Rightarrow> bool" where
  "isNode (JObj kvs) = False"
| "isNode (JBuf bs) = False"
| "isNode (JArr vs) = list_all isNode vs"
| "isNode v = True"

definition textNode :: "jsval list \<Rightarrow> 'e drawn" where
  "textNode vs = (if list_all isNode vs then DText (concat (map childText vs)) else DBad)"

definition line :: "piece list \<Rightarrow> 'e drawing" where
  "line ps = bindS (mapS (\<lambda>p. p) ps) (\<lambda>vs. Inr [textNode vs])"

fun parts :: "'e drawing list \<Rightarrow> 'e drawing" where
  "parts [] = Inr []"
| "parts (d # ds) = bindS d (\<lambda>xs. bindS (parts ds) (\<lambda>ys. Inr (xs @ ys)))"

declare parts.simps [simp del]

definition each :: "('a \<Rightarrow> 'e drawing) \<Rightarrow> 'a list \<Rightarrow> 'e drawing" where
  "each f xs = parts (map f xs)"

definition around :: "('e drawn list \<Rightarrow> 'e drawn) \<Rightarrow> 'e drawing list \<Rightarrow> 'e drawing" where
  "around f ds = bindS (parts ds) (\<lambda>xs. Inr [f xs])"

text \<open>\<open>c && d\<close>, with \<open>c\<close> a boolean.\<close>

definition onlyIf :: "bool \<Rightarrow> 'e drawing \<Rightarrow> 'e drawing" where
  "onlyIf c d = (if c then d else Inr [])"

definition words :: "string \<Rightarrow> 'e drawing" where
  "words s = Inr [DText s]"

definition cardOf :: "'e drawing list \<Rightarrow> 'e drawing" where
  "cardOf = around (DBox None)"

definition badge :: "string \<Rightarrow> piece list \<Rightarrow> 'e drawing" where
  "badge v ps = around (DBadge v) [line ps]"

definition button :: "bool \<Rightarrow> 'e \<Rightarrow> string \<Rightarrow> 'e drawing" where
  "button disabled e l = Inr [DButton disabled (Some e) [DText l]]"

text \<open>A button that shows a spinner while the page is busy.\<close>

definition busyButton :: "bool \<Rightarrow> bool \<Rightarrow> 'e \<Rightarrow> string \<Rightarrow> 'e drawing" where
  "busyButton busy disabled e l =
     Inr [DButton disabled (Some e) ((if busy then [DSpinner] else []) @ [DText l])]"

definition link :: "string \<Rightarrow> string \<Rightarrow> 'e drawing" where
  "link h l = Inr [DLink h [DText l]]"

definition linkTo :: "piece \<Rightarrow> string \<Rightarrow> 'e drawing" where
  "linkTo p l = bindS p (\<lambda>v. Inr [DLink (jsString v) [DText l]])"

text \<open>A label with its field.\<close>

definition fieldOf :: "string \<Rightarrow> string \<Rightarrow> string \<Rightarrow> (string \<Rightarrow> 'e) \<Rightarrow> 'e drawing" where
  "fieldOf l pl v f = Inr [DText l, DInput pl v f]"

definition choice :: "string \<Rightarrow> string \<Rightarrow> (string \<times> string) list \<Rightarrow> (string \<Rightarrow> 'e) \<Rightarrow> 'e drawing" where
  "choice v pl opts f = Inr [DSelect v pl (map (\<lambda>(x, l). DOption x False [DText l]) opts) f]"

text \<open>\<open>components/ui/dialog\<close>: an open dialog has a close button.  Its children are evaluated also
  while it is closed.\<close>

definition dialog :: "bool \<Rightarrow> 'e \<Rightarrow> 'e drawing list \<Rightarrow> 'e drawing" where
  "dialog opened closing ds = bindS (parts ds) (\<lambda>xs. Inr (if opened then
     [DBox None (xs @ [DButton False (Some closing) [DText ''Close'']])] else []))"

definition tableOf :: "string list \<Rightarrow> ('a \<Rightarrow> 'e drawing) \<Rightarrow> 'a list \<Rightarrow> 'e drawing" where
  "tableOf heads row xs = around (DBox None) [Inr (map DText heads), each (\<lambda>x. cardOf [row x]) xs]"

section \<open>Formatting\<close>

text \<open>
  What depends on the locale and the time zone of the browser: numbers with the given least and
  greatest number of fraction digits, dates, dates with time, the date of an event, and the
  calendar year.
\<close>

record intl =
  lo_number :: "nat option \<times> nat option \<Rightarrow> jsnum \<Rightarrow> string"
  lo_date :: "int \<Rightarrow> string"
  lo_dateTime :: "int \<Rightarrow> string"
  lo_eventTime :: "int \<Rightarrow> string"
  lo_year :: "int \<Rightarrow> int"

fun localeText :: "intl \<Rightarrow> nat option \<times> nat option \<Rightarrow> jsval \<Rightarrow> string" where
  "localeText L o1 (JNum x) = lo_number L o1 x"
| "localeText L o1 (JArr vs) = joinWith '','' (map (localeText L o1) vs)"
| "localeText L o1 v = elemText v"

text \<open>\<open>v.toLocaleString(undefined, options)\<close>\<close>

definition toLocale :: "intl \<Rightarrow> nat option \<times> nat option \<Rightarrow> piece \<Rightarrow> piece" where
  "toLocale L o1 p = bindS p (\<lambda>v. if nullish v then Inl typeError else Inr (JStr (localeText L o1 v)))"

abbreviation plainLocale :: "nat option \<times> nat option" where
  "plainLocale \<equiv> (None, None)"

text \<open>\<open>x.toFixed(n)\<close>: the decimal with \<open>n\<close> fraction digits nearest to the value, the larger of two.\<close>

definition fixedText :: "nat \<Rightarrow> jsnum \<Rightarrow> string" where
  "fixedText n x = (case x of
     Fin r \<Rightarrow> (if 10 ^ 21 \<le> \<bar>r\<bar> then num_to_string x
       else (let ds = padLeft (Suc n) (showInt \<lfloor>\<bar>r\<bar> * 10 ^ n + 1 / 2\<rfloor>); k = length ds - n in
         (if r < 0 then ''-'' else []) @ take k ds @ (if n = 0 then [] else ''.'' @ drop k ds)))
   | _ \<Rightarrow> num_to_string x)"

definition toFixed :: "nat \<Rightarrow> piece \<Rightarrow> piece" where
  "toFixed n p = bindS p (\<lambda>v. case v of JNum x \<Rightarrow> Inr (JStr (fixedText n x)) | _ \<Rightarrow> Inl typeError)"

text \<open>\<open>v.slice(0, n)\<close>\<close>

definition sliced :: "nat \<Rightarrow> piece \<Rightarrow> piece" where
  "sliced n p = bindS p (\<lambda>v. case v of JStr s \<Rightarrow> Inr (JStr (take n s))
     | JArr vs \<Rightarrow> Inr (JArr (take n vs)) | _ \<Rightarrow> Inl typeError)"

text \<open>\<open>v.slice(-n)\<close>\<close>

definition slicedEnd :: "nat \<Rightarrow> piece \<Rightarrow> piece" where
  "slicedEnd n p = bindS p (\<lambda>v. case v of JStr s \<Rightarrow> Inr (JStr (drop (length s - n) s))
     | JArr vs \<Rightarrow> Inr (JArr (drop (length vs - n) vs)) | _ \<Rightarrow> Inl typeError)"

text \<open>A template string, and \<open>v || d\<close>.\<close>

definition template :: "piece list \<Rightarrow> piece" where
  "template ps = bindS (mapS (\<lambda>p. p) ps) (\<lambda>vs. Inr (JStr (concat (map jsString vs))))"

definition elseText :: "jsval \<Rightarrow> string \<Rightarrow> piece" where
  "elseText v d = Inr (if truthy v then v else JStr d)"

text \<open>\<open>new Date(v)\<close>, with \<open>None\<close> for an invalid date.\<close>

definition dateOf :: "env \<Rightarrow> jsval \<Rightarrow> int option" where
  "dateOf E v = (case v of
     JUndef \<Rightarrow> None
   | JNull \<Rightarrow> timeClip (jsNumber v)
   | JBool b \<Rightarrow> timeClip (jsNumber v)
   | JNum x \<Rightarrow> timeClip x
   | _ \<Rightarrow> dateParse E (elemText v))"

definition dateOrInvalid :: "(int \<Rightarrow> string) \<Rightarrow> int option \<Rightarrow> jsval" where
  "dateOrInvalid f t = JStr (case t of None \<Rightarrow> ''Invalid Date'' | Some x \<Rightarrow> f x)"

text \<open>\<open>new Date(v).toLocaleDateString()\<close>, \<open>.toLocaleString()\<close> and \<open>.getFullYear()\<close>.\<close>

definition onDate :: "intl \<Rightarrow> env \<Rightarrow> piece \<Rightarrow> piece" where
  "onDate L E p = bindS p (\<lambda>v. Inr (dateOrInvalid (lo_date L) (dateOf E v)))"

definition onDateTime :: "intl \<Rightarrow> env \<Rightarrow> piece \<Rightarrow> piece" where
  "onDateTime L E p = bindS p (\<lambda>v. Inr (dateOrInvalid (lo_dateTime L) (dateOf E v)))"

definition yearOf :: "intl \<Rightarrow> env \<Rightarrow> piece \<Rightarrow> piece" where
  "yearOf L E p = bindS p (\<lambda>v. Inr (JNum (case dateOf E v of None \<Rightarrow> NaN | Some t \<Rightarrow> ofInt (lo_year L t))))"

text \<open>Characters outside ASCII, as their UTF-8 bytes.\<close>

definition enDash :: string where
  "enDash = [CHR 0xE2, CHR 0x80, CHR 0x93]"

definition emDash :: string where
  "emDash = [CHR 0xE2, CHR 0x80, CHR 0x94]"

definition tCO2 :: string where
  "tCO2 = ''tCO'' @ [CHR 0xE2, CHR 0x82, CHR 0x82]"

definition middleDot :: string where
  "middleDot = [CHR 0xC2, CHR 0xB7]"

definition tick :: string where
  "tick = [CHR 0xE2, CHR 0x9C, CHR 0x93]"

definition cross :: string where
  "cross = [CHR 0xE2, CHR 0x9C, CHR 0x97]"

section \<open>Drawings that succeed\<close>

text \<open>
  \<open>fine P d\<close>: evaluating \<open>d\<close> succeeds, the elements can be mounted, and every event they can
  dispatch, also the disabled ones, satisfies \<open>P\<close>.  \<open>visible p\<close>: the piece evaluates to something React
  can show.
\<close>

named_theorems draw_simps \<open>when a drawing is fine\<close>

definition fine :: "('e \<Rightarrow> bool) \<Rightarrow> 'e drawing \<Rightarrow> bool" where
  "fine P d \<longleftrightarrow> (\<exists>ds. d = Inr ds \<and> list_all sound ds \<and> list_all (pred_drawn P) ds)"

definition visible :: "piece \<Rightarrow> bool" where
  "visible p \<longleftrightarrow> (\<exists>v. p = Inr v \<and> isNode v)"

lemma fine_Inr [draw_simps]:
  "fine P (Inr ds) \<longleftrightarrow> list_all sound ds \<and> list_all (pred_drawn P) ds"
  by (simp add: fine_def)

lemma fine_Inl [draw_simps]: "\<not> fine P (Inl e)"
  by (simp add: fine_def)

lemma fine_parts [draw_simps]:
  "fine P (parts [])" "fine P (parts (d # ds)) \<longleftrightarrow> fine P d \<and> fine P (parts ds)"
  by (auto simp: parts.simps fine_def bindS_Inr_iff)

lemma fine_each [draw_simps]: "fine P (each f xs) \<longleftrightarrow> (\<forall>x \<in> set xs. fine P (f x))"
  by (induction xs) (auto simp: each_def draw_simps)

lemma fine_around:
  "(\<And>xs. list_all sound xs \<Longrightarrow> list_all (pred_drawn P) xs \<Longrightarrow> sound (f xs) \<and> pred_drawn P (f xs)) \<Longrightarrow>
   fine P (parts ds) \<Longrightarrow> fine P (around f ds)"
  by (auto simp: fine_def around_def bindS_Inr_iff)

lemma fine_boxes [draw_simps]:
  "fine P (cardOf ds) \<longleftrightarrow> fine P (parts ds)"
  "fine P (around (DBox None) ds) \<longleftrightarrow> fine P (parts ds)"
  "fine P (around (DBox (Some e)) ds) \<longleftrightarrow> P e \<and> fine P (parts ds)"
  "fine P (around (DLink h) ds) \<longleftrightarrow> fine P (parts ds)"
  "fine P (around (DTrigger h) ds) \<longleftrightarrow> fine P (parts ds)"
  "fine P (around (DPanel h) ds) \<longleftrightarrow> fine P (parts ds)"
  "fine P (around (DBadge h) ds) \<longleftrightarrow> fine P (parts ds)"
  "fine P (around (DOption h b) ds) \<longleftrightarrow> fine P (parts ds)"
  "fine P (around (DButton b (Some e)) ds) \<longleftrightarrow> P e \<and> fine P (parts ds)"
  "fine P (around (DButton b None) ds) \<longleftrightarrow> fine P (parts ds)"
  by (cases "parts ds"; auto simp: cardOf_def fine_def around_def)+

lemma fine_select [draw_simps]:
  "fine P (around (\<lambda>os. DSelect v pl os f) ds) \<longleftrightarrow> pred_fun (\<lambda>_. True) P f \<and> fine P (parts ds)"
  by (cases "parts ds"; auto simp: fine_def around_def)

lemma fine_onlyIf [draw_simps]: "fine P (onlyIf c d) \<longleftrightarrow> (c \<longrightarrow> fine P d)"
  by (simp add: onlyIf_def draw_simps)

lemma fine_dialog [draw_simps]:
  "fine P (parts ds) \<Longrightarrow> P e \<Longrightarrow> fine P (dialog opened e ds)"
  by (cases "parts ds"; auto simp: dialog_def fine_def)

lemma fine_words [draw_simps]: "fine P (words s)" "fine P (link h l)"
  by (simp_all add: words_def link_def draw_simps)

lemma fine_fields [draw_simps]:
  "fine P (button b e l) \<longleftrightarrow> P e"
  "fine P (busyButton c b e l) \<longleftrightarrow> P e"
  "fine P (fieldOf l pl v f) \<longleftrightarrow> (\<forall>s. P (f s))"
  "fine P (choice v pl opts f) \<longleftrightarrow> (\<forall>s. P (f s))"
  by (auto simp: button_def busyButton_def fieldOf_def choice_def draw_simps list_all_iff)

lemma fine_table [draw_simps]:
  "fine P (tableOf heads row xs) \<longleftrightarrow> (\<forall>x \<in> set xs. fine P (row x))"
  by (simp add: tableOf_def draw_simps list_all_iff)

lemma mapS_pieces:
  "list_all visible ps \<Longrightarrow> \<exists>vs. mapS (\<lambda>p. p) ps = Inr vs \<and> list_all isNode vs"
  by (induction ps) (auto simp: visible_def)

lemma fine_line [draw_simps]: "list_all visible ps \<Longrightarrow> fine P (line ps)"
  using mapS_pieces [of ps] by (auto simp: line_def textNode_def draw_simps)

lemma fine_badge [draw_simps]: "list_all visible ps \<Longrightarrow> fine P (badge v ps)"
  by (simp add: badge_def draw_simps)

lemma list_all_replicate [draw_simps]: "list_all p (replicate n x) \<longleftrightarrow> n = 0 \<or> p x"
  by (auto simp: list_all_iff)

lemma fine_mono: "fine P d \<Longrightarrow> (\<And>e. P e \<Longrightarrow> Q e) \<Longrightarrow> fine Q d"
  unfolding fine_def by (metis (mono_tags, lifting) drawn.pred_mono_strong list.pred_mono_strong)

lemma visible_says [draw_simps]: "visible (says s)" "visible (Inr v) \<longleftrightarrow> isNode v"
  by (simp_all add: visible_def says_def)

lemma visible_date [draw_simps]:
  "visible p \<Longrightarrow> visible (onDate L E p)" "visible p \<Longrightarrow> visible (onDateTime L E p)"
  "visible p \<Longrightarrow> visible (yearOf L E p)"
  by (auto simp: visible_def onDate_def onDateTime_def yearOf_def dateOrInvalid_def)

lemma visible_template [draw_simps]: "list_all visible ps \<Longrightarrow> visible (template ps)"
  using mapS_pieces [of ps] by (auto simp: visible_def template_def)

lemma visible_orText [draw_simps]: "isNode v \<Longrightarrow> visible (elseText v d)"
  by (simp add: visible_def elseText_def)

lemma fine_linkTo [draw_simps]: "visible p \<Longrightarrow> fine P (linkTo p l)"
  by (auto simp: linkTo_def visible_def draw_simps)

text \<open>A piece with a value of a type.\<close>

definition hasType :: "ty \<Rightarrow> piece \<Rightarrow> bool" where
  "hasType T p \<longleftrightarrow> (\<exists>v. p = Inr v \<and> conforms True T v)"

lemma conforms_plain:
  "conforms l TString v \<longleftrightarrow> (\<exists>s. v = JStr s)"
  "conforms l TNumber v \<longleftrightarrow> (\<exists>x. v = JNum x \<and> isFinite x)"
  "conforms l (TLit ss) v \<longleftrightarrow> (\<exists>s. v = JStr s \<and> s \<in> set ss)"
  "conforms l TBool v \<longleftrightarrow> (\<exists>b. v = JBool b)"
  by (cases v; simp)+

lemma hasType_string: "hasType TString p \<longleftrightarrow> (\<exists>s. p = Inr (JStr s))"
  by (auto simp: hasType_def conforms_plain simp del: conforms.simps)

lemma hasType_visible:
  "hasType TString p \<Longrightarrow> visible p" "hasType TNumber p \<Longrightarrow> visible p" "hasType (TLit ss) p \<Longrightarrow> visible p"
  "hasType TBool p \<Longrightarrow> visible p"
  by (auto simp: hasType_def visible_def conforms_plain simp del: conforms.simps)

lemma hasType_formats:
  "hasType TString p \<Longrightarrow> visible (sliced n p)" "hasType TString p \<Longrightarrow> visible (slicedEnd n p)" "hasType TNumber p \<Longrightarrow> visible (toFixed n p)"
  "hasType TNumber p \<Longrightarrow> visible (toLocale L o1 p)"
  by (auto simp: hasType_def visible_def conforms_plain sliced_def slicedEnd_def toFixed_def toLocale_def nullish_def
      simp del: conforms.simps)

text \<open>The type that an object type declares for a property, or \<open>None\<close> when it is optional or missing.\<close>

fun fieldTy :: "ty \<Rightarrow> string \<Rightarrow> ty option" where
  "fieldTy (TObj fs) k = map_of (List.map_filter
     (\<lambda>f. case f of Req n T \<Rightarrow> Some (n, T) | Opt n T \<Rightarrow> None) fs) k"
| "fieldTy (TAnd T U) k = (case fieldTy T k of Some V \<Rightarrow> Some V | None \<Rightarrow> fieldTy U k)"
| "fieldTy T k = None"

fun optionalTy :: "ty \<Rightarrow> string \<Rightarrow> ty option" where
  "optionalTy (TObj fs) k = map_of (List.map_filter
     (\<lambda>f. case f of Opt n T \<Rightarrow> Some (n, T) | Req n T \<Rightarrow> None) fs) k"
| "optionalTy (TAnd T U) k = (case optionalTy T k of Some V \<Rightarrow> Some V | None \<Rightarrow> optionalTy U k)"
| "optionalTy T k = None"

lemma map_filter_mem:
  "map_of (List.map_filter f xs) k = Some y \<Longrightarrow> \<exists>x \<in> set xs. f x = Some (k, y)"
  by (induction xs) (auto simp: List.map_filter_simps split: option.splits if_splits prod.splits)

lemma hasFields_field: "conforms True (TObj fs) v \<Longrightarrow> f \<in> set fs \<Longrightarrow> hasField True f v"
  by (cases v) (auto simp: hasFields_iff)

lemma conforms_field:
  "conforms True T v \<Longrightarrow> fieldTy T k = Some U \<Longrightarrow> conforms True U (getProp v k)"
proof (induction T k arbitrary: U rule: fieldTy.induct)
  case (1 fs k)
  then have "Req k U \<in> set fs" by (auto dest!: map_filter_mem split: field.splits)
  with 1(1) show ?case using hasFields_field by fastforce
qed (auto split: option.splits)

lemma conforms_optional:
  "conforms True T v \<Longrightarrow> optionalTy T k = Some U \<Longrightarrow> nullish (getProp v k) \<or> conforms True U (getProp v k)"
proof (induction T k arbitrary: U rule: optionalTy.induct)
  case (1 fs k)
  then have "Opt k U \<in> set fs" by (auto dest!: map_filter_mem split: field.splits)
  with 1(1) show ?case using hasFields_field by (fastforce simp: nullish_def)
qed (auto split: option.splits)

lemma conforms_object: "conforms True T v \<Longrightarrow> fieldTy T k = Some U \<Longrightarrow> \<not> nullish v"
  by (induction T k arbitrary: U rule: fieldTy.induct)
    (auto simp: nullish_def split: option.splits jsval.splits)

lemma hasType_dot: "conforms True T v \<Longrightarrow> fieldTy T k = Some U \<Longrightarrow> hasType U (dot v k)"
  using conforms_field conforms_object by (auto simp: dot_def hasType_def)

text \<open>A property as a child: one with a plain type, or an optional one that may be absent.\<close>

definition plainTy :: "ty option \<Rightarrow> bool" where
  "plainTy t \<longleftrightarrow> t \<in> {Some TString, Some TNumber, Some TBool} \<or> (\<exists>ss. t = Some (TLit ss))"

lemma visible_dot: "conforms True T v \<Longrightarrow> plainTy (fieldTy T k) \<Longrightarrow> visible (dot v k)"
  unfolding plainTy_def using hasType_dot hasType_visible by blast

lemma visible_property:
  "conforms True T v \<Longrightarrow> plainTy (fieldTy T k) \<Longrightarrow> visible (Inr (getProp v k))"
  using visible_dot [of T v k] by (auto simp: visible_def dot_def split: if_splits)

lemma visible_optional:
  assumes "conforms True T v" and "plainTy (optionalTy T k)"
  shows "visible (Inr (getProp v k))"
proof -
  obtain U where U: "optionalTy T k = Some U" "plainTy (Some U)"
    using assms(2) by (auto simp: plainTy_def)
  then have "hasType U (Inr (getProp v k)) \<Longrightarrow> visible (Inr (getProp v k))"
    using hasType_visible by (auto simp: plainTy_def)
  then show ?thesis
    using conforms_optional [OF assms(1) U(1)] by (auto simp: hasType_def visible_def nullish_def)
qed

lemma optional_text:
  assumes "conforms True T v" and "optionalTy T k = Some TString" and "truthy (getProp v k)"
  shows "hasType TString (dot v k)"
proof -
  have "conforms True TString (getProp v k)"
    using conforms_optional [OF assms(1,2)] assms(3) by (auto simp: nullish_def)
  moreover have "\<not> nullish v" using assms(3) by (auto simp: nullish_def)
  ultimately show ?thesis by (simp add: hasType_def dot_def)
qed

lemma conforms_elems: "conforms l (TArr T) v \<Longrightarrow> x \<in> set (elems v) \<Longrightarrow> conforms l T x"
  by (cases v) (auto simp: elems_def list_all_iff)

lemma page_data:
  "conforms True (webPaginatedResponseT T) v \<Longrightarrow> x \<in> set (elems (getProp v ''data'')) \<Longrightarrow> conforms True T x"
  by (rule conforms_elems, erule conforms_field)
    (auto simp: webPaginatedResponseT_def List.map_filter_simps)

section \<open>Answers of the declared types\<close>

text \<open>The types that the functions of \<open>lib/api.ts\<close> declare to return.\<close>

definition provenanceT :: ty where
  "provenanceT = TObj [Req ''type'' TString, Req ''timestamp'' TString, Req ''actor'' TString]"

fun creditReply :: "web_credit_call \<Rightarrow> ty" where
  "creditReply (WCredits f) = webPaginatedResponseT webCreditT"
| "creditReply (WCredit n) = webCreditT"
| "creditReply (WProvenance n) = TArr provenanceT"
| "creditReply WOwnedCredits = TArr webCreditT"
| "creditReply (WIssue d) = webCreditT"
| "creditReply (WApprove n c) = webCreditT"
| "creditReply (WReject n r) = webCreditT"
| "creditReply (WListings f) = webPaginatedResponseT webOfferT"
| "creditReply WStats = webMarketplaceStatsT"
| "creditReply (WOffer d) = webOfferT"
| "creditReply (WBuy n a) = TRecord TUnknown"
| "creditReply (WCancel n) = TRecord TUnknown"

fun recordReply :: "web_record_call \<Rightarrow> ty" where
  "recordReply (WRetire n d) = webRetirementT"
| "recordReply (WRetirementCertificate n) = TRecord TUnknown"
| "recordReply (WCertificate i) = webCertificateT"
| "recordReply WOwnedCertificates = TArr webCertificateT"
| "recordReply (WVerify h) = TRecord TUnknown"
| "recordReply WVerifiers = TArr webVerifierT"
| "recordReply WRegister = TRecord TUnknown"
| "recordReply (WPriceHistory r) = TObj [Req ''data'' (TArr webPricePointT)]"
| "recordReply (WScope3 y) = webScope3ReportT"
| "recordReply (WScope3Csv y) = TString"
| "recordReply (WRecords f) = webPaginatedResponseT webBridgeRecordT"
| "recordReply (WRoot r) = webRegistryRootT"
| "recordReply (WBridgeIn d) = webBridgeRecordT"
| "recordReply (WBridgeOut n) = webBridgeRecordT"
| "recordReply (WPublishRoot r d) = TRecord TUnknown"

fun accountReply :: "web_account_call \<Rightarrow> ty" where
  "accountReply WHealth = webDeepHealthT"
| "accountReply (WChallenge w) = webAuthChallengeT"
| "accountReply (WToken w c i) = webAuthSessionT"
| "accountReply WListWebhooks = TArr webWebhookT"
| "accountReply (WCreateWebhook d) = webWebhookT"
| "accountReply (WDeleteWebhook i) = TRecord TUnknown"
| "accountReply (WTestWebhook i) = TRecord TUnknown"
| "accountReply (WDeliveries n) = TArr webWebhookDeliveryT"

fun adminReply :: "web_admin_call \<Rightarrow> ty" where
  "adminReply WConfig = webProtocolConfigT"
| "adminReply (WUpdateConfig d) = TBool"
| "adminReply WContracts = webAdminContractsT"
| "adminReply WAdminVerifiers = TArr (TRecord TUnknown)"
| "adminReply (WAddVerifier a) = TRecord TUnknown"
| "adminReply (WRemoveVerifier a) = TRecord TUnknown"
| "adminReply WSystem = webSystemStatusT"

definition yields :: "('a \<Rightarrow> bool) \<Rightarrow> ('s, 'e, 'a) act \<Rightarrow> bool" where
  "yields Q m \<longleftrightarrow> (\<forall>s r s'. m s = (Inr r, s') \<longrightarrow> Q r)"

text \<open>Every answer that is not an error has the declared type; an optional property may be \<open>null\<close>.\<close>

definition answersAs :: "'s transport \<Rightarrow> http_call \<Rightarrow> ty \<Rightarrow> bool" where
  "answersAs T c U \<longleftrightarrow> (\<forall>h s v s'. T h c s = (Inr v, s') \<longrightarrow> conforms True U v)"

definition typedReplies :: "'s transport \<Rightarrow> bool" where
  "typedReplies T \<longleftrightarrow> (\<forall>c. answersAs T (webCredits c) (creditReply c)) \<and>
     (\<forall>c. answersAs T (webRecords c) (recordReply c)) \<and>
     (\<forall>c. answersAs T (webAccount c) (accountReply c)) \<and>
     (\<forall>c. answersAs T (webAdmin c) (adminReply c))"

lemma yields_send: "answersAs T c U \<Longrightarrow> yields (conforms True U) (send T c)"
  by (auto simp: yields_def answersAs_def send_def split: prod.splits)

lemma yields_sends:
  assumes "typedReplies T"
  shows "yields (conforms True (creditReply c1)) (send T (webCredits c1))"
    and "yields (conforms True (recordReply c2)) (send T (webRecords c2))"
    and "yields (conforms True (accountReply c3)) (send T (webAccount c3))"
    and "yields (conforms True (adminReply c4)) (send T (webAdmin c4))"
  using assms by (simp_all add: typedReplies_def yields_send)

lemma yields_caught: "yields Q m \<Longrightarrow> yields (\<lambda>v. v = d \<or> Q v) (caught m d)"
  by (auto simp: yields_def caught_def catchE_apply split: prod.splits sum.splits)

lemma yields_bindE: "yields Q m \<Longrightarrow> (\<And>x. Q x \<Longrightarrow> yields R (f x)) \<Longrightarrow> yields R (bindE m f)"
  unfolding yields_def by (meson bindE_InrD)

lemma yields_ret: "R x \<Longrightarrow> yields R (ret x)"
  by (simp add: yields_def)

lemma yields_settled: "yields Q m \<Longrightarrow> yields (\<lambda>r. case r of Inl e \<Rightarrow> True | Inr v \<Rightarrow> Q v) (settled m)"
  by (auto simp: yields_def settled_def split: prod.splits sum.splits)

lemma yields_bothE: "yields Q m \<Longrightarrow> yields R n \<Longrightarrow> yields (\<lambda>(x, y). Q x \<and> R y) (bothE m n)"
  by (fastforce simp: yields_def dest: bothE_InrD)

lemma yields_mapE: "(\<And>x. yields (Q x) (f x)) \<Longrightarrow> yields (list_all2 Q xs) (mapE f xs)"
proof (induction xs)
  case (Cons x xs)
  then show ?case
    by (auto simp: yields_def act_simps split: prod.splits sum.splits) blast+
qed (simp add: yields_def)

lemma keepsState_yields:
  assumes "keepsState q m" and "yields Q m" and "\<And>x. Q x \<Longrightarrow> keepsState q (f x)"
  shows "keepsState q (bindE m f)"
  unfolding keepsState_def preserves_def
proof (rule relatesI, rule impI)
  fix s :: "'a \<times> 'b browser" assume i: "q (fst s)"
  obtain r s1 where m: "m s = (r, s1)" by (metis prod.exhaust)
  have q1: "q (fst s1)" using preservesD [OF assms(1) [unfolded keepsState_def] i m] .
  show "q (fst (snd (bindE m f s)))"
  proof (cases r)
    case (Inr x)
    then have "Q x" using assms(2) m unfolding yields_def by blast
    then have k: "preserves (\<lambda>s. q (fst s)) (f x)"
      using assms(3) by (simp add: keepsState_def)
    obtain r2 s2 where f: "f x s1 = (r2, s2)" by (metis prod.exhaust)
    show ?thesis using preservesD [OF k q1 f] m f Inr by (simp add: bindE_apply)
  qed (use m q1 in \<open>simp add: bindE_apply\<close>)
qed

lemmas keepsState_reply [act_intros] =
  keepsState_yields [OF _ yields_sends(1)] keepsState_yields [OF _ yields_sends(2)]
  keepsState_yields [OF _ yields_sends(3)] keepsState_yields [OF _ yields_sends(4)]

section \<open>Using a page\<close>

text \<open>
  The states of a page in use: an effect runs at any time, and the user dispatches an event that the
  drawn page offers.
\<close>

definition offered :: "'e drawn list \<Rightarrow> 'e \<Rightarrow> bool" where
  "offered ds e \<longleftrightarrow> (\<exists>d \<in> set ds. e \<in> set_drawn d)"

inductive inUse ::
  "('e \<Rightarrow> ('p, 's, unit) handler) \<Rightarrow> ('p \<Rightarrow> 'e drawing) \<Rightarrow> ('e \<Rightarrow> bool) \<Rightarrow> 'p \<times> 's browser \<Rightarrow> 'p \<times> 's browser \<Rightarrow> bool"
  for act view fires s where
  opened: "inUse act view fires s s"
| effect: "inUse act view fires s t \<Longrightarrow> fires e \<Longrightarrow> inUse act view fires s (snd (act e t))"
| used: "inUse act view fires s t \<Longrightarrow> view (fst t) = Inr ds \<Longrightarrow> offered ds e \<Longrightarrow>
    inUse act view fires s (snd (act e t))"

text \<open>What the user sees: a drawing that cannot be evaluated or mounted is replaced by \<open>app/error\<close>.\<close>

datatype 'e screened = Shown "'e drawn list" | Failed api_error

definition screen :: "'e drawing \<Rightarrow> 'e screened" where
  "screen d = (case d of Inl e \<Rightarrow> Failed e
     | Inr ds \<Rightarrow> (if list_all sound ds then Shown ds
         else Failed (JsError ''Objects are not valid as a React child'')))"

lemma fine_screen: "fine P d \<Longrightarrow> \<exists>ds. screen d = Shown ds"
  by (auto simp: fine_def screen_def)

text \<open>No state of the page in use fails to be drawn.\<close>

definition neverFails ::
  "('e \<Rightarrow> ('p, 's, unit) handler) \<Rightarrow> ('p \<Rightarrow> 'e drawing) \<Rightarrow> ('e \<Rightarrow> bool) \<Rightarrow> 'p \<Rightarrow> bool" where
  "neverFails act view fires p \<longleftrightarrow>
     (\<forall>b t. inUse act view fires (p, b) t \<longrightarrow> (\<exists>ds. screen (view (fst t)) = Shown ds))"

locale drawn_page =
  fixes typed :: "'p \<Rightarrow> bool"
    and act :: "'s transport \<Rightarrow> 'e \<Rightarrow> ('p, 's, unit) handler"
    and view :: "'p \<Rightarrow> 'e drawing"
    and carries :: "'e \<Rightarrow> bool"
    and fires :: "'e \<Rightarrow> bool"
  assumes act_typed: "typedReplies T \<Longrightarrow> carries e \<Longrightarrow> keepsState typed (act T e)"
    and view_fine: "typed p \<Longrightarrow> fine carries (view p)"
    and fires_carries: "fires e \<Longrightarrow> carries e"
begin

lemma act_keeps:
  "typedReplies T \<Longrightarrow> carries e \<Longrightarrow> typed (fst t) \<Longrightarrow> typed (fst (snd (act T e t)))"
  using preservesD [OF act_typed [unfolded keepsState_def]] by (metis prod.collapse)

lemma offered_carries: "typed p \<Longrightarrow> view p = Inr ds \<Longrightarrow> offered ds e \<Longrightarrow> carries e"
  using view_fine [of p] by (auto simp: fine_def offered_def list_all_iff drawn.pred_set)

lemma stays_typed:
  assumes "typedReplies T" and "inUse (act T) view fires s t" and "typed (fst s)"
  shows "typed (fst t)"
  using assms(2)
  by induction (use assms(1,3) act_keeps fires_carries offered_carries in blast)+

lemma always_drawn:
  assumes "typedReplies T" and "inUse (act T) view fires s t" and "typed (fst s)"
  shows "fine carries (view (fst t))"
  by (rule view_fine [OF stays_typed [OF assms]])

lemma never_fails: "typedReplies T \<Longrightarrow> typed p \<Longrightarrow> neverFails (act T) view fires p"
  unfolding neverFails_def using always_drawn fine_screen by (metis fst_conv)

end

section \<open>What can be clicked\<close>

text \<open>\<open>clickable d\<close>: the events that the clicks of a drawing dispatch.  \<open>clicksOnly P d\<close>: all of them
  satisfy \<open>P\<close>.\<close>

definition clickable :: "'e drawing \<Rightarrow> 'e list" where
  "clickable d = (case d of Inl _ \<Rightarrow> [] | Inr ds \<Rightarrow> concat (concat (map clicks ds)))"

definition clicksOnly :: "('e \<Rightarrow> bool) \<Rightarrow> 'e drawing \<Rightarrow> bool" where
  "clicksOnly P d \<longleftrightarrow> (\<forall>e \<in> set (clickable d). P e)"

named_theorems click_simps \<open>what the clicks of an element dispatch\<close>
named_theorems click_intros \<open>what the clicks of composed drawings dispatch\<close>

lemma clicksOnly_Inr [click_simps]:
  "clicksOnly P (Inr ds) \<longleftrightarrow> (\<forall>d \<in> set ds. \<forall>es \<in> set (clicks d). \<forall>e \<in> set es. P e)"
  by (auto simp: clicksOnly_def clickable_def)

lemma clicksOnly_Inl [click_intros]: "clicksOnly P (Inl e)"
  by (simp add: clicksOnly_def clickable_def)

lemma clicksOnly_bindS [click_intros]: "(\<And>x. d = Inr x \<Longrightarrow> clicksOnly P (f x)) \<Longrightarrow> clicksOnly P (bindS d f)"
  by (cases d) (auto simp: click_simps click_intros)

lemma clicksOnly_parts [click_intros]:
  "clicksOnly P (parts [])"
  "clicksOnly P d \<Longrightarrow> clicksOnly P (parts ds) \<Longrightarrow> clicksOnly P (parts (d # ds))"
  by (cases d; cases "parts ds"; auto simp: parts.simps click_simps)+

lemma clicksOnly_each [click_intros]:
  "(\<And>x. x \<in> set xs \<Longrightarrow> clicksOnly P (f x)) \<Longrightarrow> clicksOnly P (each f xs)"
  by (induction xs) (auto simp: each_def click_simps intro!: click_intros)

lemma clicksOnly_around [click_intros]:
  "clicksOnly P (parts ds) \<Longrightarrow> clicksOnly P (cardOf ds)"
  "clicksOnly P (parts ds) \<Longrightarrow> clicksOnly P (around (DBox None) ds)"
  "P e \<Longrightarrow> clicksOnly P (parts ds) \<Longrightarrow> clicksOnly P (around (DBox (Some e)) ds)"
  "clicksOnly P (parts ds) \<Longrightarrow> clicksOnly P (around (DLink h) ds)"
  "clicksOnly P (parts ds) \<Longrightarrow> clicksOnly P (around (DTrigger h) ds)"
  "clicksOnly P (parts ds) \<Longrightarrow> clicksOnly P (around (DPanel h) ds)"
  "clicksOnly P (parts ds) \<Longrightarrow> clicksOnly P (around (DBadge h) ds)"
  by (cases "parts ds"; auto simp: cardOf_def around_def click_simps)+

lemma clicksOnly_select [click_intros]:
  "(\<And>s. P (f s)) \<Longrightarrow> clicksOnly P (around (\<lambda>os. DSelect v pl os f) ds)"
  by (cases "parts ds") (auto simp: around_def click_simps click_intros split: drawn.splits if_splits)

lemma clicksOnly_texts [click_intros]:
  "clicksOnly P (words s)" "clicksOnly P (line ps)" "clicksOnly P (badge v ps)" "clicksOnly P (link h l)"
  "clicksOnly P (linkTo q l)" "clicksOnly P (fieldOf l pl v f)"
  unfolding line_def linkTo_def badge_def
  by (auto simp: words_def link_def fieldOf_def click_simps textNode_def
      intro!: clicksOnly_bindS clicksOnly_around clicksOnly_parts)

lemma clicksOnly_buttons [click_simps]:
  "clicksOnly P (button b e l) \<longleftrightarrow> b \<or> P e"
  "clicksOnly P (busyButton c b e l) \<longleftrightarrow> b \<or> P e"
  by (auto simp: button_def busyButton_def click_simps)

lemma clicksOnly_choice [click_intros]: "(\<And>s. P (f s)) \<Longrightarrow> clicksOnly P (choice v pl opts f)"
  by (auto simp: choice_def click_simps split: if_splits)

lemma clicksOnly_onlyIf [click_intros]: "(c \<Longrightarrow> clicksOnly P d) \<Longrightarrow> clicksOnly P (onlyIf c d)"
  by (simp add: onlyIf_def click_simps click_intros)

lemma clicksOnly_dialog [click_intros]:
  "(opened \<Longrightarrow> P e) \<Longrightarrow> (opened \<Longrightarrow> clicksOnly P (parts ds)) \<Longrightarrow> clicksOnly P (dialog opened e ds)"
  by (cases "parts ds") (auto simp: dialog_def click_simps click_intros)

lemma clicksOnly_table [click_intros]:
  "(\<And>x. x \<in> set xs \<Longrightarrow> clicksOnly P (row x)) \<Longrightarrow> clicksOnly P (tableOf heads row xs)"
  by (auto simp: tableOf_def click_simps intro!: click_intros)

end
