(* ===== verification/TradingViews.thy ===== *)
theory TradingViews
  imports Drawing Payloads
begin

text \<open>
  What the trading pages draw: the order book, the marketplace, the portfolio and the retirement
  page, with the two components that they embed, \<open>components/provenance-graph\<close> and
  \<open>components/certificate-preview\<close>.
\<close>

section \<open>Types of the rows\<close>

text \<open>The properties of the declared types that can be shown as they are.\<close>

lemmas ty_eval = plainTy_def List.map_filter_simps

lemma credit_visible [draw_simps]:
  assumes "conforms True webCreditT c" and "k \<in> {''id'', ''creditId'', ''projectId'', ''methodology'',
    ''vintageStart'', ''vintageEnd'', ''tonnes'', ''geography'', ''serialPrefix'', ''sdgFlags'',
    ''permanenceRating'', ''bufferContributionPct'', ''additionalityType'', ''ipfsHash'',
    ''status'', ''createdAt''}"
  shows "visible (dot c k)"
  by (rule visible_dot [OF assms(1)])
    (use assms(2) in \<open>auto simp: ty_eval webCreditT_def webCreditStatusT_def\<close>)

lemma offer_visible [draw_simps]:
  assumes "conforms True webOfferT c" and "k \<in> {''id'', ''offerId'', ''creditId'', ''pricePerTonne'',
    ''amount'', ''amountFilled'', ''currency'', ''status'', ''createdAt''}"
  shows "visible (dot c k)"
  by (rule visible_dot [OF assms(1)])
    (use assms(2) in \<open>auto simp: ty_eval webOfferT_def webOfferStatusT_def\<close>)

lemma certificate_visible [draw_simps]:
  assumes "conforms True webCertificateT c" and "k \<in> {''id'', ''createdAt''}"
  shows "visible (dot c k)"
  by (rule visible_dot [OF assms(1)]) (use assms(2) in \<open>auto simp: ty_eval webCertificateT_def\<close>)

section \<open>The order book\<close>

text \<open>The different values of a property of the offered credits, in the order of the offers.\<close>

definition firsts :: "'a list \<Rightarrow> 'a list" where
  "firsts xs = rev (remdups (rev xs))"

definition optionsOf :: "string \<Rightarrow> jsval list \<Rightarrow> api_error + jsval list" where
  "optionsOf k rows = bindS (mapS (\<lambda>o1. bindS (dot o1 ''credit'') (\<lambda>c. Inr (getProp c k))) rows)
     (\<lambda>vs. Inr (firsts (filter truthy vs)))"

definition filterSelect ::
  "string \<Rightarrow> string \<Rightarrow> string \<Rightarrow> jsval list \<Rightarrow> (string \<Rightarrow> 'e) \<Rightarrow> 'e drawing" where
  "filterSelect v pl allLabel vs f = around (\<lambda>os. DSelect v pl os f)
     [Inr [DOption ''all'' False [DText allLabel]],
      each (\<lambda>m. around (DOption (jsString m) False) [line [Inr m]]) vs]"

text \<open>A text of the offered credit, or \<open>N/A\<close>.\<close>

definition creditText :: "jsval \<Rightarrow> string \<Rightarrow> 'e drawing" where
  "creditText offer k = bindS (dot offer ''credit'') (\<lambda>c. line [elseText (getProp c k) ''N/A''])"

definition drawRowAction :: "jsval \<Rightarrow> row_action \<Rightarrow> orderbook_event drawing" where
  "drawRowAction offer a = (case a of
     CancelButton busy \<Rightarrow> bindS (dot offer ''offerId'') (\<lambda>n. Inr [DButton busy (Some (ObCancel (jsNumber n)))
       [if busy then DSpinner else DText ''Cancel'']])
   | BuyButton l disabled \<Rightarrow> button disabled (ObOpenBuy offer) l)"

definition offerRow ::
  "intl \<Rightarrow> env \<Rightarrow> wallet_info option \<Rightarrow> orderbook \<Rightarrow> jsval \<Rightarrow> orderbook_event drawing" where
  "offerRow L E w p offer = parts [
     line [dot offer ''pricePerTonne'', says '' '', dot offer ''currency''],
     line [dot offer ''amount''],
     line [dot offer ''amountFilled'', says ''/'', dot offer ''amount''],
     around (DBadge ''outline'') [creditText offer ''methodology''],
     creditText offer ''geography'',
     line [if truthy (getProp offer ''expiresAt'') then onDate L E (dot offer ''expiresAt'')
           else says ''No expiry''],
     onlyIf (listingExpired E offer) (badge ''destructive'' [says ''Expired'']),
     drawRowAction offer (rowAction E w p offer)]"

definition buyDetails :: "orderbook \<Rightarrow> jsval \<Rightarrow> orderbook_event drawing" where
  "buyDetails p offer = parts [
     words ''Price per tonne'',
     line [dot offer ''pricePerTonne'', says '' '', dot offer ''currency''],
     words ''Available'', line [Inr (JNum (remaining offer)), says '' tonnes''],
     words ''Methodology'', creditText offer ''methodology'',
     words ''Geography'', creditText offer ''geography'',
     fieldOf ''Amount to buy (tonnes)'' [] (ob_buyAmount p) ObAmount,
     onlyIf (ob_buyAmount p \<noteq> []) (line [says ''Total cost: '', Inr (JNum (num_mul
       (stringToNumber (ob_buyAmount p)) (numProp offer ''pricePerTonne''))), says '' '',
       dot offer ''currency''])]"

definition buyDialog :: "orderbook \<Rightarrow> orderbook_event drawing" where
  "buyDialog p = dialog (ob_showBuy p) (ObShowBuy False) [
     words ''Buy Credits'', words ''Purchase carbon credits from this listing.'',
     (case ob_selected p of None \<Rightarrow> Inr [] | Some offer \<Rightarrow> buyDetails p offer),
     button False (ObShowBuy False) ''Cancel'',
     busyButton (ob_purchasing p) (confirmDisabled p) ObBuy ''Confirm Purchase'']"

definition drawOrderbook ::
  "intl \<Rightarrow> env \<Rightarrow> wallet_info option \<Rightarrow> orderbook \<Rightarrow> orderbook_event drawing" where
  "drawOrderbook L E w p =
     bindS (optionsOf ''methodology'' (ob_offers p)) (\<lambda>ms.
     bindS (optionsOf ''geography'' (ob_offers p)) (\<lambda>gs.
     if ob_loading p then Inr [DSpinner]
     else if given (ob_error p) \<noteq> None \<and> ob_offers p = []
     then cardOf [words (the (ob_error p)), button False ObLoad ''Retry'']
     else parts [
       filterSelect (ob_methodology p) ''Methodology'' ''All Methodologies'' ms ObMethodology,
       filterSelect (ob_geography p) ''Geography'' ''All Regions'' gs ObGeography,
       words ''Polling every 30s'', Inr [DButton False (Some ObLoad) []],
       (if ob_offers p = [] then cardOf [words ''No active listings found.'']
        else tableOf [''Price'', ''Amount'', ''Filled'', ''Methodology'', ''Geography'', ''Expiry'',
          ''Action''] (offerRow L E w p) (ob_offers p)),
       buyDialog p]))"

section \<open>The marketplace page\<close>

definition statCards :: "intl \<Rightarrow> jsval option \<Rightarrow> (string \<times> piece) list" where
  "statCards L stats = (case stats of
     None \<Rightarrow> map (\<lambda>t. (t, says ''-'')) [''Total Volume'', ''VWAP'', ''Open Interest'', ''Active Listings'']
   | Some s \<Rightarrow>
      [(''Total Volume'', template [toLocale L plainLocale (dot s ''totalVolume''), says '' USDC'']),
       (''VWAP'', template [toFixed 2 (dot s ''vwap''), says '' USDC'']),
       (''Open Interest'', template [toLocale L plainLocale (dot s ''openInterest''), says '' '', says tCO2]),
       (''Active Listings'', template [dot s ''totalListings''])])"

text \<open>The axes and the tooltip of the chart are drawn by the charting library.\<close>

definition priceChart :: "market_page \<Rightarrow> market_event drawing" where
  "priceChart p = cardOf [words ''Price History'',
     each (\<lambda>r. button False (MpRange r) r) [''30d'', ''90d'', ''1y''],
     (if mp_chartLoading p then Inr [DSpinner]
      else if mp_history p = [] then words ''No price data available yet.''
      else Inr [DChart (mp_history p)])]"

definition ownedOption :: "jsval \<Rightarrow> market_event drawing" where
  "ownedOption c = bindS (dot c ''creditId'') (\<lambda>n. around (DOption (jsString n) False)
     [line [says ''#'', Inr n, says '' '', says emDash, says '' '', dot c ''methodology'', says '' ('',
        dot c ''geography'', says '', '', dot c ''tonnes'', says ''t)'']])"

definition createDialog :: "market_page \<Rightarrow> market_event drawing" where
  "createDialog p = dialog (mp_showCreate p) (MpShowCreate False) [
     words ''Create Sell Offer'', words ''List your carbon credits for sale on the marketplace.'',
     (case given (mp_error p) of None \<Rightarrow> Inr [] | Some e \<Rightarrow> words e),
     words ''Credit'',
     around (\<lambda>os. DSelect (mp_creditId p) ''Select a credit'' os MpCredit)
       [if mp_owned p = [] then Inr [DOption ''none'' True [DText ''No active credits available'']]
        else each ownedOption (mp_owned p)],
     fieldOf ''Price per tonne'' ''0.00'' (mp_price p) MpPrice,
     fieldOf ''Amount (tonnes)'' ''1'' (mp_amount p) MpAmount,
     words ''Currency'',
     choice (mp_currency p) [] [(''USDC'', ''USDC''), (''XLM'', ''XLM'')] MpCurrency,
     button False (MpShowCreate False) ''Cancel'',
     busyButton (mp_creating p) (createDisabled p) MpCreate ''Create Offer'']"

text \<open>The texts of the four cards are computed in every drawing, also while the page loads.\<close>

definition drawMarket :: "intl \<Rightarrow> wallet_info option \<Rightarrow> market_page \<Rightarrow> market_event drawing" where
  "drawMarket L w p = bindS (mapS snd (statCards L (mp_stats p))) (\<lambda>vs. parts [
     words ''Marketplace'', words ''Trade carbon credits on the open market.'',
     button (walletKey w = None) MpOpenCreate ''Create Offer'',
     (if mp_statsLoading p then each (\<lambda>i. cardOf [Inr [DSkeleton, DSkeleton]]) [1 :: nat, 2, 3, 4]
      else each (\<lambda>(t, v). cardOf [words t, line [Inr v]])
        (zip (map fst (statCards L (mp_stats p))) vs)),
     priceChart p,
     cardOf [words ''Order Book'', Inr [DComponent ''MarketplaceOrderbook'' JUndef]],
     createDialog p])"

section \<open>The portfolio page\<close>

text \<open>\<open>p.toLowerCase()\<close>, and the disjunction of the search; the later texts are read only when the
  earlier ones do not match.\<close>

definition lowerOf :: "piece \<Rightarrow> api_error + string" where
  "lowerOf p = bindS p (\<lambda>v. case v of JStr s \<Rightarrow> Inr (toLower s) | _ \<Rightarrow> Inl typeError)"

definition matchesPieces :: "string \<Rightarrow> jsval \<Rightarrow> api_error + bool" where
  "matchesPieces q c =
     bindS (lowerOf (dot c ''methodology'')) (\<lambda>m. if includesStr q m then Inr True else
     bindS (lowerOf (dot c ''geography'')) (\<lambda>g. if includesStr q g then Inr True else
     bindS (lowerOf (dot c ''projectId'')) (\<lambda>i. if includesStr q i then Inr True else
     Inr (includesStr q (jsString (getProp c ''creditId''))))))"

definition searchCredits :: "portfolio_page \<Rightarrow> api_error + jsval list" where
  "searchCredits p = (if pf_search p = [] then Inr (pf_credits p)
     else bindS (mapS (matchesPieces (toLower (pf_search p))) (pf_credits p)) (\<lambda>bs.
       Inr (map fst (filter snd (zip (pf_credits p) bs)))))"

definition twoDigits :: "nat option \<times> nat option" where
  "twoDigits = (Some 2, Some 2)"

definition portfolioRow :: "intl \<Rightarrow> portfolio_page \<Rightarrow> jsval \<Rightarrow> portfolio_event drawing" where
  "portfolioRow L p c = parts [
     line [says ''#'', dot c ''creditId''],
     badge ''outline'' [dot c ''methodology''],
     line [dot c ''geography''],
     line [dot c ''vintageStart'', says '' '', says enDash, says '' '', dot c ''vintageEnd''],
     line [dot c ''tonnes''],
     line [if num_lt (ofInt 0) (pf_vwap p)
           then toLocale L twoDigits (Inr (JNum (num_mul (numProp c ''tonnes'') (pf_vwap p))))
           else says ''-''],
     badge (if getProp c ''status'' = JStr ''ACTIVE'' then ''default''
            else if getProp c ''status'' = JStr ''RETIRED'' then ''secondary''
            else if getProp c ''status'' = JStr ''PENDING'' then ''outline'' else ''destructive'')
       [dot c ''status''],
     Inr [DButton False (Some (PfSelect (Some c))) []]]"

definition ownOfferRow :: "intl \<Rightarrow> env \<Rightarrow> jsval \<Rightarrow> portfolio_event drawing" where
  "ownOfferRow L E offer = parts [
     line [says ''#'', dot offer ''offerId''],
     bindS (dot offer ''credit'') (\<lambda>c. badge ''outline'' [says ''#'', Inr (getProp c ''creditId'')]),
     line [dot offer ''pricePerTonne'', says '' '', dot offer ''currency''],
     line [dot offer ''amount''],
     line [dot offer ''amountFilled''],
     badge (if getProp offer ''status'' = JStr ''ACTIVE'' then ''default''
            else if getProp offer ''status'' = JStr ''FILLED'' then ''secondary'' else ''destructive'')
       [dot offer ''status''],
     line [onDate L E (dot offer ''createdAt'')]]"

definition certificateCard :: "intl \<Rightarrow> env \<Rightarrow> jsval \<Rightarrow> portfolio_event drawing" where
  "certificateCard L E c = cardOf [
     badge ''outline'' [onDate L E (dot c ''createdAt'')],
     (let r = getProp c ''retirement'' in onlyIf (truthy r) (parts [
        line [says ''Credit: #'', Inr (getProp (getProp r ''credit'') ''creditId'')],
        line [says ''Methodology: '', Inr (getProp (getProp r ''credit'') ''methodology'')],
        line [says ''Tonnes: '', dot r ''tonnesRetired''],
        line [says ''Beneficiary: '', dot r ''beneficiary'']])),
     onlyIf (truthy (getProp c ''certificateHash''))
       (line [sliced 24 (dot c ''certificateHash''), says ''...'']),
     onlyIf (truthy (getProp c ''pdfUrl'')) (linkTo (dot c ''pdfUrl'') ''PDF''),
     linkTo (template [says ''/certificates/'', dot c ''id'']) ''Verify'']"

definition tabOf :: "string \<Rightarrow> string \<Rightarrow> nat \<Rightarrow> 'e drawing" where
  "tabOf v l n = around (DTrigger v) [line [says l, says '' ('', Inr (JNum (ofInt (int n))), says '')'']]"

definition portfolioTabs ::
  "intl \<Rightarrow> env \<Rightarrow> portfolio_page \<Rightarrow> jsval list \<Rightarrow> portfolio_event drawing" where
  "portfolioTabs L E p found = parts [
     tabOf ''credits'' ''Credits'' (length (pf_credits p)),
     tabOf ''offers'' ''Offers'' (length (pf_offers p)),
     tabOf ''certificates'' ''Certificates'' (length (pf_certificates p)),
     around (DPanel ''credits'') [
       fieldOf [] ''Search credits...'' (pf_search p) PfSearch,
       onlyIf (num_lt (ofInt 0) (pf_vwap p)) (parts [words ''Estimated Portfolio Value'',
         line [toLocale L twoDigits (Inr (JNum (totalValue p))), says '' USDC'']]),
       (if found = [] then cardOf [words (if pf_search p \<noteq> [] then ''No matching credits found.''
          else ''No credits in your portfolio yet.'')]
        else tableOf [''ID'', ''Methodology'', ''Geography'', ''Vintage'', ''Tonnes'', ''Current Value'',
          ''Status'', ''Provenance''] (portfolioRow L p) found)],
     around (DPanel ''offers'') [
       (if pf_offers p = [] then cardOf [words ''No offers created yet.'']
        else tableOf [''ID'', ''Credit'', ''Price'', ''Amount'', ''Filled'', ''Status'', ''Created'']
          (ownOfferRow L E) (pf_offers p))],
     around (DPanel ''certificates'') [
       (if pf_certificates p = []
        then cardOf [words ''No certificates yet. Retire a credit to generate a certificate.'']
        else each (certificateCard L E) (pf_certificates p))]]"

definition provenanceDialog :: "portfolio_page \<Rightarrow> portfolio_event drawing" where
  "provenanceDialog p = (let c = (case pf_selected p of None \<Rightarrow> JNull | Some v \<Rightarrow> v) in
     dialog (pf_selected p \<noteq> None) (PfSelect None) [
       line [says ''Provenance '', says emDash, says '' Credit #'', Inr (getProp c ''creditId'')],
       onlyIf (truthy c) (bindS (dot c ''creditId'') (\<lambda>n. Inr [DComponent ''ProvenanceGraph'' n]))])"

text \<open>A page that needs a connected wallet.\<close>

definition connectPrompt :: "string \<Rightarrow> string \<Rightarrow> 'e drawing" where
  "connectPrompt title l = cardOf [words title, words l]"

definition drawPortfolio ::
  "intl \<Rightarrow> env \<Rightarrow> wallet_info option \<Rightarrow> portfolio_page \<Rightarrow> portfolio_event drawing" where
  "drawPortfolio L E w p =
     bindS (mapS (\<lambda>c. dot c ''tonnes'') (pf_credits p)) (\<lambda>_.
     bindS (searchCredits p) (\<lambda>found.
     if walletKey w = None then connectPrompt ''Portfolio'' ''Connect your wallet to view your portfolio.''
     else if pf_loading p then Inr [DSpinner]
     else parts [words ''Portfolio'', words ''Your carbon credits, offers, and certificates.'',
       portfolioTabs L E p found, provenanceDialog p]))"

section \<open>The retirement page\<close>

definition retireRow :: "retire_page \<Rightarrow> jsval \<Rightarrow> retire_event drawing" where
  "retireRow p c = bindS (dot c ''creditId'') (\<lambda>n.
     around (DBox (Some (RpToggle (jsNumber n)))) [
       Inr [DCheck (jsNumber n \<in> set (rp_selected p)) (RpToggle (jsNumber n))],
       line [says ''#'', Inr n],
       badge ''outline'' [dot c ''methodology''],
       line [dot c ''geography''],
       line [dot c ''vintageStart'', says '' '', says enDash, says '' '', dot c ''vintageEnd''],
       line [dot c ''tonnes'']])"

definition retiredView :: "retire_page \<Rightarrow> jsnum \<Rightarrow> jsval \<Rightarrow> retire_event drawing" where
  "retiredView p n h = (let c = (case rp_certificate p of None \<Rightarrow> JNull | Some v \<Rightarrow> v) in parts [
     cardOf [
       words ''Successfully Retired'',
       line [says ''Credit #'', Inr (JNum n),
         says '' has been permanently retired on the Stellar blockchain.''],
       onlyIf (truthy h) (line [says ''Certificate Hash: '', sliced 16 (Inr h), says ''...'']),
       button False RpRetireMore ''Retire More'', link ''/portfolio'' ''View Portfolio'',
       onlyIf (truthy (getProp c ''pdfUrl'')) (linkTo (dot c ''pdfUrl'') ''Download Certificate'')],
     onlyIf (truthy c) (cardOf [words ''Certificate Preview'', Inr [DComponent ''CertificatePreview'' c]])])"

definition confirmDialog :: "retire_page \<Rightarrow> retire_event drawing" where
  "confirmDialog p = dialog (rp_showConfirm p) (RpShowConfirm False) [
     words ''Confirm Retirement'', words (''This action is permanent and irreversible. '' @
       ''Once retired, credits cannot be transferred or traded.''),
     words ''Irreversible Action'', words (''Retired credits are permanently removed from '' @
       ''circulation and cannot be reinstated.''),
     words ''Credits'', words (joinWith '', '' (map (\<lambda>c. ''#'' @ jsString (getProp c ''creditId''))
       (selectedCredits p))),
     words ''Total tonnes'', line [Inr (JNum (selectedTonnes p)), says '' '', says tCO2],
     words ''Beneficiary'', words (rp_beneficiary p),
     words ''Reason'', words (if rp_reason p \<noteq> [] then rp_reason p else ''Not specified''),
     button False (RpShowConfirm False) ''Cancel'',
     busyButton (rp_retiring p) (rp_retiring p) RpRetire ''Permanently Retire'']"

definition retireDetails :: "retire_page \<Rightarrow> retire_event drawing" where
  "retireDetails p = (let n = length (rp_selected p); N = num_to_string (ofInt (int n)) in cardOf [
     words ''Retirement Details'',
     fieldOf ''Beneficiary *'' ''Name of the beneficiary'' (rp_beneficiary p) RpBeneficiary,
     fieldOf ''Reason'' ''e.g. Scope 1 offset, voluntary carbon offset'' (rp_reason p) RpReason,
     fieldOf ''Accounting Period'' [] (rp_period p) RpPeriod,
     (case given (rp_error p) of None \<Rightarrow> Inr [] | Some e \<Rightarrow> words e),
     line [says N, says '' credit'', says (if n \<noteq> 1 then ''s'' else []), says '' selected ('',
       Inr (JNum (selectedTonnes p)), says '' '', says tCO2, says '')''],
     button (rp_selected p = [] \<or> rp_beneficiary p = []) RpOpenConfirm
       (''Retire '' @ (if 1 < n then ''('' @ N @ '' credits)'' else []))])"

definition drawRetire :: "wallet_info option \<Rightarrow> retire_page \<Rightarrow> retire_event drawing" where
  "drawRetire w p =
     bindS (mapS (\<lambda>c. dot c ''creditId'') (rp_credits p)) (\<lambda>_.
     if walletKey w = None
     then connectPrompt ''Retire Credits'' ''Connect your wallet to retire carbon credits.''
     else parts [
       words ''Retire Credits'', words ''Permanently retire carbon credits on the Stellar blockchain.'',
       (case rp_retired p of
          Some (n, h) \<Rightarrow> retiredView p n h
        | None \<Rightarrow> parts [
            cardOf [words ''Select Credits'',
              (if rp_loading p then Inr [DSpinner]
               else if rp_credits p = [] then words ''No active credits available to retire.''
               else tableOf [[], ''ID'', ''Methodology'', ''Geography'', ''Vintage'', ''Tonnes'']
                 (retireRow p) (rp_credits p))],
            retireDetails p, confirmDialog p])])"

section \<open>The provenance of a credit\<close>

definition provenanceItem :: "intl \<Rightarrow> env \<Rightarrow> jsval \<Rightarrow> unit drawing" where
  "provenanceItem L E e = parts [
     line [bindS (dot e ''type'') (\<lambda>t. Inr (case t of JStr s \<Rightarrow> JStr (eventLabel s) | _ \<Rightarrow> t))],
     badge ''outline'' [bindS (dot e ''timestamp'') (\<lambda>t.
       Inr (dateOrInvalid (lo_eventTime L) (dateOf E t)))],
     line [says ''by '', sliced 8 (dot e ''actor''), says ''...'', slicedEnd 4 (dot e ''actor'')]]"

definition drawProvenance :: "intl \<Rightarrow> env \<Rightarrow> jsval list loaded \<Rightarrow> unit drawing" where
  "drawProvenance L E p = (if ld_loading p then Inr [DSpinner]
     else if ld_value p = [] then cardOf [words ''No provenance data available.'']
     else cardOf [each (provenanceItem L E) (ld_value p)])"

section \<open>A certificate\<close>

datatype preview_event = PvShare | PvCopy

definition drawPreview :: "jsval \<Rightarrow> preview_event drawing" where
  "drawPreview c = bindS (dot c ''pdfUrl'') (\<lambda>u.
     let certUrl = coalesce u (JStr []); r = getProp c ''retirement'' in parts [
     (if truthy certUrl then Inr [DFrame (jsString certUrl)]
      else cardOf [words ''PDF preview not available'']),
     onlyIf (truthy certUrl) (linkTo (Inr certUrl) ''Download PDF''),
     button False PvShare ''Share'',
     linkTo (template [says ''/certificates/'', dot c ''id'']) ''Verify'',
     onlyIf (truthy (getProp c ''certificateHash'')) (parts [line [dot c ''certificateHash''],
       Inr [DButton False (Some PvCopy) []]]),
     onlyIf (truthy r) (parts [
       words ''Beneficiary'', line [dot r ''beneficiary''],
       words ''Tonnes Retired'', line [dot r ''tonnesRetired'', says '' '', says tCO2, says ''e''],
       words ''Methodology'',
       line [Inr (coalesce (getProp (getProp r ''credit'') ''methodology'') (JStr ''N/A''))],
       words ''Geography'',
       line [Inr (coalesce (getProp (getProp r ''credit'') ''geography'') (JStr ''N/A''))],
       onlyIf (truthy (getProp r ''txHash'')) (parts [words ''Transaction'', line [dot r ''txHash'']])])])"

section \<open>Drawing from typed states\<close>

text \<open>A value of a property of an object that is itself the value of a property.\<close>

lemma object_property:
  assumes "conforms True T v" and "fieldTy T k = Some U"
  shows "\<exists>u. dot v k = Inr u \<and> getProp v k = u \<and> conforms True U u"
  using hasType_dot [OF assms] conforms_object [OF assms] by (auto simp: hasType_def dot_def)

lemma offer_credit:
  assumes "conforms True webOfferT offer"
  obtains c where "dot offer ''credit'' = Inr c" "isNode (getProp c ''methodology'')"
    "isNode (getProp c ''geography'')" "\<exists>s. getProp c ''methodology'' = JStr s"
    "\<exists>s. getProp c ''geography'' = JStr s"
proof -
  let ?U = "TObj [Req ''creditId'' TNumber, Req ''projectId'' TString, Req ''methodology'' TString,
    Req ''geography'' TString, Req ''tonnes'' TNumber]"
  have "fieldTy webOfferT ''credit'' = Some ?U" by (simp add: webOfferT_def List.map_filter_simps)
  from object_property [OF assms this] obtain c
    where c: "dot offer ''credit'' = Inr c" "conforms True ?U c" by blast
  have "conforms True TString (getProp c k)" if "k = ''methodology'' \<or> k = ''geography''" for k
    by (rule conforms_field [OF c(2)]) (use that in \<open>auto simp: List.map_filter_simps\<close>)
  then have "\<exists>s. getProp c ''methodology'' = JStr s" "\<exists>s. getProp c ''geography'' = JStr s"
    unfolding conforms_plain by auto
  with that [of c] c(1) show thesis by auto
qed

lemma creditText_fine [draw_simps]:
  "conforms True webOfferT offer \<Longrightarrow> k \<in> {''methodology'', ''geography''} \<Longrightarrow> fine P (creditText offer k)"
  by (erule offer_credit) (auto simp: creditText_def draw_simps)

lemma offer_not_nullish: "conforms True webOfferT offer \<Longrightarrow> dot offer k = Inr (getProp offer k)"
  by (auto simp: dot_def webOfferT_def nullish_def)

definition carriesOffer :: "orderbook_event \<Rightarrow> bool" where
  "carriesOffer e = (case e of ObOpenBuy offer \<Rightarrow> conforms True webOfferT offer | _ \<Rightarrow> True)"

lemma carriesOffer_simps [simp]:
  "carriesOffer (ObOpenBuy offer) = conforms True webOfferT offer" "carriesOffer ObLoad"
  "carriesOffer (ObMethodology s)" "carriesOffer (ObGeography s)" "carriesOffer (ObAmount s)"
  "carriesOffer (ObShowBuy b)" "carriesOffer ObBuy" "carriesOffer (ObCancel n)"
  by (simp_all add: carriesOffer_def)

definition typedOrderbook :: "orderbook \<Rightarrow> bool" where
  "typedOrderbook p \<longleftrightarrow> (\<forall>offer \<in> set (ob_offers p). conforms True webOfferT offer) \<and>
     (\<forall>offer. ob_selected p = Some offer \<longrightarrow> conforms True webOfferT offer)"

lemma rowAction_fine [draw_simps]:
  "conforms True webOfferT offer \<Longrightarrow> fine carriesOffer (drawRowAction offer (rowAction E w p offer))"
  by (auto simp: drawRowAction_def rowAction_def Let_def draw_simps offer_not_nullish)

lemma expiry_visible [draw_simps]:
  "conforms True webOfferT offer \<Longrightarrow> visible (onDate L E (dot offer k))"
  by (simp add: offer_not_nullish onDate_def visible_def dateOrInvalid_def)

lemma offerRow_fine [draw_simps]:
  "conforms True webOfferT offer \<Longrightarrow> fine carriesOffer (offerRow L E w p offer)"
  by (simp add: offerRow_def draw_simps)

lemma buyDialog_fine [draw_simps]: "typedOrderbook p \<Longrightarrow> fine carriesOffer (buyDialog p)"
  by (auto simp: buyDialog_def buyDetails_def typedOrderbook_def draw_simps split: option.split)

lemma mapS_total: "(\<And>x. x \<in> set xs \<Longrightarrow> \<exists>y. f x = Inr y \<and> Q y) \<Longrightarrow> \<exists>ys. mapS f xs = Inr ys \<and> list_all Q ys"
proof (induction xs)
  case (Cons x xs)
  then obtain y where "f x = Inr y" "Q y" by (meson list.set_intros(1))
  moreover from Cons obtain ys where "mapS f xs = Inr ys" "list_all Q ys" by (meson list.set_intros(2))
  ultimately show ?case by simp
qed simp

lemma optionsOf_typed:
  assumes "typedOrderbook p" and "k \<in> {''methodology'', ''geography''}"
  shows "\<exists>vs. optionsOf k (ob_offers p) = Inr vs \<and> list_all isNode vs"
proof -
  let ?f = "\<lambda>o1. bindS (dot o1 ''credit'') (\<lambda>c. Inr (getProp c k))"
  have "\<exists>y. ?f o1 = Inr y \<and> isNode y"
    if "o1 \<in> set (ob_offers p)" for o1
  proof -
    have "conforms True webOfferT o1" using assms(1) that by (auto simp: typedOrderbook_def)
    then show ?thesis by (rule offer_credit) (use assms(2) in auto)
  qed
  then obtain ys where "mapS ?f (ob_offers p) = Inr ys" "list_all isNode ys"
    using mapS_total [of "ob_offers p" ?f isNode] by blast
  then show ?thesis by (auto simp: optionsOf_def firsts_def list_all_iff)
qed

lemma filterSelect_fine [draw_simps]:
  "list_all isNode vs \<Longrightarrow> (\<forall>s. P (f s)) \<Longrightarrow> fine P (filterSelect v pl l vs f)"
  by (auto simp: filterSelect_def draw_simps list_all_iff visible_def)

lemma drawOrderbook_fine: "typedOrderbook p \<Longrightarrow> fine carriesOffer (drawOrderbook L E w p)"
  using optionsOf_typed [of p "''methodology''"] optionsOf_typed [of p "''geography''"]
  by (auto simp: drawOrderbook_def draw_simps typedOrderbook_def)

lemma fetchListings_typed:
  assumes "typedReplies T"
  shows "keepsState typedOrderbook (fetchListings T)"
  unfolding fetchListings_def
  by (intro keepsState_reply [OF _ assms] act_intros)
    (auto simp: typedOrderbook_def dest: page_data)

interpretation orderbookDrawn: drawn_page typedOrderbook orderbookAct "drawOrderbook L E w" carriesOffer
    "\<lambda>e. e = ObLoad"
  for L :: intl and E :: env and w :: "wallet_info option"
proof
  fix T :: "'a transport" and e
  assume t: "typedReplies T" and c: "carriesOffer e"
  note load = fetchListings_typed [OF t]
  have "keepsState typedOrderbook (handleBuy T)" "keepsState typedOrderbook (handleCancel T n)" for n
    unfolding handleBuy_def handleCancel_def
    by (intro act_intros load; simp add: typedOrderbook_def)+
  then show "keepsState typedOrderbook (orderbookAct T e)"
    using load c by (cases e) (auto simp: openBuyDialog_def typedOrderbook_def intro!: act_intros)
qed (auto intro: drawOrderbook_fine)

subsection \<open>The marketplace page\<close>

definition typedMarket :: "market_page \<Rightarrow> bool" where
  "typedMarket p \<longleftrightarrow> (\<forall>s. mp_stats p = Some s \<longrightarrow> conforms True webMarketplaceStatsT s) \<and>
     (\<forall>c \<in> set (mp_owned p). conforms True webCreditT c)"

lemma ownedOption_fine [draw_simps]:
  assumes "conforms True webCreditT c"
  shows "fine P (ownedOption c)"
proof -
  have "visible (dot c ''creditId'')" using assms by (simp add: draw_simps)
  then obtain n where "dot c ''creditId'' = Inr n" "isNode n" by (auto simp: visible_def)
  then show ?thesis using assms by (simp add: ownedOption_def draw_simps)
qed

lemma createDialog_fine [draw_simps]: "typedMarket p \<Longrightarrow> fine P' (createDialog p)" if "\<And>e. P' e"
  using that by (auto simp: createDialog_def typedMarket_def draw_simps split: option.split)

lemma priceChart_fine [draw_simps]: "fine (\<lambda>_. True) (priceChart p)"
  by (simp add: priceChart_def draw_simps)

lemma statCards_typed:
  assumes "typedMarket p"
  shows "list_all visible (map snd (statCards L (mp_stats p)))"
proof (cases "mp_stats p")
  case (Some s)
  then have s: "conforms True webMarketplaceStatsT s" using assms by (simp add: typedMarket_def)
  have n: "hasType TNumber (dot s k)"
    if "k \<in> {''totalVolume'', ''vwap'', ''openInterest'', ''totalListings''}" for k
    by (rule hasType_dot [OF s]) (use that in \<open>auto simp: webMarketplaceStatsT_def List.map_filter_simps\<close>)
  show ?thesis
    using n by (simp add: Some statCards_def draw_simps hasType_formats hasType_visible)
qed (simp add: statCards_def draw_simps)

lemma drawMarket_fine: "typedMarket p \<Longrightarrow> fine (\<lambda>_. True) (drawMarket L w p)"
  using mapS_pieces [OF statCards_typed [of p L]]
  by (auto simp: drawMarket_def draw_simps list_all_iff visible_def mapS_map dest!: set_zip_rightD)

lemma loadStats_typed:
  assumes "typedReplies T"
  shows "keepsState typedMarket (loadStats T)" "keepsState typedMarket (handleOpenCreateOffer w T)"
  unfolding loadStats_def handleOpenCreateOffer_def
  by (intro keepsState_reply [OF _ assms] act_intros; auto simp: typedMarket_def simp del: conforms.simps dest: conforms_elems)+

interpretation marketDrawn: drawn_page typedMarket "marketAct w" "drawMarket L w" "\<lambda>_. True"
    "\<lambda>e. e \<in> {MpStats, MpPrices}"
  for L :: intl and w :: "wallet_info option"
proof
  fix T :: "'a transport" and e
  assume t: "typedReplies T"
  have "keepsState typedMarket (loadPrices T)" "keepsState typedMarket (handleCreateOffer T)"
    unfolding loadPrices_def handleCreateOffer_def by (intro act_intros; simp add: typedMarket_def)+
  then show "keepsState typedMarket (marketAct w T e)"
    using loadStats_typed [OF t] by (cases e) (auto simp: typedMarket_def intro!: act_intros)
qed (auto intro: drawMarket_fine)

subsection \<open>The portfolio page\<close>

definition typedPortfolio :: "portfolio_page \<Rightarrow> bool" where
  "typedPortfolio p \<longleftrightarrow> (\<forall>c \<in> set (pf_credits p). conforms True webCreditT c) \<and>
     (\<forall>x \<in> set (pf_offers p). conforms True webOfferT x) \<and>
     (\<forall>c \<in> set (pf_certificates p). conforms True webCertificateT c) \<and>
     (\<forall>c. pf_selected p = Some c \<longrightarrow> conforms True webCreditT c)"

definition carriesCredit :: "portfolio_event \<Rightarrow> bool" where
  "carriesCredit e = (case e of PfSelect (Some c) \<Rightarrow> conforms True webCreditT c | _ \<Rightarrow> True)"

lemma carriesCredit_simps [simp]:
  "carriesCredit (PfSelect (Some c)) = conforms True webCreditT c" "carriesCredit (PfSelect None)"
  "carriesCredit PfLoad" "carriesCredit (PfSearch s)"
  by (simp_all add: carriesCredit_def)

lemma credit_text:
  assumes "conforms True webCreditT c" and "k \<in> {''methodology'', ''geography'', ''projectId''}"
  shows "\<exists>s. dot c k = Inr (JStr s) \<and> getProp c k = JStr s"
proof -
  have "fieldTy webCreditT k = Some TString"
    using assms(2) by (elim insertE emptyE; simp add: webCreditT_def List.map_filter_simps)
  from object_property [OF assms(1) this] obtain u
    where "dot c k = Inr u" "getProp c k = u" "conforms True TString u" by blast
  then show ?thesis unfolding conforms_plain by metis
qed

lemma matchesPieces_typed:
  assumes "conforms True webCreditT c"
  shows "matchesPieces q c = Inr (matchesSearch q c)"
proof -
  obtain m g i where "dot c ''methodology'' = Inr (JStr m)" "getProp c ''methodology'' = JStr m"
    "dot c ''geography'' = Inr (JStr g)" "getProp c ''geography'' = JStr g"
    "dot c ''projectId'' = Inr (JStr i)" "getProp c ''projectId'' = JStr i"
    using credit_text [OF assms, of "''methodology''"] credit_text [OF assms, of "''geography''"]
      credit_text [OF assms, of "''projectId''"] by fastforce
  then show ?thesis
    by (simp add: matchesPieces_def matchesSearch_def lowerOf_def Let_def del: includesStr.simps)
qed

lemma filter_zip: "map fst (filter snd (zip xs (map f xs))) = filter f xs"
  by (induction xs) auto

text \<open>On credits of the declared type the search finds what \<open>filteredCredits\<close> says.\<close>

lemma searchCredits_typed: "typedPortfolio p \<Longrightarrow> searchCredits p = Inr (filteredCredits p)"
  using mapS_all_Inr [of "pf_credits p" "matchesPieces (toLower (pf_search p))"
      "matchesSearch (toLower (pf_search p))"]
  by (auto simp: searchCredits_def filteredCredits_def typedPortfolio_def matchesPieces_typed filter_zip)

definition certRetirementT :: ty where
  "certRetirementT = TAnd webRetirementT (TObj [Req ''credit'' (TObj [Req ''creditId'' TNumber,
     Req ''projectId'' TString, Req ''methodology'' TString, Req ''geography'' TString,
     Req ''vintageStart'' TString, Req ''vintageEnd'' TString, Req ''tonnes'' TNumber,
     Req ''serialPrefix'' TString])])"

lemma certificate_retirement:
  assumes "conforms True webCertificateT c" and "truthy (getProp c ''retirement'')"
  shows "conforms True certRetirementT (getProp c ''retirement'')"
proof -
  have "optionalTy webCertificateT ''retirement'' = Some certRetirementT"
    by (simp add: webCertificateT_def certRetirementT_def List.map_filter_simps)
  from conforms_optional [OF assms(1) this] assms(2) show ?thesis by (auto simp: nullish_def)
qed

lemma retirement_visible [draw_simps]:
  assumes "conforms True certRetirementT r"
    and "k \<in> {''tonnesRetired'', ''beneficiary'', ''reason'', ''timestamp'', ''txHash''}"
  shows "visible (dot r k)"
  by (rule visible_dot [OF assms(1)])
    (use assms(2) in \<open>auto simp: ty_eval certRetirementT_def webRetirementT_def\<close>)

lemma retirement_credit:
  assumes "conforms True certRetirementT r"
    and "k \<in> {''creditId'', ''methodology'', ''geography'', ''vintageStart'', ''vintageEnd''}"
  shows "isNode (getProp (getProp r ''credit'') k)" "visible (dot (getProp r ''credit'') k)"
proof -
  let ?U = "TObj [Req ''creditId'' TNumber, Req ''projectId'' TString, Req ''methodology'' TString,
     Req ''geography'' TString, Req ''vintageStart'' TString, Req ''vintageEnd'' TString,
     Req ''tonnes'' TNumber, Req ''serialPrefix'' TString]"
  have c: "conforms True ?U (getProp r ''credit'')"
    by (rule conforms_field [OF assms(1)])
      (simp add: certRetirementT_def webRetirementT_def List.map_filter_simps)
  have k: "plainTy (fieldTy ?U k)" using assms(2) by (auto simp: ty_eval)
  show "isNode (getProp (getProp r ''credit'') k)" "visible (dot (getProp r ''credit'') k)"
    using visible_property [OF c k] visible_dot [OF c k] by (simp_all add: draw_simps)
qed

lemma certificate_texts:
  assumes "conforms True webCertificateT c" and "k \<in> {''certificateHash'', ''pdfUrl'', ''txHash''}"
    and "truthy (getProp c k)"
  shows "hasType TString (dot c k)"
  by (rule optional_text [OF assms(1) _ assms(3)])
    (use assms(2) in \<open>auto simp: webCertificateT_def List.map_filter_simps\<close>)

lemma certificateCard_fine [draw_simps]:
  "conforms True webCertificateT c \<Longrightarrow> fine P (certificateCard L E c)"
  using certificate_retirement [of c] certificate_texts [of c "''certificateHash''"]
    certificate_texts [of c "''pdfUrl''"]
  by (auto simp: certificateCard_def draw_simps Let_def hasType_formats hasType_visible retirement_credit)

lemma portfolioRow_fine [draw_simps]:
  "conforms True webCreditT c \<Longrightarrow> fine carriesCredit (portfolioRow L p c)"
  by (simp add: portfolioRow_def draw_simps toLocale_def nullish_def)

lemma ownOfferRow_fine [draw_simps]:
  assumes "conforms True webOfferT x"
  shows "fine P (ownOfferRow L E x)"
proof -
  let ?U = "TObj [Req ''creditId'' TNumber, Req ''projectId'' TString, Req ''methodology'' TString,
    Req ''geography'' TString, Req ''tonnes'' TNumber]"
  have "fieldTy webOfferT ''credit'' = Some ?U" by (simp add: webOfferT_def List.map_filter_simps)
  from object_property [OF assms this] obtain c
    where c: "dot x ''credit'' = Inr c" "conforms True ?U c" by blast
  have "visible (Inr (getProp c ''creditId''))"
    by (rule visible_property [OF c(2)]) (simp add: ty_eval)
  then show ?thesis using assms c(1) by (simp add: ownOfferRow_def draw_simps)
qed

lemma tabOf_fine [draw_simps]: "fine P (tabOf v l n)"
  by (simp add: tabOf_def draw_simps)

lemma connectPrompt_fine [draw_simps]: "fine P (connectPrompt title l)"
  by (simp add: connectPrompt_def draw_simps)

lemma filteredCredits_subset: "set (filteredCredits p) \<subseteq> set (pf_credits p)"
  by (auto simp: filteredCredits_def)

lemma portfolioTabs_fine [draw_simps]:
  "typedPortfolio p \<Longrightarrow> fine carriesCredit (portfolioTabs L E p (filteredCredits p))"
  using filteredCredits_subset [of p]
  by (auto simp: portfolioTabs_def draw_simps typedPortfolio_def toLocale_def nullish_def)

lemma provenanceDialog_fine [draw_simps]:
  assumes "typedPortfolio p"
  shows "fine carriesCredit (provenanceDialog p)"
proof (cases "pf_selected p")
  case (Some c)
  then have "visible (dot c ''creditId'')" using assms by (simp add: typedPortfolio_def draw_simps)
  then obtain n where n: "dot c ''creditId'' = Inr n" "isNode n" "getProp c ''creditId'' = n"
    by (auto simp: visible_def dot_def split: if_splits)
  then show ?thesis by (simp add: provenanceDialog_def Some Let_def draw_simps)
qed (simp add: provenanceDialog_def draw_simps)

lemma drawPortfolio_fine:
  assumes "typedPortfolio p"
  shows "fine carriesCredit (drawPortfolio L E w p)"
proof -
  have "\<exists>vs. mapS (\<lambda>c. dot c ''tonnes'') (pf_credits p) = Inr vs \<and> list_all isNode vs"
    using assms credit_visible [where k = "''tonnes''"]
    by (intro mapS_total) (auto simp: typedPortfolio_def visible_def)
  then show ?thesis
    using assms searchCredits_typed [OF assms] by (auto simp: drawPortfolio_def draw_simps)
qed

lemma caught_elems:
  "v = JArr [] \<or> conforms True (TArr T) v \<Longrightarrow> x \<in> set (elems v) \<Longrightarrow> conforms True T x"
  by (auto simp: elems_def list_all_iff split: jsval.splits)

lemma offersOf_typed:
  "v = JArr [] \<or> conforms True (webPaginatedResponseT T) v \<Longrightarrow> x \<in> set (offersOf pub v) \<Longrightarrow> conforms True T x"
  by (cases v) (auto simp: offersOf_def dest: page_data, auto simp: webPaginatedResponseT_def)

lemma loadPortfolio_typed:
  assumes "typedReplies T"
  shows "keepsState typedPortfolio (loadPortfolio w T)"
proof -
  have loaded: "keepsState typedPortfolio (setState (\<lambda>p. p\<lparr>pf_credits := elems cs,
      pf_certificates := elems certs, pf_vwap := x, pf_offers := offersOf pub os\<rparr>))"
    if "cs = JArr [] \<or> conforms True (TArr webCreditT) cs"
      and "certs = JArr [] \<or> conforms True (TArr webCertificateT) certs"
      and "os = JArr [] \<or> conforms True (webPaginatedResponseT webOfferT) os" for cs certs os x pub
    using caught_elems [OF that(1)] caught_elems [OF that(2)] offersOf_typed [OF that(3)]
    by (intro act_intros) (auto simp: typedPortfolio_def)
  note caught = yields_caught [OF yields_sends(1) [OF assms]] yields_caught [OF yields_sends(2) [OF assms]]
  show ?thesis
    unfolding loadPortfolio_def
    by (intro act_intros keepsState_yields [OF _ caught(1) [of "JArr []" WOwnedCredits]]
        keepsState_yields [OF _ caught(2) [of "JArr []" WOwnedCertificates]]
        keepsState_yields [OF _ caught(1) [of "JArr []" "WListings []"]] loaded)
      (simp_all add: typedPortfolio_def del: conforms.simps)
qed

interpretation portfolioDrawn: drawn_page typedPortfolio "portfolioAct w" "drawPortfolio L E w"
    carriesCredit "\<lambda>e. e = PfLoad"
  for L :: intl and E :: env and w :: "wallet_info option"
proof
  fix T :: "'a transport" and e
  assume "typedReplies T" and "carriesCredit e"
  then show "keepsState typedPortfolio (portfolioAct w T e)"
    using loadPortfolio_typed [of T w]
    by (cases e) (auto simp: typedPortfolio_def intro!: act_intros)
qed (auto intro: drawPortfolio_fine)

subsection \<open>The retirement page\<close>

text \<open>The certificate that is read after a retirement is declared as a record of unknown values.\<close>

definition typedRetire :: "retire_page \<Rightarrow> bool" where
  "typedRetire p \<longleftrightarrow> (\<forall>c \<in> set (rp_credits p). conforms True webCreditT c) \<and>
     (\<forall>n h. rp_retired p = Some (n, h) \<longrightarrow> nullish h \<or> (\<exists>s. h = JStr s))"

lemma retireRow_fine [draw_simps]:
  assumes "conforms True webCreditT c"
  shows "fine (\<lambda>_. True) (retireRow p c)"
proof -
  have "visible (dot c ''creditId'')" using assms by (simp add: draw_simps)
  then obtain n where "dot c ''creditId'' = Inr n" "isNode n" by (auto simp: visible_def)
  then show ?thesis using assms by (simp add: retireRow_def draw_simps)
qed

lemma retireDetails_fine [draw_simps]: "fine (\<lambda>_. True) (retireDetails p)"
  by (simp add: retireDetails_def Let_def draw_simps split: option.split)

lemma confirmDialog_fine [draw_simps]: "fine (\<lambda>_. True) (confirmDialog p)"
  by (simp add: confirmDialog_def draw_simps)

lemma link_truthy [draw_simps]: "truthy (getProp c k) \<Longrightarrow> fine P (linkTo (dot c k) l)"
  by (cases c) (auto simp: linkTo_def dot_def nullish_def draw_simps)

lemma retiredView_fine [draw_simps]:
  assumes "nullish h \<or> (\<exists>s. h = JStr s)"
  shows "fine (\<lambda>_. True) (retiredView p n h)"
proof -
  have "visible (sliced 16 (Inr h))" if "truthy h"
    using assms that by (auto simp: nullish_def sliced_def visible_def)
  then show ?thesis by (auto simp: retiredView_def Let_def draw_simps)
qed

lemma drawRetire_fine:
  assumes "typedRetire p"
  shows "fine (\<lambda>_. True) (drawRetire w p)"
proof -
  have "\<exists>vs. mapS (\<lambda>c. dot c ''creditId'') (rp_credits p) = Inr vs \<and> list_all isNode vs"
    using assms credit_visible [where k = "''creditId''"]
    by (intro mapS_total) (auto simp: typedRetire_def visible_def)
  then show ?thesis
    using assms by (auto simp: drawRetire_def typedRetire_def draw_simps split: option.split)
qed

lemma retirement_hash:
  assumes "conforms True webRetirementT r"
  shows "nullish (getProp r ''certificateHash'') \<or> (\<exists>s. getProp r ''certificateHash'' = JStr s)"
proof -
  have "optionalTy webRetirementT ''certificateHash'' = Some TString"
    by (simp add: webRetirementT_def List.map_filter_simps)
  from conforms_optional [OF assms this] show ?thesis unfolding conforms_plain .
qed

lemma loadOwned_typed:
  assumes "typedReplies T"
  shows "keepsState typedRetire (loadOwned w T)"
  unfolding loadOwned_def
  by (intro keepsState_reply [OF _ assms] act_intros;
      auto simp: typedRetire_def simp del: conforms.simps dest: conforms_elems)

lemma handleRetire_typed:
  assumes "typedReplies T"
  shows "keepsState typedRetire (handleRetire E T)"
  unfolding handleRetire_def retireOne_def
  by (intro keepsState_reply [OF _ assms] act_intros;
      auto simp: typedRetire_def simp del: conforms.simps dest: retirement_hash)

interpretation retireDrawn: drawn_page typedRetire "retireAct E w" "drawRetire w" "\<lambda>_. True"
    "\<lambda>e. e \<in> {RpLoad, RpCertificate}"
  for E :: env and w :: "wallet_info option"
proof
  fix T :: "'a transport" and e
  assume t: "typedReplies T"
  show "keepsState typedRetire (retireAct E w T e)"
    using loadOwned_typed [OF t] handleRetire_typed [OF t]
    by (cases e) (auto simp: toggleCredit_def openConfirm_def showCertificate_def typedRetire_def
        intro!: act_intros)
qed (auto intro: drawRetire_fine)

subsection \<open>The embedded components\<close>

lemma provenance_visible [draw_simps]:
  assumes "conforms True provenanceT e"
  shows "fine P (provenanceItem L E e)"
proof -
  have t: "hasType TString (dot e ''type'')" "hasType TString (dot e ''timestamp'')"
    "hasType TString (dot e ''actor'')"
    by (rule hasType_dot [OF assms]; simp add: provenanceT_def List.map_filter_simps)+
  then obtain ty ts where "dot e ''type'' = Inr (JStr ty)" "dot e ''timestamp'' = Inr (JStr ts)"
    using t(1,2) by (auto simp: hasType_string)
  then show ?thesis
    using t(3) by (simp add: provenanceItem_def draw_simps dateOrInvalid_def hasType_formats)
qed

interpretation provenanceDrawn: drawn_page "\<lambda>p. \<forall>e \<in> set (ld_value p). conforms True provenanceT e"
    "\<lambda>T _. loadProvenance T n" "drawProvenance L E" "\<lambda>_. True" "\<lambda>_. True"
  for n :: jsnum and L :: intl and E :: env
proof
  fix T :: "'a transport" and e :: unit
  assume "typedReplies T"
  then show "keepsState (\<lambda>p. \<forall>e \<in> set (ld_value p). conforms True provenanceT e)
      (loadProvenance T n)"
    unfolding loadProvenance_def
    by (intro keepsState_reply act_intros)
      (auto simp del: conforms.simps dest: conforms_elems)
qed (auto simp: drawProvenance_def draw_simps)

lemma drawPreview_fine:
  assumes "conforms True webCertificateT c"
  shows "fine (\<lambda>_. True) (drawPreview c)"
proof -
  let ?r = "getProp c ''retirement''"
  have u: "dot c ''pdfUrl'' = Inr (getProp c ''pdfUrl'')"
    using conforms_object [OF assms, of "''id''"]
    by (auto simp: dot_def webCertificateT_def List.map_filter_simps)
  have r: "truthy ?r \<Longrightarrow> conforms True certRetirementT ?r" by (rule certificate_retirement [OF assms])
  have n: "truthy ?r \<Longrightarrow> isNode (coalesce (getProp (getProp ?r ''credit'') k) (JStr s))"
    if "k \<in> {''methodology'', ''geography''}" for k s
    using retirement_credit(1) [OF r, of k] that by (auto simp: coalesce_def)
  have h: "truthy (getProp c ''certificateHash'') \<Longrightarrow> visible (dot c ''certificateHash'')"
    using certificate_texts [OF assms, of "''certificateHash''"] by (simp add: hasType_visible)
  have v: "fine (\<lambda>_. True) (linkTo (Inr x) l)" for x and l :: string
    by (simp add: linkTo_def draw_simps)
  have d: "fine (\<lambda>_. True) (linkTo (template [says ''/certificates/'', dot c ''id'']) ''Verify'')"
    using assms by (simp add: draw_simps)
  show ?thesis
    using r n h d by (simp add: drawPreview_def u Let_def draw_simps v)
qed

section \<open>A browser for the witnesses\<close>

definition demoLocale :: intl where
  "demoLocale = \<lparr>lo_number = (\<lambda>o1 x. num_to_string x), lo_date = isoDate, lo_dateTime = isoString,
     lo_eventTime = isoString, lo_year = utcYear\<rparr>"

definition demoWallet :: "wallet_info option" where
  "demoWallet = Some \<lparr>wi_publicKey = ''GBUYER'', wi_isConnected = True\<rparr>"

section \<open>What the pages draw of the service's answers\<close>

text \<open>The statistics of the service lack the open interest that a card of the page formats.\<close>

lemma stats_throw: "mapS snd (statCards L (Some (statsJson s))) = Inl typeError"
proof -
  have o: "dot (statsJson s) ''openInterest'' = Inr JUndef"
    and v: "dot (statsJson s) ''vwap'' = Inr (jsonNum (ms_vwap s))"
    and t: "dot (statsJson s) ''totalVolume'' = Inr (jsonNum (ms_totalVolume s))"
    by (simp_all add: dot_def statsJson_def nullish_def)
  have toLocale: "toLocale L plainLocale (Inr (jsonNum x)) = Inl typeError \<or>
      (\<exists>u. toLocale L plainLocale (Inr (jsonNum x)) = Inr u)" for x
    by (auto simp: toLocale_def)
  have fixed: "toFixed 2 (Inr (jsonNum x)) = Inl typeError \<or> (\<exists>u. toFixed 2 (Inr (jsonNum x)) = Inr u)"
    for x by (auto simp: toFixed_def jsonNum_def)
  show ?thesis
    using toLocale [of "ms_totalVolume s"] fixed [of "ms_vwap s"]
    by (auto simp: statCards_def template_def says_def o v t, auto simp: toLocale_def nullish_def)
qed

text \<open>
  C15. The service answers the statistics without the open interest that the page
  formats: once the answer of any state of the service has arrived, the marketplace page cannot be
  drawn, in whatever state it was and whoever looks at it.
\<close>

theorem market_page_fails:
  assumes "T (bearerHeader (br_token b)) (webCredits WStats) (br_server b) = (answer E w QStats, srv)"
  shows "screen (drawMarket L i (fst (snd (marketAct i T MpStats (p, b))))) = Failed typeError"
proof -
  have "mp_stats (fst (snd (marketAct i T MpStats (p, b)))) = Some (statsJson (getStats w))"
    using assms by (simp add: loadStats_def handler_simps del: webCredits.simps)
  then show ?thesis using stats_throw by (simp add: drawMarket_def screen_def)
qed

theorem market_page_fails_witness:
  "screen (drawMarket demoLocale None (fst (snd (marketAct None (\<lambda>h c s. (answer demoEnv demoWorld QStats, s)) MpStats
     (newMarketPage, \<lparr>br_token = None, br_server = ()\<rparr>))))) = Failed typeError"
  by (rule market_page_fails [where E = demoEnv and w = demoWorld and srv = "()"]) simp

text \<open>The price history is answered as an array, which has no \<open>data\<close>: the chart stays empty.\<close>

lemma chart_stays_empty:
  assumes "T (bearerHeader (br_token b)) (webRecords (WPriceHistory (mp_range p))) (br_server b) =
    (answer E w QPriceHistory, srv)"
  shows "mp_history (fst (snd (marketAct i T MpPrices (p, b)))) = []"
  using assms by (simp add: loadPrices_def handler_simps elems_def del: webRecords.simps)

text \<open>
  The certificate that the retirement page reads after a retirement has no id and no document: its
  preview links to the page of the certificate \<open>undefined\<close>.
\<close>

lemma retirement_preview_link:
  "\<exists>ds. drawPreview (retirementCertificateJson d) = Inr ds \<and>
     DLink ''/certificates/undefined'' [DText ''Verify''] \<in> set ds \<and>
     DBox None [DText ''PDF preview not available''] \<in> set ds"
  by (simp add: drawPreview_def retirementCertificateJson_def Let_def dot_def nullish_def coalesce_def
      parts.simps onlyIf_def linkTo_def template_def says_def button_def cardOf_def around_def words_def
      jsString_def)

text \<open>
  A row of the retirement page and the checkbox in it both toggle the credit: a click on the
  checkbox itself toggles twice and selects nothing.
\<close>

lemma checkbox_bubbles:
  assumes "dot c ''creditId'' = Inr n" and "retireRow p c = Inr ds"
  shows "[RpToggle (jsNumber n), RpToggle (jsNumber n)] \<in> set (concat (map clicks ds))"
  using assms by (auto simp: retireRow_def around_def parts.simps bindS_Inr_iff)

lemma checkbox_selects_nothing:
  "set (rp_selected (fst (runEvents (retireAct E w T) [RpToggle n, RpToggle n] (p, b)))) =
   set (rp_selected p)"
  by (auto simp: runEvents_def toggleCredit_def setState_apply toggle_def)

end
