(* ===== verification/ConsoleViews.thy ===== *)
theory ConsoleViews
  imports TradingViews
begin

text \<open>
  What the pages for operators draw: administration, verifiers and webhooks.
\<close>

section \<open>Pieces\<close>

definition numbered :: "'a list \<Rightarrow> (nat \<times> 'a) list" where
  "numbered xs = zip [0..<length xs] xs"

lemma numbered_set: "(i, x) \<in> set (numbered xs) \<Longrightarrow> x \<in> set xs"
  by (auto simp: numbered_def dest: set_zip_rightD)

text \<open>\<open>u?.k.slice(0, n)\<close>, and \<open>v?.slice(0, n)\<close> of a value.\<close>

definition optSliced :: "nat \<Rightarrow> jsval \<Rightarrow> string \<Rightarrow> piece" where
  "optSliced n u k = (if nullish u then Inr JUndef else sliced n (dot u k))"

definition slicedIfAny :: "nat \<Rightarrow> jsval \<Rightarrow> piece" where
  "slicedIfAny n v = (if nullish v then Inr JUndef else sliced n (Inr v))"

text \<open>\<open>xs.some(f)\<close>: the elements after the first match are not looked at.\<close>

fun someS :: "('a \<Rightarrow> api_error + bool) \<Rightarrow> 'a list \<Rightarrow> api_error + bool" where
  "someS f [] = Inr False"
| "someS f (x # xs) = bindS (f x) (\<lambda>b. if b then Inr True else someS f xs)"

lemma someS_total: "(\<And>x. x \<in> set xs \<Longrightarrow> f x = Inr (g x)) \<Longrightarrow> someS f xs = Inr (list_ex g xs)"
  by (induction xs) auto

section \<open>The administration page\<close>

definition numberField :: "string \<Rightarrow> string \<Rightarrow> (string \<Rightarrow> 'e) \<Rightarrow> string \<Rightarrow> 'e drawing" where
  "numberField l v f hint = parts [fieldOf l [] v f, words hint]"

definition configTab :: "admin_page \<Rightarrow> admin_event drawing" where
  "configTab p = around (DPanel ''config'') [cardOf [
     words ''Contract Configuration'',
     numberField ''Protocol Fee (BPS)'' (ad_feeBps p) AdFee
       (''0 '' @ enDash @ '' 1000 BPS (0'' @ enDash @ ''10%)''),
     numberField ''Verifier Threshold'' (ad_threshold p) AdThreshold ''Approvals required to mint'',
     numberField ''Verifier Quorum'' (ad_quorum p) AdQuorum ''Minimum verifiers to keep stake'',
     numberField ''Approval Window (seconds)'' (ad_approvalWindow p) AdWindow ''e.g. 2592000 = 30 days'',
     numberField ''Buffer Pool (%)'' (ad_bufferPct p) AdBuffer ''Percentage held in buffer'',
     line [says ''Admin: '', Inr (coalesce (getProp (case ad_config p of None \<Rightarrow> JNull | Some c \<Rightarrow> c)
       ''admin'') (JStr ''n/a''))],
     busyButton (ad_configSaving p) (ad_configSaving p) AdSaveConfig ''Save Configuration'']]"

definition networkCard :: "jsval option \<Rightarrow> 'e drawing" where
  "networkCard sys = (case sys of
     None \<Rightarrow> cardOf [words ''Network'', words ''Soroban RPC: Disconnected'']
   | Some s \<Rightarrow> bindS (dot s ''network'') (\<lambda>n. bindS (dot n ''connected'') (\<lambda>c. cardOf [
       words ''Network'',
       words (''Soroban RPC: '' @ (if truthy c then ''Connected'' else ''Disconnected'')),
       onlyIf (truthy (getProp n ''sequence'')) (line [says ''Latest ledger: #'', dot n ''sequence''])])))"

definition countsCard :: "jsval option \<Rightarrow> 'e drawing" where
  "countsCard sys = cardOf [words ''Protocol Counts'', (case sys of
     None \<Rightarrow> words ''System status unavailable.''
   | Some s \<Rightarrow> bindS (dot s ''counts'') (\<lambda>n. each (\<lambda>(l, k). cardOf [line [dot n k], words l])
       [(''Users'', ''users''), (''Credits'', ''credits''), (''Verifiers'', ''verifiers''),
        (''Offers'', ''offers''), (''Retirements'', ''retirements''), (''Webhooks'', ''webhooks'')]))]"

definition entriesOf :: "jsval \<Rightarrow> (string \<times> jsval) list" where
  "entriesOf v = (case v of JObj kvs \<Rightarrow> kvs | _ \<Rightarrow> [])"

definition contractsCard :: "jsval option \<Rightarrow> 'e drawing" where
  "contractsCard cs = (let es = (case cs of None \<Rightarrow> [] | Some v \<Rightarrow> entriesOf v) in
     cardOf [words ''Contract Addresses'',
       (if es = [] then words ''Contract addresses unavailable.''
        else each (\<lambda>(k, v). cardOf [words k, line [Inr (coalesce v (JStr ''not configured''))]]) es)])"

definition systemTab :: "admin_page \<Rightarrow> admin_event drawing" where
  "systemTab p = around (DPanel ''system'') [networkCard (ad_system p), countsCard (ad_system p),
     contractsCard (ad_contracts p)]"

definition shortAddress :: "nat \<Rightarrow> jsval \<Rightarrow> 'e drawing" where
  "shortAddress n v = bindS (dot v ''user'') (\<lambda>u. line [optSliced n u ''stellarPub'', says ''...''])"

definition verifierLine :: "intl \<Rightarrow> jsval \<Rightarrow> admin_event drawing" where
  "verifierLine L v = parts [
     shortAddress 12 v,
     badge (if getProp v ''status'' = JStr ''ACTIVE'' then ''default'' else ''destructive'')
       [dot v ''status''],
     line [toLocale L plainLocale (dot v ''stake'')],
     line [dot v ''reputation''],
     button False (AdOpenSlash v) ''Slash'']"

definition verifiersTab :: "intl \<Rightarrow> admin_page \<Rightarrow> admin_event drawing" where
  "verifiersTab L p = around (DPanel ''verifiers'') [cardOf [words ''Verifier Management'',
     (if ad_verifiers p = [] then words ''No verifiers registered.''
      else tableOf [''Address'', ''Status'', ''Stake'', ''Reputation'', ''Actions''] (verifierLine L)
        (ad_verifiers p))]]"

definition beneficiaryRow :: "admin_page \<Rightarrow> nat \<times> string \<times> string \<Rightarrow> admin_event drawing" where
  "beneficiaryRow p b = (case b of (i, address, bps) \<Rightarrow> parts [
     Inr [DInput ''Stellar address'' address (AdAddress i), DInput ''BPS'' bps (AdBps i)],
     onlyIf (1 < length (ad_beneficiaries p)) (Inr [DButton False (Some (AdRemoveBeneficiary i)) []])])"

definition revenueTab :: "admin_page \<Rightarrow> admin_event drawing" where
  "revenueTab p = around (DPanel ''revenue'') [cardOf [words ''Revenue Split Configuration'',
     each (beneficiaryRow p) (numbered (ad_beneficiaries p)),
     button (20 \<le> length (ad_beneficiaries p)) AdAddBeneficiary ''Add Beneficiary'',
     line [says ''Total BPS: '', Inr (JNum (typedBps (ad_beneficiaries p))), says '' / 10000''],
     button False AdSaveSplit ''Save Revenue Split'']]"

definition oracleTab :: "admin_page \<Rightarrow> admin_event drawing" where
  "oracleTab p = around (DPanel ''oracle'') [cardOf [words ''Oracle Root Updates'',
     words ''Update Merkle roots for external registries to enable credit bridging.'',
     each (\<lambda>(i, r). Inr [DText (rr_name r), DInput ''Merkle root (hex)'' (rr_root r) (AdRoot i)])
       (numbered (ad_registries p)),
     fieldOf ''Block height'' ''24150000'' (ad_blockHeight p) AdHeight,
     button False AdUpdateRoots ''Update Roots'']]"

definition slashDialog :: "intl \<Rightarrow> admin_page \<Rightarrow> admin_event drawing" where
  "slashDialog L p = dialog (ad_showSlash p) (AdShowSlash False) [
     words ''Slash Verifier'', words ''Penalize a verifier by reducing their stake and reputation.'',
     (case ad_slashVerifier p of None \<Rightarrow> Inr [] | Some v \<Rightarrow> parts [
        words ''Address:'', shortAddress 12 v,
        line [says ''Current Stake: '', toLocale L plainLocale (dot v ''stake'')],
        line [says ''Reputation: '', dot v ''reputation''],
        fieldOf ''Slash Amount'' [] (ad_slashAmount p) AdSlashAmount]),
     button False (AdShowSlash False) ''Cancel'',
     busyButton (ad_slashing p) (ad_slashing p \<or> ad_slashAmount p = []) AdSlash ''Execute Slash'']"

definition drawAdmin :: "intl \<Rightarrow> wallet_info option \<Rightarrow> admin_page \<Rightarrow> admin_event drawing" where
  "drawAdmin L w p =
     (if walletKey w = None then connectPrompt ''Admin Panel'' ''Connect your wallet to access the admin panel.''
      else if ad_loading p then Inr [DSpinner]
      else parts [
        words ''Admin Panel'', words ''Contract configuration, verifier management, and protocol settings.'',
        (case given (ad_error p) of None \<Rightarrow> Inr [] | Some e \<Rightarrow> words e),
        each (\<lambda>(v, l). around (DTrigger v) [words l]) [(''config'', ''Configuration''),
          (''system'', ''System''), (''verifiers'', ''Verifiers''), (''revenue'', ''Revenue Split''),
          (''oracle'', ''Oracle Roots'')],
        configTab p, systemTab p, verifiersTab L p, revenueTab p, oracleTab p, slashDialog L p])"

section \<open>The verifier page\<close>

definition ownStanding :: "wallet_info option \<Rightarrow> verifier_page \<Rightarrow> api_error + bool" where
  "ownStanding w p = (case walletKey w of None \<Rightarrow> Inr False
     | Some k \<Rightarrow> someS (\<lambda>v. bindS (dot v ''user'') (\<lambda>u.
         Inr (getProp u ''stellarPub'' = JStr k \<and> getProp v ''status'' = JStr ''ACTIVE'')))
         (vp_verifiers p))"

definition pendingRow ::
  "intl \<Rightarrow> env \<Rightarrow> bool \<Rightarrow> verifier_page \<Rightarrow> jsval \<Rightarrow> verifier_event drawing" where
  "pendingRow L E ok p c = bindS (dot c ''id'') (\<lambda>i. parts [
     Inr [DButton False (Some (VpExpand (if vp_expanded p = Some i then None else Some i))) []],
     line [says ''#'', dot c ''creditId''],
     line [dot c ''projectId''],
     badge ''outline'' [dot c ''methodology''],
     line [dot c ''geography''],
     line [dot c ''tonnes''],
     line [onDate L E (dot c ''createdAt'')],
     onlyIf (submissionExpired E c) (badge ''destructive'' [says ''Expired'']),
     button (\<not> ok) (VpAsk c Approve) ''Approve'',
     button (\<not> ok) (VpAsk c Reject) ''Reject''])"

definition approvalBadge :: "jsval \<Rightarrow> 'e drawing" where
  "approvalBadge a = (let ok = truthy (getProp a ''approved'') in
     badge (if ok then ''default'' else ''destructive'')
       [bindS (dot a ''verifier'') (\<lambda>v. sliced 6 (dot v ''stellarPub'')), says ''... '',
        says (if ok then tick else cross)])"

definition pendingDetails :: "jsval \<Rightarrow> verifier_event drawing" where
  "pendingDetails c = cardOf [
     words ''Serial Prefix'', line [dot c ''serialPrefix''],
     words ''Vintage Range'',
     line [dot c ''vintageStart'', says '' '', says enDash, says '' '', dot c ''vintageEnd''],
     words ''SDG Flags'', line [dot c ''sdgFlags''],
     words ''Permanence'', line [dot c ''permanenceRating'', says ''/10''],
     words ''Buffer Contribution'', line [dot c ''bufferContributionPct'', says ''%''],
     words ''Additionality Type'', line [dot c ''additionalityType''],
     words ''Issuer'',
     line [slicedIfAny 8 (getProp (getProp c ''issuer'') ''stellarPub''), says ''...''],
     words ''IPFS'', line [slicedIfAny 16 (getProp c ''ipfsHash''), says ''...''],
     (let as = elems (getProp c ''approvals'') in onlyIf (as \<noteq> [])
       (parts [words ''Existing Approvals'', each approvalBadge as]))]"

definition pendingTab ::
  "intl \<Rightarrow> env \<Rightarrow> bool \<Rightarrow> verifier_page \<Rightarrow> verifier_event drawing" where
  "pendingTab L E ok p = around (DPanel ''pending'') [
     (if vp_pending p = [] then cardOf [words ''No pending credits awaiting review.'']
      else parts [
        tableOf [[], ''ID'', ''Project'', ''Methodology'', ''Geography'', ''Tonnes'', ''Submitted'', ''Actions'']
          (pendingRow L E ok p) (vp_pending p),
        (case vp_expanded p of None \<Rightarrow> Inr [] | Some i \<Rightarrow> onlyIf (truthy i)
           (case List.find (\<lambda>c. getProp c ''id'' = i) (vp_pending p) of None \<Rightarrow> Inr []
            | Some c \<Rightarrow> pendingDetails c))])]"

text \<open>The hours since the last heartbeat.\<close>

definition heartbeatText :: "env \<Rightarrow> jsval \<Rightarrow> string" where
  "heartbeatText E h = (if truthy h then num_to_string (case dateOf E h of None \<Rightarrow> NaN
       | Some t \<Rightarrow> num_floor (num_div (ofInt (clock E - t)) (ofInt 3600000))) @ ''h ago''
     else ''No heartbeat'')"

definition verifierCard :: "intl \<Rightarrow> env \<Rightarrow> jsval \<Rightarrow> verifier_event drawing" where
  "verifierCard L E v = cardOf [
     shortAddress 8 v,
     badge (if getProp v ''status'' = JStr ''ACTIVE'' then ''default''
            else if getProp v ''status'' = JStr ''PENDING'' then ''outline'' else ''destructive'')
       [dot v ''status''],
     words ''Stake'', line [toLocale L plainLocale (dot v ''stake''), says '' XLM''],
     words ''Reputation'', line [dot v ''reputation''],
     line [dot v ''reputation'', says '' approvals''],
     words (heartbeatText E (getProp v ''heartbeatAt''))]"

definition verdictDialog ::
  "verifier_page \<Rightarrow> decision \<Rightarrow> string \<Rightarrow> (jsval \<Rightarrow> verifier_event drawing) \<Rightarrow> string \<Rightarrow> string \<Rightarrow> verifier_event drawing"
where
  "verdictDialog p d title details l hint =
     dialog (map_option snd (vp_confirm p) = Some d) VpClose [
       line [says title, Inr (getProp (case vp_selected p of None \<Rightarrow> JNull | Some c \<Rightarrow> c) ''creditId'')],
       words hint,
       (case vp_selected p of None \<Rightarrow> Inr [] | Some c \<Rightarrow> details c),
       button False VpClose ''Cancel'',
       busyButton (vp_actionLoading p) (verdictDisabled p d) VpConfirm l]"

definition approveDetails :: "verifier_page \<Rightarrow> jsval \<Rightarrow> verifier_event drawing" where
  "approveDetails p c = parts [
     line [says ''Project: '', dot c ''projectId''],
     line [says ''Methodology: '', dot c ''methodology''],
     line [says ''Geography: '', dot c ''geography''],
     line [says ''Tonnes: '', dot c ''tonnes''],
     fieldOf ''Comments (optional)'' ''Add verification notes...'' (vp_comments p) VpComments]"

definition rejectDetails :: "verifier_page \<Rightarrow> jsval \<Rightarrow> verifier_event drawing" where
  "rejectDetails p c = parts [
     line [says ''Project: '', dot c ''projectId''],
     line [says ''Methodology: '', dot c ''methodology''],
     fieldOf ''Reason *'' ''Explain why this credit is being rejected...'' (vp_reason p) VpReason]"

definition drawVerifier ::
  "intl \<Rightarrow> env \<Rightarrow> wallet_info option \<Rightarrow> verifier_page \<Rightarrow> verifier_event drawing" where
  "drawVerifier L E w p = bindS (ownStanding w p) (\<lambda>ok.
     if walletKey w = None
     then connectPrompt ''Verifier Dashboard'' ''Connect your wallet to access the verifier dashboard.''
     else if vp_loading p then Inr [DSpinner]
     else parts [
       words ''Verifier Dashboard'', words ''Review and verify carbon credit submissions.'',
       busyButton (vp_heartbeatLoading p) (vp_heartbeatLoading p) VpHeartbeat ''Heartbeat'',
       (case given (vp_error p) of None \<Rightarrow> Inr [] | Some e \<Rightarrow> words e),
       onlyIf (\<not> ok) (cardOf [words (''You are not registered as an active verifier. '' @
         ''Some actions may be unavailable.'')]),
       tabOf ''pending'' ''Pending Approvals'' (length (vp_pending p)),
       tabOf ''verifiers'' ''Verifiers'' (length (vp_verifiers p)),
       pendingTab L E ok p,
       around (DPanel ''verifiers'') [
         (if vp_verifiers p = [] then cardOf [words ''No verifiers registered yet.'']
          else each (verifierCard L E) (vp_verifiers p))],
       verdictDialog p Approve ''Approve Credit #'' (approveDetails p) ''Confirm Approval''
         ''Verify that this credit meets all requirements.'',
       verdictDialog p Reject ''Reject Credit #'' (rejectDetails p) ''Confirm Rejection''
         ''Provide a reason for rejecting this credit.''])"

section \<open>The webhooks page\<close>

definition hookCard :: "jsval \<Rightarrow> webhooks_event drawing" where
  "hookCard h = bindS (dot h ''id'') (\<lambda>i. bindS (dot h ''events'') (\<lambda>es. cardOf [
     badge (if truthy (getProp h ''active'') then ''default'' else ''secondary'')
       [says (if truthy (getProp h ''active'') then ''Active'' else ''Disabled'')],
     line [dot h ''url''],
     button False (WpTest (jsString i)) ''Test'',
     button False (WpDelete (jsString i)) ''Delete'',
     (if nullish es then Inl typeError else each (\<lambda>e. line [Inr e]) (elems es))]))"

definition deliveryRow :: "intl \<Rightarrow> env \<Rightarrow> jsval \<Rightarrow> webhooks_event drawing" where
  "deliveryRow L E d = parts [
     line [dot d ''eventType''],
     badge (if truthy (getProp d ''success'') then ''default'' else ''destructive'')
       [says (if truthy (getProp d ''success'') then ''SUCCESS'' else ''FAILED'')],
     line [dot d ''attempts''],
     line [Inr (coalesce (getProp d ''statusCode'') (JStr ''-''))],
     line [dot d ''durationMs'', says ''ms''],
     line [onDateTime L E (dot d ''createdAt'')]]"

definition registerCard :: "webhooks_page \<Rightarrow> webhooks_event drawing" where
  "registerCard p = cardOf [
     words ''Register Endpoint'',
     fieldOf ''Callback URL'' ''https://example.com/carbonveritas/webhook'' (wp_url p) WpUrl,
     words ''Events'', each (\<lambda>e. button False (WpToggle e) e) EVENT_TYPES,
     busyButton (wp_creating p) (wp_creating p) WpCreate ''Register Webhook'']"

definition drawWebhooks ::
  "intl \<Rightarrow> env \<Rightarrow> wallet_info option \<Rightarrow> webhooks_page \<Rightarrow> webhooks_event drawing" where
  "drawWebhooks L E w p =
     (if walletKey w = None then connectPrompt ''Webhooks''
        ''Connect your wallet to manage webhook endpoints that receive CarbonVeritas events.''
      else if wp_loading p then Inr [DSpinner]
      else parts [
        words ''Webhooks'',
        words ''Receive real-time CarbonVeritas events at your endpoints, with automatic retries.'',
        (case given (wp_error p) of None \<Rightarrow> Inr [] | Some e \<Rightarrow> words e),
        registerCard p,
        cardOf [words ''Registered Endpoints'',
          (if wp_webhooks p = [] then words ''No webhooks registered.''
           else each hookCard (wp_webhooks p))],
        cardOf [words ''Delivery Log'',
          (if wp_deliveries p = []
           then words ''No deliveries yet. Test an endpoint or wait for the next event.''
           else tableOf [''Event'', ''Status'', ''Attempts'', ''Code'', ''Duration'', ''Time'']
             (deliveryRow L E) (wp_deliveries p))]])"

section \<open>Drawing from typed states\<close>

lemma optSliced_visible [draw_simps]:
  "nullish u \<or> hasType TString (dot u k) \<Longrightarrow> visible (optSliced n u k)"
  by (auto simp: optSliced_def draw_simps nullish_def hasType_formats)

lemma slicedIfAny_visible [draw_simps]:
  "nullish v \<or> (\<exists>s. v = JStr s) \<Longrightarrow> visible (slicedIfAny n v)"
  by (auto simp: slicedIfAny_def sliced_def draw_simps nullish_def)

subsection \<open>The administration page\<close>

definition typedAdmin :: "admin_page \<Rightarrow> bool" where
  "typedAdmin p \<longleftrightarrow> (\<forall>v \<in> set (ad_verifiers p). conforms True webVerifierT v) \<and>
     (\<forall>c. ad_config p = Some c \<longrightarrow> conforms True webProtocolConfigT c) \<and>
     (\<forall>s. ad_system p = Some s \<longrightarrow> conforms True webSystemStatusT s) \<and>
     (\<forall>c. ad_contracts p = Some c \<longrightarrow> conforms True webAdminContractsT c) \<and>
     (\<forall>v. ad_slashVerifier p = Some v \<longrightarrow> conforms True webVerifierT v)"

definition carriesVerifier :: "admin_event \<Rightarrow> bool" where
  "carriesVerifier e = (case e of AdOpenSlash v \<Rightarrow> conforms True webVerifierT v | _ \<Rightarrow> True)"

lemma carriesVerifier_simps [simp]:
  "carriesVerifier (AdOpenSlash v) = conforms True webVerifierT v" "carriesVerifier (AdFee s)"
  "carriesVerifier (AdThreshold s)" "carriesVerifier (AdQuorum s)" "carriesVerifier (AdWindow s)"
  "carriesVerifier (AdBuffer s)" "carriesVerifier AdSaveConfig" "carriesVerifier (AdShowSlash b)"
  "carriesVerifier (AdSlashAmount s)" "carriesVerifier AdSlash" "carriesVerifier AdAddBeneficiary"
  "carriesVerifier (AdRemoveBeneficiary i)" "carriesVerifier (AdAddress i s)"
  "carriesVerifier (AdBps i s)" "carriesVerifier AdSaveSplit" "carriesVerifier (AdRoot i s)"
  "carriesVerifier (AdHeight s)" "carriesVerifier AdUpdateRoots" "carriesVerifier AdLoad"
  by (simp_all add: carriesVerifier_def)

lemma verifier_fields:
  assumes "conforms True webVerifierT v"
  shows "visible (dot v ''status'')" "visible (dot v ''reputation'')" "hasType TNumber (dot v ''stake'')"
    "visible (toLocale L o1 (dot v ''stake''))"
proof -
  show "visible (dot v ''status'')" "visible (dot v ''reputation'')"
    by (rule visible_dot [OF assms]; simp add: ty_eval webVerifierT_def webVerifierStatusT_def)+
  show "hasType TNumber (dot v ''stake'')"
    by (rule hasType_dot [OF assms]) (simp add: webVerifierT_def List.map_filter_simps)
  then show "visible (toLocale L o1 (dot v ''stake''))" by (rule hasType_formats)
qed

lemma verifier_user:
  assumes "conforms True webVerifierT v"
  shows "\<exists>u s. dot v ''user'' = Inr u \<and> dot u ''stellarPub'' = Inr (JStr s) \<and> getProp u ''stellarPub'' = JStr s"
proof -
  let ?U = "TObj [Req ''stellarPub'' TString]"
  have "fieldTy webVerifierT ''user'' = Some ?U" by (simp add: webVerifierT_def List.map_filter_simps)
  from object_property [OF assms this] obtain u where u: "dot v ''user'' = Inr u" "conforms True ?U u"
    by blast
  have "fieldTy ?U ''stellarPub'' = Some TString" by (simp add: List.map_filter_simps)
  from object_property [OF u(2) this] obtain x where
    x: "dot u ''stellarPub'' = Inr x" "getProp u ''stellarPub'' = x" "conforms True TString x" by blast
  from x(3) obtain s where "x = JStr s" unfolding conforms_plain by blast
  with u(1) x(1,2) show ?thesis by simp
qed

lemma shortAddress_fine [draw_simps]:
  assumes "conforms True webVerifierT v"
  shows "fine P (shortAddress n v)"
proof -
  obtain u s where "dot v ''user'' = Inr u" "dot u ''stellarPub'' = Inr (JStr s)"
    using verifier_user [OF assms] by blast
  then show ?thesis by (simp add: shortAddress_def draw_simps hasType_string)
qed

lemma verifierLine_fine [draw_simps]:
  "conforms True webVerifierT v \<Longrightarrow> fine carriesVerifier (verifierLine L v)"
  by (simp add: verifierLine_def draw_simps verifier_fields)

lemma networkCard_fine [draw_simps]:
  assumes "\<forall>s. sys = Some s \<longrightarrow> conforms True webSystemStatusT s"
  shows "fine P (networkCard sys)"
proof (cases sys)
  case (Some s)
  let ?U = "TObj [Req ''connected'' TBool, Opt ''sequence'' TNumber, Opt ''ledgerHash'' TString]"
  have t: "conforms True webSystemStatusT s" using assms Some by simp
  have "fieldTy webSystemStatusT ''network'' = Some ?U"
    by (simp add: webSystemStatusT_def List.map_filter_simps)
  from object_property [OF t this] obtain n where n: "dot s ''network'' = Inr n" "conforms True ?U n"
    by blast
  have "fieldTy ?U ''connected'' = Some TBool" by (simp add: List.map_filter_simps)
  from object_property [OF n(2) this] obtain c where c: "dot n ''connected'' = Inr c" by blast
  have "visible (Inr (getProp n ''sequence''))"
    by (rule visible_optional [OF n(2)]) (simp add: ty_eval)
  moreover have "truthy (getProp n ''sequence'') \<Longrightarrow> dot n ''sequence'' = Inr (getProp n ''sequence'')"
    by (auto simp: dot_def nullish_def)
  ultimately show ?thesis using n(1) c by (simp add: networkCard_def Some draw_simps)
qed (simp add: networkCard_def draw_simps)

lemma countsCard_fine [draw_simps]:
  assumes "\<forall>s. sys = Some s \<longrightarrow> conforms True webSystemStatusT s"
  shows "fine P (countsCard sys)"
proof (cases sys)
  case (Some s)
  let ?U = "TObj [Req ''users'' TNumber, Req ''credits'' TNumber, Req ''verifiers'' TNumber,
    Req ''offers'' TNumber, Req ''retirements'' TNumber, Req ''webhooks'' TNumber]"
  have t: "conforms True webSystemStatusT s" using assms Some by simp
  have "fieldTy webSystemStatusT ''counts'' = Some ?U"
    by (simp add: webSystemStatusT_def List.map_filter_simps)
  from object_property [OF t this] obtain n where n: "dot s ''counts'' = Inr n" "conforms True ?U n"
    by blast
  have "visible (dot n k)"
    if "k \<in> {''users'', ''credits'', ''verifiers'', ''offers'', ''retirements'', ''webhooks''}" for k
    by (rule visible_dot [OF n(2)]) (use that in \<open>auto simp: ty_eval\<close>)
  then show ?thesis using n(1) by (simp add: countsCard_def Some draw_simps)
qed (simp add: countsCard_def draw_simps)

lemma contractsCard_fine [draw_simps]:
  assumes "\<forall>c. cs = Some c \<longrightarrow> conforms True webAdminContractsT c"
  shows "fine P (contractsCard cs)"
proof -
  have "isNode (coalesce v (JStr ''not configured''))"
    if "cs = Some c" and "(k, v) \<in> set (entriesOf c)" for c k v
  proof -
    have "conforms True (TOr TString TNull) v"
      using assms that by (cases c) (auto simp: webAdminContractsT_def entriesOf_def list_all_iff)
    then show ?thesis by (cases v) (auto simp: coalesce_def nullish_def)
  qed
  then show ?thesis by (cases cs) (auto simp: contractsCard_def Let_def draw_simps)
qed

lemma admin_name:
  assumes "\<forall>c. cs = Some c \<longrightarrow> conforms True webProtocolConfigT c"
  shows "isNode (coalesce (getProp (case cs of None \<Rightarrow> JNull | Some c \<Rightarrow> c) ''admin'') (JStr ''n/a''))"
proof (cases cs)
  case (Some c)
  then have c: "conforms True webProtocolConfigT c" using assms by simp
  have "visible (Inr (getProp c ''admin''))"
    by (rule visible_property [OF c]) (simp add: ty_eval webProtocolConfigT_def)
  with Some show ?thesis by (simp add: draw_simps coalesce_def)
qed (simp add: coalesce_def nullish_def)

lemma drawAdmin_fine:
  assumes "typedAdmin p"
  shows "fine carriesVerifier (drawAdmin L w p)"
proof -
  have tabs: "fine carriesVerifier (configTab p)" "fine carriesVerifier (systemTab p)"
    "fine carriesVerifier (verifiersTab L p)"
    using assms admin_name [of "ad_config p"]
    by (simp_all add: typedAdmin_def configTab_def numberField_def systemTab_def verifiersTab_def draw_simps)
  have more: "fine carriesVerifier (revenueTab p)" "fine carriesVerifier (oracleTab p)"
    by (auto simp: revenueTab_def beneficiaryRow_def oracleTab_def draw_simps)
  have "fine carriesVerifier (slashDialog L p)"
    using assms by (auto simp: slashDialog_def typedAdmin_def draw_simps verifier_fields split: option.split)
  with tabs more show ?thesis by (simp add: drawAdmin_def draw_simps split: option.split)
qed

lemma loadAdmin_typed:
  assumes "typedReplies T"
  shows "keepsState typedAdmin (loadAdmin T)"
proof -
  note settle = yields_settled [OF yields_sends(2) [OF assms]] yields_settled [OF yields_sends(4) [OF assms]]
  show ?thesis
    unfolding loadAdmin_def
    by (intro act_intros keepsState_yields [OF _ settle(1) [of WVerifiers]]
        keepsState_yields [OF _ settle(2) [of WConfig]] keepsState_yields [OF _ settle(2) [of WSystem]]
        keepsState_yields [OF _ settle(2) [of WContracts]])
      (auto simp: whenOk_def typedAdmin_def simp del: conforms.simps dest: conforms_elems
        intro!: act_intros split: sum.splits)
qed

interpretation adminDrawn: drawn_page typedAdmin adminAct "drawAdmin L w" carriesVerifier "\<lambda>e. e = AdLoad"
  for L :: intl and w :: "wallet_info option"
proof
  fix T :: "'a transport" and e
  assume t: "typedReplies T" and c: "carriesVerifier e"
  have "keepsState typedAdmin (handleSaveConfig T)" "keepsState typedAdmin handleSlash"
    "keepsState typedAdmin handleSaveRevenueSplit" "keepsState typedAdmin (handleUpdateRoot T)"
    unfolding handleSaveConfig_def handleSlash_def handleSaveRevenueSplit_def handleUpdateRoot_def Let_def
    by (intro act_intros; simp add: typedAdmin_def)+
  with loadAdmin_typed [OF t] c show "keepsState typedAdmin (adminAct T e)"
    by (cases e) (auto simp: addBeneficiary_def removeBeneficiary_def updateBeneficiary_def typedAdmin_def
        intro!: act_intros)
qed (auto intro: drawAdmin_fine)

subsection \<open>The verifier page\<close>

definition typedVerifier :: "verifier_page \<Rightarrow> bool" where
  "typedVerifier p \<longleftrightarrow> (\<forall>c \<in> set (vp_pending p). conforms True webCreditT c) \<and>
     (\<forall>v \<in> set (vp_verifiers p). conforms True webVerifierT v) \<and>
     (\<forall>c. vp_selected p = Some c \<longrightarrow> conforms True webCreditT c)"

definition carriesPending :: "verifier_event \<Rightarrow> bool" where
  "carriesPending e = (case e of VpAsk c d \<Rightarrow> conforms True webCreditT c | _ \<Rightarrow> True)"

lemma carriesPending_simps [simp]:
  "carriesPending (VpAsk c d) = conforms True webCreditT c" "carriesPending VpLoad"
  "carriesPending (VpComments s)" "carriesPending (VpReason s)" "carriesPending VpClose"
  "carriesPending VpConfirm" "carriesPending VpHeartbeat" "carriesPending (VpExpand i)"
  by (simp_all add: carriesPending_def)

text \<open>On verifiers of the declared type the check is \<open>isVerifier\<close>.\<close>

lemma ownStanding_typed:
  assumes "typedVerifier p"
  shows "ownStanding w p = Inr (isVerifier w p)"
proof (cases "walletKey w")
  case (Some k)
  have "someS (\<lambda>v. bindS (dot v ''user'') (\<lambda>u.
      Inr (getProp u ''stellarPub'' = JStr k \<and> getProp v ''status'' = JStr ''ACTIVE''))) (vp_verifiers p) =
    Inr (list_ex (\<lambda>v. getProp (getProp v ''user'') ''stellarPub'' = JStr k \<and>
      getProp v ''status'' = JStr ''ACTIVE'') (vp_verifiers p))"
  proof (rule someS_total)
    fix v assume "v \<in> set (vp_verifiers p)"
    then have "conforms True webVerifierT v" using assms by (simp add: typedVerifier_def)
    from verifier_user [OF this] obtain u where "dot v ''user'' = Inr u" by blast
    moreover from this have "getProp v ''user'' = u" by (auto simp: dot_def split: if_splits)
    ultimately show "bindS (dot v ''user'') (\<lambda>u. Inr (getProp u ''stellarPub'' = JStr k \<and>
        getProp v ''status'' = JStr ''ACTIVE'')) =
      Inr (getProp (getProp v ''user'') ''stellarPub'' = JStr k \<and> getProp v ''status'' = JStr ''ACTIVE'')"
      by simp
  qed
  then show ?thesis by (simp add: ownStanding_def isVerifier_def Some)
qed (simp add: ownStanding_def isVerifier_def)

lemma pendingRow_fine [draw_simps]:
  assumes "conforms True webCreditT c"
  shows "fine carriesPending (pendingRow L E ok p c)"
proof -
  have "visible (dot c ''id'')" using assms by (simp add: draw_simps)
  then obtain i where "dot c ''id'' = Inr i" by (auto simp: visible_def)
  then show ?thesis using assms by (simp add: pendingRow_def draw_simps)
qed

lemma userRef_pub:
  assumes "conforms True (TObj [Req ''id'' TString, Req ''stellarPub'' TString]) u"
  shows "dot u ''stellarPub'' = Inr (getProp u ''stellarPub'')" "\<exists>s. getProp u ''stellarPub'' = JStr s"
proof -
  have "fieldTy (TObj [Req ''id'' TString, Req ''stellarPub'' TString]) ''stellarPub'' = Some TString"
    by (simp add: List.map_filter_simps)
  from object_property [OF assms this] obtain x where
    "dot u ''stellarPub'' = Inr x" "getProp u ''stellarPub'' = x" "conforms True TString x" by blast
  then show "dot u ''stellarPub'' = Inr (getProp u ''stellarPub'')" "\<exists>s. getProp u ''stellarPub'' = JStr s"
    unfolding conforms_plain by simp_all
qed

lemma approval_fields:
  assumes "conforms True webApprovalT a"
  shows "visible (bindS (dot a ''verifier'') (\<lambda>v. sliced n (dot v ''stellarPub'')))"
    "visible (Inr (getProp a ''comments''))"
proof -
  let ?U = "TObj [Req ''id'' TString, Req ''stellarPub'' TString]"
  have "fieldTy webApprovalT ''verifier'' = Some ?U" by (simp add: webApprovalT_def List.map_filter_simps)
  from object_property [OF assms this] obtain u where u: "dot a ''verifier'' = Inr u" "conforms True ?U u"
    by blast
  from userRef_pub [OF u(2)] obtain s where "dot u ''stellarPub'' = Inr (JStr s)" by auto
  with u(1) show "visible (bindS (dot a ''verifier'') (\<lambda>v. sliced n (dot v ''stellarPub'')))"
    by (simp add: hasType_formats hasType_string)
  show "visible (Inr (getProp a ''comments''))"
    by (rule visible_optional [OF assms]) (simp add: ty_eval webApprovalT_def)
qed

lemma approvalBadge_fine [draw_simps]: "conforms True webApprovalT a \<Longrightarrow> fine P (approvalBadge a)"
  by (simp add: approvalBadge_def Let_def draw_simps approval_fields)

lemma credit_approvals:
  assumes "conforms True webCreditT c" and "a \<in> set (elems (getProp c ''approvals''))"
  shows "conforms True webApprovalT a"
proof -
  have "optionalTy webCreditT ''approvals'' = Some (TArr webApprovalT)"
    by (simp add: webCreditT_def List.map_filter_simps)
  from conforms_optional [OF assms(1) this] show ?thesis
    using assms(2) by (auto simp: nullish_def elems_def list_all_iff split: jsval.splits)
qed

lemma credit_refs_typed:
  assumes "conforms True webCreditT c" and "k \<in> {''issuer'', ''owner''}"
  shows "conforms True (TObj [Req ''id'' TString, Req ''stellarPub'' TString]) (getProp c k)"
    "dot c k = Inr (getProp c k)"
proof -
  have "fieldTy webCreditT k = Some (TObj [Req ''id'' TString, Req ''stellarPub'' TString])"
    using assms(2) by (elim insertE emptyE; simp add: webCreditT_def List.map_filter_simps)
  from object_property [OF assms(1) this]
  show "conforms True (TObj [Req ''id'' TString, Req ''stellarPub'' TString]) (getProp c k)"
    "dot c k = Inr (getProp c k)" by blast+
qed

lemma credit_hash:
  assumes "conforms True webCreditT c"
  shows "\<exists>s. dot c ''ipfsHash'' = Inr (JStr s) \<and> getProp c ''ipfsHash'' = JStr s"
proof -
  have "fieldTy webCreditT ''ipfsHash'' = Some TString" by (simp add: webCreditT_def List.map_filter_simps)
  from object_property [OF assms this] obtain u
    where "dot c ''ipfsHash'' = Inr u" "getProp c ''ipfsHash'' = u" "conforms True TString u" by blast
  then show ?thesis unfolding conforms_plain by metis
qed

lemma pendingDetails_fine [draw_simps]:
  assumes "conforms True webCreditT c"
  shows "fine P (pendingDetails c)"
proof -
  have "\<exists>s. getProp (getProp c ''issuer'') ''stellarPub'' = JStr s"
    using userRef_pub(2) [OF credit_refs_typed(1) [OF assms, of "''issuer''"]] by simp
  then have i: "visible (slicedIfAny 8 (getProp (getProp c ''issuer'') ''stellarPub''))"
    and h: "visible (slicedIfAny 16 (getProp c ''ipfsHash''))"
    using credit_hash [OF assms] by (auto simp: draw_simps)
  have a: "\<forall>a \<in> set (elems (getProp c ''approvals'')). conforms True webApprovalT a"
    using credit_approvals [OF assms] by blast
  show ?thesis
    using assms i h a by (simp add: pendingDetails_def Let_def draw_simps)
qed

lemma verifierCard_fine [draw_simps]:
  "conforms True webVerifierT v \<Longrightarrow> fine P (verifierCard L E v)"
  by (simp add: verifierCard_def draw_simps verifier_fields)

lemma verdictDialog_fine [draw_simps]:
  assumes "\<forall>c. vp_selected p = Some c \<longrightarrow> conforms True webCreditT c \<and> fine carriesPending (details c)"
  shows "fine carriesPending (verdictDialog p d title details l hint)"
proof (cases "vp_selected p")
  case (Some c)
  have "visible (Inr (getProp c ''creditId''))"
    by (rule visible_property [where T = webCreditT]) (use assms Some in \<open>simp_all add: ty_eval webCreditT_def\<close>)
  then show ?thesis using assms by (simp add: verdictDialog_def Some draw_simps)
qed (simp add: verdictDialog_def draw_simps)

lemma drawVerifier_fine:
  assumes "typedVerifier p"
  shows "fine carriesPending (drawVerifier L E w p)"
proof -
  have "conforms True webCreditT c" if "List.find (\<lambda>c. getProp c ''id'' = i) (vp_pending p) = Some c" for i c
    using find_SomeD [OF that] assms by (auto simp: typedVerifier_def)
  then have "fine carriesPending (pendingTab L E ok p)" for ok
    using assms by (auto simp: pendingTab_def typedVerifier_def draw_simps split: option.split)
  moreover have "fine carriesPending (verdictDialog p Approve t (approveDetails p) l h)"
    "fine carriesPending (verdictDialog p Reject t (rejectDetails p) l h)" for t l h
    using assms by (auto simp: typedVerifier_def approveDetails_def rejectDetails_def
        intro!: verdictDialog_fine simp: draw_simps)
  ultimately show ?thesis
    using assms
    by (simp add: drawVerifier_def ownStanding_typed typedVerifier_def draw_simps split: option.split)
qed

lemma fetchData_typed:
  assumes "typedReplies T"
  shows "keepsState typedVerifier (fetchData T)"
  unfolding fetchData_def
  by (intro act_intros keepsState_yields [OF _ yields_bothE
        [OF yields_sends(1) [OF assms, of "WCredits cs" for cs] yields_sends(2) [OF assms, of WVerifiers]]])
    (auto simp: typedVerifier_def simp del: conforms.simps dest: conforms_elems page_data)

interpretation verifierDrawn: drawn_page typedVerifier "verifierAct N" "drawVerifier L E w"
    carriesPending "\<lambda>e. e = VpLoad"
  for N :: "'s transport" and L :: intl and E :: env and w :: "wallet_info option"
proof
  fix T :: "'s transport" and e
  assume t: "typedReplies T" and c: "carriesPending e"
  note load = fetchData_typed [OF t]
  have "keepsState typedVerifier (handleConfirm T)" "keepsState typedVerifier (handleHeartbeat N)"
    unfolding handleConfirm_def handleHeartbeat_def
    by (intro act_intros load; simp add: typedVerifier_def)+
  with load c show "keepsState typedVerifier (verifierAct N T e)"
    by (cases e) (auto simp: typedVerifier_def intro!: act_intros)
qed (auto intro: drawVerifier_fine)

subsection \<open>The webhooks page\<close>

definition typedWebhooks :: "webhooks_page \<Rightarrow> bool" where
  "typedWebhooks p \<longleftrightarrow> (\<forall>h \<in> set (wp_webhooks p). conforms True webWebhookT h) \<and>
     (\<forall>d \<in> set (wp_deliveries p). conforms True webWebhookDeliveryT d)"

lemma hookCard_fine [draw_simps]:
  assumes "conforms True webWebhookT h"
  shows "fine (\<lambda>_. True) (hookCard h)"
proof -
  have i: "visible (dot h ''id'')" and u: "visible (dot h ''url'')"
    by (rule visible_dot [OF assms]; simp add: ty_eval webWebhookT_def)+
  from i obtain x where x: "dot h ''id'' = Inr x" by (auto simp: visible_def)
  have "fieldTy webWebhookT ''events'' = Some (TArr TString)"
    by (simp add: webWebhookT_def List.map_filter_simps)
  from object_property [OF assms this] obtain es where
    es: "dot h ''events'' = Inr es" "conforms True (TArr TString) es" by blast
  have "\<not> nullish es" using es(2) by (auto simp: nullish_def)
  moreover have "\<forall>e \<in> set (elems es). isNode e"
    using conforms_elems [OF es(2)] by (fastforce simp: conforms_plain simp del: conforms.simps)
  ultimately show ?thesis using x es(1) u by (simp add: hookCard_def draw_simps)
qed

lemma deliveryRow_fine [draw_simps]:
  assumes "conforms True webWebhookDeliveryT d"
  shows "fine P (deliveryRow L E d)"
proof -
  have v: "visible (dot d ''eventType'')" "visible (dot d ''attempts'')" "visible (dot d ''durationMs'')"
    "visible (dot d ''createdAt'')"
    by (rule visible_dot [OF assms]; simp add: ty_eval webWebhookDeliveryT_def)+
  have "conforms True (TOr TNumber TNull) (getProp d ''statusCode'')"
    by (rule conforms_field [OF assms]) (simp add: webWebhookDeliveryT_def List.map_filter_simps)
  then have "isNode (coalesce (getProp d ''statusCode'') (JStr ''-''))"
    by (cases "getProp d ''statusCode''") (auto simp: coalesce_def nullish_def)
  with v show ?thesis by (simp add: deliveryRow_def draw_simps)
qed

lemma drawWebhooks_fine: "typedWebhooks p \<Longrightarrow> fine (\<lambda>_. True) (drawWebhooks L E w p)"
  by (simp add: drawWebhooks_def typedWebhooks_def registerCard_def draw_simps split: option.split)

lemma refreshHooks_typed:
  assumes "typedReplies T"
  shows "keepsState typedWebhooks (refreshHooks T)"
  unfolding refreshHooks_def
  by (intro act_intros keepsState_yields [OF _ yields_bothE
        [OF yields_sends(3) [OF assms, of WListWebhooks] yields_sends(3) [OF assms, of "WDeliveries n" for n]]])
    (auto simp: typedWebhooks_def simp del: conforms.simps dest: conforms_elems)

interpretation webhooksDrawn: drawn_page typedWebhooks "webhooksAct w" "drawWebhooks L E w" "\<lambda>_. True"
    "\<lambda>e. e = WpOpen"
  for L :: intl and E :: env and w :: "wallet_info option"
proof
  fix T :: "'a transport" and e
  assume "typedReplies T"
  note load = refreshHooks_typed [OF this]
  have "keepsState typedWebhooks (handleCreate T)" "keepsState typedWebhooks (handleDelete T i)"
    "keepsState typedWebhooks (handleTest T i)" for i
    unfolding handleCreate_def handleDelete_def handleTest_def
    by (intro act_intros load; auto simp: typedWebhooks_def)+
  with load show "keepsState typedWebhooks (webhooksAct w T e)"
    by (cases e) (auto simp: openWebhooks_def typedWebhooks_def intro!: act_intros)
qed (auto intro: drawWebhooks_fine)

section \<open>What the verifier page shows of a verifier\<close>

text \<open>The number that the page labels as approvals is the reputation.\<close>

lemma approvals_are_reputation:
  assumes "verifierCard L E v = Inr ds" and "dot v ''reputation'' = Inr (JNum x)"
  shows "\<exists>es. ds = [DBox None es] \<and> DText (num_to_string x @ '' approvals'') \<in> set es"
  using assms
  by (auto simp: verifierCard_def cardOf_def around_def parts.simps bindS_Inr_iff line_def textNode_def
      says_def)

text \<open>The rating of the permanence goes up to 100; the page writes it as a part of 10.\<close>

lemma permanence_of_ten:
  assumes "pendingDetails c = Inr ds" and "dot c ''permanenceRating'' = Inr (JNum x)"
  shows "\<exists>es. ds = [DBox None es] \<and> DText (num_to_string x @ ''/10'') \<in> set es"
  using assms
  by (auto simp: pendingDetails_def cardOf_def around_def parts.simps bindS_Inr_iff line_def textNode_def
      says_def)

end
