(* ===== verification/RegistryViews.thy ===== *)
theory RegistryViews
  imports ConsoleViews
begin

text \<open>
  What the other pages draw: the bridge with its four tabs, reporting, certificates, the public
  pages of credits, the parts of the home page, and the frame of all pages.
\<close>

section \<open>The bridge page\<close>

text \<open>\<open>r.replace('_', ' ')\<close>: the first underscore only.\<close>

fun replaceFirst :: "char \<Rightarrow> char \<Rightarrow> string \<Rightarrow> string" where
  "replaceFirst a b [] = []"
| "replaceFirst a b (c # cs) = (if c = a then b # cs else c # replaceFirst a b cs)"

definition registryLabel :: "string \<Rightarrow> string" where
  "registryLabel = replaceFirst (CHR ''_'') (CHR '' '')"

definition registryOptions :: "(string \<times> string) list" where
  "registryOptions = map (\<lambda>r. (r, registryLabel r)) REGISTRIES"

definition drawConnectPrompt :: "string \<Rightarrow> 'e drawing" where
  "drawConnectPrompt action = parts [words ''Wallet required'',
     words (''Connect your wallet to '' @ action @ ''.'')]"

text \<open>The page's own state is the tab that is shown; a click on a trigger sets it.\<close>

definition drawBridge :: "wallet_info option \<Rightarrow> string \<Rightarrow> string drawing" where
  "drawBridge w tab = parts [
     words ''Merkle Bridge'',
     words (''Import credits from legacy registries (Verra, Gold Standard, CDM, ACR, CAR, Plan Vivo) '' @
       ''with cryptographic proof-of-inclusion, and return them for retirement on the source registry.''),
     each (\<lambda>(v, l). button False v l) [(''ledger'', ''Audit ledger''), (''in'', ''Bridge in''),
       (''out'', ''Bridge out''), (''roots'', ''Registry roots'')],
     onlyIf (tab = ''ledger'') (Inr [DComponent ''BridgeLedger'' JUndef]),
     onlyIf (tab = ''in'') (if walletKey w \<noteq> None then Inr [DComponent ''BridgeInForm'' JUndef]
       else drawConnectPrompt ''bridge credits onto Stellar''),
     onlyIf (tab = ''out'') (if walletKey w \<noteq> None then Inr [DComponent ''BridgeOutForm'' JUndef]
       else drawConnectPrompt ''return credits to their source registry''),
     onlyIf (tab = ''roots'') (Inr [DComponent ''RegistryRoots'' JUndef])]"

text \<open>\<open>shorten\<close> on a value.\<close>

definition shortened :: "nat \<Rightarrow> piece \<Rightarrow> piece" where
  "shortened n p = bindS p (\<lambda>v. case v of
     JStr s \<Rightarrow> Inr (JStr (shorten s n))
   | JArr vs \<Rightarrow> Inr (if length vs \<le> n * 2 + 1 then v else JStr (jsString (JArr (take n vs)) @
       [CHR 0xE2, CHR 0x80, CHR 0xA6] @ jsString (JArr (drop (length vs - n) vs))))
   | _ \<Rightarrow> if truthy v then Inl typeError else Inr (coalesce v (JStr [])))"

definition recordRow :: "intl \<Rightarrow> env \<Rightarrow> jsval \<Rightarrow> ledger_event drawing" where
  "recordRow L E r = parts [
     badge (if getProp r ''status'' = JStr ''INBOUND'' then ''default'' else ''outline'')
       [dot r ''status''],
     line [says ''#'', dot r ''creditId''],
     line [dot r ''sourceRegistry''],
     line [dot r ''sourceSerial''],
     line [if truthy (getProp r ''bridger'') then shortened 10 (dot (getProp r ''bridger'') ''stellarPub'')
           else says emDash],
     line [onDateTime L E (dot r ''timestamp'')]]"

definition drawLedger :: "intl \<Rightarrow> env \<Rightarrow> ledger_tab \<Rightarrow> ledger_event drawing" where
  "drawLedger L E p = parts [
     choice (lt_registry p) ''Registry'' ((''all'', ''All registries'') # registryOptions) LtRegistry,
     choice (lt_status p) ''Status'' [(''all'', ''All directions''), (''INBOUND'', ''INBOUND''),
       (''OUTBOUND'', ''OUTBOUND'')] LtStatus,
     button False LtLoad ''Refresh'',
     (case given (lt_error p) of None \<Rightarrow> Inr [] | Some e \<Rightarrow> cardOf [words e]),
     cardOf [words ''Bridge audit ledger'',
       (if lt_loading p then Inr [DSpinner]
        else if lt_records p = []
        then words ''No bridge records yet. Bridge a credit in to start the ledger.''
        else tableOf [''Direction'', ''Credit'', ''Source registry'', ''Serial'', ''Bridger'', ''Timestamp'']
          (recordRow L E) (lt_records p))]]"

definition errorLine :: "string option \<Rightarrow> 'e drawing" where
  "errorLine e = (case given e of None \<Rightarrow> Inr [] | Some m \<Rightarrow> words m)"

definition bridgeInFields :: "bridge_in_form \<Rightarrow> bridge_in_event drawing" where
  "bridgeInFields p = parts [
     words ''Source registry'',
     choice (bf_sourceRegistry p) [] registryOptions (BiEnter FRegistry),
     fieldOf ''Source serial'' ''VCS-1500-00034567-2023'' (bf_sourceSerial p) (BiEnter FSerial),
     fieldOf ''Merkle leaf (hex)'' ''64-char hex'' (bf_leaf p) (BiEnter FLeaf),
     fieldOf ''Merkle root (hex)'' ''64-char hex'' (bf_merkleRoot p) (BiEnter FRoot),
     fieldOf ''Merkle proof (comma-separated)'' ''sibling hashes'' (bf_merkleProof p) (BiEnter FProof),
     fieldOf ''Project id'' ''VCS-1500-AMZ-001'' (bf_projectId p) (BiEnter FProject),
     fieldOf ''Methodology'' ''VCS:VM0007'' (bf_methodology p) (BiEnter FMethodology),
     fieldOf ''Geography (ISO alpha-2)'' ''BR'' (bf_geography p) (BiEnter FGeography),
     fieldOf ''Vintage start (unix s)'' ''1704067200'' (bf_vintageStart p) (BiEnter FVintageStart),
     fieldOf ''Vintage end (unix s)'' ''1735689600'' (bf_vintageEnd p) (BiEnter FVintageEnd),
     fieldOf ''Tonnes (millitonnes)'' ''10000000'' (bf_tonnes p) (BiEnter FTonnes),
     fieldOf ''Serial prefix'' ''VCS-1500-'' (bf_serialPrefix p) (BiEnter FSerialPrefix)]"

text \<open>What both forms draw when the service has answered.\<close>

definition bridgedView :: "jsval \<Rightarrow> string \<Rightarrow> 'e \<Rightarrow> string \<Rightarrow> 'e drawing" where
  "bridgedView r verb again l = cardOf [
     line [says ''Credit #'', dot r ''creditId'', says ('' bridged '' @ verb @ '' ''), dot r ''sourceRegistry''],
     line [dot r ''txHash''],
     button False again l]"

definition drawBridgeIn :: "bridge_in_form \<Rightarrow> bridge_in_event drawing" where
  "drawBridgeIn p = cardOf [words (''Bridge in '' @ emDash @ '' import a credit''),
     (case bf_result p of
        Some r \<Rightarrow> bridgedView r ''in from'' BiAnother ''Bridge another''
      | None \<Rightarrow> parts [bridgeInFields p, errorLine (bf_error p),
          busyButton (bf_submitting p) (bridgeInDisabled p) BiSubmit ''Bridge in''])]"

definition drawBridgeOut :: "bridge_out_form \<Rightarrow> bridge_out_event drawing" where
  "drawBridgeOut p = cardOf [words (''Bridge out '' @ emDash @ '' return to source registry''),
     words (''Return an imported credit to its source registry for retirement there. '' @
       ''The on-chain credit is permanently retired to prevent double-counting.''),
     (case bg_result p of
        Some r \<Rightarrow> bridgedView r ''back to'' BoAnother ''Return another''
      | None \<Rightarrow> parts [fieldOf ''Credit id'' ''7'' (bg_creditId p) BoEnter, errorLine (bg_error p),
          busyButton (bg_submitting p) (bg_submitting p \<or> bg_creditId p = []) BoSubmit ''Bridge out''])]"

definition rootCard :: "intl \<Rightarrow> env \<Rightarrow> roots_tab \<Rightarrow> string \<Rightarrow> roots_event drawing" where
  "rootCard L E p r = cardOf (words (registryLabel r) # (case map_of (rb_roots p) r of
     None \<Rightarrow> [badge ''outline'' [says ''not set''], words ''No merkle root published on-chain.'']
   | Some v \<Rightarrow> [badge ''default'' [says ''published''],
       line [shortened 24 (dot v ''root'')],
       line [says ''Block '', toLocale L plainLocale (dot v ''blockHeight''), says '' '', says middleDot,
         says '' '', onDate L E (bindS (dot v ''updatedAt'') (\<lambda>t.
           Inr (JNum (num_mul (jsNumber t) (ofInt 1000)))))]]))"

definition drawRoots :: "intl \<Rightarrow> env \<Rightarrow> wallet_info option \<Rightarrow> roots_tab \<Rightarrow> roots_event drawing" where
  "drawRoots L E w p = parts [
     each (rootCard L E p) REGISTRIES,
     onlyIf (walletKey w \<noteq> None) (cardOf [
       words ''Publish a registry root'',
       words ''Publish a new merkle root for a registry (requires an admin wallet).'',
       words ''Registry'', choice (rb_selected p) [] registryOptions RbSelect,
       fieldOf ''Root (hex)'' ''64-char hex'' (rb_newRoot p) RbRoot,
       fieldOf ''Block height'' ''24150000'' (rb_blockHeight p) RbHeight,
       errorLine (rb_error p), errorLine (rb_published p),
       busyButton (rb_publishing p) (publishDisabled p) RbPublish ''Publish root'']),
     onlyIf (rb_loading p) (Inr [DSpinner])]"

section \<open>The reporting page\<close>

text \<open>The first key of the first entry that is neither of the totals.\<close>

definition dimensionOf :: "jsval list \<Rightarrow> string" where
  "dimensionOf es = (case es of [] \<Rightarrow> []
     | e # _ \<Rightarrow> (case List.find (\<lambda>k. k \<noteq> ''tonnes'' \<and> k \<noteq> ''retirements'') (map fst (entriesOf e)) of
         None \<Rightarrow> [] | Some k \<Rightarrow> k))"

definition breakdownCard :: "string \<Rightarrow> jsval \<Rightarrow> 'e drawing" where
  "breakdownCard title v = (if nullish v then Inl typeError else
     (let es = elems v; k = dimensionOf es in cardOf [words title,
       (if es = [] then words ''No data.''
        else each (\<lambda>e. parts [line [dot e k],
          line [dot e ''tonnes'', says '' t '', says middleDot, says '' '', dot e ''retirements'',
            says '' retirement'', says (if getProp e ''retirements'' = JNum (ofInt 1) then [] else ''s'')]])
          (take 6 es))]))"

definition lineItemRow :: "intl \<Rightarrow> env \<Rightarrow> jsval \<Rightarrow> 'e drawing" where
  "lineItemRow L E i = parts [
     line [says ''#'', dot i ''creditId''],
     line [dot i ''projectId''],
     badge ''outline'' [dot i ''methodology''],
     line [dot i ''vintageStart'', says '' '', says enDash, says '' '', dot i ''vintageEnd''],
     line [dot i ''tonnesRetired''],
     line [dot i ''beneficiary''],
     line [onDate L E (dot i ''retirementDate'')]]"

definition summaryView :: "intl \<Rightarrow> env \<Rightarrow> jsval \<Rightarrow> jsval \<Rightarrow> reporting_event drawing" where
  "summaryView L E r s = parts [
     cardOf [words ''Tonnes retired'', line [toLocale L (None, Some 2) (dot s ''totalTonnesRetired'')]],
     cardOf [words ''Retirement records'', line [dot s ''totalRetirements'']],
     cardOf [words ''Unique credits'', line [dot s ''totalCredits'']],
     breakdownCard ''By methodology'' (getProp s ''byMethodology''),
     breakdownCard ''By geography'' (getProp s ''byGeography''),
     breakdownCard ''By vintage'' (getProp s ''byVintage''),
     bindS (dot r ''lineItems'') (\<lambda>is. if nullish is then Inl typeError else cardOf [words ''Line items'',
       (if elems is = [] then words ''No line items in this reporting period.''
        else tableOf [''Credit'', ''Project'', ''Methodology'', ''Vintage'', ''Tonnes'', ''Beneficiary'',
          ''Retired''] (lineItemRow L E) (elems is))])]"

definition YEAR_OPTIONS :: "(string \<times> string) list" where
  "YEAR_OPTIONS = [(''all'', ''All time''), (''2026'', ''2026''), (''2025'', ''2025''), (''2024'', ''2024'')]"

definition drawReporting ::
  "intl \<Rightarrow> env \<Rightarrow> wallet_info option \<Rightarrow> reporting_page \<Rightarrow> reporting_event drawing" where
  "drawReporting L E w p =
     (if walletKey w = None then connectPrompt ''Reporting''
        ''Connect your wallet to export your GHG Protocol Scope 3 inventory.''
      else if rq_loading p then Inr [DSpinner]
      else (let r = (case rq_report p of None \<Rightarrow> JNull | Some v \<Rightarrow> v); s = getProp r ''summary'' in parts [
        words ''Reporting'',
        words ''GHG Protocol Scope 3 inventory of retired credits for ESG accounting.'',
        choice (rq_year p) ''Reporting year'' YEAR_OPTIONS RqYear,
        button (\<not> truthy s) RqCsv ''CSV'', button (\<not> truthy r) RqJson ''JSON'',
        (case given (rq_error p) of None \<Rightarrow> Inr [] | Some e \<Rightarrow> cardOf [words e]),
        (if \<not> truthy s then cardOf [words (''No retirement records found'' @
           (if rq_year p \<noteq> ''all'' then '' for '' @ rq_year p else []) @ ''.'')]
         else summaryView L E r s)]))"

section \<open>The certificate page\<close>

definition verificationCard :: "certificate_page \<Rightarrow> jsval \<Rightarrow> certificate_event drawing" where
  "verificationCard p c = cardOf [words ''Verification'',
     (case cp_result p of
        Some (ok, m) \<Rightarrow> parts [words (if ok then ''Verified'' else ''Verification Failed''), words m]
      | None \<Rightarrow> (if truthy (getProp c ''certificateHash'')
          then parts [words ''Verify this certificate against the on-chain record.'',
            busyButton (cp_verifying p) (cp_verifying p) CpVerify ''Verify On-Chain'']
          else words ''No on-chain hash available for verification.'')),
     onlyIf (truthy (getProp c ''certificateHash''))
       (parts [words ''Certificate Hash'', line [dot c ''certificateHash'']])]"

definition retirementCard :: "intl \<Rightarrow> env \<Rightarrow> jsval \<Rightarrow> 'e drawing" where
  "retirementCard L E r = (let cr = getProp r ''credit'' in cardOf [
     words ''Retirement Details'',
     words ''Beneficiary'', line [dot r ''beneficiary''],
     words ''Tonnes Retired'', line [dot r ''tonnesRetired'', says '' '', says tCO2, says ''e''],
     words ''Reason'', bindS (dot r ''reason'') (\<lambda>v. line [elseText v ''Not specified'']),
     onlyIf (truthy cr) (parts [
       words ''Methodology'', badge ''outline'' [dot cr ''methodology''],
       words ''Geography'', line [dot cr ''geography''],
       words ''Vintage'',
       line [dot cr ''vintageStart'', says '' '', says enDash, says '' '', dot cr ''vintageEnd'']]),
     words ''Retired On'', line [onDate L E (dot r ''timestamp'')],
     onlyIf (truthy (getProp r ''txHash'')) (parts [words ''Transaction'', line [dot r ''txHash'']])])"

definition explorerCard :: "jsval \<Rightarrow> jsval \<Rightarrow> 'e drawing" where
  "explorerCard c r = cardOf [words ''Share'',
     linkTo (template [says ''https://stellar.expert/explorer/testnet/tx/'',
       Inr (let h = getProp r ''txHash'' in if truthy h then h else getProp c ''txHash'')])
       ''View on Stellar Expert'']"

definition drawCertificate :: "intl \<Rightarrow> env \<Rightarrow> certificate_page \<Rightarrow> certificate_event drawing" where
  "drawCertificate L E p = (let c = (case cp_certificate p of None \<Rightarrow> JNull | Some v \<Rightarrow> v) in
     if cp_loading p then Inr [DSpinner]
     else if \<not> truthy c then cardOf [words ''Certificate Not Found'',
       words ''This certificate does not exist or has been removed.'', link ''/'' ''Go Home'']
     else (let r = getProp c ''retirement'' in parts [
       link ''/portfolio'' ''Back to Portfolio'',
       cardOf [line [says ''Certificate #'', sliced 8 (dot c ''id'')],
         Inr [DComponent ''CertificatePreview'' c]],
       verificationCard p c,
       onlyIf (truthy r) (retirementCard L E r),
       onlyIf (truthy (getProp c ''certificateHash'') \<and> map_option fst (cp_result p) = Some True)
         (explorerCard c r)]))"

section \<open>The public pages of credits\<close>

definition linkAround :: "piece \<Rightarrow> 'e drawing list \<Rightarrow> 'e drawing" where
  "linkAround p ds = bindS p (\<lambda>v. around (DLink (jsString v)) ds)"

definition vintageYears :: "intl \<Rightarrow> env \<Rightarrow> jsval \<Rightarrow> string \<Rightarrow> 'e drawing" where
  "vintageYears L E c dash = line [yearOf L E (dot c ''vintageStart''), says dash,
     yearOf L E (dot c ''vintageEnd'')]"

definition tonnesText :: "intl \<Rightarrow> jsval \<Rightarrow> 'e drawing" where
  "tonnesText L c = line [toLocale L plainLocale (dot c ''tonnes''), says '' '', says tCO2, says ''e'']"

definition statusBadge :: "jsval \<Rightarrow> string \<Rightarrow> 'e drawing" where
  "statusBadge c d = badge (case getProp c ''status'' of
       JStr s \<Rightarrow> (case statusColors s of None \<Rightarrow> d | Some v \<Rightarrow> v) | _ \<Rightarrow> d) [dot c ''status'']"

definition listedCard :: "intl \<Rightarrow> env \<Rightarrow> jsval \<Rightarrow> credits_event drawing" where
  "listedCard L E c = linkAround (template [says ''/credits/'', dot c ''creditId'']) [cardOf [
     statusBadge c ''outline'', line [says ''#'', dot c ''creditId''], line [dot c ''projectId''],
     line [dot c ''methodology''], line [dot c ''geography''], vintageYears L E c '' - '',
     tonnesText L c]]"

definition numMin :: "jsnum \<Rightarrow> jsnum \<Rightarrow> jsnum" where
  "numMin x y = (if x = NaN \<or> y = NaN then NaN else if num_lt y x then y else x)"

definition pager :: "credits_page \<Rightarrow> credits_event drawing" where
  "pager p = parts [
     line [says ''Showing '', Inr (JNum (ofInt ((cs_page p - 1) * pageLimit + 1))), says ''-'',
       Inr (JNum (numMin (ofInt (cs_page p * pageLimit)) (cs_total p))), says '' of '',
       Inr (JNum (cs_total p))],
     button (previousDisabled p) CsPrevious ''Previous'',
     button (nextDisabled p) CsNext ''Next'']"

definition tableSkeleton :: "nat \<Rightarrow> 'e drawing" where
  "tableSkeleton rows = Inr (replicate (Suc rows) DSkeleton)"

definition drawCredits :: "intl \<Rightarrow> env \<Rightarrow> credits_page \<Rightarrow> credits_event drawing" where
  "drawCredits L E p = parts [
     words ''Carbon Credits'',
     Inr [DInput ''Search methodology...'' (cs_search p) CsSearch],
     choice (case cs_status p of None \<Rightarrow> ''all'' | Some s \<Rightarrow> s) ''Status'' [(''all'', ''All''),
       (''PENDING'', ''Pending''), (''ACTIVE'', ''Active''), (''RETIRED'', ''Retired''),
       (''REJECTED'', ''Rejected'')] CsStatus,
     (if cs_loading p then tableSkeleton 6
      else if cs_credits p = []
      then parts [words ''No credits found'', words ''Try adjusting your search or filters'']
      else parts [each (listedCard L E) (cs_credits p), pager p])]"

definition statsCardSkeleton :: "'e drawing" where
  "statsCardSkeleton = cardOf [Inr (replicate 3 DSkeleton)]"

definition cardSkeleton :: "'e drawing" where
  "cardSkeleton = cardOf [Inr (replicate 5 DSkeleton)]"

definition pageSkeleton :: "'e drawing" where
  "pageSkeleton = parts [Inr [DSkeleton], each (\<lambda>i. statsCardSkeleton) [1 :: nat, 2, 3], tableSkeleton 6]"

definition heroSkeleton :: "'e drawing" where
  "heroSkeleton = parts [Inr [DSkeleton, DSkeleton], each (\<lambda>i. statsCardSkeleton) [1 :: nat, 2, 3, 4]]"

definition labelled :: "string \<Rightarrow> piece list \<Rightarrow> 'e drawing" where
  "labelled l ps = parts [words l, line ps]"

definition creditCardDetails :: "intl \<Rightarrow> env \<Rightarrow> jsval \<Rightarrow> unit drawing" where
  "creditCardDetails L E c = cardOf [
     line [dot c ''projectId''], line [says ''Credit #'', dot c ''creditId''],
     statusBadge c ''default'',
     labelled ''Geography:'' [dot c ''geography''],
     words ''Vintage:'', vintageYears L E c '' - '',
     labelled ''Methodology:'' [dot c ''methodology''],
     labelled ''Serial:'' [dot c ''serialPrefix'', says ''...''],
     labelled ''Issuer:'' [bindS (dot c ''issuer'') (\<lambda>u. sliced 8 (dot u ''stellarPub'')), says ''...''],
     labelled ''Permanence:'' [dot c ''permanenceRating'', says ''/100''],
     labelled ''Buffer:'' [dot c ''bufferContributionPct'', says ''%''],
     labelled ''IPFS:'' [sliced 16 (dot c ''ipfsHash''), says ''...'']]"

definition approvalItem :: "jsval \<Rightarrow> unit drawing" where
  "approvalItem a = (let ok = truthy (getProp a ''approved'') in cardOf [
     words (if ok then ''Approved'' else ''Rejected''),
     line [says ''by '', bindS (dot a ''verifier'') (\<lambda>v. sliced 8 (dot v ''stellarPub'')), says ''...''],
     badge (if ok then ''default'' else ''destructive'') [says (if ok then tick else cross)],
     onlyIf (truthy (getProp a ''comments'')) (line [dot a ''comments''])])"

definition creditSummary :: "intl \<Rightarrow> env \<Rightarrow> jsval \<Rightarrow> unit drawing" where
  "creditSummary L E c = cardOf [
     words ''Credit Summary'', line [toLocale L plainLocale (dot c ''tonnes'')],
     words (''tonnes '' @ drop 1 tCO2 @ ''e''),
     words ''Status'', statusBadge c ''default'',
     labelled ''Owner'' [bindS (dot c ''owner'') (\<lambda>u. sliced 8 (dot u ''stellarPub'')), says ''...''],
     labelled ''Created'' [onDate L E (dot c ''createdAt'')]]"

definition drawCreditDetail :: "intl \<Rightarrow> env \<Rightarrow> jsval option loaded \<Rightarrow> unit drawing" where
  "drawCreditDetail L E p = (let c = (case ld_value p of None \<Rightarrow> JNull | Some v \<Rightarrow> v) in
     if ld_loading p then pageSkeleton
     else if \<not> truthy c then parts [words ''Credit Not Found'',
       words (''The credit you'' @ [CHR 0x27] @ ''re looking for doesn'' @ [CHR 0x27] @ ''t exist.''),
       link ''/credits'' ''Back to Credits'']
     else (let as = elems (getProp c ''approvals'') in parts [
       link ''/credits'' ''Back to Credits'',
       creditCardDetails L E c,
       onlyIf (as \<noteq> []) (cardOf [words ''Approvals & Verifications'', each approvalItem as]),
       creditSummary L E c]))"

section \<open>The home page and the frame\<close>

definition featuredCard :: "intl \<Rightarrow> env \<Rightarrow> jsval \<Rightarrow> unit drawing" where
  "featuredCard L E c = linkAround (template [says ''/credits/'', dot c ''creditId'']) [cardOf [
     badge ''default'' [dot c ''status''], badge ''outline'' [dot c ''methodology''],
     line [dot c ''projectId''], line [dot c ''geography''], vintageYears L E c '' - '',
     tonnesText L c]]"

definition drawFeatured :: "intl \<Rightarrow> env \<Rightarrow> jsval list loaded \<Rightarrow> unit drawing" where
  "drawFeatured L E p =
     (if ld_loading p then parts [words ''Featured Projects'', each (\<lambda>i. cardSkeleton) [1 :: nat, 2, 3, 4, 5, 6]]
      else if ld_value p = [] then Inr []
      else parts [words ''Featured Projects'', link ''/credits'' ''View All'',
        each (featuredCard L E) (ld_value p)])"

definition feedItem :: "intl \<Rightarrow> env \<Rightarrow> jsval \<Rightarrow> unit drawing" where
  "feedItem L E c = parts [line [dot c ''projectId''], badge ''secondary'' [dot c ''geography''],
     line [onDate L E (dot c ''createdAt'')], line [dot c ''tonnes'', says '' '', says tCO2, says ''e'']]"

definition drawRetirements :: "intl \<Rightarrow> env \<Rightarrow> jsval list loaded \<Rightarrow> unit drawing" where
  "drawRetirements L E p = cardOf [words ''Recent Retirements'',
     (if ld_loading p then Inr (replicate 3 DSkeleton)
      else if ld_value p = [] then words ''No retirements yet''
      else each (feedItem L E) (ld_value p))]"

definition drawStatsCards :: "intl \<Rightarrow> protocol_stats loaded \<Rightarrow> unit drawing" where
  "drawStatsCards L p =
     (if ld_loading p then each (\<lambda>i. statsCardSkeleton) [1 :: nat, 2, 3, 4]
      else (let s = ld_value p in each (\<lambda>(l, v). cardOf [line [v], words l])
        [(''Total Credits'', toLocale L plainLocale (Inr (ps_totalCredits s))),
         (''Tonnes Retired'', toLocale L plainLocale (Inr (JNum (ofInt (ps_totalTonnesRetired s))))),
         (''Active Verifiers'', Inr (JNum (ofInt (int (ps_activeVerifiers s))))),
         (''Open Listings'', Inr (JNum (ofInt (ps_totalOffers s))))]))"

definition drawHero :: "unit drawing" where
  "drawHero = parts [
     words ''Powered by Stellar Blockchain'', words ''Transparent Carbon Credit Trading'',
     words (''A transparent, on-chain carbon credit registry, marketplace, and retirement platform. '' @
       ''Verify, trade, and retire carbon credits with full provenance tracking.''),
     link ''/credits'' ''Browse Credits'', link ''/marketplace'' ''View Marketplace'',
     words ''Verified Credits'', words ''Every credit is verified by independent verifiers before minting'',
     words ''On-Chain Retirement'', words ''Credits are permanently retired on the Stellar blockchain'',
     words ''Full Provenance'', words ''Complete ownership history from issuance to retirement'']"

definition drawHome :: "unit drawing" where
  "drawHome = Inr (map (\<lambda>n. DComponent n JUndef)
     [''Hero'', ''StatsCards'', ''FeaturedProjects'', ''RetirementsFeed''])"

text \<open>\<open>components/credit-card\<close>; its event is \<open>onToggle\<close>.\<close>

definition drawCreditCard ::
  "intl \<Rightarrow> env \<Rightarrow> jsval \<Rightarrow> string option \<Rightarrow> bool \<Rightarrow> bool \<Rightarrow> unit drawing" where
  "drawCreditCard L E c href selectable selected = (let inner = cardOf [
     (if selectable then Inr [DCheck selected ()] else statusBadge c ''outline''),
     line [says ''#'', dot c ''creditId''], line [dot c ''projectId''], line [dot c ''methodology''],
     line [dot c ''geography''], vintageYears L E c ('' '' @ enDash @ '' ''),
     line [dot c ''serialPrefix'', says ''...''], tonnesText L c] in
     (case given href of None \<Rightarrow> inner | Some h \<Rightarrow> around (DLink h) [inner]))"

definition publicLinks :: "(string \<times> string) list" where
  "publicLinks = [(''/'', ''Market''), (''/credits'', ''Credits''), (''/marketplace'', ''Marketplace'')]"

definition authLinks :: "(string \<times> string) list" where
  "authLinks = [(''/portfolio'', ''Portfolio''), (''/bridge'', ''Bridge''), (''/reporting'', ''Reporting''),
     (''/retire'', ''Retire''), (''/webhooks'', ''Webhooks'')]"

definition drawNavigation :: "wallet_info option \<Rightarrow> unit drawing" where
  "drawNavigation w = parts [
     link ''/'' ''CarbonVeritas'', each (\<lambda>(h, l). link h l) publicLinks,
     onlyIf (walletKey w \<noteq> None) (each (\<lambda>(h, l). link h l) authLinks),
     Inr [DComponent ''WalletConnector'' JUndef]]"

datatype connector_event = WcConnect | WcDisconnect

definition drawConnector :: "wallet_state \<Rightarrow> connector_event drawing" where
  "drawConnector p = Inr (case walletConnector p of
     Connecting \<Rightarrow> [DButton True None [DSpinner, DText ''Connecting...'']]
   | Connected a \<Rightarrow> [DText a, DButton False (Some WcDisconnect) []]
   | ConnectButton \<Rightarrow> [DButton False (Some WcConnect) [DText ''Connect Wallet'']])"

definition drawError :: "string \<Rightarrow> unit drawing" where
  "drawError m = parts [words ''Something went wrong'', words m, button False () ''Try Again'']"

definition drawNotFound :: "unit drawing" where
  "drawNotFound = parts [words ''404'', words ''Page Not Found'',
     words (''The page you'' @ [CHR 0x27] @ ''re looking for doesn'' @ [CHR 0x27] @ ''t exist or has been moved.''),
     link ''/'' ''Go Home'']"

text \<open>The frame of \<open>app/layout\<close>: the navigation, the page or what replaces it, and the footer.\<close>

definition drawLayout :: "'e screened \<Rightarrow> ('e + unit) drawn list" where
  "drawLayout s = DComponent ''Navigation'' JUndef # (case s of
       Shown ds \<Rightarrow> map (map_drawn Inl) ds
     | Failed e \<Rightarrow> (case drawError (messageOf e) of Inl _ \<Rightarrow> [] | Inr ds \<Rightarrow> map (map_drawn Inr) ds)) @
     [DText (''CarbonVeritas Protocol '' @ emDash @ '' Built on Stellar'')]"

section \<open>Drawing from typed states\<close>

lemma errorLine_fine [draw_simps]: "fine P (errorLine e)"
  by (simp add: errorLine_def draw_simps split: option.split)

lemma drawBridge_fine: "fine (\<lambda>_. True) (drawBridge w tab)"
  by (simp add: drawBridge_def drawConnectPrompt_def draw_simps)

subsection \<open>The tabs of the bridge\<close>

lemma bridgeRecord_visible [draw_simps]:
  assumes "conforms True webBridgeRecordT r"
    and "k \<in> {''id'', ''creditId'', ''sourceRegistry'', ''sourceSerial'', ''status'', ''txHash'', ''timestamp''}"
  shows "visible (dot r k)"
  by (rule visible_dot [OF assms(1)])
    (use assms(2) in \<open>auto simp: ty_eval webBridgeRecordT_def webBridgeStatusT_def\<close>)

lemma recordRow_fine [draw_simps]:
  assumes "conforms True webBridgeRecordT r"
  shows "fine P (recordRow L E r)"
proof -
  let ?U = "TObj [Req ''id'' TString, Req ''stellarPub'' TString]"
  have "visible (shortened 10 (dot (getProp r ''bridger'') ''stellarPub''))"
    if "truthy (getProp r ''bridger'')"
  proof -
    have "optionalTy webBridgeRecordT ''bridger'' = Some ?U"
      by (simp add: webBridgeRecordT_def List.map_filter_simps)
    from conforms_optional [OF assms this] that have "conforms True ?U (getProp r ''bridger'')"
      by (auto simp: nullish_def)
    from userRef_pub [OF this] obtain s
      where "dot (getProp r ''bridger'') ''stellarPub'' = Inr (JStr s)" by auto
    then show ?thesis by (simp add: shortened_def draw_simps)
  qed
  with assms show ?thesis by (simp add: recordRow_def draw_simps)
qed

definition typedLedger :: "ledger_tab \<Rightarrow> bool" where
  "typedLedger p \<longleftrightarrow> (\<forall>r \<in> set (lt_records p). conforms True webBridgeRecordT r)"

interpretation ledgerDrawn: drawn_page typedLedger ledgerAct "drawLedger L E" "\<lambda>_. True" "\<lambda>e. e = LtLoad"
  for L :: intl and E :: env
proof
  fix T :: "'a transport" and e
  assume t: "typedReplies T"
  have "keepsState typedLedger (loadLedger T)"
    unfolding loadLedger_def
    by (intro keepsState_reply [OF _ t] act_intros)
      (auto simp: typedLedger_def simp del: conforms.simps dest: page_data)
  then show "keepsState typedLedger (ledgerAct T e)"
    by (cases e) (auto simp: typedLedger_def intro!: act_intros)
qed (auto simp: drawLedger_def typedLedger_def draw_simps split: option.split)

lemma bridgedView_fine [draw_simps]:
  "conforms True webBridgeRecordT r \<Longrightarrow> fine P (bridgedView r verb e l) \<longleftrightarrow> P e"
  by (simp add: bridgedView_def draw_simps)

definition typedBridgeIn :: "bridge_in_form \<Rightarrow> bool" where
  "typedBridgeIn p \<longleftrightarrow> (\<forall>r. bf_result p = Some r \<longrightarrow> conforms True webBridgeRecordT r)"

interpretation bridgeInDrawn: drawn_page typedBridgeIn bridgeInAct drawBridgeIn "\<lambda>_. True" "\<lambda>_. False"
proof
  fix T :: "'a transport" and e
  assume t: "typedReplies T"
  have "bf_result (enterField f v p) = bf_result p" for f v p by (cases f) simp_all
  moreover have "keepsState typedBridgeIn (submitBridgeIn T)"
    unfolding submitBridgeIn_def
    by (intro keepsState_reply [OF _ t] act_intros) (auto simp: typedBridgeIn_def)
  ultimately show "keepsState typedBridgeIn (bridgeInAct T e)"
    by (cases e) (auto simp: typedBridgeIn_def intro!: act_intros)
qed (auto simp: drawBridgeIn_def typedBridgeIn_def bridgeInFields_def draw_simps split: option.split)

definition typedBridgeOut :: "bridge_out_form \<Rightarrow> bool" where
  "typedBridgeOut p \<longleftrightarrow> (\<forall>r. bg_result p = Some r \<longrightarrow> conforms True webBridgeRecordT r)"

interpretation bridgeOutDrawn: drawn_page typedBridgeOut bridgeOutAct drawBridgeOut "\<lambda>_. True" "\<lambda>_. False"
proof
  fix T :: "'a transport" and e
  assume t: "typedReplies T"
  have "keepsState typedBridgeOut (submitBridgeOut T)"
    unfolding submitBridgeOut_def
    by (intro keepsState_reply [OF _ t] act_intros) (auto simp: typedBridgeOut_def)
  then show "keepsState typedBridgeOut (bridgeOutAct T e)"
    by (cases e) (auto simp: typedBridgeOut_def intro!: act_intros)
qed (auto simp: drawBridgeOut_def typedBridgeOut_def draw_simps split: option.split)

definition typedRoots :: "roots_tab \<Rightarrow> bool" where
  "typedRoots p \<longleftrightarrow> (\<forall>(k, v) \<in> set (rb_roots p). conforms True webRegistryRootT v)"

lemma rootCard_fine [draw_simps]:
  assumes "typedRoots p"
  shows "fine P (rootCard L E p r)"
proof (cases "map_of (rb_roots p) r")
  case (Some v)
  have v: "conforms True webRegistryRootT v"
    using assms map_of_SomeD [OF Some] by (auto simp: typedRoots_def)
  have "hasType TString (dot v ''root'')" "hasType TNumber (dot v ''blockHeight'')"
    "hasType TNumber (dot v ''updatedAt'')"
    by (rule hasType_dot [OF v]; simp add: webRegistryRootT_def List.map_filter_simps)+
  moreover from this(3) have "visible (bindS (dot v ''updatedAt'') (\<lambda>t.
      Inr (JNum (num_mul (jsNumber t) (ofInt 1000)))))"
    by (auto simp: hasType_def visible_def)
  moreover from calculation(1) have "visible (shortened 24 (dot v ''root''))"
    by (auto simp: hasType_string shortened_def draw_simps)
  ultimately show ?thesis by (simp add: rootCard_def Some draw_simps hasType_formats)
qed (simp add: rootCard_def draw_simps)

lemma yields_fetchRootOf:
  assumes "typedReplies T"
  shows "yields (\<lambda>(k, v). v = JNull \<or> conforms True webRegistryRootT v) (fetchRootOf T r)"
  unfolding fetchRootOf_def
  using yields_caught [OF yields_sends(2) [OF assms, of "WRoot r"], of JNull]
  by (rule yields_bindE) (auto intro!: yields_ret simp del: conforms.simps)

lemma loadRoots_typed:
  assumes "typedReplies T"
  shows "keepsState typedRoots (loadRoots T)"
proof -
  have "yields (list_all2 (\<lambda>r (k, v). v = JNull \<or> conforms True webRegistryRootT v) REGISTRIES)
      (mapE (fetchRootOf T :: string \<Rightarrow> (roots_tab, 'a, string \<times> jsval) handler) REGISTRIES)"
    by (rule yields_mapE, rule yields_fetchRootOf [OF assms])
  then have y: "yields (list_all (\<lambda>(k, v). v = JNull \<or> conforms True webRegistryRootT v))
      (mapE (fetchRootOf T :: string \<Rightarrow> (roots_tab, 'a, string \<times> jsval) handler) REGISTRIES)"
    unfolding yields_def by (fastforce simp: list_all2_conv_all_nth list_all_length)
  have "keepsState typedRoots (fetchRootOf T r)" for r
    unfolding fetchRootOf_def by (intro act_intros)
  then show ?thesis
    unfolding loadRoots_def
    by (intro keepsState_yields [OF _ y] act_intros) (auto simp: typedRoots_def list_all_iff simp del: conforms.simps
        intro!: act_intros)
qed

interpretation rootsDrawn: drawn_page typedRoots rootsAct "drawRoots L E w" "\<lambda>_. True" "\<lambda>e. e = RbLoad"
  for L :: intl and E :: env and w :: "wallet_info option"
proof
  fix T :: "'a transport" and e
  assume t: "typedReplies T"
  note load = loadRoots_typed [OF t]
  have "keepsState typedRoots (handlePublish T)"
    unfolding handlePublish_def by (intro act_intros load; simp add: typedRoots_def)
  with load show "keepsState typedRoots (rootsAct T e)"
    by (cases e) (auto simp: typedRoots_def intro!: act_intros)
qed (auto simp: drawRoots_def draw_simps)

subsection \<open>The reporting page\<close>

lemma breakdown_visible [draw_simps]:
  assumes "conforms True webScope3BreakdownEntryT e"
  shows "visible (dot e ''tonnes'')" "visible (dot e ''retirements'')" "visible (dot e k)"
proof -
  obtain kvs where e: "e = JObj kvs" using assms by (cases e) (auto simp: webScope3BreakdownEntryT_def)
  show "visible (dot e ''tonnes'')" "visible (dot e ''retirements'')"
    by (rule visible_dot [OF assms]; simp add: ty_eval webScope3BreakdownEntryT_def)+
  have "conforms True (TRecord (TOr TString TNumber)) e"
    using assms by (simp add: webScope3BreakdownEntryT_def)
  then have "conforms True (TOr TString TNumber) v" if "map_of kvs k = Some v" for v
    using map_of_SomeD [OF that] e by (auto simp: list_all_iff)
  then have "isNode v" if "map_of kvs k = Some v" for v
    using that by (cases v) auto
  then show "visible (dot e k)" by (auto simp: e dot_def nullish_def draw_simps split: option.split)
qed

lemma breakdownCard_fine [draw_simps]:
  assumes "conforms True (TArr webScope3BreakdownEntryT) v"
  shows "fine P (breakdownCard title v)"
proof -
  have "conforms True webScope3BreakdownEntryT e" if "e \<in> set (take 6 (elems v))" for e
    using conforms_elems [OF assms] that by (auto dest: in_set_takeD)
  moreover have "\<not> nullish v" using assms by (auto simp: nullish_def)
  ultimately show ?thesis by (auto simp: breakdownCard_def Let_def draw_simps)
qed

lemma lineItem_visible [draw_simps]:
  assumes "conforms True webScope3LineItemT i" and "k \<in> {''creditId'', ''projectId'', ''methodology'',
    ''vintageStart'', ''vintageEnd'', ''tonnesRetired'', ''beneficiary'', ''retirementDate''}"
  shows "visible (dot i k)"
  by (rule visible_dot [OF assms(1)]) (use assms(2) in \<open>auto simp: ty_eval webScope3LineItemT_def\<close>)

lemma lineItemRow_fine [draw_simps]: "conforms True webScope3LineItemT i \<Longrightarrow> fine P (lineItemRow L E i)"
  by (simp add: lineItemRow_def draw_simps)

lemma summaryView_fine [draw_simps]:
  assumes "conforms True webScope3ReportT r"
  shows "fine (\<lambda>_. True) (summaryView L E r (getProp r ''summary''))"
proof -
  have s: "conforms True webScope3SummaryT (getProp r ''summary'')"
    by (rule conforms_field [OF assms]) (simp add: webScope3ReportT_def List.map_filter_simps)
  have n: "hasType TNumber (dot (getProp r ''summary'') ''totalTonnesRetired'')"
    "hasType TNumber (dot (getProp r ''summary'') ''totalRetirements'')"
    "hasType TNumber (dot (getProp r ''summary'') ''totalCredits'')"
    by (rule hasType_dot [OF s]; simp add: webScope3SummaryT_def List.map_filter_simps)+
  have b: "conforms True (TArr webScope3BreakdownEntryT) (getProp (getProp r ''summary'') ''byMethodology'')"
    "conforms True (TArr webScope3BreakdownEntryT) (getProp (getProp r ''summary'') ''byGeography'')"
    "conforms True (TArr webScope3BreakdownEntryT) (getProp (getProp r ''summary'') ''byVintage'')"
    by (rule conforms_field [OF s]; simp add: webScope3SummaryT_def List.map_filter_simps)+
  have "fieldTy webScope3ReportT ''lineItems'' = Some (TArr webScope3LineItemT)"
    by (simp add: webScope3ReportT_def List.map_filter_simps)
  from object_property [OF assms this] obtain its where
    i: "dot r ''lineItems'' = Inr its" "conforms True (TArr webScope3LineItemT) its" by blast
  have "\<not> nullish its" using i(2) by (auto simp: nullish_def)
  moreover have "\<forall>x \<in> set (elems its). conforms True webScope3LineItemT x"
    using conforms_elems [OF i(2)] by blast
  ultimately show ?thesis
    using n b i(1) by (simp add: summaryView_def draw_simps hasType_formats hasType_visible del: conforms.simps)
qed

definition typedReporting :: "reporting_page \<Rightarrow> bool" where
  "typedReporting p \<longleftrightarrow> (\<forall>r. rq_report p = Some r \<longrightarrow> conforms True webScope3ReportT r)"

interpretation reportingDrawn: drawn_page typedReporting "reportingAct w" "drawReporting L E w" "\<lambda>_. True"
    "\<lambda>e. e = RqLoad"
  for L :: intl and E :: env and w :: "wallet_info option"
proof
  fix T :: "'a transport" and e
  assume t: "typedReplies T"
  have "keepsState typedReporting (loadReport w T)" "keepsState typedReporting (downloadCsv T)"
    "keepsState typedReporting downloadJson"
    unfolding loadReport_def downloadCsv_def downloadJson_def
    by (intro keepsState_reply [OF _ t] act_intros; auto simp: typedReporting_def)+
  then show "keepsState typedReporting (reportingAct w T e)"
    by (cases e) (auto simp: typedReporting_def intro!: act_intros)
qed (auto simp: drawReporting_def typedReporting_def Let_def draw_simps split: option.split)

subsection \<open>Certificates\<close>

definition typedCertificate :: "certificate_page \<Rightarrow> bool" where
  "typedCertificate p \<longleftrightarrow> (\<forall>c. cp_certificate p = Some c \<longrightarrow> conforms True webCertificateT c)"

lemma truthy_piece: "truthy (getProp c k) \<Longrightarrow> dot c k = Inr (getProp c k)"
  by (cases c) (auto simp: dot_def nullish_def)

lemma retirementCard_fine [draw_simps]:
  assumes "conforms True certRetirementT r"
  shows "fine P (retirementCard L E r)"
proof -
  have "visible (dot r ''reason'')" using assms by (simp add: draw_simps)
  then obtain v where "dot r ''reason'' = Inr v" "isNode v" by (auto simp: visible_def)
  then show ?thesis
    using assms by (simp add: retirementCard_def Let_def draw_simps retirement_credit)
qed

lemma optional_node:
  assumes "conforms True webCertificateT c"
  shows "isNode (getProp c ''txHash'')"
  using visible_optional [OF assms, of "''txHash''"]
  by (simp add: ty_eval webCertificateT_def draw_simps)

lemma drawCertificate_fine:
  assumes "typedCertificate p"
  shows "fine (\<lambda>_. True) (drawCertificate L E p)"
proof (cases "cp_certificate p")
  case (Some c)
  let ?r = "getProp c ''retirement''"
  have c: "conforms True webCertificateT c" using assms Some by (simp add: typedCertificate_def)
  have r: "truthy ?r \<Longrightarrow> conforms True certRetirementT ?r" by (rule certificate_retirement [OF c])
  have h: "truthy (getProp c ''certificateHash'') \<Longrightarrow> visible (dot c ''certificateHash'')"
    using certificate_texts [OF c, of "''certificateHash''"] by (simp add: hasType_visible)
  have i: "visible (sliced 8 (dot c ''id''))"
    by (rule hasType_formats, rule hasType_dot [OF c]) (simp add: webCertificateT_def List.map_filter_simps)
  have "isNode (getProp ?r ''txHash'')" if "truthy (getProp ?r ''txHash'')"
  proof -
    have "truthy ?r" using that by (cases ?r) auto
    then have "visible (dot ?r ''txHash'')" using r by (simp add: draw_simps)
    with truthy_piece [OF that] show ?thesis by (simp add: draw_simps)
  qed
  then have "fine (\<lambda>_. True) (explorerCard c ?r)"
    using optional_node [OF c] by (simp add: explorerCard_def Let_def draw_simps)
  then show ?thesis
    using r h i by (auto simp: drawCertificate_def Some Let_def verificationCard_def draw_simps
        split: option.split)
qed (simp add: drawCertificate_def draw_simps)

interpretation certificateDrawn: drawn_page typedCertificate certificateAct "drawCertificate L E" "\<lambda>_. True"
    "\<lambda>e. \<exists>i. e = CpLoad i"
  for L :: intl and E :: env
proof
  fix T :: "'a transport" and e
  assume t: "typedReplies T"
  have "keepsState typedCertificate (loadCertificate T i)" "keepsState typedCertificate (handleVerify T)" for i
    unfolding loadCertificate_def handleVerify_def
    by (intro keepsState_reply [OF _ t] act_intros; auto simp: typedCertificate_def)+
  then show "keepsState typedCertificate (certificateAct T e)" by (cases e) auto
qed (auto intro: drawCertificate_fine)

subsection \<open>Credits\<close>

lemma statusBadge_fine [draw_simps]: "conforms True webCreditT c \<Longrightarrow> fine P (statusBadge c d)"
  by (simp add: statusBadge_def draw_simps)

lemma vintageYears_fine [draw_simps]: "conforms True webCreditT c \<Longrightarrow> fine P (vintageYears L E c d)"
  by (simp add: vintageYears_def draw_simps)

lemma credit_tonnes [draw_simps]:
  assumes "conforms True webCreditT c"
  shows "visible (toLocale L o1 (dot c ''tonnes''))"
  by (rule hasType_formats, rule hasType_dot [OF assms]) (simp add: webCreditT_def List.map_filter_simps)

lemma tonnesText_fine [draw_simps]: "conforms True webCreditT c \<Longrightarrow> fine P (tonnesText L c)"
  by (simp add: tonnesText_def draw_simps)

lemma linkAround_fine [draw_simps]:
  "visible p \<Longrightarrow> fine P (parts ds) \<Longrightarrow> fine P (linkAround p ds)"
  by (auto simp: linkAround_def visible_def draw_simps)

definition typedCredits :: "credits_page \<Rightarrow> bool" where
  "typedCredits p \<longleftrightarrow> (\<forall>c \<in> set (cs_credits p). conforms True webCreditT c)"

interpretation creditsDrawn: drawn_page typedCredits creditsAct "drawCredits L E" "\<lambda>_. True" "\<lambda>e. e = CsLoad"
  for L :: intl and E :: env
proof
  fix T :: "'a transport" and e
  assume t: "typedReplies T"
  have "keepsState typedCredits (fetchCredits T)"
    unfolding fetchCredits_def
    by (intro keepsState_reply [OF _ t] act_intros)
      (auto simp: typedCredits_def simp del: conforms.simps dest: page_data)
  then show "keepsState typedCredits (creditsAct T e)"
    by (cases e) (auto simp: typedCredits_def intro!: act_intros)
qed (auto simp: drawCredits_def typedCredits_def tableSkeleton_def listedCard_def pager_def draw_simps)

lemma skeletons_fine [draw_simps]:
  "fine P statsCardSkeleton" "fine P cardSkeleton" "fine P pageSkeleton" "fine P heroSkeleton"
  by (simp_all add: statsCardSkeleton_def cardSkeleton_def pageSkeleton_def heroSkeleton_def
      tableSkeleton_def draw_simps)

lemma credit_owner_text [draw_simps]:
  assumes "conforms True webCreditT c" and "k \<in> {''issuer'', ''owner''}"
  shows "visible (bindS (dot c k) (\<lambda>u. sliced n (dot u ''stellarPub'')))"
  using credit_refs_typed [OF assms] userRef_pub [OF credit_refs_typed(1) [OF assms]]
  by (auto simp: hasType_formats hasType_string)

lemma creditDetails_fine [draw_simps]:
  assumes "conforms True webCreditT c"
  shows "fine P (creditCardDetails L E c)" "fine P (creditSummary L E c)"
proof -
  have "visible (sliced 16 (dot c ''ipfsHash''))"
    using credit_hash [OF assms] by (auto simp: hasType_formats hasType_string)
  then show "fine P (creditCardDetails L E c)" "fine P (creditSummary L E c)"
    using assms by (simp_all add: creditCardDetails_def creditSummary_def labelled_def draw_simps)
qed

lemma approvalItem_fine [draw_simps]:
  assumes "conforms True webApprovalT a"
  shows "fine P (approvalItem a)"
proof -
  have "truthy (getProp a ''comments'') \<Longrightarrow> visible (dot a ''comments'')"
    using approval_fields(2) [OF assms] truthy_piece by simp
  then show ?thesis
    using approval_fields(1) [OF assms] by (simp add: approvalItem_def Let_def draw_simps)
qed

definition typedDetail :: "jsval option loaded \<Rightarrow> bool" where
  "typedDetail p \<longleftrightarrow> (\<forall>c. ld_value p = Some c \<longrightarrow> conforms True webCreditT c)"

lemma drawCreditDetail_fine:
  assumes "typedDetail p"
  shows "fine P (drawCreditDetail L E p)"
proof (cases "ld_value p")
  case (Some c)
  then have c: "conforms True webCreditT c" using assms by (simp add: typedDetail_def)
  have "\<forall>a \<in> set (elems (getProp c ''approvals'')). conforms True webApprovalT a"
    using credit_approvals [OF c] by blast
  then show ?thesis using c by (simp add: drawCreditDetail_def Some Let_def draw_simps)
qed (simp add: drawCreditDetail_def Let_def draw_simps)

lemma loadWith_keeps:
  assumes "yields Q m" and "keepsState q m" and "\<And>x p. Q x \<Longrightarrow> q p \<Longrightarrow> q (p\<lparr>ld_value := f x\<rparr>)"
    and "\<And>p b. q p \<Longrightarrow> q (p\<lparr>ld_loading := b\<rparr>)"
  shows "keepsState q (loadWith m f)"
  unfolding loadWith_def
  by (intro keepsState_yields [OF assms(2,1)] act_intros) (use assms(3,4) in auto)

interpretation detailDrawn: drawn_page typedDetail "\<lambda>T _. loadCreditDetail T i" "drawCreditDetail L E"
    "\<lambda>_. True" "\<lambda>_. True"
  for i :: string and L :: intl and E :: env
proof
  fix T :: "'a transport" and e :: unit
  assume "typedReplies T"
  then show "keepsState typedDetail (loadCreditDetail T i)"
    unfolding loadCreditDetail_def
    by (intro loadWith_keeps [OF yields_sends(1)] act_intros) (auto simp: typedDetail_def)
qed (auto intro: drawCreditDetail_fine)

subsection \<open>The home page\<close>

definition typedList :: "jsval list loaded \<Rightarrow> bool" where
  "typedList p \<longleftrightarrow> (\<forall>c \<in> set (ld_value p). conforms True webCreditT c)"

lemma listed_typed:
  assumes "typedReplies T"
  shows "keepsState typedList (loadFeatured T)" "keepsState typedList (loadRetirements T)"
  unfolding loadFeatured_def loadRetirements_def
  by (intro loadWith_keeps [OF yields_sends(1) [OF assms]] act_intros;
      auto simp: typedList_def simp del: conforms.simps dest: page_data)+

interpretation featuredDrawn: drawn_page typedList "\<lambda>T _. loadFeatured T" "drawFeatured L E"
    "\<lambda>_. True" "\<lambda>_. True"
  for L :: intl and E :: env
  by unfold_locales (auto simp: listed_typed drawFeatured_def featuredCard_def typedList_def draw_simps)

interpretation feedDrawn: drawn_page typedList "\<lambda>T _. loadRetirements T" "drawRetirements L E"
    "\<lambda>_. True" "\<lambda>_. True"
  for L :: intl and E :: env
  by unfold_locales (auto simp: listed_typed drawRetirements_def feedItem_def typedList_def draw_simps
      list_all_iff)

definition typedStats :: "protocol_stats loaded \<Rightarrow> bool" where
  "typedStats p \<longleftrightarrow> (\<exists>x. ps_totalCredits (ld_value p) = JNum x)"

lemma total_number:
  assumes "conforms True (webPaginatedResponseT U) d"
  shows "\<exists>x. getProp (getProp d ''meta'') ''total'' = JNum x"
proof -
  let ?M = "TObj [Req ''total'' TNumber, Req ''page'' TNumber, Req ''limit'' TNumber,
     Req ''totalPages'' TNumber]"
  have m: "conforms True ?M (getProp d ''meta'')"
    by (rule conforms_field [OF assms]) (simp add: webPaginatedResponseT_def List.map_filter_simps)
  have "conforms True TNumber (getProp (getProp d ''meta'') ''total'')"
    by (rule conforms_field [OF m]) (simp add: List.map_filter_simps)
  then show ?thesis unfolding conforms_plain by blast
qed

lemma yields_protocolStats:
  assumes "typedReplies T"
  shows "yields (\<lambda>s. \<exists>x. ps_totalCredits s = JNum x) (getProtocolStats T)"
proof -
  have "yields (conforms True (creditReply (WCredits [(''limit'', JStr ''1'')])))
      (send T (callGet [Seg ''credits''] [(''limit'', JStr ''1'')]) :: ('p, 's, jsval) handler)"
    if "typedReplies (T :: 's transport)" for T
    using yields_sends(1) [OF that, of "WCredits [(''limit'', JStr ''1'')]"] by simp
  from yields_settled [OF this [OF assms]] show ?thesis
    unfolding getProtocolStats_def
    by (rule yields_bindE, intro yields_bindE [where Q = "\<lambda>_. True"] yields_ret)
      (auto simp: yields_def simp del: conforms.simps dest: total_number split: sum.splits)
qed

interpretation statsDrawn: drawn_page typedStats "\<lambda>T _. loadStatsCards T" "drawStatsCards L"
    "\<lambda>_. True" "\<lambda>_. True"
  for L :: intl
proof
  fix T :: "'a transport" and e :: unit
  assume t: "typedReplies T"
  show "keepsState typedStats (loadStatsCards T)"
    unfolding loadStatsCards_def
    by (rule loadWith_keeps [OF yields_protocolStats [OF t]])
      (auto simp: typedStats_def getProtocolStats_def intro!: act_intros)
qed (auto simp: drawStatsCards_def typedStats_def Let_def draw_simps toLocale_def nullish_def)

lemma drawHome_fine: "fine (\<lambda>_. True) drawHero" "fine (\<lambda>_. True) drawHome" "fine (\<lambda>_. True) (drawNavigation w)"
  "fine (\<lambda>_. True) drawNotFound" "fine (\<lambda>_. True) (drawError m)" "fine (\<lambda>_. True) (drawConnector s)"
  by (auto simp: drawHero_def drawHome_def drawNavigation_def drawNotFound_def drawError_def
      drawConnector_def draw_simps publicLinks_def authLinks_def split: connector_view.split)

lemma drawCreditCard_fine: "conforms True webCreditT c \<Longrightarrow> fine (\<lambda>_. True) (drawCreditCard L E c h b s)"
  by (auto simp: drawCreditCard_def Let_def draw_simps split: option.split)

section \<open>What the pages let a user send\<close>

text \<open>The event that sends a form is dispatched by a click only when the form is complete and no
  request of it is under way.\<close>

lemma orderbook_clicks:
  "clicksOnly (\<lambda>e. e = ObBuy \<longrightarrow> ob_showBuy p \<and> \<not> confirmDisabled p) (drawOrderbook L E w p)"
  by (auto simp: drawOrderbook_def filterSelect_def offerRow_def creditText_def drawRowAction_def
      buyDialog_def buyDetails_def click_simps intro!: click_intros split: row_action.split option.split)

lemma market_clicks:
  "clicksOnly (\<lambda>e. (e = MpCreate \<longrightarrow> mp_showCreate p \<and> \<not> createDisabled p) \<and>
     (e = MpOpenCreate \<longrightarrow> walletKey w \<noteq> None)) (drawMarket L w p)"
  by (auto simp: drawMarket_def priceChart_def createDialog_def ownedOption_def click_simps
      intro!: click_intros split: option.split)

lemma retire_clicks:
  "clicksOnly (\<lambda>e. (e = RpRetire \<longrightarrow> walletKey w \<noteq> None \<and> rp_retired p = None \<and> rp_showConfirm p \<and>
     \<not> rp_retiring p) \<and> (e = RpOpenConfirm \<longrightarrow> rp_selected p \<noteq> [] \<and> rp_beneficiary p \<noteq> [])) (drawRetire w p)"
  by (auto simp: drawRetire_def connectPrompt_def retiredView_def retireDetails_def confirmDialog_def
      retireRow_def Let_def click_simps intro!: click_intros split: option.split)

lemma admin_config_clicks:
  "ad_configSaving p \<or> P AdSaveConfig \<Longrightarrow> clicksOnly P (configTab p)"
  by (auto simp: configTab_def numberField_def click_simps intro!: click_intros)

lemma admin_system_clicks: "clicksOnly P (systemTab p)"
  by (auto simp: systemTab_def networkCard_def countsCard_def contractsCard_def Let_def
      intro!: click_intros split: option.split)

lemma admin_verifier_clicks: "(\<And>v. P (AdOpenSlash v)) \<Longrightarrow> clicksOnly P (verifiersTab L p)"
  by (auto simp: verifiersTab_def verifierLine_def shortAddress_def click_simps intro!: click_intros)

lemma admin_revenue_clicks:
  "(\<And>i. P (AdRemoveBeneficiary i)) \<Longrightarrow> P AdAddBeneficiary \<Longrightarrow> P AdSaveSplit \<Longrightarrow> clicksOnly P (revenueTab p)"
  by (auto simp: revenueTab_def beneficiaryRow_def click_simps intro!: click_intros)

lemma admin_oracle_clicks: "P AdUpdateRoots \<Longrightarrow> clicksOnly P (oracleTab p)"
  by (auto simp: oracleTab_def click_simps intro!: click_intros)

lemma admin_slash_clicks:
  "P (AdShowSlash False) \<Longrightarrow> \<not> ad_showSlash p \<or> ad_slashing p \<or> ad_slashAmount p = [] \<or> P AdSlash \<Longrightarrow>
   clicksOnly P (slashDialog L p)"
  by (auto simp: slashDialog_def shortAddress_def click_simps intro!: click_intros split: option.split)

lemma admin_clicks:
  "clicksOnly (\<lambda>e. (e = AdSaveConfig \<longrightarrow> walletKey w \<noteq> None \<and> \<not> ad_configSaving p) \<and>
     (e = AdSlash \<longrightarrow> ad_showSlash p \<and> \<not> ad_slashing p \<and> ad_slashAmount p \<noteq> [])) (drawAdmin L w p)"
  by (auto simp: drawAdmin_def connectPrompt_def click_simps split: option.split
      intro!: click_intros admin_config_clicks admin_system_clicks admin_verifier_clicks
        admin_revenue_clicks admin_oracle_clicks admin_slash_clicks)

lemma verifier_clicks:
  "clicksOnly (\<lambda>e. (e = VpConfirm \<longrightarrow> (\<exists>n d. vp_confirm p = Some (n, d) \<and> \<not> verdictDisabled p d)) \<and>
     (e = VpHeartbeat \<longrightarrow> \<not> vp_heartbeatLoading p) \<and>
     (\<forall>c d. e = VpAsk c d \<longrightarrow> ownStanding w p = Inr True)) (drawVerifier L E w p)"
  by (auto simp: drawVerifier_def connectPrompt_def tabOf_def pendingTab_def pendingRow_def
      pendingDetails_def approvalBadge_def verifierCard_def shortAddress_def verdictDialog_def
      approveDetails_def rejectDetails_def Let_def click_simps intro!: click_intros split: option.split)

lemma bridge_clicks:
  "clicksOnly (\<lambda>e. e = BiSubmit \<longrightarrow> \<not> bridgeInDisabled f) (drawBridgeIn f)"
  "clicksOnly (\<lambda>e. e = BoSubmit \<longrightarrow> \<not> bg_submitting g \<and> bg_creditId g \<noteq> []) (drawBridgeOut g)"
  "clicksOnly (\<lambda>e. e = RbPublish \<longrightarrow> walletKey w \<noteq> None \<and> \<not> publishDisabled r) (drawRoots L E w r)"
  by (auto simp: drawBridgeIn_def bridgedView_def bridgeInFields_def errorLine_def drawBridgeOut_def
      drawRoots_def rootCard_def click_simps intro!: click_intros split: option.split)

lemma webhooks_clicks:
  "clicksOnly (\<lambda>e. e = WpCreate \<longrightarrow> walletKey w \<noteq> None \<and> \<not> wp_creating p) (drawWebhooks L E w p)"
  by (auto simp: drawWebhooks_def connectPrompt_def registerCard_def hookCard_def deliveryRow_def click_simps
      intro!: click_intros split: option.split)

lemma certificate_clicks:
  "clicksOnly (\<lambda>e. e = CpVerify \<longrightarrow> \<not> cp_verifying p \<and> certificateHashOf (cp_certificate p) \<noteq> None)
     (drawCertificate L E p)"
  by (auto simp: drawCertificate_def verificationCard_def retirementCard_def explorerCard_def Let_def
      certificateHashOf_def click_simps intro!: click_intros split: option.split)

lemma clickableD: "clicksOnly P d \<Longrightarrow> e \<in> set (clickable d) \<Longrightarrow> P e"
  by (auto simp: clicksOnly_def)


definition filledOffer :: market_page where
  "filledOffer = newMarketPage\<lparr>mp_showCreate := True, mp_creditId := ''7'', mp_price := ''12.5'',
     mp_amount := ''3''\<rparr>"


section \<open>The pages on typed answers\<close>

text \<open>What a part that only loads holds before its first answer.\<close>

definition opened :: "'a \<Rightarrow> 'a loaded" where
  "opened v = \<lparr>ld_value = v, ld_loading = True\<rparr>"

text \<open>
  C17. When every answer that is not an error has the type that the front end
  declares for it, no page fails to be drawn: not initially, and not after any number of effects and
  of events that the drawn pages offer, in any order, whatever the answers say otherwise and however
  often requests fail.  The parts of a page that keep a state of their own are drawn for themselves;
  the preview of a certificate has none and is left out.
\<close>

theorem pages_never_fail:
  assumes "typedReplies T"
  shows "neverFails (orderbookAct T) (drawOrderbook L E w) (\<lambda>e. e = ObLoad) newOrderbook \<and>
    neverFails (marketAct w T) (drawMarket L w) (\<lambda>e. e \<in> {MpStats, MpPrices}) newMarketPage \<and>
    neverFails (portfolioAct w T) (drawPortfolio L E w) (\<lambda>e. e = PfLoad) newPortfolio \<and>
    neverFails (retireAct E w T) (drawRetire w) (\<lambda>e. e \<in> {RpLoad, RpCertificate}) newRetirePage \<and>
    neverFails (adminAct T) (drawAdmin L w) (\<lambda>e. e = AdLoad) newAdminPage \<and>
    neverFails (verifierAct N T) (drawVerifier L E w) (\<lambda>e. e = VpLoad) newVerifierPage \<and>
    neverFails (ledgerAct T) (drawLedger L E) (\<lambda>e. e = LtLoad) newLedgerTab \<and>
    neverFails (bridgeInAct T) drawBridgeIn (\<lambda>_. False) newBridgeInForm \<and>
    neverFails (bridgeOutAct T) drawBridgeOut (\<lambda>_. False) newBridgeOutForm \<and>
    neverFails (rootsAct T) (drawRoots L E w) (\<lambda>e. e = RbLoad) newRootsTab \<and>
    neverFails (webhooksAct w T) (drawWebhooks L E w) (\<lambda>e. e = WpOpen) newWebhooksPage \<and>
    neverFails (reportingAct w T) (drawReporting L E w) (\<lambda>e. e = RqLoad) newReportingPage \<and>
    neverFails (certificateAct T) (drawCertificate L E) (\<lambda>e. \<exists>i. e = CpLoad i) newCertificatePage \<and>
    neverFails (creditsAct T) (drawCredits L E) (\<lambda>e. e = CsLoad) newCreditsPage \<and>
    neverFails (\<lambda>_. loadCreditDetail T i) (drawCreditDetail L E) (\<lambda>_. True) (opened None) \<and>
    neverFails (\<lambda>_. loadProvenance T n) (drawProvenance L E) (\<lambda>_. True) (opened []) \<and>
    neverFails (\<lambda>_. loadFeatured T) (drawFeatured L E) (\<lambda>_. True) (opened []) \<and>
    neverFails (\<lambda>_. loadRetirements T) (drawRetirements L E) (\<lambda>_. True) (opened []) \<and>
    neverFails (\<lambda>_. loadStatsCards T) (drawStatsCards L) (\<lambda>_. True) (opened defaultStats)"
  by (intro conjI orderbookDrawn.never_fails marketDrawn.never_fails portfolioDrawn.never_fails
      retireDrawn.never_fails adminDrawn.never_fails verifierDrawn.never_fails ledgerDrawn.never_fails
      bridgeInDrawn.never_fails bridgeOutDrawn.never_fails rootsDrawn.never_fails
      webhooksDrawn.never_fails reportingDrawn.never_fails certificateDrawn.never_fails
      creditsDrawn.never_fails detailDrawn.never_fails provenanceDrawn.never_fails
      featuredDrawn.never_fails feedDrawn.never_fails statsDrawn.never_fails assms)
    (simp_all add: newOrderbook_def typedOrderbook_def newMarketPage_def typedMarket_def newPortfolio_def
      typedPortfolio_def newRetirePage_def typedRetire_def newAdminPage_def typedAdmin_def
      newVerifierPage_def typedVerifier_def newLedgerTab_def typedLedger_def newBridgeInForm_def
      typedBridgeIn_def newBridgeOutForm_def typedBridgeOut_def newRootsTab_def typedRoots_def
      newWebhooksPage_def typedWebhooks_def newReportingPage_def typedReporting_def newCertificatePage_def
      typedCertificate_def newCreditsPage_def typedCredits_def opened_def typedDetail_def typedList_def
      typedStats_def defaultStats_def)

text \<open>A service that answers the statistics as declared, and nothing else.\<close>

definition declaredStats :: jsval where
  "declaredStats = JObj [(''totalVolume'', JNum (ofInt 1200)), (''vwap'', JNum (ofInt 12)),
     (''openInterest'', JNum (ofInt 40)), (''totalListings'', JNum (ofInt 3))]"

definition statsService :: "unit transport" where
  "statsService = (\<lambda>h c s. (if c = webCredits WStats then Inr declaredStats else Inl (NotFound ''none''), s))"

lemma statsService_typed: "typedReplies statsService"
proof -
  have "conforms True webMarketplaceStatsT declaredStats"
    by (simp add: webMarketplaceStatsT_def declaredStats_def)
  moreover have "webRecords r \<noteq> webCredits WStats" for r by (cases r) (simp_all add: call_defs)
  moreover have "webAccount a \<noteq> webCredits WStats" for a by (cases a) (simp_all add: call_defs)
  moreover have "webAdmin a \<noteq> webCredits WStats" for a by (cases a) (simp_all add: call_defs)
  moreover have "webCredits c \<noteq> webCredits WStats \<or> c = WStats" for c by (cases c) (simp_all add: call_defs)
  then have "answersAs statsService (webCredits c) (creditReply c)" for c
    using \<open>conforms True webMarketplaceStatsT declaredStats\<close>
    by (cases "c = WStats") (auto simp: answersAs_def statsService_def simp del: webCredits.simps)
  ultimately show ?thesis
    by (simp add: typedReplies_def answersAs_def statsService_def del: webCredits.simps)
qed

theorem pages_never_fail_witness:
  "neverFails (marketAct None statsService) (drawMarket demoLocale None) (\<lambda>e. e \<in> {MpStats, MpPrices})
     newMarketPage \<and>
   mp_stats (fst (snd (marketAct None statsService MpStats
     (newMarketPage, \<lparr>br_token = None, br_server = ()\<rparr>)))) = Some declaredStats"
proof
  show "neverFails (marketAct None statsService) (drawMarket demoLocale None) (\<lambda>e. e \<in> {MpStats, MpPrices})
     newMarketPage"
    using pages_never_fail [OF statsService_typed, of demoLocale demoEnv None] by blast
  show "mp_stats (fst (snd (marketAct None statsService MpStats
     (newMarketPage, \<lparr>br_token = None, br_server = ()\<rparr>)))) = Some declaredStats"
    by (simp add: statsService_def loadStats_def handler_simps del: webCredits.simps)
qed

end
