(* ===== verification/Cli.thy ===== *)
theory Cli
  imports Clients
begin

text \<open>
  The command line tool, \<open>cli/src\<close>.  A command takes its arguments and options as the text that was
  typed; the parsers that the source attaches to an option are applied here.  The option package
  calls such a parser with the text and the option's previous value, which is the default when there
  is one, so \<open>parseInt\<close> gets the default as its radix.  A command ends in the requests it sends, or in
  the message of an error thrown before; printing is left out.
\<close>

section \<open>Options\<close>

definition digit36 :: "char \<Rightarrow> nat option" where
  "digit36 c = (if isDigit c then Some (digitVal c)
     else if CHR ''a'' \<le> c \<and> c \<le> CHR ''z'' then Some (of_char c - 87)
     else if CHR ''A'' \<le> c \<and> c \<le> CHR ''Z'' then Some (of_char c - 55) else None)"

definition digitBelow :: "int \<Rightarrow> char \<Rightarrow> bool" where
  "digitBelow b c = (case digit36 c of None \<Rightarrow> False | Some d \<Rightarrow> int d < b)"

definition digitsIn :: "int \<Rightarrow> string \<Rightarrow> int" where
  "digitsIn b ds = foldl (\<lambda>a c. b * a + (case digit36 c of None \<Rightarrow> 0 | Some d \<Rightarrow> int d)) 0 ds"

text \<open>\<open>parseInt(s, radix)\<close>.\<close>

definition parseIntRadix :: "int option \<Rightarrow> string \<Rightarrow> jsnum" where
  "parseIntRadix r s = (case takeSign (trimLeft s) of (neg, t) \<Rightarrow>
     (let free = (r = None \<or> r = Some 0);
          hex = ((free \<or> r = Some 16) \<and> (isPrefixStr ''0x'' t \<or> isPrefixStr ''0X'' t));
          b = (if free then (if hex then 16 else 10) else the r);
          ds = takeWhile (digitBelow b) (if hex then drop 2 t else t) in
      if b < 2 \<or> 36 < b \<or> ds = [] then NaN
      else num_of_int (if neg then - digitsIn b ds else digitsIn b ds)))"

text \<open>\<open>.option(flags, text, parseInt, default)\<close> and \<open>.option(flags, text, parseFloat)\<close>.\<close>

definition intOption :: "int option \<Rightarrow> string option \<Rightarrow> jsval" where
  "intOption dflt raw = (case raw of
     None \<Rightarrow> (case dflt of None \<Rightarrow> JUndef | Some d \<Rightarrow> JNum (ofInt d))
   | Some s \<Rightarrow> JNum (parseIntRadix dflt s))"

definition floatOption :: "string option \<Rightarrow> jsval" where
  "floatOption raw = (case raw of None \<Rightarrow> JUndef | Some s \<Rightarrow> JNum (parseFloatJs s))"

section \<open>The client of a command\<close>

definition preAction ::
  "string \<Rightarrow> string \<Rightarrow> string option \<Rightarrow> (string \<Rightarrow> string option) \<Rightarrow> string \<Rightarrow> string option" where
  "preAction apiUrl network wallet penv =
     (let p = penv(''CV_API_URL'' \<mapsto> apiUrl, ''CV_NETWORK'' \<mapsto> network) in
      case given wallet of None \<Rightarrow> p | Some k \<Rightarrow> p(''CV_WALLET'' \<mapsto> k))"

definition cliClient :: "(string \<Rightarrow> string option) \<Rightarrow> client" where
  "cliClient penv =
     (let c = newClient (penv ''CV_API_URL'') (penv ''CV_NETWORK'') in
      case given (penv ''CV_AUTH_TOKEN'') of None \<Rightarrow> c | Some t \<Rightarrow> setAuthToken c (Some t))"

section \<open>Commands\<close>

type_synonym plan = "string + http_call list"

definition one :: "http_call \<Rightarrow> plan" where
  "one c = Inr [c]"

record list_options =
  lo_status :: "string option"
  lo_methodology :: "string option"
  lo_geography :: "string option"
  lo_vintageMin :: "string option"
  lo_vintageMax :: "string option"
  lo_issuer :: "string option"
  lo_owner :: "string option"
  lo_page :: "string option"
  lo_limit :: "string option"
  lo_sort :: "string option"

record issue_options =
  io_projectId :: string
  io_methodology :: string
  io_vintageStart :: string
  io_vintageEnd :: string
  io_tonnes :: string
  io_geography :: string
  io_sdg :: "string option"
  io_permanence :: "string option"
  io_buffer :: "string option"
  io_additionality :: "string option"

definition numberList :: "string \<Rightarrow> jsnum list" where
  "numberList s = map stringToNumber (splitOn CHR '','' s)"

datatype credits_command =
    CvList list_options | CvGet string | CvIssue issue_options
  | CvApprove string "string option" | CvReject string string | CvTransfer string string

fun creditsCommand :: "credits_command \<Rightarrow> plan" where
  "creditsCommand (CvList x) = one (creditsModule (ListCredits (definedParams [
     (''status'', optText (lo_status x)), (''methodology'', optText (lo_methodology x)),
     (''geography'', optText (lo_geography x)), (''vintageMin'', intOption None (lo_vintageMin x)),
     (''vintageMax'', intOption None (lo_vintageMax x)), (''issuer'', optText (lo_issuer x)),
     (''owner'', optText (lo_owner x)), (''page'', intOption (Some 1) (lo_page x)),
     (''limit'', intOption (Some 20) (lo_limit x)), (''sort'', optText (lo_sort x))])))"
| "creditsCommand (CvGet i) = one (creditsModule (FetchCredit (parseInt10 i)))"
| "creditsCommand (CvIssue x) = one (creditsModule (IssueCredit (JObj [
     (''projectId'', JStr (io_projectId x)), (''methodology'', JStr (io_methodology x)),
     (''vintageStart'', JStr (io_vintageStart x)), (''vintageEnd'', JStr (io_vintageEnd x)),
     (''tonnes'', JNum (parseFloatJs (io_tonnes x))), (''geography'', JStr (io_geography x)),
     (''sdgCobenefits'', (case given (io_sdg x) of None \<Rightarrow> JUndef
        | Some s \<Rightarrow> JArr (map JNum (numberList s)))),
     (''permanenceRating'', intOption None (io_permanence x)),
     (''bufferContributionPct'', intOption None (io_buffer x)),
     (''additionalityType'', intOption None (io_additionality x))])))"
| "creditsCommand (CvApprove i comments) = one (creditsModule (ApproveCredit (parseInt10 i)
     (Some (JObj [(''comments'', optText comments)]))))"
| "creditsCommand (CvReject i reason) = one (creditsModule (RejectCredit (parseInt10 i)
     (JObj [(''reason'', JStr reason)])))"
| "creditsCommand (CvTransfer i to) = one (creditsModule (TransferCredit (parseInt10 i) to))"

record listing_options =
  so_methodology :: "string option"
  so_geography :: "string option"
  so_maxPrice :: "string option"
  so_status :: "string option"
  so_page :: "string option"
  so_limit :: "string option"

datatype marketplace_command =
    CvListings listing_options | CvOffer string
  | CvCreateOffer string string string string "string option"
  | CvBuy string "string option" | CvCancel string | CvHistory

fun marketplaceCommand :: "marketplace_command \<Rightarrow> plan" where
  "marketplaceCommand (CvListings x) = one (marketplaceModule (ListListings (definedParams [
     (''methodology'', optText (so_methodology x)), (''geography'', optText (so_geography x)),
     (''maxPrice'', floatOption (so_maxPrice x)), (''status'', optText (so_status x)),
     (''page'', intOption (Some 1) (so_page x)), (''limit'', intOption (Some 20) (so_limit x))])))"
| "marketplaceCommand (CvOffer i) = one (marketplaceModule (FetchOffer (parseInt10 i)))"
| "marketplaceCommand (CvCreateOffer creditId price amount currency expiresAt) =
     one (marketplaceModule (CreateOffer (JObj [(''creditId'', intOption None (Some creditId)),
       (''pricePerTonne'', floatOption (Some price)), (''amount'', floatOption (Some amount)),
       (''currency'', JStr currency), (''expiresAt'', intOption None expiresAt)])))"
| "marketplaceCommand (CvBuy i amount) =
     one (marketplaceModule (Buy (parseInt10 i) (floatOption amount)))"
| "marketplaceCommand (CvCancel i) = one (marketplaceModule (CancelOffer (parseInt10 i)))"
| "marketplaceCommand CvHistory = one (marketplaceModule TradeHistory)"

definition retireInput :: "string \<Rightarrow> string \<Rightarrow> string \<Rightarrow> jsval \<Rightarrow> jsval" where
  "retireInput reason beneficiary period tonnes = JObj [(''reason'', JStr reason),
     (''beneficiary'', JStr beneficiary), (''accountingPeriod'', JStr period),
     (''tonnesRetired'', tonnes)]"

datatype retire_command =
    CvRetire string string string string "string option"
  | CvBatchRetire string string string string
  | CvRetireStatus string | CvRetireCertificate string

fun retireCommand :: "retire_command \<Rightarrow> plan" where
  "retireCommand (CvRetire i reason beneficiary period tonnes) =
     (let t = floatOption tonnes in
      one (retirementModule (RetireCall (parseInt10 i)
        (retireInput reason beneficiary period (if truthy t then JStr (jsString t) else JUndef)))))"
| "retireCommand (CvBatchRetire ids reason beneficiary period) =
     Inr (map (\<lambda>n. retirementModule (RetireCall n (JObj [(''reason'', JStr reason),
       (''beneficiary'', JStr beneficiary), (''accountingPeriod'', JStr period)])))
       (numberList ids))"
| "retireCommand (CvRetireStatus i) = one (retirementModule (RetirementRecord (parseInt10 i)))"
| "retireCommand (CvRetireCertificate i) =
     one (retirementModule (RetirementCertificate (parseInt10 i)))"

datatype verify_command =
    CvRegister string "string option" | CvVerifierStatus "string option"
  | CvVerifyApprove string "string option" | CvVerifyReject string string | CvHeartbeat

fun verifyCommand :: "verify_command \<Rightarrow> plan" where
  "verifyCommand (CvRegister stake credentials) = one (callPost [Seg ''verifiers'', Seg ''register'']
     (JObj [(''stake'', floatOption (Some stake)), (''credentials'', optText credentials)]))"
| "verifyCommand (CvVerifierStatus address) = one (callGet (case given address of
     Some a \<Rightarrow> [Seg ''verifiers'', Var a] | None \<Rightarrow> [Seg ''verifiers'']) [])"
| "verifyCommand (CvVerifyApprove i comments) = creditsCommand (CvApprove i comments)"
| "verifyCommand (CvVerifyReject i reason) = creditsCommand (CvReject i reason)"
| "verifyCommand CvHeartbeat = one (callPost [Seg ''verifiers'', Seg ''heartbeat''] JUndef)"

record config_options =
  go_verifierThreshold :: string
  go_verifierQuorum :: string
  go_approvalWindow :: string
  go_protocolFeeBps :: string
  go_bufferPoolPct :: string

datatype admin_command =
    CvConfig | CvConfigUpdate config_options | CvContracts | CvVerifiers | CvVerifierAdd string
  | CvVerifierRemove string | CvSystem

definition requiredInt :: "string \<Rightarrow> jsval" where
  "requiredInt s = intOption None (Some s)"

fun adminCommand :: "admin_command \<Rightarrow> plan" where
  "adminCommand CvConfig = one (adminModule FetchConfig)"
| "adminCommand (CvConfigUpdate x) = one (adminModule (UpdateConfig (JObj [
     (''verifierThreshold'', requiredInt (go_verifierThreshold x)),
     (''verifierQuorum'', requiredInt (go_verifierQuorum x)),
     (''approvalWindow'', requiredInt (go_approvalWindow x)),
     (''protocolFeeBps'', requiredInt (go_protocolFeeBps x)),
     (''bufferPoolPct'', requiredInt (go_bufferPoolPct x))])))"
| "adminCommand CvContracts = one (adminModule FetchContracts)"
| "adminCommand CvVerifiers = one (adminModule ListVerifiersCall)"
| "adminCommand (CvVerifierAdd a) = one (adminModule (AddVerifierCall a))"
| "adminCommand (CvVerifierRemove a) = one (adminModule (RemoveVerifierCall a))"
| "adminCommand CvSystem = one (adminModule SystemStatus)"

record bridge_in_options =
  bo_sourceRegistry :: string
  bo_sourceSerial :: string
  bo_leaf :: string
  bo_merkleProof :: string
  bo_merkleRoot :: string
  bo_projectId :: string
  bo_methodology :: string
  bo_vintageStart :: string
  bo_vintageEnd :: string
  bo_tonnes :: string
  bo_geography :: string
  bo_serialPrefix :: string
  bo_sdg :: "string option"
  bo_permanence :: "string option"
  bo_buffer :: "string option"
  bo_additionality :: "string option"
  bo_ipfs :: "string option"

datatype bridge_command =
    CvRecords "string option" "string option" "string option" "string option"
  | CvBridgeIn bridge_in_options | CvBridgeOut string | CvRootGet string
  | CvRootUpdate string string string

text \<open>\<open>...(v !== undefined && { key: v })\<close>.\<close>

definition spread :: "(string \<times> jsval) list \<Rightarrow> (string \<times> jsval) list" where
  "spread kvs = filter (\<lambda>(k, v). v \<noteq> JUndef) kvs"

fun bridgeCommand :: "bridge_command \<Rightarrow> plan" where
  "bridgeCommand (CvRecords registry status page limit) = one (bridgeModule (BridgeRecords
     (optText registry) (optText status) (intOption (Some 1) page) (intOption (Some 20) limit)))"
| "bridgeCommand (CvBridgeIn x) = one (bridgeModule (BridgeInCall (JObj [
     (''sourceRegistry'', JStr (bo_sourceRegistry x)), (''sourceSerial'', JStr (bo_sourceSerial x)),
     (''leaf'', JStr (bo_leaf x)),
     (''merkleProof'', JArr (map JStr (splitOn CHR '','' (bo_merkleProof x)))),
     (''merkleRoot'', JStr (bo_merkleRoot x)),
     (''metadata'', JObj ([(''projectId'', JStr (bo_projectId x)),
        (''methodology'', JStr (bo_methodology x)),
        (''vintageStart'', requiredInt (bo_vintageStart x)),
        (''vintageEnd'', requiredInt (bo_vintageEnd x)), (''tonnes'', requiredInt (bo_tonnes x)),
        (''geography'', JStr (bo_geography x)), (''serialPrefix'', JStr (bo_serialPrefix x))] @
        spread [(''sdgFlags'', intOption None (bo_sdg x)),
          (''permanenceRating'', intOption None (bo_permanence x)),
          (''bufferContributionPct'', intOption None (bo_buffer x)),
          (''additionalityType'', intOption None (bo_additionality x)),
          (''ipfsHash'', optText (bo_ipfs x))]))])))"
| "bridgeCommand (CvBridgeOut i) = one (bridgeModule (BridgeOutCall (parseInt10 i)))"
| "bridgeCommand (CvRootGet registry) = one (bridgeModule (FetchRoot registry))"
| "bridgeCommand (CvRootUpdate registry newRoot height) =
     one (bridgeModule (PublishRoot registry (JObj [(''root'', JStr newRoot),
       (''blockHeight'', requiredInt height)])))"

datatype reporting_command = CvScope3 "string option" bool

fun reportingCommand :: "reporting_command \<Rightarrow> plan" where
  "reportingCommand (CvScope3 year csv) =
     (let y = (case given year of None \<Rightarrow> JUndef | Some s \<Rightarrow> JNum (parseInt10 s)) in
      one (reportingModule (if csv then Scope3Csv y else Scope3Json None y)))"

text \<open>One entry of \<open>--beneficiaries\<close>, an address and its share: \<open>addr:bps\<close>.\<close>

definition parseEntry :: "string \<Rightarrow> string + string \<times> jsnum" where
  "parseEntry entry =
     (let parts = splitOn CHR '':'' (trim entry); address = hd parts;
          bps = (if length parts < 2 then NaN else stringToNumber (parts ! 1)) in
      if address = [] \<or> \<not> isInteger bps then Inl (''Invalid beneficiary entry: '' @ entry)
      else Inr (address, bps))"

definition parseBeneficiaries :: "string \<Rightarrow> string + (string \<times> jsnum) list" where
  "parseBeneficiaries s = mapS parseEntry (splitOn CHR '','' s)"

definition beneficiariesBody :: "(string \<times> jsnum) list \<Rightarrow> jsval" where
  "beneficiariesBody bs = JObj [(''beneficiaries'', JArr (map (\<lambda>(address, bps).
     JObj [(''address'', JStr address), (''bps'', JNum bps)]) bs))]"

datatype split_command =
  CvSplitConfig string | CvConfigure string "string option" | CvDistribute string string string

fun revenueSplitCommand :: "split_command \<Rightarrow> plan" where
  "revenueSplitCommand (CvSplitConfig pid) = one (revenueSplitModule (SplitConfig pid))"
| "revenueSplitCommand (CvConfigure pid raw) = (case given raw of
     None \<Rightarrow> Inl ''--beneficiaries is required (e.g. GAAA:6000,GBBB:4000)''
   | Some s \<Rightarrow> bindS (parseBeneficiaries s) (\<lambda>bs.
       one (revenueSplitModule (ConfigureSplitCall pid (beneficiariesBody bs)))))"
| "revenueSplitCommand (CvDistribute pid asset amount) =
     one (revenueSplitModule (DistributeCall pid (JObj [(''asset'', JStr asset),
       (''amount'', requiredInt amount)])))"

datatype webhooks_command =
    CvHookCreate string string | CvHookList | CvHookTest string
  | CvHookDeliveries "string option" "string option" | CvHookDelete string

definition eventList :: "string \<Rightarrow> string list" where
  "eventList s = filter (\<lambda>e. e \<noteq> []) (map trim (splitOn CHR '','' s))"

fun webhooksCommand :: "webhooks_command \<Rightarrow> plan" where
  "webhooksCommand (CvHookCreate url events) = one (webhooksModule (CreateWebhookCall (JObj [
     (''url'', JStr url), (''events'', JArr (map JStr (eventList events)))])))"
| "webhooksCommand CvHookList = one (webhooksModule ListWebhooksCall)"
| "webhooksCommand (CvHookTest i) = one (webhooksModule (TestWebhookCall i))"
| "webhooksCommand (CvHookDeliveries eventType limit) =
     one (webhooksModule (DeliveriesCall (optText eventType) (intOption None limit)))"
| "webhooksCommand (CvHookDelete i) = one (webhooksModule (RemoveWebhookCall i))"

datatype cli_command =
    CliCredits credits_command | CliMarketplace marketplace_command | CliRetire retire_command
  | CliVerify verify_command | CliWebhooks webhooks_command | CliAdmin admin_command
  | CliReporting reporting_command | CliBridge bridge_command | CliSplit split_command

fun cliPlan :: "cli_command \<Rightarrow> plan" where
  "cliPlan (CliCredits c) = creditsCommand c"
| "cliPlan (CliMarketplace c) = marketplaceCommand c"
| "cliPlan (CliRetire c) = retireCommand c"
| "cliPlan (CliVerify c) = verifyCommand c"
| "cliPlan (CliWebhooks c) = webhooksCommand c"
| "cliPlan (CliAdmin c) = adminCommand c"
| "cliPlan (CliReporting c) = reportingCommand c"
| "cliPlan (CliBridge c) = bridgeCommand c"
| "cliPlan (CliSplit c) = revenueSplitCommand c"

text \<open>
  The body of every command: the requests go out one after another, and the first error ends the
  tool with its message and exit code 1.
\<close>

definition runCommand :: "(http_call \<Rightarrow> string + jsval) \<Rightarrow> plan \<Rightarrow> (string + jsval list) \<times> nat" where
  "runCommand send p = (case bindS p (mapS send) of
     Inl msg \<Rightarrow> (Inl msg, 1) | Inr rs \<Rightarrow> (Inr rs, 0))"

section \<open>The health checks\<close>

datatype check_status = CheckOk | CheckFail

record check_result =
  dr_name :: string
  dr_state :: check_status
  dr_detail :: "string option"

definition passed :: "string \<Rightarrow> string option \<Rightarrow> check_result" where
  "passed n d = \<lparr>dr_name = n, dr_state = CheckOk, dr_detail = d\<rparr>"

definition failed :: "string \<Rightarrow> string \<Rightarrow> check_result" where
  "failed n d = \<lparr>dr_name = n, dr_state = CheckFail, dr_detail = Some d\<rparr>"

text \<open>
  \<open>cv doctor\<close>: the outcomes of its three requests are its arguments, each the data read from the
  response or the message of the error that came instead.
\<close>

definition doctorChecks :: "string + string \<times> (string \<times> string) list \<Rightarrow> string + jsval \<Rightarrow>
    string + unit \<Rightarrow> string option \<Rightarrow> check_result list" where
  "doctorChecks health listing challenge network = [
     (case health of
        Inr (status, checks) \<Rightarrow> passed ''API'' (Some (status @ '' ('' @
          joinWith '', '' (map (\<lambda>(n, s). n @ '':'' @ s) checks) @ '')''))
      | Inl msg \<Rightarrow> failed ''API'' msg),
     (case listing of
        Inr n \<Rightarrow> passed ''Database'' (Some (jsString n @ '' credits indexed''))
      | Inl msg \<Rightarrow> failed ''Database'' msg),
     (case challenge of
        Inr _ \<Rightarrow> passed ''Auth Service'' None
      | Inl msg \<Rightarrow> (if includesStr ''400'' msg \<or> includesStr ''401'' msg
          then passed ''Auth Service'' (Some ''Challenge endpoint reachable'')
          else failed ''Auth Service'' msg)),
     passed ''Network Config'' (Some (''Configured for '' @ orElse (given network) ''testnet''))]"

definition doctorExit :: "check_result list \<Rightarrow> nat" where
  "doctorExit rs = (if list_all (\<lambda>r. dr_state r \<noteq> CheckFail) rs then 0 else 1)"

section \<open>What the commands send\<close>

text \<open>\<open>--page 2\<close> is not a number whatever is typed, and the digits of \<open>--limit\<close> count in base 20.\<close>

lemma page_option_NaN: "intOption (Some 1) (Some s) = JNum NaN"
  by (simp add: intOption_def parseIntRadix_def Let_def split: prod.split)

lemma limit_option_base20: "intOption (Some 20) (Some ''50'') = JNum (ofInt 100)"
  by code_simp

text \<open>The commands that no route serves.\<close>

fun unroutedCommand :: "cli_command \<Rightarrow> bool" where
  "unroutedCommand (CliCredits (CvTransfer _ _)) = True"
| "unroutedCommand (CliMarketplace (CvOffer _)) = True"
| "unroutedCommand (CliRetire (CvRetireStatus _)) = True"
| "unroutedCommand (CliVerify CvHeartbeat) = True"
| "unroutedCommand _ = False"

definition servedBy :: "nat \<Rightarrow> plan \<Rightarrow> bool" where
  "servedBy n p \<longleftrightarrow> (case p of Inl _ \<Rightarrow> True | Inr cs \<Rightarrow> list_all (\<lambda>c. length (served c) = n) cs)"

lemma servedBy_simps [simp]:
  "servedBy n (Inl e)" "servedBy n (Inr cs) \<longleftrightarrow> list_all (\<lambda>c. length (served c) = n) cs"
  "servedBy n (one c) \<longleftrightarrow> length (served c) = n"
  by (simp_all add: servedBy_def one_def)

lemma servedBy_bindS: "(\<And>x. servedBy n (f x)) \<Longrightarrow> servedBy n (bindS r f)"
  by (cases r) simp_all

lemmas routed_simps = sdk_routed [of "SdkCredits c" for c, simplified]
  sdk_routed [of "SdkMarketplace c" for c, simplified]
  sdk_routed [of "SdkRetirement c" for c, simplified]
  sdk_routed [of "SdkWebhooks c" for c, simplified]
  sdk_routed [of "SdkAdmin c" for c, simplified]
  sdk_routed [of "SdkReporting c" for c, simplified]
  sdk_routed [of "SdkBridge c" for c, simplified]
  sdk_routed [of "SdkSplit c" for c, simplified]

lemma creditsCommand_served:
  "servedBy (if unroutedCommand (CliCredits k) then 0 else 1) (creditsCommand k)"
  by (cases k) (simp_all del: creditsModule.simps add: routed_simps)

lemma verifyCommand_served:
  "servedBy (if unroutedCommand (CliVerify k) then 0 else 1) (verifyCommand k)"
proof (cases k)
  case (CvVerifyApprove i c)
  with creditsCommand_served [of "CvApprove i c"] show ?thesis by (simp del: creditsCommand.simps)
next
  case (CvVerifyReject i c)
  with creditsCommand_served [of "CvReject i c"] show ?thesis by (simp del: creditsCommand.simps)
next
  case (CvVerifierStatus a)
  then show ?thesis by (cases "given a") (simp_all add: served_simps)
qed (simp_all add: served_simps)

lemma splitCommand_served: "servedBy 1 (revenueSplitCommand k)"
  by (cases k) (auto simp del: revenueSplitModule.simps simp: routed_simps split: option.split
      intro!: servedBy_bindS)

lemma cli_served: "servedBy (if unroutedCommand k then 0 else 1) (cliPlan k)"
proof (cases k)
  case (CliMarketplace d)
  then show ?thesis by (cases d) (simp_all del: marketplaceModule.simps add: routed_simps)
next
  case (CliRetire d)
  then show ?thesis
    by (cases d) (simp_all del: retirementModule.simps add: routed_simps Let_def list_all_iff)
next
  case (CliWebhooks d)
  then show ?thesis by (cases d) (simp_all del: webhooksModule.simps add: routed_simps)
next
  case (CliAdmin d)
  then show ?thesis by (cases d) (simp_all del: adminModule.simps add: routed_simps)
next
  case (CliReporting d)
  then show ?thesis by (cases d) (simp_all del: reportingModule.simps add: routed_simps Let_def)
next
  case (CliBridge d)
  then show ?thesis by (cases d) (simp_all del: bridgeModule.simps add: routed_simps)
next
  case (CliCredits d)
  then show ?thesis using creditsCommand_served [of d] by (simp only: cliPlan.simps)
next
  case (CliVerify d)
  then show ?thesis using verifyCommand_served [of d] by (simp only: cliPlan.simps)
next
  case (CliSplit d)
  then show ?thesis using splitCommand_served [of d] by (simp only: cliPlan.simps unroutedCommand.simps if_False)
qed


section \<open>The beneficiaries of a split\<close>

definition entryText :: "string \<times> int \<Rightarrow> string" where
  "entryText e = fst e @ CHR '':'' # showPos (snd e)"

definition plainAddress :: "string \<Rightarrow> bool" where
  "plainAddress a \<longleftrightarrow> a \<noteq> [] \<and> \<not> isSpaceC (hd a) \<and> CHR '':'' \<notin> set a \<and> CHR '','' \<notin> set a"

lemma parseEntry_entryText:
  assumes "plainAddress a" and "0 \<le> n" and "safeInt n"
  shows "parseEntry (entryText (a, n)) = Inr (a, ofInt n)"
proof -
  have "\<not> isSpaceC (last (showPos n))"
    using assms(2) by (simp add: digit_no_space showPos_digits)
  then have "trim (entryText (a, n)) = entryText (a, n)"
    using assms(1) by (intro trim_id) (simp_all add: entryText_def plainAddress_def)
  moreover have "CHR '':'' \<notin> set (showPos n)" using assms(2) by (simp add: showPos_without)
  ultimately show ?thesis
    using assms stringToNumber_showPos
    by (simp add: parseEntry_def entryText_def plainAddress_def splitOn_append splitOn_none Let_def)
qed

text \<open>
  C39. Printing beneficiaries with plain addresses and whole shares as
  \<open>addr:bps,...\<close> and giving the text to the command \<open>revenue-split configure\<close> sends exactly these
  beneficiaries, in their order, to the configuration route.
\<close>

theorem beneficiaries_roundtrip:
  assumes "bs \<noteq> []" and "list_all (\<lambda>(a, n). plainAddress a \<and> 0 \<le> n \<and> safeInt n) bs"
  shows "revenueSplitCommand (CvConfigure pid (Some (joinWith '','' (map entryText bs)))) =
    Inr [callPost [Seg ''revenue-split'', Var pid, Seg ''config'']
      (beneficiariesBody (map (\<lambda>(a, n). (a, ofInt n)) bs))]"
proof -
  have ok: "parseEntry (entryText e) = Inr (fst e, ofInt (snd e)) \<and> CHR '','' \<notin> set (entryText e)"
    if "e \<in> set bs" for e
  proof -
    from assms(2) that have e: "plainAddress (fst e)" "0 \<le> snd e" "safeInt (snd e)"
      by (auto simp: list_all_iff)
    then have "CHR '','' \<notin> set (showPos (snd e))" by (simp add: showPos_without)
    with e show ?thesis
      using parseEntry_entryText [of "fst e" "snd e"] by (auto simp: entryText_def plainAddress_def)
  qed
  let ?t = "joinWith '','' (map entryText bs)"
  have "splitOn CHR '','' ?t = map entryText bs"
    using assms(1) ok by (intro splitOn_joinWith) (auto simp: list_all_iff)
  moreover have "mapS parseEntry (map entryText bs) = Inr (map (\<lambda>(a, n). (a, ofInt n)) bs)"
    using ok mapS_all_Inr [of bs "\<lambda>e. parseEntry (entryText e)" "\<lambda>e. (fst e, ofInt (snd e))"]
    by (simp add: mapS_map case_prod_unfold)
  moreover have "?t \<noteq> []"
    using assms(1) by (induction bs rule: induct_list012) (auto simp: entryText_def)
  ultimately show ?thesis
    by (simp add: parseBeneficiaries_def given_def one_def)
qed

theorem beneficiaries_roundtrip_witness:
  "revenueSplitCommand (CvConfigure ''P1'' (Some ''GAAA:6000,GBBB:4000'')) =
    Inr [callPost [Seg ''revenue-split'', Var ''P1'', Seg ''config'']
      (beneficiariesBody [(''GAAA'', ofInt 6000), (''GBBB'', ofInt 4000)])]"
proof -
  have t: "joinWith '','' (map entryText [(''GAAA'', 6000), (''GBBB'', 4000)]) = ''GAAA:6000,GBBB:4000''"
    by code_simp
  have "list_all (\<lambda>(a, n). plainAddress a \<and> 0 \<le> n \<and> safeInt n) [(''GAAA'', 6000), (''GBBB'', 4000)]"
    by code_simp
  from beneficiaries_roundtrip [OF _ this, of "''P1''"] show ?thesis unfolding t by simp
qed

text \<open>A share that is missing or not whole is refused with the text of its entry.\<close>

lemma parseEntry_refuses:
  "(\<exists>n. parseEntry e = Inr n) \<or> parseEntry e = Inl (''Invalid beneficiary entry: '' @ e)"
  by (simp add: parseEntry_def Let_def)

lemma configure_needs_shares:
  "revenueSplitCommand (CvConfigure pid (Some ''GAAA:6000,GBBB'')) =
     Inl ''Invalid beneficiary entry: GBBB''"
  by code_simp

section \<open>What the health checks report\<close>

text \<open>The tool exits with 0 exactly when the three requests passed, by the tool's own reading.\<close>

lemma doctorExit_iff:
  "doctorExit (doctorChecks h l c n) = 0 \<longleftrightarrow> (\<exists>x. h = Inr x) \<and> (\<exists>x. l = Inr x) \<and>
     (case c of Inr _ \<Rightarrow> True | Inl m \<Rightarrow> includesStr ''400'' m \<or> includesStr ''401'' m)"
  by (auto simp: doctorExit_def doctorChecks_def passed_def failed_def split: sum.splits)

text \<open>A refused connection passes as a reachable service when its port contains these digits.\<close>

lemma doctor_port_4000:
  "map dr_state (doctorChecks h l (Inl ''connect ECONNREFUSED 127.0.0.1:4000'') n) ! 2 = CheckOk"
proof -
  have "includesStr ''400'' ''connect ECONNREFUSED 127.0.0.1:4000''" by code_simp
  then show ?thesis by (simp add: doctorChecks_def passed_def)
qed

end
