(* ===== verification/Seed.thy ===== *)
theory Seed
  imports Integrity
begin

text \<open>
  The seeding script \<open>api/prisma/seed.ts\<close>: it upserts five users and ten credits and replaces all
  verifiers by three.  The rows are those of the script; a date is parsed where the row is written,
  which is where an invalid one is refused.
\<close>

section \<open>The rows\<close>

record seed_credit =
  sd_creditId :: int
  sd_projectId :: string
  sd_methodology :: string
  sd_vintageStart :: string
  sd_vintageEnd :: string
  sd_tonnes :: int
  sd_geography :: string
  sd_serialPrefix :: string
  sd_sdgFlags :: int
  sd_permanenceRating :: int
  sd_bufferContributionPct :: int
  sd_additionalityType :: int
  sd_ipfsHash :: string
  sd_status :: credit_status
  sd_tokenId :: "string option"

definition seedRow :: "int \<Rightarrow> string \<Rightarrow> string \<Rightarrow> string \<Rightarrow> string \<Rightarrow> int \<Rightarrow> string \<Rightarrow> string \<Rightarrow> int \<Rightarrow> int \<Rightarrow>
    int \<Rightarrow> int \<Rightarrow> string \<Rightarrow> credit_status \<Rightarrow> string option \<Rightarrow> seed_credit" where
  "seedRow n pid meth vs ve t geo ser sdg perm buf addl ipfs st tok = \<lparr>sd_creditId = n,
     sd_projectId = pid, sd_methodology = meth, sd_vintageStart = vs, sd_vintageEnd = ve,
     sd_tonnes = t, sd_geography = geo, sd_serialPrefix = ser, sd_sdgFlags = sdg,
     sd_permanenceRating = perm, sd_bufferContributionPct = buf, sd_additionalityType = addl,
     sd_ipfsHash = ipfs, sd_status = st, sd_tokenId = tok\<rparr>"

definition ADMIN_PUB :: string where
  "ADMIN_PUB = ''GADMIN12345678901234567890123456789012345678901234''"

definition ISSUER_PUB :: string where
  "ISSUER_PUB = ''GISSUER9999999999999999999999999999999999999999999''"

text \<open>The public keys of the verifiers with their stakes and reputations.\<close>

definition seedVerifiers :: "(string \<times> int \<times> int) list" where
  "seedVerifiers = [
     (''GVERIFIER1111111111111111111111111111111111111111'', 50000, 92),
     (''GVERIFIER2222222222222222222222222222222222222222'', 75000, 88),
     (''GVERIFIER3333333333333333333333333333333333333333'', 60000, 95)]"

definition creditData :: "seed_credit list" where
  "creditData = [
    seedRow 1 ''AMZ-REF-001'' ''VCS:VM0007'' ''2021-01-01'' ''2021-12-31'' 10000 ''BR''
      ''AMZ-REF-VCS0007-'' 4169 87 10 1
      ''bafybeigdyrzt5sfp7udm7hu76uh7y26nf3efuylqabf3oclgtqy55fbzdi'' CActive (Some ''0xabcdef1234567890''),
    seedRow 2 ''KLM-REF-002'' ''GS:AR-ACM0003'' ''2022-06-01'' ''2023-05-31'' 25000 ''KE''
      ''KLM-REF-GSAC0003-'' 4242 72 15 0
      ''bafybeihdwdcefgh4dqkjv67uzcmw7ojee6xedzdetojuzjevtenxquvyku'' CPending None,
    seedRow 3 ''BOR-MCP-001'' ''CDM:ACM0010'' ''2020-01-01'' ''2024-12-31'' 500000 ''CN''
      ''BOR-MCP-CDMACM-'' 513 45 20 2
      ''bafybeif4fcle3vgljfnkzlbdcxfp4hvmtbv3kqfthgxd4hjpfhkjnidka'' CActive (Some ''0xdeadbeef56789012''),
    seedRow 4 ''SEA-BLUE-001'' ''VCS:VM0033'' ''2023-01-01'' ''2023-12-31'' 5000 ''ID''
      ''SEA-BLUE-VCS0033-'' 4160 91 5 1
      ''bafybeiezt5sfp7udm7hu76uh7y26nf3efuylqabf3oclgtqy55fbzdi'' CRetired None,
    seedRow 5 ''SAH-SOL-001'' ''GS:TEC-V1.0'' ''2024-01-01'' ''2024-12-31'' 1200 ''NG''
      ''SAH-SOL-GSTECV1-'' 177 68 8 0
      ''bafybeidwdcefgh4dqkjv67uzcmw7ojee6xedzdetojuzjevtenxquvyku'' CPending None,
    seedRow 6 ''AND-FOR-001'' ''VCS:VM0015'' ''2019-01-01'' ''2023-12-31'' 150000 ''PE''
      ''AND-FOR-VCS0015-'' 4173 83 12 1
      ''bafybeif4fcle3vgljfnkzlbdcxfp4hvmtbv3kqfthgxd4hjpfhkjnidka'' CPending None,
    seedRow 7 ''GHA-COOK-001'' ''GS:AMS-II.G'' ''2022-01-01'' ''2024-06-30'' 8500 ''GH''
      ''GHA-COOK-GSAMSG-'' 145 55 10 0
      ''bafybeihdwdcefgh4dqkjv67uzcmw7ojee6xedzdetojuzjevtenxquvyku'' CActive (Some ''0xcafebabe12345678''),
    seedRow 8 ''AUS-BIO-001'' ''VCS:VM0032'' ''2020-01-01'' ''2022-12-31'' 75000 ''AU''
      ''AUS-BIO-VCS0032-'' 576 78 10 1
      ''bafybeigdyrzt5sfp7udm7hu76uh7y26nf3efuylqabf3oclgtqy55fbzdi'' CActive (Some ''0x1111222233334444''),
    seedRow 9 ''MNG-GRS-001'' ''CDM:ACM0001'' ''2018-01-01'' ''2023-12-31'' 320000 ''MN''
      ''MNG-GRS-CDMACM-'' 512 62 18 2
      ''bafybeiezt5sfp7udm7hu76uh7y26nf3efuylqabf3oclgtqy55fbzdi'' CRejected None,
    seedRow 10 ''PHY-MNG-001'' ''VCS:VM0042'' ''2023-01-01'' ''2024-12-31'' 60000 ''US''
      ''PHY-MNG-VCS0042-'' 65 81 5 0
      ''bafybeidwdcefgh4dqkjv67uzcmw7ojee6xedzdetojuzjevtenxquvyku'' CActive (Some ''0x5555666677778888'')]"

section \<open>The script\<close>

definition seedVerifier :: "env \<Rightarrow> user \<Rightarrow> int \<Rightarrow> int \<Rightarrow> verifier op" where
  "seedVerifier E u stake reputation =
     seqE (floatArg E (ofInt stake))
    (bindE (freshId E) (\<lambda>i. dbInsert verifiers_update verifierCheck
       \<lparr>ve_id = i, ve_userId = u_id u, ve_status = VActive, ve_stake = ofInt stake,
        ve_reputation = reputation, ve_heartbeatAt = None, ve_createdAt = clock E\<rparr>))"

text \<open>\<open>Promise.all\<close> of a list: all run to their end, the first exception wins.\<close>

fun allE :: "('a \<Rightarrow> 'b op) \<Rightarrow> 'a list \<Rightarrow> 'b list op" where
  "allE f [] = ret []"
| "allE f (x # xs) = bindE (bothE (f x) (allE f xs)) (\<lambda>(y, ys). ret (y # ys))"

text \<open>The columns of a row; its number is the key of the \<open>upsert\<close>.\<close>

definition seedFields :: "seed_credit \<Rightarrow> int \<Rightarrow> int \<Rightarrow> string \<Rightarrow> credit \<Rightarrow> credit" where
  "seedFields x vs ve issuerId c = c\<lparr>cr_projectId := sd_projectId x,
     cr_methodology := sd_methodology x, cr_vintageStart := vs, cr_vintageEnd := ve,
     cr_tonnes := ofInt (sd_tonnes x), cr_geography := sd_geography x,
     cr_serialPrefix := sd_serialPrefix x, cr_sdgFlags := sd_sdgFlags x,
     cr_permanenceRating := sd_permanenceRating x,
     cr_bufferContributionPct := sd_bufferContributionPct x,
     cr_additionalityType := sd_additionalityType x, cr_ipfsHash := sd_ipfsHash x,
     cr_status := sd_status x,
     cr_tokenId := (case sd_tokenId x of None \<Rightarrow> cr_tokenId c | Some t \<Rightarrow> Some t),
     cr_issuerId := issuerId, cr_ownerId := issuerId\<rparr>"

definition seedCredit :: "env \<Rightarrow> string \<Rightarrow> seed_credit \<Rightarrow> unit op" where
  "seedCredit E issuerId x =
     bindE (dateArg E (sd_vintageStart x)) (\<lambda>vs. bindE (dateArg E (sd_vintageEnd x)) (\<lambda>ve.
     seqE (floatArg E (ofInt (sd_tonnes x)))
       (upsertCredit E (sd_creditId x) (seedFields x vs ve issuerId) issuerId)))"

definition seed :: "env \<Rightarrow> unit op" where
  "seed E =
     bindE (upsertUser E ADMIN_PUB) (\<lambda>_.
     bindE (allE (\<lambda>(pub, _). upsertUser E pub) seedVerifiers) (\<lambda>verifierUsers.
     seqE (modifyE (\<lambda>w. w\<lparr>verifiers := []\<rparr>))
    (bindE (allE (\<lambda>(u, _, stake, reputation). seedVerifier E u stake reputation)
       (zip verifierUsers seedVerifiers)) (\<lambda>_.
     bindE (upsertUser E ISSUER_PUB) (\<lambda>issuer.
     forE creditData (seedCredit E (u_id issuer)))))))"

section \<open>What it leaves\<close>

lemma preserves_allE [act_intros]:
  "(\<And>x. preserves I (f x)) \<Longrightarrow> preserves I (allE f xs)"
proof (induction xs)
  case (Cons x xs)
  then show ?case by (auto intro!: act_intros split: prod.split)
qed (simp add: act_intros)

lemma intact_seedCredit: "preserves (intact (insert u U)) (seedCredit E u x)"
  unfolding seedCredit_def upsertCredit_def voidE_def seedFields_def
  by (intro act_intros intact_update_credit) simp

lemma intact_noVerifiers [act_intros]:
  "preserves (intact U) (modifyE (\<lambda>w. w\<lparr>verifiers := []\<rparr>))"
  by (rule preserves_modifyE) (simp add: intact_defs)

lemma intact_seedVerifier [act_intros]: "preserves (intact U) (seedVerifier E u s r)"
  unfolding seedVerifier_def by (intro act_intros)

lemma seed_intact: "preserves schemaOk (seed E)"
  unfolding seed_def intact_schemaOk [symmetric, abs_def]
  by (intro act_intros intact_with_user) (auto intro!: act_intros intact_seedCredit)

text \<open>A row of the script: its credit with all columns, held by its issuer.\<close>

definition seeded :: "string \<Rightarrow> seed_credit \<Rightarrow> credit \<Rightarrow> bool" where
  "seeded u x c \<longleftrightarrow> cr_creditId c = sd_creditId x \<and> cr_projectId c = sd_projectId x \<and>
     cr_methodology c = sd_methodology x \<and> cr_tonnes c = ofInt (sd_tonnes x) \<and>
     cr_geography c = sd_geography x \<and> cr_sdgFlags c = sd_sdgFlags x \<and>
     cr_status c = sd_status x \<and> cr_issuerId c = u \<and> cr_ownerId c = u"

text \<open>The rows with other numbers stay as they are.\<close>

definition othersKept :: "int set \<Rightarrow> world \<Rightarrow> world \<Rightarrow> bool" where
  "othersKept N w w' \<longleftrightarrow> filter (\<lambda>c. cr_creditId c \<notin> N) (credits w') =
     filter (\<lambda>c. cr_creditId c \<notin> N) (credits w)"

lemma filter_updWhere_other:
  "(\<And>x. P x \<Longrightarrow> \<not> Q x \<and> \<not> Q (f x)) \<Longrightarrow> filter Q (updWhere P f xs) = filter Q xs"
  by (induction xs) (auto simp: updWhere_def)

lemma upsertCredit_InrD:
  assumes "upsertCredit E n f u w = (Inr (), w')" and "\<And>c. cr_creditId (f c) = cr_creditId c"
  shows "(\<exists>c b. c \<in> set (credits w') \<and> (c = f b \<or> c = (f b)\<lparr>cr_updatedAt := clock E\<rparr>) \<and> cr_creditId b = n) \<and>
    othersKept {n} w w' \<and> verifiers w' = verifiers w \<and> users w' = users w"
proof (cases "creditByNumber w n")
  case None
  with assms(1) have "bindE (freshId E) (\<lambda>i. voidE (dbInsert credits_update creditCheck
      (f (blankCredit i n u (clock E))))) w = (Inr (), w')"
    by (simp add: upsertCredit_def bindE_apply)
  then obtain i where w': "credits w' = credits w @ [f (blankCredit i n u (clock E))]"
      "verifiers w' = verifiers w" "users w' = users w"
    by (auto dest!: run_InrD voidE_InrD creditT.insert_InrD simp: freshId_apply)
  then show ?thesis
    by (intro conjI exI [of _ "f (blankCredit i n u (clock E))"] exI [of _ "blankCredit i n u (clock E)"])
      (simp_all add: othersKept_def assms(2) blankCredit_def)
next
  case (Some r)
  with assms(1) have "voidE (dbUpdate credits credits_update (\<lambda>c. cr_creditId c = n)
      (\<lambda>c. (f c)\<lparr>cr_updatedAt := clock E\<rparr>)) w = (Inr (), w')"
    by (simp add: upsertCredit_def bindE_apply)
  then have w': "credits w' = updWhere (\<lambda>c. cr_creditId c = n)
      (\<lambda>c. (f c)\<lparr>cr_updatedAt := clock E\<rparr>) (credits w)"
      "verifiers w' = verifiers w" "users w' = users w"
    by (auto dest!: voidE_InrD creditT.update_InrD)
  from Some have "r \<in> set (credits w)" "cr_creditId r = n"
    by (auto simp: creditByNumber_def dest: find_SomeD)
  then show ?thesis
    by (intro conjI exI [of _ "(f r)\<lparr>cr_updatedAt := clock E\<rparr>"] exI [of _ r])
      (auto simp: w' othersKept_def set_updWhere assms(2) filter_updWhere_other)
qed

lemma seedCredit_InrD:
  assumes "seedCredit E u x w = (Inr (), w')"
  shows "(\<exists>c \<in> set (credits w'). seeded u x c) \<and> othersKept {sd_creditId x} w w' \<and>
    verifiers w' = verifiers w \<and> users w' = users w"
proof -
  from assms obtain vs ve where "upsertCredit E (sd_creditId x) (seedFields x vs ve u) u w = (Inr (), w')"
    unfolding seedCredit_def
    by (auto dest!: run_InrD simp: dateArg_def orThrow_apply floatArg_apply split: option.splits sum.splits)
  from upsertCredit_InrD [OF this] obtain c b where c: "c \<in> set (credits w')"
      "c = seedFields x vs ve u b \<or> c = (seedFields x vs ve u b)\<lparr>cr_updatedAt := clock E\<rparr>"
      "cr_creditId b = sd_creditId x"
    and rest: "othersKept {sd_creditId x} w w' \<and> verifiers w' = verifiers w \<and> users w' = users w"
    by (auto simp: seedFields_def)
  from c(2,3) have "seeded u x c" by (auto simp: seedFields_def seeded_def)
  with c(1) rest show ?thesis by blast
qed

lemma othersKept_trans:
  assumes "othersKept M w v" and "othersKept N v u" and "M \<subseteq> K" and "N \<subseteq> K"
  shows "othersKept K w u"
proof -
  have sub: "filter (\<lambda>c. cr_creditId c \<notin> K) xs = filter (\<lambda>c. cr_creditId c \<notin> K) (filter (\<lambda>c. cr_creditId c \<notin> L) xs)"
    if "L \<subseteq> K" for L and xs :: "credit list"
    using that by (auto simp: filter_filter intro!: filter_cong)
  show ?thesis
    using assms(1,2) sub [OF assms(3)] sub [OF assms(4)] unfolding othersKept_def by metis
qed

lemma othersKept_mem:
  "othersKept N w w' \<Longrightarrow> cr_creditId c \<notin> N \<Longrightarrow> c \<in> set (credits w') \<longleftrightarrow> c \<in> set (credits w)"
  unfolding othersKept_def by (drule arg_cong [where f = set]) auto

lemma seedCredits_InrD:
  assumes "forE xs (seedCredit E u) w = (Inr (), w')" and "distinct (map sd_creditId xs)"
  shows "(\<forall>x \<in> set xs. \<exists>c \<in> set (credits w'). seeded u x c) \<and>
    othersKept (sd_creditId ` set xs) w w' \<and> verifiers w' = verifiers w \<and> users w' = users w"
  using assms
proof (induction xs arbitrary: w)
  case Nil
  then show ?case by (simp add: othersKept_def)
next
  case (Cons x xs)
  then obtain v where v: "seedCredit E u x w = (Inr (), v)" "forE xs (seedCredit E u) v = (Inr (), w')"
    by (auto dest!: seqE_InrD)
  note first = seedCredit_InrD [OF v(1)] and rest = Cons.IH [OF v(2)]
  obtain c where c: "c \<in> set (credits v)" "seeded u x c" using first by blast
  have "cr_creditId c \<notin> sd_creditId ` set xs" using c(2) Cons.prems(2) by (auto simp: seeded_def)
  then have "c \<in> set (credits w')" using othersKept_mem rest Cons.prems(2) c(1) by fastforce
  with c(2) first rest Cons.prems(2) show ?case
    by (auto intro: othersKept_trans)
qed

lemma allE_ConsD:
  "allE f (x # xs) w = (Inr ys, w') \<Longrightarrow>
   \<exists>z zs v. f x w = (Inr z, v) \<and> allE f xs v = (Inr zs, w') \<and> ys = z # zs"
  by (auto dest!: run_InrD bothE_InrD split: prod.splits)

lemma seedUsers_InrD:
  "allE (\<lambda>(pub, _). upsertUser E pub) vs w = (Inr us, w') \<Longrightarrow>
   length us = length vs \<and> credits w' = credits w"
proof (induction vs arbitrary: w us)
  case (Cons v vs)
  obtain pub s where v: "v = (pub, s)" by (cases v)
  from allE_ConsD [OF Cons.prems] obtain z zs t where
    "upsertUser E pub w = (Inr z, t)" "allE (\<lambda>(pub, _). upsertUser E pub) vs t = (Inr zs, w')"
    "us = z # zs" by (auto simp: v)
  then show ?case using Cons.IH upsertUser_InrD by (metis length_Cons)
qed auto

definition standing :: "verifier \<Rightarrow> verifier_status \<times> jsnum \<times> int" where
  "standing v = (ve_status v, ve_stake v, ve_reputation v)"

lemma seedVerifiers_InrD:
  "allE (\<lambda>(u, _, stake, rep). seedVerifier E u stake rep) xs w = (Inr ys, w') \<Longrightarrow>
   map standing (verifiers w') = map standing (verifiers w) @
     map (\<lambda>(_, _, stake, rep). (VActive, ofInt stake, rep)) xs \<and> credits w' = credits w"
proof (induction xs arbitrary: w ys)
  case (Cons x xs)
  obtain u pub stake rep where x: "x = (u, pub, stake, rep)" by (cases x)
  from allE_ConsD [OF Cons.prems] obtain z zs v where
    r: "seedVerifier E u stake rep w = (Inr z, v)"
      "allE (\<lambda>(u, _, stake, rep). seedVerifier E u stake rep) xs v = (Inr zs, w')"
    by (auto simp: x)
  from r(1) have "map standing (verifiers v) = map standing (verifiers w) @ [(VActive, ofInt stake, rep)]"
      "credits v = credits w"
    unfolding seedVerifier_def
    by (auto dest!: run_InrD verifierT.insert_InrD
        simp: standing_def freshId_apply floatArg_apply split: sum.splits)
  with Cons.IH [OF r(2)] show ?case by (simp add: x)
qed auto

lemma upsertUser_verifiers: "upsertUser E pub w = (r, w') \<Longrightarrow> verifiers w' = verifiers w"
  by (auto simp: upsertUser_def act_simps dbInsert_def split: option.splits)

lemma creditData_numbers: "map sd_creditId creditData = [1..10]"
  by code_simp

lemma map_zip_same: "length us = length vs \<Longrightarrow> map (\<lambda>(_, y). f y) (zip us vs) = map f vs"
  by (induction us vs rule: list_induct2) auto

text \<open>
  A seeding run that returns leaves each of its ten credits in the registry exactly
  with the columns of the script, issued and owned by the seeded issuer, exactly its three verifiers,
  whoever was registered before, and every credit with another number as it was; keys and references
  stay intact, also when the run throws half-way.
\<close>

theorem seed_effect:
  assumes "seed E w = (r, w')" and "schemaOk w"
  shows "schemaOk w' \<and> (r = Inr () \<longrightarrow>
    (\<exists>u \<in> set (users w'). u_stellarPub u = ISSUER_PUB \<and>
      (\<forall>x \<in> set creditData. \<exists>c \<in> set (credits w'). seeded (u_id u) x c)) \<and>
    map standing (verifiers w') = map (\<lambda>(_, s, p). (VActive, ofInt s, p)) seedVerifiers \<and>
    othersKept {1..10} w w')"
proof (intro conjI impI)
  show "schemaOk w'" using preservesD [OF seed_intact assms(2,1)] .
next
  assume "r = Inr ()"
  with assms(1) obtain a w1 us w2 ys w3 issuer w4 where
    1: "upsertUser E ADMIN_PUB w = (Inr a, w1)"
    and 2: "allE (\<lambda>(pub, _). upsertUser E pub) seedVerifiers w1 = (Inr us, w2)"
    and 3: "allE (\<lambda>(u, _, stake, rep). seedVerifier E u stake rep) (zip us seedVerifiers)
      (w2\<lparr>verifiers := []\<rparr>) = (Inr ys, w3)"
    and 4: "upsertUser E ISSUER_PUB w3 = (Inr issuer, w4)"
    and 5: "forE creditData (seedCredit E (u_id issuer)) w4 = (Inr (), w')"
    unfolding seed_def by (auto dest!: bindE_InrD seqE_InrD)
  have n: "distinct (map sd_creditId creditData)" "sd_creditId ` set creditData = {1..10}"
    using creditData_numbers by (simp_all add: set_map [symmetric] del: set_map)
  note c = seedCredits_InrD [OF 5 n(1)]
  have "length us = length seedVerifiers" and cr: "credits w4 = credits w"
    using seedUsers_InrD [OF 2] seedVerifiers_InrD [OF 3] upsertUser_InrD [OF 1] upsertUser_InrD [OF 4]
    by simp_all
  then have "map standing (verifiers w3) = map (\<lambda>(_, s, p). (VActive, ofInt s, p)) seedVerifiers"
    using seedVerifiers_InrD [OF 3]
      map_zip_same [of us seedVerifiers "\<lambda>(_, s, p). (VActive, ofInt s, p)"] by simp
  moreover have "issuer \<in> set (users w4)" "u_stellarPub issuer = ISSUER_PUB"
    using upsertUser_InrD [OF 4] by (auto dest: find_SomeD)
  moreover have "othersKept {1..10} w w'" using c cr n(2) by (simp add: othersKept_def)
  ultimately show "\<exists>u \<in> set (users w'). u_stellarPub u = ISSUER_PUB \<and>
      (\<forall>x \<in> set creditData. \<exists>c \<in> set (credits w'). seeded (u_id u) x c)"
    and "map standing (verifiers w') = map (\<lambda>(_, s, p). (VActive, ofInt s, p)) seedVerifiers"
    and "othersKept {1..10} w w'"
    using c upsertUser_verifiers [OF 4] by auto
qed

text \<open>A verifier who registered before the script runs is gone afterwards.\<close>

theorem seed_effect_witness:
  "\<exists>w'. seed demoEnv demoWorld = (Inr (), w') \<and> verifiers demoWorld \<noteq> [] \<and> schemaOk w' \<and>
     map standing (verifiers w') = map (\<lambda>(_, s, p). (VActive, ofInt s, p)) seedVerifiers"
proof -
  have "ranOk (seed demoEnv demoWorld)" by code_simp
  from ranOk_D [OF this] obtain u w' where "seed demoEnv demoWorld = (Inr u, w')" by blast
  then have r: "seed demoEnv demoWorld = (Inr (), w')" by simp
  have "verifiers demoWorld \<noteq> []" by code_simp
  with r seed_effect [OF r schemaOk_demo] show ?thesis by blast
qed

end
