(* ===== verification/IndexerMain.thy ===== *)
theory IndexerMain
  imports IndexerSync
begin

text \<open>
  The start of the indexer, \<open>indexer/src/main.ts\<close>: its configuration, the optional re-sync, the start
  of polling, shutdown, and the answers of its health server.  Connecting to the database and
  \<open>JSON.parse\<close> of the given cursor are arguments: their outcomes.
\<close>

record indexer_config =
  ic_pollIntervalMs :: jsnum
  ic_rpcUrl :: string
  ic_port :: jsnum

definition DEFAULT_RPC_URL :: string where
  "DEFAULT_RPC_URL = ''https://soroban-testnet.stellar.org''"

definition indexerConfig :: "(string \<Rightarrow> string option) \<Rightarrow> indexer_config" where
  "indexerConfig penv = \<lparr>
     ic_pollIntervalMs = stringToNumber (orElse (penv ''INDEXER_POLL_INTERVAL_MS'') ''5000''),
     ic_rpcUrl = orElse (penv ''STELLAR_RPC_URL'') DEFAULT_RPC_URL,
     ic_port = (case penv ''INDEXER_PORT'' of None \<Rightarrow> ofInt 3001 | Some s \<Rightarrow> stringToNumber s)\<rparr>"

text \<open>The process ends with an exit code, or runs with the state of its sync object.\<close>

datatype indexer_process = Exited nat | Running sync world

text \<open>\<open>None\<close>: the re-sync does not return.  A failed re-sync is logged, and the start goes on.\<close>

definition indexerMain :: "env \<Rightarrow> rpc \<Rightarrow> (string \<Rightarrow> string option) \<Rightarrow> string + unit \<Rightarrow>
    string + sync_cursor option \<Rightarrow> world \<Rightarrow> indexer_process option" where
  "indexerMain E rpc penv dbUp cursor w = (case dbUp of
     Inl _ \<Rightarrow> Some (Exited 1)
   | Inr _ \<Rightarrow> (case (if given (penv ''INDEXER_CURSOR'') = None then Inr None else cursor) of
       Inl _ \<Rightarrow> Some (Exited 1)
     | Inr cur \<Rightarrow>
         (let s = newSync cur (contractIds penv) penv in
          if penv ''INDEXER_RESYNC'' = Some ''true''
          then map_option (\<lambda>(_, s', w'). Running (startSync s') w') (resyncFromGenesis E rpc (s, w))
          else Some (Running (startSync s) w))))"

definition shutdown :: "indexer_process \<Rightarrow> indexer_process" where
  "shutdown p = (case p of Exited n \<Rightarrow> Exited n | Running s w \<Rightarrow> Exited 0)"

text \<open>The health server: any method, the two paths, and the cursor at the time of the request.\<close>

definition indexerHealth :: "indexer_config \<Rightarrow> sync \<Rightarrow> string \<Rightarrow> int \<times> (string + jsval)" where
  "indexerHealth cfg s url =
     (if url = ''/health'' \<or> url = ''/'' then (200, Inr (JObj [(''status'', JStr ''ok''),
        (''service'', JStr ''indexer''), (''ledgerSequence'', JNum (sc_ledger (sy_cursor s))),
        (''rpcUrl'', JStr (ic_rpcUrl cfg)), (''pollIntervalMs'', JNum (ic_pollIntervalMs cfg))]))
      else (404, Inl ''Not found''))"

section \<open>What starting does\<close>

lemma newSync_stopped [simp]: "\<not> sy_running (newSync c ids penv)"
  by (simp add: newSync_def)

text \<open>
  With \<open>INDEXER_RESYNC=true\<close> the re-sync itself processes no event, because the object is not yet
  running; all it does is to put the cursor back, so that polling begins at the first ledger.
\<close>

lemma indexerMain_resync:
  assumes "penv ''INDEXER_RESYNC'' = Some ''true''" and "given (penv ''INDEXER_CURSOR'') = None"
  shows "indexerMain E rpc penv (Inr ()) cursor w =
    Some (Running ((newSync None (contractIds penv) penv)\<lparr>sy_running := True\<rparr>) w)"
proof -
  have "(newSync None ids penv)\<lparr>sy_cursor := initialCursor\<rparr> = newSync None ids penv" for ids
    by (simp add: newSync_def orElse_def)
  then show ?thesis
    using assms by (simp add: indexerMain_def resyncFromGenesis_def resyncLoop.simps startSync_def)
qed

lemma indexerMain_returns: "indexerMain E rpc penv dbUp cursor w \<noteq> None"
  by (simp add: indexerMain_def resyncFromGenesis_def resyncLoop.simps Let_def split: sum.split)

text \<open>Before the process answers, polling has started; the first poll changes nothing before it.\<close>

lemma indexerMain_running:
  "indexerMain E rpc penv dbUp cursor w = Some (Running s w') \<Longrightarrow> w' = w \<and> sy_running s"
  by (auto simp: indexerMain_def resyncFromGenesis_def resyncLoop.simps startSync_def Let_def
      split: sum.splits if_splits)

end
