(* ===== verification/Spec2Isabelle.thy ===== *)
theory Spec2Isabelle
  imports System Service Payloads RegistryViews Cli Seed IndexerMain
begin

text \<open>
  CarbonVeritas: a registry and marketplace of carbon credits.  The contracts on Stellar hold the
  credits; a NestJS service (\<open>api/src\<close>) submits calls to them, keeps its own copy of the registry in
  a database (\<open>api/prisma/schema.prisma\<close>), and serves the front end; an indexer (\<open>indexer/src\<close>) polls
  the contract events and writes them into the same database.  This development models the service
  and the indexer, from the encoding of a contract argument up to a request with its guards, and the
  clients: the library, the command line tool and the pages of the front end.

  The parts and their theories, in the order in which they build on each other:

  \<^item> \<open>Prelude\<close>: methods as state-passing functions that return or throw (\<open>act\<close>), with the rules that
    take a run apart; guarantees (locale \<open>guarantee\<close>, interpreted for invariants and for frame
    conditions); lists, fresh numbers and pages.
  \<^item> \<open>JsNumber\<close>, \<open>JsText\<close>: numbers of JavaScript (doubles with their rounding, the infinities and NaN),
    values, strings and their conversions.
  \<^item> \<open>Environment\<close>: what the program calls but does not define, as the record \<open>env\<close> (configuration,
    clock, row ids, hashes, HTTP, the SDK and the RPC server), the exceptions, and
    \<open>common/filters/global-exception.filter.ts\<close>.
  \<^item> \<open>Schema\<close>: the tables of \<open>schema.prisma\<close> and the statements on them (locale \<open>table\<close>, interpreted
    for each of the twelve tables).  \<open>Demo\<close>: a concrete environment and state for the witnesses.
  \<^item> \<open>Scval\<close>, \<open>SorobanClient\<close>, \<open>StellarService\<close>: \<open>stellar/scval.ts\<close>, \<open>stellar/soroban-client.ts\<close> and
    \<open>stellar/stellar.service.ts\<close>; encoding, submission with polling, one operation per contract
    method.
  \<^item> \<open>Webhooks\<close>: \<open>webhooks\<close> and \<open>events\<close>; retries, recorded deliveries, swallowed exceptions.
  \<^item> \<open>Credits\<close>, \<open>Marketplace\<close>, \<open>Retirement\<close>, \<open>Verifiers\<close>, \<open>Bridge\<close>, \<open>Certificates\<close>: the services of
    the same names.
  \<^item> \<open>Auth\<close>, \<open>Admin\<close>, \<open>RateLimit\<close>: \<open>auth\<close>, \<open>admin\<close> with \<open>revenue-split\<close>, and
    \<open>common/guards/rate-limit.guard.ts\<close>.
  \<^item> \<open>JsMap\<close>, \<open>Reporting\<close>, \<open>Observability\<close>: \<open>reporting\<close> and \<open>observability\<close>; a \<open>Map\<close> that collects
    totals is an association list in insertion order.
  \<^item> \<open>Processors\<close>, \<open>IndexerSync\<close>: \<open>indexer/src/processors\<close> and \<open>indexer/src/sync.ts\<close>.
  \<^item> \<open>Clients\<close>: the route table of all controllers, the requests of \<open>sdk/src\<close> and of
    \<open>frontend/src/lib/api.ts\<close>, and the sign-in of the client library run against the service.
  \<^item> \<open>Cli\<close>: the commands of \<open>cli/src\<close>, from the typed text to the requests they send.
  \<^item> \<open>Seed\<close>, \<open>IndexerMain\<close>: \<open>api/prisma/seed.ts\<close> and \<open>indexer/src/main.ts\<close>.
  \<^item> \<open>WebSession\<close>: the networks, the wallet extension (a parameter), the stored token and the wallet
    provider of the front end, with the sign-in run against the service.  \<open>WebTrading\<close>, \<open>WebConsole\<close>,
    \<open>WebRegistry\<close>: its pages.  A page is the record of its state hooks, its handlers and effects are
    methods on that record, the token and the service behind a transport, and its events are a
    datatype (locale \<open>web_page\<close>, interpreted for the pages that set a flag while they work).
  \<^item> \<open>ApiTypes\<close>: the types that \<open>sdk/src/types.ts\<close> and \<open>frontend/src/types/index.ts\<close> declare, as data,
    and the values that have them.  \<open>Payloads\<close>: the JSON of every answer to a reading request and
    whether it has the type that the clients declare for it.
  \<^item> \<open>Drawing\<close>: what JSX evaluates to, a list of elements with the events they dispatch or the
    exception that drawing throws; the clicks that drawn elements offer, with those of the elements
    around them; a page in use (locale \<open>drawn_page\<close>, interpreted for every page and every part that
    loads).  \<open>TradingViews\<close>, \<open>ConsoleViews\<close>, \<open>RegistryViews\<close>: what the pages, their dialogs and tabs,
    the home page and the frame of \<open>frontend/src\<close> draw in every state; how the browser writes numbers
    and dates is the parameter \<open>intl\<close>.
  \<^item> \<open>Validation\<close>: the \<open>dto\<close> classes with their decorators and the global pipe of \<open>main.ts\<close>; what it
    lets through has the declared type, and an input of the declared type is refused for a value
    only.
  \<^item> \<open>Service\<close>: \<open>main.ts\<close>, \<open>app.module.ts\<close> and the interceptors; a request from its arrival to its
    answer, through size limit, guards, pipe, handler, metrics, log and exception filter, and runs
    of such requests (locale \<open>static_column\<close>, extending \<open>credit_column\<close> of \<open>Lifecycle\<close>, for what no
    request changes of a credit).
  \<^item> \<open>Integrity\<close>, \<open>Controllers\<close>, \<open>Lifecycle\<close>, \<open>System\<close>: the composition.  Every statement, request and
    event keeps the keys and references of the tables; the routes that change state, with their
    guards; the life of a credit as an abstract machine that requests refine; the runs of requests
    and events (locales \<open>machine\<close> and \<open>simulation\<close>, interpreted on those runs).

  How the state corresponds: \<open>world\<close> is the database with a log of the submitted calls (\<open>sent\<close>) and
  of the emitted events (\<open>emitted\<close>) and a counter for row ids.  An operation of a service is a value
  of type \<open>op\<close>; it returns \<open>Inr\<close> of a result or \<open>Inl\<close> of the exception, with the state it leaves
  behind, also when it throws half-way.  There is no transaction around a method of the services, so
  the model has none.  A query without effects is a function of the state.

  What the lemmas show: for each operation, what a run that returns has done (lemmas \<open>\<dots>_InrD\<close>) and
  what one that throws has left (\<open>\<dots>_InlD\<close>); the properties then state them.  Invariants use the
  rules of \<open>guarantee\<close>, one step per statement of the method.

  Bounds: \<open>waitLoop\<close> of the Soroban client and the retry loop of the webhooks recurse on what is left
  of their limits, so they need no fuel.  The indexer reads at most \<open>MAX_PAGES\<close> pages of
  \<open>PAGE_LIMIT\<close> events per poll, as \<open>sync.ts\<close> does.  The loop of \<open>resyncFromGenesis\<close> has no bound in
  the code and is a partial function here; \<open>resync_terminates\<close> shows when it returns.

  Simplifications, made once for all theories: requests and events run one after another, each with
  one reading of the clock, and \<open>Promise.all\<close> runs its parts from left to right.  The two zeros of a
  JavaScript number are one value.  Columns that no modelled operation reads are left out.  The lines
  that services write to their loggers are left out.

  Not modelled: what a single decorator of \<open>class-validator\<close> accepts (a parameter, with its
  documented behaviour as a hypothesis), the matching of a path against overlapping routes (Express),
  the injection of providers, the API documentation and the security headers that \<open>main.ts\<close> turns on,
  and log lines other than the one per request; the migrations; the styling, icons, sharing and
  copying of the pages and what the chart library draws; and the
  contracts, which are Rust programs and appear only through the answers of the RPC server.
\<close>

section \<open>The whole system\<close>

text \<open>
  C1. However requests and contract events follow one another, starting from empty
  tables, and whether each of them returns or throws half-way: all primary keys and unique columns
  stay free of duplicates and every reference points to an existing row.
\<close>

theorem data_integrity:
  "system_step\<^sup>*\<^sup>* emptyWorld w \<Longrightarrow> schemaOk w"
  by (rule sys.reach_inv [OF _ schemaOk_empty])

theorem data_integrity_witness:
  "\<exists>w. system_step\<^sup>*\<^sup>* emptyWorld w \<and> length (credits w) = 1 \<and> schemaOk w"
proof -
  let ?w = "snd (processEvent demoEnv (CreditSubmitted demoSubmitted) emptyWorld)"
  have "event_step emptyWorld ?w"
    by (rule event_step.event [where E = demoEnv and ev = "CreditSubmitted demoSubmitted"])
       (rule prod.collapse [symmetric])
  then have s: "system_step\<^sup>*\<^sup>* emptyWorld ?w" by (blast intro: by_event)
  moreover have "length (credits ?w) = 1" by code_simp
  ultimately show ?thesis using data_integrity [OF s] by blast
qed

text \<open>
  C2. Every request, with any token and body, makes at most one step of the
  abstract life cycle: it submits one credit as pending under a number above all others, activates
  or rejects one pending credit, retires one active credit, or leaves all statuses alone.
\<close>

theorem request_refines_lifecycle:
  assumes "handleRequest L E bearer req w = (r, w')" and "schemaOk w"
  shows "lifecycle_step (registryOf w) (registryOf w')"
  using request_step_lifecycle [OF assms(2)] assms(1) by (blast intro: request_step.request)

text \<open>One request at the demo state: the issuer submits a third credit.\<close>

definition demoIssue :: request where
  "demoIssue = Credits (PostIssue demoCreate)"

lemma demoIssue_run:
  obtains w' where "handleRequest demoLib demoEnv (Some ''t'') demoIssue demoWorld = (Inr (), w')"
    and "registryOf w' 3 = Some CPending" and "registryOf demoWorld 3 = None"
    and "registryOf demoWorld 2 = Some CActive"
proof -
  let ?m = "handleRequest demoLib demoEnv (Some ''t'') demoIssue demoWorld"
  have 1: "ranOk ?m" by code_simp
  have 2: "registryOf (snd ?m) 3 = Some CPending" by code_simp
  have 3: "registryOf demoWorld 3 = None" "registryOf demoWorld 2 = Some CActive" by code_simp+
  from ranOk_D [OF 1] obtain v w' where m: "?m = (Inr v, w')" by blast
  show ?thesis
  proof (rule that)
    show "?m = (Inr (), w')" unfolding m by simp
    show "registryOf w' 3 = Some CPending" using 2 unfolding m by (simp only: snd_conv)
  qed (fact 3)+
qed

theorem request_refines_lifecycle_witness:
  "\<exists>w'. handleRequest demoLib demoEnv (Some ''t'') demoIssue demoWorld = (Inr (), w') \<and>
     registryOf w' 3 = Some CPending \<and> lifecycle_step (registryOf demoWorld) (registryOf w')"
proof -
  obtain w' where r: "handleRequest demoLib demoEnv (Some ''t'') demoIssue demoWorld = (Inr (), w')"
    and n: "registryOf w' 3 = Some CPending" by (rule demoIssue_run)
  from r n request_refines_lifecycle [OF r schemaOk_demo] show ?thesis by (intro exI conjI)
qed

text \<open>
  C3. Over any number of requests a credit never disappears and its status never
  moves back; a rejected or retired credit keeps its status for good.
\<close>

theorem status_moves_forward:
  assumes "request_step\<^sup>*\<^sup>* w w'" and "schemaOk w" and "registryOf w n = Some s"
  shows "\<exists>t. registryOf w' n = Some t \<and> s \<le> t \<and> (s \<in> {CRejected, CRetired, CBridged} \<longrightarrow> t = s)"
proof -
  from lifecycle_reach_forward [OF req.reach_sim [OF assms(1,2)] assms(3)]
  obtain t where "registryOf w' n = Some t" "s \<le> t" by (elim exE conjE)
  then show ?thesis by (intro exI conjI impI lifecycle_terminal)
qed

theorem status_moves_forward_witness:
  "\<exists>w' t. request_step\<^sup>*\<^sup>* demoWorld w' \<and> registryOf w' 3 = Some CPending \<and>
     registryOf w' 2 = Some t \<and> CActive \<le> t"
proof -
  obtain w' where r: "handleRequest demoLib demoEnv (Some ''t'') demoIssue demoWorld = (Inr (), w')"
    and n: "registryOf w' 3 = Some CPending" and a: "registryOf demoWorld 2 = Some CActive"
    by (rule demoIssue_run)
  from r have s: "request_step\<^sup>*\<^sup>* demoWorld w'" by (blast intro: request_step.request)
  from status_moves_forward [OF s schemaOk_demo a] s n show ?thesis by blast
qed

text \<open>
  C4. A request that changes anything (a table, or a submitted call) is one of
  the public sign-in routes, or it carries a token that verifies and names an existing user, whose
  wallet is on the list of administrators where the route asks for one.
\<close>

theorem changes_are_authorised:
  assumes "handleRequest L E bearer req w = (r, w')" and "w' \<noteq> w"
  shows "(\<exists>route. req = Auth route) \<or>
    (\<exists>t c u. bearer = Some t \<and> al_jwtVerify L t = Inr c \<and> userById w (cl_sub c) = Some u \<and>
       (adminOnly req \<longrightarrow> u_stellarPub u \<in> set (adminWallets E)))"
proof (cases rule: handleRequest_cases [where L = L and E = E and w = w and bearer = bearer and req = req])
  case (rejected e)
  with assms show ?thesis by simp
next
  case (user p)
  then obtain t c u where "bearer = Some t" "al_jwtVerify L t = Inr c" "userById w (cl_sub c) = Some u"
    "pr_wallet p = u_stellarPub u"
    by (auto simp: guards_def jwtGuard_def jwtValidate_def bindS_Inr_iff
        split: if_splits option.splits sum.splits)
  moreover have "adminOnly req \<longrightarrow> pr_wallet p \<in> set (adminWallets E)"
    using guards_user [OF user(1)] by (auto simp: adminGuard_def given_def throwIfS_def split: if_splits)
  ultimately show ?thesis by metis
next
  case (auth r)
  then show ?thesis by blast
qed

theorem changes_are_authorised_witness:
  "\<exists>w' t c u. handleRequest demoLib demoEnv (Some ''t'') demoIssue demoWorld = (Inr (), w') \<and>
     Some ''t'' = Some t \<and> al_jwtVerify demoLib t = Inr c \<and> userById demoWorld (cl_sub c) = Some u"
proof -
  obtain w' where r: "handleRequest demoLib demoEnv (Some ''t'') demoIssue demoWorld = (Inr (), w')"
    and n: "registryOf w' 3 = Some CPending" and o: "registryOf demoWorld 3 = None"
    by (rule demoIssue_run)
  from n o have "w' \<noteq> demoWorld" by auto
  from changes_are_authorised [OF r this] r show ?thesis by (auto simp: demoIssue_def)
qed


definition undecidedWorld :: world where
  "undecidedWorld = demoWorld\<lparr>approvals := []\<rparr>"


end
